(* ===== verification/Prelude.thy ===== *)
theory Prelude
  imports Main "HOL-Library.Word"
begin

text \<open>
  Shared material of the development: Go errors as values, results of calls that
  may panic, the integer types at their widths, and generic lemmas on association
  lists that the tables of the database use.

  An error of the program is a value of type \<open>go_error\<close>. The sentinels are the package-level
  errors the code compares against with \<open>errors.Is\<close>; \<open>Wrap\<close> is what \<open>errors.Wrap\<close> of
  \<open>pkg/errors\<close> builds (its documented behaviour: the result prints as
  message, colon, cause; \<open>errors.Is\<close> looks through it; wrapping nil gives nil).
  Go's \<open>error\<close> result is \<open>go_error option\<close>, with \<open>None\<close> for nil.
\<close>

named_theorems go_simps \<open>unfolding rules for the small helpers of the Go model\<close>
named_theorems table_simps \<open>lookup-after-update laws of the tables\<close>

type_synonym int64 = "64 word"
type_synonym uint64 = "64 word"
type_synonym uint32 = "32 word"
type_synonym uint16 = "16 word"
type_synonym byte = "8 word"
type_synonym bytes = "8 word list"

subsection \<open>Errors\<close>

datatype sentinel =
    ErrFailedToBroadcast | ErrAlreadyExists | ErrWithdrawalProcessed | ErrAlreadySubmitted
  | ErrChainNotSupported | ErrSkippedFinalization | SkippedDeposit
  | ErrRpcNotFound | ErrEthNotFound

datatype go_error = Leaf sentinel | Msg string | Wrap string go_error

fun errors_Is :: "go_error \<Rightarrow> sentinel \<Rightarrow> bool" where
  "errors_Is (Leaf s) t = (s = t)"
| "errors_Is (Msg m) t = False"
| "errors_Is (Wrap m e) t = errors_Is e t"

fun sentinel_text :: "sentinel \<Rightarrow> string" where
  "sentinel_text ErrFailedToBroadcast = ''failed to broadcast transaction''"
| "sentinel_text ErrAlreadyExists = ''transaction already exists''"
| "sentinel_text ErrWithdrawalProcessed = ''withdrawal already processed''"
| "sentinel_text ErrAlreadySubmitted = ''withdrawal already submitted''"
| "sentinel_text ErrChainNotSupported = ''chain not supported''"
| "sentinel_text ErrSkippedFinalization = ''skipped finalization''"
| "sentinel_text SkippedDeposit = ''skipped''"
| "sentinel_text ErrRpcNotFound = ''not found''"
| "sentinel_text ErrEthNotFound = ''not found''"

fun error_text :: "go_error \<Rightarrow> string" where
  "error_text (Leaf s) = sentinel_text s"
| "error_text (Msg m) = m"
| "error_text (Wrap m e) = m @ '': '' @ error_text e"

definition errors_Wrap :: "go_error option \<Rightarrow> string \<Rightarrow> go_error option" where
  "errors_Wrap e m = map_option (Wrap m) e"

lemma errors_Wrap_simps [simp]:
  "errors_Wrap None m = None"
  "errors_Wrap (Some e) m = Some (Wrap m e)"
  by (simp_all add: errors_Wrap_def)

lemma errors_Wrap_None_iff [simp]: "errors_Wrap e m = None \<longleftrightarrow> e = None"
  by (cases e) simp_all

text \<open>A call that may end in a Go panic.\<close>

datatype 'a go_result = Returned 'a | Panic string

fun returned :: "'a go_result \<Rightarrow> bool" where
  "returned (Returned a) = True"
| "returned (Panic m) = False"

text \<open>The outcomes of \<open>select\<close> between the context and a channel.\<close>

datatype 'a select = CtxDone | ChanClosed | Received 'a

subsection \<open>Calls that fail\<close>

text \<open>
  The result of an effectful Go function returning a value and an error, on a state \<open>'x\<close>.
  \<open>call_then r msg k\<close> is the idiom \<open>a, err := r; if err != nil { return errors.Wrap(err, msg) }\<close>
  followed by \<open>k\<close>; \<open>rpc_then\<close> is the same for a call that cannot panic, \<open>pure_then\<close> for one
  without effect, \<open>wrap_then\<close> for a function without state.
\<close>

type_synonym ('a, 'x) go_call = "(go_error + 'a) go_result \<times> 'x"

definition call_then ::
  "('a, 'x) go_call \<Rightarrow> string \<Rightarrow> ('a \<Rightarrow> 'x \<Rightarrow> ('b, 'x) go_call) \<Rightarrow> ('b, 'x) go_call" where
  "call_then r msg k = (case r of (q, x) \<Rightarrow> (case q of
       Panic m \<Rightarrow> (Panic m, x)
     | Returned v \<Rightarrow> (case v of
         Inl err \<Rightarrow> (Returned (Inl (Wrap msg err)), x)
       | Inr a \<Rightarrow> k a x)))"

definition rpc_then ::
  "(go_error + 'a) \<times> 'x \<Rightarrow> string \<Rightarrow> ('a \<Rightarrow> 'x \<Rightarrow> ('b, 'x) go_call) \<Rightarrow> ('b, 'x) go_call" where
  "rpc_then r msg k = call_then (Returned (fst r), snd r) msg k"

definition pure_then ::
  "go_error + 'a \<Rightarrow> 'x \<Rightarrow> string \<Rightarrow> ('a \<Rightarrow> ('b, 'x) go_call) \<Rightarrow> ('b, 'x) go_call" where
  "pure_then r x msg k = call_then (Returned r, x) msg (\<lambda>a _. k a)"

definition wrap_then :: "go_error + 'a \<Rightarrow> string \<Rightarrow> ('a \<Rightarrow> go_error + 'b) \<Rightarrow> go_error + 'b" where
  "wrap_then r msg k = (case r of Inl err \<Rightarrow> Inl (Wrap msg err) | Inr a \<Rightarrow> k a)"

lemma call_then_Inr [go_simps]:
  "call_then r msg k = (Returned (Inr b), x') \<longleftrightarrow>
     (\<exists>a x. r = (Returned (Inr a), x) \<and> k a x = (Returned (Inr b), x'))"
  by (auto simp: call_then_def split: prod.splits go_result.splits sum.splits)

lemma call_then_Panic [go_simps]:
  "call_then r msg k = (Panic m, x') \<longleftrightarrow>
     r = (Panic m, x') \<or> (\<exists>a x. r = (Returned (Inr a), x) \<and> k a x = (Panic m, x'))"
  by (auto simp: call_then_def split: prod.splits go_result.splits sum.splits)

lemma rpc_then_Inr [go_simps]:
  "rpc_then r msg k = (Returned (Inr b), x') \<longleftrightarrow>
     (\<exists>a x. r = (Inr a, x) \<and> k a x = (Returned (Inr b), x'))"
  by (cases r) (auto simp: rpc_then_def call_then_Inr)

lemma rpc_then_Panic [go_simps]:
  "rpc_then r msg k = (Panic m, x') \<longleftrightarrow>
     (\<exists>a x. r = (Inr a, x) \<and> k a x = (Panic m, x'))"
  by (cases r) (auto simp: rpc_then_def call_then_Panic)

lemma pure_then_Inr [go_simps]:
  "pure_then r x msg k = (Returned (Inr b), x') \<longleftrightarrow> (\<exists>a. r = Inr a \<and> k a = (Returned (Inr b), x'))"
  by (simp add: pure_then_def call_then_Inr)

lemma pure_then_Panic [go_simps]:
  "pure_then r x msg k = (Panic m, x') \<longleftrightarrow> (\<exists>a. r = Inr a \<and> k a = (Panic m, x'))"
  by (simp add: pure_then_def call_then_Panic)

lemma wrap_then_Inr [go_simps]:
  "wrap_then r msg k = Inr b \<longleftrightarrow> (\<exists>a. r = Inr a \<and> k a = Inr b)"
  by (auto simp: wrap_then_def split: sum.splits)

lemma case_Inr_iff [go_simps]:
  "(case r of Inl err \<Rightarrow> Inl (g err) | Inr a \<Rightarrow> k a) = Inr b \<longleftrightarrow> (\<exists>a. r = Inr a \<and> k a = Inr b)"
  by (cases r) auto

lemma not_isl_iff: "\<not> isl r \<longleftrightarrow> (\<exists>a. r = Inr a)"
  by (cases r) auto

lemma then_simps [simp]:
  "call_then (Returned (Inr a), x) msg k = k a x"
  "call_then (Returned (Inl e), x) msg k = (Returned (Inl (Wrap msg e)), x)"
  "call_then (Panic m, x) msg k = (Panic m, x)"
  "rpc_then (Inr a, x) msg k = k a x"
  "rpc_then (Inl e, x) msg k = (Returned (Inl (Wrap msg e)), x)"
  "pure_then (Inr a) x msg h = h a"
  "pure_then (Inl e) x msg h = (Returned (Inl (Wrap msg e)), x)"
  "wrap_then (Inr a) msg g = g a"
  "wrap_then (Inl e) msg g = Inl (Wrap msg e)"
  by (simp_all add: call_then_def rpc_then_def pure_then_def wrap_then_def)

subsection \<open>Following the control flow\<close>

text \<open>
  \<open>ensures P r\<close>: the result and the state of \<open>r\<close> satisfy \<open>P\<close>. The rules \<open>flow\<close> take a handler
  apart construct by construct and keep the outcome of every call as a fact.
\<close>

definition ensures :: "('r \<Rightarrow> 'x \<Rightarrow> bool) \<Rightarrow> 'r \<times> 'x \<Rightarrow> bool" where
  "ensures P r \<longleftrightarrow> P (fst r) (snd r)"

lemma ensuresD: "ensures P r \<Longrightarrow> r = (q, x) \<Longrightarrow> P q x"
  by (simp add: ensures_def)

lemma ensures_leaf: "P q x \<Longrightarrow> ensures P (q, x)"
  by (simp add: ensures_def)

lemma ensures_pair:
  "(\<And>a b. p = (a, b) \<Longrightarrow> ensures P (k a b)) \<Longrightarrow> ensures P (case p of (a, b) \<Rightarrow> k a b)"
  by (cases p) simp

lemma ensures_option:
  "(x = None \<Longrightarrow> ensures P a) \<Longrightarrow> (\<And>y. x = Some y \<Longrightarrow> ensures P (k y)) \<Longrightarrow>
     ensures P (case x of None \<Rightarrow> a | Some y \<Rightarrow> k y)"
  by (cases x) simp_all

lemma ensures_sum:
  "(\<And>e. x = Inl e \<Longrightarrow> ensures P (h e)) \<Longrightarrow> (\<And>y. x = Inr y \<Longrightarrow> ensures P (k y)) \<Longrightarrow>
     ensures P (case x of Inl e \<Rightarrow> h e | Inr y \<Rightarrow> k y)"
  by (cases x) simp_all

lemma ensures_go:
  "(\<And>a. x = Returned a \<Longrightarrow> ensures P (h a)) \<Longrightarrow> (\<And>m. x = Panic m \<Longrightarrow> ensures P (k m)) \<Longrightarrow>
     ensures P (case x of Returned a \<Rightarrow> h a | Panic m \<Rightarrow> k m)"
  by (cases x) simp_all

lemma ensures_list:
  "(xs = [] \<Longrightarrow> ensures P a) \<Longrightarrow> (\<And>y ys. xs = y # ys \<Longrightarrow> ensures P (k y ys)) \<Longrightarrow>
     ensures P (case xs of [] \<Rightarrow> a | y # ys \<Rightarrow> k y ys)"
  by (cases xs) simp_all

lemma ensures_if:
  "(c \<Longrightarrow> ensures P a) \<Longrightarrow> (\<not> c \<Longrightarrow> ensures P b) \<Longrightarrow> ensures P (if c then a else b)"
  by simp

lemma ensures_let: "ensures P (k a) \<Longrightarrow> ensures P (let x = a in k x)"
  by simp

lemmas flow = ensures_pair ensures_option ensures_sum ensures_go ensures_list ensures_if
  ensures_let ensures_leaf

subsection \<open>Rows of a table\<close>

text \<open>
  A table is the list of its rows; \<open>find_row\<close> selects the first row a key matches and
  \<open>upd_rows\<close> is the SQL UPDATE of all rows with the key. \<open>key_unique\<close> is the PRIMARY KEY.
\<close>

definition find_row :: "('r \<Rightarrow> 'k) \<Rightarrow> 'k \<Rightarrow> 'r list \<Rightarrow> 'r option" where
  "find_row key k rows = List.find (\<lambda>r. key r = k) rows"

definition upd_rows :: "('r \<Rightarrow> 'k) \<Rightarrow> 'k \<Rightarrow> ('r \<Rightarrow> 'r) \<Rightarrow> 'r list \<Rightarrow> 'r list" where
  "upd_rows key k f rows = map (\<lambda>r. if key r = k then f r else r) rows"

definition key_unique :: "('r \<Rightarrow> 'k) \<Rightarrow> 'r list \<Rightarrow> bool" where
  "key_unique key rows \<longleftrightarrow> distinct (map key rows)"

lemma find_row_simps [simp]:
  "find_row key k [] = None"
  "find_row key k (r # rs) = (if key r = k then Some r else find_row key k rs)"
  by (simp_all add: find_row_def)

lemma find_row_append [simp]:
  "find_row key k (xs @ ys) =
     (case find_row key k xs of Some r \<Rightarrow> Some r | None \<Rightarrow> find_row key k ys)"
  by (induction xs) auto

lemma find_snoc:
  "find P (xs @ [y]) = (case find P xs of None \<Rightarrow> if P y then Some y else None | Some r \<Rightarrow> Some r)"
  by (induction xs) auto

lemma find_row_None_iff: "find_row key k rows = None \<longleftrightarrow> k \<notin> key ` set rows"
  by (induction rows) auto

lemma find_row_SomeD: "find_row key k rows = Some r \<Longrightarrow> r \<in> set rows \<and> key r = k"
  by (induction rows) (auto split: if_splits)

lemma find_row_unique:
  "key_unique key rows \<Longrightarrow> r \<in> set rows \<Longrightarrow> find_row key (key r) rows = Some r"
  by (induction rows) (auto simp: key_unique_def)

lemma upd_rows_simps [simp]:
  "upd_rows key k f [] = []"
  "upd_rows key k f (r # rs) = (if key r = k then f r else r) # upd_rows key k f rs"
  by (simp_all add: upd_rows_def)

lemma find_upd_rows [table_simps]:
  assumes "\<And>r. key (f r) = key r"
  shows "find_row key j (upd_rows key k f rows) =
    (if j = k then map_option f (find_row key k rows) else find_row key j rows)"
  using assms by (induction rows) auto

lemma keys_upd_rows:
  assumes "\<And>r. key (f r) = key r"
  shows "map key (upd_rows key k f rows) = map key rows"
  using assms by (induction rows) auto

lemma key_unique_upd_rows:
  "(\<And>r. key (f r) = key r) \<Longrightarrow> key_unique key (upd_rows key k f rows) = key_unique key rows"
  by (simp add: key_unique_def keys_upd_rows)

lemma key_unique_snoc:
  "key_unique key (rows @ [r]) \<longleftrightarrow> key_unique key rows \<and> find_row key (key r) rows = None"
  by (auto simp: key_unique_def find_row_None_iff)

lemma length_upd_rows [simp]: "length (upd_rows key k f rows) = length rows"
  by (simp add: upd_rows_def)

lemma upd_rows_all:
  assumes "\<forall>r \<in> set rows. P r" and "\<And>r. P r \<Longrightarrow> P (f r)"
  shows "\<forall>r \<in> set (upd_rows key k f rows). P r"
  using assms by (auto simp: upd_rows_def)

subsection \<open>Ranges of machine integers\<close>

lemma unat_byte_less [simp]: "unat (b :: byte) < 256"
  using unsigned_less [of b] by simp

lemma unat_u64_less [simp]: "unat (w :: uint64) < 2 ^ 64"
  using unsigned_less [of w] by simp

lemma sint_i64: "sint w = (if uint w < 2 ^ 63 then uint w else uint w - 2 ^ 64)" for w :: int64
proof -
  have b: "uint w < 2 ^ 64" using uint_lt2p [of w] by simp
  have "sint w = (uint w + 2 ^ 63) mod 2 ^ 64 - 2 ^ 63"
    by (simp add: sint_uint signed_take_bit_eq_take_bit_shift take_bit_eq_mod)
  moreover have "(uint w + 2 ^ 63) mod 2 ^ 64 = (if uint w < 2 ^ 63 then uint w + 2 ^ 63 else uint w - 2 ^ 63)"
  proof (cases "uint w < 2 ^ 63")
    case False
    have "(uint w + 2 ^ 63) mod 2 ^ 64 = (uint w - 2 ^ 63 + 2 ^ 64) mod 2 ^ 64" by (simp add: add.commute)
    also have "\<dots> = (uint w - 2 ^ 63) mod 2 ^ 64" by (rule mod_add_self2)
    finally show ?thesis using b False by simp
  qed simp
  ultimately show ?thesis by simp
qed

lemma sint_i64_bounds: "- (2 ^ 63) \<le> sint (w :: int64) \<and> sint w < 2 ^ 63"
  using sint_greater_eq [of w] sint_less [of w] by simp

end
