(* ===== verification/Go_Std.thy ===== *)
theory Go_Std
  imports Prelude
begin

text \<open>
  The functions of Go's standard library that the service uses, as the language documents
  them: decimal printing and parsing (\<open>strconv\<close>, \<open>fmt\<close>, \<open>math/big\<close>), \<open>encoding/hex\<close>,
  \<open>encoding/binary\<close>, \<open>strings\<close> and \<open>time\<close>. A Go string is a sequence of bytes, here a
  \<open>string\<close> (a \<open>char list\<close>).
\<close>

subsection \<open>Strings and bytes\<close>

definition bytes_of_string :: "string \<Rightarrow> bytes" where
  "bytes_of_string s = map of_char s"

definition strings_HasPrefix :: "string \<Rightarrow> string \<Rightarrow> bool" where
  "strings_HasPrefix s p \<longleftrightarrow> take (length p) s = p"

definition strings_TrimPrefix :: "string \<Rightarrow> string \<Rightarrow> string" where
  "strings_TrimPrefix s p = (if strings_HasPrefix s p then drop (length p) s else s)"

fun strings_Contains :: "string \<Rightarrow> string \<Rightarrow> bool" where
  "strings_Contains [] p = (p = [])"
| "strings_Contains (c # s) p = (strings_HasPrefix (c # s) p \<or> strings_Contains s p)"

lemma strings_HasPrefix_append [simp]: "strings_HasPrefix (p @ s) p"
  by (simp add: strings_HasPrefix_def)

lemma strings_Contains_append: "strings_Contains (a @ p @ b) p"
proof (induction a)
  case Nil
  show ?case
  proof (cases "p @ b")
    case (Cons c cs)
    then have "strings_HasPrefix (c # cs) p" by (metis strings_HasPrefix_append)
    with Cons show ?thesis by simp
  qed simp
qed simp

lemma length_bytes_of_string [simp]: "length (bytes_of_string s) = length s"
  by (simp add: bytes_of_string_def)

lemma char_of_byte [simp]: "char_of (unat (of_char c :: byte)) = c"
proof -
  have "(of_char c :: byte) = word_of_nat (of_char c)" by (rule of_nat_of_char [symmetric])
  moreover have "(of_char c :: nat) < 256" by simp
  ultimately have "unat (of_char c :: byte) = of_char c"
    by (simp only: unat_of_nat) simp
  then show ?thesis by simp
qed

lemma bytes_of_string_inj [simp]: "bytes_of_string s = bytes_of_string t \<longleftrightarrow> s = t"
proof -
  have "inj (of_char :: char \<Rightarrow> byte)"
    by (rule inj_on_inverseI [of _ "\<lambda>b. char_of (unat b)"]) simp
  then show ?thesis by (simp add: bytes_of_string_def inj_map_eq_map)
qed

subsection \<open>Decimal numbers\<close>

definition digit_char :: "nat \<Rightarrow> char" where
  "digit_char d = char_of (48 + d)"

definition char_code :: "char \<Rightarrow> nat" where
  "char_code c = of_char c"

definition is_digit :: "char \<Rightarrow> bool" where
  "is_digit c \<longleftrightarrow> 48 \<le> char_code c \<and> char_code c \<le> 57"

fun show_nat :: "nat \<Rightarrow> string" where
  "show_nat n = (if n < 10 then [digit_char n] else show_nat (n div 10) @ [digit_char (n mod 10)])"

declare show_nat.simps [simp del]

definition itoa :: "int \<Rightarrow> string" where
  "itoa i = (if i < 0 then ''-'' @ show_nat (nat (- i)) else show_nat (nat i))"

fun dec_val :: "nat \<Rightarrow> string \<Rightarrow> nat option" where
  "dec_val acc [] = Some acc"
| "dec_val acc (c # cs) =
     (if is_digit c then dec_val (10 * acc + (char_code c - 48)) cs else None)"

definition parse_dec :: "string \<Rightarrow> nat option" where
  "parse_dec s = (if s = [] then None else dec_val 0 s)"

text \<open>\<open>strconv.ParseUint(s, 10, bits)\<close>: no sign, at least one digit, and in range.\<close>

definition ParseUint :: "string \<Rightarrow> nat \<Rightarrow> go_error + nat" where
  "ParseUint s bits = (case parse_dec s of
     None \<Rightarrow> Inl (Msg ''invalid syntax'')
   | Some n \<Rightarrow> if n < 2 ^ bits then Inr n else Inl (Msg ''value out of range''))"

fun split_sign :: "string \<Rightarrow> bool \<times> string" where
  "split_sign [] = (False, [])"
| "split_sign (c # cs) =
     (if c = CHR ''-'' then (True, cs) else if c = CHR ''+'' then (False, cs) else (False, c # cs))"

text \<open>\<open>strconv.ParseInt(s, 10, 64)\<close> and \<open>strconv.Atoi\<close>: an optional sign, then digits, in range.\<close>

definition ParseInt64 :: "string \<Rightarrow> go_error + int" where
  "ParseInt64 s = (case split_sign s of (neg, t) \<Rightarrow> (case parse_dec t of
     None \<Rightarrow> Inl (Msg ''invalid syntax'')
   | Some n \<Rightarrow> if neg then (if n \<le> 2 ^ 63 then Inr (- int n) else Inl (Msg ''value out of range''))
               else (if n < 2 ^ 63 then Inr (int n) else Inl (Msg ''value out of range''))))"

text \<open>\<open>new(big.Int).SetString(s, 10)\<close>.\<close>

definition big_SetString :: "string \<Rightarrow> int option" where
  "big_SetString s = (case split_sign s of (neg, t) \<Rightarrow>
     map_option (\<lambda>n. if neg then - int n else int n) (parse_dec t))"

text \<open>\<open>(*big.Int).Uint64()\<close>: the low 64 bits of the magnitude.\<close>

definition big_Uint64 :: "int \<Rightarrow> uint64" where
  "big_Uint64 i = word_of_int \<bar>i\<bar>"

definition ParseBool :: "string \<Rightarrow> go_error + bool" where
  "ParseBool s =
     (if s \<in> {''1'', ''t'', ''T'', ''TRUE'', ''true'', ''True''} then Inr True
      else if s \<in> {''0'', ''f'', ''F'', ''FALSE'', ''false'', ''False''} then Inr False
      else Inl (Msg ''invalid syntax''))"

definition FormatBool :: "bool \<Rightarrow> string" where
  "FormatBool b = (if b then ''true'' else ''false'')"

lemma char_code_digit_char [simp]: "d < 10 \<Longrightarrow> char_code (digit_char d) = 48 + d"
  by (simp add: char_code_def digit_char_def)

lemma is_digit_digit_char [simp]: "d < 10 \<Longrightarrow> is_digit (digit_char d)"
  by (simp add: is_digit_def)

lemma dec_val_append:
  "dec_val acc (xs @ ys) = (case dec_val acc xs of None \<Rightarrow> None | Some a \<Rightarrow> dec_val a ys)"
  by (induction xs arbitrary: acc) auto

lemma dec_val_show_nat: "dec_val 0 (show_nat n) = Some n"
proof (induction n rule: show_nat.induct)
  case (1 n)
  show ?case
  proof (cases "n < 10")
    case True
    then show ?thesis by (simp add: show_nat.simps [of n])
  next
    case False
    then have "dec_val 0 (show_nat (n div 10)) = Some (n div 10)" by (rule "1.IH")
    with False show ?thesis
      by (simp add: show_nat.simps [of n] dec_val_append)
  qed
qed

lemma show_nat_not_Nil [simp]: "show_nat n \<noteq> []"
  by (simp add: show_nat.simps [of n])

lemma show_nat_digits: "c \<in> set (show_nat n) \<Longrightarrow> is_digit c"
proof (induction n arbitrary: c rule: show_nat.induct)
  case (1 n)
  then show ?case by (auto simp: show_nat.simps [of n] split: if_splits)
qed

lemma parse_dec_show_nat [simp]: "parse_dec (show_nat n) = Some n"
  by (simp add: parse_dec_def dec_val_show_nat)

lemma digit_not_sign: "is_digit c \<Longrightarrow> c \<noteq> CHR ''-'' \<and> c \<noteq> CHR ''+'' \<and> c \<noteq> CHR ''/''"
  by (auto simp: is_digit_def char_code_def)

lemma split_sign_show_nat [simp]: "split_sign (show_nat n) = (False, show_nat n)"
proof -
  obtain c cs where c: "show_nat n = c # cs"
    by (cases "show_nat n") auto
  then have "is_digit c" by (intro show_nat_digits [of _ n]) simp
  then show ?thesis using digit_not_sign [of c] by (simp add: c)
qed

lemma split_sign_minus [simp]: "split_sign (CHR ''-'' # s) = (True, s)"
  by simp

lemma ParseUint_show_nat [simp]: "n < 2 ^ bits \<Longrightarrow> ParseUint (show_nat n) bits = Inr n"
  by (simp add: ParseUint_def)

lemma ParseUint_bound: "ParseUint s bits = Inr n \<Longrightarrow> n < 2 ^ bits"
  by (auto simp: ParseUint_def split: option.splits if_splits)

lemma ParseInt64_itoa:
  assumes "- (2 ^ 63) \<le> i" and "i < 2 ^ 63"
  shows "ParseInt64 (itoa i) = Inr i"
  using assms by (auto simp: ParseInt64_def itoa_def nat_le_iff nat_less_iff)

lemma ParseInt64_bounds: "ParseInt64 s = Inr i \<Longrightarrow> - (2 ^ 63) \<le> i \<and> i < 2 ^ 63"
  by (auto simp: ParseInt64_def split: option.splits if_splits prod.splits)

lemma big_SetString_itoa [simp]: "big_SetString (itoa i) = Some i"
  by (simp add: big_SetString_def itoa_def)

lemma ParseBool_FormatBool [simp]: "ParseBool (FormatBool b) = Inr b"
  by (simp add: ParseBool_def FormatBool_def)

text \<open>A string \<open>ParseUint\<close> accepts is accepted by \<open>big.Int\<close>, with the same value.\<close>

lemma ParseUint_big_SetString:
  assumes "ParseUint s bits = Inr n"
  shows "big_SetString s = Some (int n)"
proof -
  from assms have p: "parse_dec s = Some n"
    by (auto simp: ParseUint_def split: option.splits if_splits)
  then obtain c cs where s: "s = c # cs"
    by (cases s) (auto simp: parse_dec_def)
  with p have "is_digit c" by (auto simp: parse_dec_def split: if_splits)
  then have "split_sign s = (False, s)" using digit_not_sign [of c] by (simp add: s)
  with p show ?thesis by (simp add: big_SetString_def)
qed

lemma big_SetString_ParseUint:
  assumes "big_SetString s = Some (int n)" and "n < 2 ^ bits"
    and "\<exists>c cs. s = c # cs \<and> is_digit c"
  shows "ParseUint s bits = Inr n"
proof -
  from assms(3) obtain c cs where s: "s = c # cs" "is_digit c" by blast
  then have "split_sign s = (False, s)" using digit_not_sign [of c] by simp
  with assms(1,2) show ?thesis
    by (auto simp: big_SetString_def ParseUint_def split: option.splits)
qed

subsection \<open>Hexadecimal\<close>

definition hex_digit :: "char \<Rightarrow> nat option" where
  "hex_digit c = (let k = char_code c in
     if 48 \<le> k \<and> k \<le> 57 then Some (k - 48)
     else if 97 \<le> k \<and> k \<le> 102 then Some (k - 87)
     else if 65 \<le> k \<and> k \<le> 70 then Some (k - 55)
     else None)"

text \<open>\<open>hex.DecodeString\<close>: an even number of hexadecimal digits.\<close>

fun hex_DecodeString :: "string \<Rightarrow> go_error + bytes" where
  "hex_DecodeString [] = Inr []"
| "hex_DecodeString [c] = Inl (Msg ''encoding/hex: odd length hex string'')"
| "hex_DecodeString (c # d # cs) =
     (case (hex_digit c, hex_digit d) of
        (Some a, Some b) \<Rightarrow>
          (case hex_DecodeString cs of Inl e \<Rightarrow> Inl e
           | Inr bs \<Rightarrow> Inr (word_of_nat (16 * a + b) # bs))
      | _ \<Rightarrow> Inl (Msg ''encoding/hex: invalid byte''))"

definition hex_char :: "nat \<Rightarrow> char" where
  "hex_char d = char_of (if d < 10 then 48 + d else 87 + d)"

fun hex_EncodeToString :: "bytes \<Rightarrow> string" where
  "hex_EncodeToString [] = []"
| "hex_EncodeToString (b # bs) =
     hex_char (unat b div 16) # hex_char (unat b mod 16) # hex_EncodeToString bs"

lemma hex_digit_hex_char [simp]: "d < 16 \<Longrightarrow> hex_digit (hex_char d) = Some d"
  by (simp add: hex_digit_def hex_char_def char_code_def)

lemma hex_Decode_Encode [simp]: "hex_DecodeString (hex_EncodeToString bs) = Inr bs"
proof (induction bs)
  case (Cons b bs)
  have "unat b < 256" by simp
  then have "unat b div 16 < 16" by (simp add: div_less_iff_less_mult)
  then show ?case using Cons.IH by simp
qed simp

lemma length_hex_Encode [simp]: "length (hex_EncodeToString bs) = 2 * length bs"
  by (induction bs) auto

lemma hex_Decode_length: "hex_DecodeString s = Inr bs \<Longrightarrow> length s = 2 * length bs"
  by (induction s arbitrary: bs rule: hex_DecodeString.induct)
     (auto split: sum.splits option.splits)

subsection \<open>Byte order\<close>

text \<open>\<open>binary.LittleEndian.PutUint64\<close> and \<open>(*big.Int).SetBytes\<close> (big-endian).\<close>

fun le_bytes :: "nat \<Rightarrow> nat \<Rightarrow> bytes" where
  "le_bytes 0 n = []"
| "le_bytes (Suc k) n = word_of_nat (n mod 256) # le_bytes k (n div 256)"

definition LittleEndian_PutUint64 :: "uint64 \<Rightarrow> bytes" where
  "LittleEndian_PutUint64 w = le_bytes 8 (unat w)"

fun le_value :: "bytes \<Rightarrow> nat" where
  "le_value [] = 0"
| "le_value (b # bs) = unat b + 256 * le_value bs"

definition big_SetBytes :: "bytes \<Rightarrow> nat" where
  "big_SetBytes bs = le_value (rev bs)"

lemma length_le_bytes [simp]: "length (le_bytes k n) = k"
  by (induction k arbitrary: n) auto

lemma unat_of_nat_byte [simp]: "unat (word_of_nat (n mod 256) :: byte) = n mod 256"
  by (simp add: unat_of_nat)

lemma le_value_le_bytes: "le_value (le_bytes k n) = n mod 256 ^ k"
proof (induction k arbitrary: n)
  case (Suc k)
  then show ?case by (simp add: mod_mult2_eq)
qed simp

lemma le_bytes_inj: "le_bytes k m = le_bytes k n \<Longrightarrow> m < 256 ^ k \<Longrightarrow> n < 256 ^ k \<Longrightarrow> m = n"
  by (metis le_value_le_bytes mod_less)

lemma LittleEndian_inj [simp]:
  "LittleEndian_PutUint64 a = LittleEndian_PutUint64 b \<longleftrightarrow> a = b"
proof
  assume "LittleEndian_PutUint64 a = LittleEndian_PutUint64 b"
  moreover have "unat a < 256 ^ 8" "unat b < 256 ^ 8"
    using unat_u64_less [of a] unat_u64_less [of b] by simp_all
  ultimately show "a = b"
    by (auto simp: LittleEndian_PutUint64_def dest: le_bytes_inj intro: word_unat_eq_iff [THEN iffD2])
qed simp

lemma length_LittleEndian [simp]: "length (LittleEndian_PutUint64 w) = 8"
  by (simp add: LittleEndian_PutUint64_def)

lemma le_value_bound: "le_value bs < 256 ^ length bs"
proof (induction bs)
  case (Cons b bs)
  have "unat b < 256" by simp
  with Cons.IH have "unat b + 256 * le_value bs < 256 + 256 * (256 ^ length bs - 1)"
    by (intro add_less_le_mono) auto
  also have "\<dots> = 256 ^ length (b # bs)" by (simp add: algebra_simps)
  finally show ?case by simp
qed simp

lemma big_SetBytes_bound: "big_SetBytes bs < 256 ^ length bs"
  using le_value_bound [of "rev bs"] by (simp add: big_SetBytes_def)

subsection \<open>Time\<close>

text \<open>
  A \<open>time.Time\<close> is the number of nanoseconds since the Unix epoch; the zero value is
  January 1 of year 1. A \<open>time.Duration\<close> is a number of nanoseconds.
\<close>

type_synonym go_time = int
type_synonym duration = int

definition zero_time :: go_time where
  "zero_time = - 62135596800 * 1000000000"

definition time_Unix :: "go_time \<Rightarrow> int" where
  "time_Unix t = t div 1000000000"

definition time_Before :: "go_time \<Rightarrow> go_time \<Rightarrow> bool" where
  "time_Before a b \<longleftrightarrow> a < b"

definition time_Second :: duration where
  "time_Second = 1000000000"

lemma zero_time_Unix: "time_Unix zero_time = - 62135596800"
  by (simp add: zero_time_def time_Unix_def)

end
