(* ===== verification/Model_Types.thy ===== *)
theory Model_Types
  imports Go_Std
begin

text \<open>
  The data the service stores and passes around: \<open>internal/db/deposits.go\<close>,
  \<open>internal/db/signatures.go\<close>, \<open>internal/db/blocks.go\<close>, the protobuf enum of
  \<open>internal/types/deposit.pb.go\<close> and \<open>internal/types/epochs.go\<close>.
  Integers keep their width; a nilable string pointer is a \<open>string option\<close>.
\<close>

subsection \<open>Status of a withdrawal\<close>

datatype WithdrawalStatus =
    STATUS_UNSPECIFIED | STATUS_PENDING | STATUS_PROCESSING | STATUS_SUBMITTING_TO_CORE
  | STATUS_PROCESSED | STATUS_FAILED | STATUS_ALREADY_WITHDRAWN

fun WithdrawalStatus_number :: "WithdrawalStatus \<Rightarrow> int" where
  "WithdrawalStatus_number STATUS_UNSPECIFIED = 0"
| "WithdrawalStatus_number STATUS_PENDING = 1"
| "WithdrawalStatus_number STATUS_PROCESSING = 2"
| "WithdrawalStatus_number STATUS_SUBMITTING_TO_CORE = 3"
| "WithdrawalStatus_number STATUS_PROCESSED = 4"
| "WithdrawalStatus_number STATUS_FAILED = 5"
| "WithdrawalStatus_number STATUS_ALREADY_WITHDRAWN = 6"

definition WithdrawalStatus_name :: "int \<Rightarrow> string option" where
  "WithdrawalStatus_name = map_of
     [(0, ''WITHDRAWAL_STATUS_UNSPECIFIED''),
      (1, ''WITHDRAWAL_STATUS_PENDING''),
      (2, ''WITHDRAWAL_STATUS_PROCESSING''),
      (3, ''WITHDRAWAL_STATUS_SUBMITTING_TO_CORE''),
      (4, ''WITHDRAWAL_STATUS_PROCESSED''),
      (5, ''WITHDRAWAL_STATUS_FAILED''),
      (6, ''WITHDRAWAL_STATUS_ALREADY_WITHDRAWN'')]"

definition WithdrawalStatus_value :: "string \<Rightarrow> int option" where
  "WithdrawalStatus_value = map_of
     [(''WITHDRAWAL_STATUS_UNSPECIFIED'', 0),
      (''WITHDRAWAL_STATUS_PENDING'', 1),
      (''WITHDRAWAL_STATUS_PROCESSING'', 2),
      (''WITHDRAWAL_STATUS_SUBMITTING_TO_CORE'', 3),
      (''WITHDRAWAL_STATUS_PROCESSED'', 4),
      (''WITHDRAWAL_STATUS_FAILED'', 5),
      (''WITHDRAWAL_STATUS_ALREADY_WITHDRAWN'', 6)]"

text \<open>The enum value with a given number, for statuses that arrive as integers.\<close>

definition status_of_number :: "int \<Rightarrow> WithdrawalStatus option" where
  "status_of_number n = List.find (\<lambda>s. WithdrawalStatus_number s = n)
     [STATUS_UNSPECIFIED, STATUS_PENDING, STATUS_PROCESSING, STATUS_SUBMITTING_TO_CORE,
      STATUS_PROCESSED, STATUS_FAILED, STATUS_ALREADY_WITHDRAWN]"

lemma WithdrawalStatus_number_inj [simp]:
  "WithdrawalStatus_number s = WithdrawalStatus_number t \<longleftrightarrow> s = t"
  by (cases s; cases t) simp_all

text \<open>Statuses are ordered by their protobuf number, the order in which a withdrawal advances.\<close>

instantiation WithdrawalStatus :: linorder
begin

definition less_eq_WithdrawalStatus :: "WithdrawalStatus \<Rightarrow> WithdrawalStatus \<Rightarrow> bool" where
  "s \<le> t \<longleftrightarrow> WithdrawalStatus_number s \<le> WithdrawalStatus_number t"

definition less_WithdrawalStatus :: "WithdrawalStatus \<Rightarrow> WithdrawalStatus \<Rightarrow> bool" where
  "s < t \<longleftrightarrow> WithdrawalStatus_number s < WithdrawalStatus_number t"

instance
  by standard (auto simp: less_eq_WithdrawalStatus_def less_WithdrawalStatus_def)

end

datatype EpochStatus = EPOCH_STATUS_FAILED | EPOCH_STATUS_PROCESSED | EPOCH_STATUS_PENDING

subsection \<open>Deposits\<close>

record DepositIdentifier =
  TxHash :: string
  TxNonce :: int64
  ChainId :: string

record Deposit =
  d_Id :: DepositIdentifier
  d_Depositor :: string
  d_DepositAmount :: string
  d_DepositToken :: string
  d_Receiver :: string
  d_DepositBlock :: int64
  d_CommissionAmount :: string
  d_ReferralId :: uint16
  d_IsWrappedToken :: bool
  d_WithdrawalStatus :: WithdrawalStatus
  d_WithdrawalToken :: string
  d_WithdrawalChainBlock :: int64
  d_WithdrawalCoreBlock :: int64
  d_WithdrawalTxHash :: "string option"
  d_WithdrawalChainId :: string
  d_WithdrawalAmount :: string
  d_MerkleProof :: string
  d_TxData :: string
  d_Signature :: string
  d_Operator :: string
  d_RecoveryAttempts :: int64
  d_RecoveryTimestamp :: go_time

text \<open>The Go zero value \<open>db.Deposit{}\<close>.\<close>

definition zero_DepositIdentifier :: DepositIdentifier where
  "zero_DepositIdentifier = \<lparr>TxHash = [], TxNonce = 0, ChainId = []\<rparr>"

definition zero_Deposit :: Deposit where
  "zero_Deposit = \<lparr>d_Id = zero_DepositIdentifier, d_Depositor = [], d_DepositAmount = [],
     d_DepositToken = [], d_Receiver = [], d_DepositBlock = 0, d_CommissionAmount = [],
     d_ReferralId = 0, d_IsWrappedToken = False, d_WithdrawalStatus = STATUS_UNSPECIFIED,
     d_WithdrawalToken = [], d_WithdrawalChainBlock = 0, d_WithdrawalCoreBlock = 0,
     d_WithdrawalTxHash = None, d_WithdrawalChainId = [], d_WithdrawalAmount = [],
     d_MerkleProof = [], d_TxData = [], d_Signature = [], d_Operator = [],
     d_RecoveryAttempts = 0, d_RecoveryTimestamp = zero_time\<rparr>"

text \<open>\<open>fmt.Sprintf("%s/%s/%d", di.ChainId, di.TxHash, di.TxNonce)\<close>.\<close>

definition DepositIdentifier_String :: "DepositIdentifier \<Rightarrow> string" where
  "DepositIdentifier_String di =
     ChainId di @ ''/'' @ TxHash di @ ''/'' @ itoa (sint (TxNonce di))"

text \<open>\<open>Deposit\<close> embeds its identifier and inherits its \<open>String\<close>.\<close>

definition Deposit_String :: "Deposit \<Rightarrow> string" where
  "Deposit_String d = DepositIdentifier_String (d_Id d)"

subsection \<open>Epochs and blocks\<close>

record Epoch =
  e_Id :: uint32
  e_ChainId :: string
  e_Signature :: string
  e_Signer :: string
  e_StartTime :: uint64
  e_EndTime :: uint64
  e_Nonce :: string
  e_SignatureMode :: bool
  e_Status :: EpochStatus

record SignatureIdentifier =
  s_Id :: uint32
  s_ChainId :: string
  s_Nonce :: string

definition zero_Epoch :: Epoch where
  "zero_Epoch = \<lparr>e_Id = 0, e_ChainId = [], e_Signature = [], e_Signer = [], e_StartTime = 0,
     e_EndTime = 0, e_Nonce = [], e_SignatureMode = False, e_Status = EPOCH_STATUS_FAILED\<rparr>"

record LatestBlock =
  lb_Id :: int64
  lb_BlockId :: int64

definition DefaultNativeTokenAddress :: string where
  "DefaultNativeTokenAddress = ''0x0000000000000000000000000000000000000000''"

subsection \<open>Transaction hash patterns\<close>

text \<open>
  The two compiled regular expressions of \<open>internal/core/common.go\<close>, as matchers:
  \<open>^0x[a-fA-F0-9]{64}$\<close> and \<open>^[1-9A-HJ-NP-Za-km-z]{86,88}$\<close>.
\<close>

definition is_hex_char :: "char \<Rightarrow> bool" where
  "is_hex_char c \<longleftrightarrow> hex_digit c \<noteq> None"

definition is_base58_char :: "char \<Rightarrow> bool" where
  "is_base58_char c \<longleftrightarrow> (let k = char_code c in
     49 \<le> k \<and> k \<le> 57 \<or> 65 \<le> k \<and> k \<le> 72 \<or> 74 \<le> k \<and> k \<le> 78 \<or> 80 \<le> k \<and> k \<le> 90
     \<or> 97 \<le> k \<and> k \<le> 107 \<or> 109 \<le> k \<and> k \<le> 122)"

definition DefaultTransactionHashPattern :: "string \<Rightarrow> bool" where
  "DefaultTransactionHashPattern s \<longleftrightarrow> strings_HasPrefix s ''0x'' \<and> length s = 66
     \<and> list_all is_hex_char (drop 2 s)"

definition SolanaTransactionHashPattern :: "string \<Rightarrow> bool" where
  "SolanaTransactionHashPattern s \<longleftrightarrow> 86 \<le> length s \<and> length s \<le> 88
     \<and> list_all is_base58_char s"

subsection \<open>The identifier string is a key\<close>

lemma append_sep_inj:
  assumes "x \<notin> set a" and "x \<notin> set b" and "a @ x # r = b @ x # s"
  shows "a = b \<and> r = s"
  using assms by (induction a arbitrary: b) (auto simp: Cons_eq_append_conv append_eq_Cons_conv)

lemma itoa_no_slash: "CHR ''/'' \<notin> set (itoa i)"
  using digit_not_sign by (auto simp: itoa_def dest!: show_nat_digits)

lemma itoa_inj [simp]: "itoa i = itoa j \<longleftrightarrow> i = j"
  by (metis big_SetString_itoa option.inject)

lemma DepositIdentifier_String_injective:
  assumes "CHR ''/'' \<notin> set (ChainId a)" and "CHR ''/'' \<notin> set (TxHash a)"
    and "CHR ''/'' \<notin> set (ChainId b)" and "CHR ''/'' \<notin> set (TxHash b)"
    and "DepositIdentifier_String a = DepositIdentifier_String b"
  shows "a = b"
proof -
  from assms(5) have *: "ChainId a @ CHR ''/'' # (TxHash a @ CHR ''/'' # itoa (sint (TxNonce a)))
      = ChainId b @ CHR ''/'' # (TxHash b @ CHR ''/'' # itoa (sint (TxNonce b)))"
    by (simp add: DepositIdentifier_String_def)
  with assms(1,3) have c: "ChainId a = ChainId b"
    and r: "TxHash a @ CHR ''/'' # itoa (sint (TxNonce a)) = TxHash b @ CHR ''/'' # itoa (sint (TxNonce b))"
    by (blast dest: append_sep_inj)+
  from append_sep_inj [OF assms(2,4) r] have "TxHash a = TxHash b" "TxNonce a = TxNonce b"
    by (auto simp: signed_word_eqI)
  with c show ?thesis by (cases a; cases b) simp
qed

end
