(* ===== verification/World.thy ===== *)
theory World
  imports Model_Types
begin

text \<open>
  The state all components share and the services outside the program.

  \<open>'x\<close> is the state of the outside world (the database server, the target chains, the
  Bridgeless core node, the clock, the random source). Every external operation is a
  function on it, so that two calls of the same operation may answer differently:
  \<^item> \<open>env\<close>: the SQL driver (an error that stops a statement before it changes a table), the
    wall clock, \<open>rand.Intn\<close> and the tendermint client's \<open>ABCIInfo\<close>;
  \<^item> \<open>ChildClient\<close> and \<open>ChainClient\<close>: the interfaces of \<open>internal/core/chain/types.go\<close>.

  \<open>world\<close> holds the tables, the broadcaster's cache and \<open>w_ext\<close>, the outside
  world. \<open>w_log\<close> is a ghost field with no counterpart in the code: the calls made to a
  chain client, newest first, so that a theorem can speak about their order.
\<close>

subsection \<open>Interfaces of the chain clients (\<open>internal/core/chain/types.go\<close>)\<close>

datatype ChainType = TypeEVM | TypeTON | TypeSolana | TypeOther

record 'x ChildClient =
  cc_UpdateSigners :: "Epoch \<Rightarrow> 'x \<Rightarrow> (string \<times> int64 \<times> go_error option) \<times> 'x"
  cc_Withdraw :: "Deposit \<Rightarrow> 'x \<Rightarrow> (string \<times> string \<times> int64 \<times> go_error option) \<times> 'x"
  cc_IsProcessed :: "Deposit \<Rightarrow> 'x \<Rightarrow> (bool \<times> go_error option) \<times> 'x"

record 'x ChainClient =
  cl_Type :: ChainType
  cl_ChainId :: string
  cl_WorkersCount :: nat
  cl_TransactionHashValid :: "string \<Rightarrow> bool"
  cl_IsProcessed :: "Deposit \<Rightarrow> 'x \<Rightarrow> (bool \<times> go_error option) \<times> 'x"
  cl_ChildClients :: "'x ChildClient list"

subsection \<open>The outside world\<close>

record 'x env =
  x_sql :: "'x \<Rightarrow> go_error option \<times> 'x"
  x_now :: "'x \<Rightarrow> go_time \<times> 'x"
  x_Intn :: "nat \<Rightarrow> 'x \<Rightarrow> nat \<times> 'x"
  x_ABCIInfo :: "'x \<Rightarrow> (go_error + int64) \<times> 'x"

datatype event =
    EvIsProcessed DepositIdentifier bool
  | EvWithdraw DepositIdentifier
  | EvUpdateSigners SignatureIdentifier

record 'x world =
  w_deposits :: "Deposit list"
  w_signatures :: "Epoch list"
  w_latest :: "LatestBlock list"
  w_cache :: "string set"
  w_log :: "event list"
  w_ext :: 'x

text \<open>Running an external operation on the world.\<close>

definition ext_call :: "('x \<Rightarrow> 'a \<times> 'x) \<Rightarrow> 'x world \<Rightarrow> 'a \<times> 'x world" where
  "ext_call f w = (case f (w_ext w) of (a, x) \<Rightarrow> (a, w\<lparr>w_ext := x\<rparr>))"

lemma ext_call_world:
  "ext_call f w = (a, w') \<Longrightarrow> \<exists>x. w' = w\<lparr>w_ext := x\<rparr>"
  by (auto simp: ext_call_def split: prod.splits)

text \<open>\<open>rand.Intn(n)\<close> is documented to return a number below \<open>n\<close> (and to panic for \<open>n = 0\<close>).\<close>

definition Intn_contract :: "'x env \<Rightarrow> bool" where
  "Intn_contract E \<longleftrightarrow> (\<forall>n x. 0 < n \<longrightarrow> fst (x_Intn E n x) < n)"

subsection \<open>Calls of a child client, recorded in the ghost log\<close>

definition call_IsProcessed ::
  "'x ChildClient \<Rightarrow> Deposit \<Rightarrow> 'x world \<Rightarrow> (bool \<times> go_error option) \<times> 'x world" where
  "call_IsProcessed c d w = (case cc_IsProcessed c d (w_ext w) of
     ((b, err), x) \<Rightarrow>
       ((b, err), w\<lparr>w_ext := x,
          w_log := (if err = None then EvIsProcessed (d_Id d) b # w_log w else w_log w)\<rparr>))"

definition call_Withdraw ::
  "'x ChildClient \<Rightarrow> Deposit \<Rightarrow> 'x world \<Rightarrow> (string \<times> string \<times> int64 \<times> go_error option) \<times> 'x world" where
  "call_Withdraw c d w = (case cc_Withdraw c d (w_ext w) of
     (r, x) \<Rightarrow> (r, w\<lparr>w_ext := x, w_log := EvWithdraw (d_Id d) # w_log w\<rparr>))"

definition epoch_identifier :: "Epoch \<Rightarrow> SignatureIdentifier" where
  "epoch_identifier e = \<lparr>s_Id = e_Id e, s_ChainId = e_ChainId e, s_Nonce = e_Nonce e\<rparr>"

definition call_UpdateSigners ::
  "'x ChildClient \<Rightarrow> Epoch \<Rightarrow> 'x world \<Rightarrow> (string \<times> int64 \<times> go_error option) \<times> 'x world" where
  "call_UpdateSigners c e w = (case cc_UpdateSigners c e (w_ext w) of
     (r, x) \<Rightarrow> (r, w\<lparr>w_ext := x, w_log := EvUpdateSigners (epoch_identifier e) # w_log w\<rparr>))"

text \<open>
  What a piece of the program leaves alone. \<open>same_log\<close> is used for the operations
  that never talk to a chain client.
\<close>

definition same_log :: "'x world \<Rightarrow> 'x world \<Rightarrow> bool" where
  "same_log w w' \<longleftrightarrow> w_log w' = w_log w"

definition same_tables :: "'x world \<Rightarrow> 'x world \<Rightarrow> bool" where
  "same_tables w w' \<longleftrightarrow> w_deposits w' = w_deposits w \<and> w_signatures w' = w_signatures w
     \<and> w_latest w' = w_latest w"

lemma ext_call_frame:
  assumes "ext_call f w = (a, w')"
  shows "same_log w w'" and "same_tables w w'" and "w_cache w' = w_cache w"
  using ext_call_world [OF assms] by (auto simp: same_log_def same_tables_def)

lemma call_IsProcessed_frame:
  assumes "call_IsProcessed c d w = ((b, err), w')"
  shows "same_tables w w'" and "w_cache w' = w_cache w"
    and "w_log w' = (if err = None then EvIsProcessed (d_Id d) b # w_log w else w_log w)"
  using assms by (auto simp: call_IsProcessed_def same_tables_def split: prod.splits)

lemma call_Withdraw_frame:
  assumes "call_Withdraw c d w = (r, w')"
  shows "same_tables w w'" and "w_cache w' = w_cache w"
    and "w_log w' = EvWithdraw (d_Id d) # w_log w"
  using assms by (auto simp: call_Withdraw_def same_tables_def split: prod.splits)

end
