(* ===== verification/Store.thy ===== *)
theory Store
  imports World
begin

text \<open>
  The PostgreSQL queries of \<open>internal/db/postgres\<close> over the tables of
  \<open>assets/migrations\<close>. Every statement first asks the driver (\<open>x_sql\<close>): if it reports an
  error, no table changes. The PRIMARY KEY of \<open>deposits\<close> is
  \<open>(tx_hash, tx_nonce, chain_id)\<close>, that of \<open>signatures\<close> is \<open>(chain_id, nonce)\<close>; an INSERT that
  violates it fails with the server's documented message.
\<close>

subsection \<open>Statements\<close>

definition db_Exec ::
  "'x env \<Rightarrow> ('x world \<Rightarrow> 'x world) \<Rightarrow> 'x world \<Rightarrow> go_error option \<times> 'x world" where
  "db_Exec E stmt w = (case ext_call (x_sql E) w of
     (Some e, w1) \<Rightarrow> (Some e, w1)
   | (None, w1) \<Rightarrow> (None, stmt w1))"

definition db_Query ::
  "'x env \<Rightarrow> ('x world \<Rightarrow> 'a) \<Rightarrow> 'x world \<Rightarrow> (go_error + 'a) \<times> 'x world" where
  "db_Query E q w = (case ext_call (x_sql E) w of
     (Some e, w1) \<Rightarrow> (Inl e, w1)
   | (None, w1) \<Rightarrow> (Inr (q w1), w1))"

definition duplicate_key_text :: string where
  "duplicate_key_text = ''duplicate key value violates unique constraint''"

definition db_Insert ::
  "'x env \<Rightarrow> string \<Rightarrow> ('x world \<Rightarrow> bool) \<Rightarrow> ('x world \<Rightarrow> 'x world) \<Rightarrow> 'x world
     \<Rightarrow> go_error option \<times> 'x world" where
  "db_Insert E pkey conflict stmt w = (case ext_call (x_sql E) w of
     (Some e, w1) \<Rightarrow> (Some e, w1)
   | (None, w1) \<Rightarrow>
       if conflict w1
       then (Some (Msg (''pq: '' @ duplicate_key_text @ '' '' @ pkey)), w1)
       else (None, stmt w1))"

definition upd_deposits ::
  "DepositIdentifier \<Rightarrow> (Deposit \<Rightarrow> Deposit) \<Rightarrow> 'x world \<Rightarrow> 'x world" where
  "upd_deposits i f w = w\<lparr>w_deposits := upd_rows d_Id i f (w_deposits w)\<rparr>"

definition upd_signatures ::
  "SignatureIdentifier \<Rightarrow> (Epoch \<Rightarrow> Epoch) \<Rightarrow> 'x world \<Rightarrow> 'x world" where
  "upd_signatures i f w = w\<lparr>w_signatures := upd_rows epoch_identifier i f (w_signatures w)\<rparr>"

subsection \<open>Deposits (\<open>deposits.go\<close>)\<close>

definition depositsQ_UpdateStatus ::
  "'x env \<Rightarrow> DepositIdentifier \<Rightarrow> WithdrawalStatus \<Rightarrow> 'x world \<Rightarrow> go_error option \<times> 'x world" where
  "depositsQ_UpdateStatus E i s = db_Exec E (upd_deposits i (\<lambda>r. r\<lparr>d_WithdrawalStatus := s\<rparr>))"

definition depositsQ_UpdateRecoveryData ::
  "'x env \<Rightarrow> DepositIdentifier \<Rightarrow> int64 \<Rightarrow> go_time \<Rightarrow> 'x world \<Rightarrow> go_error option \<times> 'x world" where
  "depositsQ_UpdateRecoveryData E i attempts timestamp =
     db_Exec E (upd_deposits i (\<lambda>r. r\<lparr>d_RecoveryAttempts := attempts,
       d_RecoveryTimestamp := timestamp, d_WithdrawalStatus := STATUS_PENDING\<rparr>))"

definition depositsQ_UpdateRecoveryDetails ::
  "'x env \<Rightarrow> DepositIdentifier \<Rightarrow> int64 \<Rightarrow> go_time \<Rightarrow> 'x world \<Rightarrow> go_error option \<times> 'x world" where
  "depositsQ_UpdateRecoveryDetails E i attempts timestamp =
     db_Exec E (upd_deposits i (\<lambda>r. r\<lparr>d_RecoveryAttempts := attempts,
       d_RecoveryTimestamp := timestamp\<rparr>))"

definition depositsQ_UpdateWithdrawalDetails ::
  "'x env \<Rightarrow> Deposit \<Rightarrow> 'x world \<Rightarrow> go_error option \<times> 'x world" where
  "depositsQ_UpdateWithdrawalDetails E d =
     db_Exec E (upd_deposits (d_Id d) (\<lambda>r. r\<lparr>
       d_WithdrawalTxHash := d_WithdrawalTxHash d,
       d_WithdrawalChainBlock := d_WithdrawalChainBlock d,
       d_WithdrawalCoreBlock := d_WithdrawalCoreBlock d,
       d_WithdrawalStatus := d_WithdrawalStatus d,
       d_Operator := d_Operator d\<rparr>))"

definition depositsQ_UpdateWithdrawalTx ::
  "'x env \<Rightarrow> DepositIdentifier \<Rightarrow> string \<Rightarrow> 'x world \<Rightarrow> go_error option \<times> 'x world" where
  "depositsQ_UpdateWithdrawalTx E i hash =
     db_Exec E (upd_deposits i (\<lambda>r. r\<lparr>d_WithdrawalTxHash := Some hash,
       d_WithdrawalStatus := STATUS_PROCESSED\<rparr>))"

definition depositsQ_UpdateSignature ::
  "'x env \<Rightarrow> DepositIdentifier \<Rightarrow> string \<Rightarrow> 'x world \<Rightarrow> go_error option \<times> 'x world" where
  "depositsQ_UpdateSignature E i sig =
     db_Exec E (upd_deposits i (\<lambda>r. r\<lparr>d_WithdrawalStatus := STATUS_PROCESSED,
       d_Signature := sig\<rparr>))"

definition depositsQ_UpdateWithdrawalCoreBlock ::
  "'x env \<Rightarrow> DepositIdentifier \<Rightarrow> int64 \<Rightarrow> 'x world \<Rightarrow> go_error option \<times> 'x world" where
  "depositsQ_UpdateWithdrawalCoreBlock E i n =
     db_Exec E (upd_deposits i (\<lambda>r. r\<lparr>d_WithdrawalCoreBlock := n\<rparr>))"

definition depositsQ_UpdateWithdrawalChainBlock ::
  "'x env \<Rightarrow> DepositIdentifier \<Rightarrow> int64 \<Rightarrow> 'x world \<Rightarrow> go_error option \<times> 'x world" where
  "depositsQ_UpdateWithdrawalChainBlock E i n =
     db_Exec E (upd_deposits i (\<lambda>r. r\<lparr>d_WithdrawalChainBlock := n\<rparr>))"

text \<open>
  The inserted row: the statement's column list has no \<open>withdrawal_tx_hash\<close> and no
  \<open>operator\<close>, so they take the defaults of the schema (NULL and the empty string).
\<close>

definition deposit_row :: "Deposit \<Rightarrow> Deposit" where
  "deposit_row d = d\<lparr>d_WithdrawalTxHash := None, d_Operator := []\<rparr>"

definition depositsQ_Insert :: "'x env \<Rightarrow> Deposit \<Rightarrow> 'x world \<Rightarrow> go_error option \<times> 'x world" where
  "depositsQ_Insert E d w =
     (case db_Insert E ''deposits_pkey''
             (\<lambda>w. find_row d_Id (d_Id d) (w_deposits w) \<noteq> None)
             (\<lambda>w. w\<lparr>w_deposits := w_deposits w @ [deposit_row d]\<rparr>) w of
        (None, w1) \<Rightarrow> (None, w1)
      | (Some err, w1) \<Rightarrow>
          if \<not> strings_Contains (error_text err) duplicate_key_text then (Some err, w1)
          else (case depositsQ_UpdateRecoveryData E (d_Id d) (d_RecoveryAttempts d)
                       (d_RecoveryTimestamp d) w1 of
                  (Some err2, w2) \<Rightarrow> (Some err2, w2)
                | (None, w2) \<Rightarrow> (None, w2)))"

definition depositsQ_Get ::
  "'x env \<Rightarrow> DepositIdentifier \<Rightarrow> 'x world \<Rightarrow> (go_error + Deposit option) \<times> 'x world" where
  "depositsQ_Get E i = db_Query E (\<lambda>w. find_row d_Id i (w_deposits w))"

definition depositsQ_GetWithStatus ::
  "'x env \<Rightarrow> WithdrawalStatus \<Rightarrow> 'x world \<Rightarrow> (go_error + Deposit list) \<times> 'x world" where
  "depositsQ_GetWithStatus E s w =
     (case db_Query E (\<lambda>w. filter (\<lambda>r. d_WithdrawalStatus r = s) (w_deposits w)) w of
        (Inl e, w1) \<Rightarrow> (Inl (Wrap ''failed to get deposits'' e), w1)
      | (Inr ds, w1) \<Rightarrow> (Inr ds, w1))"

text \<open>
  The query builder \<open>d.selector\<close>: a condition per WHERE clause with its column, the ORDER BY
  columns and the page. The server rejects a statement that names a column the table does not
  have; \<open>deposits_columns\<close> are those of \<open>assets/migrations\<close>. \<open>pg_order\<close> is the server's ORDER BY.
\<close>

record Selector =
  sel_where :: "(string \<times> (Deposit \<Rightarrow> bool)) list"
  sel_order :: "string list"
  sel_offset :: nat
  sel_limit :: "nat option"

definition deposits_columns :: "string list" where
  "deposits_columns = [''tx_hash'', ''tx_nonce'', ''chain_id'', ''depositor'', ''receiver'',
     ''deposit_amount'', ''withdrawal_amount'', ''commission_amount'', ''deposit_token'',
     ''withdrawal_token'', ''is_wrapped_token'', ''deposit_block'', ''withdrawal_core_block'',
     ''withdrawal_chain_block'', ''signature'', ''withdrawal_status'', ''withdrawal_tx_hash'',
     ''tx_data'', ''referral_id'', ''withdrawal_chain_id'', ''merkle_proof'', ''operator'',
     ''recovery_timestamp'', ''recovery_attempts'']"

definition idField :: string where
  "idField = ''id''"

definition NewDepositsQ :: Selector where
  "NewDepositsQ = \<lparr>sel_where = [], sel_order = [], sel_offset = 0, sel_limit = None\<rparr>"

definition depositsQ_FilterById :: "(Deposit \<Rightarrow> bool) \<Rightarrow> Selector \<Rightarrow> Selector" where
  "depositsQ_FilterById id_is sel = sel\<lparr>sel_where := sel_where sel @ [(idField, id_is)]\<rparr>"

definition depositsQ_FilterByStatus :: "WithdrawalStatus \<Rightarrow> Selector \<Rightarrow> Selector" where
  "depositsQ_FilterByStatus s sel =
     sel\<lparr>sel_where := sel_where sel @ [(''withdrawal_status'', \<lambda>r. d_WithdrawalStatus r = s)]\<rparr>"

text \<open>\<open>pgdb.OffsetPageParams\<close> and its \<open>ApplyTo\<close>, of \<open>distributed_lab/kit\<close>: a parameter.\<close>

record OffsetPageParams =
  pp_PageNumber :: uint64
  pp_Limit :: uint64

type_synonym page_lib = "OffsetPageParams \<Rightarrow> Selector \<Rightarrow> string \<Rightarrow> Selector"

definition depositsQ_Page :: "page_lib \<Rightarrow> OffsetPageParams \<Rightarrow> Selector \<Rightarrow> Selector" where
  "depositsQ_Page ApplyTo pageParams sel = ApplyTo pageParams sel ''id''"

definition db_Select ::
  "'x env \<Rightarrow> (string list \<Rightarrow> Deposit list \<Rightarrow> Deposit list) \<Rightarrow> Selector \<Rightarrow> 'x world
     \<Rightarrow> (go_error + Deposit list) \<times> 'x world" where
  "db_Select E pg_order sel w = (case ext_call (x_sql E) w of
     (Some e, w1) \<Rightarrow> (Inl e, w1)
   | (None, w1) \<Rightarrow>
     (case filter (\<lambda>c. c \<notin> set deposits_columns) (map fst (sel_where sel) @ sel_order sel) of
        c # _ \<Rightarrow> (Inl (Msg (''pq: column '' @ c @ '' does not exist'')), w1)
      | [] \<Rightarrow>
        let found = filter (\<lambda>r. list_all (\<lambda>p. snd p r) (sel_where sel)) (w_deposits w1);
            rows = drop (sel_offset sel) (pg_order (sel_order sel) found)
        in (Inr (case sel_limit sel of None \<Rightarrow> rows | Some n \<Rightarrow> take n rows), w1)))"

definition depositsQ_Select_GetWithStatus ::
  "'x env \<Rightarrow> (string list \<Rightarrow> Deposit list \<Rightarrow> Deposit list) \<Rightarrow> Selector \<Rightarrow> WithdrawalStatus
     \<Rightarrow> 'x world \<Rightarrow> (go_error + Deposit list) \<times> 'x world" where
  "depositsQ_Select_GetWithStatus E pg_order sel s w =
     (case db_Select E pg_order (depositsQ_FilterByStatus s sel) w of
        (Inl e, w1) \<Rightarrow> (Inl (Wrap ''failed to get deposits'' e), w1)
      | (Inr ds, w1) \<Rightarrow> (Inr ds, w1))"

text \<open>Without a page the query is \<open>depositsQ_GetWithStatus\<close>.\<close>

lemma depositsQ_Select_plain:
  assumes "\<And>xs. pg_order [] xs = xs"
  shows "depositsQ_Select_GetWithStatus E pg_order NewDepositsQ s w = depositsQ_GetWithStatus E s w"
  using assms
  by (auto simp: depositsQ_Select_GetWithStatus_def db_Select_def NewDepositsQ_def db_Query_def
      depositsQ_FilterByStatus_def depositsQ_GetWithStatus_def deposits_columns_def
      split: prod.splits option.splits)

subsection \<open>Signatures (\<open>signatures.go\<close>)\<close>

definition epoch_pkey :: "Epoch \<Rightarrow> string \<times> string" where
  "epoch_pkey e = (e_ChainId e, e_Nonce e)"

definition signaturesQ_Insert :: "'x env \<Rightarrow> Epoch \<Rightarrow> 'x world \<Rightarrow> go_error option \<times> 'x world" where
  "signaturesQ_Insert E e = db_Insert E ''signatures_pkey''
     (\<lambda>w. find_row epoch_pkey (epoch_pkey e) (w_signatures w) \<noteq> None)
     (\<lambda>w. w\<lparr>w_signatures := w_signatures w @ [e]\<rparr>)"

definition signaturesQ_Get ::
  "'x env \<Rightarrow> SignatureIdentifier \<Rightarrow> 'x world \<Rightarrow> (go_error + Epoch option) \<times> 'x world" where
  "signaturesQ_Get E i = db_Query E (\<lambda>w. find_row epoch_identifier i (w_signatures w))"

definition signaturesQ_GetWithStatus ::
  "'x env \<Rightarrow> EpochStatus \<Rightarrow> 'x world \<Rightarrow> (go_error + Epoch list) \<times> 'x world" where
  "signaturesQ_GetWithStatus E s w =
     (case db_Query E (\<lambda>w. filter (\<lambda>r. e_Status r = s) (w_signatures w)) w of
        (Inl e, w1) \<Rightarrow> (Inl (Wrap ''failed to get epochs'' e), w1)
      | (Inr es, w1) \<Rightarrow> (Inr es, w1))"

definition signaturesQ_UpdateStatus ::
  "'x env \<Rightarrow> SignatureIdentifier \<Rightarrow> EpochStatus \<Rightarrow> 'x world \<Rightarrow> go_error option \<times> 'x world" where
  "signaturesQ_UpdateStatus E i s = db_Exec E (upd_signatures i (\<lambda>r. r\<lparr>e_Status := s\<rparr>))"

subsection \<open>Latest block (\<open>blocks.go\<close>)\<close>

definition idIndex :: int64 where
  "idIndex = 1"

definition blocksQ_Insert :: "'x env \<Rightarrow> LatestBlock \<Rightarrow> 'x world \<Rightarrow> go_error option \<times> 'x world" where
  "blocksQ_Insert E b w = (case db_Exec E (\<lambda>w.
       if find_row lb_Id idIndex (w_latest w) = None
       then w\<lparr>w_latest := w_latest w @ [\<lparr>lb_Id = idIndex, lb_BlockId = lb_BlockId b\<rparr>]\<rparr>
       else w\<lparr>w_latest := upd_rows lb_Id idIndex (\<lambda>r. r\<lparr>lb_BlockId := lb_BlockId b\<rparr>) (w_latest w)\<rparr>) w of
     (e, w1) \<Rightarrow> (errors_Wrap e ''failed to upsert latest block'', w1))"

definition blocksQ_GetLatestBlock :: "'x env \<Rightarrow> 'x world \<Rightarrow> (go_error + int64) \<times> 'x world" where
  "blocksQ_GetLatestBlock E w =
     (case db_Query E (\<lambda>w. map_option lb_BlockId (find_row lb_Id idIndex (w_latest w))) w of
        (Inl e, w1) \<Rightarrow> (Inl (Wrap ''failed to fetch latest block'' e), w1)
      | (Inr None, w1) \<Rightarrow>
          (Inl (Wrap ''failed to fetch latest block'' (Msg ''sql: no rows in result set'')), w1)
      | (Inr (Some n), w1) \<Rightarrow> (Inr n, w1))"

definition blocksQ_UpdateLatestBlockId ::
  "'x env \<Rightarrow> LatestBlock \<Rightarrow> 'x world \<Rightarrow> go_error option \<times> 'x world" where
  "blocksQ_UpdateLatestBlockId E b w = (case db_Exec E (\<lambda>w.
       w\<lparr>w_latest := upd_rows lb_Id idIndex (\<lambda>r. r\<lparr>lb_BlockId := lb_BlockId b\<rparr>) (w_latest w)\<rparr>) w of
     (e, w1) \<Rightarrow> (errors_Wrap e ''failed to update latest block id'', w1))"

subsection \<open>The tables as keyed stores\<close>

text \<open>
  The interface the rest of the service relies on: an UPDATE with a key changes the rows of
  that key only, and a lookup afterwards sees the change. Both tables provide it.
\<close>

locale keyed_rows =
  fixes rows :: "'w \<Rightarrow> 'r list"
    and key :: "'r \<Rightarrow> 'k"
    and upd :: "'k \<Rightarrow> ('r \<Rightarrow> 'r) \<Rightarrow> 'w \<Rightarrow> 'w"
  assumes rows_upd: "rows (upd k f w) = upd_rows key k f (rows w)"
begin

lemma find_upd:
  assumes "\<And>r. key (f r) = key r"
  shows "find_row key j (rows (upd k f w)) =
    (if j = k then map_option f (find_row key k (rows w)) else find_row key j (rows w))"
  using assms by (simp add: rows_upd find_upd_rows)

lemma find_upd_upd:
  assumes "\<And>r. key (f r) = key r" and "\<And>r. key (g r) = key r"
  shows "find_row key k (rows (upd k g (upd k f w))) = map_option (g \<circ> f) (find_row key k (rows w))"
  using assms by (simp add: find_upd option.map_comp)

lemma upd_keeps_keys: "(\<And>r. key (f r) = key r) \<Longrightarrow> map key (rows (upd k f w)) = map key (rows w)"
  by (simp add: rows_upd keys_upd_rows)

lemma upd_keeps_unique:
  "(\<And>r. key (f r) = key r) \<Longrightarrow> key_unique key (rows (upd k f w)) = key_unique key (rows w)"
  by (simp add: rows_upd key_unique_upd_rows)

lemma upd_all:
  "\<forall>r \<in> set (rows w). P r \<Longrightarrow> (\<And>r. P r \<Longrightarrow> P (f r)) \<Longrightarrow> \<forall>r \<in> set (rows (upd k f w)). P r"
  unfolding rows_upd by (rule upd_rows_all)

end

interpretation dep: keyed_rows w_deposits d_Id upd_deposits
  by unfold_locales (simp add: upd_deposits_def)

interpretation sig: keyed_rows w_signatures epoch_identifier upd_signatures
  by unfold_locales (simp add: upd_signatures_def)

lemma upd_deposits_frame [simp]:
  "w_signatures (upd_deposits i f w) = w_signatures w"
  "w_latest (upd_deposits i f w) = w_latest w"
  "w_cache (upd_deposits i f w) = w_cache w"
  "w_log (upd_deposits i f w) = w_log w"
  "w_ext (upd_deposits i f w) = w_ext w"
  by (simp_all add: upd_deposits_def)

lemma upd_signatures_frame [simp]:
  "w_deposits (upd_signatures i f w) = w_deposits w"
  "w_latest (upd_signatures i f w) = w_latest w"
  "w_cache (upd_signatures i f w) = w_cache w"
  "w_log (upd_signatures i f w) = w_log w"
  "w_ext (upd_signatures i f w) = w_ext w"
  by (simp_all add: upd_signatures_def)

subsection \<open>What a statement does\<close>

text \<open>
  \<open>db_did f w r w'\<close>: the statement with effect \<open>f\<close> ended in \<open>w'\<close>; with an error it changed
  nothing but the outside world.
\<close>

definition db_did ::
  "('x world \<Rightarrow> 'x world) \<Rightarrow> 'x world \<Rightarrow> go_error option \<Rightarrow> 'x world \<Rightarrow> bool" where
  "db_did f w r w' \<longleftrightarrow> (\<exists>x. w' = (if r = None then f (w\<lparr>w_ext := x\<rparr>) else w\<lparr>w_ext := x\<rparr>))"

lemma db_Exec_did: "db_Exec E f w = (r, w') \<Longrightarrow> db_did f w r w'"
  by (auto simp: db_Exec_def db_did_def ext_call_def split: prod.splits option.splits)

lemma db_Query_did: "db_Query E q w = (r, w') \<Longrightarrow> \<exists>x. w' = w\<lparr>w_ext := x\<rparr> \<and> (\<forall>a. r = Inr a \<longrightarrow> a = q w')"
  by (auto simp: db_Query_def ext_call_def split: prod.splits option.splits)

text \<open>A driver that never fails.\<close>

definition sql_ok :: "'x env \<Rightarrow> bool" where
  "sql_ok E \<longleftrightarrow> (\<forall>x. fst (x_sql E x) = None)"

lemma sql_okD:
  assumes "sql_ok E" and "ext_call (x_sql E) w = (r, w')"
  shows "r = None"
proof -
  have "fst (x_sql E (w_ext w)) = None" using assms(1) by (simp add: sql_ok_def)
  with assms(2) show ?thesis by (cases "x_sql E (w_ext w)") (simp add: ext_call_def)
qed

lemma sql_ok_Exec: "sql_ok E \<Longrightarrow> db_Exec E f w = (r, w') \<Longrightarrow> r = None"
  by (auto simp: db_Exec_def dest: sql_okD split: prod.splits option.splits)

lemma sql_ok_Query: "sql_ok E \<Longrightarrow> db_Query E q w = (r, w') \<Longrightarrow> \<exists>a. r = Inr a"
  by (auto simp: db_Query_def dest: sql_okD split: prod.splits option.splits)

subsection \<open>Primary keys\<close>

definition pk_ok :: "'x world \<Rightarrow> bool" where
  "pk_ok w \<longleftrightarrow> key_unique d_Id (w_deposits w) \<and> key_unique epoch_pkey (w_signatures w)
     \<and> key_unique lb_Id (w_latest w)"

lemma pk_ok_ext [simp]:
  "pk_ok (w\<lparr>w_ext := x\<rparr>) = pk_ok w"
  "pk_ok (w\<lparr>w_log := l\<rparr>) = pk_ok w"
  "pk_ok (w\<lparr>w_cache := c\<rparr>) = pk_ok w"
  by (simp_all add: pk_ok_def)

lemma pk_ok_upd_deposits [simp]:
  "(\<And>r. d_Id (f r) = d_Id r) \<Longrightarrow> pk_ok (upd_deposits i f w) = pk_ok w"
  by (simp add: pk_ok_def dep.upd_keeps_unique)

lemma pk_ok_upd_signatures [simp]:
  "(\<And>r. epoch_pkey (f r) = epoch_pkey r) \<Longrightarrow> pk_ok (upd_signatures i f w) = pk_ok w"
proof -
  assume f: "\<And>r. epoch_pkey (f r) = epoch_pkey r"
  have "map epoch_pkey (upd_rows epoch_identifier i f rs) = map epoch_pkey rs" for rs
    using f by (induction rs) auto
  then show ?thesis by (simp add: pk_ok_def key_unique_def upd_signatures_def)
qed

lemma pk_ok_did:
  assumes "db_did f w r w'" and "\<And>v. pk_ok (f v) = pk_ok v"
  shows "pk_ok w' = pk_ok w"
proof -
  from assms(1) obtain x where "w' = (if r = None then f (w\<lparr>w_ext := x\<rparr>) else w\<lparr>w_ext := x\<rparr>)"
    unfolding db_did_def by blast
  with assms(2) [of "w\<lparr>w_ext := x\<rparr>"] show ?thesis by (cases r) simp_all
qed

lemma depositsQ_updates_pk:
  "depositsQ_UpdateStatus E i s w = (r, w') \<Longrightarrow> pk_ok w' = pk_ok w"
  "depositsQ_UpdateRecoveryData E i a t w = (r, w') \<Longrightarrow> pk_ok w' = pk_ok w"
  "depositsQ_UpdateWithdrawalDetails E d w = (r, w') \<Longrightarrow> pk_ok w' = pk_ok w"
  unfolding depositsQ_UpdateStatus_def depositsQ_UpdateRecoveryData_def
    depositsQ_UpdateWithdrawalDetails_def
  by (auto dest!: db_Exec_did elim!: pk_ok_did)

text \<open>
  An INSERT either changed nothing but the outside world or ran its statement in a world
  without the conflict.
\<close>

lemma db_Insert_cases:
  assumes "db_Insert E p conflict stmt w = (r, w')"
  obtains (failed) e x where "r = Some e" "w' = w\<lparr>w_ext := x\<rparr>"
  | (stored) x where "r = None" "\<not> conflict (w\<lparr>w_ext := x\<rparr>)" "w' = stmt (w\<lparr>w_ext := x\<rparr>)"
  using assms
  by (auto simp: db_Insert_def ext_call_def split: prod.splits option.splits if_splits)

lemma depositsQ_Insert_cases:
  assumes "depositsQ_Insert E d w = (r, w')"
  obtains (failed) e x where "r = Some e" "w' = w\<lparr>w_ext := x\<rparr>"
  | (inserted) x where "r = None" "find_row d_Id (d_Id d) (w_deposits w) = None"
      "w' = w\<lparr>w_ext := x, w_deposits := w_deposits w @ [deposit_row d]\<rparr>"
  | (recovered) x where "r = None"
      "w' = upd_deposits (d_Id d) (\<lambda>r. r\<lparr>d_RecoveryAttempts := d_RecoveryAttempts d,
         d_RecoveryTimestamp := d_RecoveryTimestamp d, d_WithdrawalStatus := STATUS_PENDING\<rparr>)
         (w\<lparr>w_ext := x\<rparr>)"
proof -
  obtain r1 w1 where ins: "db_Insert E ''deposits_pkey''
      (\<lambda>w. find_row d_Id (d_Id d) (w_deposits w) \<noteq> None)
      (\<lambda>w. w\<lparr>w_deposits := w_deposits w @ [deposit_row d]\<rparr>) w = (r1, w1)"
    by (cases "db_Insert E ''deposits_pkey''
      (\<lambda>w. find_row d_Id (d_Id d) (w_deposits w) \<noteq> None)
      (\<lambda>w. w\<lparr>w_deposits := w_deposits w @ [deposit_row d]\<rparr>) w")
  from ins show thesis
  proof (cases rule: db_Insert_cases)
    case (stored x)
    with ins assms show ?thesis by (intro inserted) (auto simp: depositsQ_Insert_def)
  next
    case (failed e x)
    show ?thesis
    proof (cases "strings_Contains (error_text e) duplicate_key_text")
      case False
      with failed ins assms show ?thesis by (intro that(1)) (auto simp: depositsQ_Insert_def)
    next
      case True
      obtain r2 w2 where upd: "depositsQ_UpdateRecoveryData E (d_Id d) (d_RecoveryAttempts d)
          (d_RecoveryTimestamp d) w1 = (r2, w2)" by fastforce
      with True failed ins assms have "r = r2" "w' = w2"
        by (auto simp: depositsQ_Insert_def split: option.splits)
      moreover from upd obtain y where "w2 = (if r2 = None then upd_deposits (d_Id d)
          (\<lambda>r. r\<lparr>d_RecoveryAttempts := d_RecoveryAttempts d,
            d_RecoveryTimestamp := d_RecoveryTimestamp d, d_WithdrawalStatus := STATUS_PENDING\<rparr>)
          (w1\<lparr>w_ext := y\<rparr>) else w1\<lparr>w_ext := y\<rparr>)"
        unfolding depositsQ_UpdateRecoveryData_def by (auto dest!: db_Exec_did simp: db_did_def)
      ultimately show ?thesis using failed(2) that(1,3) by (cases r2) auto
    qed
  qed
qed

lemma depositsQ_Insert_pk:
  assumes "pk_ok w" and "depositsQ_Insert E d w = (r, w')"
  shows "pk_ok w'"
  using assms(2)
proof (cases rule: depositsQ_Insert_cases)
  case (inserted x)
  with assms(1) show ?thesis by (simp add: pk_ok_def key_unique_snoc deposit_row_def)
qed (use assms(1) in simp_all)

lemma signaturesQ_Insert_pk:
  assumes "pk_ok w" and "signaturesQ_Insert E e w = (r, w')"
  shows "pk_ok w'"
  using assms(2) unfolding signaturesQ_Insert_def
proof (cases rule: db_Insert_cases)
  case (stored x)
  with assms(1) show ?thesis by (simp add: pk_ok_def key_unique_snoc)
qed (use assms(1) in simp)

lemma signaturesQ_UpdateStatus_pk: "signaturesQ_UpdateStatus E i s w = (r, w') \<Longrightarrow> pk_ok w' = pk_ok w"
  unfolding signaturesQ_UpdateStatus_def
  by (drule db_Exec_did, erule pk_ok_did) (simp add: epoch_pkey_def)

subsection \<open>Lookups after an operation\<close>

definition deposit_status :: "DepositIdentifier \<Rightarrow> 'x world \<Rightarrow> WithdrawalStatus option" where
  "deposit_status i w = map_option d_WithdrawalStatus (find_row d_Id i (w_deposits w))"

lemma deposit_status_simps [simp]:
  "deposit_status i (w\<lparr>w_ext := x\<rparr>) = deposit_status i w"
  "deposit_status i (w\<lparr>w_log := l\<rparr>) = deposit_status i w"
  "deposit_status i (w\<lparr>w_cache := c\<rparr>) = deposit_status i w"
  by (simp_all add: deposit_status_def)

lemma deposit_status_upd [simp]:
  "(\<And>r. d_Id (f r) = d_Id r) \<Longrightarrow> deposit_status j (upd_deposits i f w) =
     (if j = i then map_option (\<lambda>r. d_WithdrawalStatus (f r)) (find_row d_Id i (w_deposits w))
      else deposit_status j w)"
  by (auto simp: deposit_status_def dep.find_upd option.map_comp comp_def)

lemma deposit_status_same: "same_tables w w' \<Longrightarrow> deposit_status i w' = deposit_status i w"
  by (simp add: same_tables_def deposit_status_def)

lemma depositsQ_UpdateStatus_status:
  assumes "depositsQ_UpdateStatus E i s w = (r, w')"
  shows "deposit_status j w' =
    (if j = i \<and> r = None then map_option (\<lambda>_. s) (deposit_status i w) else deposit_status j w)"
  using db_Exec_did [OF assms [unfolded depositsQ_UpdateStatus_def]]
  by (auto simp: db_did_def deposit_status_def dep.find_upd option.map_comp comp_def)

lemma depositsQ_UpdateWithdrawalDetails_status:
  assumes "depositsQ_UpdateWithdrawalDetails E d w = (r, w')"
  shows "deposit_status j w' =
    (if j = d_Id d \<and> r = None then map_option (\<lambda>_. d_WithdrawalStatus d) (deposit_status j w)
     else deposit_status j w)"
  using db_Exec_did [OF assms [unfolded depositsQ_UpdateWithdrawalDetails_def]]
  by (auto simp: db_did_def deposit_status_def dep.find_upd option.map_comp comp_def)

lemma depositsQ_updates_log:
  "depositsQ_UpdateStatus E i s w = (r, w') \<Longrightarrow> w_log w' = w_log w"
  "depositsQ_UpdateRecoveryData E i a t w = (r, w') \<Longrightarrow> w_log w' = w_log w"
  "depositsQ_UpdateWithdrawalDetails E d w = (r, w') \<Longrightarrow> w_log w' = w_log w"
  unfolding depositsQ_UpdateStatus_def depositsQ_UpdateRecoveryData_def
    depositsQ_UpdateWithdrawalDetails_def
  by (auto dest!: db_Exec_did simp: db_did_def split: if_splits)

lemma depositsQ_updates_cache:
  "depositsQ_UpdateStatus E i s w = (r, w') \<Longrightarrow> w_cache w' = w_cache w"
  "depositsQ_UpdateRecoveryData E i a t w = (r, w') \<Longrightarrow> w_cache w' = w_cache w"
  "depositsQ_UpdateWithdrawalDetails E d w = (r, w') \<Longrightarrow> w_cache w' = w_cache w"
  unfolding depositsQ_UpdateStatus_def depositsQ_UpdateRecoveryData_def
    depositsQ_UpdateWithdrawalDetails_def
  by (auto dest!: db_Exec_did simp: db_did_def split: if_splits)

end
