(* ===== verification/Connector.thy ===== *)
theory Connector
  imports Store
begin

text \<open>
  The connector to the Bridgeless core chain: \<open>internal/core/connector\<close>
  (\<open>get_tx.go\<close>, \<open>update_tx.go\<close>, \<open>main.go\<close>) and \<open>internal/core/account.go\<close>.
  The queries of the core node and the cosmos-sdk's transaction builder are not under
  \<open>src/\<close>: they are the fields of the record \<open>core_client\<close>.
\<close>

subsection \<open>Types of the core's bridge module that the code reads and writes\<close>

record Transaction =
  tx_DepositChainId :: string
  tx_DepositTxHash :: string
  tx_DepositTxIndex :: uint64
  tx_DepositBlock :: uint64
  tx_DepositToken :: string
  tx_DepositAmount :: string
  tx_Depositor :: string
  tx_Receiver :: string
  tx_WithdrawalChainId :: string
  tx_WithdrawalTxHash :: string
  tx_WithdrawalToken :: string
  tx_Signature :: string
  tx_IsWrapped :: bool
  tx_WithdrawalAmount :: string
  tx_CommissionAmount :: string
  tx_TxData :: string
  tx_ReferralId :: uint32

record MsgUpdateTransaction =
  msg_Submitter :: string
  msg_Transaction :: Transaction

record EthAccount =
  acc_AccountNumber :: uint64
  acc_Sequence :: uint64

record TxResponse =
  res_Code :: uint32
  res_Text :: string

record Settings =
  set_ChainId :: string
  set_Denom :: string
  set_MinGasPrice :: uint64

record Account =
  acc_prv :: bytes
  acc_addr :: string

text \<open>What the transaction builder has been given so far.\<close>

type_synonym coin = "string \<times> int64"

record TxDraft =
  td_Msgs :: "MsgUpdateTransaction option list"
  td_GasLimit :: uint64
  td_Fee :: "coin option"
  td_Signature :: "bytes option"
  td_Sequence :: uint64

text \<open>The core node and the cosmos-sdk.\<close>

record 'x core_client =
  cq_TransactionById :: "string \<Rightarrow> string \<Rightarrow> uint64 \<Rightarrow> 'x \<Rightarrow> (go_error + Transaction) \<times> 'x"
  cq_Account :: "string \<Rightarrow> 'x \<Rightarrow> (go_error + bytes) \<times> 'x"
  cq_BroadcastTx :: "bytes \<Rightarrow> 'x \<Rightarrow> (go_error + TxResponse) \<times> 'x"
  sdk_UnmarshalAccount :: "bytes \<Rightarrow> go_error + EthAccount"
  sdk_SetMsgs :: "MsgUpdateTransaction option list \<Rightarrow> go_error option"
  sdk_NewInt64Coin :: "string \<Rightarrow> int64 \<Rightarrow> coin go_result"
  sdk_SetSignatures :: "bytes option \<Rightarrow> go_error option"
  sdk_SignWithPrivKey :: "string \<Rightarrow> uint64 \<Rightarrow> uint64 \<Rightarrow> bytes \<Rightarrow> TxDraft \<Rightarrow> go_error + bytes"
  sdk_TxEncoder :: "TxDraft \<Rightarrow> go_error + bytes"

record 'x Connector =
  c_client :: "'x core_client"
  c_account :: Account
  c_settings :: Settings
  c_accountNumber :: uint64
  c_accountSequence :: uint64

subsection \<open>Accounts (\<open>account.go\<close>)\<close>

definition defaultHrp :: string where
  "defaultHrp = ''bridge''"

definition NewAccount ::
  "(string \<Rightarrow> go_error + bytes) \<Rightarrow> (bytes \<Rightarrow> bytes) \<Rightarrow> (string \<Rightarrow> bytes \<Rightarrow> go_error + string)
     \<Rightarrow> string \<Rightarrow> string list \<Rightarrow> go_error + Account" where
  "NewAccount hexutil_Decode key_Address bech32_Encode prv hrp =
     (case hexutil_Decode prv of
        Inl err \<Rightarrow> Inl (Wrap ''failed to decode private key'' err)
      | Inr raw \<Rightarrow>
          let prefix = (case hrp of [] \<Rightarrow> defaultHrp | h # _ \<Rightarrow> h) in
          (case bech32_Encode prefix (key_Address raw) of
             Inl err \<Rightarrow> Inl (Wrap ''failed to convert and encode address'' err)
           | Inr address \<Rightarrow> Inr \<lparr>acc_prv = raw, acc_addr = address\<rparr>))"

subsection \<open>Reading a deposit (\<open>get_tx.go\<close>)\<close>

definition nilOrNotEmpty :: "string \<Rightarrow> string option" where
  "nilOrNotEmpty str = (if str = [] then None else Some str)"

definition txToDeposit :: "Transaction \<Rightarrow> Deposit" where
  "txToDeposit tx = zero_Deposit\<lparr>
     d_Id := \<lparr>TxHash = tx_DepositTxHash tx, TxNonce = tx_DepositTxIndex tx,
              ChainId = tx_DepositChainId tx\<rparr>,
     d_Depositor := tx_Depositor tx,
     d_DepositAmount := tx_DepositAmount tx,
     d_DepositToken := tx_DepositToken tx,
     d_Receiver := tx_Receiver tx,
     d_WithdrawalToken := tx_WithdrawalToken tx,
     d_DepositBlock := tx_DepositBlock tx,
     d_CommissionAmount := tx_CommissionAmount tx,
     d_ReferralId := ucast (tx_ReferralId tx),
     d_WithdrawalStatus := STATUS_UNSPECIFIED,
     d_WithdrawalTxHash := nilOrNotEmpty (tx_WithdrawalTxHash tx),
     d_WithdrawalChainId := tx_WithdrawalChainId tx,
     d_WithdrawalAmount := tx_WithdrawalAmount tx,
     d_IsWrappedToken := tx_IsWrapped tx,
     d_TxData := tx_TxData tx,
     d_Signature := tx_Signature tx\<rparr>"

definition GetDeposit ::
  "'x Connector \<Rightarrow> DepositIdentifier \<Rightarrow> 'x world \<Rightarrow> (go_error + Deposit) \<times> 'x world" where
  "GetDeposit C depositId w =
     (case ext_call (cq_TransactionById (c_client C) (ChainId depositId) (TxHash depositId)
              (TxNonce depositId)) w of
        (Inl err, w1) \<Rightarrow> (Inl (Wrap ''failed to find specified transaction'' err), w1)
      | (Inr tx, w1) \<Rightarrow> (Inr (txToDeposit tx), w1))"

subsection \<open>Submitting messages (\<open>main.go\<close>)\<close>

definition gasLimit :: uint64 where
  "gasLimit = 3000000"

definition txCodeSuccess :: uint32 where
  "txCodeSuccess = 0"

definition getAccountData ::
  "'x core_client \<Rightarrow> string \<Rightarrow> 'x world \<Rightarrow> (go_error + EthAccount) \<times> 'x world" where
  "getAccountData K address w = (case ext_call (cq_Account K address) w of
     (Inl err, w1) \<Rightarrow> (Inl (Wrap ''failed to get account'' err), w1)
   | (Inr v, w1) \<Rightarrow> (case sdk_UnmarshalAccount K v of
        Inl err \<Rightarrow> (Inl (Wrap ''failed to unmarshal account'' err), w1)
      | Inr account \<Rightarrow> (Inr account, w1)))"

definition NewConnector ::
  "'x core_client \<Rightarrow> Account \<Rightarrow> Settings \<Rightarrow> 'x world \<Rightarrow> (go_error + 'x Connector) \<times> 'x world" where
  "NewConnector K account settings w = (case getAccountData K (acc_addr account) w of
     (Inl err, w1) \<Rightarrow> (Inl (Wrap ''failed to get account data'' err), w1)
   | (Inr d, w1) \<Rightarrow> (Inr \<lparr>c_client = K, c_account = account, c_settings = settings,
        c_accountNumber = acc_AccountNumber d, c_accountSequence = acc_Sequence d\<rparr>, w1))"

definition getAccountSequence :: "'x Connector \<Rightarrow> 'x world \<Rightarrow> (go_error + uint64) \<times> 'x world" where
  "getAccountSequence C w = (case getAccountData (c_client C) (acc_addr (c_account C)) w of
     (Inl err, w1) \<Rightarrow> (Inl (Wrap ''failed to get account data'' err), w1)
   | (Inr d, w1) \<Rightarrow> (Inr (acc_Sequence d), w1))"

definition buildTx ::
  "'x Connector \<Rightarrow> uint64 \<Rightarrow> uint64 \<Rightarrow> MsgUpdateTransaction option list \<Rightarrow> 'x world
     \<Rightarrow> (go_error + bytes) go_result \<times> 'x world" where
  "buildTx C gas_limit feeAmount msgs w =
     (let K = c_client C in
      case sdk_SetMsgs K msgs of
        Some err \<Rightarrow> (Returned (Inl (Wrap ''failed to set messages'' err)), w)
      | None \<Rightarrow>
     (case getAccountSequence C w of
        (Inl err, w1) \<Rightarrow> (Returned (Inl (Wrap ''failed to get account sequence'' err)), w1)
      | (Inr sequence, w1) \<Rightarrow>
     (case sdk_NewInt64Coin K (set_Denom (c_settings C)) feeAmount of
        Panic m \<Rightarrow> (Panic m, w1)
      | Returned fee \<Rightarrow>
     (case sdk_SetSignatures K None of
        Some err \<Rightarrow> (Returned (Inl (Wrap ''failed to set signature'' err)), w1)
      | None \<Rightarrow>
     (let draft = \<lparr>td_Msgs = msgs, td_GasLimit = gas_limit, td_Fee = Some fee,
                   td_Signature = None, td_Sequence = sequence\<rparr> in
      case sdk_SignWithPrivKey K (set_ChainId (c_settings C)) (c_accountNumber C) sequence
             (acc_prv (c_account C)) draft of
        Inl err \<Rightarrow> (Returned (Inl (Wrap ''failed to sign with private key'' err)), w1)
      | Inr sig \<Rightarrow>
     (case sdk_SetSignatures K (Some sig) of
        Some err \<Rightarrow> (Returned (Inl (Wrap ''failed to set signatures'' err)), w1)
      | None \<Rightarrow> (Returned (sdk_TxEncoder K (draft\<lparr>td_Signature := Some sig\<rparr>)), w1)))))))"

definition submitMsgs ::
  "'x Connector \<Rightarrow> MsgUpdateTransaction option list \<Rightarrow> 'x world
     \<Rightarrow> go_error option go_result \<times> 'x world" where
  "submitMsgs C msgs w =
     (if msgs = [] then (Returned None, w) else
      let feeAmount = gasLimit * set_MinGasPrice (c_settings C) in
      case buildTx C gasLimit feeAmount msgs w of
        (Panic m, w1) \<Rightarrow> (Panic m, w1)
      | (Returned (Inl err), w1) \<Rightarrow>
          (Returned (Some (Wrap ''failed to build transaction'' err)), w1)
      | (Returned (Inr tx), w1) \<Rightarrow>
     (case ext_call (cq_BroadcastTx (c_client C) tx) w1 of
        (Inl err, w2) \<Rightarrow> (Returned (Some (Wrap ''failed to broadcast transaction'' err)), w2)
      | (Inr res, w2) \<Rightarrow>
          if res_Code res \<noteq> txCodeSuccess
          then (Returned (Some (Msg (''transaction failed with code ''
                  @ itoa (uint (res_Code res)) @ '', full log: '' @ res_Text res))), w2)
          else (Returned None, w2)))"

subsection \<open>Reporting withdrawals (\<open>update_tx.go\<close>)\<close>

definition emptyOrString :: "string option \<Rightarrow> string" where
  "emptyOrString s = (case s of None \<Rightarrow> [] | Some str \<Rightarrow> str)"

definition toTransaction :: "Deposit \<Rightarrow> Transaction" where
  "toTransaction d = \<lparr>
     tx_DepositChainId = ChainId (d_Id d),
     tx_DepositTxHash = TxHash (d_Id d),
     tx_DepositTxIndex = TxNonce (d_Id d),
     tx_DepositBlock = d_DepositBlock d,
     tx_DepositToken = d_DepositToken d,
     tx_DepositAmount = d_DepositAmount d,
     tx_Depositor = d_Depositor d,
     tx_Receiver = d_Receiver d,
     tx_WithdrawalChainId = d_WithdrawalChainId d,
     tx_WithdrawalTxHash = emptyOrString (d_WithdrawalTxHash d),
     tx_WithdrawalToken = d_WithdrawalToken d,
     tx_Signature = d_Signature d,
     tx_IsWrapped = d_IsWrappedToken d,
     tx_WithdrawalAmount = d_WithdrawalAmount d,
     tx_CommissionAmount = d_CommissionAmount d,
     tx_TxData = d_TxData d,
     tx_ReferralId = ucast (d_ReferralId d)\<rparr>"

text \<open>
  The loop over the batch. \<open>messages\<close> was made with one nil entry per deposit; a skipped
  deposit leaves its entry nil. The deposits are pointers, and the referral id read from the
  core is written through them, also when a later iteration fails.
\<close>

fun UpdateTxInfo_loop ::
  "'x Connector \<Rightarrow> Deposit list \<Rightarrow> 'x world
     \<Rightarrow> (go_error option \<times> Deposit list \<times> MsgUpdateTransaction option list) \<times> 'x world" where
  "UpdateTxInfo_loop C [] w = ((None, [], []), w)"
| "UpdateTxInfo_loop C (d # ds) w =
     (case GetDeposit C (d_Id d) w of
        (Inl err, w1) \<Rightarrow>
          ((Some (Wrap ''failed to retrieve deposit data'' err), d # ds,
            replicate (length (d # ds)) None), w1)
      | (Inr depositData, w1) \<Rightarrow>
          if d_WithdrawalTxHash depositData \<noteq> None
          then (case UpdateTxInfo_loop C ds w1 of
                  ((e, ds', msgs), w2) \<Rightarrow> ((e, d # ds', None # msgs), w2))
          else (let d1 = d\<lparr>d_ReferralId := d_ReferralId depositData\<rparr>;
                    msg = \<lparr>msg_Submitter = acc_addr (c_account C),
                           msg_Transaction = toTransaction d1\<rparr>
                in case UpdateTxInfo_loop C ds w1 of
                  ((e, ds', msgs), w2) \<Rightarrow> ((e, d1 # ds', Some msg # msgs), w2)))"

definition UpdateTxInfo ::
  "'x Connector \<Rightarrow> Deposit list \<Rightarrow> 'x world
     \<Rightarrow> (go_error option go_result \<times> Deposit list) \<times> 'x world" where
  "UpdateTxInfo C deposits w =
     (case UpdateTxInfo_loop C deposits w of
        ((Some err, ds, msgs), w1) \<Rightarrow> ((Returned (Some err), ds), w1)
      | ((None, ds, messages), w1) \<Rightarrow>
          (case submitMsgs C messages w1 of
             (Panic m, w2) \<Rightarrow> ((Panic m, ds), w2)
           | (Returned err, w2) \<Rightarrow>
               ((Returned (errors_Wrap err ''failed to update tx info''), ds), w2)))"

end
