(* ===== verification/Containers.thy ===== *)
theory Containers
  imports Connector
begin

text \<open>
  The units of work of the broadcaster: \<open>internal/core/broadcaster/containers\<close>.
  A container's \<open>Run\<close> works on its own deposit through a pointer; here the deposit is passed
  in and the pointer it returns is a \<open>Deposit option\<close>, with \<open>None\<close> for nil. Logging is not
  modelled.
\<close>

definition defaultWithdrawalHash :: string where
  "defaultWithdrawalHash = ''0x0000000000000000000000000000000000000000''"

subsection \<open>Executing a withdrawal (\<open>common.go\<close>)\<close>

text \<open>
  The ABCI branch wraps \<open>err\<close>, the error of the withdrawal, not \<open>abciErr\<close>: with a
  successful withdrawal it returns nil.
\<close>

definition executeWithdrawal ::
  "'x env \<Rightarrow> 'x ChildClient \<Rightarrow> Deposit \<Rightarrow> 'x world \<Rightarrow> (Deposit \<times> go_error option) \<times> 'x world" where
  "executeWithdrawal E chainClient d w =
     (case call_Withdraw chainClient d w of ((operator, txHash, blockHeight, err), w1) \<Rightarrow>
        let d1 = d\<lparr>d_WithdrawalTxHash := Some txHash, d_WithdrawalChainBlock := blockHeight,
                   d_Operator := operator\<rparr> in
        (case ext_call (x_ABCIInfo E) w1 of
           (Inl abciErr, w2) \<Rightarrow>
             ((d1, errors_Wrap err ''error getting ABCI info to get withdrawal core block''), w2)
         | (Inr lastBlockHeight, w2) \<Rightarrow>
             let d2 = d1\<lparr>d_WithdrawalCoreBlock := lastBlockHeight\<rparr> in
             (case err of
                Some e \<Rightarrow> ((d2, Some (Wrap ''failed to execute withdrawal'' e)), w2)
              | None \<Rightarrow> ((d2, None), w2))))"

definition executeUpdateSigners ::
  "'x ChildClient \<Rightarrow> Epoch \<Rightarrow> 'x world \<Rightarrow> go_error option \<times> 'x world" where
  "executeUpdateSigners chainClient epoch w =
     (case call_UpdateSigners chainClient epoch w of ((tx, block, err), w1) \<Rightarrow>
        (errors_Wrap err ''failed to execute update signers'', w1))"

text \<open>The statement that follows a failure in both containers.\<close>

definition mark_failed ::
  "'x env \<Rightarrow> Deposit \<Rightarrow> 'x world \<Rightarrow> Deposit \<times> 'x world" where
  "mark_failed E d w =
     (let d1 = d\<lparr>d_WithdrawalStatus := STATUS_FAILED\<rparr> in
      case depositsQ_UpdateStatus E (d_Id d1) (d_WithdrawalStatus d1) w of
        (updateErr, w1) \<Rightarrow> (d1, w1))"

definition default_hash_if_nil :: "Deposit \<Rightarrow> Deposit" where
  "default_hash_if_nil d =
     (if d_WithdrawalTxHash d = None then d\<lparr>d_WithdrawalTxHash := Some defaultWithdrawalHash\<rparr> else d)"

subsection \<open>Broadcasting a deposit (\<open>deposit_broadcast_container.go\<close>)\<close>

definition depositBroadcastContainer_Run ::
  "'x env \<Rightarrow> 'x ChildClient \<Rightarrow> Deposit \<Rightarrow> 'x world
     \<Rightarrow> (Deposit option \<times> go_error option) \<times> 'x world" where
  "depositBroadcastContainer_Run E chainClient d w =
   (case call_IsProcessed chainClient d w of
      ((processed, Some err), w1) \<Rightarrow>
        (case mark_failed E d w1 of (d1, w2) \<Rightarrow>
           ((Some d1, Some (Wrap ''failed to validate deposit'' err)), w2))
    | ((processed, None), w1) \<Rightarrow>
        if processed then
          (let d1 = d\<lparr>d_WithdrawalStatus := STATUS_ALREADY_WITHDRAWN\<rparr> in
           case depositsQ_UpdateStatus E (d_Id d1) (d_WithdrawalStatus d1) w1 of (e2, w2) \<Rightarrow>
          (let d2 = d1\<lparr>d_WithdrawalTxHash := Some defaultWithdrawalHash\<rparr> in
           case depositsQ_UpdateWithdrawalDetails E d2 w2 of (e3, w3) \<Rightarrow>
             ((Some d2, None), w3)))
        else
          (let d1 = d\<lparr>d_WithdrawalStatus := STATUS_PROCESSING\<rparr> in
           case depositsQ_UpdateStatus E (d_Id d1) (d_WithdrawalStatus d1) w1 of
             (Some err, w2) \<Rightarrow>
               ((None, Some (Wrap ''failed to update deposit status processing'' err)), w2)
           | (None, w2) \<Rightarrow>
          (case executeWithdrawal E chainClient d1 w2 of
             ((d2, Some err), w3) \<Rightarrow>
               (case mark_failed E d2 w3 of (d3, w4) \<Rightarrow>
                let d4 = default_hash_if_nil d3 in
                case depositsQ_UpdateWithdrawalDetails E d4 w4 of (e5, w5) \<Rightarrow>
                  ((Some d4, Some (Wrap ''failed to process withdrawal'' err)), w5))
           | ((d2, None), w3) \<Rightarrow>
          (case depositsQ_UpdateWithdrawalDetails E d2 w3 of
             (Some err, w4) \<Rightarrow>
               (case mark_failed E d2 w4 of (d3, w5) \<Rightarrow>
                  ((Some d3, Some (Wrap ''failed to update withdrawal details'' err)), w5))
           | (None, w4) \<Rightarrow>
          (let d3 = d2\<lparr>d_WithdrawalStatus := STATUS_SUBMITTING_TO_CORE\<rparr> in
           case depositsQ_UpdateStatus E (d_Id d3) (d_WithdrawalStatus d3) w4 of
             (Some err, w5) \<Rightarrow>
               ((None, Some (Wrap ''failed to update deposit withdrawal status to submit'' err)), w5)
           | (None, w5) \<Rightarrow> ((Some d3, None), w5))))))"

subsection \<open>Catching up a deposit (\<open>deposit_catchup_container.go\<close>)\<close>

definition isSubmitted ::
  "'x Connector \<Rightarrow> Deposit \<Rightarrow> 'x world \<Rightarrow> (go_error + bool) \<times> 'x world" where
  "isSubmitted C d w = (case GetDeposit C (d_Id d) w of
     (Inl err, w1) \<Rightarrow> (Inl (Wrap ''error getting deposit from core'' err), w1)
   | (Inr deposit, w1) \<Rightarrow> (Inr (d_WithdrawalTxHash deposit \<noteq> None), w1))"

definition ProcessWithdraw ::
  "'x env \<Rightarrow> 'x ChildClient \<Rightarrow> Deposit \<Rightarrow> 'x world
     \<Rightarrow> (Deposit option \<times> go_error option) \<times> 'x world" where
  "ProcessWithdraw E chainClient d w =
   (let d1 = d\<lparr>d_WithdrawalStatus := STATUS_PROCESSING\<rparr> in
    case depositsQ_UpdateStatus E (d_Id d1) (d_WithdrawalStatus d1) w of
      (Some err, w1) \<Rightarrow>
        ((None, Some (Wrap ''failed to update deposit status processing'' err)), w1)
    | (None, w1) \<Rightarrow>
   (case call_IsProcessed chainClient d1 w1 of
      ((processed, Some err), w2) \<Rightarrow>
        (case mark_failed E d1 w2 of (d2, w3) \<Rightarrow>
           ((Some d2, Some (Wrap ''error checking if deposit exists on chain'' err)), w3))
    | ((processed, None), w2) \<Rightarrow>
        if processed then
          (let d2 = d1\<lparr>d_WithdrawalStatus := STATUS_PROCESSED\<rparr> in
           case depositsQ_UpdateStatus E (d_Id d2) (d_WithdrawalStatus d2) w2 of (e3, w3) \<Rightarrow>
          (let d3 = default_hash_if_nil d2 in
           case depositsQ_UpdateWithdrawalDetails E d3 w3 of (e4, w4) \<Rightarrow>
             ((Some d3, Some (Leaf ErrWithdrawalProcessed)), w4)))
        else
          (case executeWithdrawal E chainClient d1 w2 of
             ((d2, Some err), w3) \<Rightarrow>
               (case mark_failed E d2 w3 of (d3, w4) \<Rightarrow>
                let d4 = default_hash_if_nil d3 in
                case depositsQ_UpdateWithdrawalDetails E d4 w4 of (e5, w5) \<Rightarrow>
                  ((Some d4, Some (Wrap ''error processing the withdrawal'' err)), w5))
           | ((d2, None), w3) \<Rightarrow>
          (case depositsQ_UpdateWithdrawalDetails E d2 w3 of
             (Some err, w4) \<Rightarrow>
               (case mark_failed E d2 w4 of (d3, w5) \<Rightarrow>
                  ((Some d3, Some (Wrap ''failed to update deposit withdrawal details'' err)), w5))
           | (None, w4) \<Rightarrow>
          (let d3 = d2\<lparr>d_WithdrawalStatus := STATUS_SUBMITTING_TO_CORE\<rparr> in
           case depositsQ_UpdateStatus E (d_Id d3) (d_WithdrawalStatus d3) w4 of
             (Some err, w5) \<Rightarrow>
               ((Some d3, Some (Wrap ''failed to update deposit withdrawal status to submit'' err)), w5)
           | (None, w5) \<Rightarrow> ((Some d3, None), w5))))))"

definition depositCatchupContainer_Run ::
  "'x env \<Rightarrow> 'x Connector \<Rightarrow> 'x ChildClient \<Rightarrow> Deposit \<Rightarrow> 'x world
     \<Rightarrow> (Deposit option \<times> go_error option) \<times> 'x world" where
  "depositCatchupContainer_Run E C chainClient d w =
   (case d_WithdrawalStatus d of
      STATUS_PROCESSING \<Rightarrow> ProcessWithdraw E chainClient d w
    | STATUS_PENDING \<Rightarrow> ProcessWithdraw E chainClient d w
    | STATUS_SUBMITTING_TO_CORE \<Rightarrow>
        (case isSubmitted C d w of
           (Inl err, w1) \<Rightarrow>
             ((None, Some (Wrap ''failed to check if deposit is submitted'' err)), w1)
         | (Inr submitted, w1) \<Rightarrow>
             if submitted then
               (case depositsQ_UpdateStatus E (d_Id d) STATUS_PROCESSED w1 of
                  (Some err, w2) \<Rightarrow>
                    ((None, Some (Wrap ''failed to update deposit status'' err)), w2)
                | (None, w2) \<Rightarrow> ((None, Some (Leaf ErrAlreadySubmitted)), w2))
             else ((Some d, None), w1))
    | _ \<Rightarrow> ((Some d, None), w))"

subsection \<open>Updating the signers of an epoch\<close>

text \<open>\<open>update_signers_broadcast_container.go\<close>\<close>

definition updateSignersBroadcastContainer_Run ::
  "'x env \<Rightarrow> 'x ChildClient \<Rightarrow> Epoch \<Rightarrow> 'x world \<Rightarrow> (Epoch option \<times> go_error option) \<times> 'x world" where
  "updateSignersBroadcastContainer_Run E chainClient epoch w =
   (let id = epoch_identifier epoch in
    case executeUpdateSigners chainClient epoch w of
      (Some err, w1) \<Rightarrow>
        (let err1 = Wrap ''failed to process update signers'' err in
         case signaturesQ_UpdateStatus E id EPOCH_STATUS_FAILED w1 of
           (Some updateErr, w2) \<Rightarrow>
             ((None, Some (Wrap ''failed to update epoch status to failed'' err1)), w2)
         | (None, w2) \<Rightarrow> ((None, Some err1), w2))
    | (None, w1) \<Rightarrow>
        (case signaturesQ_UpdateStatus E id EPOCH_STATUS_PROCESSED w1 of
           (Some err, w2) \<Rightarrow>
             ((None, Some (Wrap ''failed to update epoch status to processed'' err)), w2)
         | (None, w2) \<Rightarrow> ((Some epoch, None), w2)))"

text \<open>\<open>update_signers_catchup_container.go\<close>\<close>

definition updateSignersCatchupContainer_Run ::
  "'x env \<Rightarrow> 'x ChildClient \<Rightarrow> Epoch \<Rightarrow> 'x world \<Rightarrow> (Epoch option \<times> go_error option) \<times> 'x world" where
  "updateSignersCatchupContainer_Run E chainClient epoch w =
   (let id = epoch_identifier epoch in
    case executeUpdateSigners chainClient epoch w of
      (Some err, w1) \<Rightarrow>
        (case signaturesQ_UpdateStatus E id EPOCH_STATUS_FAILED w1 of (updateErr, w2) \<Rightarrow>
           ((None, Some (Wrap ''failed to catch up epoch'' err)), w2))
    | (None, w1) \<Rightarrow>
        (case signaturesQ_UpdateStatus E id EPOCH_STATUS_PROCESSED w1 of
           (Some err, w2) \<Rightarrow>
             ((None, Some (Wrap ''failed to update epoch status to processed'' err)), w2)
         | (None, w2) \<Rightarrow> ((Some epoch, None), w2)))"

end
