(* ===== verification/Container_Props.thy ===== *)
theory Container_Props
  imports Containers
begin

text \<open>
  What every withdrawal container promises, as the locale \<open>withdrawal_container\<close>, and the
  proof that both containers of the code keep the promise: a run touches only the row of
  its deposit, talks to the chain at most twice, and withdraws only directly after the
  chain answered that the deposit is not processed.
\<close>

subsection \<open>Touching only one row\<close>

definition own_row :: "DepositIdentifier \<Rightarrow> 'x world \<Rightarrow> 'x world \<Rightarrow> bool" where
  "own_row i w w' \<longleftrightarrow>
     map (\<lambda>r. (d_Id r, d_RecoveryAttempts r)) (w_deposits w')
       = map (\<lambda>r. (d_Id r, d_RecoveryAttempts r)) (w_deposits w)
     \<and> (\<forall>j. j \<noteq> i \<longrightarrow> find_row d_Id j (w_deposits w') = find_row d_Id j (w_deposits w))
     \<and> w_signatures w' = w_signatures w \<and> w_latest w' = w_latest w \<and> w_cache w' = w_cache w"

lemma own_row_refl [simp]: "own_row i w w"
  by (simp add: own_row_def)

lemma own_row_trans [trans]: "own_row i u v \<Longrightarrow> own_row i v w \<Longrightarrow> own_row i u w"
  by (simp add: own_row_def)

lemma own_row_same_tables: "same_tables w w' \<Longrightarrow> w_cache w' = w_cache w \<Longrightarrow> own_row i w w'"
  by (simp add: own_row_def same_tables_def)

lemma own_row_upd:
  assumes "\<And>r. d_Id (f r) = d_Id r" and "\<And>r. d_RecoveryAttempts (f r) = d_RecoveryAttempts r"
  shows "own_row i w (upd_deposits i f (w\<lparr>w_ext := x\<rparr>))"
proof -
  have "map (\<lambda>r. (d_Id r, d_RecoveryAttempts r)) (upd_rows d_Id i f rs)
      = map (\<lambda>r. (d_Id r, d_RecoveryAttempts r)) rs" for rs
    using assms by (induction rs) auto
  with assms(1) show ?thesis by (simp add: own_row_def upd_deposits_def find_upd_rows)
qed

lemma own_row_did:
  assumes "db_did (upd_deposits i f) w r w'"
    and "\<And>r. d_Id (f r) = d_Id r" and "\<And>r. d_RecoveryAttempts (f r) = d_RecoveryAttempts r"
  shows "own_row i w w'"
proof -
  from assms(1) obtain x
    where "w' = (if r = None then upd_deposits i f (w\<lparr>w_ext := x\<rparr>) else w\<lparr>w_ext := x\<rparr>)"
    unfolding db_did_def by blast
  with own_row_upd [OF assms(2,3)] show ?thesis
    by (cases r) (simp_all add: own_row_def)
qed

lemma own_row_pk: "own_row i w w' \<Longrightarrow> pk_ok w' = pk_ok w"
proof -
  assume *: "own_row i w w'"
  then have "map fst (map (\<lambda>r. (d_Id r, d_RecoveryAttempts r)) (w_deposits w'))
      = map fst (map (\<lambda>r. (d_Id r, d_RecoveryAttempts r)) (w_deposits w))"
    unfolding own_row_def by metis
  then have "map d_Id (w_deposits w') = map d_Id (w_deposits w)" by (simp add: comp_def)
  with * show ?thesis by (simp add: pk_ok_def key_unique_def own_row_def)
qed

lemma own_row_attempts:
  assumes "own_row i w w'" and "\<forall>r \<in> set (w_deposits w). d_RecoveryAttempts r = a"
  shows "\<forall>r \<in> set (w_deposits w'). d_RecoveryAttempts r = a"
proof
  fix r assume "r \<in> set (w_deposits w')"
  then have "(d_Id r, d_RecoveryAttempts r)
      \<in> set (map (\<lambda>r. (d_Id r, d_RecoveryAttempts r)) (w_deposits w'))" by auto
  with assms show "d_RecoveryAttempts r = a" by (auto simp: own_row_def)
qed

lemma own_row_status: "own_row i w w' \<Longrightarrow> j \<noteq> i \<Longrightarrow> deposit_status j w' = deposit_status j w"
  by (simp add: own_row_def deposit_status_def)

lemma depositsQ_UpdateStatus_own: "depositsQ_UpdateStatus E i s w = (r, w') \<Longrightarrow> own_row i w w'"
  unfolding depositsQ_UpdateStatus_def by (drule db_Exec_did, erule own_row_did) simp_all

lemma depositsQ_UpdateWithdrawalDetails_own:
  "depositsQ_UpdateWithdrawalDetails E d w = (r, w') \<Longrightarrow> own_row (d_Id d) w w'"
  unfolding depositsQ_UpdateWithdrawalDetails_def
  by (drule db_Exec_did, erule own_row_did) simp_all

lemma call_own:
  "call_IsProcessed c d w = (q, w') \<Longrightarrow> own_row i w w'"
  "call_Withdraw c d w = (q', w') \<Longrightarrow> own_row i w w'"
  "ext_call f w = (a, w') \<Longrightarrow> own_row i w w'"
  by (auto intro!: own_row_same_tables dest: call_Withdraw_frame ext_call_frame
      simp: call_IsProcessed_def same_tables_def split: prod.splits)

subsection \<open>Calls of the chain\<close>

definition withdraw_log_ok :: "DepositIdentifier \<Rightarrow> event list \<Rightarrow> bool" where
  "withdraw_log_ok i L \<longleftrightarrow>
     L = [] \<or> (\<exists>b. L = [EvIsProcessed i b]) \<or> L = [EvWithdraw i, EvIsProcessed i False]"

text \<open>The steps of a run, each with its effect on the row and on the log.\<close>

lemma executeWithdrawal_steps:
  assumes "executeWithdrawal E c d w = ((d', e), w')"
  shows "own_row i w w'" and "w_log w' = EvWithdraw (d_Id d) # w_log w" and "d_Id d' = d_Id d"
    and "d_WithdrawalTxHash d' \<noteq> None" and "d_WithdrawalStatus d' = d_WithdrawalStatus d"
proof -
  obtain r w1 where wd0: "call_Withdraw c d w = (r, w1)" by fastforce
  obtain op h b err where r: "r = (op, h, b, err)" by (cases r)
  note wd = wd0 [unfolded r]
  obtain a w2 where ab: "ext_call (x_ABCIInfo E) w1 = (a, w2)" by fastforce
  have w2: "w' = w2" and d: "d_Id d' = d_Id d" "d_WithdrawalTxHash d' \<noteq> None"
      "d_WithdrawalStatus d' = d_WithdrawalStatus d"
    using assms wd ab by (auto simp: executeWithdrawal_def Let_def split: sum.splits option.splits)
  show "own_row i w w'" unfolding w2 using call_own(2) [OF wd] call_own(3) [OF ab]
    by (rule own_row_trans)
  show "w_log w' = EvWithdraw (d_Id d) # w_log w"
    using call_Withdraw_frame(3) [OF wd] ext_call_frame(1) [OF ab] by (simp add: w2 same_log_def)
  show "d_Id d' = d_Id d" "d_WithdrawalTxHash d' \<noteq> None"
    "d_WithdrawalStatus d' = d_WithdrawalStatus d" by (fact d)+
qed

lemma mark_failed_steps:
  assumes "mark_failed E d w = (d', w')"
  shows "own_row (d_Id d) w w'" and "w_log w' = w_log w" and "d' = d\<lparr>d_WithdrawalStatus := STATUS_FAILED\<rparr>"
  using assms
  by (auto simp: mark_failed_def Let_def split: prod.splits
      dest: depositsQ_UpdateStatus_own depositsQ_updates_log)

lemma default_hash_if_nil_simps [simp]:
  "d_Id (default_hash_if_nil d) = d_Id d"
  "d_WithdrawalStatus (default_hash_if_nil d) = d_WithdrawalStatus d"
  "d_WithdrawalTxHash (default_hash_if_nil d) \<noteq> None"
  "d_WithdrawalTxHash d \<noteq> None \<Longrightarrow> default_hash_if_nil d = d"
  by (simp_all add: default_hash_if_nil_def)

text \<open>One relation for both: the row of \<open>i\<close> only, and the events \<open>L\<close> in front of the log.\<close>

definition did :: "DepositIdentifier \<Rightarrow> event list \<Rightarrow> 'x world \<Rightarrow> 'x world \<Rightarrow> bool" where
  "did i L w w' \<longleftrightarrow> own_row i w w' \<and> w_log w' = L @ w_log w"

lemma did_refl: "did i [] w w"
  by (simp add: did_def)

lemma did_trans: "did i K u v \<Longrightarrow> did i L v w \<Longrightarrow> did i (L @ K) u w"
  by (auto simp: did_def intro: own_row_trans)

lemma did_UpdateStatus: "depositsQ_UpdateStatus E i s w = (r, w') \<Longrightarrow> did i [] w w'"
  by (simp add: did_def depositsQ_UpdateStatus_own depositsQ_updates_log)

lemma did_UpdateWithdrawalDetails:
  "depositsQ_UpdateWithdrawalDetails E d w = (r, w') \<Longrightarrow> did (d_Id d) [] w w'"
  by (simp add: did_def depositsQ_UpdateWithdrawalDetails_own depositsQ_updates_log)

lemma did_IsProcessed:
  "call_IsProcessed c d w = ((b, err), w') \<Longrightarrow>
     did (d_Id d) (if err = None then [EvIsProcessed (d_Id d) b] else []) w w'"
  by (simp add: did_def call_own call_IsProcessed_frame)

lemma did_executeWithdrawal:
  "executeWithdrawal E c d w = ((d', e), w') \<Longrightarrow>
     did (d_Id d) [EvWithdraw (d_Id d)] w w' \<and> d_Id d' = d_Id d \<and> d_WithdrawalTxHash d' \<noteq> None
     \<and> d_WithdrawalStatus d' = d_WithdrawalStatus d"
  by (simp add: did_def executeWithdrawal_steps)

lemma did_mark_failed:
  "mark_failed E d w = (d', w') \<Longrightarrow> did (d_Id d) [] w w' \<and> d' = d\<lparr>d_WithdrawalStatus := STATUS_FAILED\<rparr>"
  by (auto simp: did_def dest: mark_failed_steps)

lemma did_GetDeposit: "GetDeposit C i w = (r, w') \<Longrightarrow> did j [] w w'"
  by (auto simp: GetDeposit_def did_def same_log_def dest: call_own(3) ext_call_frame(1)
      split: prod.splits sum.splits)

lemmas did_steps = did_UpdateStatus did_UpdateWithdrawalDetails did_IsProcessed
  did_executeWithdrawal did_mark_failed did_GetDeposit

subsection \<open>Both containers\<close>

text \<open>A run as a whole: what it returns and what it did to its row and to the log.\<close>

definition run_ok ::
  "DepositIdentifier \<Rightarrow> 'x world \<Rightarrow> Deposit option \<Rightarrow> go_error option \<Rightarrow> 'x world \<Rightarrow> bool" where
  "run_ok i w r e w' \<longleftrightarrow> (\<exists>L. withdraw_log_ok i L \<and> did i L w w')
     \<and> (\<forall>d'. r = Some d' \<longrightarrow> d_Id d' = i) \<and> (r = None \<longrightarrow> e \<noteq> None)"

lemma depositBroadcastContainer_Run_ensures:
  "ensures (\<lambda>q. run_ok (d_Id d) w (fst q) (snd q)) (depositBroadcastContainer_Run E c d w)"
  unfolding depositBroadcastContainer_Run_def
  by (intro flow) (auto simp: run_ok_def did_def own_row_def withdraw_log_ok_def dest!: did_steps)

lemma depositBroadcastContainer_Run_ok:
  "depositBroadcastContainer_Run E c d w = ((r, e), w') \<Longrightarrow> run_ok (d_Id d) w r e w'"
  using ensuresD [OF depositBroadcastContainer_Run_ensures] by fastforce

lemma ProcessWithdraw_ensures:
  "ensures (\<lambda>q. run_ok (d_Id d) w (fst q) (snd q)) (ProcessWithdraw E c d w)"
  unfolding ProcessWithdraw_def
  by (intro flow) (auto simp: run_ok_def did_def own_row_def withdraw_log_ok_def dest!: did_steps)

lemma ProcessWithdraw_ok:
  "ProcessWithdraw E c d w = ((r, e), w') \<Longrightarrow> run_ok (d_Id d) w r e w'"
  using ensuresD [OF ProcessWithdraw_ensures] by fastforce

lemma isSubmitted_did: "isSubmitted C d w = (r, w') \<Longrightarrow> did j [] w w'"
  by (auto simp: isSubmitted_def split: prod.splits sum.splits dest: did_GetDeposit)

lemma run_ok_same: "did i [] w w' \<Longrightarrow> (\<forall>d'. r = Some d' \<longrightarrow> d_Id d' = i) \<Longrightarrow> (r = None \<longrightarrow> e \<noteq> None)
    \<Longrightarrow> run_ok i w r e w'"
  by (auto simp: run_ok_def withdraw_log_ok_def)

lemma depositCatchupContainer_Run_ok:
  assumes "depositCatchupContainer_Run E C c d w = ((r, e), w')"
  shows "run_ok (d_Id d) w r e w'"
proof (cases "d_WithdrawalStatus d = STATUS_SUBMITTING_TO_CORE")
  case False
  with assms show ?thesis unfolding depositCatchupContainer_Run_def
    by (cases "d_WithdrawalStatus d") (auto intro: ProcessWithdraw_ok run_ok_same did_refl)
next
  case True
  obtain q w1 where q: "isSubmitted C d w = (q, w1)" by fastforce
  note d1 = isSubmitted_did [OF q, of "d_Id d"]
  obtain u w2 where u: "depositsQ_UpdateStatus E (d_Id d) STATUS_PROCESSED w1 = (u, w2)" by fastforce
  have d2: "did (d_Id d) [] w w2" using did_trans [OF d1 did_UpdateStatus [OF u]] by simp
  show ?thesis
  proof (cases q)
    case (Inl err)
    with True assms q d1 show ?thesis
      by (intro run_ok_same) (auto simp: depositCatchupContainer_Run_def)
  next
    case (Inr b)
    have "w' = (if b then w2 else w1)" "r = None \<longrightarrow> e \<noteq> None" "\<forall>d'. r = Some d' \<longrightarrow> d' = d"
      using True assms q u Inr
      by (auto simp: depositCatchupContainer_Run_def split: if_splits option.splits)
    then show ?thesis using d1 d2 by (intro run_ok_same) (auto split: if_splits)
  qed
qed

subsection \<open>The contract of a withdrawal container\<close>

locale withdrawal_container =
  fixes run :: "'x env \<Rightarrow> 'x ChildClient \<Rightarrow> Deposit \<Rightarrow> 'x world
      \<Rightarrow> (Deposit option \<times> go_error option) \<times> 'x world"
  assumes run_ok: "run E c d w = ((r, e), w') \<Longrightarrow> run_ok (d_Id d) w r e w'"
begin

lemma run_did:
  assumes "run E c d w = ((r, e), w')"
  obtains L where "withdraw_log_ok (d_Id d) L" "did (d_Id d) L w w'"
  using run_ok [OF assms] by (auto simp: run_ok_def)

lemma run_own_row: "run E c d w = ((r, e), w') \<Longrightarrow> own_row (d_Id d) w w'"
  by (erule run_did) (simp add: did_def)

lemma run_pk: "run E c d w = ((r, e), w') \<Longrightarrow> pk_ok w' = pk_ok w"
  by (rule own_row_pk [OF run_own_row])

lemma run_id: "run E c d w = ((Some d', e), w') \<Longrightarrow> d_Id d' = d_Id d"
  by (drule run_ok) (simp add: run_ok_def)

lemma run_nil_is_error: "run E c d w = ((None, e), w') \<Longrightarrow> e \<noteq> None"
  by (drule run_ok) (simp add: run_ok_def)

lemma run_withdraws_after_check:
  assumes "run E c d w = ((r, e), w')"
  shows "\<exists>L. w_log w' = L @ w_log w \<and> withdraw_log_ok (d_Id d) L"
  using assms by (rule run_did) (auto simp: did_def)

lemma run_withdraws_at_most_once:
  assumes "run E c d w = ((r, e), w')"
  shows "length (filter (\<lambda>ev. ev = EvWithdraw i) (w_log w'))
    \<le> length (filter (\<lambda>ev. ev = EvWithdraw i) (w_log w)) + (if i = d_Id d then 1 else 0)"
  using run_withdraws_after_check [OF assms] by (auto simp: withdraw_log_ok_def)

end

interpretation broadcast: withdrawal_container depositBroadcastContainer_Run
  by unfold_locales (rule depositBroadcastContainer_Run_ok)

interpretation catchup: withdrawal_container "\<lambda>E. depositCatchupContainer_Run E C" for C
  by unfold_locales (rule depositCatchupContainer_Run_ok)

subsection \<open>Runs with a working database\<close>

lemma deposit_status_did: "did i L w w' \<Longrightarrow> j \<noteq> i \<Longrightarrow> deposit_status j w' = deposit_status j w"
  unfolding did_def by (blast dest: own_row_status)

lemma call_IsProcessed_status:
  "call_IsProcessed c d w = (q, w') \<Longrightarrow> deposit_status i w' = deposit_status i w"
  by (cases q) (auto dest!: call_IsProcessed_frame(1) deposit_status_same)

lemma executeWithdrawal_status:
  "executeWithdrawal E c d w = (q, w') \<Longrightarrow> deposit_status i w' = deposit_status i w"
  by (auto simp: executeWithdrawal_def Let_def split: prod.splits sum.splits option.splits
      dest!: call_Withdraw_frame(1) ext_call_frame(2) simp: same_tables_def deposit_status_def)

text \<open>With a working driver every statement succeeds: the runs become straight-line programs.\<close>

definition tick :: "'x env \<Rightarrow> 'x world \<Rightarrow> 'x world" where
  "tick E w = w\<lparr>w_ext := snd (x_sql E (w_ext w))\<rparr>"

lemma tick_simps [simp]:
  "w_deposits (tick E w) = w_deposits w" "w_signatures (tick E w) = w_signatures w"
  "w_latest (tick E w) = w_latest w" "w_cache (tick E w) = w_cache w" "w_log (tick E w) = w_log w"
  "deposit_status i (tick E w) = deposit_status i w" "pk_ok (tick E w) = pk_ok w"
  by (simp_all add: tick_def)

lemma sql_ok_db_Exec: "sql_ok E \<Longrightarrow> db_Exec E f w = (None, f (tick E w))"
  by (simp add: db_Exec_def ext_call_def tick_def sql_ok_def prod.case_eq_if)

lemma sql_ok_db_Query: "sql_ok E \<Longrightarrow> db_Query E q w = (Inr (q (tick E w)), tick E w)"
  by (simp add: db_Query_def ext_call_def tick_def sql_ok_def prod.case_eq_if)

definition set_status :: "DepositIdentifier \<Rightarrow> WithdrawalStatus \<Rightarrow> 'x world \<Rightarrow> 'x world" where
  "set_status i s = upd_deposits i (\<lambda>r. r\<lparr>d_WithdrawalStatus := s\<rparr>)"

definition set_details :: "Deposit \<Rightarrow> 'x world \<Rightarrow> 'x world" where
  "set_details d = upd_deposits (d_Id d) (\<lambda>r. r\<lparr>
       d_WithdrawalTxHash := d_WithdrawalTxHash d,
       d_WithdrawalChainBlock := d_WithdrawalChainBlock d,
       d_WithdrawalCoreBlock := d_WithdrawalCoreBlock d,
       d_WithdrawalStatus := d_WithdrawalStatus d,
       d_Operator := d_Operator d\<rparr>)"

lemma set_status_status [simp]:
  "deposit_status j (set_status i s w) =
     (if j = i then map_option (\<lambda>_. s) (deposit_status i w) else deposit_status j w)"
  by (simp add: set_status_def) (simp add: deposit_status_def option.map_comp comp_def)

lemma set_details_status [simp]:
  "deposit_status j (set_details d w) =
     (if j = d_Id d then map_option (\<lambda>_. d_WithdrawalStatus d) (deposit_status j w)
      else deposit_status j w)"
  by (simp add: set_details_def) (simp add: deposit_status_def option.map_comp comp_def)

lemma sql_ok_statements:
  assumes "sql_ok E"
  shows "depositsQ_UpdateStatus E i s w = (None, set_status i s (tick E w))"
    and "depositsQ_UpdateWithdrawalDetails E d w = (None, set_details d (tick E w))"
    and "mark_failed E d w = (d\<lparr>d_WithdrawalStatus := STATUS_FAILED\<rparr>,
           set_status (d_Id d) STATUS_FAILED (tick E w))"
  using assms
  by (simp_all add: depositsQ_UpdateStatus_def depositsQ_UpdateWithdrawalDetails_def
      mark_failed_def sql_ok_db_Exec set_status_def set_details_def)

lemma broadcast_run_status:
  assumes "sql_ok E" and "deposit_status (d_Id d) w \<noteq> None"
    and "depositBroadcastContainer_Run E c d w = ((r, e), w')"
  shows "\<exists>d'. r = Some d' \<and> deposit_status (d_Id d) w' = Some (d_WithdrawalStatus d') \<and>
    d_WithdrawalStatus d' \<in> (if e = None then {STATUS_SUBMITTING_TO_CORE, STATUS_ALREADY_WITHDRAWN}
                            else {STATUS_FAILED})"
proof -
  note run = assms(3) [unfolded depositBroadcastContainer_Run_def Let_def sql_ok_statements [OF assms(1)]]
  obtain b err w1 where ip: "call_IsProcessed c d w = ((b, err), w1)" by (metis prod.exhaust)
  have s1: "deposit_status (d_Id d) w1 = deposit_status (d_Id d) w"
    by (rule call_IsProcessed_status [OF ip])
  obtain d2 err2 w3 where ex: "executeWithdrawal E c (d\<lparr>d_WithdrawalStatus := STATUS_PROCESSING\<rparr>)
      (set_status (d_Id d) STATUS_PROCESSING (tick E w1)) = ((d2, err2), w3)"
    by (metis prod.exhaust)
  have s3: "deposit_status (d_Id d) w3 = Some STATUS_PROCESSING"
    using executeWithdrawal_status [OF ex, of "d_Id d"] s1 assms(2) by auto
  have d2: "d_Id d2 = d_Id d" using did_executeWithdrawal [OF ex] by simp
  show ?thesis
    using run ip ex s1 s3 d2 assms(2)
    by (cases err; cases b; cases err2) (auto simp del: not_None_eq)
qed

end
