(* ===== verification/Retrier.thy ===== *)
theory Retrier
  imports Prelude
begin

text \<open>
  \<open>internal/core/retry.go\<close>. \<open>retry.Do\<close> of avast/retry-go is not under \<open>src/\<close>: it is the
  argument \<open>retry_Do\<close>, which takes the number of attempts and the function to retry. The
  function works on a state (the variables it captures and the world) and may panic.
  What the library documents is \<open>retry_contract\<close>: the function is called again only after
  it returned an error, at most \<open>attempts\<close> times when that number is not 0, the result is nil
  exactly when the last call returned nil, and a panic of the function is not caught. A
  cancelled context may end the retries early, also before the first call.
\<close>

type_synonym 's retried = "'s \<Rightarrow> go_error option go_result \<times> 's"
type_synonym 's retry_fun = "nat \<Rightarrow> 's retried \<Rightarrow> 's retried"

definition DoWithRetry :: "'s retry_fun \<Rightarrow> nat \<Rightarrow> 's retried \<Rightarrow> 's retried" where
  "DoWithRetry retry_Do Retries f s = (case retry_Do Retries f s of
     (Returned err, s1) \<Rightarrow> (Returned (errors_Wrap err ''failed to execute function''), s1)
   | (Panic m, s1) \<Rightarrow> (Panic m, s1))"

text \<open>\<open>fails f k s s'\<close>: \<open>k\<close> calls of \<open>f\<close> from \<open>s\<close> all returned an error and ended in \<open>s'\<close>.\<close>

inductive fails :: "'s retried \<Rightarrow> nat \<Rightarrow> 's \<Rightarrow> 's \<Rightarrow> bool" for f where
  no_call: "fails f 0 s s"
| one_more: "fails f k s t \<Longrightarrow> f t = (Returned (Some e), u) \<Longrightarrow> fails f (Suc k) s u"

inductive_cases fails_SucE: "fails f (Suc k) s u"
inductive_simps fails_0 [simp]: "fails f 0 s u"

text \<open>The outcomes the library may produce for \<open>n\<close> attempts.\<close>

inductive retry_outcome ::
  "'s retried \<Rightarrow> nat \<Rightarrow> 's \<Rightarrow> go_error option go_result \<Rightarrow> 's \<Rightarrow> bool" for f n s where
  succeeded: "fails f k s t \<Longrightarrow> f t = (Returned None, u) \<Longrightarrow> (0 < n \<longrightarrow> k < n) \<Longrightarrow>
     retry_outcome f n s (Returned None) u"
| gave_up: "fails f k s u \<Longrightarrow> (0 < n \<longrightarrow> k \<le> n) \<Longrightarrow> retry_outcome f n s (Returned (Some e)) u"
| panicked: "fails f k s t \<Longrightarrow> f t = (Panic m, u) \<Longrightarrow> (0 < n \<longrightarrow> k < n) \<Longrightarrow>
     retry_outcome f n s (Panic m) u"

inductive_cases outcome_NoneE: "retry_outcome f n s (Returned None) u"
inductive_cases outcome_SomeE: "retry_outcome f n s (Returned (Some e)) u"
inductive_cases outcome_PanicE: "retry_outcome f n s (Panic m) u"

definition retry_contract :: "'s retry_fun \<Rightarrow> bool" where
  "retry_contract retry_Do \<longleftrightarrow>
     (\<forall>n f s. retry_outcome f n s (fst (retry_Do n f s)) (snd (retry_Do n f s)))"

lemma retry_contractD: "retry_contract R \<Longrightarrow> R n f s = (r, u) \<Longrightarrow> retry_outcome f n s r u"
  unfolding retry_contract_def by (metis fst_conv snd_conv)

lemma fails_invariant:
  assumes "fails f k s t" and "P s" and "\<And>s e t. P s \<Longrightarrow> f s = (Returned (Some e), t) \<Longrightarrow> P t"
  shows "P t"
  using assms(1,2) by (induction rule: fails.induct) (auto intro: assms(3))

text \<open>The rules the clients use.\<close>

lemma DoWithRetry_success:
  assumes "retry_contract R" and "DoWithRetry R n f s = (Returned None, s')"
  obtains k t where "fails f k s t" "f t = (Returned None, s')"
proof -
  from assms(2) have "R n f s = (Returned None, s')"
    by (auto simp: DoWithRetry_def split: prod.splits go_result.splits)
  from retry_contractD [OF assms(1) this] show thesis by (auto elim!: outcome_NoneE intro: that)
qed

lemma DoWithRetry_failure:
  assumes "retry_contract R" and "DoWithRetry R n f s = (Returned (Some e), s')"
  obtains k where "fails f k s s'" "0 < n \<longrightarrow> k \<le> n"
proof -
  from assms(2) obtain e' where "R n f s = (Returned (Some e'), s')"
    by (auto simp: DoWithRetry_def errors_Wrap_def split: prod.splits go_result.splits)
  from retry_contractD [OF assms(1) this] show thesis by (auto elim!: outcome_SomeE intro: that)
qed

lemma DoWithRetry_panic:
  assumes "retry_contract R" and "DoWithRetry R n f s = (Panic m, s')"
  obtains k t where "fails f k s t" "f t = (Panic m, s')"
proof -
  from assms(2) have "R n f s = (Panic m, s')"
    by (auto simp: DoWithRetry_def split: prod.splits go_result.splits)
  from retry_contractD [OF assms(1) this] show thesis by (auto elim!: outcome_PanicE intro: that)
qed

text \<open>A property of the captured state that every call keeps holds after the retries.\<close>

lemma DoWithRetry_invariant:
  assumes "retry_contract R" and "DoWithRetry R n f s = (r, s')" and "P s"
    and "\<And>s r t. P s \<Longrightarrow> f s = (r, t) \<Longrightarrow> P t"
  shows "P s'"
proof -
  have fails: "fails f k s t \<Longrightarrow> P t" for k t
    by (rule fails_invariant [of f k s t P]) (use assms(3,4) in auto)
  consider "r = Returned None" | e where "r = Returned (Some e)" | m where "r = Panic m"
    by (metis go_result.exhaust option.exhaust)
  then show ?thesis
  proof cases
    case 1
    with assms(1,2) show ?thesis by (auto elim!: DoWithRetry_success dest: fails intro: assms(4))
  next
    case (2 e)
    with assms(1,2) show ?thesis by (auto elim!: DoWithRetry_failure dest: fails)
  next
    case (3 m)
    with assms(1,2) show ?thesis by (auto elim!: DoWithRetry_panic dest: fails intro: assms(4))
  qed
qed

text \<open>Retrying a function that never panics never panics.\<close>

definition never_panics :: "('s \<Rightarrow> 'a go_result \<times> 's) \<Rightarrow> bool" where
  "never_panics f \<longleftrightarrow> (\<forall>s. returned (fst (f s)))"

lemma never_panicsD: "never_panics f \<Longrightarrow> f s = (Panic m, t) \<Longrightarrow> False"
  by (metis never_panics_def fst_conv returned.simps(2))

lemma returned_iff: "returned q \<longleftrightarrow> (\<exists>a. q = Returned a)"
  by (cases q) auto

lemma never_panicsI: "(\<And>s m t. f s = (Panic m, t) \<Longrightarrow> False) \<Longrightarrow> never_panics f"
  unfolding never_panics_def by (metis go_result.exhaust returned.simps(1) prod.collapse)

lemma DoWithRetry_never_panics:
  assumes "retry_contract R" and "never_panics f"
  shows "never_panics (DoWithRetry R n f)"
  by (rule never_panicsI) (auto elim: DoWithRetry_panic [OF assms(1)] never_panicsD [OF assms(2)])

text \<open>An instance of the contract, for witnesses: no delay, no cancellation.\<close>

fun retry_ref :: "'s retry_fun" where
  "retry_ref n f s = (case f s of
     (Returned (Some e), t) \<Rightarrow> if n \<le> 1 then (Returned (Some e), t) else retry_ref (n - 1) f t
   | r \<Rightarrow> r)"

declare retry_ref.simps [simp del]

lemma fails_Cons:
  assumes "fails f k t u" and "f s = (Returned (Some e), t)"
  shows "fails f (Suc k) s u"
  using assms by (induction rule: fails.induct) (auto intro: fails.intros)

lemma retry_outcome_Cons:
  assumes "retry_outcome f (n - 1) t r u" and "f s = (Returned (Some e), t)" and "1 < n"
  shows "retry_outcome f n s r u"
  using assms(1)
proof cases
  case (succeeded k v)
  with fails_Cons [where f = f, OF _ assms(2)] assms(3) show ?thesis
    by (auto intro!: retry_outcome.succeeded [of f "Suc k" s v])
next
  case (gave_up k e)
  with fails_Cons [where f = f, OF _ assms(2)] assms(3) show ?thesis
    by (auto intro: retry_outcome.gave_up [of f "Suc k"])
next
  case (panicked k v m)
  with fails_Cons [where f = f, OF _ assms(2)] assms(3) show ?thesis
    by (auto intro!: retry_outcome.panicked [of f "Suc k" s v])
qed

lemma retry_ref_outcome: "retry_ref n f s = (r, u) \<Longrightarrow> retry_outcome f n s r u"
proof (induction n arbitrary: s rule: less_induct)
  case (less n)
  obtain q t where ft: "f s = (q, t)" by fastforce
  consider "q = Returned None" | m where "q = Panic m" | e where "q = Returned (Some e)"
    by (metis go_result.exhaust option.exhaust)
  then show ?case
  proof cases
    case 1
    with ft less.prems have "r = Returned None" "u = t" by (auto simp: retry_ref.simps [of n f s])
    with ft 1 show ?thesis by (auto intro: retry_outcome.succeeded [OF fails.no_call])
  next
    case (2 m)
    with ft less.prems have "r = Panic m" "u = t" by (auto simp: retry_ref.simps [of n f s])
    with ft 2 show ?thesis by (auto intro: retry_outcome.panicked [OF fails.no_call])
  next
    case (3 e)
    show ?thesis
    proof (cases "n \<le> 1")
      case True
      with ft 3 less.prems have "r = Returned (Some e)" "u = t"
        by (auto simp: retry_ref.simps [of n f s])
      moreover have "fails f 1 s t" using fails_Cons [where f = f, OF fails.no_call, of s e t] ft 3 by simp
      ultimately show ?thesis by (auto intro: retry_outcome.gave_up)
    next
      case False
      with ft 3 less.prems have "retry_ref (n - 1) f t = (r, u)"
        by (auto simp: retry_ref.simps [of n f s])
      with less.IH False have "retry_outcome f (n - 1) t r u" by simp
      with ft 3 False show ?thesis by (auto intro: retry_outcome_Cons)
    qed
  qed
qed

lemma retry_ref_contract: "retry_contract retry_ref"
  unfolding retry_contract_def by (auto intro: retry_ref_outcome)

end
