(* ===== verification/Chain_Core.thy ===== *)
theory Chain_Core
  imports World
begin

text \<open>
  \<open>internal/core/chain\<close>: chain types, the repository of clients, the distribution of the
  operators' keys over child clients (the same code in the EVM, TON and Solana clients), and
  \<open>HexToCoordinates\<close>.
\<close>

subsection \<open>Chain types (\<open>types.go\<close>)\<close>

definition typesMap :: "string set" where
  "typesMap = {''EVM'', ''other'', ''TON'', ''SOL''}"

definition Type_Validate :: "string \<Rightarrow> go_error option" where
  "Type_Validate c = (if c \<in> typesMap then None else Some (Msg ''invalid chain type''))"

fun Type_string :: "ChainType \<Rightarrow> string" where
  "Type_string TypeEVM = ''EVM''"
| "Type_string TypeTON = ''TON''"
| "Type_string TypeSolana = ''SOL''"
| "Type_string TypeOther = ''other''"

text \<open>
  A configured chain. The values of type \<open>'v\<close> are untyped (\<open>any\<close>) until the constructor of
  the chain's client parses them with the \<open>figure\<close> library.
\<close>

record 'v ChainConfig =
  ch_Id :: string
  ch_Type :: string
  ch_Rpc :: 'v
  ch_BridgeAddresses :: 'v
  ch_OperatorsPrivateKeys :: "string list"
  ch_WSTimeout :: int64
  ch_WSRpc :: 'v
  ch_Workers :: int
  ch_GasPriceMultiplier :: int64
  ch_Meta :: 'v

subsection \<open>The repository (\<open>repository/repo.go\<close>)\<close>

record 'x clientsRepository =
  repo_clients :: "string \<Rightarrow> 'x ChainClient option"

text \<open>
  \<open>configure\<close> is the \<open>ConfigureChildClients\<close> method of a configured client \<open>'c\<close>; a client
  with the chain id of an earlier one replaces it.
\<close>

fun add_clients ::
  "('c \<Rightarrow> string) \<Rightarrow> ('c \<Rightarrow> 'x ChainClient) \<Rightarrow> 'c list \<Rightarrow> (string \<Rightarrow> 'x ChainClient option)
     \<Rightarrow> (string \<Rightarrow> 'x ChainClient option)" where
  "add_clients chain_id configure [] m = m"
| "add_clients chain_id configure (cl # cls) m =
     add_clients chain_id configure cls (m(chain_id cl \<mapsto> configure cl))"

definition NewClientsRepository ::
  "('c \<Rightarrow> string) \<Rightarrow> ('c \<Rightarrow> 'x ChainClient) \<Rightarrow> 'c list \<Rightarrow> 'x clientsRepository" where
  "NewClientsRepository chain_id configure clients =
     \<lparr>repo_clients = add_clients chain_id configure clients Map.empty\<rparr>"

definition repo_Client :: "'x clientsRepository \<Rightarrow> string \<Rightarrow> go_error + 'x ChainClient" where
  "repo_Client p chainId = (case repo_clients p chainId of
     None \<Rightarrow> Inl (Leaf ErrChainNotSupported) | Some cl \<Rightarrow> Inr cl)"

definition repo_Clients :: "'x clientsRepository \<Rightarrow> string \<Rightarrow> 'x ChainClient option" where
  "repo_Clients p = repo_clients p"

definition repo_SupportsChain :: "'x clientsRepository \<Rightarrow> string \<Rightarrow> bool" where
  "repo_SupportsChain p chainId \<longleftrightarrow> (case repo_clients p chainId of None \<Rightarrow> False | Some _ \<Rightarrow> True)"

lemma repo_Client_supported:
  "repo_SupportsChain p c \<longleftrightarrow> (\<exists>cl. repo_Client p c = Inr cl)"
  by (auto simp: repo_SupportsChain_def repo_Client_def split: option.splits)

lemma add_clients_lookup:
  "add_clients chain_id configure cls m c =
     (case find (\<lambda>cl. chain_id cl = c) (rev cls) of None \<Rightarrow> m c | Some cl \<Rightarrow> Some (configure cl))"
proof (induction cls arbitrary: m)
  case (Cons cl cls)
  then show ?case by (simp add: find_snoc split: option.splits)
qed simp

subsection \<open>Child clients and their signers\<close>

text \<open>
  \<open>ConfigureChildClients\<close> of the three chains: \<open>workers\<close> empty child clients, then key \<open>i\<close> is
  added to child \<open>i % workers\<close>. Go's \<open>%\<close> panics on a zero divisor. A child is the list of its
  signers; \<open>sgn_of\<close> makes a signer from a key (an EVM address, a Solana wallet).
\<close>

fun add_signers :: "nat \<Rightarrow> nat \<Rightarrow> ('k \<Rightarrow> 's) \<Rightarrow> 'k list \<Rightarrow> 's list list \<Rightarrow> 's list list go_result" where
  "add_signers workers i sgn_of [] childs = Returned childs"
| "add_signers workers i sgn_of (key # keys) childs =
     (if workers = 0 then Panic ''integer divide by zero''
      else let idx = i mod workers in
        add_signers workers (Suc i) sgn_of keys (childs[idx := childs ! idx @ [sgn_of key]]))"

definition configure_childs :: "nat \<Rightarrow> ('k \<Rightarrow> 's) \<Rightarrow> 'k list \<Rightarrow> 's list list go_result" where
  "configure_childs workers sgn_of keys = add_signers workers 0 sgn_of keys (replicate workers [])"

lemma add_signers_spec:
  assumes "add_signers workers i sgn_of keys childs = Returned cs" and "length childs = workers"
  shows "length cs = workers \<and> (\<forall>j < workers. cs ! j = childs ! j @
    map (\<lambda>n. sgn_of (keys ! n)) (filter (\<lambda>n. (i + n) mod workers = j) [0..<length keys]))"
  using assms
proof (induction workers i sgn_of keys childs rule: add_signers.induct)
  case (2 workers i sgn_of key keys childs)
  from "2.prems" have pos: "workers \<noteq> 0" by (auto split: if_splits)
  let ?idx = "i mod workers"
  from pos "2.prems"(1) have rest: "add_signers workers (Suc i) sgn_of keys
      (childs[?idx := childs ! ?idx @ [sgn_of key]]) = Returned cs" by (simp add: Let_def)
  note IH = "2.IH" [OF pos refl rest]
  have shift: "filter P [0..<Suc n] = (if P 0 then [0] else []) @ map Suc (filter (\<lambda>m. P (Suc m)) [0..<n])"
    for P n by (simp add: upt_conv_Cons map_Suc_upt [symmetric] filter_map comp_def del: upt_Suc)
  show ?case
    using IH "2.prems"(2) pos
    by (auto simp: shift nth_list_update comp_def simp del: upt_Suc)
qed simp

lemma configure_childs_spec:
  assumes "configure_childs workers sgn_of keys = Returned cs"
  shows "length cs = workers" and "j < workers \<Longrightarrow> cs ! j =
    map (\<lambda>n. sgn_of (keys ! n)) (filter (\<lambda>n. n mod workers = j) [0..<length keys])"
  using add_signers_spec [OF assms [unfolded configure_childs_def]] by auto

lemma add_signers_returned: "0 < workers \<Longrightarrow> \<exists>cs. add_signers workers i sgn_of keys childs = Returned cs"
  by (induction keys arbitrary: i childs) (auto simp: Let_def)

lemma configure_childs_returned:
  "(\<exists>cs. configure_childs workers sgn_of keys = Returned cs) \<longleftrightarrow> 0 < workers \<or> keys = []"
  by (cases keys) (auto simp: configure_childs_def Let_def dest: add_signers_returned)

text \<open>\<open>make([]*ChildClient, workers)\<close> panics on a negative length.\<close>

definition ConfigureChildClients :: "int \<Rightarrow> ('k \<Rightarrow> 's) \<Rightarrow> 'k list \<Rightarrow> 's list list go_result" where
  "ConfigureChildClients workers sgn_of keys =
     (if workers < 0 then Panic ''makeslice: len out of range''
      else configure_childs (nat workers) sgn_of keys)"

text \<open>The keys of a chain, parsed one by one; the first that does not parse is an error.\<close>

fun parse_keys :: "(string \<Rightarrow> go_error + 'k) \<Rightarrow> string \<Rightarrow> string list \<Rightarrow> go_error + 'k list" where
  "parse_keys key msg [] = Inr []"
| "parse_keys key msg (str # strs) = wrap_then (key str) msg
     (\<lambda>kp. case parse_keys key msg strs of Inl err \<Rightarrow> Inl err | Inr kps \<Rightarrow> Inr (kp # kps))"

lemma parse_keys_length: "parse_keys key msg strs = Inr ks \<Longrightarrow> length ks = length strs"
  by (induction strs arbitrary: ks) (auto simp: wrap_then_def split: sum.splits)

text \<open>
  The random choice of \<open>c.signers[rand.Intn(len(c.signers))]\<close> in a child client: \<open>rand.Intn(0)\<close>
  panics, and so does an index beyond the slice.
\<close>

definition pick_signer :: "(nat \<Rightarrow> 'x \<Rightarrow> nat \<times> 'x) \<Rightarrow> 'a list \<Rightarrow> 'x \<Rightarrow> 'a go_result \<times> 'x" where
  "pick_signer rand_Intn signers x =
     (if signers = [] then (Panic ''invalid argument to Intn'', x)
      else case rand_Intn (length signers) x of (i, x1) \<Rightarrow>
        if i < length signers then (Returned (signers ! i), x1) else (Panic ''index out of range'', x1))"

text \<open>What \<open>rand.Intn\<close> documents: a number below its positive argument.\<close>

definition rand_law :: "(nat \<Rightarrow> 'x \<Rightarrow> nat \<times> 'x) \<Rightarrow> bool" where
  "rand_law rand_Intn \<longleftrightarrow> (\<forall>n x. 0 < n \<longrightarrow> fst (rand_Intn n x) < n)"

lemma pick_signer_law:
  assumes "rand_law rand_Intn" and "signers \<noteq> []"
  obtains i x1 where "rand_Intn (length signers) x = (i, x1)" "i < length signers"
    "pick_signer rand_Intn signers x = (Returned (signers ! i), x1)"
proof -
  obtain i x1 where r: "rand_Intn (length signers) x = (i, x1)" by fastforce
  with assms have "i < length signers" unfolding rand_law_def by (metis fst_conv length_greater_0_conv)
  with r assms(2) that show thesis by (simp add: pick_signer_def)
qed

text \<open>The random choice of \<open>ChildClients()[rand.Intn(len(ChildClients()))]\<close>.\<close>

definition pick_random :: "'x env \<Rightarrow> 'a list \<Rightarrow> 'x world \<Rightarrow> 'a go_result \<times> 'x world" where
  "pick_random E xs w =
     (if xs = [] then (Panic ''invalid argument to Intn'', w)
      else case ext_call (x_Intn E (length xs)) w of (i, w1) \<Rightarrow>
        if i < length xs then (Returned (xs ! i), w1) else (Panic ''index out of range'', w1))"

lemma pick_random_world: "pick_random E xs w = (r, w') \<Longrightarrow> \<exists>x. w' = w\<lparr>w_ext := x\<rparr>"
  by (auto simp: pick_random_def ext_call_def split: if_splits prod.splits intro: exI [of _ "w_ext w"])

lemma pick_random_mem: "pick_random E xs w = (Returned x, w') \<Longrightarrow> x \<in> set xs"
  by (auto simp: pick_random_def split: if_splits prod.splits)

subsection \<open>Public keys (\<open>utils.go\<close>)\<close>

definition HexToCoordinates :: "string \<Rightarrow> go_error + (nat \<times> nat)" where
  "HexToCoordinates pubkeyHex =
     (let cleanHex = strings_TrimPrefix pubkeyHex ''0x'' in
      case hex_DecodeString cleanHex of
        Inl err \<Rightarrow> Inl (Wrap ''failed to decode pubkey hex'' err)
      | Inr pubKeyBytes \<Rightarrow>
          if length pubKeyBytes \<noteq> 65 \<or> pubKeyBytes ! 0 \<noteq> 4
          then Inl (Msg ''bad pubkey format'')
          else Inr (big_SetBytes (take 32 (drop 1 pubKeyBytes)),
                    big_SetBytes (take 32 (drop 33 pubKeyBytes))))"

end
