(* ===== verification/Broadcaster.thy ===== *)
theory Broadcaster
  imports Containers Retrier Chain_Core
begin

text \<open>
  \<open>internal/core/broadcaster\<close>: accepting deposits and epochs, the network workers and the
  core submitter. A goroutine that waits to send a container to a worker channel is a
  \<open>job\<close> that the operation returns. A \<open>select\<close> is the list of its outcomes.
\<close>

subsection \<open>State\<close>

record 'x Broadcaster =
  b_coreConnector :: "'x Connector"
  b_clientsRepo :: "'x clientsRepository"
  b_chainTxPoolSize :: int64
  b_submitTxPoolSize :: int64
  b_submitBatchSize :: int64
  b_recoveryAttempts :: uint64
  b_recoveryTimeout :: duration

definition WithRecoveryAttempts :: "'x Broadcaster \<Rightarrow> uint64 \<Rightarrow> 'x Broadcaster" where
  "WithRecoveryAttempts b attempts = b\<lparr>b_recoveryAttempts := attempts\<rparr>"

definition WithRecoveryTimeout :: "'x Broadcaster \<Rightarrow> duration \<Rightarrow> 'x Broadcaster" where
  "WithRecoveryTimeout b timeout = b\<lparr>b_recoveryTimeout := timeout\<rparr>"

definition WithClients :: "'x Broadcaster \<Rightarrow> 'x clientsRepository \<Rightarrow> 'x Broadcaster" where
  "WithClients b clients = b\<lparr>b_clientsRepo := clients\<rparr>"

definition WithChainTxPoolSize :: "'x Broadcaster \<Rightarrow> int64 \<Rightarrow> 'x Broadcaster" where
  "WithChainTxPoolSize b n = b\<lparr>b_chainTxPoolSize := n\<rparr>"

text \<open>It makes the channel of the submitter: \<open>make\<close> panics on a negative size.\<close>

definition WithSubmitTxPoolSize :: "'x Broadcaster \<Rightarrow> int64 \<Rightarrow> 'x Broadcaster go_result" where
  "WithSubmitTxPoolSize b n =
     (if sint n < 0 then Panic ''makechan: size out of range'' else Returned (b\<lparr>b_submitTxPoolSize := n\<rparr>))"

definition WithSubmitBatchSize :: "'x Broadcaster \<Rightarrow> int64 \<Rightarrow> 'x Broadcaster" where
  "WithSubmitBatchSize b n = b\<lparr>b_submitBatchSize := n\<rparr>"

text \<open>The containers of the four constructors \<open>New...Container\<close>.\<close>

datatype 'x WithdrawalContainer =
    DepositBroadcast "'x ChildClient" Deposit
  | DepositCatchUp "'x ChildClient" Deposit

datatype 'x UpdateSignersContainer =
    SignersBroadcast "'x ChildClient" Epoch
  | SignersCatchUp "'x ChildClient" Epoch

text \<open>A goroutine waiting to hand a container to the channel of a chain.\<close>

datatype 'x job =
    WithdrawJob string "'x WithdrawalContainer"
  | SignersJob string "'x UpdateSignersContainer"

fun container_deposit :: "'x WithdrawalContainer \<Rightarrow> Deposit" where
  "container_deposit (DepositBroadcast c d) = d"
| "container_deposit (DepositCatchUp c d) = d"

definition container_ID :: "'x WithdrawalContainer \<Rightarrow> string" where
  "container_ID c = Deposit_String (container_deposit c)"

fun container_Run ::
  "'x env \<Rightarrow> 'x Connector \<Rightarrow> 'x WithdrawalContainer \<Rightarrow> 'x world
     \<Rightarrow> (Deposit option \<times> go_error option) \<times> 'x world" where
  "container_Run E C (DepositBroadcast c d) w = depositBroadcastContainer_Run E c d w"
| "container_Run E C (DepositCatchUp c d) w = depositCatchupContainer_Run E C c d w"

fun signers_Run ::
  "'x env \<Rightarrow> 'x UpdateSignersContainer \<Rightarrow> 'x world
     \<Rightarrow> (Epoch option \<times> go_error option) \<times> 'x world" where
  "signers_Run E (SignersBroadcast c e) w = updateSignersBroadcastContainer_Run E c e w"
| "signers_Run E (SignersCatchUp c e) w = updateSignersCatchupContainer_Run E c e w"

subsection \<open>The cache of known deposits\<close>

definition cache_Load :: "string \<Rightarrow> 'x world \<Rightarrow> bool" where
  "cache_Load k w \<longleftrightarrow> k \<in> w_cache w"

definition cache_Store :: "string \<Rightarrow> 'x world \<Rightarrow> 'x world" where
  "cache_Store k w = w\<lparr>w_cache := insert k (w_cache w)\<rparr>"

definition cache_Delete :: "string \<Rightarrow> 'x world \<Rightarrow> 'x world" where
  "cache_Delete k w = w\<lparr>w_cache := w_cache w - {k}\<rparr>"

subsection \<open>Accepting a deposit\<close>

text \<open>
  \<open>checkExistence\<close> gets the deposit by value: the recovery attempt and timestamp it assigns
  at the end are assigned to its own copy, so only the reading of the clock is left of them.
\<close>

definition checkExistence ::
  "'x env \<Rightarrow> 'x Broadcaster \<Rightarrow> Deposit \<Rightarrow> 'x world \<Rightarrow> go_error option \<times> 'x world" where
  "checkExistence E b deposit w =
   (if cache_Load (Deposit_String deposit) w
    then (Some (Wrap (''deposit '' @ Deposit_String deposit @ '' already registered in service'')
                  (Leaf ErrAlreadyExists)), w)
    else case repo_Client (b_clientsRepo b) (d_WithdrawalChainId deposit) of
      Inl err \<Rightarrow> (Some (Wrap ''failed to get the withdrawal chain client'' err), w)
    | Inr client \<Rightarrow>
   (case ext_call (cl_IsProcessed client deposit) w of
      ((processed, Some err), w1) \<Rightarrow>
        (Some (Wrap ''failed to check if deposit is processed on-chain'' err), w1)
    | ((processed, None), w1) \<Rightarrow>
    if processed
    then (Some (Wrap (''deposit '' @ Deposit_String deposit @ '' already processed on-chain'')
                  (Leaf ErrAlreadyExists)), cache_Store (Deposit_String deposit) w1)
    else case depositsQ_Get E (d_Id deposit) w1 of
      (Inl err, w2) \<Rightarrow> (Some (Wrap ''failed to retrieve deposit data'' err), w2)
    | (Inr None, w2) \<Rightarrow> (None, w2)
    | (Inr (Some depositData), w2) \<Rightarrow>
    if d_WithdrawalStatus depositData \<noteq> STATUS_FAILED
    then (Some (Wrap (''deposit '' @ Deposit_String deposit @ '' is still processing'')
                  (Leaf ErrFailedToBroadcast)), w2)
    else if sint (d_RecoveryAttempts depositData) \<ge> sint (b_recoveryAttempts b)
    then (Some (Wrap (''deposit '' @ Deposit_String deposit @ '' already saved: max'')
                  (Leaf ErrAlreadyExists)), w2)
    else case ext_call (x_now E) w2 of (now, w3) \<Rightarrow>
    if time_Before now (d_RecoveryTimestamp depositData + b_recoveryTimeout b)
    then (Some (Wrap ''rate limit'' (Leaf ErrAlreadyExists)), w3)
    else (case ext_call (x_now E) w3 of (now2, w4) \<Rightarrow> (None, w4))))"

text \<open>
  \<open>BroadcastDeposit\<close> once \<open>checkExistence\<close> has found nothing against the deposit: the error, the
  goroutines started, or a panic. \<open>time.Now\<close> replaces a timestamp before the epoch (the zero
  value of a deposit read from the core). The lookup in the cache asks for another key than the one
  that is stored.
\<close>

definition BroadcastDeposit_accept ::
  "'x env \<Rightarrow> 'x Broadcaster \<Rightarrow> Deposit \<Rightarrow> 'x world
     \<Rightarrow> (go_error option \<times> 'x job list) go_result \<times> 'x world" where
  "BroadcastDeposit_accept E b deposit w1 =
   (let deposit1 = deposit\<lparr>d_WithdrawalStatus := STATUS_PENDING\<rparr> in
    case (if time_Unix (d_RecoveryTimestamp deposit1) < 0
          then (case ext_call (x_now E) w1 of (now, w2) \<Rightarrow>
                  (deposit1\<lparr>d_RecoveryTimestamp := now\<rparr>, w2))
          else (deposit1, w1)) of (deposit2, w2) \<Rightarrow>
    case depositsQ_Insert E deposit2 w2 of
      (Some err, w3) \<Rightarrow>
        (Returned (Some (Wrap (error_text err @ '': error storing deposit '' @ Deposit_String deposit2)
                          (Leaf ErrFailedToBroadcast)), []), w3)
    | (None, w3) \<Rightarrow>
    case repo_Client (b_clientsRepo b) (d_WithdrawalChainId deposit2) of
      Inl err \<Rightarrow>
        (Returned (Some (Wrap (''failed to get the withdrawal chain client, error: '' @ error_text err)
                          (Leaf ErrFailedToBroadcast)), []), w3)
    | Inr chainClient \<Rightarrow>
    case pick_random E (cl_ChildClients chainClient) w3 of
      (Panic m, w4) \<Rightarrow> (Panic m, w4)
    | (Returned client, w4) \<Rightarrow>
    let w5 = (if \<not> cache_Load (TxHash (d_Id deposit2)) w4
              then cache_Store (Deposit_String deposit2) w4 else w4)
    in (Returned (None, [WithdrawJob (d_WithdrawalChainId deposit2)
                           (DepositBroadcast client deposit2)]), w5))"

definition BroadcastDeposit ::
  "'x env \<Rightarrow> 'x Broadcaster \<Rightarrow> Deposit \<Rightarrow> 'x world
     \<Rightarrow> (go_error option \<times> 'x job list) go_result \<times> 'x world" where
  "BroadcastDeposit E b deposit w =
   (case checkExistence E b deposit w of
      (Some err, w1) \<Rightarrow>
        if errors_Is err ErrAlreadyExists
        then (Returned (Some (Wrap ''deposit already exists'' err), []), w1)
        else (Returned (Some (Wrap (error_text err) (Leaf ErrFailedToBroadcast)), []), w1)
    | (None, w1) \<Rightarrow> BroadcastDeposit_accept E b deposit w1)"

text \<open>\<open>CatchUp\<close> starts the container on its own copy, whose status is the one read before.\<close>

definition CatchUp ::
  "'x env \<Rightarrow> 'x Broadcaster \<Rightarrow> Deposit \<Rightarrow> 'x world
     \<Rightarrow> (go_error option \<times> 'x job list) go_result \<times> 'x world" where
  "CatchUp E b deposit w =
   (if cache_Load (Deposit_String deposit) w
    then (Returned (Some (Leaf ErrAlreadyExists), []), w)
    else case depositsQ_UpdateStatus E (d_Id deposit) STATUS_PENDING w of
      (Some err, w1) \<Rightarrow>
        (Returned (Some (Wrap (''failed to update status to pending: '' @ Deposit_String deposit) err), []), w1)
    | (None, w1) \<Rightarrow>
    let w2 = cache_Store (Deposit_String deposit) w1 in
    case repo_Client (b_clientsRepo b) (d_WithdrawalChainId deposit) of
      Inl err \<Rightarrow>
        (Returned (Some (Wrap (''failed to get the withdrawal chain client: '' @ Deposit_String deposit) err), []), w2)
    | Inr chainClient \<Rightarrow>
    case pick_random E (cl_ChildClients chainClient) w2 of
      (Panic m, w3) \<Rightarrow> (Panic m, w3)
    | (Returned client, w3) \<Rightarrow>
        (Returned (None, [WithdrawJob (d_WithdrawalChainId deposit) (DepositCatchUp client deposit)]), w3))"

subsection \<open>Accepting an epoch\<close>

definition BroadcastEpoch ::
  "'x env \<Rightarrow> 'x Broadcaster \<Rightarrow> Epoch \<Rightarrow> 'x world
     \<Rightarrow> (go_error option \<times> 'x job list) go_result \<times> 'x world" where
  "BroadcastEpoch E b epoch w =
   (case signaturesQ_Get E (epoch_identifier epoch) w of
      (Inl err, w1) \<Rightarrow>
        (Returned (Some (Wrap (''failed to check epoch existence: '' @ error_text err)
                          (Leaf ErrFailedToBroadcast)), []), w1)
    | (Inr (Some existing), w1) \<Rightarrow>
        (Returned (Some (Wrap (''epoch '' @ itoa (uint (e_Id epoch)) @ '' already exists'')
                          (Leaf ErrAlreadyExists)), []), w1)
    | (Inr None, w1) \<Rightarrow>
   (let epoch1 = epoch\<lparr>e_Status := EPOCH_STATUS_PENDING\<rparr> in
    case signaturesQ_Insert E epoch1 w1 of
      (Some err, w2) \<Rightarrow>
        (Returned (Some (Wrap (''failed to insert epoch: '' @ error_text err)
                          (Leaf ErrFailedToBroadcast)), []), w2)
    | (None, w2) \<Rightarrow>
    case repo_Client (b_clientsRepo b) (e_ChainId epoch1) of
      Inl err \<Rightarrow>
        (Returned (Some (Wrap (''failed to get the epoch chain client, error: '' @ error_text err)
                          (Leaf ErrFailedToBroadcast)), []), w2)
    | Inr chainClient \<Rightarrow>
    case pick_random E (cl_ChildClients chainClient) w2 of
      (Panic m, w3) \<Rightarrow> (Panic m, w3)
    | (Returned client, w3) \<Rightarrow>
        (Returned (None, [SignersJob (e_ChainId epoch1) (SignersBroadcast client epoch1)]), w3)))"

definition CatchUpEpoch ::
  "'x env \<Rightarrow> 'x Broadcaster \<Rightarrow> Epoch \<Rightarrow> 'x world
     \<Rightarrow> (go_error option \<times> 'x job list) go_result \<times> 'x world" where
  "CatchUpEpoch E b epoch w =
   (case repo_Client (b_clientsRepo b) (e_ChainId epoch) of
      Inl err \<Rightarrow>
        (Returned (Some (Wrap (''failed to get chain client for epoch '' @ itoa (uint (e_Id epoch))) err), []), w)
    | Inr chainClient \<Rightarrow>
    case pick_random E (cl_ChildClients chainClient) w of
      (Panic m, w1) \<Rightarrow> (Panic m, w1)
    | (Returned client, w1) \<Rightarrow>
        (Returned (None, [SignersJob (e_ChainId epoch) (SignersCatchUp client epoch)]), w1))"

subsection \<open>Network workers (\<open>network_worker.go\<close>)\<close>

text \<open>
  One received container. A failed run ends in \<open>b.cache.Delete(deposit.String())\<close>, which
  dereferences the returned pointer. A successful one sends the returned pointer to the
  submit channel: the result is what is sent, if anything.
\<close>

definition withdrawal_worker_step ::
  "'x env \<Rightarrow> 'x Connector \<Rightarrow> 'x WithdrawalContainer \<Rightarrow> 'x world
     \<Rightarrow> Deposit option list go_result \<times> 'x world" where
  "withdrawal_worker_step E C container w =
   (case container_Run E C container w of
      ((None, Some err), w1) \<Rightarrow> (Panic ''nil pointer dereference'', w1)
    | ((Some deposit, Some err), w1) \<Rightarrow>
        (Returned [], cache_Delete (Deposit_String deposit) w1)
    | ((deposit, None), w1) \<Rightarrow> (Returned [deposit], w1))"

fun runWithdrawalNetworkWorker ::
  "'x env \<Rightarrow> 'x Connector \<Rightarrow> 'x WithdrawalContainer select list \<Rightarrow> 'x world
     \<Rightarrow> Deposit option list go_result \<times> 'x world" where
  "runWithdrawalNetworkWorker E C [] w = (Returned [], w)"
| "runWithdrawalNetworkWorker E C (CtxDone # sel) w = (Returned [], w)"
| "runWithdrawalNetworkWorker E C (ChanClosed # sel) w = (Returned [], w)"
| "runWithdrawalNetworkWorker E C (Received container # sel) w =
     (case withdrawal_worker_step E C container w of
        (Panic m, w1) \<Rightarrow> (Panic m, w1)
      | (Returned sent, w1) \<Rightarrow>
          (case runWithdrawalNetworkWorker E C sel w1 of
             (Panic m, w2) \<Rightarrow> (Panic m, w2)
           | (Returned later, w2) \<Rightarrow> (Returned (sent @ later), w2)))"

fun runUpdateSignersNetworkWorker ::
  "'x env \<Rightarrow> 'x UpdateSignersContainer select list \<Rightarrow> 'x world \<Rightarrow> 'x world" where
  "runUpdateSignersNetworkWorker E [] w = w"
| "runUpdateSignersNetworkWorker E (CtxDone # sel) w = w"
| "runUpdateSignersNetworkWorker E (ChanClosed # sel) w = w"
| "runUpdateSignersNetworkWorker E (Received container # sel) w =
     (case signers_Run E container w of (r, w1) \<Rightarrow> runUpdateSignersNetworkWorker E sel w1)"

subsection \<open>The core submitter (\<open>core_submitter.go\<close>)\<close>

fun mark_processed :: "'x env \<Rightarrow> Deposit list \<Rightarrow> 'x world \<Rightarrow> 'x world" where
  "mark_processed E [] w = w"
| "mark_processed E (d # ds) w =
     (if d_WithdrawalStatus d \<noteq> STATUS_SUBMITTING_TO_CORE then mark_processed E ds w
      else case depositsQ_UpdateStatus E (d_Id d) STATUS_PROCESSED w of
        (err, w1) \<Rightarrow> mark_processed E ds w1)"

text \<open>The retried closure captures the pool, whose deposits \<open>UpdateTxInfo\<close> writes through.\<close>

definition updateTx :: "'x Connector \<Rightarrow> (Deposit list \<times> 'x world) retried" where
  "updateTx C s = (case s of (pool, w) \<Rightarrow>
     (case UpdateTxInfo C pool w of ((r, pool1), w1) \<Rightarrow> (r, (pool1, w1))))"

text \<open>One received deposit: the new pool, or a panic of the retried call.\<close>

definition submitter_step ::
  "'x env \<Rightarrow> (Deposit list \<times> 'x world) retry_fun \<Rightarrow> nat \<Rightarrow> 'x Connector \<Rightarrow> int64
     \<Rightarrow> Deposit \<Rightarrow> Deposit list \<times> 'x world \<Rightarrow> Deposit list go_result \<times> 'x world" where
  "submitter_step E retry_Do Retries C submitBatchSize deposit s =
   (case s of (submitTxPool, w) \<Rightarrow>
    let pool1 = submitTxPool @ [deposit] in
    if int (length pool1) < sint submitBatchSize then (Returned pool1, w)
    else case DoWithRetry retry_Do Retries (updateTx C) (pool1, w) of
      (Panic m, (pool2, w1)) \<Rightarrow> (Panic m, w1)
    | (Returned (Some err), (pool2, w1)) \<Rightarrow> (Returned pool2, w1)
    | (Returned None, (pool2, w1)) \<Rightarrow> (Returned [], mark_processed E pool2 w1))"

fun runCoreSubmitter ::
  "'x env \<Rightarrow> (Deposit list \<times> 'x world) retry_fun \<Rightarrow> nat \<Rightarrow> 'x Connector \<Rightarrow> int64
     \<Rightarrow> Deposit select list \<Rightarrow> Deposit list \<times> 'x world \<Rightarrow> Deposit list go_result \<times> 'x world" where
  "runCoreSubmitter E R n C k [] (pool, w) = (Returned pool, w)"
| "runCoreSubmitter E R n C k (CtxDone # sel) (pool, w) = (Returned pool, w)"
| "runCoreSubmitter E R n C k (ChanClosed # sel) (pool, w) = (Returned pool, w)"
| "runCoreSubmitter E R n C k (Received d # sel) (pool, w) =
     (case submitter_step E R n C k d (pool, w) of
        (Panic m, w1) \<Rightarrow> (Panic m, w1)
      | (Returned pool1, w1) \<Rightarrow> runCoreSubmitter E R n C k sel (pool1, w1))"

end
