(* ===== verification/Catch_Up.thy ===== *)
theory Catch_Up
  imports Broadcaster
begin

text \<open>
  \<open>internal/core/catch-upper/catch_up.go\<close>: at start-up the deposits left pending, processing
  or submitting, and the epochs left pending or failed, are given to the broadcaster again.
  The result is the error and the goroutines started, or a panic.
\<close>

fun catchup_deposits ::
  "'x env \<Rightarrow> 'x Broadcaster \<Rightarrow> Deposit list \<Rightarrow> 'x world \<Rightarrow> 'x job list go_result \<times> 'x world" where
  "catchup_deposits E b [] w = (Returned [], w)"
| "catchup_deposits E b (d # ds) w =
     (case CatchUp E b d w of
        (Panic m, w1) \<Rightarrow> (Panic m, w1)
      | (Returned (err, jobs), w1) \<Rightarrow>
          (case catchup_deposits E b ds w1 of
             (Panic m, w2) \<Rightarrow> (Panic m, w2)
           | (Returned later, w2) \<Rightarrow> (Returned (jobs @ later), w2)))"

fun catchup_epochs ::
  "'x env \<Rightarrow> 'x Broadcaster \<Rightarrow> Epoch list \<Rightarrow> 'x world \<Rightarrow> 'x job list go_result \<times> 'x world" where
  "catchup_epochs E b [] w = (Returned [], w)"
| "catchup_epochs E b (e # es) w =
     (case CatchUpEpoch E b e w of
        (Panic m, w1) \<Rightarrow> (Panic m, w1)
      | (Returned (err, jobs), w1) \<Rightarrow>
          (case catchup_epochs E b es w1 of
             (Panic m, w2) \<Rightarrow> (Panic m, w2)
           | (Returned later, w2) \<Rightarrow> (Returned (jobs @ later), w2)))"

definition catchupWithStatus ::
  "'x env \<Rightarrow> 'x Broadcaster \<Rightarrow> WithdrawalStatus \<Rightarrow> 'x world
     \<Rightarrow> (go_error option \<times> 'x job list) go_result \<times> 'x world" where
  "catchupWithStatus E b status w =
     (case depositsQ_GetWithStatus E status w of
        (Inl err, w1) \<Rightarrow> (Returned (Some (Wrap ''failed to get unprocessed deposits'' err), []), w1)
      | (Inr deposits, w1) \<Rightarrow>
          (case catchup_deposits E b deposits w1 of
             (Panic m, w2) \<Rightarrow> (Panic m, w2)
           | (Returned jobs, w2) \<Rightarrow> (Returned (None, jobs), w2)))"

definition catchupEpochsWithStatus ::
  "'x env \<Rightarrow> 'x Broadcaster \<Rightarrow> EpochStatus \<Rightarrow> 'x world
     \<Rightarrow> (go_error option \<times> 'x job list) go_result \<times> 'x world" where
  "catchupEpochsWithStatus E b status w =
     (case signaturesQ_GetWithStatus E status w of
        (Inl err, w1) \<Rightarrow> (Returned (Some (Wrap ''failed to get unprocessed epochs'' err), []), w1)
      | (Inr epochs, w1) \<Rightarrow>
          (case catchup_epochs E b epochs w1 of
             (Panic m, w2) \<Rightarrow> (Panic m, w2)
           | (Returned jobs, w2) \<Rightarrow> (Returned (None, jobs), w2)))"

text \<open>Running one pass after another, stopping at the first error.\<close>

definition then_pass ::
  "((go_error option \<times> 'x job list) go_result \<times> 'x world) \<Rightarrow> string
     \<Rightarrow> ('x world \<Rightarrow> (go_error option \<times> 'x job list) go_result \<times> 'x world)
     \<Rightarrow> (go_error option \<times> 'x job list) go_result \<times> 'x world" where
  "then_pass r msg f = (case r of
     (Panic m, w) \<Rightarrow> (Panic m, w)
   | (Returned (Some err, jobs), w) \<Rightarrow> (Returned (Some (Wrap msg err), jobs), w)
   | (Returned (None, jobs), w) \<Rightarrow>
       (case f w of
          (Panic m, w1) \<Rightarrow> (Panic m, w1)
        | (Returned (err, later), w1) \<Rightarrow> (Returned (err, jobs @ later), w1)))"

definition CatchUpper_Start ::
  "'x env \<Rightarrow> 'x Broadcaster \<Rightarrow> 'x world
     \<Rightarrow> (go_error option \<times> 'x job list) go_result \<times> 'x world" where
  "CatchUpper_Start E b w =
     then_pass (catchupWithStatus E b STATUS_PENDING w) ''catchup with status pending failed'' (\<lambda>w.
     then_pass (catchupWithStatus E b STATUS_PROCESSING w) ''catchup with status processing failed'' (\<lambda>w.
     then_pass (catchupWithStatus E b STATUS_SUBMITTING_TO_CORE w) ''catchup with status submitting failed'' (\<lambda>w.
     then_pass (catchupEpochsWithStatus E b EPOCH_STATUS_PENDING w) ''catchup epochs with status pending failed'' (\<lambda>w.
     then_pass (catchupEpochsWithStatus E b EPOCH_STATUS_FAILED w) ''catchup epochs with status failed failed'' (\<lambda>w.
       (Returned (None, []), w))))))"

end
