(* ===== verification/Observer.thy ===== *)
theory Observer
  imports Broadcaster
begin

text \<open>
  \<open>internal/core/observer\<close>: reading the blocks of the Bridgeless core, parsing the events of
  deposits and epochs, and handing them to the broadcaster. The tendermint client's
  \<open>BlockResults\<close>, the attribute keys of the core's bridge module and the JSON decoder of the
  transaction logs are parameters.
\<close>

subsection \<open>Events (\<open>types.go\<close>)\<close>

record Attribute =
  at_Key :: string
  at_Value :: string

record Event =
  ev_Type :: string
  ev_Attributes :: "Attribute list"

record MsgEvent =
  me_MsgIndex :: int
  me_Events :: "Event list"

record BlockEvents =
  be_Deposits :: "Deposit list"
  be_Epochs :: "Epoch list"

definition eventDepositSubmitted :: string where
  "eventDepositSubmitted = ''DEPOSIT_SUBMITTED''"

definition eventEpochUpdated :: string where
  "eventEpochUpdated = ''EPOCH_UPDATED''"

text \<open>Results of a block: the logs of its transactions and the events of its beginning.\<close>

record BlockResults =
  br_TxLogs :: "string list"
  br_BeginBlockEvents :: "Event list"

record log_decoder =
  json_Valid :: "string \<Rightarrow> bool"
  json_Unmarshal :: "string \<Rightarrow> go_error + MsgEvent list"

subsection \<open>Attribute keys\<close>

text \<open>Constants of \<open>bridgeless-core/x/bridge/types\<close>, not under \<open>src/\<close>.\<close>

record bridge_keys =
  key_DepositTxHash :: string
  key_DepositNonce :: string
  key_DepositChainId :: string
  key_DepositAmount :: string
  key_DepositToken :: string
  key_DepositBlock :: string
  key_WithdrawalAmount :: string
  key_Depositor :: string
  key_Receiver :: string
  key_WithdrawalChainID :: string
  key_WithdrawalTxHash :: string
  key_WithdrawalToken :: string
  key_Signature :: string
  key_IsWrapped :: string
  key_CommissionAmount :: string
  key_MerkleProof :: string
  key_EpochId :: string

text \<open>Constants of \<open>internal/db/signatures.go\<close>.\<close>

definition AttributeEpochId :: string where "AttributeEpochId = ''epoch_id''"
definition AttributeEpochSignature :: string where "AttributeEpochSignature = ''epoch_signature''"
definition AttributeEpochSigner :: string where "AttributeEpochSigner = ''epoch_signer''"
definition AttributeEpochNonce :: string where "AttributeEpochNonce = ''epoch_nonce''"
definition AttributeEpochStartTime :: string where "AttributeEpochStartTime = ''epoch_start_time''"
definition AttributeEpochEndTime :: string where "AttributeEpochEndTime = ''epoch_end_time''"
definition AttributeEpochSignatureMode :: string where
  "AttributeEpochSignatureMode = ''epoch_signature_mode''"
definition AttributeChainId :: string where "AttributeChainId = ''chain_id''"

lemmas epoch_keys = AttributeEpochId_def AttributeEpochSignature_def AttributeEpochSigner_def
  AttributeEpochNonce_def AttributeEpochStartTime_def AttributeEpochEndTime_def
  AttributeEpochSignatureMode_def AttributeChainId_def

subsection \<open>Parsing attributes (\<open>utils.go\<close>)\<close>

definition parse_epoch_attribute :: "Attribute \<Rightarrow> Epoch \<Rightarrow> go_error + Epoch" where
  "parse_epoch_attribute a epoch =
   (let key = at_Key a; v = at_Value a in
    if key = AttributeEpochId then
      (case ParseUint v 32 of Inl err \<Rightarrow> Inl (Wrap ''failed to parse epoch id'' err)
       | Inr n \<Rightarrow> Inr (epoch\<lparr>e_Id := word_of_nat n\<rparr>))
    else if key = AttributeChainId then Inr (epoch\<lparr>e_ChainId := v\<rparr>)
    else if key = AttributeEpochSignature then Inr (epoch\<lparr>e_Signature := v\<rparr>)
    else if key = AttributeEpochSigner then Inr (epoch\<lparr>e_Signer := v\<rparr>)
    else if key = AttributeEpochStartTime then
      (case ParseUint v 64 of Inl err \<Rightarrow> Inl (Wrap ''failed to parse start time'' err)
       | Inr n \<Rightarrow> Inr (epoch\<lparr>e_StartTime := word_of_nat n\<rparr>))
    else if key = AttributeEpochEndTime then
      (case ParseUint v 64 of Inl err \<Rightarrow> Inl (Wrap ''failed to parse end time'' err)
       | Inr n \<Rightarrow> Inr (epoch\<lparr>e_EndTime := word_of_nat n\<rparr>))
    else if key = AttributeEpochNonce then Inr (epoch\<lparr>e_Nonce := v\<rparr>)
    else if key = AttributeEpochSignatureMode then
      (case ParseBool v of Inl err \<Rightarrow> Inl (Wrap ''failed to parse signature mode'' err)
       | Inr b \<Rightarrow> Inr (epoch\<lparr>e_SignatureMode := b\<rparr>))
    else Inr epoch)"

fun parse_epoch_attributes :: "Attribute list \<Rightarrow> Epoch \<Rightarrow> go_error + Epoch" where
  "parse_epoch_attributes [] epoch = Inr epoch"
| "parse_epoch_attributes (a # attrs) epoch =
     (case parse_epoch_attribute a epoch of Inl err \<Rightarrow> Inl err
      | Inr epoch1 \<Rightarrow> parse_epoch_attributes attrs epoch1)"

definition parseUpdatedEpochs :: "Attribute list \<Rightarrow> go_error + Epoch" where
  "parseUpdatedEpochs attrs = parse_epoch_attributes attrs zero_Epoch"

definition parse_deposit_attribute :: "bridge_keys \<Rightarrow> Attribute \<Rightarrow> Deposit \<Rightarrow> go_error + Deposit" where
  "parse_deposit_attribute K a d =
   (let key = at_Key a; v = at_Value a in
    if key = key_DepositTxHash K then Inr (d\<lparr>d_Id := (d_Id d)\<lparr>TxHash := v\<rparr>\<rparr>)
    else if key = key_DepositNonce K then
      (case ParseInt64 v of Inl err \<Rightarrow> Inl (Wrap ''failed to parse deposit nonce'' err)
       | Inr n \<Rightarrow> Inr (d\<lparr>d_Id := (d_Id d)\<lparr>TxNonce := word_of_int n\<rparr>\<rparr>))
    else if key = key_DepositChainId K then Inr (d\<lparr>d_Id := (d_Id d)\<lparr>ChainId := v\<rparr>\<rparr>)
    else if key = key_DepositAmount K then Inr (d\<lparr>d_DepositAmount := v\<rparr>)
    else if key = key_DepositToken K then Inr (d\<lparr>d_DepositToken := v\<rparr>)
    else if key = key_DepositBlock K then
      (case ParseInt64 v of Inl err \<Rightarrow> Inl (Wrap ''failed to parse deposit block'' err)
       | Inr n \<Rightarrow> Inr (d\<lparr>d_DepositBlock := word_of_int n\<rparr>))
    else if key = key_WithdrawalAmount K then Inr (d\<lparr>d_WithdrawalAmount := v\<rparr>)
    else if key = key_Depositor K then Inr (d\<lparr>d_Depositor := v\<rparr>)
    else if key = key_Receiver K then Inr (d\<lparr>d_Receiver := v\<rparr>)
    else if key = key_WithdrawalChainID K then Inr (d\<lparr>d_WithdrawalChainId := v\<rparr>)
    else if key = key_WithdrawalTxHash K then
      Inr (if v \<noteq> [] then d\<lparr>d_WithdrawalTxHash := Some v\<rparr> else d)
    else if key = key_WithdrawalToken K then Inr (d\<lparr>d_WithdrawalToken := v\<rparr>)
    else if key = key_Signature K then Inr (if v \<noteq> [] then d\<lparr>d_Signature := v\<rparr> else d)
    else if key = key_IsWrapped K then
      (case ParseBool v of Inl err \<Rightarrow> Inl (Wrap ''failed to parse isWrapped attribute'' err)
       | Inr b \<Rightarrow> Inr (d\<lparr>d_IsWrappedToken := b\<rparr>))
    else if key = key_CommissionAmount K then Inr (d\<lparr>d_CommissionAmount := v\<rparr>)
    else if key = key_MerkleProof K then Inr (d\<lparr>d_MerkleProof := v\<rparr>)
    else if key = key_EpochId K then Inr d
    else Inl (Wrap ''failed to parse attribute'' (Msg (''unknown attribute key: '' @ key))))"

fun parse_deposit_attributes ::
  "bridge_keys \<Rightarrow> Attribute list \<Rightarrow> Deposit \<Rightarrow> go_error + Deposit" where
  "parse_deposit_attributes K [] d = Inr d"
| "parse_deposit_attributes K (a # attrs) d =
     (case parse_deposit_attribute K a d of Inl err \<Rightarrow> Inl err
      | Inr d1 \<Rightarrow> parse_deposit_attributes K attrs d1)"

definition parseSubmittedDeposit :: "bridge_keys \<Rightarrow> Attribute list \<Rightarrow> go_error + Deposit" where
  "parseSubmittedDeposit K attrs = parse_deposit_attributes K attrs zero_Deposit"

subsection \<open>Parsing blocks (\<open>observer.go\<close>)\<close>

fun parseEpochsFromBlockEvents :: "Event list \<Rightarrow> go_error + Epoch list" where
  "parseEpochsFromBlockEvents [] = Inr []"
| "parseEpochsFromBlockEvents (event # events) =
     (if ev_Type event \<noteq> eventEpochUpdated then parseEpochsFromBlockEvents events
      else case parseUpdatedEpochs (ev_Attributes event) of
        Inl err \<Rightarrow> Inl (Wrap ''failed to parse epoch'' err)
      | Inr epoch \<Rightarrow> map_sum id (\<lambda>es. epoch # es) (parseEpochsFromBlockEvents events))"

fun parse_events :: "bridge_keys \<Rightarrow> Event list \<Rightarrow> go_error + Deposit list" where
  "parse_events K [] = Inr []"
| "parse_events K (event # events) =
     (if ev_Type event \<noteq> eventDepositSubmitted then parse_events K events
      else case parseSubmittedDeposit K (ev_Attributes event) of
        Inl err \<Rightarrow> Inl (Wrap ''failed to parse deposit'' err)
      | Inr d \<Rightarrow> map_sum id (\<lambda>ds. d # ds) (parse_events K events))"

fun parseDepositsFromTxResults ::
  "bridge_keys \<Rightarrow> log_decoder \<Rightarrow> string list \<Rightarrow> go_error + Deposit list" where
  "parseDepositsFromTxResults K J [] = Inr []"
| "parseDepositsFromTxResults K J (log # logs) =
     (if log = [] \<or> \<not> json_Valid J log then parseDepositsFromTxResults K J logs
      else case json_Unmarshal J log of
        Inl err \<Rightarrow> Inl (Wrap (''Failed to unmarshal log: '' @ log) err)
      | Inr msgs \<Rightarrow>
      (case parse_events K (concat (map me_Events msgs)) of
         Inl err \<Rightarrow> Inl err
       | Inr ds \<Rightarrow> map_sum id (\<lambda>rest. ds @ rest) (parseDepositsFromTxResults K J logs)))"

subsection \<open>The observer\<close>

record 'x Observer =
  o_clientsRepo :: "'x clientsRepository"
  o_broadcaster :: "'x Broadcaster"
  o_pollingInterval :: duration
  o_blockDelay :: duration
  o_blockDistance :: uint64
  o_BlockResults :: "int64 \<Rightarrow> 'x \<Rightarrow> (go_error + BlockResults) \<times> 'x"
  o_keys :: bridge_keys
  o_decoder :: log_decoder
  o_Retries :: nat

text \<open>
  The two instances of \<open>retry.Do\<close>: the captured variable is \<open>info\<close> (the last block height)
  or \<open>blockResult\<close>, nil before the first successful call.
\<close>

type_synonym 'x height_retry = "(int64 option \<times> 'x world) retry_fun"
type_synonym 'x block_retry = "(BlockResults option \<times> 'x world) retry_fun"

definition abci_call :: "'x env \<Rightarrow> (int64 option \<times> 'x world) retried" where
  "abci_call E s = (case s of (info, w) \<Rightarrow>
     (case ext_call (x_ABCIInfo E) w of
        (Inl err, w1) \<Rightarrow> (Returned (Some (Wrap ''failed to get ABCI info'' err)), (None, w1))
      | (Inr height, w1) \<Rightarrow> (Returned None, (Some height, w1))))"

definition getCurrentHeight ::
  "'x env \<Rightarrow> 'x height_retry \<Rightarrow> nat \<Rightarrow> 'x world \<Rightarrow> (go_error + uint64) go_result \<times> 'x world" where
  "getCurrentHeight E R n w = (case DoWithRetry R n (abci_call E) (None, w) of
     (Panic m, (info, w1)) \<Rightarrow> (Panic m, w1)
   | (Returned (Some err), (info, w1)) \<Rightarrow>
       (Returned (Inl (Wrap ''failed to get current height'' err)), w1)
   | (Returned None, (None, w1)) \<Rightarrow> (Panic ''nil pointer dereference'', w1)
   | (Returned None, (Some height, w1)) \<Rightarrow> (Returned (Inr height), w1))"

definition block_call :: "'x Observer \<Rightarrow> int64 \<Rightarrow> (BlockResults option \<times> 'x world) retried" where
  "block_call ob height s = (case s of (r, w) \<Rightarrow>
     (case ext_call (o_BlockResults ob height) w of
        (Inl err, w1) \<Rightarrow> (Returned (Some (Wrap ''failed to get block results'' err)), (None, w1))
      | (Inr res, w1) \<Rightarrow> (Returned None, (Some res, w1))))"

definition fetchBlockEvents ::
  "'x Observer \<Rightarrow> 'x block_retry \<Rightarrow> int64 \<Rightarrow> 'x world
     \<Rightarrow> (go_error + BlockEvents) go_result \<times> 'x world" where
  "fetchBlockEvents ob R height w =
   (case DoWithRetry R (o_Retries ob) (block_call ob height) (None, w) of
      (Panic m, (r, w1)) \<Rightarrow> (Panic m, w1)
    | (Returned (Some err), (r, w1)) \<Rightarrow>
        (Returned (Inl (Wrap ''failed to get block results'' err)), w1)
    | (Returned None, (None, w1)) \<Rightarrow> (Panic ''nil pointer dereference'', w1)
    | (Returned None, (Some blockResult, w1)) \<Rightarrow>
    (case parseDepositsFromTxResults (o_keys ob) (o_decoder ob) (br_TxLogs blockResult) of
       Inl err \<Rightarrow> (Returned (Inl (Wrap ''failed to parse deposits from tx results'' err)), w1)
     | Inr deposits \<Rightarrow>
    (case parseEpochsFromBlockEvents (br_BeginBlockEvents blockResult) of
       Inl err \<Rightarrow> (Returned (Inl (Wrap ''failed to parse epochs from block events'' err)), w1)
     | Inr epochs \<Rightarrow> (Returned (Inr \<lparr>be_Deposits = deposits, be_Epochs = epochs\<rparr>), w1))))"

text \<open>The wait may last for ever: \<open>None\<close>. The difference of the heights wraps around.\<close>

partial_function (option) waitForBlockDistance ::
  "'x env \<Rightarrow> 'x height_retry \<Rightarrow> nat \<Rightarrow> uint64 \<Rightarrow> uint64 \<Rightarrow> 'x world
     \<Rightarrow> (unit go_result \<times> 'x world) option" where
  "waitForBlockDistance E R n blockDistance startHeight w =
     (case getCurrentHeight E R n w of (q, w1) \<Rightarrow>
      (case q of
         Panic m \<Rightarrow> Some (Panic m, w1)
       | Returned h \<Rightarrow>
      (case h of
         Inl err \<Rightarrow> Some (Returned (), w1)
       | Inr currentHeight \<Rightarrow>
          let gap = currentHeight - startHeight in
          if gap \<ge> blockDistance then Some (Returned (), w1)
          else waitForBlockDistance E R n blockDistance startHeight w1)))"

definition isProcessed :: "Deposit \<Rightarrow> bool" where
  "isProcessed deposit \<longleftrightarrow> d_WithdrawalTxHash deposit \<noteq> None"

definition broadcastDeposit ::
  "'x env \<Rightarrow> 'x Observer \<Rightarrow> Deposit \<Rightarrow> 'x world
     \<Rightarrow> (go_error option \<times> 'x job list) go_result \<times> 'x world" where
  "broadcastDeposit E ob deposit w =
     (if isProcessed deposit \<or> \<not> repo_SupportsChain (o_clientsRepo ob) (d_WithdrawalChainId deposit)
      then (Returned (Some (Leaf SkippedDeposit), []), w)
      else case BroadcastDeposit E (o_broadcaster ob) deposit w of
        (Panic m, w1) \<Rightarrow> (Panic m, w1)
      | (Returned (err, jobs), w1) \<Rightarrow>
          (Returned (errors_Wrap err ''failed to broadcast deposit'', jobs), w1))"

fun broadcast_deposits ::
  "'x env \<Rightarrow> 'x Observer \<Rightarrow> Deposit list \<Rightarrow> 'x world \<Rightarrow> 'x job list go_result \<times> 'x world" where
  "broadcast_deposits E ob [] w = (Returned [], w)"
| "broadcast_deposits E ob (d # ds) w =
     (case broadcastDeposit E ob d w of
        (Panic m, w1) \<Rightarrow> (Panic m, w1)
      | (Returned (err, jobs), w1) \<Rightarrow>
          (case broadcast_deposits E ob ds w1 of
             (Panic m, w2) \<Rightarrow> (Panic m, w2)
           | (Returned later, w2) \<Rightarrow> (Returned (jobs @ later), w2)))"

fun broadcast_epochs ::
  "'x env \<Rightarrow> 'x Observer \<Rightarrow> Epoch list \<Rightarrow> 'x world \<Rightarrow> 'x job list go_result \<times> 'x world" where
  "broadcast_epochs E ob [] w = (Returned [], w)"
| "broadcast_epochs E ob (e # es) w =
     (case BroadcastEpoch E (o_broadcaster ob) e w of
        (Panic m, w1) \<Rightarrow> (Panic m, w1)
      | (Returned (err, jobs), w1) \<Rightarrow>
          (case broadcast_epochs E ob es w1 of
             (Panic m, w2) \<Rightarrow> (Panic m, w2)
           | (Returned later, w2) \<Rightarrow> (Returned (jobs @ later), w2)))"

text \<open>Before the loop of \<open>fetchEvents\<close>: the start height is stored, and 0 means the newest.\<close>

definition fetchEvents_init ::
  "'x env \<Rightarrow> 'x height_retry \<Rightarrow> 'x Observer \<Rightarrow> uint64 \<Rightarrow> 'x world
     \<Rightarrow> (go_error + uint64) go_result \<times> 'x world" where
  "fetchEvents_init E R ob startHeight w =
   (case blocksQ_Insert E \<lparr>lb_Id = 0, lb_BlockId = startHeight\<rparr> w of
      (Some err, w1) \<Rightarrow> (Returned (Inl (Wrap ''failed to insert latest block'' err)), w1)
    | (None, w1) \<Rightarrow>
    if startHeight = 0 then
      (case getCurrentHeight E R (o_Retries ob) w1 of
         (Panic m, w2) \<Rightarrow> (Panic m, w2)
       | (Returned (Inl err), w2) \<Rightarrow>
           (Returned (Inl (Wrap ''failed to get current height'' err)), w2)
       | (Returned (Inr latestHeight), w2) \<Rightarrow> (Returned (Inr latestHeight), w2))
    else (Returned (Inr startHeight), w1))"

text \<open>One tick of the loop: the next height and the goroutines started.\<close>

definition fetchEvents_tick ::
  "'x env \<Rightarrow> 'x height_retry \<Rightarrow> 'x block_retry \<Rightarrow> 'x Observer \<Rightarrow> uint64 \<Rightarrow> 'x world
     \<Rightarrow> ((uint64 \<times> 'x job list) go_result \<times> 'x world) option" where
  "fetchEvents_tick E R Rb ob startHeight w =
   (case getCurrentHeight E R (o_Retries ob) w of
      (Panic m, w1) \<Rightarrow> Some (Panic m, w1)
    | (Returned (Inl err), w1) \<Rightarrow> Some (Returned (startHeight, []), w1)
    | (Returned (Inr currentHeight), w1) \<Rightarrow>
   (case waitForBlockDistance E R (o_Retries ob) (o_blockDistance ob) startHeight w1 of
      None \<Rightarrow> None
    | Some (Panic m, w2) \<Rightarrow> Some (Panic m, w2)
    | Some (Returned _, w2) \<Rightarrow>
    if startHeight > currentHeight then Some (Returned (startHeight, []), w2)
    else case blocksQ_UpdateLatestBlockId E \<lparr>lb_Id = 0, lb_BlockId = startHeight\<rparr> w2 of
      (Some err, w3) \<Rightarrow> Some (Returned (startHeight + 1, []), w3)
    | (None, w3) \<Rightarrow>
   (case fetchBlockEvents ob Rb startHeight w3 of
      (Panic m, w4) \<Rightarrow> Some (Panic m, w4)
    | (Returned (Inl err), w4) \<Rightarrow> Some (Returned (startHeight + 1, []), w4)
    | (Returned (Inr events), w4) \<Rightarrow>
   (case broadcast_deposits E ob (be_Deposits events) w4 of
      (Panic m, w5) \<Rightarrow> Some (Panic m, w5)
    | (Returned jobs, w5) \<Rightarrow>
   (case broadcast_epochs E ob (be_Epochs events) w5 of
      (Panic m, w6) \<Rightarrow> Some (Panic m, w6)
    | (Returned later, w6) \<Rightarrow> Some (Returned (startHeight + 1, jobs @ later), w6))))))"

text \<open>The loop over the outcomes of \<open>select\<close>: a tick of the ticker, or the context is done.\<close>

fun fetchEvents_loop ::
  "'x env \<Rightarrow> 'x height_retry \<Rightarrow> 'x block_retry \<Rightarrow> 'x Observer \<Rightarrow> unit select list
     \<Rightarrow> uint64 \<Rightarrow> 'x world \<Rightarrow> ((uint64 \<times> 'x job list) go_result \<times> 'x world) option" where
  "fetchEvents_loop E R Rb ob [] startHeight w = Some (Returned (startHeight, []), w)"
| "fetchEvents_loop E R Rb ob (CtxDone # sel) startHeight w = Some (Returned (startHeight, []), w)"
| "fetchEvents_loop E R Rb ob (ChanClosed # sel) startHeight w =
     fetchEvents_loop E R Rb ob sel startHeight w"
| "fetchEvents_loop E R Rb ob (Received _ # sel) startHeight w =
     (case fetchEvents_tick E R Rb ob startHeight w of
        None \<Rightarrow> None
      | Some (Panic m, w1) \<Rightarrow> Some (Panic m, w1)
      | Some (Returned (next, jobs), w1) \<Rightarrow>
          (case fetchEvents_loop E R Rb ob sel next w1 of
             None \<Rightarrow> None
           | Some (Panic m, w2) \<Rightarrow> Some (Panic m, w2)
           | Some (Returned (final, later), w2) \<Rightarrow> Some (Returned (final, jobs @ later), w2)))"

end
