(* ===== verification/Api.thy ===== *)
theory Api
  imports Broadcaster
begin

text \<open>
  The RPC handlers of \<open>internal/api/grpc\<close> with \<open>internal/api/common\<close>, the recovery
  parameters of \<open>internal/config/recovery.go\<close> and \<open>RecoveryInterceptor\<close> of
  \<open>internal/api/middlewares\<close>. A response is the status of an error or the message,
  \<open>None\<close> for a nil message. The validation library and the texts it prints are parameters.
\<close>

subsection \<open>Messages (\<open>internal/types/deposit.pb.go\<close>, \<open>internal/api/types/api.pb.go\<close>)\<close>

datatype code = OK | InvalidArgument | NotFound | Internal | Unimplemented

type_synonym status = "code \<times> string"

record WithdrawalIdentifier =
  wi_TxHash :: "string option"
  wi_ChainId :: string
  wi_WithdrawalCoreBlock :: "int64 option"
  wi_WithdrawalChainBlock :: "int64 option"
  wi_Operator :: string

record TransferData =
  td_Sender :: "string option"
  td_Receiver :: string
  td_DepositAmount :: string
  td_WithdrawalAmount :: string
  td_CommissionAmount :: string
  td_DepositAsset :: string
  td_WithdrawalAsset :: string
  td_IsWrappedAsset :: bool
  td_DepositBlock :: int64
  td_Signature :: "string option"
  td_MerkleProof :: string
  td_TxData :: string

record Recovery =
  rec_Attempts :: "32 word"
  rec_Timestamp :: int64

record CheckWithdrawalResponse =
  cw_DepositIdentifier :: DepositIdentifier
  cw_TransferData :: TransferData
  cw_WithdrawalStatus :: WithdrawalStatus
  cw_WithdrawalIdentifier :: WithdrawalIdentifier
  cw_Recovery :: Recovery

record GetWithdrawalsByStatusRequest =
  gw_WithdrawalStatus :: "32 word"
  gw_Page :: uint64
  gw_Limit :: uint64

subsection \<open>Validation and conversion (\<open>common.go\<close>)\<close>

text \<open>
  \<open>go-ozzo/ozzo-validation\<close>: \<open>Required\<close>, \<open>Min\<close> and \<open>Errors.Filter\<close>, with what they document.
\<close>

record ozzo =
  oz_Required :: "string \<Rightarrow> go_error option"
  oz_Min :: "int \<Rightarrow> int64 \<Rightarrow> go_error option"
  oz_Filter :: "(string \<times> go_error option) list \<Rightarrow> go_error option"

definition ozzo_contract :: "ozzo \<Rightarrow> bool" where
  "ozzo_contract V \<longleftrightarrow> (\<forall>s. oz_Required V s = None \<longleftrightarrow> s \<noteq> [])
     \<and> (\<forall>k n. oz_Min V k n = None \<longleftrightarrow> k \<le> sint n)
     \<and> (\<forall>es. oz_Filter V es = None \<longleftrightarrow> (\<forall>e \<in> set es. snd e = None))"

definition ValidateIdentifier :: "ozzo \<Rightarrow> DepositIdentifier option \<Rightarrow> go_error option" where
  "ValidateIdentifier V identifier = (case identifier of
     None \<Rightarrow> Some (Msg ''identifier is required'')
   | Some i \<Rightarrow> oz_Filter V
       [(''tx_hash'', oz_Required V (TxHash i)),
        (''chain_id'', oz_Required V (ChainId i)),
        (''tx_nonce'', oz_Min V 0 (TxNonce i))])"

definition ValidateTxHash :: "DepositIdentifier \<Rightarrow> 'x ChainClient \<Rightarrow> go_error option" where
  "ValidateTxHash i client =
     (if \<not> cl_TransactionHashValid client (TxHash i) then Some (Msg ''invalid transaction hash'') else None)"

definition ToStatusResponse :: "Deposit \<Rightarrow> CheckWithdrawalResponse" where
  "ToStatusResponse d = \<lparr>
     cw_DepositIdentifier = \<lparr>TxHash = TxHash (d_Id d), TxNonce = TxNonce (d_Id d), ChainId = ChainId (d_Id d)\<rparr>,
     cw_TransferData = \<lparr>td_Sender = Some (d_Depositor d), td_Receiver = d_Receiver d,
       td_DepositAmount = d_DepositAmount d, td_WithdrawalAmount = d_WithdrawalAmount d,
       td_CommissionAmount = d_CommissionAmount d, td_DepositAsset = d_DepositToken d,
       td_WithdrawalAsset = d_WithdrawalToken d, td_IsWrappedAsset = d_IsWrappedToken d,
       td_DepositBlock = d_DepositBlock d, td_Signature = Some (d_Signature d),
       td_MerkleProof = d_MerkleProof d, td_TxData = d_TxData d\<rparr>,
     cw_WithdrawalStatus = d_WithdrawalStatus d,
     cw_WithdrawalIdentifier = \<lparr>wi_TxHash = d_WithdrawalTxHash d, wi_ChainId = d_WithdrawalChainId d,
       wi_WithdrawalCoreBlock = Some (d_WithdrawalCoreBlock d),
       wi_WithdrawalChainBlock = Some (d_WithdrawalChainBlock d), wi_Operator = d_Operator d\<rparr>,
     cw_Recovery = \<lparr>rec_Attempts = ucast (d_RecoveryAttempts d),
       rec_Timestamp = word_of_int (time_Unix (d_RecoveryTimestamp d))\<rparr>\<rparr>"

definition ToWithdrawalByStatusResponse :: "Deposit list \<Rightarrow> CheckWithdrawalResponse list" where
  "ToWithdrawalByStatusResponse withdrawals = map ToStatusResponse withdrawals"

definition ToDbIdentifier :: "DepositIdentifier \<Rightarrow> DepositIdentifier" where
  "ToDbIdentifier i = \<lparr>TxHash = TxHash i, TxNonce = TxNonce i, ChainId = ChainId i\<rparr>"

lemma ToDbIdentifier_same [simp]: "ToDbIdentifier i = i"
  by (cases i) (simp add: ToDbIdentifier_def)

subsection \<open>Recovery parameters (\<open>recovery.go\<close>)\<close>

record recoveryCfg =
  rc_RecoveryAttempts :: uint64
  rc_RecoveryTimeout :: int64

definition RecoveryParams :: "recoveryCfg \<Rightarrow> uint64 \<times> duration" where
  "RecoveryParams cfg =
     (rc_RecoveryAttempts cfg, sint (rc_RecoveryTimeout cfg * word_of_int time_Second))"

subsection \<open>The handlers\<close>

text \<open>
  What a request finds in its context. \<open>a_Errorf\<close> prints the message
  \<open>invalid identifier %s: %v\<close>, with the protobuf text of the identifier.
\<close>

record 'x api_ctx =
  a_clients :: "'x clientsRepository"
  a_connector :: "'x Connector"
  a_config :: recoveryCfg
  a_ozzo :: ozzo
  a_Errorf :: "DepositIdentifier option \<Rightarrow> go_error \<Rightarrow> string"
  a_ApplyTo :: page_lib
  a_pg_order :: "string list \<Rightarrow> Deposit list \<Rightarrow> Deposit list"

text \<open>
  \<open>check_withdrawal.go\<close>. \<open>withdrawalData.RecoveryTimestamp.Add(timeout)\<close> returns a new time,
  which the code drops. \<open>identifier\<close> is not nil past the validation.
\<close>

definition CheckWithdrawal ::
  "'x env \<Rightarrow> 'x api_ctx \<Rightarrow> DepositIdentifier option \<Rightarrow> 'x world
     \<Rightarrow> (status + CheckWithdrawalResponse option) go_result \<times> 'x world" where
  "CheckWithdrawal E ctx identifier w =
   (case ValidateIdentifier (a_ozzo ctx) identifier of
      Some err \<Rightarrow> (Returned (Inl (InvalidArgument, a_Errorf ctx identifier err)), w)
    | None \<Rightarrow>
   (case identifier of
      None \<Rightarrow> (Panic ''nil pointer dereference'', w)
    | Some i \<Rightarrow>
   (case depositsQ_Get E (ToDbIdentifier i) w of
      (Inl err, w1) \<Rightarrow> (Returned (Inl (Internal, ''failed to get withdrawal details'')), w1)
    | (Inr None, w1) \<Rightarrow> (Returned (Inl (NotFound, ''withdrawal data not found'')), w1)
    | (Inr (Some withdrawalData), w1) \<Rightarrow>
        (case RecoveryParams (a_config ctx) of (maxAttempts, timeout) \<Rightarrow>
           (Returned (Inr (Some (ToStatusResponse (withdrawalData\<lparr>d_RecoveryAttempts :=
              maxAttempts - d_RecoveryAttempts withdrawalData\<rparr>)))), w1)))))"

text \<open>
  \<open>get_withdrawals_by_status.go\<close>; an enum field of a message holds any 32-bit integer. A number
  with a name is a constructor (\<open>status_of_named\<close> below), so the branch in which
  \<open>status_of_number\<close> answers \<open>None\<close> is never taken.
\<close>

definition GetWithdrawalsByStatus ::
  "'x env \<Rightarrow> 'x api_ctx \<Rightarrow> GetWithdrawalsByStatusRequest \<Rightarrow> 'x world
     \<Rightarrow> (status + CheckWithdrawalResponse list option) \<times> 'x world" where
  "GetWithdrawalsByStatus E ctx request w =
   (let statusInt = sint (gw_WithdrawalStatus request) in
    if statusInt = 0 then (Inl (InvalidArgument, ''withdrawal_status is required''), w)
    else case WithdrawalStatus_name statusInt of
      None \<Rightarrow> (Inl (InvalidArgument, ''unsupported withdrawal status integer: '' @ itoa statusInt), w)
    | Some _ \<Rightarrow>
    let page_limit = (if gw_Limit request = 0 then 10 else gw_Limit request);
        sel = depositsQ_Page (a_ApplyTo ctx)
                \<lparr>pp_PageNumber = gw_Page request, pp_Limit = page_limit\<rparr> NewDepositsQ
    in case status_of_number statusInt of
      None \<Rightarrow> (Inl (InvalidArgument, ''''), w)
    | Some s \<Rightarrow>
   (case depositsQ_Select_GetWithStatus E (a_pg_order ctx) sel s w of
      (Inl err, w1) \<Rightarrow> (Inl (Internal, ''failed to get withdrawals''), w1)
    | (Inr withdrawals, w1) \<Rightarrow> (Inr (Some (ToWithdrawalByStatusResponse withdrawals)), w1)))"

text \<open>
  \<open>submit_withdrawal.go\<close>. The two options of the broadcaster are written into the broadcaster
  that all callers share: it is part of the result. A success is \<open>return nil, nil\<close>.
\<close>

definition SubmitWithdrawal ::
  "'x env \<Rightarrow> 'x api_ctx \<Rightarrow> 'x Broadcaster \<Rightarrow> DepositIdentifier option \<Rightarrow> 'x world
     \<Rightarrow> ((status + unit option) \<times> 'x job list) go_result \<times> 'x Broadcaster \<times> 'x world" where
  "SubmitWithdrawal E ctx b identifier w =
   (case ValidateIdentifier (a_ozzo ctx) identifier of
      Some err \<Rightarrow> (Returned (Inl (InvalidArgument, a_Errorf ctx identifier err), []), b, w)
    | None \<Rightarrow>
   (case identifier of
      None \<Rightarrow> (Panic ''nil pointer dereference'', b, w)
    | Some i \<Rightarrow>
   (case GetDeposit (a_connector ctx) (ToDbIdentifier i) w of
      (Inl err, w1) \<Rightarrow>
        if strings_Contains (error_text err) ''not found''
        then (Returned (Inl (NotFound, ''deposit not found''), []), b, w1)
        else (Returned (Inl (Internal, ''unable to process withdrawal''), []), b, w1)
    | (Inr deposit, w1) \<Rightarrow>
    if \<not> repo_SupportsChain (a_clients ctx) (d_WithdrawalChainId deposit)
    then (Returned (Inl (InvalidArgument,
            ''client does not support the chain '' @ d_WithdrawalChainId deposit), []), b, w1)
    else if d_WithdrawalTxHash deposit \<noteq> None
    then (Returned (Inl (InvalidArgument, ''deposit is already withdrawn''), []), b, w1)
    else (case RecoveryParams (a_config ctx) of (attempts, timeout) \<Rightarrow>
      let b1 = WithRecoveryTimeout (WithRecoveryAttempts b attempts) timeout in
      case BroadcastDeposit E b1 deposit w1 of
        (Panic m, w2) \<Rightarrow> (Panic m, b1, w2)
      | (Returned (Some err, jobs), w2) \<Rightarrow>
          if errors_Is err ErrFailedToBroadcast
          then (Returned (Inl (Internal, ''failed to broadcast withdrawal''), jobs), b1, w2)
          else (Returned (Inl (InvalidArgument, error_text err), jobs), b1, w2)
      | (Returned (None, jobs), w2) \<Rightarrow> (Returned (Inr None, jobs), b1, w2)))))"

text \<open>\<open>health.go\<close>: \<open>status.Error\<close> with the code \<open>OK\<close> is nil.\<close>

definition CheckHealth :: "status + unit option" where
  "CheckHealth = Inr (Some ())"

text \<open>\<open>RecoveryInterceptor\<close>: a panic of the handler becomes an error of the request.\<close>

definition RecoveryInterceptor :: "(status + 'a option) go_result \<Rightarrow> status + 'a option" where
  "RecoveryInterceptor r = (case r of
     Returned res \<Rightarrow> res
   | Panic m \<Rightarrow> Inl (Internal, ''internal server error''))"

subsection \<open>Facts about the parts\<close>

lemma ValidateIdentifier_None:
  assumes "ozzo_contract V"
  shows "ValidateIdentifier V identifier = None \<longleftrightarrow>
    (\<exists>i. identifier = Some i \<and> TxHash i \<noteq> [] \<and> ChainId i \<noteq> [] \<and> 0 \<le> sint (TxNonce i))"
  using assms by (auto simp: ValidateIdentifier_def ozzo_contract_def split: option.splits)

text \<open>Every number the generated map names is a constructor, so the lookup above never fails.\<close>

lemma status_of_number_number [simp]: "status_of_number (WithdrawalStatus_number s) = Some s"
  by (cases s) (simp_all add: status_of_number_def)

lemma status_of_named:
  assumes "WithdrawalStatus_name n = Some t"
  shows "\<exists>s. status_of_number n = Some s \<and> WithdrawalStatus_number s = n"
  using assms by (auto simp: WithdrawalStatus_name_def status_of_number_def split: if_splits)

text \<open>A contract instance of the validation library, for witnesses.\<close>

definition ozzo_ref :: ozzo where
  "ozzo_ref = \<lparr>
     oz_Required = (\<lambda>s. if s = [] then Some (Msg ''cannot be blank'') else None),
     oz_Min = (\<lambda>k n. if k \<le> sint n then None else Some (Msg ''must be no less than'')),
     oz_Filter = (\<lambda>es. case filter (\<lambda>e. snd e \<noteq> None) es of [] \<Rightarrow> None | e # _ \<Rightarrow> snd e)\<rparr>"

lemma ozzo_ref_contract: "ozzo_contract ozzo_ref"
proof -
  have "(case filter (\<lambda>e. snd e \<noteq> None) es of [] \<Rightarrow> None | e # _ \<Rightarrow> snd e) = None
      \<longleftrightarrow> (\<forall>e \<in> set es. snd e = None)" for es :: "(string \<times> go_error option) list"
    by (induction es) auto
  then show ?thesis by (simp add: ozzo_contract_def ozzo_ref_def)
qed

end
