(* ===== verification/Frames.thy ===== *)
theory Frames
  imports Container_Props Catch_Up Observer Api
begin

text \<open>
  A frame is a reflexive and transitive relation between the world before and after a piece of
  the program that ignores the outside world. The locale gives the rules that push a frame through the control flow
  of a handler, one rule per construct, so that a handler's frame follows from those of
  the statements in it. Two frames are interpreted: \<open>only_ext\<close> below, of what only
  asks the outside world, and \<open>safe\<close> of \<open>Safe_Steps\<close>, what every handler of the service keeps.
\<close>

subsection \<open>Rules for the control flow\<close>

locale world_frame =
  fixes R :: "'x world \<Rightarrow> 'x world \<Rightarrow> bool"
  assumes R_refl: "R w w"
    and R_trans: "R u v \<Longrightarrow> R v w \<Longrightarrow> R u w"
    and R_ext: "R w (w\<lparr>w_ext := x\<rparr>)"
begin

abbreviation ends :: "'x world \<Rightarrow> 'r \<times> 'x world \<Rightarrow> bool" where
  "ends w \<equiv> ensures (\<lambda>_. R w)"

definition may_end :: "'x world \<Rightarrow> ('r \<times> 'x world) option \<Rightarrow> bool" where
  "may_end w r \<longleftrightarrow> (\<forall>q w'. r = Some (q, w') \<longrightarrow> R w w')"

lemma ends_def: "ends w r \<longleftrightarrow> R w (snd r)"
  by (simp add: ensures_def)

lemma may_end_leaf: "R w w' \<Longrightarrow> may_end w (Some (q, w'))"
  by (simp add: may_end_def)

lemma may_end_None: "may_end w None"
  by (simp add: may_end_def)

lemma ends_seq:
  assumes "ends w r" and "\<And>q v. r = (q, v) \<Longrightarrow> R w v \<Longrightarrow> ends w (k q v)"
  shows "ends w (case r of (q, v) \<Rightarrow> k q v)"
  using assms by (cases r) (simp add: ends_def)

lemma may_end_seq:
  assumes "ends w r" and "\<And>q v. r = (q, v) \<Longrightarrow> R w v \<Longrightarrow> may_end w (k q v)"
  shows "may_end w (case r of (q, v) \<Rightarrow> k q v)"
  using assms by (cases r) (simp add: ends_def)

lemma ends_then: "R w v \<Longrightarrow> ends v r \<Longrightarrow> ends w r"
  unfolding ends_def by (rule R_trans)

lemma may_end_then: "R w v \<Longrightarrow> may_end v r \<Longrightarrow> may_end w r"
  unfolding may_end_def by (blast intro: R_trans)

lemma may_end_sum:
  "(\<And>e. x = Inl e \<Longrightarrow> may_end w (h e)) \<Longrightarrow> (\<And>y. x = Inr y \<Longrightarrow> may_end w (k y)) \<Longrightarrow>
     may_end w (case x of Inl e \<Rightarrow> h e | Inr y \<Rightarrow> k y)"
  by (cases x) simp_all

lemma may_end_go:
  "(\<And>a. x = Returned a \<Longrightarrow> may_end w (h a)) \<Longrightarrow> (\<And>m. x = Panic m \<Longrightarrow> may_end w (k m)) \<Longrightarrow>
     may_end w (case x of Returned a \<Rightarrow> h a | Panic m \<Rightarrow> k m)"
  by (cases x) simp_all

lemma may_end_option:
  "(x = None \<Longrightarrow> may_end w a) \<Longrightarrow> (\<And>y. x = Some y \<Longrightarrow> may_end w (k y)) \<Longrightarrow>
     may_end w (case x of None \<Rightarrow> a | Some y \<Rightarrow> k y)"
  by (cases x) simp_all

lemma may_end_wait:
  assumes "may_end w x"
    and "x = None \<Longrightarrow> may_end w a" and "\<And>q v. x = Some (q, v) \<Longrightarrow> R w v \<Longrightarrow> may_end w (k q v)"
  shows "may_end w (case x of None \<Rightarrow> a | Some y \<Rightarrow> (case y of (q, v) \<Rightarrow> k q v))"
  using assms by (cases x) (auto simp: may_end_def)

lemma may_end_pair:
  "(\<And>a b. p = (a, b) \<Longrightarrow> may_end w (k a b)) \<Longrightarrow> may_end w (case p of (a, b) \<Rightarrow> k a b)"
  by (cases p) simp

lemma may_end_if:
  "(c \<Longrightarrow> may_end w a) \<Longrightarrow> (\<not> c \<Longrightarrow> may_end w b) \<Longrightarrow> may_end w (if c then a else b)"
  by simp

lemma ends_ext_call: "R w0 w \<Longrightarrow> ends w0 (ext_call f w)"
  by (cases "f (w_ext w)") (simp add: ends_def ext_call_def R_trans [OF _ R_ext])

lemma ends_db_Query: "R w0 w \<Longrightarrow> ends w0 (db_Query E q w)"
  unfolding db_Query_def by (intro ends_seq ensures_option ensures_leaf ends_ext_call)

lemma ends_pick_random: "R w0 w \<Longrightarrow> ends w0 (pick_random E xs w)"
  unfolding pick_random_def by (intro ensures_if ends_seq ensures_leaf ends_ext_call)

lemma ends_db_Exec:
  assumes "\<And>w. R w (f w)" and "R w0 w"
  shows "ends w0 (db_Exec E f w)"
  unfolding db_Exec_def
  by (intro ends_seq ensures_option ensures_leaf ends_ext_call assms(2)) (auto intro: R_trans assms(1))

lemma ends_db_Insert:
  assumes "\<And>w. \<not> conflict w \<Longrightarrow> R w (f w)" and "R w0 w"
  shows "ends w0 (db_Insert E p conflict f w)"
  unfolding db_Insert_def
  by (intro ends_seq ensures_option ensures_leaf ensures_if ends_ext_call assms(2)) (auto intro: R_trans assms(1))

lemma ends_GetDeposit: "R w0 w \<Longrightarrow> ends w0 (GetDeposit C i w)"
  unfolding GetDeposit_def by (intro ends_seq ensures_sum ensures_leaf ends_ext_call)

lemma ends_getAccountData: "R w0 w \<Longrightarrow> ends w0 (getAccountData K a w)"
  unfolding getAccountData_def by (intro ends_seq ensures_sum ensures_leaf ends_ext_call)

lemma ends_getAccountSequence: "R w0 w \<Longrightarrow> ends w0 (getAccountSequence C w)"
  unfolding getAccountSequence_def by (intro ends_seq ensures_sum ensures_leaf ends_getAccountData)

lemma ends_buildTx: "R w0 w \<Longrightarrow> ends w0 (buildTx C g f ms w)"
  unfolding buildTx_def
  by (intro ends_seq ensures_sum ensures_option ensures_go ensures_let ensures_leaf ends_getAccountSequence)

lemma ends_submitMsgs: "R w0 w \<Longrightarrow> ends w0 (submitMsgs C ms w)"
  unfolding submitMsgs_def
  by (intro ends_seq ensures_sum ensures_go ensures_if ensures_let ensures_leaf ends_buildTx ends_ext_call)

lemma ends_UpdateTxInfo_loop: "R w0 w \<Longrightarrow> ends w0 (UpdateTxInfo_loop C ds w)"
proof (induction ds arbitrary: w)
  case (Cons d ds)
  show ?case unfolding UpdateTxInfo_loop.simps
    by (intro ends_seq ensures_pair ensures_sum ensures_if ensures_let ensures_leaf ends_GetDeposit Cons)
qed (simp add: ensures_leaf)

lemma ends_UpdateTxInfo: "R w0 w \<Longrightarrow> ends w0 (UpdateTxInfo C ds w)"
  unfolding UpdateTxInfo_def
  by (intro ends_seq ensures_pair ensures_option ensures_go ensures_leaf ends_UpdateTxInfo_loop ends_submitMsgs)

lemma ends_reads:
  "R w0 w \<Longrightarrow> ends w0 (depositsQ_Get E i w)"
  "R w0 w \<Longrightarrow> ends w0 (depositsQ_GetWithStatus E s w)"
  "R w0 w \<Longrightarrow> ends w0 (signaturesQ_Get E j w)"
  "R w0 w \<Longrightarrow> ends w0 (signaturesQ_GetWithStatus E t w)"
  unfolding depositsQ_Get_def depositsQ_GetWithStatus_def signaturesQ_Get_def
    signaturesQ_GetWithStatus_def
  by (intro ends_seq ensures_sum ensures_leaf ends_db_Query; assumption)+

lemma ends_DoWithRetry:
  assumes "retry_contract Rt" and "R w0 w" and "\<And>a v. R w0 v \<Longrightarrow> R w0 (snd (snd (f (a, v))))"
  shows "R w0 (snd (snd (DoWithRetry Rt n f (a, w))))"
proof -
  obtain r s' where run: "DoWithRetry Rt n f (a, w) = (r, s')" by (metis prod.exhaust)
  have "R w0 (snd s')"
  proof (rule DoWithRetry_invariant [OF assms(1) run, where P = "\<lambda>s. R w0 (snd s)"])
    show "R w0 (snd (a, w))" using assms(2) by simp
    fix s q t assume "R w0 (snd s)" "f s = (q, t)"
    then show "R w0 (snd t)" using assms(3) [of "snd s" "fst s"] by simp
  qed
  with run show ?thesis by simp
qed

lemma ends_getCurrentHeight:
  assumes "retry_contract Rt" and "R w0 w"
  shows "ends w0 (getCurrentHeight E Rt n w)"
proof -
  have "R w0 (snd (snd (abci_call E (a, v))))" if "R w0 v" for a v
    using ends_ext_call [OF that, of "x_ABCIInfo E"]
    by (auto simp: abci_call_def ends_def split: prod.splits sum.splits)
  from ends_DoWithRetry [where f = "abci_call E" and n = n and a = None, OF assms this] show ?thesis
    by (auto simp: getCurrentHeight_def ends_def split: prod.splits go_result.splits option.splits)
qed

lemma ends_fetchBlockEvents:
  assumes "retry_contract Rt" and "R w0 w"
  shows "ends w0 (fetchBlockEvents ob Rt h w)"
proof -
  have "R w0 (snd (snd (block_call ob h (a, v))))" if "R w0 v" for a v
    using ends_ext_call [OF that, of "o_BlockResults ob h"]
    by (auto simp: block_call_def ends_def split: prod.splits sum.splits)
  from ends_DoWithRetry [where f = "block_call ob h" and n = "o_Retries ob" and a = None, OF assms this]
  show ?thesis
    by (auto simp: fetchBlockEvents_def ends_def
        split: prod.splits go_result.splits option.splits sum.splits)
qed

lemma R_waitForBlockDistance:
  assumes "waitForBlockDistance E Rt n k h w = Some y" and "retry_contract Rt" and "R w0 w"
  shows "R w0 (snd y)"
proof -
  let ?P = "\<lambda>E Rt n k h w y. retry_contract Rt \<longrightarrow> R w0 w \<longrightarrow> R w0 (snd y)"
  have "?P E Rt n k h w y"
  proof (rule waitForBlockDistance.raw_induct [where P = ?P, OF _ assms(1)], intro impI)
    fix wait E y and Rt :: "'x height_retry" and n k h w
    assume IH: "\<And>E Rt n k h w y. wait E Rt n k h w = Some y \<Longrightarrow> ?P E Rt n k h w y"
      and body: "(case getCurrentHeight E Rt n w of (q, w1) \<Rightarrow> (case q of
           Returned (Inl err) \<Rightarrow> Some (Returned (), w1)
         | Returned (Inr currentHeight) \<Rightarrow>
             let gap = currentHeight - h in
             if k \<le> gap then Some (Returned (), w1) else wait E Rt n k h w1
         | Panic m \<Rightarrow> Some (Panic m, w1))) = Some y"
      and Rt: "retry_contract Rt" and w: "R w0 w"
    have "ends w0 (getCurrentHeight E Rt n w)" using Rt w by (rule ends_getCurrentHeight)
    then show "R w0 (snd y)" using body Rt IH
      by (cases "getCurrentHeight E Rt n w")
         (auto simp: ends_def Let_def split: go_result.splits sum.splits if_splits)
  qed
  with assms(2,3) show ?thesis by simp
qed

lemma may_end_waitForBlockDistance:
  "retry_contract Rt \<Longrightarrow> R w0 w \<Longrightarrow> may_end w0 (waitForBlockDistance E Rt n k h w)"
  by (auto simp: may_end_def dest: R_waitForBlockDistance)

lemmas steps = ends_seq flow

lemmas may_flow = may_end_wait may_end_seq may_end_pair may_end_option may_end_sum may_end_go
  may_end_if may_end_leaf may_end_None

end

subsection \<open>The frame of what only asks the outside world\<close>

definition only_ext :: "'x world \<Rightarrow> 'x world \<Rightarrow> bool" where
  "only_ext w w' \<longleftrightarrow> (\<exists>x. w' = w\<lparr>w_ext := x\<rparr>)"

interpretation ext: world_frame only_ext
proof
  show "only_ext w w" for w :: "'x world" unfolding only_ext_def by (rule exI [of _ "w_ext w"]) simp
qed (auto simp: only_ext_def)

lemma only_ext_status: "only_ext w w' \<Longrightarrow> deposit_status i w' = deposit_status i w"
  by (auto simp: only_ext_def)

lemma only_ext_rows: "only_ext w w' \<Longrightarrow> w_deposits w' = w_deposits w"
  by (auto simp: only_ext_def)

end
