(* ===== verification/Safe_Steps.thy ===== *)
theory Safe_Steps
  imports Frames
begin

text \<open>
  What every operation of the service keeps (\<open>safe\<close>): the primary keys; that no row counts a
  recovery attempt; the rows it finds (none is deleted); and the discipline of the calls to
  the chains, that a withdrawal is preceded by the answer that it is not processed. One
  lemma per operation, each a walk through its control flow.
\<close>

subsection \<open>The relation\<close>

fun log_ok :: "event list \<Rightarrow> bool" where
  "log_ok [] = True"
| "log_ok (EvWithdraw i # L) = ((\<exists>M. L = EvIsProcessed i False # M) \<and> log_ok L)"
| "log_ok (EvIsProcessed i b # L) = log_ok L"
| "log_ok (EvUpdateSigners j # L) = log_ok L"

lemma log_ok_append: "log_ok K \<Longrightarrow> log_ok L \<Longrightarrow> log_ok (K @ L)"
  by (induction K rule: log_ok.induct) auto

lemma log_ok_suffix: "log_ok (K @ L) \<Longrightarrow> log_ok L"
  by (induction K rule: log_ok.induct) auto

lemma log_ok_withdraw: "log_ok (K @ EvWithdraw i # M) \<Longrightarrow> \<exists>N. M = EvIsProcessed i False # N"
  by (drule log_ok_suffix) simp

lemma withdraw_log_ok_log_ok: "withdraw_log_ok i L \<Longrightarrow> log_ok L"
  by (auto simp: withdraw_log_ok_def)

definition no_attempts :: "'x world \<Rightarrow> bool" where
  "no_attempts w \<longleftrightarrow> (\<forall>r \<in> set (w_deposits w). d_RecoveryAttempts r = 0)"

definition known :: "'x world \<Rightarrow> DepositIdentifier set" where
  "known w = d_Id ` set (w_deposits w)"

definition safe :: "'x world \<Rightarrow> 'x world \<Rightarrow> bool" where
  "safe w w' \<longleftrightarrow> (pk_ok w \<longrightarrow> pk_ok w') \<and> (no_attempts w \<longrightarrow> no_attempts w') \<and> known w \<subseteq> known w'
     \<and> (\<exists>L. w_log w' = L @ w_log w \<and> log_ok L)"

lemma no_attempts_simps [simp]:
  "no_attempts (w\<lparr>w_ext := x\<rparr>) = no_attempts w"
  "no_attempts (w\<lparr>w_cache := c\<rparr>) = no_attempts w"
  "no_attempts (w\<lparr>w_log := L\<rparr>) = no_attempts w"
  "no_attempts (upd_signatures j g w) = no_attempts w"
  by (simp_all add: no_attempts_def)

lemma known_simps [simp]:
  "known (w\<lparr>w_ext := x\<rparr>) = known w"
  "known (w\<lparr>w_cache := c\<rparr>) = known w"
  "known (w\<lparr>w_log := L\<rparr>) = known w"
  "known (upd_signatures j g w) = known w"
  by (simp_all add: known_def)

lemma known_upd [simp]: "(\<And>r. d_Id (f r) = d_Id r) \<Longrightarrow> known (upd_deposits i f w) = known w"
  unfolding known_def by (metis dep.upd_keeps_keys list.set_map)

lemma no_attempts_upd:
  assumes "\<And>r. d_RecoveryAttempts r = 0 \<Longrightarrow> d_RecoveryAttempts (f r) = 0"
  shows "no_attempts w \<Longrightarrow> no_attempts (upd_deposits i f w)"
  unfolding no_attempts_def
  by (rule dep.upd_all [where P = "\<lambda>r. d_RecoveryAttempts r = 0"]) (auto intro: assms)

lemma safeI:
  assumes "pk_ok w \<Longrightarrow> pk_ok w'" and "no_attempts w \<Longrightarrow> no_attempts w'" and "known w \<subseteq> known w'"
    and "w_log w' = L @ w_log w" and "log_ok L"
  shows "safe w w'"
  using assms by (auto simp: safe_def)

lemma safe_refl: "safe w w"
  by (rule safeI [where L = "[]"]) simp_all

lemma safe_trans: "safe u v \<Longrightarrow> safe v w \<Longrightarrow> safe u w"
  unfolding safe_def by (auto intro: log_ok_append)

lemma safe_ext: "safe w (w\<lparr>w_ext := x\<rparr>)"
  by (rule safeI [where L = "[]"]) simp_all

interpretation safe: world_frame safe
  by unfold_locales (fact safe_refl, fact safe_trans, fact safe_ext)

lemma safe_cache: "safe w0 w \<Longrightarrow> safe w0 (w\<lparr>w_cache := c\<rparr>)"
  by (erule safe_trans) (rule safeI [where L = "[]"], simp_all)

lemma safe_cache_ops:
  "safe w0 w \<Longrightarrow> safe w0 (cache_Store k w)"
  "safe w0 w \<Longrightarrow> safe w0 (cache_Delete k w)"
  by (simp_all add: cache_Store_def cache_Delete_def safe_cache)

subsection \<open>Statements\<close>

lemma safe_upd_deposits:
  "(\<And>r. d_Id (f r) = d_Id r) \<Longrightarrow> (\<And>r. d_RecoveryAttempts r = 0 \<Longrightarrow> d_RecoveryAttempts (f r) = 0) \<Longrightarrow>
     safe w (upd_deposits i f w)"
  by (rule safeI [where L = "[]"]) (simp_all add: no_attempts_upd)

lemma safe_upd_signatures: "(\<And>r. epoch_pkey (f r) = epoch_pkey r) \<Longrightarrow> safe w (upd_signatures i f w)"
  by (rule safeI [where L = "[]"]) simp_all

lemma safe_UpdateStatus: "safe w0 w \<Longrightarrow> safe.ends w0 (depositsQ_UpdateStatus E i s w)"
  unfolding depositsQ_UpdateStatus_def by (intro safe.ends_db_Exec safe_upd_deposits) simp_all

lemma safe_UpdateRecoveryData: "safe w0 w \<Longrightarrow> safe.ends w0 (depositsQ_UpdateRecoveryData E i 0 t w)"
  unfolding depositsQ_UpdateRecoveryData_def by (intro safe.ends_db_Exec safe_upd_deposits) simp_all

lemma safe_signatures_UpdateStatus: "safe w0 w \<Longrightarrow> safe.ends w0 (signaturesQ_UpdateStatus E i s w)"
  unfolding signaturesQ_UpdateStatus_def
  by (intro safe.ends_db_Exec safe_upd_signatures) (simp_all add: epoch_pkey_def)

lemma safe_signatures_Insert: "safe w0 w \<Longrightarrow> safe.ends w0 (signaturesQ_Insert E e w)"
  unfolding signaturesQ_Insert_def
proof (intro safe.ends_db_Insert)
  fix w :: "'a world" assume "\<not> find_row epoch_pkey (epoch_pkey e) (w_signatures w) \<noteq> None"
  then show "safe w (w\<lparr>w_signatures := w_signatures w @ [e]\<rparr>)"
    by (intro safeI [where L = "[]"])
       (simp_all add: pk_ok_def key_unique_snoc no_attempts_def known_def)
qed

lemma safe_deposits_Insert:
  assumes "d_RecoveryAttempts d = 0" and "safe w0 w"
  shows "safe.ends w0 (depositsQ_Insert E d w)"
proof -
  have row: "safe w (w\<lparr>w_deposits := w_deposits w @ [deposit_row d]\<rparr>)"
    if "\<not> find_row d_Id (d_Id d) (w_deposits w) \<noteq> None" for w :: "'a world"
    using that assms(1)
    by (intro safeI [where L = "[]"])
       (auto simp: pk_ok_def key_unique_snoc no_attempts_def known_def deposit_row_def)
  show ?thesis
    unfolding depositsQ_Insert_def assms(1)
    by (intro safe.steps safe.ends_db_Insert safe_UpdateRecoveryData row assms(2))
qed

lemma safe_latest:
  assumes "key_unique lb_Id (w_latest w) \<Longrightarrow> key_unique lb_Id rows"
  shows "safe w (w\<lparr>w_latest := rows\<rparr>)"
  using assms by (intro safeI [where L = "[]"]) (simp_all add: pk_ok_def no_attempts_def known_def)

lemma safe_blocks_Insert: "safe w0 w \<Longrightarrow> safe.ends w0 (blocksQ_Insert E b w)"
  unfolding blocksQ_Insert_def
proof (intro safe.steps safe.ends_db_Exec)
  fix w :: "'a world"
  show "safe w (if find_row lb_Id idIndex (w_latest w) = None
     then w\<lparr>w_latest := w_latest w @ [\<lparr>lb_Id = idIndex, lb_BlockId = lb_BlockId b\<rparr>]\<rparr>
     else w\<lparr>w_latest := upd_rows lb_Id idIndex (\<lambda>r. r\<lparr>lb_BlockId := lb_BlockId b\<rparr>) (w_latest w)\<rparr>)"
    by (auto intro!: safe_latest simp: key_unique_snoc key_unique_upd_rows)
qed

lemma safe_blocks_Update: "safe w0 w \<Longrightarrow> safe.ends w0 (blocksQ_UpdateLatestBlockId E b w)"
  unfolding blocksQ_UpdateLatestBlockId_def
  by (intro safe.steps safe.ends_db_Exec safe_latest) (simp_all add: key_unique_upd_rows)

subsection \<open>Containers and workers\<close>

lemma safe_run:
  assumes "run_ok i w r e w'"
  shows "safe w w'"
proof -
  from assms obtain L where L: "withdraw_log_ok i L" and d: "did i L w w'"
    by (auto simp: run_ok_def)
  then have own: "own_row i w w'" and log: "w_log w' = L @ w_log w" by (simp_all add: did_def)
  from own have "known w' = known w"
    unfolding own_row_def known_def
    by (metis (no_types, lifting) fst_conv image_cong image_image list.set_map)
  moreover from own have "no_attempts w \<longrightarrow> no_attempts w'"
    unfolding no_attempts_def by (blast intro: own_row_attempts [rule_format])
  ultimately show ?thesis
    using own_row_pk [OF own] log withdraw_log_ok_log_ok [OF L] by (intro safeI [of w w' L]) auto
qed

lemma container_Run_ok: "container_Run E C k w = ((r, e), w') \<Longrightarrow> run_ok (d_Id (container_deposit k)) w r e w'"
  by (cases k) (auto intro: depositBroadcastContainer_Run_ok depositCatchupContainer_Run_ok)

lemma safe_container_Run: "safe w0 w \<Longrightarrow> safe.ends w0 (container_Run E C k w)"
  by (cases "container_Run E C k w")
     (auto simp: ensures_def dest!: container_Run_ok [THEN safe_run] elim: safe_trans)

lemma safe_worker: "safe w0 w \<Longrightarrow> safe.ends w0 (withdrawal_worker_step E C k w)"
  unfolding withdrawal_worker_step_def by (intro safe.steps safe_container_Run safe_cache_ops)

lemma safe_UpdateSigners: "safe w0 w \<Longrightarrow> safe.ends w0 (executeUpdateSigners c e w)"
proof -
  assume w: "safe w0 w"
  have "safe w (snd (call_UpdateSigners c e w))"
    by (cases "cc_UpdateSigners c e (w_ext w)")
       (auto simp: call_UpdateSigners_def intro!: safeI [where L = "[EvUpdateSigners (epoch_identifier e)]"])
  with w show ?thesis
    unfolding executeUpdateSigners_def
    by (intro safe.steps) (simp_all add: ensures_def safe_trans)
qed

lemma safe_signers_Run: "safe w0 w \<Longrightarrow> safe.ends w0 (signers_Run E k w)"
proof (cases k)
  case (SignersBroadcast c e)
  assume "safe w0 w"
  then show ?thesis unfolding SignersBroadcast signers_Run.simps updateSignersBroadcastContainer_Run_def
    by (intro safe.steps safe_UpdateSigners safe_signatures_UpdateStatus)
next
  case (SignersCatchUp c e)
  assume "safe w0 w"
  then show ?thesis unfolding SignersCatchUp signers_Run.simps updateSignersCatchupContainer_Run_def
    by (intro safe.steps safe_UpdateSigners safe_signatures_UpdateStatus)
qed

subsection \<open>The submitter\<close>

lemma safe_mark_processed: "safe w0 w \<Longrightarrow> safe w0 (mark_processed E ds w)"
proof (induction ds arbitrary: w)
  case (Cons d ds)
  have "safe w0 (snd (depositsQ_UpdateStatus E (d_Id d) STATUS_PROCESSED w))"
    using safe_UpdateStatus [OF Cons.prems] by (simp add: ensures_def)
  then show ?case using Cons by (auto split: prod.splits)
qed simp

lemma safe_submitter_step:
  assumes "retry_contract Rt" and "safe w0 w"
  shows "safe.ends w0 (submitter_step E Rt n C k d (pool, w))"
proof -
  have call: "safe w0 (snd (snd (updateTx C (ds, v))))" if "safe w0 v" for ds v
    using safe.ends_UpdateTxInfo [OF that, of C ds]
    by (auto simp: updateTx_def ensures_def split: prod.splits)
  have "safe w0 (snd (snd (DoWithRetry Rt n (updateTx C) (pool @ [d], w))))"
    by (rule safe.ends_DoWithRetry [where f = "updateTx C", OF assms call])
  then show ?thesis
    unfolding submitter_step_def using assms(2)
    by (auto simp: Let_def ensures_def intro: safe_mark_processed
        split: prod.splits go_result.splits option.splits)
qed

subsection \<open>The broadcaster\<close>

lemma safe_checkExistence: "safe w0 w \<Longrightarrow> safe.ends w0 (checkExistence E b d w)"
  unfolding checkExistence_def
  by (intro safe.steps safe.ends_ext_call safe.ends_reads safe_cache_ops)

lemma safe_BroadcastDeposit:
  assumes "d_RecoveryAttempts d = 0" and "safe w0 w"
  shows "safe.ends w0 (BroadcastDeposit E b d w)"
  unfolding BroadcastDeposit_def BroadcastDeposit_accept_def Let_def
  by (intro safe.steps safe_checkExistence safe.ends_ext_call safe_deposits_Insert
      safe.ends_pick_random safe_cache_ops assms)
     (use assms(1) in \<open>auto intro: safe_cache_ops split: if_splits prod.splits\<close>)

lemma safe_CatchUp: "safe w0 w \<Longrightarrow> safe.ends w0 (CatchUp E b d w)"
  unfolding CatchUp_def
  by (intro safe.steps safe_UpdateStatus safe.ends_pick_random safe_cache_ops)

lemma safe_BroadcastEpoch: "safe w0 w \<Longrightarrow> safe.ends w0 (BroadcastEpoch E b e w)"
  unfolding BroadcastEpoch_def
  by (intro safe.steps safe.ends_reads safe_signatures_Insert safe.ends_pick_random)

lemma safe_CatchUpEpoch: "safe w0 w \<Longrightarrow> safe.ends w0 (CatchUpEpoch E b e w)"
  unfolding CatchUpEpoch_def by (intro safe.steps safe.ends_pick_random)

subsection \<open>The catch-upper\<close>

lemma safe_catchup_deposits: "safe w0 w \<Longrightarrow> safe.ends w0 (catchup_deposits E b ds w)"
proof (induction ds arbitrary: w)
  case (Cons d ds)
  then show ?case unfolding catchup_deposits.simps by (intro safe.steps safe_CatchUp) auto
qed (simp add: ensures_def)

lemma safe_catchup_epochs: "safe w0 w \<Longrightarrow> safe.ends w0 (catchup_epochs E b es w)"
proof (induction es arbitrary: w)
  case (Cons e es)
  then show ?case unfolding catchup_epochs.simps by (intro safe.steps safe_CatchUpEpoch) auto
qed (simp add: ensures_def)

lemma safe_catchupWithStatus: "safe w0 w \<Longrightarrow> safe.ends w0 (catchupWithStatus E b s w)"
  unfolding catchupWithStatus_def by (intro safe.steps safe.ends_reads safe_catchup_deposits)

lemma safe_catchupEpochsWithStatus: "safe w0 w \<Longrightarrow> safe.ends w0 (catchupEpochsWithStatus E b s w)"
  unfolding catchupEpochsWithStatus_def by (intro safe.steps safe.ends_reads safe_catchup_epochs)

lemma safe_then_pass:
  assumes "safe.ends w0 r" and "\<And>v. safe w0 v \<Longrightarrow> safe.ends w0 (f v)"
  shows "safe.ends w0 (then_pass r msg f)"
  unfolding then_pass_def by (intro safe.steps assms)

lemma safe_CatchUpper_Start: "safe w0 w \<Longrightarrow> safe.ends w0 (CatchUpper_Start E b w)"
  unfolding CatchUpper_Start_def
  by (intro safe_then_pass safe_catchupWithStatus safe_catchupEpochsWithStatus flow)

subsection \<open>The observer\<close>

lemma parse_deposit_attribute_attempts:
  "parse_deposit_attribute K a d = Inr d' \<Longrightarrow> d_RecoveryAttempts d' = d_RecoveryAttempts d"
  by (auto simp: parse_deposit_attribute_def Let_def split: if_splits sum.splits)

lemma parse_deposit_attributes_attempts:
  "parse_deposit_attributes K attrs d = Inr d' \<Longrightarrow> d_RecoveryAttempts d' = d_RecoveryAttempts d"
  by (induction attrs arbitrary: d)
     (auto split: sum.splits dest!: parse_deposit_attribute_attempts)

lemma parse_events_attempts:
  "parse_events K evs = Inr ds \<Longrightarrow> \<forall>d \<in> set ds. d_RecoveryAttempts d = 0"
proof (induction evs arbitrary: ds)
  case (Cons e evs)
  then show ?case
    by (auto simp: parseSubmittedDeposit_def zero_Deposit_def map_sum_def
        split: if_splits sum.splits dest!: parse_deposit_attributes_attempts)
qed simp

lemma parseDeposits_attempts:
  "parseDepositsFromTxResults K J logs = Inr ds \<Longrightarrow> \<forall>d \<in> set ds. d_RecoveryAttempts d = 0"
proof (induction logs arbitrary: ds)
  case (Cons log logs)
  then show ?case
    by (auto simp: map_sum_def split: if_splits sum.splits dest!: parse_events_attempts)
qed simp

lemma fetchBlockEvents_attempts:
  "fetchBlockEvents ob Rb h w = (Returned (Inr ev), w') \<Longrightarrow>
     \<forall>d \<in> set (be_Deposits ev). d_RecoveryAttempts d = 0"
  by (auto simp: fetchBlockEvents_def dest!: parseDeposits_attempts
      split: prod.splits go_result.splits option.splits sum.splits)

lemma safe_broadcastDeposit:
  assumes "d_RecoveryAttempts d = 0" and "safe w0 w"
  shows "safe.ends w0 (broadcastDeposit E ob d w)"
  unfolding broadcastDeposit_def by (intro safe.steps safe_BroadcastDeposit assms)

lemma safe_broadcast_deposits:
  "\<forall>d \<in> set ds. d_RecoveryAttempts d = 0 \<Longrightarrow> safe w0 w \<Longrightarrow> safe.ends w0 (broadcast_deposits E ob ds w)"
proof (induction ds arbitrary: w)
  case (Cons d ds)
  then show ?case unfolding broadcast_deposits.simps
    by (intro safe.steps safe_broadcastDeposit Cons.IH) simp_all
qed (simp add: ensures_def)

lemma safe_broadcast_epochs: "safe w0 w \<Longrightarrow> safe.ends w0 (broadcast_epochs E ob es w)"
proof (induction es arbitrary: w)
  case (Cons e es)
  then show ?case unfolding broadcast_epochs.simps by (intro safe.steps safe_BroadcastEpoch Cons.IH)
qed (simp add: ensures_def)

lemma safe_fetchEvents_init:
  "retry_contract R \<Longrightarrow> safe w0 w \<Longrightarrow> safe.ends w0 (fetchEvents_init E R ob h w)"
  unfolding fetchEvents_init_def
  by (intro safe.steps safe_blocks_Insert safe.ends_getCurrentHeight)

lemma safe_fetchEvents_tick:
  assumes "retry_contract R" and "retry_contract Rb" and "safe w0 w"
  shows "safe.may_end w0 (fetchEvents_tick E R Rb ob h w)"
  unfolding fetchEvents_tick_def
  by (intro safe.may_flow safe.ends_getCurrentHeight safe.may_end_waitForBlockDistance
      safe_blocks_Update safe.ends_fetchBlockEvents safe_broadcast_deposits safe_broadcast_epochs
      assms)
     (auto dest: fetchBlockEvents_attempts)

subsection \<open>The API\<close>

lemma GetDeposit_attempts: "GetDeposit C i w = (Inr d, w') \<Longrightarrow> d_RecoveryAttempts d = 0"
  by (auto simp: GetDeposit_def txToDeposit_def zero_Deposit_def split: prod.splits sum.splits)

lemma safe_CheckWithdrawal: "safe w0 w \<Longrightarrow> safe.ends w0 (CheckWithdrawal E ctx i w)"
  unfolding CheckWithdrawal_def by (intro safe.steps safe.ends_reads)

lemma safe_GetWithdrawalsByStatus: "safe w0 w \<Longrightarrow> safe.ends w0 (GetWithdrawalsByStatus E ctx q w)"
  unfolding GetWithdrawalsByStatus_def depositsQ_Select_GetWithStatus_def db_Select_def
  by (intro safe.steps safe.ends_ext_call)

lemma GetDeposit_safe: "GetDeposit C i w = (r, w') \<Longrightarrow> safe w w'"
  by (rule ensuresD [OF safe.ends_GetDeposit [OF safe_refl]])

lemma BroadcastDeposit_safe:
  "BroadcastDeposit E b d v = (r, w') \<Longrightarrow> d_RecoveryAttempts d = 0 \<Longrightarrow> safe w v \<Longrightarrow> safe w w'"
  using safe_BroadcastDeposit [of d w v E b] by (simp add: ensures_def)

lemma safe_SubmitWithdrawal:
  assumes "SubmitWithdrawal E ctx b i w = (r, b', w')"
  shows "safe w w'"
proof -
  have "ensures (\<lambda>_ bw. safe w (snd bw)) (SubmitWithdrawal E ctx b i w)"
    unfolding SubmitWithdrawal_def
    by (intro flow)
       (auto intro: safe_refl BroadcastDeposit_safe GetDeposit_attempts dest: GetDeposit_safe)
  with assms show ?thesis by (simp add: ensures_def)
qed

end
