(* ===== verification/Starts.thy ===== *)
theory Starts
  imports Frames
begin

text \<open>
  The handlers that start goroutines: the API and the observer accept deposits and epochs, the
  catch-upper restarts them. A fact about the world before, the jobs started and the world after
  follows for the whole handler from the same fact about the operations of the broadcaster. The
  locales name what such a fact needs; they are interpreted in \<open>System\<close> (every job started has its
  row), \<open>One_Container\<close> (every job started is new to the cache) and \<open>Status_Protocol\<close> (which changes of
  status happen).
\<close>

definition request_jobs :: "('a \<times> 'x job list) go_result \<Rightarrow> 'x job list" where
  "request_jobs r = (case r of Returned (res, jobs) \<Rightarrow> jobs | Panic m \<Rightarrow> [])"

definition loop_jobs :: "'x job list go_result \<Rightarrow> 'x job list" where
  "loop_jobs r = (case r of Returned jobs \<Rightarrow> jobs | Panic m \<Rightarrow> [])"

lemma request_jobs_simps [simp]:
  "request_jobs (Returned (res, jobs)) = jobs" "request_jobs (Panic m) = []"
  "loop_jobs (Returned jobs) = jobs" "loop_jobs (Panic m) = []"
  by (simp_all add: request_jobs_def loop_jobs_def)

lemmas only_ext_facts =
  ensuresD [OF ext.ends_ext_call [OF ext.R_refl]]
  ensuresD [OF ext.ends_pick_random [OF ext.R_refl]]
  ensuresD [OF ext.ends_GetDeposit [OF ext.R_refl]]
  ensuresD [OF ext.ends_reads(1) [OF ext.R_refl]]
  ensuresD [OF ext.ends_reads(2) [OF ext.R_refl]]
  ensuresD [OF ext.ends_reads(3) [OF ext.R_refl]]
  ensuresD [OF ext.ends_reads(4) [OF ext.R_refl]]

subsection \<open>Jobs started one after another\<close>

locale starting =
  fixes G :: "'x world \<Rightarrow> 'x job list \<Rightarrow> 'x world \<Rightarrow> bool"
  assumes G_ext: "only_ext w v \<Longrightarrow> G w [] v"
    and G_trans: "G u js v \<Longrightarrow> G v ks w \<Longrightarrow> G u (js @ ks) w"
    and G_none: "G u js v \<Longrightarrow> G u [] v"
begin

lemma G_refl: "G w [] w"
  by (rule G_ext [OF ext.R_refl])

lemma G_before: "G v js w' \<Longrightarrow> only_ext w v \<Longrightarrow> G w js w'"
  using G_trans [OF G_ext, of w v js w'] by simp

lemma G_after: "G u js v \<Longrightarrow> G v [] w \<Longrightarrow> G u js w"
  using G_trans [of u js v "[]" w] by simp

lemma G_drop: "G u js v \<Longrightarrow> G v ks w \<Longrightarrow> G u [] w"
  by (rule G_none [OF G_trans])

lemma collect:
  assumes "G w (request_jobs (fst r)) (snd r)"
    and "\<And>v. G w (request_jobs (fst r)) v \<Longrightarrow> snd r = v \<Longrightarrow> G v (loop_jobs (fst (rest v))) (snd (rest v))"
  shows "ensures (\<lambda>q. G w (loop_jobs q)) (case r of
      (Panic m, w1) \<Rightarrow> (Panic m, w1)
    | (Returned (err, jobs), w1) \<Rightarrow> (case rest w1 of
        (Panic m, w2) \<Rightarrow> (Panic m, w2)
      | (Returned later, w2) \<Rightarrow> (Returned (jobs @ later), w2)))"
proof -
  obtain q v where r: "r = (q, v)" by fastforce
  obtain q' v' where r': "rest v = (q', v')" by fastforce
  have first: "G w (request_jobs q) v" and rest: "G v (loop_jobs q') v'"
    using assms(1) assms(2) [of v] by (simp_all add: r r')
  show ?thesis using first rest
    by (cases q; cases q') (auto simp: r r' ensures_def intro: G_trans G_drop)
qed

lemma then_pass_G:
  assumes "G w (request_jobs (fst r)) (snd r)"
    and "\<And>v. G v (request_jobs (fst (f v))) (snd (f v))"
  shows "G w (request_jobs (fst (then_pass r msg f))) (snd (then_pass r msg f))"
proof -
  obtain q v where r: "r = (q, v)" by fastforce
  obtain q' v' where r': "f v = (q', v')" by fastforce
  have first: "G w (request_jobs q) v" and rest: "G v (request_jobs q') v'"
    using assms(1) assms(2) [of v] by (simp_all add: r r')
  have "ensures (\<lambda>q. G w (request_jobs q)) (then_pass r msg f)"
    unfolding then_pass_def r
    using first rest by (intro flow) (auto simp: r' intro: G_trans G_drop)
  then show ?thesis by (simp add: ensures_def)
qed

end

subsection \<open>Accepting deposits and epochs\<close>

text \<open>\<open>D\<close>: what is known of a deposit that comes from the core.\<close>

locale accepting = starting +
  fixes E :: "'a env" and D :: "Deposit \<Rightarrow> bool"
  assumes BroadcastDeposit_G: "D d \<Longrightarrow> BroadcastDeposit E b d w = (r, w') \<Longrightarrow> G w (request_jobs r) w'"
    and BroadcastEpoch_G: "BroadcastEpoch E b e w = (r, w') \<Longrightarrow> G w (request_jobs r) w'"
    and latest_G: "blocksQ_UpdateLatestBlockId E l w = (q, w') \<Longrightarrow> G w [] w'"
begin

lemma broadcastDeposit_G:
  assumes "D d" and "broadcastDeposit E ob d w = (r, w')"
  shows "G w (request_jobs r) w'"
proof -
  have "ensures (\<lambda>q. G w (request_jobs q)) (broadcastDeposit E ob d w)"
    unfolding broadcastDeposit_def
    by (intro flow) (auto dest: BroadcastDeposit_G [OF assms(1)] intro: G_refl)
  with assms(2) show ?thesis by (simp add: ensures_def)
qed

lemma broadcast_deposits_G:
  "\<forall>d \<in> set ds. D d \<Longrightarrow> ensures (\<lambda>q. G w (loop_jobs q)) (broadcast_deposits E ob ds w)"
proof (induction ds arbitrary: w)
  case (Cons d ds)
  show ?case unfolding broadcast_deposits.simps
  proof (rule collect)
    show "G w (request_jobs (fst (broadcastDeposit E ob d w))) (snd (broadcastDeposit E ob d w))"
      using Cons.prems by (intro broadcastDeposit_G [where d = d and ob = ob]) simp_all
    show "G v (loop_jobs (fst (broadcast_deposits E ob ds v))) (snd (broadcast_deposits E ob ds v))" for v
      using Cons by (simp add: ensures_def)
  qed
qed (simp add: ensures_leaf G_refl)

lemma broadcast_epochs_G: "ensures (\<lambda>q. G w (loop_jobs q)) (broadcast_epochs E ob es w)"
proof (induction es arbitrary: w)
  case (Cons e es)
  show ?case unfolding broadcast_epochs.simps
  proof (rule collect)
    show "G w (request_jobs (fst (BroadcastEpoch E (o_broadcaster ob) e w)))
        (snd (BroadcastEpoch E (o_broadcaster ob) e w))"
      by (rule BroadcastEpoch_G [where e = e and b = "o_broadcaster ob"]) simp
    show "G v (loop_jobs (fst (broadcast_epochs E ob es v))) (snd (broadcast_epochs E ob es v))" for v
      using Cons by (simp add: ensures_def)
  qed
qed (simp add: ensures_leaf G_refl)

lemma fetchEvents_tick_G:
  assumes "retry_contract R" and "retry_contract Rb"
    and "\<And>v ev v'. fetchBlockEvents ob Rb h v = (Returned (Inr ev), v') \<Longrightarrow> \<forall>d \<in> set (be_Deposits ev). D d"
    and "fetchEvents_tick E R Rb ob h w = Some (r, w')"
  shows "G w (request_jobs r) w'"
proof -
  have height: "only_ext v v'" if "getCurrentHeight E R n v = (q, v')" for n v q v'
    using that by (rule ensuresD [OF ext.ends_getCurrentHeight [OF assms(1) ext.R_refl]])
  have wait: "only_ext v v'" if "waitForBlockDistance E R n k h v = Some (q, v')" for n k v q v'
    using ext.R_waitForBlockDistance [OF that assms(1) ext.R_refl] by simp
  have fetch: "only_ext v v'" if "fetchBlockEvents ob Rb h v = (q, v')" for v q v'
    using that by (rule ensuresD [OF ext.ends_fetchBlockEvents [OF assms(2) ext.R_refl]])
  have deposits: "G v (loop_jobs q) v'" if "broadcast_deposits E ob ds v = (q, v')" "\<forall>d \<in> set ds. D d"
    for ds v q v' using broadcast_deposits_G [OF that(2), of v ob] that(1) by (simp add: ensures_def)
  have epochs: "G v (loop_jobs q) v'" if "broadcast_epochs E ob es v = (q, v')" for es v q v'
    using that by (rule ensuresD [OF broadcast_epochs_G])
  obtain q1 w1 where 1: "getCurrentHeight E R (o_Retries ob) w = (q1, w1)" by fastforce
  note run = assms(4) [unfolded fetchEvents_tick_def 1]
  show ?thesis
  proof (cases "\<exists>q2 w2. waitForBlockDistance E R (o_Retries ob) (o_blockDistance ob) h w1 = Some (q2, w2)")
    case False
    with run height [OF 1] show ?thesis
      by (auto split: go_result.splits sum.splits option.splits intro: G_ext)
  next
    case True
    then obtain q2 w2 where 2: "waitForBlockDistance E R (o_Retries ob) (o_blockDistance ob) h w1 = Some (q2, w2)"
      by blast
    obtain q3 w3 where 3: "blocksQ_UpdateLatestBlockId E \<lparr>lb_Id = 0, lb_BlockId = h\<rparr> w2 = (q3, w3)" by fastforce
    obtain q4 w4 where 4: "fetchBlockEvents ob Rb h w3 = (q4, w4)" by fastforce
    have g2: "G w [] w2" using ext.R_trans [OF height [OF 1] wait [OF 2]] by (rule G_ext)
    have g3: "G w [] w3" using G_after [OF g2 latest_G [OF 3]] .
    have g4: "G w [] w4" using G_after [OF g3 G_ext [OF fetch [OF 4]]] .
    have last: "G w (request_jobs r) w'" if q4: "q4 = Returned (Inr ev)"
      and run: "(case broadcast_deposits E ob (be_Deposits ev) w4 of
          (Panic m, w5) \<Rightarrow> Some (Panic m, w5)
        | (Returned jobs, w5) \<Rightarrow>
       (case broadcast_epochs E ob (be_Epochs ev) w5 of
          (Panic m, w6) \<Rightarrow> Some (Panic m, w6)
        | (Returned later, w6) \<Rightarrow> Some (Returned (h + 1, jobs @ later), w6))) = Some (r, w')" for ev
    proof -
      obtain q5 w5 where 5: "broadcast_deposits E ob (be_Deposits ev) w4 = (q5, w5)" by fastforce
      obtain q6 w6 where 6: "broadcast_epochs E ob (be_Epochs ev) w5 = (q6, w6)" by fastforce
      have "G w (loop_jobs q5) w5"
        using G_trans [OF g4 deposits [OF 5]] assms(3) [OF 4 [unfolded q4]] by simp
      with run 5 6 epochs [OF 6] show ?thesis
        by (cases q5; cases q6) (auto intro: G_trans G_drop)
    qed
    show ?thesis
      using run 2 3 4 height [OF 1, THEN G_ext] g2 g3 g4 last
      by (auto split: go_result.splits sum.splits option.splits if_splits)
  qed
qed

lemma SubmitWithdrawal_G:
  assumes "\<And>i v d v'. GetDeposit (a_connector ctx) i v = (Inr d, v') \<Longrightarrow> D d"
    and "SubmitWithdrawal E ctx b i w = (r, b', w')"
  shows "G w (request_jobs r) w'"
proof -
  have get: "only_ext v v' \<and> (\<forall>d. q = Inr d \<longrightarrow> D d)"
    if "GetDeposit (a_connector ctx) i v = (q, v')" for i v q v'
    using that assms(1) by (auto dest: only_ext_facts)
  have accept: "G v (request_jobs q) v'" if "BroadcastDeposit E b1 d v = (q, v')" "D d" for b1 d v q v'
    using that(2,1) by (rule BroadcastDeposit_G)
  have "ensures (\<lambda>r bw. G w (request_jobs r) (snd bw)) (SubmitWithdrawal E ctx b i w)"
    unfolding SubmitWithdrawal_def
    by (intro flow) (auto dest!: get accept intro: G_refl G_ext G_before)
  with assms(2) show ?thesis by (simp add: ensures_def)
qed

end

subsection \<open>Restarting deposits and epochs\<close>

text \<open>\<open>K d w\<close>: what is known of a deposit read from the table, as long as the handler runs.\<close>

locale restarting = starting +
  fixes E :: "'a env" and K :: "Deposit \<Rightarrow> 'a world \<Rightarrow> bool"
  assumes CatchUp_G: "K d w \<Longrightarrow> CatchUp E b d w = (r, w') \<Longrightarrow> G w (request_jobs r) w'"
    and CatchUpEpoch_G: "CatchUpEpoch E b e w = (r, w') \<Longrightarrow> G w (request_jobs r) w'"
    and K_stable: "K d w \<Longrightarrow> G w js w' \<Longrightarrow> K d w'"
    and GetWithStatus_K: "depositsQ_GetWithStatus E st w = (Inr ds, w') \<Longrightarrow>
      st \<in> {STATUS_PENDING, STATUS_PROCESSING, STATUS_SUBMITTING_TO_CORE} \<Longrightarrow> \<forall>d \<in> set ds. K d w'"
begin

lemma catchup_deposits_G:
  "\<forall>d \<in> set ds. K d w \<Longrightarrow> ensures (\<lambda>q. G w (loop_jobs q)) (catchup_deposits E b ds w)"
proof (induction ds arbitrary: w)
  case (Cons d ds)
  show ?case unfolding catchup_deposits.simps
  proof (rule collect)
    show "G w (request_jobs (fst (CatchUp E b d w))) (snd (CatchUp E b d w))"
      using Cons.prems by (intro CatchUp_G [where d = d and b = b]) simp_all
    fix v assume "G w (request_jobs (fst (CatchUp E b d w))) v"
    then have "\<forall>d \<in> set ds. K d v" using Cons.prems by (auto intro: K_stable)
    then show "G v (loop_jobs (fst (catchup_deposits E b ds v))) (snd (catchup_deposits E b ds v))"
      using Cons.IH by (simp add: ensures_def)
  qed
qed (simp add: ensures_leaf G_refl)

lemma catchup_epochs_G: "ensures (\<lambda>q. G w (loop_jobs q)) (catchup_epochs E b es w)"
proof (induction es arbitrary: w)
  case (Cons e es)
  show ?case unfolding catchup_epochs.simps
  proof (rule collect)
    show "G w (request_jobs (fst (CatchUpEpoch E b e w))) (snd (CatchUpEpoch E b e w))"
      by (rule CatchUpEpoch_G [where e = e and b = b]) simp
    show "G v (loop_jobs (fst (catchup_epochs E b es v))) (snd (catchup_epochs E b es v))" for v
      using Cons by (simp add: ensures_def)
  qed
qed (simp add: ensures_leaf G_refl)

lemma deposits_pass_G:
  assumes "st \<in> {STATUS_PENDING, STATUS_PROCESSING, STATUS_SUBMITTING_TO_CORE}"
  shows "G w (request_jobs (fst (catchupWithStatus E b st w))) (snd (catchupWithStatus E b st w))"
proof -
  have deposits: "G v (loop_jobs q) v'" if "catchup_deposits E b ds v = (q, v')" "\<forall>d \<in> set ds. K d v"
    for ds v q v' using catchup_deposits_G [OF that(2), of b] that(1) by (simp add: ensures_def)
  have list: "only_ext v v' \<and> (\<forall>ds. q = Inr ds \<longrightarrow> (\<forall>d \<in> set ds. K d v'))"
    if "depositsQ_GetWithStatus E st v = (q, v')" for v q v'
    using that assms GetWithStatus_K by (auto dest: only_ext_facts)
  have "ensures (\<lambda>q. G w (request_jobs q)) (catchupWithStatus E b st w)"
    unfolding catchupWithStatus_def
    by (intro flow) (auto dest!: list deposits intro: G_ext G_before)
  then show ?thesis by (simp add: ensures_def)
qed

lemma epochs_pass_G:
  "G w (request_jobs (fst (catchupEpochsWithStatus E b es w))) (snd (catchupEpochsWithStatus E b es w))"
proof -
  have epochs: "G v (loop_jobs q) v'" if "catchup_epochs E b ds v = (q, v')" for ds v q v'
    using that by (rule ensuresD [OF catchup_epochs_G])
  have "ensures (\<lambda>q. G w (request_jobs q)) (catchupEpochsWithStatus E b es w)"
    unfolding catchupEpochsWithStatus_def
    by (intro flow) (auto dest!: only_ext_facts epochs intro: G_ext G_before)
  then show ?thesis by (simp add: ensures_def)
qed

lemma CatchUpper_Start_G:
  assumes "CatchUpper_Start E b w = (r, w')"
  shows "G w (request_jobs r) w'"
proof -
  have "G w (request_jobs (fst (CatchUpper_Start E b w))) (snd (CatchUpper_Start E b w))"
    unfolding CatchUpper_Start_def
    by (intro then_pass_G deposits_pass_G epochs_pass_G) (simp_all add: G_refl)
  with assms show ?thesis by simp
qed

end

end
