(* ===== verification/System.thy ===== *)
theory System
  imports Safe_Steps Starts
begin

text \<open>
  The running service as a transition system (\<open>cmd/service/run/run.go\<close>): the API, the
  observer, the catch-upper, the network workers and the core submitter run concurrently
  and interleave in any order; goroutines that wait to send a container are served in any order.
  A step is one handler run as a whole. A panic outside an API handler ends the process: what
  was in memory is lost and a new process starts on the same database.
\<close>

subsection \<open>State and steps\<close>

text \<open>What \<open>runService\<close> and its goroutines wire together, once the settings are made.\<close>

record 'x service =
  sv_env :: "'x env"
  sv_api :: "'x api_ctx"
  sv_boot :: "'x Broadcaster"
  sv_observer :: "'x Observer"
  sv_Retries :: nat
  sv_retry_height :: "'x height_retry"
  sv_retry_block :: "'x block_retry"
  sv_retry_submit :: "(Deposit list \<times> 'x world) retry_fun"

record 'x node =
  n_world :: "'x world"
  n_broadcaster :: "'x Broadcaster"
  n_height :: uint64
  n_jobs :: "'x job list"
  n_submit :: "Deposit list"
  n_pool :: "Deposit list"

definition sent_deposits :: "Deposit option list \<Rightarrow> Deposit list" where
  "sent_deposits sent = List.map_filter (\<lambda>d. d) sent"

definition running_observer :: "'x service \<Rightarrow> 'x node \<Rightarrow> 'x Observer" where
  "running_observer sv s = (sv_observer sv)\<lparr>o_broadcaster := n_broadcaster s\<rparr>"

definition after_crash :: "'x service \<Rightarrow> 'x node \<Rightarrow> 'x world \<Rightarrow> 'x node" where
  "after_crash sv s w = s\<lparr>n_world := w\<lparr>w_cache := {}\<rparr>, n_broadcaster := sv_boot sv,
     n_jobs := [], n_submit := [], n_pool := []\<rparr>"

inductive step :: "'x service \<Rightarrow> 'x node \<Rightarrow> 'x node \<Rightarrow> bool" for sv :: "'x service" where
  submit_request:
  "SubmitWithdrawal (sv_env sv) (sv_api sv) (n_broadcaster s) i (n_world s) = (r, b, w) \<Longrightarrow>
     step sv s (s\<lparr>n_world := w, n_broadcaster := b, n_jobs := n_jobs s @ request_jobs r\<rparr>)"
| check_request:
  "CheckWithdrawal (sv_env sv) (sv_api sv) i (n_world s) = (r, w) \<Longrightarrow> step sv s (s\<lparr>n_world := w\<rparr>)"
| list_request:
  "GetWithdrawalsByStatus (sv_env sv) (sv_api sv) q (n_world s) = (r, w) \<Longrightarrow>
     step sv s (s\<lparr>n_world := w\<rparr>)"
| observe:
  "fetchEvents_tick (sv_env sv) (sv_retry_height sv) (sv_retry_block sv) (running_observer sv s)
     (n_height s) (n_world s) = Some (Returned (h, jobs), w) \<Longrightarrow>
     step sv s (s\<lparr>n_world := w, n_height := h, n_jobs := n_jobs s @ jobs\<rparr>)"
| observe_panics:
  "fetchEvents_tick (sv_env sv) (sv_retry_height sv) (sv_retry_block sv) (running_observer sv s)
     (n_height s) (n_world s) = Some (Panic m, w) \<Longrightarrow> step sv s (after_crash sv s w)"
| catch_up:
  "CatchUpper_Start (sv_env sv) (n_broadcaster s) (n_world s) = (Returned (e, jobs), w) \<Longrightarrow>
     step sv s (s\<lparr>n_world := w, n_jobs := n_jobs s @ jobs\<rparr>)"
| catch_up_panics:
  "CatchUpper_Start (sv_env sv) (n_broadcaster s) (n_world s) = (Panic m, w) \<Longrightarrow>
     step sv s (after_crash sv s w)"
| work:
  "n_jobs s = xs @ WithdrawJob c k # ys \<Longrightarrow>
     withdrawal_worker_step (sv_env sv) (b_coreConnector (n_broadcaster s)) k (n_world s)
       = (Returned sent, w) \<Longrightarrow>
     step sv s (s\<lparr>n_world := w, n_jobs := xs @ ys, n_submit := n_submit s @ sent_deposits sent\<rparr>)"
| work_panics:
  "n_jobs s = xs @ WithdrawJob c k # ys \<Longrightarrow>
     withdrawal_worker_step (sv_env sv) (b_coreConnector (n_broadcaster s)) k (n_world s)
       = (Panic m, w) \<Longrightarrow> step sv s (after_crash sv s w)"
| update_signers:
  "n_jobs s = xs @ SignersJob c j # ys \<Longrightarrow> signers_Run (sv_env sv) j (n_world s) = (r, w) \<Longrightarrow>
     step sv s (s\<lparr>n_world := w, n_jobs := xs @ ys\<rparr>)"
| report:
  "n_submit s = xs @ d # ys \<Longrightarrow>
     submitter_step (sv_env sv) (sv_retry_submit sv) (sv_Retries sv)
       (b_coreConnector (n_broadcaster s)) (b_submitBatchSize (n_broadcaster s)) d
       (n_pool s, n_world s) = (Returned pool, w) \<Longrightarrow>
     step sv s (s\<lparr>n_world := w, n_submit := xs @ ys, n_pool := pool\<rparr>)"
| report_panics:
  "n_submit s = xs @ d # ys \<Longrightarrow>
     submitter_step (sv_env sv) (sv_retry_submit sv) (sv_Retries sv)
       (b_coreConnector (n_broadcaster s)) (b_submitBatchSize (n_broadcaster s)) d
       (n_pool s, n_world s) = (Panic m, w) \<Longrightarrow> step sv s (after_crash sv s w)"
| restart:
  "fetchEvents_init (sv_env sv) (sv_retry_height sv) (sv_observer sv) h (n_world s)
     = (Returned (Inr h'), w) \<Longrightarrow>
     step sv s ((after_crash sv s w)\<lparr>n_height := h'\<rparr>)"

text \<open>The first process on an empty database.\<close>

definition initial :: "'x service \<Rightarrow> 'x node \<Rightarrow> bool" where
  "initial sv s \<longleftrightarrow> w_deposits (n_world s) = [] \<and> w_signatures (n_world s) = []
     \<and> w_latest (n_world s) = [] \<and> w_cache (n_world s) = {} \<and> w_log (n_world s) = []
     \<and> n_broadcaster s = sv_boot sv \<and> n_jobs s = [] \<and> n_submit s = [] \<and> n_pool s = []"

inductive reachable :: "'x service \<Rightarrow> 'x node \<Rightarrow> bool" for sv :: "'x service" where
  start: "initial sv s \<Longrightarrow> reachable sv s"
| next_step: "reachable sv s \<Longrightarrow> step sv s t \<Longrightarrow> reachable sv t"

text \<open>What is assumed of the libraries: the retrier's contract.\<close>

definition service_ok :: "'x service \<Rightarrow> bool" where
  "service_ok sv \<longleftrightarrow> retry_contract (sv_retry_height sv) \<and> retry_contract (sv_retry_block sv)
     \<and> retry_contract (sv_retry_submit sv)"

subsection \<open>Every step is safe\<close>

lemma safe_after_crash: "safe w0 w \<Longrightarrow> safe w0 (n_world (after_crash sv s w))"
  by (simp add: after_crash_def safe_cache)

lemma ensures_safe: "(\<And>w0. safe w0 w \<Longrightarrow> safe.ends w0 r) \<Longrightarrow> r = (q, w') \<Longrightarrow> safe w w'"
  using safe_refl by (auto simp: ensures_def)

lemma step_safe:
  assumes "service_ok sv" and "step sv s t"
  shows "safe (n_world s) (n_world t)"
  using assms(2)
proof cases
  case (submit_request i r b w)
  then show ?thesis using safe_SubmitWithdrawal by fastforce
next
  case (check_request i r w)
  then show ?thesis using ensures_safe [OF safe_CheckWithdrawal] by fastforce
next
  case (list_request q r w)
  then show ?thesis using ensures_safe [OF safe_GetWithdrawalsByStatus] by fastforce
next
  case (observe h jobs w)
  then show ?thesis
    using safe_fetchEvents_tick [OF _ _ safe_refl] assms(1)
    by (fastforce simp: service_ok_def safe.may_end_def)
next
  case (observe_panics m w)
  have "safe (n_world s) w"
    using safe_fetchEvents_tick [OF _ _ safe_refl] assms(1) observe_panics(2)
    by (fastforce simp: service_ok_def safe.may_end_def)
  with observe_panics(1) show ?thesis by (simp add: safe_after_crash)
next
  case (catch_up e jobs w)
  then show ?thesis using ensures_safe [OF safe_CatchUpper_Start] by fastforce
next
  case (catch_up_panics m w)
  then show ?thesis using ensures_safe [OF safe_CatchUpper_Start] by (fastforce intro: safe_after_crash)
next
  case (work xs c k ys sent w)
  then show ?thesis using ensures_safe [OF safe_worker] by fastforce
next
  case (work_panics xs c k ys m w)
  then show ?thesis using ensures_safe [OF safe_worker] by (fastforce intro: safe_after_crash)
next
  case (update_signers xs c j ys r w)
  then show ?thesis using ensures_safe [OF safe_signers_Run] by fastforce
next
  case (report xs d ys pool w)
  then show ?thesis using ensures_safe [OF safe_submitter_step] assms(1)
    by (fastforce simp: service_ok_def)
next
  case (report_panics xs d ys m w)
  then show ?thesis using ensures_safe [OF safe_submitter_step] assms(1)
    by (fastforce simp: service_ok_def intro: safe_after_crash)
next
  case (restart h h' w)
  then show ?thesis using ensures_safe [OF safe_fetchEvents_init] assms(1)
    by (fastforce simp: service_ok_def intro: safe_after_crash)
qed

lemma initial_world_ok:
  assumes "initial sv s"
  shows "pk_ok (n_world s) \<and> no_attempts (n_world s) \<and> log_ok (w_log (n_world s))"
  using assms by (simp add: initial_def pk_ok_def key_unique_def no_attempts_def)

lemma reachable_world_ok:
  assumes "service_ok sv" and "reachable sv s"
  shows "pk_ok (n_world s) \<and> no_attempts (n_world s) \<and> log_ok (w_log (n_world s))"
  using assms(2)
proof (induction rule: reachable.induct)
  case (start s)
  then show ?case by (rule initial_world_ok)
next
  case (next_step s t)
  with step_safe [OF assms(1) next_step.hyps(2)] show ?case
    by (auto simp: safe_def log_ok_append)
qed

subsection \<open>Work in memory has its row in the table\<close>

text \<open>
  The driver itself never answers with the server's duplicate-key text; only a conflict does.
\<close>

definition sql_honest :: "'x env \<Rightarrow> bool" where
  "sql_honest E \<longleftrightarrow> (\<forall>x e. fst (x_sql E x) = Some e \<longrightarrow> \<not> strings_Contains (error_text e) duplicate_key_text)"

lemma known_ext_call: "ext_call f w = (a, w') \<Longrightarrow> known w' = known w"
  by (auto dest!: ext_call_world)

lemma Insert_known:
  assumes "sql_honest E" and "depositsQ_Insert E d w = (None, w')"
  shows "d_Id d \<in> known w'"
proof -
  obtain r x where sql: "x_sql E (w_ext w) = (r, x)" by fastforce
  show ?thesis
  proof (cases r)
    case (Some e)
    with assms(1) sql have "\<not> strings_Contains (error_text e) duplicate_key_text"
      by (metis sql_honest_def fst_conv)
    with assms(2) sql Some show ?thesis
      by (simp add: depositsQ_Insert_def db_Insert_def ext_call_def)
  next
    case None
    show ?thesis
    proof (cases "find_row d_Id (d_Id d) (w_deposits w) = None")
      case True
      with assms(2) sql None have "w' = w\<lparr>w_ext := x, w_deposits := w_deposits w @ [deposit_row d]\<rparr>"
        by (simp add: depositsQ_Insert_def db_Insert_def ext_call_def)
      then show ?thesis by (simp add: known_def deposit_row_def)
    next
      case False
      then have "d_Id d \<in> known w" by (simp add: known_def find_row_None_iff)
      moreover have "known w' = known w"
        using assms(2) sql None False
        by (auto simp: depositsQ_Insert_def db_Insert_def ext_call_def depositsQ_UpdateRecoveryData_def
            db_Exec_def split: prod.splits option.splits if_splits)
      ultimately show ?thesis by simp
    qed
  qed
qed

fun job_known :: "'x world \<Rightarrow> 'x job \<Rightarrow> bool" where
  "job_known w (WithdrawJob c k) = (d_Id (container_deposit k) \<in> known w)"
| "job_known w (SignersJob c j) = True"

lemma job_known_mono: "job_known w j \<Longrightarrow> known w \<subseteq> known w' \<Longrightarrow> job_known w' j"
  by (cases j) auto

lemma jobs_known_mono:
  "\<forall>j \<in> set jobs. job_known w j \<Longrightarrow> known w \<subseteq> known w' \<Longrightarrow> \<forall>j \<in> set jobs. job_known w' j"
  by (blast intro: job_known_mono)

lemma known_pick_random: "pick_random E xs w = (r, w') \<Longrightarrow> known w' = known w"
  by (auto dest!: pick_random_world)

lemma known_cache [simp]: "known (cache_Store k w) = known w" "known (cache_Delete k w) = known w"
  by (simp_all add: cache_Store_def cache_Delete_def)

text \<open>
  What a handler that starts jobs keeps: the rows stay known, and with an honest driver each
  job it starts has its row.
\<close>

definition keeps_rows :: "'x env \<Rightarrow> 'x world \<Rightarrow> 'x job list \<Rightarrow> 'x world \<Rightarrow> bool" where
  "keeps_rows E w jobs w' \<longleftrightarrow> known w \<subseteq> known w' \<and> (sql_honest E \<longrightarrow> (\<forall>j \<in> set jobs. job_known w' j))"

lemma safe_known: "safe w w' \<Longrightarrow> known w \<subseteq> known w'"
  by (simp add: safe_def)

lemma ends_known: "safe.ends w r \<Longrightarrow> r = (q, w') \<Longrightarrow> known w \<subseteq> known w'"
  by (auto simp: ensures_def dest: safe_known)

interpretation rows: starting "keeps_rows E" for E
proof
  fix w v u :: "'a world" and js ks
  show "only_ext w v \<Longrightarrow> keeps_rows E w [] v" by (auto simp: keeps_rows_def known_def dest: only_ext_rows)
  show "keeps_rows E u js v \<Longrightarrow> keeps_rows E v ks w \<Longrightarrow> keeps_rows E u (js @ ks) w"
    by (auto simp: keeps_rows_def intro: job_known_mono)
  show "keeps_rows E u js v \<Longrightarrow> keeps_rows E u [] v" by (simp add: keeps_rows_def)
qed

lemma BroadcastDeposit_rows:
  assumes "d_RecoveryAttempts d = 0" and "BroadcastDeposit E b d w = (r, w')"
  shows "keeps_rows E w (request_jobs r) w'"
proof -
  have "ensures (\<lambda>r v. sql_honest E \<longrightarrow> (\<forall>j \<in> set (request_jobs r). job_known v j)) (BroadcastDeposit E b d w)"
    unfolding BroadcastDeposit_def BroadcastDeposit_accept_def Let_def
    by (intro flow) (auto dest!: Insert_known known_pick_random)
  with ends_known [OF safe_BroadcastDeposit [OF assms(1) safe_refl] assms(2)] assms(2) show ?thesis
    by (simp add: keeps_rows_def ensures_def)
qed

lemma CatchUp_rows:
  assumes "d_Id d \<in> known w" and "CatchUp E b d w = (r, w')"
  shows "keeps_rows E w (request_jobs r) w'"
proof -
  have "known v = known w" if "depositsQ_UpdateStatus E i s w = (e, v)" for i s e v
    using db_Exec_did [OF that [unfolded depositsQ_UpdateStatus_def]]
    by (cases e) (auto simp: db_did_def)
  with assms(1) have "ensures (\<lambda>r v. \<forall>j \<in> set (request_jobs r). job_known v j) (CatchUp E b d w)"
    unfolding CatchUp_def Let_def by (intro flow) (auto dest!: known_pick_random)
  with ends_known [OF safe_CatchUp [OF safe_refl] assms(2)] assms(2) show ?thesis
    by (simp add: keeps_rows_def ensures_def)
qed

lemma epoch_rows:
  "BroadcastEpoch E b ep w = (r, w') \<Longrightarrow> keeps_rows E w (request_jobs r) w'"
  "CatchUpEpoch E b ep w = (r, w') \<Longrightarrow> keeps_rows E w (request_jobs r) w'"
proof -
  have "ensures (\<lambda>r v. \<forall>j \<in> set (request_jobs r). job_known v j) (BroadcastEpoch E b ep w)"
    "ensures (\<lambda>r v. \<forall>j \<in> set (request_jobs r). job_known v j) (CatchUpEpoch E b ep w)"
    unfolding BroadcastEpoch_def CatchUpEpoch_def Let_def by (intro flow; auto)+
  then show "BroadcastEpoch E b ep w = (r, w') \<Longrightarrow> keeps_rows E w (request_jobs r) w'"
    "CatchUpEpoch E b ep w = (r, w') \<Longrightarrow> keeps_rows E w (request_jobs r) w'"
    using ends_known [OF safe_BroadcastEpoch [OF safe_refl], of E b ep w r w']
      ends_known [OF safe_CatchUpEpoch [OF safe_refl], of E b ep w r w']
    by (auto simp: keeps_rows_def ensures_def)
qed

lemma GetWithStatus_known:
  "depositsQ_GetWithStatus E st w = (Inr ds, w') \<Longrightarrow> d_Id ` set ds \<subseteq> known w'"
  by (auto simp: depositsQ_GetWithStatus_def known_def split: prod.splits sum.splits dest!: db_Query_did)

lemma keeps_rows_known: "known w \<subseteq> known w' \<Longrightarrow> keeps_rows E w [] w'"
  by (simp add: keeps_rows_def)

lemma keeps_rows_stable: "i \<in> known w \<Longrightarrow> keeps_rows E w js w' \<Longrightarrow> i \<in> known w'"
  by (auto simp: keeps_rows_def)

interpretation rows: accepting "keeps_rows E" E "\<lambda>d. d_RecoveryAttempts d = 0" for E
  by unfold_locales
     (auto intro: BroadcastDeposit_rows epoch_rows keeps_rows_known
       dest: ends_known [OF safe_blocks_Update [OF safe_refl]])

interpretation rows: restarting "keeps_rows E" E "\<lambda>d w. d_Id d \<in> known w" for E
  by unfold_locales (auto intro: CatchUp_rows epoch_rows keeps_rows_stable dest: GetWithStatus_known)

lemma request_rows: "keeps_rows E w (request_jobs r) w' \<Longrightarrow> sql_honest E \<Longrightarrow>
    \<forall>j \<in> set (request_jobs r). job_known w' j"
  by (simp add: keeps_rows_def)

lemma fetchEvents_tick_rows:
  "retry_contract R \<Longrightarrow> retry_contract Rb \<Longrightarrow> fetchEvents_tick E R Rb ob h w = Some (r, w') \<Longrightarrow>
     keeps_rows E w (request_jobs r) w'"
  by (rule rows.fetchEvents_tick_G) (auto dest: fetchBlockEvents_attempts)

lemma SubmitWithdrawal_rows:
  "SubmitWithdrawal E ctx b i w = (r, b', w') \<Longrightarrow> keeps_rows E w (request_jobs r) w'"
  by (rule rows.SubmitWithdrawal_G) (auto dest: GetDeposit_attempts)

lemma worker_sends:
  assumes "withdrawal_worker_step E C k w = (Returned sent, w')"
  shows "d_Id ` set (sent_deposits sent) \<subseteq> {d_Id (container_deposit k)}"
  using assms
  by (auto simp: withdrawal_worker_step_def sent_deposits_def List.map_filter_def run_ok_def
      split: prod.splits option.splits dest!: container_Run_ok)

lemma UpdateTxInfo_loop_ids:
  "UpdateTxInfo_loop C ds w = ((e, ds', msgs), w') \<Longrightarrow> map d_Id ds' = map d_Id ds"
proof (induction ds arbitrary: w e ds' msgs w')
  case (Cons d ds)
  obtain g w1 where g: "GetDeposit C (d_Id d) w = (g, w1)" by fastforce
  obtain e2 ds2 msgs2 w2 where rest: "UpdateTxInfo_loop C ds w1 = ((e2, ds2, msgs2), w2)"
    by (metis prod.exhaust)
  from Cons.IH [OF rest] Cons.prems g rest show ?case
    by (auto simp: Let_def split: sum.splits if_splits)
qed simp

lemma UpdateTxInfo_ids: "UpdateTxInfo C ds w = ((r, ds'), w') \<Longrightarrow> map d_Id ds' = map d_Id ds"
  by (auto simp: UpdateTxInfo_def split: prod.splits option.splits go_result.splits
      dest: UpdateTxInfo_loop_ids)

lemma submitter_pool:
  assumes "retry_contract R" and "submitter_step E R n C k d (pool, w) = (Returned pool', w')"
  shows "d_Id ` set pool' \<subseteq> insert (d_Id d) (d_Id ` set pool)"
proof -
  obtain q pool2 w2 where run: "DoWithRetry R n (updateTx C) (pool @ [d], w) = (q, (pool2, w2))"
    by (metis prod.exhaust)
  have "map d_Id (fst (pool2, w2)) = map d_Id (pool @ [d])"
    by (rule DoWithRetry_invariant [OF assms(1) run, where P = "\<lambda>s. map d_Id (fst s) = map d_Id (pool @ [d])"])
       (auto simp: updateTx_def split: prod.splits dest!: UpdateTxInfo_ids)
  then have "d_Id ` set pool2 = insert (d_Id d) (d_Id ` set pool)"
    by (metis fst_conv image_set list.simps(15) rotate1.simps(2) set_rotate1 map_append
        list.simps(8,9))
  with assms(2) run show ?thesis
    by (auto simp: submitter_step_def Let_def split: go_result.splits option.splits if_splits)
qed

subsection \<open>The invariant of the memory\<close>

definition memory_known :: "'x node \<Rightarrow> bool" where
  "memory_known s \<longleftrightarrow> (\<forall>j \<in> set (n_jobs s). job_known (n_world s) j)
     \<and> d_Id ` set (n_submit s @ n_pool s) \<subseteq> known (n_world s)"

lemma memory_knownI:
  assumes "memory_known s" and "known (n_world s) \<subseteq> known (n_world t)"
    and "set (n_jobs t) \<subseteq> set (n_jobs s) \<union> J" and "\<forall>j \<in> J. job_known (n_world t) j"
    and "d_Id ` set (n_submit t @ n_pool t) \<subseteq> d_Id ` set (n_submit s @ n_pool s) \<union> I"
    and "I \<subseteq> known (n_world t)"
  shows "memory_known t"
proof -
  have "job_known (n_world t) j" if "j \<in> set (n_jobs t)" for j
    using that assms(1-4) unfolding memory_known_def by (blast intro: job_known_mono)
  moreover have "d_Id ` set (n_submit t @ n_pool t) \<subseteq> known (n_world t)"
    using assms(1,2,5,6) unfolding memory_known_def by blast
  ultimately show ?thesis by (simp add: memory_known_def)
qed

lemma memory_known_crash: "memory_known (after_crash sv s w)" "memory_known ((after_crash sv s w)\<lparr>n_height := h\<rparr>)"
  by (simp_all add: memory_known_def after_crash_def)

lemma step_memory_known:
  assumes "service_ok sv" and "sql_honest (sv_env sv)" and "step sv s t" and "memory_known s"
  shows "memory_known t"
proof -
  have mono: "known (n_world s) \<subseteq> known (n_world t)"
    by (rule safe_known [OF step_safe [OF assms(1,3)]])
  from assms(3) show ?thesis
  proof cases
    case (submit_request i r b w)
    with request_rows [OF SubmitWithdrawal_rows [OF submit_request(2)] assms(2)] show ?thesis
      by (intro memory_knownI [OF assms(4) mono, of "set (request_jobs r)" "{}"]) auto
  next
    case (check_request i r w)
    then show ?thesis by (intro memory_knownI [OF assms(4) mono, of "{}" "{}"]) auto
  next
    case (list_request q r w)
    then show ?thesis by (intro memory_knownI [OF assms(4) mono, of "{}" "{}"]) auto
  next
    case (observe h jobs w)
    have "retry_contract (sv_retry_height sv)" "retry_contract (sv_retry_block sv)"
      using assms(1) by (simp_all add: service_ok_def)
    with observe request_rows [OF fetchEvents_tick_rows [OF _ _ observe(2)] assms(2)] show ?thesis
      by (intro memory_knownI [OF assms(4) mono, of "set jobs" "{}"]) auto
  next
    case (catch_up e jobs w)
    with request_rows [OF rows.CatchUpper_Start_G [OF catch_up(2)] assms(2)] show ?thesis
      by (intro memory_knownI [OF assms(4) mono, of "set jobs" "{}"]) auto
  next
    case (work xs c k ys sent w)
    have "d_Id (container_deposit k) \<in> known (n_world s)"
      using assms(4) work(2) by (auto simp: memory_known_def)
    with mono worker_sends [OF work(3)] work show ?thesis
      by (intro memory_knownI [OF assms(4) mono, of "{}" "{d_Id (container_deposit k)}"]) auto
  next
    case (update_signers xs c j ys r w)
    then show ?thesis by (intro memory_knownI [OF assms(4) mono, of "{}" "{}"]) auto
  next
    case (report xs d ys pool w)
    have "retry_contract (sv_retry_submit sv)" using assms(1) by (simp add: service_ok_def)
    from submitter_pool [OF this report(3)] report show ?thesis
      by (intro memory_knownI [OF assms(4) mono, of "{}" "{}"]) auto
  qed (simp_all add: memory_known_crash)
qed

lemma reachable_memory_known:
  assumes "service_ok sv" and "sql_honest (sv_env sv)" and "reachable sv s"
  shows "memory_known s"
  using assms(3)
proof (induction rule: reachable.induct)
  case (start s)
  then show ?case by (simp add: initial_def memory_known_def)
next
  case (next_step s t)
  then show ?case using step_memory_known [OF assms(1,2)] by blast
qed

end
