(* ===== verification/Demo.thy ===== *)
theory Demo
  imports System
begin

text \<open>
  A small concrete service on which the properties of the core are applied: one chain with one
  child client, a database and libraries that answer, and one deposit known to the core.
\<close>

definition demo_env :: "unit env" where
  "demo_env = \<lparr>x_sql = (\<lambda>x. (None, x)), x_now = (\<lambda>x. (1000, x)), x_Intn = (\<lambda>n x. (0, x)),
     x_ABCIInfo = (\<lambda>x. (Inr 7, x))\<rparr>"

definition demo_child :: "unit ChildClient" where
  "demo_child = \<lparr>cc_UpdateSigners = (\<lambda>e x. ((''0xu'', 5, None), x)),
     cc_Withdraw = (\<lambda>d x. ((''op'', ''0xw'', 5, None), x)),
     cc_IsProcessed = (\<lambda>d x. ((False, None), x))\<rparr>"

definition demo_client :: "unit ChainClient" where
  "demo_client = \<lparr>cl_Type = TypeEVM, cl_ChainId = ''2'', cl_WorkersCount = 1,
     cl_TransactionHashValid = (\<lambda>s. True), cl_IsProcessed = (\<lambda>d x. ((False, None), x)),
     cl_ChildClients = [demo_child]\<rparr>"

definition demo_repo :: "unit clientsRepository" where
  "demo_repo = \<lparr>repo_clients = [''2'' \<mapsto> demo_client]\<rparr>"

definition demo_tx :: Transaction where
  "demo_tx = \<lparr>tx_DepositChainId = ''1'', tx_DepositTxHash = ''0xd'', tx_DepositTxIndex = 3,
     tx_DepositBlock = 9, tx_DepositToken = ''t'', tx_DepositAmount = ''10'', tx_Depositor = ''a'',
     tx_Receiver = ''b'', tx_WithdrawalChainId = ''2'', tx_WithdrawalTxHash = [],
     tx_WithdrawalToken = ''u'', tx_Signature = ''0x00'', tx_IsWrapped = False,
     tx_WithdrawalAmount = ''9'', tx_CommissionAmount = ''1'', tx_TxData = [], tx_ReferralId = 4\<rparr>"

definition demo_core :: "unit core_client" where
  "demo_core = \<lparr>cq_TransactionById = (\<lambda>c h n x. (Inr demo_tx, x)),
     cq_Account = (\<lambda>a x. (Inr [], x)), cq_BroadcastTx = (\<lambda>t x. (Inr \<lparr>res_Code = 0, res_Text = []\<rparr>, x)),
     sdk_UnmarshalAccount = (\<lambda>v. Inr \<lparr>acc_AccountNumber = 1, acc_Sequence = 2\<rparr>),
     sdk_SetMsgs = (\<lambda>ms. if None \<in> set ms then Some (Msg ''nil message'') else None),
     sdk_NewInt64Coin = (\<lambda>d n. if sint n < 0 then Panic ''negative coin amount'' else Returned (d, n)),
     sdk_SetSignatures = (\<lambda>s. None), sdk_SignWithPrivKey = (\<lambda>c n q k t. Inr [1]),
     sdk_TxEncoder = (\<lambda>t. Inr [2])\<rparr>"

definition demo_connector :: "unit Connector" where
  "demo_connector = \<lparr>c_client = demo_core, c_account = \<lparr>acc_prv = [], acc_addr = ''bridge1''\<rparr>,
     c_settings = \<lparr>set_ChainId = ''bridge_1'', set_Denom = ''abridge'', set_MinGasPrice = 1\<rparr>,
     c_accountNumber = 1, c_accountSequence = 2\<rparr>"

definition demo_broadcaster :: "unit Broadcaster" where
  "demo_broadcaster = \<lparr>b_coreConnector = demo_connector, b_clientsRepo = demo_repo,
     b_chainTxPoolSize = 10, b_submitTxPoolSize = 10, b_submitBatchSize = 1,
     b_recoveryAttempts = 0, b_recoveryTimeout = 0\<rparr>"

definition demo_keys :: bridge_keys where
  "demo_keys = \<lparr>key_DepositTxHash = ''1'', key_DepositNonce = ''2'', key_DepositChainId = ''3'',
     key_DepositAmount = ''4'', key_DepositToken = ''5'', key_DepositBlock = ''6'',
     key_WithdrawalAmount = ''7'', key_Depositor = ''8'', key_Receiver = ''9'',
     key_WithdrawalChainID = ''10'', key_WithdrawalTxHash = ''11'', key_WithdrawalToken = ''12'',
     key_Signature = ''13'', key_IsWrapped = ''14'', key_CommissionAmount = ''15'',
     key_MerkleProof = ''16'', key_EpochId = ''17''\<rparr>"

definition demo_observer :: "unit Observer" where
  "demo_observer = \<lparr>o_clientsRepo = demo_repo, o_broadcaster = demo_broadcaster,
     o_pollingInterval = 1, o_blockDelay = 1, o_blockDistance = 0,
     o_BlockResults = (\<lambda>h x. (Inr \<lparr>br_TxLogs = [], br_BeginBlockEvents = []\<rparr>, x)),
     o_keys = demo_keys,
     o_decoder = \<lparr>json_Valid = (\<lambda>s. False), json_Unmarshal = (\<lambda>s. Inr [])\<rparr>, o_Retries = 3\<rparr>"

definition demo_api :: "unit api_ctx" where
  "demo_api = \<lparr>a_clients = demo_repo, a_connector = demo_connector,
     a_config = \<lparr>rc_RecoveryAttempts = 5, rc_RecoveryTimeout = 60\<rparr>, a_ozzo = ozzo_ref,
     a_Errorf = (\<lambda>i e. ''invalid identifier''),
     a_ApplyTo = (\<lambda>p sel col. sel\<lparr>sel_order := [col], sel_limit := Some (unat (pp_Limit p)),
        sel_offset := unat (pp_Limit p * pp_PageNumber p)\<rparr>),
     a_pg_order = (\<lambda>cols rows. rows)\<rparr>"

definition demo_service :: "unit service" where
  "demo_service = \<lparr>sv_env = demo_env, sv_api = demo_api, sv_boot = demo_broadcaster,
     sv_observer = demo_observer, sv_Retries = 3, sv_retry_height = retry_ref,
     sv_retry_block = retry_ref, sv_retry_submit = retry_ref\<rparr>"

definition demo_world :: "unit world" where
  "demo_world = \<lparr>w_deposits = [], w_signatures = [], w_latest = [], w_cache = {}, w_log = [],
     w_ext = ()\<rparr>"

definition demo_start :: "unit node" where
  "demo_start = \<lparr>n_world = demo_world, n_broadcaster = demo_broadcaster, n_height = 1,
     n_jobs = [], n_submit = [], n_pool = []\<rparr>"

definition demo_id :: DepositIdentifier where
  "demo_id = \<lparr>TxHash = ''0xd'', TxNonce = 3, ChainId = ''1''\<rparr>"

lemmas demo_defs = demo_env_def demo_child_def demo_client_def demo_repo_def demo_tx_def
  demo_core_def demo_connector_def demo_broadcaster_def demo_api_def demo_service_def
  demo_world_def demo_start_def demo_id_def

lemma demo_service_ok: "service_ok demo_service"
  by (simp add: service_ok_def demo_service_def retry_ref_contract)

lemma demo_sql_ok: "sql_ok demo_env" "sql_honest demo_env"
  by (simp_all add: sql_ok_def sql_honest_def demo_env_def)

lemma demo_reachable_start: "reachable demo_service demo_start"
  by (rule reachable.start) (simp add: initial_def demo_defs)

text \<open>A request for the deposit is accepted: it is stored, and its container waits.\<close>

definition demo_deposit :: Deposit where
  "demo_deposit = (txToDeposit demo_tx)\<lparr>d_WithdrawalStatus := STATUS_PENDING, d_RecoveryTimestamp := 1000\<rparr>"

definition demo_stored :: "unit world" where
  "demo_stored = demo_world\<lparr>w_deposits := [deposit_row demo_deposit], w_cache := {Deposit_String demo_deposit}\<rparr>"

definition demo_api_broadcaster :: "unit Broadcaster" where
  "demo_api_broadcaster = demo_broadcaster\<lparr>b_recoveryAttempts := 5, b_recoveryTimeout := 60000000000\<rparr>"

definition demo_job :: "unit job" where
  "demo_job = WithdrawJob ''2'' (DepositBroadcast demo_child demo_deposit)"

lemma demo_validate: "ValidateIdentifier (a_ozzo demo_api) (Some demo_id) = None"
  using ValidateIdentifier_None [OF ozzo_ref_contract, of "Some demo_id"]
  by (simp add: demo_api_def demo_id_def)

lemma demo_get: "GetDeposit demo_connector demo_id demo_world = (Inr (txToDeposit demo_tx), demo_world)"
  by (simp add: GetDeposit_def ext_call_def demo_connector_def demo_core_def demo_world_def)

lemma demo_BroadcastDeposit:
  "BroadcastDeposit demo_env demo_api_broadcaster (txToDeposit demo_tx) demo_world
     = (Returned (None, [demo_job]), demo_stored)"
  by (simp add: BroadcastDeposit_def BroadcastDeposit_accept_def checkExistence_def demo_defs demo_api_broadcaster_def
      demo_stored_def demo_job_def demo_deposit_def txToDeposit_def zero_Deposit_def
      cache_Load_def cache_Store_def repo_Client_def ext_call_def depositsQ_Get_def db_Query_def
      zero_time_Unix depositsQ_Insert_def db_Insert_def pick_random_def deposit_row_def
      nilOrNotEmpty_def)

lemma demo_submit:
  "SubmitWithdrawal demo_env demo_api demo_broadcaster (Some demo_id) demo_world
     = (Returned (Inr None, [demo_job]), demo_api_broadcaster, demo_stored)"
proof -
  have "WithRecoveryTimeout (WithRecoveryAttempts demo_broadcaster 5) 60000000000 = demo_api_broadcaster"
    by (simp add: WithRecoveryTimeout_def WithRecoveryAttempts_def demo_api_broadcaster_def)
  moreover have "RecoveryParams (a_config demo_api) = (5, 60000000000)"
    by (simp add: RecoveryParams_def demo_api_def time_Second_def)
  moreover have "a_connector demo_api = demo_connector" "a_clients demo_api = demo_repo"
    by (simp_all add: demo_api_def)
  moreover have "repo_SupportsChain demo_repo (d_WithdrawalChainId (txToDeposit demo_tx))"
    "d_WithdrawalTxHash (txToDeposit demo_tx) = None"
    by (simp_all add: repo_SupportsChain_def demo_repo_def txToDeposit_def demo_tx_def nilOrNotEmpty_def)
  ultimately show ?thesis
    by (simp add: SubmitWithdrawal_def demo_validate demo_get demo_BroadcastDeposit)
qed

definition demo_queued :: "unit node" where
  "demo_queued = demo_start\<lparr>n_world := demo_stored, n_broadcaster := demo_api_broadcaster,
     n_jobs := [demo_job]\<rparr>"

lemma demo_accept_step: "step demo_service demo_start demo_queued"
proof -
  have "step demo_service demo_start (demo_start\<lparr>n_world := demo_stored,
      n_broadcaster := demo_api_broadcaster,
      n_jobs := n_jobs demo_start @ request_jobs (Returned (Inr None :: status + unit option, [demo_job]))\<rparr>)"
    by (rule step.submit_request [of _ _ "Some demo_id"])
       (simp add: demo_service_def demo_start_def demo_submit)
  then show ?thesis by (simp add: demo_queued_def request_jobs_def demo_start_def)
qed

lemma demo_reachable_queued: "reachable demo_service demo_queued"
  by (rule reachable.next_step [OF demo_reachable_start demo_accept_step])

text \<open>The worker runs the container: the withdrawal is made and the deposit goes to the submitter.\<close>

definition demo_withdrawn :: Deposit where
  "demo_withdrawn = demo_deposit\<lparr>d_WithdrawalStatus := STATUS_SUBMITTING_TO_CORE,
     d_WithdrawalTxHash := Some ''0xw'', d_WithdrawalChainBlock := 5, d_Operator := ''op'',
     d_WithdrawalCoreBlock := 7\<rparr>"

definition demo_paid :: "unit world" where
  "demo_paid = demo_stored\<lparr>w_deposits := [demo_withdrawn],
     w_log := [EvWithdraw demo_id, EvIsProcessed demo_id False]\<rparr>"

lemma demo_run:
  "depositBroadcastContainer_Run demo_env demo_child demo_deposit demo_stored
     = ((Some demo_withdrawn, None), demo_paid)"
  by (simp add: depositBroadcastContainer_Run_def Let_def call_IsProcessed_def call_Withdraw_def
      executeWithdrawal_def depositsQ_UpdateStatus_def depositsQ_UpdateWithdrawalDetails_def
      db_Exec_def nilOrNotEmpty_def upd_deposits_def ext_call_def demo_paid_def demo_withdrawn_def demo_stored_def
      deposit_row_def demo_deposit_def txToDeposit_def zero_Deposit_def demo_defs)

lemma demo_work:
  "withdrawal_worker_step demo_env demo_connector (DepositBroadcast demo_child demo_deposit) demo_stored
     = (Returned [Some demo_withdrawn], demo_paid)"
  by (simp add: withdrawal_worker_step_def demo_run)

definition demo_done :: "unit node" where
  "demo_done = demo_queued\<lparr>n_world := demo_paid, n_jobs := [], n_submit := [demo_withdrawn]\<rparr>"

lemma demo_work_step: "step demo_service demo_queued demo_done"
proof -
  have "step demo_service demo_queued (demo_queued\<lparr>n_world := demo_paid, n_jobs := [] @ [],
      n_submit := n_submit demo_queued @ sent_deposits [Some demo_withdrawn]\<rparr>)"
    by (rule step.work [of _ "[]" "''2''" "DepositBroadcast demo_child demo_deposit" "[]"])
       (simp_all add: demo_queued_def demo_job_def demo_service_def demo_api_broadcaster_def
        demo_broadcaster_def demo_work)
  then show ?thesis
    by (simp add: demo_done_def demo_queued_def demo_start_def sent_deposits_def List.map_filter_def)
qed

lemma demo_reachable_done: "reachable demo_service demo_done"
  by (rule reachable.next_step [OF demo_reachable_queued demo_work_step])

lemma demo_done_log: "w_log (n_world demo_done) = [] @ EvWithdraw demo_id # [EvIsProcessed demo_id False]"
  by (simp add: demo_done_def demo_paid_def)

text \<open>The submitter reports the deposit: the batch is full, and the core accepts it.\<close>

lemma demo_report:
  "\<exists>w. submitter_step demo_env retry_ref 3 demo_connector 1 demo_withdrawn ([], demo_paid) = (Returned [], w)
     \<and> deposit_status demo_id w = Some STATUS_PROCESSED"
  by (simp add: Let_def submitter_step_def DoWithRetry_def retry_ref.simps updateTx_def UpdateTxInfo_def
      GetDeposit_def submitMsgs_def buildTx_def getAccountSequence_def getAccountData_def ext_call_def
      depositsQ_UpdateStatus_def db_Exec_def deposit_status_def demo_paid_def
      demo_withdrawn_def demo_stored_def demo_deposit_def demo_env_def demo_world_def demo_id_def
      demo_connector_def demo_core_def txToDeposit_def demo_tx_def nilOrNotEmpty_def gasLimit_def
      txCodeSuccess_def errors_Wrap_def upd_deposits_def)

lemma demo_reported:
  obtains s where "reachable demo_service s" "deposit_status demo_id (n_world s) = Some STATUS_PROCESSED"
proof -
  from demo_report obtain w where
    w: "submitter_step demo_env retry_ref 3 demo_connector 1 demo_withdrawn ([], demo_paid) = (Returned [], w)"
      "deposit_status demo_id w = Some STATUS_PROCESSED" by blast
  have "step demo_service demo_done (demo_done\<lparr>n_world := w, n_submit := [] @ [], n_pool := []\<rparr>)"
    by (rule step.report [of _ "[]" demo_withdrawn "[]"])
       (simp_all add: demo_done_def demo_queued_def demo_start_def demo_service_def
        demo_api_broadcaster_def demo_broadcaster_def w(1))
  from that [OF reachable.next_step [OF demo_reachable_done this]] w(2) show ?thesis by simp
qed

end
