(* ===== verification/Batches.thy ===== *)
theory Batches
  imports System
begin

text \<open>
  Facts about the batches of the core submitter: what \<open>UpdateTxInfo\<close> keeps of the deposits it is
  given, what a batch that was reported contains, and the statuses it leaves.
\<close>

subsection \<open>The batch\<close>

text \<open>A deposit but for its referral id, which \<open>UpdateTxInfo\<close> writes into the pool.\<close>

definition unreferred :: "Deposit list \<Rightarrow> Deposit list" where
  "unreferred ds = map (\<lambda>d. d\<lparr>d_ReferralId := 0\<rparr>) ds"

lemma unreferred_simps [simp]:
  "unreferred [] = []" "unreferred (d # ds) = d\<lparr>d_ReferralId := 0\<rparr> # unreferred ds"
  by (simp_all add: unreferred_def)

lemma unreferred_same:
  assumes "unreferred ds' = unreferred ds" and "\<And>d r. f (d\<lparr>d_ReferralId := r\<rparr>) = f d"
  shows "map f ds' = map f ds"
proof -
  have "map f ds = map f (unreferred ds)" for ds by (simp add: unreferred_def assms(2))
  with assms(1) show ?thesis by metis
qed

definition report_of :: "'x Connector \<Rightarrow> Deposit \<Rightarrow> MsgUpdateTransaction" where
  "report_of C d = \<lparr>msg_Submitter = acc_addr (c_account C), msg_Transaction = toTransaction d\<rparr>"

lemma UpdateTxInfo_loop_batch:
  "UpdateTxInfo_loop C ds w = ((e, ds', msgs), w') \<Longrightarrow>
     unreferred ds' = unreferred ds \<and> (None \<notin> set msgs \<longrightarrow> msgs = map (Some \<circ> report_of C) ds')"
proof (induction ds arbitrary: w e ds' msgs w')
  case (Cons d ds)
  obtain g w1 where g: "GetDeposit C (d_Id d) w = (g, w1)" by fastforce
  obtain e2 ds2 msgs2 w2 where rest: "UpdateTxInfo_loop C ds w1 = ((e2, ds2, msgs2), w2)"
    by (metis prod.exhaust)
  from Cons.IH [OF rest] Cons.prems g rest show ?case
    by (auto simp: Let_def report_of_def split: sum.splits if_splits)
qed simp

text \<open>The cosmos-sdk refuses a batch with a nil message, and a negative coin panics.\<close>

definition refuses_nil :: "'x core_client \<Rightarrow> bool" where
  "refuses_nil K \<longleftrightarrow> (\<forall>ms. None \<in> set ms \<longrightarrow> sdk_SetMsgs K ms \<noteq> None)"

lemma submitMsgs_nil:
  assumes "refuses_nil (c_client C)" and "None \<in> set msgs"
  shows "\<exists>err. submitMsgs C msgs w = (Returned (Some err), w)"
  using assms by (auto simp: refuses_nil_def submitMsgs_def buildTx_def)

text \<open>
  What \<open>UpdateTxInfo\<close> reads and writes: the deposits of a list of identifiers, asked of the core one
  after the other, and a batch with the referral ids of the answers.
\<close>

fun read_all :: "'x Connector \<Rightarrow> DepositIdentifier list \<Rightarrow> 'x world \<Rightarrow> (go_error + Deposit) list \<times> 'x world" where
  "read_all C [] w = ([], w)"
| "read_all C (i # is) w = (case GetDeposit C i w of (g, w1) \<Rightarrow>
     (case read_all C is w1 of (gs, w2) \<Rightarrow> (g # gs, w2)))"

definition referred :: "Deposit list \<Rightarrow> Deposit list \<Rightarrow> Deposit list" where
  "referred ds gs = map2 (\<lambda>d g. d\<lparr>d_ReferralId := d_ReferralId g\<rparr>) ds gs"

lemma referred_simps [simp]:
  "referred [] gs = []"
  "referred (d # ds) (g # gs) = d\<lparr>d_ReferralId := d_ReferralId g\<rparr> # referred ds gs"
  by (simp_all add: referred_def)

lemma referred_unreferred: "referred (unreferred ds) gs = referred ds gs"
  by (induction ds gs rule: list_induct2') (simp_all add: referred_def unreferred_def)

lemma UpdateTxInfo_loop_reads:
  assumes "UpdateTxInfo_loop C ds w = ((None, ds', msgs), w')" and "None \<notin> set msgs"
  shows "\<exists>gs. read_all C (map d_Id ds) w = (map Inr gs, w') \<and> ds' = referred ds gs
    \<and> (\<forall>g \<in> set gs. d_WithdrawalTxHash g = None)"
  using assms
proof (induction ds arbitrary: w ds' msgs)
  case (Cons d ds)
  obtain g w1 where g: "GetDeposit C (d_Id d) w = (g, w1)" by fastforce
  obtain e2 ds2 msgs2 w2 where rest: "UpdateTxInfo_loop C ds w1 = ((e2, ds2, msgs2), w2)"
    by (metis prod.exhaust)
  from Cons.prems g rest obtain h where h: "g = Inr h" "d_WithdrawalTxHash h = None" "e2 = None" "w2 = w'"
    "ds' = d\<lparr>d_ReferralId := d_ReferralId h\<rparr> # ds2" "None \<notin> set msgs2"
    by (auto simp: Let_def split: sum.splits if_splits)
  from Cons.IH [of w1 ds2 msgs2] rest h obtain gs where
    "read_all C (map d_Id ds) w1 = (map Inr gs, w')" "ds2 = referred ds gs"
    "\<forall>g \<in> set gs. d_WithdrawalTxHash g = None" by auto
  with g h show ?case by (intro exI [of _ "h # gs"]) simp
qed simp

lemma UpdateTxInfo_done:
  assumes "refuses_nil (c_client C)" and "UpdateTxInfo C ds w = ((Returned None, ds'), w')"
  shows "\<exists>gs v. read_all C (map d_Id ds) w = (map Inr gs, v) \<and> ds' = referred ds gs
    \<and> (\<forall>g \<in> set gs. d_WithdrawalTxHash g = None)
    \<and> submitMsgs C (map (Some \<circ> report_of C) ds') v = (Returned None, w')"
proof -
  obtain e ds2 msgs w1 where l: "UpdateTxInfo_loop C ds w = ((e, ds2, msgs), w1)" by (metis prod.exhaust)
  with assms(2) have e: "e = None" and ds: "ds2 = ds'" and s: "submitMsgs C msgs w1 = (Returned None, w')"
    by (auto simp: UpdateTxInfo_def errors_Wrap_def split: option.splits prod.splits go_result.splits)
  from s submitMsgs_nil [OF assms(1), of msgs w1] have "None \<notin> set msgs" by auto
  with UpdateTxInfo_loop_batch [OF l] UpdateTxInfo_loop_reads [OF l [unfolded e]] s ds show ?thesis by auto
qed

lemma updateTx_batch:
  "updateTx C (ds, w) = (r, (ds', w')) \<Longrightarrow> unreferred ds' = unreferred ds \<and> only_ext w w'"
  using ext.ends_UpdateTxInfo [OF ext.R_refl, of w C ds]
  by (auto simp: updateTx_def UpdateTxInfo_def ensures_def split: prod.splits option.splits go_result.splits
      dest: UpdateTxInfo_loop_batch)

lemma retried_batch:
  assumes "retry_contract R" and "DoWithRetry R n (updateTx C) (ds, w) = (r, (ds', w'))"
  shows "unreferred ds' = unreferred ds \<and> only_ext w w'"
proof -
  have "unreferred (fst (ds', w')) = unreferred ds \<and> only_ext w (snd (ds', w'))"
    by (rule DoWithRetry_invariant [OF assms, where P = "\<lambda>s. unreferred (fst s) = unreferred ds \<and> only_ext w (snd s)"])
       (auto dest!: updateTx_batch intro: ext.R_refl ext.R_trans)
  then show ?thesis by simp
qed

lemma mark_processed_status:
  assumes "sql_ok E"
  shows "deposit_status i (mark_processed E ds w) =
    (if \<exists>d \<in> set ds. d_Id d = i \<and> d_WithdrawalStatus d = STATUS_SUBMITTING_TO_CORE
     then map_option (\<lambda>_. STATUS_PROCESSED) (deposit_status i w) else deposit_status i w)"
proof (induction ds arbitrary: w)
  case (Cons d ds)
  then show ?case
    by (auto simp: sql_ok_statements [OF assms] option.map_comp comp_def)
qed simp

end
