(* ===== verification/One_Container.thy ===== *)
theory One_Container
  imports Batches
begin

text \<open>
  The cache of the broadcaster keeps the containers of a process apart: in every reachable state
  no two waiting containers are for the same deposit. The cache is a set of the strings of
  deposits; an operation that starts containers adds the string of each, and each was not there
  before (\<open>grows\<close>).
\<close>

subsection \<open>Keys of the waiting containers\<close>

fun job_key :: "'x job \<Rightarrow> string list" where
  "job_key (WithdrawJob c k) = [Deposit_String (container_deposit k)]"
| "job_key (SignersJob c j) = []"

definition job_keys :: "'x job list \<Rightarrow> string list" where
  "job_keys jobs = concat (map job_key jobs)"

lemma job_keys_simps [simp]:
  "job_keys [] = []" "job_keys (j # jobs) = job_key j @ job_keys jobs"
  "job_keys (xs @ ys) = job_keys xs @ job_keys ys"
  by (simp_all add: job_keys_def)

definition slashed :: "'x world \<Rightarrow> bool" where
  "slashed w \<longleftrightarrow> (\<forall>k \<in> w_cache w. CHR ''/'' \<in> set k)"

lemma Deposit_String_slash: "CHR ''/'' \<in> set (Deposit_String d)"
  by (simp add: Deposit_String_def DepositIdentifier_String_def)

definition grows :: "'x world \<Rightarrow> string list \<Rightarrow> 'x world \<Rightarrow> bool" where
  "grows w ks w' \<longleftrightarrow> (slashed w \<longrightarrow> slashed w' \<and> w_cache w \<subseteq> w_cache w' \<and> distinct ks
     \<and> set ks \<subseteq> w_cache w' - w_cache w)"

lemma grows_same: "w_cache w' = w_cache w \<Longrightarrow> grows w [] w'"
  by (simp add: grows_def slashed_def)

lemma grows_trans: "grows u ks v \<Longrightarrow> grows v ls w \<Longrightarrow> grows u (ks @ ls) w"
  unfolding grows_def by auto

lemma grows_none: "grows u ks v \<Longrightarrow> grows u [] v"
  by (simp add: grows_def)

lemma grows_trans_none: "grows u ks v \<Longrightarrow> grows v ls w \<Longrightarrow> grows u [] w"
  by (rule grows_none [OF grows_trans])

lemma grows_started:
  assumes "k \<notin> w_cache w" and "CHR ''/'' \<in> set k" and "w_cache w' = insert k (w_cache w)"
  shows "grows w [k] w'" and "grows w [] w'"
  using assms by (auto simp: grows_def slashed_def)

subsection \<open>Operations that leave the cache alone\<close>

definition same_cache :: "'x world \<Rightarrow> 'x world \<Rightarrow> bool" where
  "same_cache w w' \<longleftrightarrow> w_cache w' = w_cache w"

interpretation cache: world_frame same_cache
  by unfold_locales (simp_all add: same_cache_def)

lemma same_cache_upd [simp]:
  "same_cache w (upd_deposits i f w)" "same_cache w (upd_signatures j g w)"
  "same_cache w (w\<lparr>w_deposits := ds\<rparr>)" "same_cache w (w\<lparr>w_signatures := es\<rparr>)"
  "same_cache w (w\<lparr>w_latest := bs\<rparr>)" "same_cache w (w\<lparr>w_log := l, w_ext := x\<rparr>)"
  by (simp_all add: same_cache_def upd_deposits_def upd_signatures_def)

lemma cache_deposits_Insert: "same_cache w0 w \<Longrightarrow> cache.ends w0 (depositsQ_Insert E d w)"
  unfolding depositsQ_Insert_def depositsQ_UpdateRecoveryData_def
  by (intro cache.steps cache.ends_db_Insert cache.ends_db_Exec) simp_all

lemma cache_writes:
  "same_cache w0 w \<Longrightarrow> cache.ends w0 (depositsQ_UpdateStatus E i s w)"
  "same_cache w0 w \<Longrightarrow> cache.ends w0 (signaturesQ_UpdateStatus E j t w)"
  "same_cache w0 w \<Longrightarrow> cache.ends w0 (signaturesQ_Insert E e w)"
  unfolding depositsQ_UpdateStatus_def signaturesQ_UpdateStatus_def signaturesQ_Insert_def
  by (intro cache.ends_db_Exec cache.ends_db_Insert; simp)+

lemma cache_blocks:
  "same_cache w0 w \<Longrightarrow> cache.ends w0 (blocksQ_UpdateLatestBlockId E b w)"
  unfolding blocksQ_UpdateLatestBlockId_def
  by (intro cache.steps cache.ends_db_Exec) simp_all

lemma cache_UpdateSigners: "same_cache w0 w \<Longrightarrow> cache.ends w0 (executeUpdateSigners c e w)"
  unfolding executeUpdateSigners_def
  by (intro cache.steps)
     (auto simp: call_UpdateSigners_def ensures_def same_cache_def split: prod.splits)

lemma cache_signers_Run: "same_cache w0 w \<Longrightarrow> cache.ends w0 (signers_Run E k w)"
  by (cases k)
     (simp_all only: signers_Run.simps updateSignersBroadcastContainer_Run_def
        updateSignersCatchupContainer_Run_def; intro cache.steps cache_UpdateSigners cache_writes)+

lemma cache_mark_processed: "same_cache w0 w \<Longrightarrow> same_cache w0 (mark_processed E ds w)"
proof (induction ds arbitrary: w)
  case (Cons d ds)
  have "same_cache w0 (snd (depositsQ_UpdateStatus E (d_Id d) STATUS_PROCESSED w))"
    using cache_writes(1) [OF Cons.prems] by (simp add: ensures_def)
  then show ?case using Cons by (auto split: prod.splits)
qed simp

lemma cache_submitter_step:
  assumes "retry_contract Rt" and "same_cache w0 w"
  shows "cache.ends w0 (submitter_step E Rt n C k d (pool, w))"
proof -
  have call: "same_cache w0 (snd (snd (updateTx C (ds, v))))" if "same_cache w0 v" for ds v
    using cache.ends_UpdateTxInfo [OF that, of C ds]
    by (auto simp: updateTx_def ensures_def split: prod.splits)
  have "same_cache w0 (snd (snd (DoWithRetry Rt n (updateTx C) (pool @ [d], w))))"
    by (rule cache.ends_DoWithRetry [where f = "updateTx C", OF assms call])
  then show ?thesis
    unfolding submitter_step_def using assms(2)
    by (auto simp: Let_def ensures_def intro: cache_mark_processed
        split: prod.splits go_result.splits option.splits)
qed

subsection \<open>Operations that start containers\<close>

text \<open>A transaction hash without a slash cannot be the string of another deposit.\<close>

definition plain :: "Deposit \<Rightarrow> bool" where
  "plain d \<longleftrightarrow> CHR ''/'' \<notin> set (TxHash (d_Id d))"

lemma same_cacheD: "cache.ends w r \<Longrightarrow> r = (q, w') \<Longrightarrow> w_cache w' = w_cache w"
  by (auto simp: ensures_def same_cache_def)

lemmas cache_facts =
  same_cacheD [OF cache.ends_ext_call [OF cache.R_refl]]
  same_cacheD [OF cache.ends_pick_random [OF cache.R_refl]]
  same_cacheD [OF cache.ends_reads(1) [OF cache.R_refl]]
  same_cacheD [OF cache.ends_reads(2) [OF cache.R_refl]]
  same_cacheD [OF cache.ends_reads(3) [OF cache.R_refl]]
  same_cacheD [OF cache.ends_reads(4) [OF cache.R_refl]]
  same_cacheD [OF cache.ends_GetDeposit [OF cache.R_refl]]
  same_cacheD [OF cache_deposits_Insert [OF cache.R_refl]]
  same_cacheD [OF cache_writes(1) [OF cache.R_refl]]
  same_cacheD [OF cache_writes(3) [OF cache.R_refl]]

lemma checkExistence_cache:
  "ensures (\<lambda>e v. grows w [] v \<and> (e = None \<longrightarrow> w_cache v = w_cache w \<and> Deposit_String d \<notin> w_cache w))
     (checkExistence E b d w)"
  unfolding checkExistence_def
  by (intro flow)
     (auto simp: cache_Load_def cache_Store_def grows_def slashed_def Deposit_String_slash dest!: cache_facts)

text \<open>The jobs a handler starts are new to the cache.\<close>

definition starts_new :: "'x world \<Rightarrow> 'x job list \<Rightarrow> 'x world \<Rightarrow> bool" where
  "starts_new w jobs w' \<longleftrightarrow> grows w (job_keys jobs) w'"

lemma BroadcastDeposit_new:
  assumes "plain d" and "BroadcastDeposit E b d w = (r, w')"
  shows "starts_new w (request_jobs r) w'"
proof -
  have stamp: "d_Id d' = d_Id d \<and> w_cache v' = w_cache v"
    if "(if c then case ext_call (x_now E) v of (now, x) \<Rightarrow>
          (d\<lparr>d_WithdrawalStatus := s, d_RecoveryTimestamp := now\<rparr>, x)
        else (d\<lparr>d_WithdrawalStatus := s\<rparr>, v)) = (d', v')" for c s d' v v'
    using that by (auto split: if_splits prod.splits dest!: cache_facts)
  have check: "checkExistence E b d w = (e, v) \<Longrightarrow> grows w [] v \<and>
     (e = None \<longrightarrow> w_cache v = w_cache w \<and> Deposit_String d \<notin> w_cache w)" for e v
    by (rule ensuresD [OF checkExistence_cache])
  have "slashed w \<Longrightarrow> TxHash (d_Id d) \<notin> w_cache w"
    using assms by (auto simp: plain_def slashed_def)
  moreover have id_slash: "CHR ''/'' \<in> set (DepositIdentifier_String i)" for i
    by (simp add: DepositIdentifier_String_def)
  ultimately have "ensures (\<lambda>r. starts_new w (request_jobs r)) (BroadcastDeposit E b d w)"
    unfolding BroadcastDeposit_def BroadcastDeposit_accept_def Let_def
    by (intro flow)
       (auto simp: starts_new_def Deposit_String_def cache_Load_def cache_Store_def grows_def slashed_def id_slash
         dest!: cache_facts check stamp)
  with assms(2) show ?thesis by (simp add: ensures_def)
qed

lemma CatchUp_new:
  assumes "CatchUp E b d w = (r, w')"
  shows "starts_new w (request_jobs r) w'"
proof -
  have "ensures (\<lambda>r. starts_new w (request_jobs r)) (CatchUp E b d w)"
    unfolding CatchUp_def Let_def
    by (intro flow)
       (auto simp: starts_new_def cache_Load_def cache_Store_def grows_def slashed_def Deposit_String_slash
         dest!: cache_facts)
  with assms show ?thesis by (simp add: ensures_def)
qed

lemma epoch_new:
  "BroadcastEpoch E b ep w = (r, w') \<Longrightarrow> starts_new w (request_jobs r) w'"
  "CatchUpEpoch E b ep w = (r, w') \<Longrightarrow> starts_new w (request_jobs r) w'"
proof -
  have "ensures (\<lambda>r. starts_new w (request_jobs r)) (BroadcastEpoch E b ep w)"
    "ensures (\<lambda>r. starts_new w (request_jobs r)) (CatchUpEpoch E b ep w)"
    unfolding BroadcastEpoch_def CatchUpEpoch_def Let_def
    by (intro flow; auto simp: starts_new_def dest!: cache_facts intro: grows_same)+
  then show "BroadcastEpoch E b ep w = (r, w') \<Longrightarrow> starts_new w (request_jobs r) w'"
    "CatchUpEpoch E b ep w = (r, w') \<Longrightarrow> starts_new w (request_jobs r) w'"
    by (auto simp: ensures_def)
qed

interpretation fresh: starting starts_new
  by unfold_locales
     (auto simp: starts_new_def only_ext_def intro: grows_same grows_trans dest: grows_none)

interpretation fresh: accepting starts_new E plain for E
  by unfold_locales
     (auto simp: starts_new_def [of _ "[]"] intro: BroadcastDeposit_new epoch_new
       intro!: grows_same dest: same_cacheD [OF cache_blocks [OF cache.R_refl]])

interpretation fresh: restarting starts_new E "\<lambda>d w. True" for E
  by unfold_locales (auto intro: CatchUp_new epoch_new)

subsection \<open>The observer\<close>

text \<open>
  The hashes the core gives to the service have no slash: they are hexadecimal or base58 text.
\<close>

definition plain_core :: "'x Connector \<Rightarrow> bool" where
  "plain_core C \<longleftrightarrow> (\<forall>c h n x tx x'. cq_TransactionById (c_client C) c h n x = (Inr tx, x') \<longrightarrow>
     CHR ''/'' \<notin> set (tx_DepositTxHash tx))"

definition plain_blocks :: "'x Observer \<Rightarrow> bool" where
  "plain_blocks ob \<longleftrightarrow> (\<forall>h x res x' ds. o_BlockResults ob h x = (Inr res, x') \<longrightarrow>
     parseDepositsFromTxResults (o_keys ob) (o_decoder ob) (br_TxLogs res) = Inr ds \<longrightarrow>
     (\<forall>d \<in> set ds. plain d))"

definition plain_hashes :: "'x service \<Rightarrow> bool" where
  "plain_hashes sv \<longleftrightarrow> plain_core (a_connector (sv_api sv)) \<and> plain_blocks (sv_observer sv)"

lemma GetDeposit_plain:
  assumes "plain_core C" and "GetDeposit C i w = (Inr d, w')"
  shows "plain d"
proof -
  from assms(2) obtain tx x where
    "cq_TransactionById (c_client C) (ChainId i) (TxHash i) (TxNonce i) (w_ext w) = (Inr tx, x)"
    and d: "d = txToDeposit tx"
    by (auto simp: GetDeposit_def ext_call_def split: prod.splits sum.splits)
  with assms(1) have "CHR ''/'' \<notin> set (tx_DepositTxHash tx)" unfolding plain_core_def by blast
  then show ?thesis by (simp add: d plain_def txToDeposit_def)
qed

lemma block_call_result:
  assumes "block_call ob h s = (Returned None, (r, w'))"
  obtains res x x' where "r = Some res" and "o_BlockResults ob h x = (Inr res, x')"
  using assms by (auto simp: block_call_def ext_call_def split: prod.splits sum.splits)

lemma fetchBlockEvents_plain:
  assumes "retry_contract Rb" and "plain_blocks ob"
    and "fetchBlockEvents ob Rb h w = (Returned (Inr ev), w')"
  shows "\<forall>d \<in> set (be_Deposits ev). plain d"
proof -
  from assms(3) obtain r where run: "DoWithRetry Rb (o_Retries ob) (block_call ob h) (None, w) = (Returned None, (Some r, w'))"
    and ds: "parseDepositsFromTxResults (o_keys ob) (o_decoder ob) (br_TxLogs r) = Inr (be_Deposits ev)"
    by (auto simp: fetchBlockEvents_def split: prod.splits go_result.splits option.splits sum.splits)
  from DoWithRetry_success [OF assms(1) run] obtain t
    where "block_call ob h t = (Returned None, (Some r, w'))" by metis
  then obtain x x' where "o_BlockResults ob h x = (Inr r, x')" by (auto elim: block_call_result)
  with assms(2) ds show ?thesis unfolding plain_blocks_def by blast
qed

subsection \<open>Every step keeps the containers apart\<close>

text \<open>What a process holds in memory: waiting containers, deposits on the way to the core, the pool.\<close>

definition memory_keys :: "'x node \<Rightarrow> string list" where
  "memory_keys s = job_keys (n_jobs s) @ map Deposit_String (n_submit s @ n_pool s)"

definition one :: "'x node \<Rightarrow> bool" where
  "one s \<longleftrightarrow> slashed (n_world s) \<and> distinct (memory_keys s)
     \<and> set (memory_keys s) \<subseteq> w_cache (n_world s)"

lemma one_more:
  assumes "one s" and "grows (n_world s) (job_keys new) w"
  shows "one (s\<lparr>n_world := w, n_broadcaster := b, n_jobs := n_jobs s @ new\<rparr>)"
    and "one (s\<lparr>n_world := w, n_height := h, n_jobs := n_jobs s @ new\<rparr>)"
    and "one (s\<lparr>n_world := w, n_jobs := n_jobs s @ new\<rparr>)"
  using assms by (auto simp: one_def grows_def memory_keys_def)

lemma one_same:
  assumes "one s" and "w_cache (n_world t) = w_cache (n_world s)"
    and "distinct (memory_keys t)" and "set (memory_keys t) \<subseteq> set (memory_keys s)"
  shows "one t"
  using assms by (auto simp: one_def slashed_def)

lemma one_fewer:
  assumes "one s" and "memory_keys s = xs @ key # ys" and "memory_keys t = xs @ ys"
    and "w_cache (n_world s) - {key} \<subseteq> w_cache (n_world t)" and "w_cache (n_world t) \<subseteq> w_cache (n_world s)"
  shows "one t"
  using assms by (auto simp: one_def slashed_def)

lemma one_crash: "one (after_crash sv s w)"
  by (simp add: one_def after_crash_def slashed_def memory_keys_def)

text \<open>A worker forgets a deposit that failed, and passes on one that it paid.\<close>

lemma worker_cache:
  assumes "withdrawal_worker_step E C k w = (Returned sent, w')"
  shows "sent_deposits sent = [] \<and> w_cache w - {Deposit_String (container_deposit k)} \<subseteq> w_cache w'
        \<and> w_cache w' \<subseteq> w_cache w
    \<or> (\<exists>d. sent_deposits sent = [d] \<and> d_Id d = d_Id (container_deposit k) \<and> w_cache w' = w_cache w
        \<and> container_Run E C k w = ((Some d, None), w'))"
proof -
  obtain r e v where run: "container_Run E C k w = ((r, e), v)" by (metis prod.exhaust)
  then have ok: "run_ok (d_Id (container_deposit k)) w r e v" by (rule container_Run_ok)
  then have cache: "w_cache v = w_cache w" and own: "\<forall>d. r = Some d \<longrightarrow> d_Id d = d_Id (container_deposit k)"
    and nil: "r = None \<longrightarrow> e \<noteq> None"
    unfolding run_ok_def did_def own_row_def by blast+
  show ?thesis
  proof (cases e)
    case None
    with nil obtain d where r: "r = Some d" by blast
    with assms run None have "sent = [Some d]" "w' = v" by (simp_all add: withdrawal_worker_step_def)
    with own cache run None r show ?thesis by (auto simp: sent_deposits_def List.map_filter_def)
  next
    case (Some err)
    with assms run obtain d where r: "r = Some d" and "sent = []" and w': "w' = cache_Delete (Deposit_String d) v"
      by (cases r) (auto simp: withdrawal_worker_step_def)
    with own have "sent_deposits sent = []" "Deposit_String d = Deposit_String (container_deposit k)"
      by (simp_all add: sent_deposits_def List.map_filter_def Deposit_String_def)
    with cache w' show ?thesis by (auto simp: cache_Delete_def)
  qed
qed

lemma one_work:
  assumes "one s" and "n_jobs s = xs @ WithdrawJob c k # ys"
    and "withdrawal_worker_step E C k (n_world s) = (Returned sent, w)"
  shows "one (s\<lparr>n_world := w, n_jobs := xs @ ys, n_submit := n_submit s @ sent_deposits sent\<rparr>)"
  using worker_cache [OF assms(3)]
proof
  assume "sent_deposits sent = [] \<and> w_cache (n_world s) - {Deposit_String (container_deposit k)} \<subseteq> w_cache w
        \<and> w_cache w \<subseteq> w_cache (n_world s)"
  then show ?thesis using assms(2)
    by (intro one_fewer [OF assms(1), where key = "Deposit_String (container_deposit k)"
          and xs = "job_keys xs" and ys = "job_keys ys @ map Deposit_String (n_submit s @ n_pool s)"])
       (simp_all add: memory_keys_def)
next
  assume "\<exists>d. sent_deposits sent = [d] \<and> d_Id d = d_Id (container_deposit k) \<and> w_cache w = w_cache (n_world s)
    \<and> container_Run E C k (n_world s) = ((Some d, None), w)"
  then obtain d where "sent_deposits sent = [d]" "d_Id d = d_Id (container_deposit k)"
    "w_cache w = w_cache (n_world s)" by blast
  then show ?thesis using assms(1,2) by (auto simp: one_def memory_keys_def slashed_def Deposit_String_def)
qed

text \<open>The submitter keeps its pool and the new deposit, or empties the pool after a report.\<close>

lemma submitter_cases:
  assumes "retry_contract R" and "submitter_step E R n C k d (pool, w) = (Returned pool', w')"
  obtains (kept) "unreferred pool' = unreferred (pool @ [d])" "only_ext w w'"
  | (reported) ds v where "pool' = []" "unreferred ds = unreferred (pool @ [d])" "only_ext w v"
      "w' = mark_processed E ds v"
proof -
  obtain q pool2 w2 where run: "DoWithRetry R n (updateTx C) (pool @ [d], w) = (q, (pool2, w2))"
    by (metis prod.exhaust)
  from retried_batch [OF assms(1) run] assms(2) run that ext.R_refl [of w] show thesis
    by (auto simp: submitter_step_def Let_def split: if_splits go_result.splits option.splits)
qed

lemma unreferred_keys: "unreferred ds' = unreferred ds \<Longrightarrow> map Deposit_String ds' = map Deposit_String ds"
  by (rule unreferred_same) (simp_all add: Deposit_String_def)

lemma one_report:
  assumes "retry_contract R" and "one s" and "n_submit s = xs @ d # ys"
    and "submitter_step E R n C k d (n_pool s, n_world s) = (Returned pool, w)"
  shows "one (s\<lparr>n_world := w, n_submit := xs @ ys, n_pool := pool\<rparr>)"
proof (rule one_same [OF assms(2)])
  show "w_cache (n_world (s\<lparr>n_world := w, n_submit := xs @ ys, n_pool := pool\<rparr>)) = w_cache (n_world s)"
    using same_cacheD [OF cache_submitter_step [OF assms(1) cache.R_refl] assms(4)] by simp
  have "map Deposit_String pool = [] \<or> map Deposit_String pool = map Deposit_String (n_pool s @ [d])"
    using assms(1,4) by (rule submitter_cases) (auto dest: unreferred_keys)
  then show "distinct (memory_keys (s\<lparr>n_world := w, n_submit := xs @ ys, n_pool := pool\<rparr>))"
    and "set (memory_keys (s\<lparr>n_world := w, n_submit := xs @ ys, n_pool := pool\<rparr>)) \<subseteq> set (memory_keys s)"
    using assms(2,3) by (auto simp: one_def memory_keys_def simp flip: set_map)
qed

lemma step_one:
  assumes "service_ok sv" and "plain_hashes sv" and "step sv s t" and "one s"
  shows "one t"
  using assms(3)
proof cases
  case (submit_request i r b w)
  have "starts_new (n_world s) (request_jobs r) w"
    by (rule fresh.SubmitWithdrawal_G [OF _ submit_request(2)])
       (use assms(2) in \<open>auto simp: plain_hashes_def intro: GetDeposit_plain\<close>)
  with submit_request(1) assms(4) show ?thesis by (simp add: starts_new_def one_more)
next
  case (check_request i r w)
  have "cache.ends (n_world s) (CheckWithdrawal (sv_env sv) (sv_api sv) i (n_world s))"
    unfolding CheckWithdrawal_def by (intro cache.steps cache.ends_reads cache.R_refl)
  from same_cacheD [OF this check_request(2)] show ?thesis
    using check_request(1) assms(4) by (intro one_same [OF assms(4)]) (simp_all add: one_def memory_keys_def)
next
  case (list_request q r w)
  have "cache.ends (n_world s) (GetWithdrawalsByStatus (sv_env sv) (sv_api sv) q (n_world s))"
    unfolding GetWithdrawalsByStatus_def depositsQ_Select_GetWithStatus_def db_Select_def
    by (intro cache.steps cache.ends_ext_call cache.R_refl)
  from same_cacheD [OF this list_request(2)] show ?thesis
    using list_request(1) assms(4) by (intro one_same [OF assms(4)]) (simp_all add: one_def memory_keys_def)
next
  case (observe h jobs w)
  have ob: "plain_blocks (running_observer sv s)"
    using assms(2) by (simp add: plain_hashes_def plain_blocks_def running_observer_def)
  have R: "retry_contract (sv_retry_height sv)" "retry_contract (sv_retry_block sv)"
    using assms(1) by (simp_all add: service_ok_def)
  have "starts_new (n_world s) (request_jobs (Returned (h, jobs))) w"
    by (rule fresh.fetchEvents_tick_G [OF R fetchBlockEvents_plain [OF R(2) ob] observe(2)])
  with observe(1) assms(4) show ?thesis by (simp add: starts_new_def one_more)
next
  case (catch_up e jobs w)
  from fresh.CatchUpper_Start_G [OF catch_up(2)] have "grows (n_world s) (job_keys jobs) w"
    by (simp add: starts_new_def)
  with catch_up(1) assms(4) show ?thesis by (simp add: one_more)
next
  case (work xs c k ys sent w)
  from one_work [OF assms(4) work(2,3)] work(1) show ?thesis by simp
next
  case (update_signers xs c j ys r w)
  have "w_cache w = w_cache (n_world s)"
    using update_signers(3) by (rule same_cacheD [OF cache_signers_Run [OF cache.R_refl]])
  then show ?thesis
    using update_signers(1,2) assms(4)
    by (intro one_same [OF assms(4)]) (auto simp: one_def memory_keys_def)
next
  case (report xs d ys pool w)
  have "retry_contract (sv_retry_submit sv)" using assms(1) by (simp add: service_ok_def)
  from one_report [OF this assms(4) report(2,3)] report(1) show ?thesis by simp
next
  case (restart h h' w)
  then show ?thesis by (simp add: one_def after_crash_def slashed_def memory_keys_def)
qed (simp_all add: one_crash)

lemma reachable_one:
  assumes "service_ok sv" and "plain_hashes sv" and "reachable sv s"
  shows "one s"
  using assms(3)
proof (induction rule: reachable.induct)
  case (start s)
  then show ?case by (simp add: initial_def one_def slashed_def memory_keys_def)
next
  case (next_step s t)
  then show ?case using step_one [OF assms(1,2)] by blast
qed

text \<open>The identifiers of the deposits that wait for a worker.\<close>

definition waiting :: "'x job list \<Rightarrow> DepositIdentifier list" where
  "waiting jobs = concat (map (\<lambda>j. case j of WithdrawJob c k \<Rightarrow> [d_Id (container_deposit k)]
     | SignersJob c j \<Rightarrow> []) jobs)"

lemma job_keys_waiting: "job_keys jobs = map DepositIdentifier_String (waiting jobs)"
  by (induction jobs) (auto simp: waiting_def Deposit_String_def split: job.splits)

lemma waiting_job: "i \<in> set (waiting jobs) \<longleftrightarrow> (\<exists>c k. WithdrawJob c k \<in> set jobs \<and> d_Id (container_deposit k) = i)"
  by (induction jobs) (auto simp: waiting_def split: job.splits)

text \<open>Every deposit a process holds in memory.\<close>

definition in_memory :: "'x node \<Rightarrow> DepositIdentifier list" where
  "in_memory s = waiting (n_jobs s) @ map d_Id (n_submit s @ n_pool s)"

lemma memory_keys_ids: "memory_keys s = map DepositIdentifier_String (in_memory s)"
  by (simp add: memory_keys_def in_memory_def job_keys_waiting Deposit_String_def)

lemma one_in_memory:
  assumes "one s"
  shows "distinct (in_memory s)"
    and "DepositIdentifier_String ` set (in_memory s) \<subseteq> w_cache (n_world s)"
  using assms by (auto simp: one_def memory_keys_ids distinct_map)

end
