(* ===== verification/Status_Protocol.thy ===== *)
theory Status_Protocol
  imports One_Container
begin

text \<open>
  The life of a deposit as an abstract protocol over the statuses in the table, and the proof that
  the service refines it: every step of the running service is a sequence of moves of the
  protocol. The moves are labelled by who makes them.
\<close>

subsection \<open>The protocol\<close>

type_synonym statuses = "DepositIdentifier \<Rightarrow> WithdrawalStatus option"

datatype move = Accept | Restart | Work | Report

inductive protocol :: "move \<Rightarrow> statuses \<Rightarrow> statuses \<Rightarrow> bool" where
  accept: "m i \<in> {None, Some STATUS_FAILED} \<Longrightarrow> protocol Accept m (m(i \<mapsto> STATUS_PENDING))"
| restart: "m i \<in> {Some STATUS_PENDING, Some STATUS_PROCESSING, Some STATUS_SUBMITTING_TO_CORE} \<Longrightarrow>
     protocol Restart m (m(i \<mapsto> STATUS_PENDING))"
| work: "m i = Some STATUS_PENDING \<Longrightarrow>
     s \<in> {STATUS_PROCESSING, STATUS_FAILED, STATUS_SUBMITTING_TO_CORE, STATUS_ALREADY_WITHDRAWN, STATUS_PROCESSED} \<Longrightarrow>
     protocol Work m (m(i \<mapsto> s))"
| report: "m i \<in> {Some STATUS_PENDING, Some STATUS_SUBMITTING_TO_CORE} \<Longrightarrow>
     protocol Report m (m(i \<mapsto> STATUS_PROCESSED))"

inductive_cases acceptE: "protocol Accept m n"
inductive_cases restartE: "protocol Restart m n"
inductive_cases workE: "protocol Work m n"
inductive_cases reportE: "protocol Report m n"

definition follows :: "move \<Rightarrow> statuses \<Rightarrow> statuses \<Rightarrow> bool" where
  "follows a = rtranclp (protocol a)"

lemma follows_refl: "follows a m m"
  by (simp add: follows_def)

lemma follows_trans: "follows a m n \<Longrightarrow> follows a n l \<Longrightarrow> follows a m l"
  by (simp add: follows_def)

lemma follows_move: "protocol a m n \<Longrightarrow> follows a m n"
  by (simp add: follows_def r_into_rtranclp)

text \<open>A status that ends the life of a deposit is never left, and a row never disappears.\<close>

lemma protocol_final:
  assumes "protocol a m n" and "m i = Some s" and "s \<in> {STATUS_PROCESSED, STATUS_ALREADY_WITHDRAWN}"
  shows "n i = Some s"
  using assms by (cases rule: protocol.cases) auto

lemma follows_final:
  assumes "follows a m n" and "m i = Some s" and "s \<in> {STATUS_PROCESSED, STATUS_ALREADY_WITHDRAWN}"
  shows "n i = Some s"
  using assms(1) [unfolded follows_def] assms(2,3)
  by (induction rule: rtranclp_induct) (blast intro: protocol_final)+

text \<open>Accepting and restarting leave a deposit pending or reportable.\<close>

lemma follows_pending:
  assumes "follows a m n" and "a \<in> {Accept, Restart}"
  shows "n i = m i \<or> n i = Some STATUS_PENDING"
  using assms(1) [unfolded follows_def]
proof (induction rule: rtranclp_induct)
  case (step n l)
  from step.hyps(2) assms(2) have "l i = n i \<or> l i = Some STATUS_PENDING"
    by (cases rule: protocol.cases) simp_all
  with step.IH show ?case by auto
qed simp

subsection \<open>The abstraction\<close>

definition statuses :: "'x world \<Rightarrow> statuses" where
  "statuses w = (\<lambda>i. deposit_status i w)"

lemma statuses_at: "statuses w i = deposit_status i w"
  by (simp add: statuses_def)

lemma statuses_only_ext: "only_ext w w' \<Longrightarrow> statuses w' = statuses w"
  by (simp add: statuses_def fun_eq_iff only_ext_status)

lemma statuses_simps [simp]:
  "statuses (w\<lparr>w_ext := x\<rparr>) = statuses w" "statuses (w\<lparr>w_cache := c\<rparr>) = statuses w"
  "statuses (cache_Store k w) = statuses w" "statuses (cache_Delete k w) = statuses w"
  by (simp_all add: statuses_def cache_Store_def cache_Delete_def)

lemmas statuses_facts = only_ext_facts [THEN statuses_only_ext]

lemma statuses_update:
  assumes "depositsQ_UpdateStatus E i s w = (r, w')"
  shows "statuses w' = (if r = None \<and> statuses w i \<noteq> None then (statuses w)(i \<mapsto> s) else statuses w)"
  using depositsQ_UpdateStatus_status [OF assms]
  by (auto simp: statuses_def fun_eq_iff split: if_splits)

lemma statuses_details:
  assumes "depositsQ_UpdateWithdrawalDetails E d w = (r, w')"
  shows "statuses w' = (if r = None \<and> statuses w (d_Id d) \<noteq> None
    then (statuses w)(d_Id d \<mapsto> d_WithdrawalStatus d) else statuses w)"
  using depositsQ_UpdateWithdrawalDetails_status [OF assms]
  by (auto simp: statuses_def fun_eq_iff split: if_splits)

lemma statuses_Insert:
  assumes "depositsQ_Insert E d w = (r, w')" and "d_WithdrawalStatus d = STATUS_PENDING"
  shows "statuses w' = (statuses w)(d_Id d \<mapsto> STATUS_PENDING)
    \<or> statuses w' = statuses w \<and> (r = None \<longrightarrow> statuses w (d_Id d) = None)"
  using assms(1)
proof (cases rule: depositsQ_Insert_cases)
  case (inserted x)
  then show ?thesis using assms(2)
    by (intro disjI1) (auto simp: statuses_def fun_eq_iff deposit_status_def deposit_row_def split: option.splits)
next
  case (recovered x)
  then show ?thesis
    by (cases "find_row d_Id (d_Id d) (w_deposits w)") (auto simp: statuses_def fun_eq_iff deposit_status_def dep.find_upd)
qed simp_all

subsection \<open>Accepting and restarting\<close>

definition moves :: "move \<Rightarrow> 'x world \<Rightarrow> 'x job list \<Rightarrow> 'x world \<Rightarrow> bool" where
  "moves a w jobs w' \<longleftrightarrow> follows a (statuses w) (statuses w')
     \<and> (\<forall>i \<in> set (waiting jobs). statuses w' i \<in> {None, Some STATUS_PENDING})"

lemma waiting_append [simp]: "waiting (xs @ ys) = waiting xs @ waiting ys" and waiting_Nil [simp]: "waiting [] = []"
  by (simp_all add: waiting_def)

lemma waiting_one [simp]:
  "waiting [WithdrawJob c k] = [d_Id (container_deposit k)]" "waiting [SignersJob c j] = []"
  by (simp_all add: waiting_def)

lemma moves_same: "statuses v = statuses w \<Longrightarrow> moves a w [] v"
  by (simp add: moves_def follows_refl)

lemma moves_trans:
  assumes "moves a u js v" and "moves a v ks w" and "a \<in> {Accept, Restart}"
  shows "moves a u (js @ ks) w"
proof -
  have "statuses w i = statuses v i \<or> statuses w i = Some STATUS_PENDING" for i
    using follows_pending [OF _ assms(3), of "statuses v" "statuses w" i] assms(2) by (simp add: moves_def)
  with assms(1,2) show ?thesis by (force simp: moves_def intro: follows_trans)
qed

lemma moves_none: "moves a u js v \<Longrightarrow> moves a u [] v"
  by (simp add: moves_def)

lemma checkExistence_statuses:
  "ensures (\<lambda>e v. statuses v = statuses w
     \<and> (e = None \<longrightarrow> statuses w (d_Id d) \<in> {None, Some STATUS_FAILED})) (checkExistence E b d w)"
proof -
  have read: "statuses v' = statuses v \<and> (q = Inr None \<longrightarrow> statuses v i = None)
      \<and> (\<forall>r. q = Inr (Some r) \<longrightarrow> statuses v i = Some (d_WithdrawalStatus r))"
    if "depositsQ_Get E i v = (q, v')" for i v q v'
    using that by (auto simp: depositsQ_Get_def statuses_def deposit_status_def fun_eq_iff
        split: prod.splits sum.splits dest!: db_Query_did) (metis)
  show ?thesis unfolding checkExistence_def
    by (intro flow) (auto dest!: read statuses_facts(1))
qed

lemma stamp_statuses:
  assumes "(if c then case ext_call (x_now E) v of (now, x) \<Rightarrow>
          (d\<lparr>d_WithdrawalStatus := s, d_RecoveryTimestamp := now\<rparr>, x)
        else (d\<lparr>d_WithdrawalStatus := s\<rparr>, v)) = (d', v')"
  shows "d_Id d' = d_Id d \<and> d_WithdrawalStatus d' = s \<and> statuses v' = statuses v"
  using assms by (auto split: if_splits prod.splits dest!: statuses_facts)

lemma BroadcastDeposit_moves:
  assumes "BroadcastDeposit E b d w = (r, w')"
  shows "moves Accept w (request_jobs r) w'"
proof -
  have check: "statuses v' = statuses v \<and> (e = None \<longrightarrow> statuses v (d_Id d) \<in> {None, Some STATUS_FAILED})"
    if "checkExistence E b d v = (e, v')" for v e v'
    using that by (rule ensuresD [OF checkExistence_statuses])
  have accept: "follows Accept m (m(i \<mapsto> STATUS_PENDING))" if "m i = None \<or> m i = Some STATUS_FAILED" for m i
    using that by (intro follows_move protocol.accept) auto
  have "ensures (\<lambda>r. moves Accept w (request_jobs r)) (BroadcastDeposit E b d w)"
    unfolding BroadcastDeposit_def BroadcastDeposit_accept_def Let_def
    by (intro flow)
       (auto simp: moves_def dest!: check stamp_statuses statuses_Insert statuses_facts
         intro: follows_refl accept)
  with assms show ?thesis by (simp add: ensures_def)
qed

lemma epoch_moves:
  "BroadcastEpoch E b ep w = (r, w') \<Longrightarrow> moves a w (request_jobs r) w'"
  "CatchUpEpoch E b ep w = (r, w') \<Longrightarrow> moves a w (request_jobs r) w'"
proof -
  have insert: "statuses v' = statuses v" if "signaturesQ_Insert E e v = (q, v')" for e v q v'
    using that unfolding signaturesQ_Insert_def
    by (cases rule: db_Insert_cases) (auto simp: statuses_def deposit_status_def)
  have "ensures (\<lambda>r. moves a w (request_jobs r)) (BroadcastEpoch E b ep w)"
    "ensures (\<lambda>r. moves a w (request_jobs r)) (CatchUpEpoch E b ep w)"
    unfolding BroadcastEpoch_def CatchUpEpoch_def Let_def
    by (intro flow; auto simp: moves_def dest!: insert statuses_facts intro: follows_refl)+
  then show "BroadcastEpoch E b ep w = (r, w') \<Longrightarrow> moves a w (request_jobs r) w'"
    "CatchUpEpoch E b ep w = (r, w') \<Longrightarrow> moves a w (request_jobs r) w'"
    by (auto simp: ensures_def)
qed

lemma latest_moves: "blocksQ_UpdateLatestBlockId E l w = (q, w') \<Longrightarrow> moves a w [] w'"
  by (auto simp: blocksQ_UpdateLatestBlockId_def db_did_def statuses_def deposit_status_def fun_eq_iff
      split: prod.splits if_splits dest!: db_Exec_did intro!: moves_same)

interpretation accepts: accepting "moves Accept" E "\<lambda>d. True" for E
  by unfold_locales
     (auto intro: BroadcastDeposit_moves epoch_moves latest_moves moves_trans moves_same statuses_only_ext
       dest: moves_none)

text \<open>
  A restart reads the rows with one status; that status is the row's as long as the handler runs,
  or the row was restarted in between. The table has no two rows of a deposit.
\<close>

definition restarts :: "'x world \<Rightarrow> 'x job list \<Rightarrow> 'x world \<Rightarrow> bool" where
  "restarts w jobs w' \<longleftrightarrow> pk_ok w' = pk_ok w \<and> (pk_ok w \<longrightarrow> moves Restart w jobs w')"

definition unfinished :: "Deposit \<Rightarrow> 'x world \<Rightarrow> bool" where
  "unfinished d w \<longleftrightarrow> (pk_ok w \<longrightarrow> statuses w (d_Id d) \<in>
     {Some STATUS_PENDING, Some STATUS_PROCESSING, Some STATUS_SUBMITTING_TO_CORE})"

lemma CatchUp_restarts:
  assumes "unfinished d w" and "CatchUp E b d w = (r, w')"
  shows "restarts w (request_jobs r) w'"
proof -
  have restart: "follows Restart m (m(i \<mapsto> STATUS_PENDING))"
    if "m i = Some STATUS_PENDING \<or> m i = Some STATUS_PROCESSING \<or> m i = Some STATUS_SUBMITTING_TO_CORE" for m i
    using that by (intro follows_move protocol.restart) auto
  have upd: "statuses v' = (if q = None \<and> statuses v i \<noteq> None then (statuses v)(i \<mapsto> s) else statuses v)
      \<and> pk_ok v' = pk_ok v" if "depositsQ_UpdateStatus E i s v = (q, v')" for i s v q v'
    using statuses_update [OF that] depositsQ_updates_pk(1) [OF that] by simp
  have pick: "statuses v' = statuses v \<and> pk_ok v' = pk_ok v" if "pick_random E xs v = (q, v')"
    for xs :: "'x ChildClient list" and v q v'
    using only_ext_facts(2) [OF that] by (auto simp: only_ext_def)
  have "ensures (\<lambda>r v. pk_ok v = pk_ok w \<and> (pk_ok w \<longrightarrow> moves Restart w (request_jobs r) v)) (CatchUp E b d w)"
    using assms(1) unfolding CatchUp_def Let_def
    by (intro flow)
       (auto simp: moves_def unfinished_def pk_ok_def cache_Store_def dest!: upd pick intro: follows_refl restart)
  then show ?thesis using assms(2) by (simp add: restarts_def ensures_def)
qed

lemma CatchUpEpoch_restarts: "CatchUpEpoch E b e w = (r, w') \<Longrightarrow> restarts w (request_jobs r) w'"
proof -
  assume run: "CatchUpEpoch E b e w = (r, w')"
  have "ensures (\<lambda>_. only_ext w) (CatchUpEpoch E b e w)"
    unfolding CatchUpEpoch_def by (intro ext.steps ext.ends_pick_random ext.R_refl)
  with run have "only_ext w w'" by (simp add: ensures_def)
  then show ?thesis using epoch_moves(2) [OF run] by (auto simp: restarts_def only_ext_def)
qed

lemma unfinished_stable:
  assumes "unfinished d w" and "restarts w js w'"
  shows "unfinished d w'"
proof -
  have "statuses w' (d_Id d) = statuses w (d_Id d) \<or> statuses w' (d_Id d) = Some STATUS_PENDING" if "pk_ok w"
    using that assms(2) follows_pending [of Restart "statuses w" "statuses w'" "d_Id d"]
    by (simp add: restarts_def moves_def)
  with assms show ?thesis by (auto simp: unfinished_def restarts_def)
qed

lemma GetWithStatus_unfinished:
  assumes "depositsQ_GetWithStatus E st w = (Inr ds, w')"
    and "st \<in> {STATUS_PENDING, STATUS_PROCESSING, STATUS_SUBMITTING_TO_CORE}"
  shows "\<forall>d \<in> set ds. unfinished d w'"
proof
  fix d assume "d \<in> set ds"
  obtain q v where query: "db_Query E (\<lambda>w. filter (\<lambda>r. d_WithdrawalStatus r = st) (w_deposits w)) w = (q, v)"
    by fastforce
  with assms(1) have "q = Inr ds" "v = w'"
    by (simp_all add: depositsQ_GetWithStatus_def split: sum.splits)
  with db_Query_did [OF query] have "ds = filter (\<lambda>r. d_WithdrawalStatus r = st) (w_deposits w')" by blast
  with \<open>d \<in> set ds\<close> have "d \<in> set (w_deposits w')" "d_WithdrawalStatus d = st" by simp_all
  then have "statuses w' (d_Id d) = Some st" if "pk_ok w'"
    using that find_row_unique [of d_Id "w_deposits w'" d]
    by (simp add: statuses_def deposit_status_def pk_ok_def)
  with assms(2) show "unfinished d w'" by (auto simp: unfinished_def)
qed

interpretation restarts: starting restarts
proof
  fix u v w :: "'a world" and js ks
  show "only_ext w v \<Longrightarrow> restarts w [] v"
    by (auto simp: restarts_def only_ext_def intro: moves_same)
  show "restarts u js v \<Longrightarrow> restarts v ks w \<Longrightarrow> restarts u (js @ ks) w"
    by (auto simp: restarts_def intro: moves_trans)
  show "restarts u js v \<Longrightarrow> restarts u [] v" by (auto simp: restarts_def intro: moves_none)
qed

interpretation restarts: restarting restarts E unfinished for E
  by unfold_locales
     (fact CatchUp_restarts CatchUpEpoch_restarts unfinished_stable GetWithStatus_unfinished)+

subsection \<open>Containers and the submitter\<close>

definition work_results :: "WithdrawalStatus set" where
  "work_results = {STATUS_PROCESSING, STATUS_FAILED, STATUS_SUBMITTING_TO_CORE,
     STATUS_ALREADY_WITHDRAWN, STATUS_PROCESSED}"

definition worked :: "DepositIdentifier \<Rightarrow> statuses \<Rightarrow> statuses \<Rightarrow> bool" where
  "worked i m n \<longleftrightarrow> n = m \<or> m i \<noteq> None \<and> (\<exists>s \<in> work_results. n = m(i \<mapsto> s))"

lemma worked_follows:
  assumes "worked i m n" and "m i \<in> {None, Some STATUS_PENDING}"
  shows "follows Work m n"
proof (cases "n = m")
  case False
  with assms obtain s where "s \<in> work_results" "n = m(i \<mapsto> s)" "m i = Some STATUS_PENDING"
    by (auto simp: worked_def)
  then show ?thesis by (auto simp: work_results_def intro!: follows_move protocol.work)
qed (simp add: follows_refl)

lemma worked_other: "worked i m n \<Longrightarrow> j \<noteq> i \<Longrightarrow> n j = m j"
  by (auto simp: worked_def)

text \<open>What a statement of a container does to the statuses and to the container's deposit.\<close>

lemma statuses_same_tables: "same_tables w w' \<Longrightarrow> statuses w' = statuses w"
  by (simp add: statuses_def fun_eq_iff deposit_status_same)

lemma statuses_IsProcessed: "call_IsProcessed c d w = (q, w') \<Longrightarrow> statuses w' = statuses w"
  by (cases q) (auto dest!: call_IsProcessed_frame(1) statuses_same_tables)

lemma statuses_Withdrawal:
  assumes "executeWithdrawal E c d w = ((d2, e), w')"
  shows "statuses w' = statuses w \<and> d_Id d2 = d_Id d \<and> d_WithdrawalStatus d2 = d_WithdrawalStatus d"
proof -
  have "ensures (\<lambda>q _. d_Id (fst q) = d_Id d \<and> d_WithdrawalStatus (fst q) = d_WithdrawalStatus d)
      (executeWithdrawal E c d w)"
    unfolding executeWithdrawal_def Let_def by (intro flow) simp_all
  with assms executeWithdrawal_status [OF assms] show ?thesis
    by (simp add: statuses_def fun_eq_iff ensures_def)
qed

lemma statuses_failed:
  "mark_failed E d w = (d1, w') \<Longrightarrow> d1 = d\<lparr>d_WithdrawalStatus := STATUS_FAILED\<rparr>
     \<and> (statuses w' = statuses w \<or> statuses w (d_Id d) \<noteq> None \<and> statuses w' = (statuses w)(d_Id d \<mapsto> STATUS_FAILED))"
  by (auto simp: mark_failed_def Let_def split: prod.splits dest!: statuses_update)

lemma default_hash_keeps [simp]:
  "d_Id (default_hash_if_nil d) = d_Id d" "d_WithdrawalStatus (default_hash_if_nil d) = d_WithdrawalStatus d"
  by (simp_all add: default_hash_if_nil_def)

lemmas container_statuses = statuses_IsProcessed statuses_Withdrawal statuses_failed
  statuses_update statuses_details

text \<open>
  A deposit that goes to the submitter as submitting has a row that may be reported; one that goes
  there otherwise was found already withdrawn.
\<close>

definition run_statuses ::
  "DepositIdentifier \<Rightarrow> statuses \<Rightarrow> Deposit option \<times> go_error option \<Rightarrow> 'x world \<Rightarrow> bool" where
  "run_statuses i m q v \<longleftrightarrow> worked i m (statuses v)
     \<and> (\<forall>d. q = (Some d, None) \<longrightarrow>
          statuses v i \<in> {m i, Some STATUS_SUBMITTING_TO_CORE, Some STATUS_ALREADY_WITHDRAWN}
          \<and> (d_WithdrawalStatus d = STATUS_SUBMITTING_TO_CORE \<longrightarrow>
               statuses v i \<in> {m i, Some STATUS_SUBMITTING_TO_CORE}))"

lemma broadcast_statuses:
  "ensures (run_statuses (d_Id d) (statuses w)) (depositBroadcastContainer_Run E c d w)"
  unfolding depositBroadcastContainer_Run_def Let_def
  by (intro flow)
     (auto simp: run_statuses_def worked_def work_results_def dest!: container_statuses split: if_splits)

lemma ProcessWithdraw_statuses:
  "ensures (run_statuses (d_Id d) (statuses w)) (ProcessWithdraw E c d w)"
  unfolding ProcessWithdraw_def Let_def
  by (intro flow)
     (auto simp: run_statuses_def worked_def work_results_def dest!: container_statuses split: if_splits)

lemma statuses_isSubmitted: "isSubmitted C d w = (q, w') \<Longrightarrow> statuses w' = statuses w"
  by (auto simp: isSubmitted_def split: prod.splits sum.splits dest!: statuses_facts)

lemma catchup_statuses:
  "ensures (run_statuses (d_Id d) (statuses w)) (depositCatchupContainer_Run E C c d w)"
proof (cases "d_WithdrawalStatus d = STATUS_SUBMITTING_TO_CORE")
  case True
  then show ?thesis unfolding depositCatchupContainer_Run_def Let_def
    by (simp, intro flow)
       (auto simp: run_statuses_def worked_def work_results_def dest!: statuses_isSubmitted statuses_update
         split: if_splits)
next
  case False
  then show ?thesis
    by (cases "d_WithdrawalStatus d")
       (simp_all add: depositCatchupContainer_Run_def ProcessWithdraw_statuses ensures_leaf run_statuses_def worked_def)
qed

lemma container_Run_statuses:
  "container_Run E C k w = (q, w') \<Longrightarrow> run_statuses (d_Id (container_deposit k)) (statuses w) q w'"
  by (cases k) (auto dest: ensuresD [OF broadcast_statuses] ensuresD [OF catchup_statuses])

text \<open>Marking a batch whose deposits are different and reportable.\<close>

definition reportable :: "statuses \<Rightarrow> Deposit \<Rightarrow> bool" where
  "reportable m d \<longleftrightarrow> m (d_Id d) \<in> {None, Some STATUS_PENDING, Some STATUS_SUBMITTING_TO_CORE,
       Some STATUS_ALREADY_WITHDRAWN}
     \<and> (d_WithdrawalStatus d = STATUS_SUBMITTING_TO_CORE \<longrightarrow>
          m (d_Id d) \<in> {None, Some STATUS_PENDING, Some STATUS_SUBMITTING_TO_CORE})"

lemma id_other: "i \<notin> d_Id ` A \<Longrightarrow> d \<in> A \<Longrightarrow> d_Id d \<noteq> i"
  by blast

lemma mark_processed_other:
  "i \<notin> d_Id ` set ds \<Longrightarrow> statuses (mark_processed E ds w) i = statuses w i"
proof (induction ds arbitrary: w)
  case (Cons d ds)
  then show ?case by (auto split: prod.splits dest!: statuses_update)
qed simp

lemma mark_processed_follows:
  assumes "distinct (map d_Id ds)" and "\<forall>d \<in> set ds. reportable (statuses w) d"
  shows "follows Report (statuses w) (statuses (mark_processed E ds w))"
  using assms
proof (induction ds arbitrary: w)
  case (Cons d ds)
  show ?case
  proof (cases "d_WithdrawalStatus d = STATUS_SUBMITTING_TO_CORE")
    case False
    with Cons show ?thesis by simp
  next
    case True
    obtain r v where u: "depositsQ_UpdateStatus E (d_Id d) STATUS_PROCESSED w = (r, v)" by fastforce
    from Cons.prems(2) True have "statuses w (d_Id d) = None \<or>
        statuses w (d_Id d) \<in> {Some STATUS_PENDING, Some STATUS_SUBMITTING_TO_CORE}"
      by (auto simp: reportable_def)
    then have "follows Report (statuses w) (statuses v)"
      using statuses_update [OF u] by (auto intro: follows_refl follows_move protocol.report)
    moreover have "reportable (statuses v) e" if "e \<in> set ds" for e
    proof -
      from Cons.prems(1) have "d_Id d \<notin> d_Id ` set ds" by simp
      from id_other [OF this that] have "d_Id e \<noteq> d_Id d" .
      then have "statuses v (d_Id e) = statuses w (d_Id e)" using statuses_update [OF u] by simp
      with that Cons.prems(2) show ?thesis by (simp add: reportable_def)
    qed
    ultimately show ?thesis using Cons.IH [of v] Cons.prems(1) True u
      by (auto intro: follows_trans)
  qed
qed (simp add: follows_refl)

subsection \<open>The service refines the protocol\<close>

text \<open>What is in memory matches the table: waiting deposits are pending, the rest may be reported.\<close>

definition tracked :: "'x node \<Rightarrow> bool" where
  "tracked s \<longleftrightarrow>
     (\<forall>i \<in> set (waiting (n_jobs s)). statuses (n_world s) i \<in> {None, Some STATUS_PENDING})
   \<and> (\<forall>d \<in> set (n_submit s @ n_pool s). reportable (statuses (n_world s)) d)"

definition refines :: "'x node \<Rightarrow> 'x node \<Rightarrow> bool" where
  "refines s t \<longleftrightarrow> (\<exists>a. follows a (statuses (n_world s)) (statuses (n_world t))) \<and> tracked t"

lemma reportable_pending:
  assumes "follows a m n" and "a \<in> {Accept, Restart}" and "reportable m d"
  shows "reportable n d"
  using follows_pending [OF assms(1,2), of "d_Id d"] assms(3) by (auto simp: reportable_def)

lemma refines_started:
  assumes "tracked s" and "moves a (n_world s) jobs (n_world t)" and "a \<in> {Accept, Restart}"
    and "n_jobs t = n_jobs s @ jobs" and "n_submit t = n_submit s" and "n_pool t = n_pool s"
  shows "refines s t"
proof -
  have f: "follows a (statuses (n_world s)) (statuses (n_world t))" using assms(2) by (simp add: moves_def)
  have "statuses (n_world t) i \<in> {None, Some STATUS_PENDING}" if "i \<in> set (waiting (n_jobs t))" for i
    using that assms(1,2,4) follows_pending [OF f assms(3), of i] by (auto simp: tracked_def moves_def)
  moreover have "reportable (statuses (n_world t)) d" if "d \<in> set (n_submit t @ n_pool t)" for d
    using that assms(1,5,6) reportable_pending [OF f assms(3)] by (auto simp: tracked_def)
  ultimately show ?thesis using f by (auto simp: refines_def tracked_def)
qed

lemma refines_same:
  assumes "tracked s" and "statuses (n_world t) = statuses (n_world s)"
    and "set (waiting (n_jobs t)) \<subseteq> set (waiting (n_jobs s))"
    and "\<forall>d \<in> set (n_submit t @ n_pool t). reportable (statuses (n_world s)) d"
  shows "refines s t"
  using assms follows_refl [of Accept "statuses (n_world s)"]
  by (auto simp: refines_def tracked_def)

lemma refines_crash:
  "follows a (statuses (n_world s)) (statuses w) \<Longrightarrow> refines s (after_crash sv s w)"
  by (auto simp: refines_def tracked_def after_crash_def waiting_def)

lemma waiting_Cons [simp]:
  "waiting (WithdrawJob c k # js) = d_Id (container_deposit k) # waiting js"
  "waiting (SignersJob c j # js) = waiting js"
  by (simp_all add: waiting_def)

lemma worker_statuses:
  assumes "withdrawal_worker_step E C k w = (q, w')"
  shows "worked (d_Id (container_deposit k)) (statuses w) (statuses w')"
proof -
  obtain r e v where run: "container_Run E C k w = ((r, e), v)" by (metis prod.exhaust)
  then have "worked (d_Id (container_deposit k)) (statuses w) (statuses v)"
    using container_Run_statuses [OF run] by (simp add: run_statuses_def)
  moreover have "statuses w' = statuses v"
    using assms unfolding withdrawal_worker_step_def run by (cases r; cases e) auto
  ultimately show ?thesis by simp
qed

text \<open>A step of a worker touches the row of its own deposit, which is nowhere else in memory.\<close>

lemma refines_work:
  assumes "tracked s" and "one s" and "n_jobs s = xs @ WithdrawJob c k # ys"
    and "withdrawal_worker_step E C k (n_world s) = (Returned sent, w)"
  shows "refines s (s\<lparr>n_world := w, n_jobs := xs @ ys, n_submit := n_submit s @ sent_deposits sent\<rparr>)"
    (is "refines s ?t")
proof -
  let ?i = "d_Id (container_deposit k)" and ?m = "statuses (n_world s)"
  have pending: "?m ?i \<in> {None, Some STATUS_PENDING}" using assms(1,3) by (auto simp: tracked_def)
  have worked: "worked ?i ?m (statuses w)" by (rule worker_statuses [OF assms(4)])
  have "distinct (in_memory s)" by (rule one_in_memory(1) [OF assms(2)])
  then have fresh: "?i \<notin> set (waiting (xs @ ys))" "?i \<notin> d_Id ` set (n_submit s @ n_pool s)"
    using assms(3) by (auto simp: in_memory_def)
  have same: "statuses w j = ?m j" if "j \<noteq> ?i" for j using worked_other [OF worked that] .
  have "statuses w j \<in> {None, Some STATUS_PENDING}" if "j \<in> set (waiting (xs @ ys))" for j
  proof -
    from that fresh(1) have "j \<noteq> ?i" by blast
    with that assms(1,3) show ?thesis by (auto simp: tracked_def same)
  qed
  moreover have "reportable (statuses w) d" if "d \<in> set (n_submit s @ n_pool s)" for d
  proof -
    from id_other [OF fresh(2) that] have "d_Id d \<noteq> ?i" .
    with that assms(1) show ?thesis by (auto simp: tracked_def reportable_def same)
  qed
  moreover have "reportable (statuses w) d" if "d \<in> set (sent_deposits sent)" for d
    using worker_cache [OF assms(4)] that container_Run_statuses [of E C k "n_world s"] pending
    by (fastforce simp: reportable_def run_statuses_def)
  ultimately have "tracked ?t" by (auto simp: tracked_def)
  with worked_follows [OF worked pending] show ?thesis by (auto simp: refines_def)
qed

lemma distinct_parts:
  "distinct (xs @ x # ys @ zs) \<Longrightarrow> y \<in> set xs \<union> set ys \<Longrightarrow> y \<noteq> x \<and> y \<notin> set zs"
  by auto

lemma unreferred_reportable:
  assumes "unreferred ds' = unreferred ds" and "\<forall>d \<in> set ds. reportable m d"
  shows "\<forall>d \<in> set ds'. reportable m d"
proof -
  have "map (\<lambda>d. (d_Id d, d_WithdrawalStatus d)) ds' = map (\<lambda>d. (d_Id d, d_WithdrawalStatus d)) ds"
    by (rule unreferred_same [OF assms(1)]) simp
  then have "(\<lambda>d. (d_Id d, d_WithdrawalStatus d)) ` set ds' = (\<lambda>d. (d_Id d, d_WithdrawalStatus d)) ` set ds"
    by (metis list.set_map)
  with assms(2) show ?thesis unfolding reportable_def by (smt (verit) image_iff prod.inject)
qed

lemma refines_report:
  assumes "retry_contract R" and "tracked s" and "one s" and "n_submit s = xs @ d # ys"
    and "submitter_step E R n C k d (n_pool s, n_world s) = (Returned pool, w)"
  shows "refines s (s\<lparr>n_world := w, n_submit := xs @ ys, n_pool := pool\<rparr>)" (is "refines s ?t")
  using assms(1,5)
proof (cases rule: submitter_cases)
  case kept
  have "\<forall>e \<in> set (n_pool s @ [d]). reportable (statuses (n_world s)) e"
    using assms(2,4) by (auto simp: tracked_def)
  from unreferred_reportable [OF kept(1) this] show ?thesis
    using assms(2,4) statuses_only_ext [OF kept(2)]
    by (intro refines_same) (auto simp: tracked_def)
next
  case (reported ds v)
  let ?m = "statuses (n_world s)"
  have v: "statuses v = ?m" by (rule statuses_only_ext [OF reported(3)])
  have ids: "map d_Id ds = map d_Id (n_pool s @ [d])" by (rule unreferred_same [OF reported(2)]) simp
  have memory: "distinct (in_memory s)" by (rule one_in_memory(1) [OF assms(3)])
  then have distinct: "distinct (map d_Id ds)" using assms(4) unfolding ids by (auto simp: in_memory_def)
  have "\<forall>e \<in> set (n_pool s @ [d]). reportable (statuses v) e"
    using assms(2,4) by (auto simp: tracked_def v)
  from mark_processed_follows [OF distinct unreferred_reportable [OF reported(2) this]]
  have follows: "follows Report ?m (statuses w)" by (simp add: reported(4) v)
  have set_ids: "d_Id ` set ds = insert (d_Id d) (d_Id ` set (n_pool s))"
    using arg_cong [OF ids, of set] by simp
  have same: "statuses w j = ?m j" if "j \<noteq> d_Id d" "j \<notin> d_Id ` set (n_pool s)" for j
    using mark_processed_other [of j ds E v] that set_ids v by (simp add: reported(4))
  have "statuses w j \<in> {None, Some STATUS_PENDING}" if "j \<in> set (waiting (n_jobs s))" for j
  proof -
    from that memory assms(4) have "j \<noteq> d_Id d" "j \<notin> d_Id ` set (n_pool s)" by (auto simp: in_memory_def)
    with that assms(2) show ?thesis by (auto simp: tracked_def same)
  qed
  moreover have "reportable (statuses w) e" if "e \<in> set (xs @ ys)" for e
  proof -
    from memory assms(4) have "distinct (map d_Id xs @ d_Id d # map d_Id ys @ map d_Id (n_pool s))"
      by (simp add: in_memory_def)
    moreover from that have "d_Id e \<in> set (map d_Id xs) \<union> set (map d_Id ys)" by auto
    ultimately have "d_Id e \<noteq> d_Id d" "d_Id e \<notin> set (map d_Id (n_pool s))"
      using distinct_parts by metis+
    with that assms(2,4) same [of "d_Id e"] show ?thesis by (simp add: tracked_def reportable_def) blast
  qed
  ultimately have "tracked ?t" by (auto simp: tracked_def reported(1))
  with follows show ?thesis by (auto simp: refines_def)
qed

lemma statuses_signers: "signers_Run E k w = (r, w') \<Longrightarrow> statuses w' = statuses w"
proof -
  have run: "statuses v' = statuses v" if "executeUpdateSigners c e v = (q, v')" for c e v q v'
    using that by (auto simp: executeUpdateSigners_def call_UpdateSigners_def statuses_def deposit_status_def
        split: prod.splits)
  have upd: "statuses v' = statuses v" if "signaturesQ_UpdateStatus E j st v = (q, v')" for j st v q v'
    using db_Exec_did [OF that [unfolded signaturesQ_UpdateStatus_def]]
    by (auto simp: db_did_def statuses_def deposit_status_def)
  have "ensures (\<lambda>_ v. statuses v = statuses w) (signers_Run E k w)"
    by (cases k) (simp_all only: signers_Run.simps updateSignersBroadcastContainer_Run_def
        updateSignersCatchupContainer_Run_def Let_def; intro flow; auto dest!: run upd)+
  then show "signers_Run E k w = (r, w') \<Longrightarrow> statuses w' = statuses w" by (simp add: ensures_def)
qed

lemma statuses_requests:
  "CheckWithdrawal E ctx i w = (r, w') \<Longrightarrow> statuses w' = statuses w"
  "GetWithdrawalsByStatus E ctx q w = (r', w') \<Longrightarrow> statuses w' = statuses w"
proof -
  have "ext.ends w (CheckWithdrawal E ctx i w)"
    unfolding CheckWithdrawal_def by (intro ext.steps ext.ends_reads ext.R_refl)
  then show "CheckWithdrawal E ctx i w = (r, w') \<Longrightarrow> statuses w' = statuses w"
    by (auto simp: ensures_def dest: statuses_only_ext)
  have "ext.ends w (GetWithdrawalsByStatus E ctx q w)"
    unfolding GetWithdrawalsByStatus_def depositsQ_Select_GetWithStatus_def db_Select_def
    by (intro ext.steps ext.ends_ext_call ext.R_refl)
  then show "GetWithdrawalsByStatus E ctx q w = (r', w') \<Longrightarrow> statuses w' = statuses w"
    by (auto simp: ensures_def dest: statuses_only_ext)
qed

lemma statuses_init:
  assumes "retry_contract R" and "fetchEvents_init E R ob h w = (r, w')"
  shows "statuses w' = statuses w"
proof -
  have insert: "statuses v' = statuses v" if "blocksQ_Insert E l v = (q, v')" for l v q v'
    using that by (auto simp: blocksQ_Insert_def db_did_def statuses_def deposit_status_def fun_eq_iff
        split: prod.splits if_splits dest!: db_Exec_did)
  have height: "statuses v' = statuses v" if "getCurrentHeight E R n v = (q, v')" for n v q v'
    using ensuresD [OF ext.ends_getCurrentHeight [OF assms(1) ext.R_refl] that] by (rule statuses_only_ext)
  have "ensures (\<lambda>_ v. statuses v = statuses w) (fetchEvents_init E R ob h w)"
    unfolding fetchEvents_init_def by (intro flow) (auto dest!: insert height)
  with assms(2) show ?thesis by (simp add: ensures_def)
qed

lemma submitter_panic_statuses:
  assumes "retry_contract R" and "submitter_step E R n C k d (pool, w) = (Panic m, w')"
  shows "statuses w' = statuses w"
proof -
  obtain q pool2 w2 where run: "DoWithRetry R n (updateTx C) (pool @ [d], w) = (q, (pool2, w2))"
    by (metis prod.exhaust)
  have "only_ext w w2" using retried_batch [OF assms(1) run] by simp
  moreover have "w' = w2" using assms(2) run
    by (simp add: submitter_step_def Let_def split: if_splits go_result.splits option.splits)
  ultimately show ?thesis by (simp add: statuses_only_ext)
qed

lemma step_refines:
  assumes "service_ok sv" and "step sv s t" and "pk_ok (n_world s)" and "one s" and "tracked s"
  shows "refines s t"
proof -
  have R: "retry_contract (sv_retry_height sv)" "retry_contract (sv_retry_block sv)"
    "retry_contract (sv_retry_submit sv)" using assms(1) by (simp_all add: service_ok_def)
  from assms(2) show ?thesis
  proof cases
    case (submit_request i r b w)
    from accepts.SubmitWithdrawal_G [OF _ submit_request(2)] submit_request(1) show ?thesis
      by (intro refines_started [OF assms(5), of Accept]) simp_all
  next
    case (check_request i r w)
    from statuses_requests(1) [OF check_request(2)] check_request(1) assms(5) show ?thesis
      by (intro refines_same) (simp_all add: tracked_def)
  next
    case (list_request q r w)
    from statuses_requests(2) [OF list_request(2)] list_request(1) assms(5) show ?thesis
      by (intro refines_same) (simp_all add: tracked_def)
  next
    case (observe h jobs w)
    from accepts.fetchEvents_tick_G [OF R(1,2) _ observe(2)] observe(1) show ?thesis
      by (intro refines_started [OF assms(5), of Accept]) simp_all
  next
    case (observe_panics m w)
    from accepts.fetchEvents_tick_G [OF R(1,2) _ observe_panics(2)] observe_panics(1) show ?thesis
      by (auto simp: moves_def intro: refines_crash)
  next
    case (catch_up e jobs w)
    from restarts.CatchUpper_Start_G [OF catch_up(2)] assms(3) catch_up(1) show ?thesis
      by (intro refines_started [OF assms(5), of Restart]) (simp_all add: restarts_def)
  next
    case (catch_up_panics m w)
    from restarts.CatchUpper_Start_G [OF catch_up_panics(2)] assms(3) catch_up_panics(1) show ?thesis
      by (auto simp: moves_def restarts_def intro: refines_crash)
  next
    case (work xs c k ys sent w)
    from refines_work [OF assms(5,4) work(2,3)] work(1) show ?thesis by simp
  next
    case (work_panics xs c k ys m w)
    have "follows Work (statuses (n_world s)) (statuses w)"
      using assms(5) work_panics(2)
      by (intro worked_follows [OF worker_statuses [OF work_panics(3)]]) (simp add: tracked_def)
    with work_panics(1) show ?thesis by (auto intro: refines_crash)
  next
    case (update_signers xs c j ys r w)
    from statuses_signers [OF update_signers(3)] update_signers(1,2) assms(5) show ?thesis
      by (intro refines_same) (auto simp: tracked_def)
  next
    case (report xs d ys pool w)
    from refines_report [OF R(3) assms(5,4) report(2,3)] report(1) show ?thesis by simp
  next
    case (report_panics xs d ys m w)
    have "follows Report (statuses (n_world s)) (statuses w)"
      by (simp add: submitter_panic_statuses [OF R(3) report_panics(3)] follows_refl)
    with report_panics(1) show ?thesis by (auto intro: refines_crash)
  next
    case (restart h h' w)
    from statuses_init [OF R(1) restart(2)] have "refines s (after_crash sv s w)"
      by (intro refines_crash) (simp add: follows_refl)
    with restart(1) show ?thesis by (simp add: refines_def tracked_def)
  qed
qed

lemma reachable_tracked:
  assumes "service_ok sv" and "plain_hashes sv" and "reachable sv s"
  shows "tracked s"
  using assms(3)
proof (induction rule: reachable.induct)
  case (start s)
  then show ?case by (simp add: initial_def tracked_def)
next
  case (next_step s t)
  have "pk_ok (n_world s)" using reachable_world_ok [OF assms(1) next_step.hyps(1)] by simp
  from step_refines [OF assms(1) next_step.hyps(2) this reachable_one [OF assms(1,2) next_step.hyps(1)] next_step.IH]
  show ?case by (simp add: refines_def)
qed

lemma reachable_refines:
  assumes "service_ok sv" and "plain_hashes sv" and "reachable sv s" and "step sv s t"
  shows "\<exists>a. follows a (statuses (n_world s)) (statuses (n_world t))"
proof -
  have "pk_ok (n_world s)" using reachable_world_ok [OF assms(1,3)] by simp
  from step_refines [OF assms(1,4) this reachable_one [OF assms(1-3)] reachable_tracked [OF assms(1-3)]]
  show ?thesis by (simp add: refines_def)
qed

end
