(* ===== verification/System_Props.thy ===== *)
theory System_Props
  imports Demo Status_Protocol
begin

text \<open>
  The properties of the running service as a whole: what holds in every state that the
  interleaving of its goroutines, its crashes and its restarts can reach.
\<close>

text \<open>C1: However the API, the observer, the catch-upper, the workers and the submitter interleave,
  and through crashes and restarts, every withdrawal the service sends to a chain comes directly
  after that chain client answered that this deposit is not processed yet.\<close>

theorem withdraws_only_after_check:
  assumes "service_ok sv" and "reachable sv s"
    and "w_log (n_world s) = K @ EvWithdraw i # M"
  shows "\<exists>N. M = EvIsProcessed i False # N"
proof (rule log_ok_withdraw)
  show "log_ok (K @ EvWithdraw i # M)" using reachable_world_ok [OF assms(1,2)] assms(3) by simp
qed

theorem withdraws_only_after_check_witness:
  "\<exists>N. [EvIsProcessed demo_id False] = EvIsProcessed demo_id False # N"
  by (rule withdraws_only_after_check [OF demo_service_ok demo_reachable_done demo_done_log])

text \<open>C31: No reachable state has a row with a recovery attempt counted: the attempt that
  \<open>checkExistence\<close> adds is added to its own copy of the deposit, and what is stored comes from
  the core or from an event, with the value 0. The configured maximum is never reached.\<close>

theorem recovery_attempts_never_counted:
  assumes "service_ok sv" and "reachable sv s" and "r \<in> set (w_deposits (n_world s))"
  shows "d_RecoveryAttempts r = 0"
  using reachable_world_ok [OF assms(1,2)] assms(3) by (simp add: no_attempts_def)

theorem recovery_attempts_never_counted_witness: "d_RecoveryAttempts demo_withdrawn = 0"
  using recovery_attempts_never_counted [OF demo_service_ok demo_reachable_done, of demo_withdrawn]
  by (simp add: demo_done_def demo_paid_def)

text \<open>The demo service reads no slash in a hash.\<close>

lemma demo_plain_hashes: "plain_hashes demo_service"
  by (simp add: plain_hashes_def plain_core_def plain_blocks_def demo_service_def demo_api_def
      demo_connector_def demo_core_def demo_tx_def demo_observer_def)

text \<open>C5: No deposit is twice in the memory of a process. In every reachable state the deposits
  that wait for a worker, that are on the way to the submitter and that are in its pool are
  pairwise different, and each is in the cache, so that a request, an event or a catch-up for it
  is refused. The handlers are taken one at a time, and the transaction hashes that come from the
  core contain no slash.\<close>

theorem one_container_per_deposit:
  assumes "service_ok sv" and "plain_hashes sv" and "reachable sv s"
  shows "distinct (waiting (n_jobs s) @ map d_Id (n_submit s @ n_pool s))
    \<and> (\<forall>d. d_Id d \<in> set (waiting (n_jobs s)) \<union> d_Id ` set (n_submit s @ n_pool s) \<longrightarrow>
        (\<exists>err. checkExistence E b d (n_world s) = (Some err, n_world s) \<and> errors_Is err ErrAlreadyExists)
        \<and> CatchUp E b d (n_world s) = (Returned (Some (Leaf ErrAlreadyExists), []), n_world s))"
proof -
  have one: "one s" by (rule reachable_one [OF assms])
  have "cache_Load (Deposit_String d) (n_world s)"
    if "d_Id d \<in> set (waiting (n_jobs s)) \<union> d_Id ` set (n_submit s @ n_pool s)" for d
  proof -
    from that have "d_Id d \<in> set (in_memory s)" by (auto simp: in_memory_def)
    with one_in_memory(2) [OF one] show ?thesis by (auto simp: cache_Load_def Deposit_String_def)
  qed
  then show ?thesis
    using one_in_memory(1) [OF one] by (simp add: checkExistence_def CatchUp_def in_memory_def)
qed

theorem one_container_per_deposit_witness:
  "CatchUp demo_env demo_api_broadcaster demo_deposit demo_stored
     = (Returned (Some (Leaf ErrAlreadyExists), []), demo_stored)"
proof -
  from one_container_per_deposit [OF demo_service_ok demo_plain_hashes demo_reachable_queued]
  have "d_Id d \<in> set (waiting (n_jobs demo_queued)) \<longrightarrow>
      CatchUp E b d (n_world demo_queued) = (Returned (Some (Leaf ErrAlreadyExists), []), n_world demo_queued)"
    for E :: "unit env" and b d by blast
  from this [of demo_deposit demo_env demo_api_broadcaster] show ?thesis
    by (simp add: demo_queued_def waiting_def demo_job_def)
qed

text \<open>C6: The service refines the protocol of statuses. Whatever a step does (a request, a tick
  of the observer, a catch-up, a container, a report, a crash), the statuses in the table change
  only by the moves of one actor: accepting makes an unknown or failed deposit pending,
  restarting makes an unfinished one pending, a worker takes a pending deposit to any later
  status, and the submitter takes a pending or submitting one to processed. The handlers are taken
  one at a time (two requests that overlap between the check and the insert of one deposit can
  break it), and the transaction hashes that come from the core contain no slash.\<close>

theorem statuses_follow_protocol:
  assumes "service_ok sv" and "plain_hashes sv" and "reachable sv s" and "step sv s t"
  shows "\<exists>a. follows a (statuses (n_world s)) (statuses (n_world t))"
  by (rule reachable_refines [OF assms])

theorem statuses_follow_protocol_witness:
  "\<exists>a. follows a (statuses demo_stored) (statuses demo_paid)"
  using statuses_follow_protocol [OF demo_service_ok demo_plain_hashes demo_reachable_queued demo_work_step]
  by (simp add: demo_queued_def demo_done_def)

text \<open>C7: A finished deposit stays finished: once its row says processed or already withdrawn,
  no sequence of requests, events, catch-ups, containers, reports, crashes and restarts changes
  that, in any order, as long as each runs as a whole before the next. Two accepts of one deposit
  that overlap, both past the check before either inserts, can break it. The transaction hashes
  that come from the core contain no slash.\<close>

theorem finished_stays_finished:
  assumes "service_ok sv" and "plain_hashes sv" and "reachable sv s" and "(step sv)\<^sup>*\<^sup>* s t"
    and "deposit_status i (n_world s) = Some q"
    and "q = STATUS_PROCESSED \<or> q = STATUS_ALREADY_WITHDRAWN"
  shows "deposit_status i (n_world t) = Some q"
proof -
  from assms(4) have "reachable sv t \<and> statuses (n_world t) i = Some q"
  proof (induction rule: rtranclp_induct)
    case base
    then show ?case using assms(3,5) by (simp add: statuses_at)
  next
    case (step t u)
    then obtain a where "follows a (statuses (n_world t)) (statuses (n_world u))"
      using reachable_refines [OF assms(1,2)] by blast
    with step assms(6) show ?case by (auto intro: reachable.next_step dest: follows_final)
  qed
  then show ?thesis by (simp add: statuses_at)
qed

text \<open>A second request for the deposit that is paid and reported leaves it processed.\<close>

theorem finished_stays_finished_witness:
  "\<exists>s :: unit node. deposit_status demo_id (n_world s) = Some STATUS_PROCESSED
     \<and> deposit_status demo_id (snd (snd (SubmitWithdrawal demo_env demo_api (n_broadcaster s)
         (Some demo_id) (n_world s)))) = Some STATUS_PROCESSED"
proof -
  obtain s where s: "reachable demo_service s" "deposit_status demo_id (n_world s) = Some STATUS_PROCESSED"
    by (rule demo_reported)
  obtain r b w where call: "SubmitWithdrawal demo_env demo_api (n_broadcaster s) (Some demo_id) (n_world s) = (r, b, w)"
    by (metis prod.exhaust)
  then have "step demo_service s (s\<lparr>n_world := w, n_broadcaster := b, n_jobs := n_jobs s @ request_jobs r\<rparr>)"
    by (intro step.submit_request [of _ _ "Some demo_id"]) (simp add: demo_service_def)
  from finished_stays_finished [OF demo_service_ok demo_plain_hashes s(1) r_into_rtranclp [of "step demo_service", OF this] s(2)]
  show ?thesis using s(2) call by (intro exI [of _ s]) simp
qed

end
