(* ===== verification/Catch_Up_Props.thy ===== *)
theory Catch_Up_Props
  imports Demo
begin

text \<open>
  What the broadcaster accepts, when it recovers a failed deposit, and that the catch-upper
  restarts every unfinished deposit.
\<close>

subsection \<open>The steps of the catch-upper\<close>

definition restarted :: "'x job list \<Rightarrow> Deposit list" where
  "restarted jobs = List.map_filter (\<lambda>j. case j of
     WithdrawJob c (DepositCatchUp cl d) \<Rightarrow> Some d | _ \<Rightarrow> None) jobs"

lemma restarted_simps [simp]:
  "restarted [] = []"
  "restarted (j # js) = restarted [j] @ restarted js"
  "restarted (xs @ ys) = restarted xs @ restarted ys"
  "restarted [WithdrawJob c (DepositCatchUp cl d)] = [d]"
  "restarted [SignersJob c k] = []"
  by (simp_all add: restarted_def List.map_filter_def)

declare restarted_simps(2) [simp del]

definition clients_ready :: "'x Broadcaster \<Rightarrow> bool" where
  "clients_ready b \<longleftrightarrow>
     (\<forall>c cl. repo_clients (b_clientsRepo b) c = Some cl \<longrightarrow> cl_ChildClients cl \<noteq> [])"

lemma pick_random_ready:
  assumes "Intn_contract E" and "xs \<noteq> []"
  shows "\<exists>c x. pick_random E xs w = (Returned c, w\<lparr>w_ext := x\<rparr>)"
proof -
  obtain i x where i: "x_Intn E (length xs) (w_ext w) = (i, x)" by fastforce
  with assms have "i < length xs" unfolding Intn_contract_def by (metis fst_conv length_greater_0_conv)
  with assms(2) i show ?thesis by (auto simp: pick_random_def ext_call_def)
qed

text \<open>What a pass does to the tables and to the cache.\<close>

definition pend :: "DepositIdentifier set \<Rightarrow> Deposit list \<Rightarrow> Deposit list" where
  "pend I rs = map (\<lambda>r. if d_Id r \<in> I then r\<lparr>d_WithdrawalStatus := STATUS_PENDING\<rparr> else r) rs"

lemma pend_simps [simp]:
  "pend {} rs = rs"
  "pend J (pend I rs) = pend (I \<union> J) rs"
  "upd_rows d_Id i (\<lambda>r. r\<lparr>d_WithdrawalStatus := STATUS_PENDING\<rparr>) rs = pend {i} rs"
  by (auto simp: pend_def upd_rows_def)

lemma filter_pend:
  assumes "key_unique d_Id rs" and "set ds \<subseteq> set rs" and "\<forall>d \<in> set ds. d_WithdrawalStatus d \<noteq> t"
    and "t \<noteq> STATUS_PENDING"
  shows "filter (\<lambda>r. d_WithdrawalStatus r = t) (pend (d_Id ` set ds) rs)
    = filter (\<lambda>r. d_WithdrawalStatus r = t) rs"
proof -
  have other: "d_WithdrawalStatus r \<noteq> t" if "r \<in> set rs" "d_Id r \<in> d_Id ` set ds" for r
  proof -
    from that(2) obtain d where d: "d \<in> set ds" "d_Id d = d_Id r" by auto
    with assms(2) have "d \<in> set rs" by blast
    with find_row_unique [OF assms(1)] that(1) d have "d = r" by (metis option.inject)
    with d assms(3) show ?thesis by blast
  qed
  have "filter (\<lambda>r. d_WithdrawalStatus r = t) (pend I xs) = filter (\<lambda>r. d_WithdrawalStatus r = t) xs"
    if "\<forall>r \<in> set xs. d_Id r \<in> I \<longrightarrow> d_WithdrawalStatus r \<noteq> t" for I xs
    using that
  proof (induction xs)
    case (Cons x xs)
    with assms(4) show ?case by (cases "d_Id x \<in> I") (simp_all add: pend_def)
  qed (simp add: pend_def)
  from this [of rs] other show ?thesis by simp
qed

definition set_pending :: "Deposit list \<Rightarrow> 'x world \<Rightarrow> 'x world \<Rightarrow> bool" where
  "set_pending ds w w' \<longleftrightarrow> w_deposits w' = pend (d_Id ` set ds) (w_deposits w)
     \<and> w_cache w' = w_cache w \<union> Deposit_String ` set ds"

lemma set_pending_Nil: "set_pending [] w w"
  by (simp add: set_pending_def)

lemma set_pending_trans: "set_pending ds u v \<Longrightarrow> set_pending es v w \<Longrightarrow> set_pending (ds @ es) u w"
  by (auto simp: set_pending_def image_Un)

lemma CatchUp_ready:
  assumes "sql_ok E" and "Intn_contract E" and "clients_ready b"
    and "repo_SupportsChain (b_clientsRepo b) (d_WithdrawalChainId d)"
    and "Deposit_String d \<notin> w_cache w"
  shows "\<exists>c x. CatchUp E b d w = (Returned (None, [WithdrawJob (d_WithdrawalChainId d) (DepositCatchUp c d)]),
    (cache_Store (Deposit_String d) (set_status (d_Id d) STATUS_PENDING (tick E w)))\<lparr>w_ext := x\<rparr>)"
proof -
  obtain cl where cl: "repo_clients (b_clientsRepo b) (d_WithdrawalChainId d) = Some cl"
    using assms(4) by (auto simp: repo_SupportsChain_def split: option.splits)
  with assms(3) have "cl_ChildClients cl \<noteq> []" by (auto simp: clients_ready_def)
  from pick_random_ready [OF assms(2) this, of "cache_Store (Deposit_String d) (set_status (d_Id d) STATUS_PENDING (tick E w))"]
  obtain c x where "pick_random E (cl_ChildClients cl) (cache_Store (Deposit_String d) (set_status (d_Id d) STATUS_PENDING (tick E w)))
    = (Returned c, (cache_Store (Deposit_String d) (set_status (d_Id d) STATUS_PENDING (tick E w)))\<lparr>w_ext := x\<rparr>)"
    by blast
  with assms(5) cl show ?thesis
    by (auto simp: CatchUp_def cache_Load_def repo_Client_def sql_ok_statements [OF assms(1)])
qed

lemma set_pending_one:
  "set_pending [d] w ((cache_Store (Deposit_String d) (set_status (d_Id d) STATUS_PENDING (tick E w)))\<lparr>w_ext := x\<rparr>)"
  by (simp add: set_pending_def cache_Store_def set_status_def upd_deposits_def)

lemma catchup_deposits_ready:
  assumes "sql_ok E" and "Intn_contract E" and "clients_ready b"
    and "\<forall>d \<in> set ds. repo_SupportsChain (b_clientsRepo b) (d_WithdrawalChainId d)"
    and "Deposit_String ` set ds \<inter> w_cache w = {}" and "distinct (map Deposit_String ds)"
  shows "\<exists>jobs w'. catchup_deposits E b ds w = (Returned jobs, w') \<and> restarted jobs = ds \<and> set_pending ds w w'"
  using assms(4-6)
proof (induction ds arbitrary: w)
  case Nil
  show ?case by (simp add: set_pending_Nil)
next
  case (Cons d ds)
  have "Deposit_String d \<notin> w_cache w" "repo_SupportsChain (b_clientsRepo b) (d_WithdrawalChainId d)"
    using Cons.prems by auto
  from CatchUp_ready [OF assms(1-3) this(2,1)] obtain c x v where
    one: "CatchUp E b d w = (Returned (None, [WithdrawJob (d_WithdrawalChainId d) (DepositCatchUp c d)]), v)"
    and v: "v = (cache_Store (Deposit_String d) (set_status (d_Id d) STATUS_PENDING (tick E w)))\<lparr>w_ext := x\<rparr>"
    by blast
  have p: "set_pending [d] w v" unfolding v by (rule set_pending_one)
  then have "Deposit_String ` set ds \<inter> w_cache v = {}"
    using Cons.prems(2,3) by (auto simp: set_pending_def)
  from Cons.IH [OF _ this] Cons.prems(1,3)
  obtain jobs w' where rest: "catchup_deposits E b ds v = (Returned jobs, w')"
    "restarted jobs = ds" "set_pending ds v w'" by auto
  have "set_pending (d # ds) w w'" using set_pending_trans [OF p rest(3)] by simp
  then show ?case by (simp add: one rest(1,2) restarted_simps(2) [of _ jobs])
qed

definition of_status :: "WithdrawalStatus \<Rightarrow> 'x world \<Rightarrow> Deposit list" where
  "of_status s w = filter (\<lambda>r. d_WithdrawalStatus r = s) (w_deposits w)"

lemma catchupWithStatus_ready:
  assumes "sql_ok E" and "Intn_contract E" and "clients_ready b"
    and "of_status s w = ds"
    and "\<forall>d \<in> set ds. repo_SupportsChain (b_clientsRepo b) (d_WithdrawalChainId d)"
    and "Deposit_String ` set ds \<inter> w_cache w = {}" and "distinct (map Deposit_String ds)"
  shows "\<exists>jobs w'. catchupWithStatus E b s w = (Returned (None, jobs), w') \<and> restarted jobs = ds
    \<and> set_pending ds w w'"
proof -
  have tick: "set_pending ds (tick E w) w' = set_pending ds w w'" for w' by (simp add: set_pending_def)
  have "Deposit_String ` set ds \<inter> w_cache (tick E w) = {}" using assms(6) by simp
  from catchup_deposits_ready [OF assms(1-3,5) this assms(7)] obtain jobs w'
    where "catchup_deposits E b ds (tick E w) = (Returned jobs, w')" "restarted jobs = ds"
      "set_pending ds w w'" unfolding tick by blast
  then show ?thesis
    by (simp add: catchupWithStatus_def depositsQ_GetWithStatus_def sql_ok_db_Query [OF assms(1)]
        assms(4) [symmetric] of_status_def)
qed

lemma CatchUpEpoch_ready:
  assumes "Intn_contract E" and "clients_ready b"
  shows "\<exists>e jobs w'. CatchUpEpoch E b ep w = (Returned (e, jobs), w') \<and> restarted jobs = []"
proof (cases "repo_clients (b_clientsRepo b) (e_ChainId ep)")
  case None
  then show ?thesis by (simp add: CatchUpEpoch_def repo_Client_def)
next
  case (Some cl)
  with assms(2) have "cl_ChildClients cl \<noteq> []" by (auto simp: clients_ready_def)
  from pick_random_ready [OF assms(1) this, of w] Some show ?thesis
    by (auto simp: CatchUpEpoch_def repo_Client_def)
qed

lemma catchup_epochs_ready:
  assumes "Intn_contract E" and "clients_ready b"
  shows "\<exists>jobs w'. catchup_epochs E b es w = (Returned jobs, w') \<and> restarted jobs = []"
proof (induction es arbitrary: w)
  case (Cons ep es)
  from CatchUpEpoch_ready [OF assms, of ep w] obtain e jobs v where
    one: "CatchUpEpoch E b ep w = (Returned (e, jobs), v)" "restarted jobs = []" by blast
  from Cons.IH [of v] obtain later w' where "catchup_epochs E b es v = (Returned later, w')"
    "restarted later = []" by blast
  with one show ?case by simp
qed simp

lemma catchupEpochsWithStatus_ready:
  assumes "sql_ok E" and "Intn_contract E" and "clients_ready b"
  shows "\<exists>jobs w'. catchupEpochsWithStatus E b s w = (Returned (None, jobs), w') \<and> restarted jobs = []"
proof -
  from catchup_epochs_ready [OF assms(2,3)] obtain jobs w' where
    "catchup_epochs E b (filter (\<lambda>r. e_Status r = s) (w_signatures (tick E w))) (tick E w) = (Returned jobs, w')"
    "restarted jobs = []" by blast
  then show ?thesis
    by (simp add: catchupEpochsWithStatus_def signaturesQ_GetWithStatus_def sql_ok_db_Query [OF assms(1)])
qed

definition slash_free :: "'x world \<Rightarrow> bool" where
  "slash_free w \<longleftrightarrow> (\<forall>r \<in> set (w_deposits w).
     CHR ''/'' \<notin> set (ChainId (d_Id r)) \<and> CHR ''/'' \<notin> set (TxHash (d_Id r)))"

lemma String_inj:
  assumes "key_unique d_Id (w_deposits w)" and "slash_free w"
  shows "inj_on Deposit_String (set (w_deposits w))"
proof (rule inj_onI)
  fix r s assume mem: "r \<in> set (w_deposits w)" "s \<in> set (w_deposits w)"
    and eq: "Deposit_String r = Deposit_String s"
  have "d_Id r = d_Id s"
    using assms(2) mem eq by (intro DepositIdentifier_String_injective) (auto simp: slash_free_def Deposit_String_def)
  with find_row_unique [OF assms(1)] mem show "r = s" by (metis option.inject)
qed

lemma distinct_String:
  assumes "key_unique d_Id (w_deposits w)" and "slash_free w"
  shows "distinct (map Deposit_String (of_status s w))"
proof -
  have "distinct (w_deposits w)" using assms(1) by (simp add: key_unique_def distinct_map)
  moreover have "inj_on Deposit_String (set (of_status s w))"
    using String_inj [OF assms] by (rule inj_on_subset) (auto simp: of_status_def)
  ultimately show ?thesis by (simp add: distinct_map of_status_def)
qed

lemma catch_up_all:
  assumes "sql_ok E" and "Intn_contract E" and "clients_ready b" and "pk_ok w" and "slash_free w"
    and "w_cache w = {}"
    and "\<forall>r \<in> set (w_deposits w). repo_SupportsChain (b_clientsRepo b) (d_WithdrawalChainId r)"
  shows "\<exists>jobs w'. CatchUpper_Start E b w = (Returned (None, jobs), w')
    \<and> restarted jobs = of_status STATUS_PENDING w @ of_status STATUS_PROCESSING w
        @ of_status STATUS_SUBMITTING_TO_CORE w"
proof -
  let ?P = "of_status STATUS_PENDING w" and ?Q = "of_status STATUS_PROCESSING w"
    and ?S = "of_status STATUS_SUBMITTING_TO_CORE w"
  have pk: "key_unique d_Id (w_deposits w)" using assms(4) by (simp add: pk_ok_def)
  have sub: "set (of_status s w) \<subseteq> set (w_deposits w)" for s by (auto simp: of_status_def)
  have supp: "\<forall>d \<in> set (of_status s w). repo_SupportsChain (b_clientsRepo b) (d_WithdrawalChainId d)" for s
    using assms(7) sub by blast
  have disj: "Deposit_String ` set (of_status s w) \<inter> Deposit_String ` set (of_status t w) = {}"
    if "s \<noteq> t" for s t
    using String_inj [OF pk assms(5)] that by (auto simp: of_status_def inj_on_def)
  note d = distinct_String [OF pk assms(5)]
  have c: "Deposit_String ` set ?P \<inter> w_cache w = {}" using assms(6) by simp
  obtain jobs1 w1 where p1: "catchupWithStatus E b STATUS_PENDING w = (Returned (None, jobs1), w1)"
    "restarted jobs1 = ?P" "set_pending ?P w w1"
    using catchupWithStatus_ready [OF assms(1-3) refl supp c d] by blast
  have q: "of_status STATUS_PROCESSING w1 = ?Q"
    using p1(3) filter_pend [OF pk sub, of STATUS_PENDING STATUS_PROCESSING]
    by (simp add: set_pending_def of_status_def)
  have c: "Deposit_String ` set ?Q \<inter> w_cache w1 = {}"
    using p1(3) assms(6) by (simp add: set_pending_def disj)
  obtain jobs2 w2 where p2: "catchupWithStatus E b STATUS_PROCESSING w1 = (Returned (None, jobs2), w2)"
    "restarted jobs2 = ?Q" "set_pending ?Q w1 w2"
    using catchupWithStatus_ready [OF assms(1-3) q supp c d] by blast
  have p12: "set_pending (?P @ ?Q) w w2" by (rule set_pending_trans [OF p1(3) p2(3)])
  have "\<forall>d \<in> set (?P @ ?Q). d_WithdrawalStatus d \<noteq> STATUS_SUBMITTING_TO_CORE"
    by (auto simp: of_status_def)
  with p12 filter_pend [OF pk, of "?P @ ?Q" STATUS_SUBMITTING_TO_CORE] sub
  have q: "of_status STATUS_SUBMITTING_TO_CORE w2 = ?S"
    by (simp add: set_pending_def of_status_def)
  have c: "Deposit_String ` set ?S \<inter> w_cache w2 = {}"
    using p12 assms(6) by (simp add: set_pending_def disj image_Un Int_Un_distrib)
  obtain jobs3 w3 where p3: "catchupWithStatus E b STATUS_SUBMITTING_TO_CORE w2 = (Returned (None, jobs3), w3)"
    "restarted jobs3 = ?S"
    using catchupWithStatus_ready [OF assms(1-3) q supp c d] by blast
  from catchupEpochsWithStatus_ready [OF assms(1-3)] obtain jobs4 w4
    where p4: "catchupEpochsWithStatus E b EPOCH_STATUS_PENDING w3 = (Returned (None, jobs4), w4)"
    "restarted jobs4 = []" by blast
  from catchupEpochsWithStatus_ready [OF assms(1-3)] obtain jobs5 w5
    where p5: "catchupEpochsWithStatus E b EPOCH_STATUS_FAILED w4 = (Returned (None, jobs5), w5)"
    "restarted jobs5 = []" by blast
  have "CatchUpper_Start E b w = (Returned (None, jobs1 @ jobs2 @ jobs3 @ jobs4 @ jobs5 @ []), w5)"
    by (simp add: CatchUpper_Start_def then_pass_def p1(1) p2(1) p3(1) p4(1) p5(1))
  with p1(2) p2(2) p3(2) p4(2) p5(2) show ?thesis by simp
qed

subsection \<open>Properties\<close>

text \<open>C2: With a working database and supported chains, a start on a database with unfinished
  withdrawals restarts every one of them and nothing else: the catch-upper hands to the workers
  the rows pending, then those processing, then those submitting, each once, as they were stored,
  and reports no error.\<close>

theorem catch_up_restarts_all:
  assumes "sql_ok E" and "Intn_contract E" and "clients_ready b" and "pk_ok w" and "slash_free w"
    and "w_cache w = {}"
    and "\<forall>r \<in> set (w_deposits w). repo_SupportsChain (b_clientsRepo b) (d_WithdrawalChainId r)"
  shows "\<exists>jobs w'. CatchUpper_Start E b w = (Returned (None, jobs), w')
    \<and> restarted jobs = of_status STATUS_PENDING w @ of_status STATUS_PROCESSING w
        @ of_status STATUS_SUBMITTING_TO_CORE w"
  by (rule catch_up_all [OF assms])

theorem catch_up_restarts_all_witness:
  "\<exists>jobs w'. CatchUpper_Start demo_env demo_broadcaster (demo_paid\<lparr>w_cache := {}\<rparr>) = (Returned (None, jobs), w')
    \<and> restarted jobs = [demo_withdrawn]"
proof -
  have row: "w_deposits (demo_paid\<lparr>w_cache := {}\<rparr>) = [demo_withdrawn]" by (simp add: demo_paid_def)
  have "Intn_contract demo_env" by (simp add: Intn_contract_def demo_env_def)
  moreover have "clients_ready demo_broadcaster"
    by (simp add: clients_ready_def demo_broadcaster_def demo_repo_def demo_client_def)
  moreover have "pk_ok (demo_paid\<lparr>w_cache := {}\<rparr>)"
    using reachable_world_ok [OF demo_service_ok demo_reachable_done] by (simp add: demo_done_def)
  moreover have "slash_free (demo_paid\<lparr>w_cache := {}\<rparr>)"
    unfolding slash_free_def row
    by (simp add: demo_withdrawn_def demo_deposit_def txToDeposit_def demo_tx_def)
  moreover have "\<forall>r \<in> set (w_deposits (demo_paid\<lparr>w_cache := {}\<rparr>)).
      repo_SupportsChain (b_clientsRepo demo_broadcaster) (d_WithdrawalChainId r)"
    unfolding row
    by (simp add: repo_SupportsChain_def demo_broadcaster_def demo_repo_def demo_withdrawn_def
        demo_deposit_def txToDeposit_def demo_tx_def)
  ultimately have "\<exists>jobs w'. CatchUpper_Start demo_env demo_broadcaster (demo_paid\<lparr>w_cache := {}\<rparr>)
      = (Returned (None, jobs), w') \<and> restarted jobs = of_status STATUS_PENDING (demo_paid\<lparr>w_cache := {}\<rparr>)
      @ of_status STATUS_PROCESSING (demo_paid\<lparr>w_cache := {}\<rparr>)
      @ of_status STATUS_SUBMITTING_TO_CORE (demo_paid\<lparr>w_cache := {}\<rparr>)"
    by (intro catch_up_restarts_all demo_sql_ok) simp_all
  then show ?thesis unfolding of_status_def row by (simp add: demo_withdrawn_def)
qed

subsection \<open>Accepting a deposit\<close>

lemma checkExistence_rows: "checkExistence E b d w = (r, w') \<Longrightarrow> w_deposits w' = w_deposits w"
proof -
  have "ensures (\<lambda>_ w'. w_deposits w' = w_deposits w) (checkExistence E b d w)"
    unfolding checkExistence_def
    by (intro flow) (auto simp: cache_Store_def depositsQ_Get_def dest!: ext_call_world db_Query_did)
  then show "checkExistence E b d w = (r, w') \<Longrightarrow> ?thesis" by (simp add: ensures_def)
qed

text \<open>
  The clock as \<open>checkExistence\<close> reads it when it decides: after the answer of the chain clients
  and the read of the row.
\<close>

definition recovery_clock :: "'x env \<Rightarrow> 'x ChainClient \<Rightarrow> Deposit \<Rightarrow> 'x \<Rightarrow> go_time" where
  "recovery_clock E cl d x = fst (x_now E (snd (x_sql E (snd (cl_IsProcessed cl d x)))))"

lemma checkExistence_accepts:
  assumes "checkExistence E b d w = (None, w')" and "find_row d_Id (d_Id d) (w_deposits w) = Some r"
  shows "d_WithdrawalStatus r = STATUS_FAILED \<and> sint (d_RecoveryAttempts r) < sint (b_recoveryAttempts b)
    \<and> (\<exists>cl. repo_Client (b_clientsRepo b) (d_WithdrawalChainId d) = Inr cl
        \<and> fst (cl_IsProcessed cl d (w_ext w)) = (False, None)
        \<and> \<not> time_Before (recovery_clock E cl d (w_ext w)) (d_RecoveryTimestamp r + b_recoveryTimeout b))"
proof -
  let ?Q = "\<lambda>e w'. e = None \<longrightarrow> (d_WithdrawalStatus r = STATUS_FAILED
    \<and> sint (d_RecoveryAttempts r) < sint (b_recoveryAttempts b)
    \<and> (\<exists>cl. repo_Client (b_clientsRepo b) (d_WithdrawalChainId d) = Inr cl
        \<and> fst (cl_IsProcessed cl d (w_ext w)) = (False, None)
        \<and> \<not> time_Before (recovery_clock E cl d (w_ext w)) (d_RecoveryTimestamp r + b_recoveryTimeout b)))"
  have get: "g = Some r \<and> w_ext v' = snd (x_sql E (w_ext v))"
    if "depositsQ_Get E (d_Id d) v = (Inr g, v')" "w_deposits v = w_deposits w" for g v v'
    using that assms(2) by (auto simp: depositsQ_Get_def db_Query_def ext_call_def split: prod.splits option.splits)
  have proc: "w_deposits v = w_deposits w \<and> fst (cl_IsProcessed cl d (w_ext w)) = q
      \<and> w_ext v = snd (cl_IsProcessed cl d (w_ext w))"
    if "ext_call (cl_IsProcessed cl d) w = (q, v)" for cl q v
    using that by (auto simp: ext_call_def split: prod.splits)
  have now: "fst (x_now E (w_ext v)) = n" if "ext_call (x_now E) v = (n, v')" for n v v'
    using that by (auto simp: ext_call_def split: prod.splits)
  have "ensures ?Q (checkExistence E b d w)"
    unfolding checkExistence_def
    by (intro flow) (auto simp: recovery_clock_def dest!: get proc dest: now)
  with assms(1) show ?thesis by (simp add: ensures_def)
qed

lemma Insert_row:
  assumes "sql_honest E" and "depositsQ_Insert E d w = (None, w')" and "d_WithdrawalStatus d = STATUS_PENDING"
  shows "\<exists>r. find_row d_Id (d_Id d) (w_deposits w') = Some r \<and> d_WithdrawalStatus r = STATUS_PENDING
    \<and> d_RecoveryAttempts r = d_RecoveryAttempts d"
  using assms(2)
proof (cases rule: depositsQ_Insert_cases)
  case (inserted x)
  with assms(3) show ?thesis by (simp add: deposit_row_def)
next
  case (recovered x)
  from Insert_known [OF assms(1,2)] obtain r where "find_row d_Id (d_Id d) (w_deposits w') = Some r"
    by (metis find_row_None_iff known_def not_None_eq)
  then show ?thesis unfolding recovered(2) by (auto simp: dep.find_upd)
qed simp

text \<open>What an accepted deposit leaves behind.\<close>

definition queued_for :: "'x Broadcaster \<Rightarrow> Deposit \<Rightarrow> 'x job list \<Rightarrow> bool" where
  "queued_for b d jobs \<longleftrightarrow> (\<exists>cl client d'.
      repo_Client (b_clientsRepo b) (d_WithdrawalChainId d) = Inr cl \<and> client \<in> set (cl_ChildClients cl)
      \<and> jobs = [WithdrawJob (d_WithdrawalChainId d) (DepositBroadcast client d')]
      \<and> d'\<lparr>d_RecoveryTimestamp := d_RecoveryTimestamp d\<rparr> = d\<lparr>d_WithdrawalStatus := STATUS_PENDING\<rparr>)"

lemma queued_forI:
  assumes "repo_Client (b_clientsRepo b) (d_WithdrawalChainId d) = Inr cl"
    and "client \<in> set (cl_ChildClients cl)"
  shows "queued_for b d [WithdrawJob (d_WithdrawalChainId d)
      (DepositBroadcast client (d\<lparr>d_WithdrawalStatus := STATUS_PENDING, d_RecoveryTimestamp := t\<rparr>))]"
    and "queued_for b d [WithdrawJob (d_WithdrawalChainId d)
      (DepositBroadcast client (d\<lparr>d_WithdrawalStatus := STATUS_PENDING\<rparr>))]"
  using assms unfolding queued_for_def by (cases d; auto)+

definition stored_pending :: "Deposit \<Rightarrow> 'x world \<Rightarrow> bool" where
  "stored_pending d w \<longleftrightarrow> (\<exists>r. find_row d_Id (d_Id d) (w_deposits w) = Some r
     \<and> d_WithdrawalStatus r = STATUS_PENDING \<and> d_RecoveryAttempts r = d_RecoveryAttempts d)"

lemma stored_pending_cong: "w_deposits w' = w_deposits w \<Longrightarrow> stored_pending d w' = stored_pending d w"
  by (simp add: stored_pending_def)

lemma stored_pending_simps [simp]:
  "stored_pending d (cache_Store k w) = stored_pending d w"
  "stored_pending (d\<lparr>d_WithdrawalStatus := s\<rparr>) w = stored_pending d w"
  "stored_pending (d\<lparr>d_WithdrawalStatus := s, d_RecoveryTimestamp := t\<rparr>) w = stored_pending d w"
  by (simp_all add: stored_pending_def cache_Store_def)

lemma Insert_stored:
  "sql_honest E \<Longrightarrow> depositsQ_Insert E d w = (None, w') \<Longrightarrow> d_WithdrawalStatus d = STATUS_PENDING \<Longrightarrow>
     stored_pending d w'"
  unfolding stored_pending_def by (rule Insert_row)

lemma pick_random_stored:
  "pick_random E xs w = (Returned c, w') \<Longrightarrow> c \<in> set xs \<and> stored_pending d w' = stored_pending d w"
  using pick_random_mem [of E xs w c w'] pick_random_world [of E xs w "Returned c" w']
  by (auto simp: stored_pending_def)

lemma BroadcastDeposit_accepts:
  assumes "sql_honest E" and "BroadcastDeposit E b d w = (Returned (None, jobs), w')"
  shows "(\<exists>v. checkExistence E b d w = (None, v)) \<and> queued_for b d jobs \<and> stored_pending d w'"
proof -
  let ?Q = "\<lambda>q w'. \<forall>jobs. q = Returned (None, jobs) \<longrightarrow>
    (\<exists>v. checkExistence E b d w = (None, v)) \<and> queued_for b d jobs \<and> stored_pending d w'"
  have "ensures ?Q (BroadcastDeposit E b d w)"
    unfolding BroadcastDeposit_def BroadcastDeposit_accept_def Let_def
    by (intro flow) (auto dest!: Insert_stored [OF assms(1)] pick_random_stored [of _ _ _ _ _ d]
        intro: queued_forI split: if_splits prod.splits)
  with assms(2) show ?thesis by (simp add: ensures_def)
qed

text \<open>A deposit that had no row is stored with the data of its container.\<close>

lemma Insert_fresh:
  assumes "sql_honest E" and "depositsQ_Insert E d w = (None, w')"
    and "find_row d_Id (d_Id d) (w_deposits w) = None"
  shows "find_row d_Id (d_Id d) (w_deposits w') = Some (deposit_row d)"
  using assms(2)
proof (cases rule: depositsQ_Insert_cases)
  case (inserted x)
  with assms(3) show ?thesis by (simp add: deposit_row_def)
next
  case (recovered x)
  from Insert_known [OF assms(1,2)] obtain r where "find_row d_Id (d_Id d) (w_deposits w') = Some r"
    by (metis find_row_None_iff known_def not_None_eq)
  with assms(3) show ?thesis unfolding recovered(2) by (auto simp: dep.find_upd)
qed simp

lemma BroadcastDeposit_fresh:
  assumes "sql_honest E" and "BroadcastDeposit E b d w = (Returned (None, jobs), w')"
    and "find_row d_Id (d_Id d) (w_deposits w) = None"
  shows "\<forall>c client d'. jobs = [WithdrawJob c (DepositBroadcast client d')] \<longrightarrow>
    find_row d_Id (d_Id d) (w_deposits w') = Some (deposit_row d')"
proof -
  let ?Q = "\<lambda>q w'. \<forall>jobs. q = Returned (None, jobs) \<longrightarrow>
    (\<forall>c client d'. jobs = [WithdrawJob c (DepositBroadcast client d')] \<longrightarrow>
      find_row d_Id (d_Id d) (w_deposits w') = Some (deposit_row d'))"
  have rows: "w_deposits v' = w_deposits v" if "ext_call f v = (q, v')" for f :: "'a \<Rightarrow> 'b \<times> 'a" and q v v'
    using that by (auto dest: ext_call_world)
  have pick: "w_deposits v' = w_deposits v" if "pick_random E xs v = (q, v')" for xs :: "'a ChildClient list" and q v v'
    using pick_random_world [OF that] by auto
  have "ensures ?Q (BroadcastDeposit E b d w)"
    unfolding BroadcastDeposit_def BroadcastDeposit_accept_def Let_def
    by (intro flow) (auto simp: assms(3) cache_Store_def split: if_splits prod.splits
        dest!: checkExistence_rows rows pick Insert_fresh [OF assms(1)])
  with assms(2) show ?thesis by (simp add: ensures_def)
qed

text \<open>C26: A deposit the broadcaster accepts was not in its cache; one goroutine is started for it,
  with a container on one of the child clients of the withdrawal chain and the deposit as it came
  but pending; and its row is stored, pending, before the goroutine starts. A deposit that had no
  row is stored with the data of its container, save the withdrawal hash and the operator, which it
  does not have yet. The database driver itself never reports a
  duplicate key.\<close>

theorem accepted_deposit_is_queued_and_stored:
  assumes "sql_honest E" and "BroadcastDeposit E b d w = (Returned (None, jobs), w')"
  shows "\<not> cache_Load (Deposit_String d) w
    \<and> (\<exists>cl client d'. repo_Client (b_clientsRepo b) (d_WithdrawalChainId d) = Inr cl
        \<and> client \<in> set (cl_ChildClients cl)
        \<and> jobs = [WithdrawJob (d_WithdrawalChainId d) (DepositBroadcast client d')]
        \<and> d'\<lparr>d_RecoveryTimestamp := d_RecoveryTimestamp d\<rparr> = d\<lparr>d_WithdrawalStatus := STATUS_PENDING\<rparr>
        \<and> (find_row d_Id (d_Id d) (w_deposits w) = None \<longrightarrow>
              find_row d_Id (d_Id d) (w_deposits w') = Some (deposit_row d')))
    \<and> deposit_status (d_Id d) w' = Some STATUS_PENDING"
proof -
  from BroadcastDeposit_accepts [OF assms] obtain v where "checkExistence E b d w = (None, v)"
    and q: "queued_for b d jobs" and st: "stored_pending d w'" by blast
  then have "\<not> cache_Load (Deposit_String d) w" by (auto simp: checkExistence_def)
  moreover from q obtain cl client d' where
    "repo_Client (b_clientsRepo b) (d_WithdrawalChainId d) = Inr cl" "client \<in> set (cl_ChildClients cl)"
    and jobs: "jobs = [WithdrawJob (d_WithdrawalChainId d) (DepositBroadcast client d')]"
    and "d'\<lparr>d_RecoveryTimestamp := d_RecoveryTimestamp d\<rparr> = d\<lparr>d_WithdrawalStatus := STATUS_PENDING\<rparr>"
    unfolding queued_for_def by blast
  moreover from BroadcastDeposit_fresh [OF assms] jobs
  have "find_row d_Id (d_Id d) (w_deposits w) = None \<longrightarrow>
      find_row d_Id (d_Id d) (w_deposits w') = Some (deposit_row d')" by blast
  moreover from st have "deposit_status (d_Id d) w' = Some STATUS_PENDING"
    by (auto simp: stored_pending_def deposit_status_def)
  ultimately show ?thesis
    by (intro conjI exI [of _ cl] exI [of _ client] exI [of _ d'])
qed

theorem accepted_deposit_is_queued_and_stored_witness:
  "deposit_status demo_id demo_stored = Some STATUS_PENDING"
  using accepted_deposit_is_queued_and_stored [OF demo_sql_ok(2) demo_BroadcastDeposit]
  by (simp add: txToDeposit_def demo_tx_def demo_id_def)

text \<open>C27: A deposit the service already knows is accepted again only when its withdrawal failed,
  fewer attempts than the maximum are recorded, the client of its withdrawal chain answered this
  call that it is not processed, and the clock this call read after that answer and the read of the
  row is not before the recorded timestamp plus the recovery timeout. Then the recorded number of
  attempts becomes the number in the deposit that came in, not one more than the number recorded
  before. The database driver itself never reports a duplicate key.\<close>

theorem recovery_only_after_failure:
  assumes "sql_honest E" and "BroadcastDeposit E b d w = (Returned (None, jobs), w')"
    and "find_row d_Id (d_Id d) (w_deposits w) = Some r"
  shows "d_WithdrawalStatus r = STATUS_FAILED
    \<and> sint (d_RecoveryAttempts r) < sint (b_recoveryAttempts b)
    \<and> (\<exists>cl. repo_Client (b_clientsRepo b) (d_WithdrawalChainId d) = Inr cl
        \<and> fst (cl_IsProcessed cl d (w_ext w)) = (False, None)
        \<and> d_RecoveryTimestamp r + b_recoveryTimeout b \<le> recovery_clock E cl d (w_ext w))
    \<and> (\<exists>r'. find_row d_Id (d_Id d) (w_deposits w') = Some r'
        \<and> d_RecoveryAttempts r' = d_RecoveryAttempts d)"
proof -
  from BroadcastDeposit_accepts [OF assms(1,2)] obtain v where c: "checkExistence E b d w = (None, v)"
    and st: "stored_pending d w'" by blast
  have "d_WithdrawalStatus r = STATUS_FAILED \<and> sint (d_RecoveryAttempts r) < sint (b_recoveryAttempts b)
    \<and> (\<exists>cl. repo_Client (b_clientsRepo b) (d_WithdrawalChainId d) = Inr cl
        \<and> fst (cl_IsProcessed cl d (w_ext w)) = (False, None)
        \<and> d_RecoveryTimestamp r + b_recoveryTimeout b \<le> recovery_clock E cl d (w_ext w))"
    using checkExistence_accepts [OF c assms(3)] unfolding time_Before_def by (simp add: not_less)
  moreover have "\<exists>r'. find_row d_Id (d_Id d) (w_deposits w') = Some r'
      \<and> d_RecoveryAttempts r' = d_RecoveryAttempts d"
    using st unfolding stored_pending_def by blast
  ultimately show ?thesis by blast
qed

definition demo_late :: "unit env" where
  "demo_late = demo_env\<lparr>x_now := \<lambda>x. (2000000000000, x)\<rparr>"

definition demo_failed :: "unit world" where
  "demo_failed = demo_world\<lparr>w_deposits := [demo_deposit\<lparr>d_WithdrawalStatus := STATUS_FAILED,
     d_RecoveryAttempts := 2\<rparr>]\<rparr>"

theorem recovery_only_after_failure_witness:
  "\<exists>jobs w' r'. BroadcastDeposit demo_late demo_api_broadcaster (txToDeposit demo_tx) demo_failed
      = (Returned (None, jobs), w')
    \<and> find_row d_Id (d_Id demo_deposit) (w_deposits w') = Some r' \<and> d_RecoveryAttempts r' = 0"
proof -
  let ?d = "txToDeposit demo_tx"
  have "\<exists>jobs w'. BroadcastDeposit demo_late demo_api_broadcaster ?d demo_failed = (Returned (None, jobs), w')"
    by (simp add: BroadcastDeposit_def BroadcastDeposit_accept_def checkExistence_def demo_defs demo_api_broadcaster_def
        demo_failed_def demo_late_def demo_deposit_def txToDeposit_def zero_Deposit_def
        cache_Load_def cache_Store_def repo_Client_def ext_call_def depositsQ_Get_def db_Query_def
        zero_time_Unix depositsQ_Insert_def db_Insert_def pick_random_def time_Before_def
        depositsQ_UpdateRecoveryData_def db_Exec_def upd_deposits_def duplicate_key_text_def
        strings_HasPrefix_def)
  then obtain jobs w' where run: "BroadcastDeposit demo_late demo_api_broadcaster ?d demo_failed
      = (Returned (None, jobs), w')" by blast
  have "sql_honest demo_late" by (simp add: sql_honest_def demo_late_def demo_env_def)
  moreover have "find_row d_Id (d_Id ?d) (w_deposits demo_failed)
      = Some (demo_deposit\<lparr>d_WithdrawalStatus := STATUS_FAILED, d_RecoveryAttempts := 2\<rparr>)"
    by (simp add: demo_failed_def demo_deposit_def)
  ultimately obtain r' where "find_row d_Id (d_Id ?d) (w_deposits w') = Some r'"
    "d_RecoveryAttempts r' = d_RecoveryAttempts ?d"
    using recovery_only_after_failure [OF _ run] by blast
  moreover have "d_Id ?d = d_Id demo_deposit" "d_RecoveryAttempts ?d = 0"
    by (simp_all add: demo_deposit_def txToDeposit_def zero_Deposit_def)
  ultimately show ?thesis using run by auto
qed

end
