(* ===== verification/Crash_Props.thy ===== *)
theory Crash_Props
  imports System_Props Catch_Up_Props
begin

text \<open>
  What a crash leaves behind: every deposit in the memory of the process has a row that the
  catch-upper of the next process restarts.
\<close>

lemma find_row_of_status:
  assumes "deposit_status i w = Some st"
  shows "i \<in> d_Id ` set (of_status st w)"
proof -
  from assms obtain r where r: "find_row d_Id i (w_deposits w) = Some r" "d_WithdrawalStatus r = st"
    by (auto simp: deposit_status_def split: option.splits)
  from find_row_SomeD [OF r(1)] r(2) show ?thesis by (auto simp: of_status_def)
qed

lemma known_status: "i \<in> known w \<Longrightarrow> statuses w i \<noteq> None"
  by (auto simp: known_def statuses_def deposit_status_def find_row_None_iff split: option.splits)

lemma waitingE:
  assumes "i \<in> set (waiting js)"
  obtains c k where "WithdrawJob c k \<in> set js" "i = d_Id (container_deposit k)"
  using assms
proof (induction js)
  case (Cons j js)
  then show ?case by (cases j) auto
qed simp

text \<open>The status of the row of each deposit in memory.\<close>

lemma memory_statuses:
  assumes "service_ok sv" and "plain_hashes sv" and "sql_honest (sv_env sv)" and "reachable sv s"
  shows "\<forall>i \<in> set (waiting (n_jobs s)). deposit_status i (n_world s) = Some STATUS_PENDING"
    and "\<forall>d \<in> set (n_submit s @ n_pool s).
      deposit_status (d_Id d) (n_world s) \<in> {Some STATUS_PENDING, Some STATUS_SUBMITTING_TO_CORE}
      \<or> d_WithdrawalStatus d \<noteq> STATUS_SUBMITTING_TO_CORE
        \<and> deposit_status (d_Id d) (n_world s) = Some STATUS_ALREADY_WITHDRAWN"
proof -
  have known: "memory_known s" by (rule reachable_memory_known [OF assms(1,3,4)])
  have tracked: "tracked s" by (rule reachable_tracked [OF assms(1,2,4)])
  show "\<forall>i \<in> set (waiting (n_jobs s)). deposit_status i (n_world s) = Some STATUS_PENDING"
  proof
    fix i assume i: "i \<in> set (waiting (n_jobs s))"
    then obtain c k where "WithdrawJob c k \<in> set (n_jobs s)" "i = d_Id (container_deposit k)"
      by (rule waitingE)
    with known have "i \<in> known (n_world s)" by (auto simp: memory_known_def)
    from known_status [OF this] i tracked show "deposit_status i (n_world s) = Some STATUS_PENDING"
      by (auto simp: tracked_def statuses_at)
  qed
  show "\<forall>d \<in> set (n_submit s @ n_pool s).
      deposit_status (d_Id d) (n_world s) \<in> {Some STATUS_PENDING, Some STATUS_SUBMITTING_TO_CORE}
      \<or> d_WithdrawalStatus d \<noteq> STATUS_SUBMITTING_TO_CORE
        \<and> deposit_status (d_Id d) (n_world s) = Some STATUS_ALREADY_WITHDRAWN"
  proof
    fix d assume d: "d \<in> set (n_submit s @ n_pool s)"
    with known have "d_Id d \<in> known (n_world s)" by (auto simp: memory_known_def)
    from known_status [OF this] have "deposit_status (d_Id d) (n_world s) \<noteq> None" by (simp add: statuses_at)
    moreover have "reportable (statuses (n_world s)) d" using tracked d by (simp add: tracked_def)
    ultimately show "deposit_status (d_Id d) (n_world s) \<in> {Some STATUS_PENDING, Some STATUS_SUBMITTING_TO_CORE}
      \<or> d_WithdrawalStatus d \<noteq> STATUS_SUBMITTING_TO_CORE
        \<and> deposit_status (d_Id d) (n_world s) = Some STATUS_ALREADY_WITHDRAWN"
      by (auto simp: reportable_def statuses_at)
  qed
qed

text \<open>C4: A crash loses no deposit. Whatever state the service has reached, when the process dies
  there and the next one starts with a working database, with clients for the chains of the stored
  deposits, each with a child client, the catch-upper reports no error and restarts every deposit
  whose container waited for a worker, and every deposit on its way to the submitter or in its pool,
  except one that a container found already withdrawn and whose row says so. The handlers are taken
  one at a time, the hashes that come from the core and those of the stored rows contain no slash,
  nor do the names of the stored chains, and the database driver itself never reports a duplicate
  key.\<close>

theorem crash_loses_no_deposit:
  assumes "service_ok sv" and "plain_hashes sv" and "sql_honest (sv_env sv)" and "reachable sv s"
    and "sql_ok E" and "Intn_contract E" and "clients_ready b" and "slash_free (n_world s)"
    and "\<forall>r \<in> set (w_deposits (n_world s)). repo_SupportsChain (b_clientsRepo b) (d_WithdrawalChainId r)"
  shows "\<exists>jobs w'. CatchUpper_Start E b (n_world (after_crash sv s (n_world s))) = (Returned (None, jobs), w')
    \<and> (\<forall>i \<in> set (waiting (n_jobs s)). i \<in> d_Id ` set (restarted jobs))
    \<and> (\<forall>d \<in> set (n_submit s @ n_pool s). d_Id d \<in> d_Id ` set (restarted jobs)
        \<or> d_WithdrawalStatus d \<noteq> STATUS_SUBMITTING_TO_CORE
          \<and> deposit_status (d_Id d) (n_world s) = Some STATUS_ALREADY_WITHDRAWN)"
proof -
  let ?w = "n_world (after_crash sv s (n_world s))"
  have rows: "w_deposits ?w = w_deposits (n_world s)" "w_cache ?w = {}" by (simp_all add: after_crash_def)
  have same: "of_status st ?w = of_status st (n_world s)" for st by (simp add: of_status_def rows)
  have "pk_ok ?w" using reachable_world_ok [OF assms(1,4)] by (simp add: after_crash_def)
  moreover have "slash_free ?w" using assms(8) by (simp add: slash_free_def rows)
  moreover have "\<forall>r \<in> set (w_deposits ?w). repo_SupportsChain (b_clientsRepo b) (d_WithdrawalChainId r)"
    using assms(9) by (simp add: rows)
  ultimately obtain jobs w' where up: "CatchUpper_Start E b ?w = (Returned (None, jobs), w')"
    and jobs: "restarted jobs = of_status STATUS_PENDING ?w @ of_status STATUS_PROCESSING ?w
        @ of_status STATUS_SUBMITTING_TO_CORE ?w"
    using catch_up_all [OF assms(5-7) _ _ rows(2)] by blast
  have again: "i \<in> d_Id ` set (restarted jobs)"
    if "deposit_status i (n_world s) = Some STATUS_PENDING \<or> deposit_status i (n_world s) = Some STATUS_SUBMITTING_TO_CORE" for i
    using that find_row_of_status [of i "n_world s"] unfolding jobs same by auto
  show ?thesis
    using up memory_statuses [OF assms(1-4)] again by (intro exI conjI ballI) auto
qed

theorem crash_loses_no_deposit_witness:
  "\<exists>jobs w'. CatchUpper_Start demo_env demo_broadcaster (demo_stored\<lparr>w_cache := {}\<rparr>)
      = (Returned (None, jobs), w') \<and> d_Id demo_deposit \<in> d_Id ` set (restarted jobs)"
proof -
  have row: "w_deposits (n_world demo_queued) = [deposit_row demo_deposit]"
    by (simp add: demo_queued_def demo_stored_def)
  have "sql_honest (sv_env demo_service)" by (simp add: demo_service_def demo_sql_ok)
  moreover have "Intn_contract demo_env" by (simp add: Intn_contract_def demo_env_def)
  moreover have "clients_ready demo_broadcaster"
    by (simp add: clients_ready_def demo_broadcaster_def demo_repo_def demo_client_def)
  moreover have "slash_free (n_world demo_queued)"
    unfolding slash_free_def row by (simp add: deposit_row_def demo_deposit_def txToDeposit_def demo_tx_def)
  moreover have "\<forall>r \<in> set (w_deposits (n_world demo_queued)).
      repo_SupportsChain (b_clientsRepo demo_broadcaster) (d_WithdrawalChainId r)"
    unfolding row
    by (simp add: deposit_row_def repo_SupportsChain_def demo_broadcaster_def demo_repo_def
        demo_deposit_def txToDeposit_def demo_tx_def)
  ultimately obtain jobs w' where "CatchUpper_Start demo_env demo_broadcaster
        (n_world (after_crash demo_service demo_queued (n_world demo_queued))) = (Returned (None, jobs), w')"
      "\<forall>i \<in> set (waiting (n_jobs demo_queued)). i \<in> d_Id ` set (restarted jobs)"
    using crash_loses_no_deposit [OF demo_service_ok demo_plain_hashes _ demo_reachable_queued demo_sql_ok(1)] by blast
  then show ?thesis
    by (intro exI [of _ jobs] exI [of _ w']) (simp add: after_crash_def demo_queued_def waiting_def demo_job_def)
qed

end
