(* ===== verification/Race_Props.thy ===== *)
theory Race_Props
  imports System_Props Catch_Up_Props
begin

text \<open>
  What the one-handler-at-a-time steps of the service leave out: the API and the observer accept
  deposits in goroutines of their own, and the check of a deposit and its insertion are separate
  statements with no lock around them.
\<close>

lemma Insert_conflict:
  assumes "sql_ok E" and "find_row d_Id (d_Id d) (w_deposits w) = Some r"
  shows "\<exists>x. depositsQ_Insert E d w = (None, upd_deposits (d_Id d)
    (\<lambda>r. r\<lparr>d_RecoveryAttempts := d_RecoveryAttempts d, d_RecoveryTimestamp := d_RecoveryTimestamp d,
           d_WithdrawalStatus := STATUS_PENDING\<rparr>) (w\<lparr>w_ext := x\<rparr>))"
proof -
  have "db_Insert E ''deposits_pkey'' (\<lambda>w. find_row d_Id (d_Id d) (w_deposits w) \<noteq> None)
      (\<lambda>w. w\<lparr>w_deposits := w_deposits w @ [deposit_row d]\<rparr>) w
    = (Some (Msg (''pq: '' @ duplicate_key_text @ '' '' @ ''deposits_pkey'')), tick E w)"
    using assms by (simp add: db_Insert_def ext_call_def tick_def sql_ok_def prod.case_eq_if)
  moreover have "strings_Contains (error_text (Msg (''pq: '' @ duplicate_key_text @ '' '' @ ''deposits_pkey'')))
      duplicate_key_text"
    by (simp add: duplicate_key_text_def strings_HasPrefix_def)
  ultimately show ?thesis
    by (simp add: depositsQ_Insert_def depositsQ_UpdateRecoveryData_def sql_ok_db_Exec [OF assms(1)])
       (auto simp: tick_def intro: exI)
qed

lemma accept_known:
  assumes "sql_ok E" and "Intn_contract E" and "find_row d_Id (d_Id d) (w_deposits w) = Some r"
    and "repo_Client (b_clientsRepo b) (d_WithdrawalChainId d) = Inr cl" and "cl_ChildClients cl \<noteq> []"
  shows "\<exists>client d' w'. client \<in> set (cl_ChildClients cl) \<and> d_Id d' = d_Id d
    \<and> BroadcastDeposit_accept E b d w
        = (Returned (None, [WithdrawJob (d_WithdrawalChainId d) (DepositBroadcast client d')]), w')
    \<and> deposit_status (d_Id d) w' = Some STATUS_PENDING"
proof -
  obtain d2 w2 where d2: "(if time_Unix (d_RecoveryTimestamp (d\<lparr>d_WithdrawalStatus := STATUS_PENDING\<rparr>)) < 0
        then (case ext_call (x_now E) w of (now, w2) \<Rightarrow>
                (d\<lparr>d_WithdrawalStatus := STATUS_PENDING, d_RecoveryTimestamp := now\<rparr>, w2))
        else (d\<lparr>d_WithdrawalStatus := STATUS_PENDING\<rparr>, w)) = (d2, w2)"
    by (metis prod.exhaust)
  then have same: "d_Id d2 = d_Id d" "d_WithdrawalChainId d2 = d_WithdrawalChainId d" "w_deposits w2 = w_deposits w"
    by (auto simp: ext_call_def split: prod.splits if_splits)
  from assms(3) same have row: "find_row d_Id (d_Id d2) (w_deposits w2) = Some r" by simp
  from Insert_conflict [OF assms(1) row] obtain x w3 where
    ins: "depositsQ_Insert E d2 w2 = (None, w3)" and w3: "w3 = upd_deposits (d_Id d2)
      (\<lambda>r. r\<lparr>d_RecoveryAttempts := d_RecoveryAttempts d2, d_RecoveryTimestamp := d_RecoveryTimestamp d2,
             d_WithdrawalStatus := STATUS_PENDING\<rparr>) (w2\<lparr>w_ext := x\<rparr>)" by blast
  from row same have st: "deposit_status (d_Id d) w3 = Some STATUS_PENDING"
    unfolding w3 by (simp add: deposit_status_def dep.find_upd)
  from pick_random_ready [OF assms(2,5)] obtain c y where
    pick: "pick_random E (cl_ChildClients cl) w3 = (Returned c, w3\<lparr>w_ext := y\<rparr>)" by blast
  have "c \<in> set (cl_ChildClients cl)" by (rule pick_random_mem [OF pick])
  moreover have "deposit_status (d_Id d) (w3\<lparr>w_ext := y\<rparr>) = Some STATUS_PENDING"
    "deposit_status (d_Id d) (cache_Store k (w3\<lparr>w_ext := y\<rparr>)) = Some STATUS_PENDING" for k
    using st by (simp_all add: deposit_status_def cache_Store_def)
  moreover have "BroadcastDeposit_accept E b d w
      = (Returned (None, [WithdrawJob (d_WithdrawalChainId d) (DepositBroadcast c d2)]),
         (if \<not> cache_Load (TxHash (d_Id d2)) (w3\<lparr>w_ext := y\<rparr>)
          then cache_Store (Deposit_String d2) (w3\<lparr>w_ext := y\<rparr>) else w3\<lparr>w_ext := y\<rparr>))"
    using d2 by (simp add: BroadcastDeposit_accept_def Let_def ins same assms(4) pick)
  ultimately show ?thesis using same(1) by (intro exI [of _ c] exI [of _ d2]) simp
qed

text \<open>C3: The check of a deposit does not protect its insertion. Suppose a request or an event has
  passed the check for a deposit, so that alone it would go on to accept it, and before it goes on
  another goroutine has stored the deposit, whatever has become of it since: pending, paid and
  reported, or already withdrawn. With a working database and a
  child client to pick, the insert turns into an update, the row
  is pending again, and a second container for the deposit is handed to the workers, without an
  error.\<close>

theorem racing_accept_reopens_deposit:
  assumes "checkExistence E b d v = (None, v')"
    and "sql_ok E" and "Intn_contract E" and "clients_ready b"
    and "find_row d_Id (d_Id d) (w_deposits w) = Some r"
  shows "BroadcastDeposit E b d v = BroadcastDeposit_accept E b d v'
    \<and> (\<exists>client d' w'. d_Id d' = d_Id d \<and> BroadcastDeposit_accept E b d w
          = (Returned (None, [WithdrawJob (d_WithdrawalChainId d) (DepositBroadcast client d')]), w')
        \<and> deposit_status (d_Id d) w' = Some STATUS_PENDING)"
proof -
  from assms(1) obtain cl where cl: "repo_Client (b_clientsRepo b) (d_WithdrawalChainId d) = Inr cl"
    by (auto simp: checkExistence_def split: if_splits sum.splits)
  then have "repo_clients (b_clientsRepo b) (d_WithdrawalChainId d) = Some cl"
    by (simp add: repo_Client_def split: option.splits)
  with assms(4) have "cl_ChildClients cl \<noteq> []" by (auto simp: clients_ready_def)
  from accept_known [OF assms(2,3,5) cl this] assms(1) show ?thesis
    by (auto simp: BroadcastDeposit_def)
qed

text \<open>
  A request that was checked on the empty database goes on after the same deposit was accepted from
  elsewhere, paid and reported: its row, processed, is pending again.
\<close>

theorem racing_accept_reopens_deposit_witness:
  "\<exists>s :: unit node. reachable demo_service s \<and> deposit_status demo_id (n_world s) = Some STATUS_PROCESSED
     \<and> fst (checkExistence demo_env demo_api_broadcaster (txToDeposit demo_tx) demo_world) = None
     \<and> (\<exists>job w'. BroadcastDeposit_accept demo_env demo_api_broadcaster (txToDeposit demo_tx) (n_world s)
            = (Returned (None, [job]), w')
          \<and> deposit_status demo_id w' = Some STATUS_PENDING)"
proof -
  let ?d = "txToDeposit demo_tx"
  obtain s where s: "reachable demo_service s" "deposit_status demo_id (n_world s) = Some STATUS_PROCESSED"
    by (rule demo_reported)
  have id: "d_Id ?d = demo_id" by (simp add: txToDeposit_def demo_tx_def demo_id_def)
  have check: "checkExistence demo_env demo_api_broadcaster ?d demo_world = (None, demo_world)"
    by (simp add: checkExistence_def demo_defs demo_api_broadcaster_def txToDeposit_def zero_Deposit_def
        cache_Load_def repo_Client_def ext_call_def depositsQ_Get_def db_Query_def nilOrNotEmpty_def)
  from s(2) obtain r where row: "find_row d_Id (d_Id ?d) (w_deposits (n_world s)) = Some r"
    by (auto simp: id deposit_status_def)
  have "Intn_contract demo_env" by (simp add: Intn_contract_def demo_env_def)
  moreover have "clients_ready demo_api_broadcaster"
    by (simp add: clients_ready_def demo_api_broadcaster_def demo_broadcaster_def demo_repo_def demo_client_def)
  ultimately obtain client d' w' where "BroadcastDeposit_accept demo_env demo_api_broadcaster ?d (n_world s)
      = (Returned (None, [WithdrawJob (d_WithdrawalChainId ?d) (DepositBroadcast client d')]), w')"
      "deposit_status (d_Id ?d) w' = Some STATUS_PENDING"
    using racing_accept_reopens_deposit [OF check demo_sql_ok(1) _ _ row] by blast
  with s check show ?thesis by (auto simp: id)
qed

end
