(* ===== verification/Core_Props.thy ===== *)
theory Core_Props
  imports Demo
begin

text \<open>
  The properties of the containers, of the network worker and of the broadcaster's acceptance
  of deposits.
\<close>

subsection \<open>Helper lemmas\<close>

lemma container_Run_did:
  assumes "container_Run E C k w = ((r, e), w')"
  obtains L where "withdraw_log_ok (d_Id (container_deposit k)) L" and "did (d_Id (container_deposit k)) L w w'"
  using container_Run_ok [OF assms] by (auto simp: run_ok_def)

lemma find_set_details:
  "find_row d_Id j (w_deposits (set_details d w)) =
     (if j = d_Id d then map_option (\<lambda>r. r\<lparr>d_WithdrawalTxHash := d_WithdrawalTxHash d,
         d_WithdrawalChainBlock := d_WithdrawalChainBlock d,
         d_WithdrawalCoreBlock := d_WithdrawalCoreBlock d,
         d_WithdrawalStatus := d_WithdrawalStatus d,
         d_Operator := d_Operator d\<rparr>) (find_row d_Id (d_Id d) (w_deposits w))
      else find_row d_Id j (w_deposits w))"
  by (simp add: set_details_def dep.find_upd)

lemma find_set_status:
  "find_row d_Id j (w_deposits (set_status i s w)) =
     (if j = i then map_option (\<lambda>r. r\<lparr>d_WithdrawalStatus := s\<rparr>) (find_row d_Id i (w_deposits w))
      else find_row d_Id j (w_deposits w))"
  by (simp add: set_status_def dep.find_upd)

lemma call_IsProcessed_rows: "call_IsProcessed c d w = (q, w') \<Longrightarrow> w_deposits w' = w_deposits w"
  by (cases q) (auto dest!: call_IsProcessed_frame(1) simp: same_tables_def)

lemma executeWithdrawal_rows: "executeWithdrawal E c d w = (q, w') \<Longrightarrow> w_deposits w' = w_deposits w"
  by (auto simp: executeWithdrawal_def Let_def split: prod.splits sum.splits option.splits
      dest!: call_Withdraw_frame(1) ext_call_frame(2) simp: same_tables_def)

subsection \<open>Containers\<close>

text \<open>C15: A run of a container, of a broadcast or of a catch-up, keeps to its own deposit: every
  other row, the epochs, the latest block and the cache stay as they are, no recovery attempt
  changes, and at most one withdrawal is sent, for this deposit.\<close>

theorem container_keeps_to_its_deposit:
  assumes "container_Run E C k w = ((r, e), w')"
  shows "(\<forall>j. j \<noteq> d_Id (container_deposit k) \<longrightarrow>
        find_row d_Id j (w_deposits w') = find_row d_Id j (w_deposits w))
    \<and> map d_RecoveryAttempts (w_deposits w') = map d_RecoveryAttempts (w_deposits w)
    \<and> w_signatures w' = w_signatures w \<and> w_latest w' = w_latest w \<and> w_cache w' = w_cache w
    \<and> (\<forall>i. length (filter (\<lambda>ev. ev = EvWithdraw i) (w_log w'))
          \<le> length (filter (\<lambda>ev. ev = EvWithdraw i) (w_log w))
            + (if i = d_Id (container_deposit k) then 1 else 0))"
proof -
  from assms obtain L where L: "withdraw_log_ok (d_Id (container_deposit k)) L"
    and d: "did (d_Id (container_deposit k)) L w w'" by (rule container_Run_did)
  have "map snd (map (\<lambda>r. (d_Id r, d_RecoveryAttempts r)) (w_deposits w'))
      = map snd (map (\<lambda>r. (d_Id r, d_RecoveryAttempts r)) (w_deposits w))"
    using d unfolding did_def own_row_def by metis
  then have "map d_RecoveryAttempts (w_deposits w') = map d_RecoveryAttempts (w_deposits w)"
    by (simp add: comp_def)
  with L d show ?thesis by (auto simp: did_def own_row_def withdraw_log_ok_def)
qed

theorem container_keeps_to_its_deposit_witness:
  "length (filter (\<lambda>ev. ev = EvWithdraw demo_id) (w_log demo_paid)) \<le> 1"
  using container_keeps_to_its_deposit [where k = "DepositBroadcast demo_child demo_deposit"
      and C = demo_connector and E = demo_env and w = demo_stored and w' = demo_paid]
  by (simp add: demo_run demo_stored_def demo_world_def demo_paid_def)

text \<open>What a successful withdrawal writes into the deposit is what was answered.\<close>

lemma executeWithdrawal_answers:
  assumes "executeWithdrawal E c d w = ((d2, None), w')"
  shows "\<exists>op h blk x. cc_Withdraw c d (w_ext w) = ((op, h, blk, None), x)
    \<and> d2 = d\<lparr>d_WithdrawalTxHash := Some h, d_WithdrawalChainBlock := blk, d_Operator := op,
        d_WithdrawalCoreBlock := (case fst (x_ABCIInfo E x) of
            Inl abciErr \<Rightarrow> d_WithdrawalCoreBlock d | Inr height \<Rightarrow> height)\<rparr>"
proof -
  obtain op h blk err x where q: "cc_Withdraw c d (w_ext w) = ((op, h, blk, err), x)"
    by (metis prod.exhaust)
  obtain a y where abci: "x_ABCIInfo E x = (a, y)" by fastforce
  show ?thesis
    using assms q abci
    by (cases a; cases err)
       (auto simp: executeWithdrawal_def call_Withdraw_def ext_call_def Let_def errors_Wrap_def)
qed

text \<open>C14: With a working database, a broadcast of a stored deposit that ends without an error and
  with the deposit on its way to the core has withdrawn it once, directly after the chain answered
  that it is not processed, and has recorded in its row, besides the status submitting, exactly what
  was answered: the hash, the operator and the chain block of the child client's answer, and the
  height that ABCIInfo answered after it as the core block. When ABCIInfo failed, the core block is
  the one the deposit came with, and the broadcast succeeds all the same. Nothing else in the row
  changes.\<close>

theorem broadcast_records_withdrawal:
  assumes "sql_ok E" and "find_row d_Id (d_Id d) (w_deposits w) = Some r"
    and "depositBroadcastContainer_Run E c d w = ((Some d', None), w')"
    and "d_WithdrawalStatus d' = STATUS_SUBMITTING_TO_CORE"
  shows "\<exists>op h blk x. cc_Withdraw c (d\<lparr>d_WithdrawalStatus := STATUS_PROCESSING\<rparr>)
        (snd (x_sql E (snd (cc_IsProcessed c d (w_ext w))))) = ((op, h, blk, None), x)
    \<and> find_row d_Id (d_Id d) (w_deposits w') = Some (r\<lparr>
        d_WithdrawalStatus := STATUS_SUBMITTING_TO_CORE,
        d_WithdrawalTxHash := Some h, d_WithdrawalChainBlock := blk,
        d_WithdrawalCoreBlock := (case fst (x_ABCIInfo E x) of
            Inl abciErr \<Rightarrow> d_WithdrawalCoreBlock d | Inr height \<Rightarrow> height),
        d_Operator := op\<rparr>)
    \<and> fst (cc_IsProcessed c d (w_ext w)) = (False, None)
    \<and> w_log w' = EvWithdraw (d_Id d) # EvIsProcessed (d_Id d) False # w_log w"
proof -
  let ?d1 = "d\<lparr>d_WithdrawalStatus := STATUS_PROCESSING\<rparr>"
  note run = assms(3) [unfolded depositBroadcastContainer_Run_def Let_def sql_ok_statements [OF assms(1)]]
  obtain b err w1 where ip: "call_IsProcessed c d w = ((b, err), w1)" by (metis prod.exhaust)
  note frame = call_IsProcessed_frame [OF ip] call_IsProcessed_rows [OF ip]
  let ?v = "set_status (d_Id d) STATUS_PROCESSING (tick E w1)"
  obtain d2 err2 w3 where ex: "executeWithdrawal E c ?d1 ?v = ((d2, err2), w3)"
    by (metis prod.exhaust)
  have err: "err = None" using run ip by (cases err) auto
  have b: "\<not> b" using run ip err assms(4) by (cases b) auto
  have err2: "err2 = None" using run ip err b ex by (cases err2) simp_all
  note e = err b err2
  have w': "w' = set_status (d_Id d2) STATUS_SUBMITTING_TO_CORE (tick E (set_details d2 (tick E w3)))"
    using run ip ex e by simp
  have asked: "fst (cc_IsProcessed c d (w_ext w)) = (False, None)"
    "w_ext w1 = snd (cc_IsProcessed c d (w_ext w))"
    using ip e by (auto simp: call_IsProcessed_def split: prod.splits)
  have ext: "w_ext ?v = snd (x_sql E (snd (cc_IsProcessed c d (w_ext w))))"
    by (simp add: set_status_def upd_deposits_def tick_def asked(2))
  from executeWithdrawal_answers [OF ex [unfolded err2]] obtain op h blk x where
    ans: "cc_Withdraw c ?d1 (snd (x_sql E (snd (cc_IsProcessed c d (w_ext w))))) = ((op, h, blk, None), x)"
    and d2: "d2 = ?d1\<lparr>d_WithdrawalTxHash := Some h, d_WithdrawalChainBlock := blk, d_Operator := op,
        d_WithdrawalCoreBlock := (case fst (x_ABCIInfo E x) of
            Inl abciErr \<Rightarrow> d_WithdrawalCoreBlock ?d1 | Inr height \<Rightarrow> height)\<rparr>"
    unfolding ext by blast
  have log: "w_log w3 = EvWithdraw (d_Id d) # EvIsProcessed (d_Id d) False # w_log w"
    using did_executeWithdrawal [OF ex] frame e by (simp add: did_def set_status_def)
  have "find_row d_Id (d_Id d) (w_deposits w3)
      = Some (r\<lparr>d_WithdrawalStatus := STATUS_PROCESSING\<rparr>)"
    using frame executeWithdrawal_rows [OF ex] assms(2) by (simp add: find_set_status)
  then have "find_row d_Id (d_Id d) (w_deposits w') = Some (r\<lparr>
        d_WithdrawalStatus := STATUS_SUBMITTING_TO_CORE,
        d_WithdrawalTxHash := Some h, d_WithdrawalChainBlock := blk,
        d_WithdrawalCoreBlock := (case fst (x_ABCIInfo E x) of
            Inl abciErr \<Rightarrow> d_WithdrawalCoreBlock d | Inr height \<Rightarrow> height),
        d_Operator := op\<rparr>)"
    by (cases "fst (x_ABCIInfo E x)") (simp_all add: w' d2 find_set_status find_set_details)
  moreover have "w_log w' = w_log w3"
    by (simp add: w' set_status_def set_details_def)
  ultimately show ?thesis using ans asked(1) log by auto
qed

theorem broadcast_records_withdrawal_witness:
  "find_row d_Id demo_id (w_deposits demo_paid) = Some demo_withdrawn"
proof -
  have "find_row d_Id (d_Id demo_deposit) (w_deposits demo_stored) = Some (deposit_row demo_deposit)"
    by (simp add: demo_stored_def deposit_row_def)
  from broadcast_records_withdrawal [OF demo_sql_ok(1) this demo_run]
  show ?thesis
    by (simp add: demo_withdrawn_def deposit_row_def demo_deposit_def txToDeposit_def zero_Deposit_def
        demo_defs)
qed

text \<open>C13: With a working database the status a broadcast leaves in the row is the status of the
  deposit it returns: submitting or already withdrawn without an error, failed with one. No exit
  leaves a deposit in processing.\<close>

theorem broadcast_final_status:
  assumes "sql_ok E" and "deposit_status (d_Id d) w \<noteq> None"
    and "depositBroadcastContainer_Run E c d w = ((r, e), w')"
  shows "\<exists>d'. r = Some d' \<and> deposit_status (d_Id d) w' = Some (d_WithdrawalStatus d')
    \<and> d_WithdrawalStatus d' \<in> (if e = None then {STATUS_SUBMITTING_TO_CORE, STATUS_ALREADY_WITHDRAWN}
                                else {STATUS_FAILED})"
  by (rule broadcast_run_status [OF assms])

theorem broadcast_final_status_witness:
  "deposit_status demo_id demo_paid = Some STATUS_SUBMITTING_TO_CORE"
proof -
  have "deposit_status (d_Id demo_deposit) demo_stored \<noteq> None"
    by (simp add: deposit_status_def demo_stored_def deposit_row_def)
  from broadcast_final_status [OF demo_sql_ok(1) this demo_run]
  show ?thesis by (simp add: demo_withdrawn_def demo_deposit_def txToDeposit_def zero_Deposit_def demo_defs)
qed

text \<open>When the tendermint node does not answer after a successful withdrawal, the withdrawal
  counts as successful although its core block is unknown: the code wraps the error of the
  withdrawal, nil, in place of the error of the node.\<close>

theorem abci_error_is_swallowed:
  assumes "call_Withdraw c d w = ((op, h, b, None), w1)"
    and "ext_call (x_ABCIInfo E) w1 = (Inl abciErr, w2)"
  shows "executeWithdrawal E c d w = ((d\<lparr>d_WithdrawalTxHash := Some h, d_WithdrawalChainBlock := b,
    d_Operator := op\<rparr>, None), w2)"
  using assms by (simp add: executeWithdrawal_def)

theorem abci_error_is_swallowed_witness:
  "snd (fst (executeWithdrawal (demo_env\<lparr>x_ABCIInfo := \<lambda>x. (Inl (Msg ''down''), x)\<rparr>) demo_child
     demo_deposit demo_stored)) = None"
  by (subst abci_error_is_swallowed)
     (simp_all add: call_Withdraw_def ext_call_def demo_child_def)

subsection \<open>The network worker\<close>

text \<open>C32: With a working database, the catch-up of a deposit that was read with the status submitting,
  and for which the core answers with a withdrawal hash, marks the row processed and then takes the
  process down: the container returns a nil deposit with the error, and the worker dereferences it
  to delete it from the cache. (A deposit read as pending or processing goes through the withdrawal
  again instead and does not come here.)\<close>

theorem submitted_catch_up_panics:
  assumes "sql_ok E" and "d_WithdrawalStatus d = STATUS_SUBMITTING_TO_CORE"
    and "GetDeposit C (d_Id d) w = (Inr g, w1)" and "d_WithdrawalTxHash g \<noteq> None"
  shows "withdrawal_worker_step E C (DepositCatchUp c d) w
    = (Panic ''nil pointer dereference'', set_status (d_Id d) STATUS_PROCESSED (tick E w1))"
  using assms(2-4)
  by (simp add: withdrawal_worker_step_def depositCatchupContainer_Run_def isSubmitted_def
      sql_ok_statements [OF assms(1)])

definition demo_reported_core :: "unit core_client" where
  "demo_reported_core = demo_core\<lparr>cq_TransactionById :=
     \<lambda>c h n x. (Inr (demo_tx\<lparr>tx_WithdrawalTxHash := ''0xw''\<rparr>), x)\<rparr>"

definition demo_reported :: "unit Connector" where
  "demo_reported = demo_connector\<lparr>c_client := demo_reported_core\<rparr>"

lemma demo_reported_get:
  "GetDeposit demo_reported i w = (Inr (txToDeposit (demo_tx\<lparr>tx_WithdrawalTxHash := ''0xw''\<rparr>)), w)"
  by (simp add: GetDeposit_def ext_call_def demo_reported_def demo_reported_core_def demo_core_def)

theorem submitted_catch_up_panics_witness:
  "\<not> returned (fst (withdrawal_worker_step demo_env demo_reported
      (DepositCatchUp demo_child demo_withdrawn) demo_paid))"
proof -
  have "d_WithdrawalStatus demo_withdrawn = STATUS_SUBMITTING_TO_CORE"
    by (simp add: demo_withdrawn_def)
  moreover have "d_WithdrawalTxHash (txToDeposit (demo_tx\<lparr>tx_WithdrawalTxHash := ''0xw''\<rparr>)) \<noteq> None"
    by (simp add: txToDeposit_def nilOrNotEmpty_def)
  ultimately show ?thesis
    using submitted_catch_up_panics [OF demo_sql_ok(1) _ demo_reported_get] by simp
qed

end
