(* ===== verification/Api_Props.thy ===== *)
theory Api_Props
  imports Catch_Up_Props
begin

text \<open>
  What the API promises its clients: which requests are accepted and what an acceptance means,
  that an accepted withdrawal is visible at once, and which listings can be answered.
\<close>

subsection \<open>Submitting\<close>

definition valid_identifier :: "DepositIdentifier option \<Rightarrow> bool" where
  "valid_identifier identifier \<longleftrightarrow>
     (\<exists>i. identifier = Some i \<and> TxHash i \<noteq> [] \<and> ChainId i \<noteq> [] \<and> 0 \<le> sint (TxNonce i))"

lemma ValidateIdentifier_valid:
  "ozzo_contract V \<Longrightarrow> ValidateIdentifier V identifier = None \<longleftrightarrow> valid_identifier identifier"
  by (simp add: ValidateIdentifier_None valid_identifier_def)

lemma BroadcastDeposit_rejects:
  assumes "BroadcastDeposit E b d w = (Returned (Some err, jobs), w')"
  shows "jobs = []"
proof -
  have "ensures (\<lambda>q w'. \<forall>err jobs. q = Returned (Some err, jobs) \<longrightarrow> jobs = []) (BroadcastDeposit E b d w)"
    unfolding BroadcastDeposit_def BroadcastDeposit_accept_def Let_def by (intro flow) auto
  with assms show ?thesis by (simp add: ensures_def)
qed

text \<open>What is known when the handler passes a deposit on to the broadcaster.\<close>

definition fit_to_submit :: "'x api_ctx \<Rightarrow> DepositIdentifier option \<Rightarrow> 'x world \<Rightarrow> Deposit \<Rightarrow> bool" where
  "fit_to_submit ctx identifier w d \<longleftrightarrow> (\<exists>i w1. identifier = Some i
     \<and> GetDeposit (a_connector ctx) i w = (Inr d, w1)
     \<and> repo_SupportsChain (a_clients ctx) (d_WithdrawalChainId d) \<and> d_WithdrawalTxHash d = None)"

lemma SubmitWithdrawal_ends:
  assumes "ozzo_contract (a_ozzo ctx)" and "sql_honest E"
    and "SubmitWithdrawal E ctx b identifier w = (Returned (res, jobs), b', w')"
    and "valid_identifier identifier"
  shows "(case res of
       Inl (c, msg) \<Rightarrow> jobs = [] \<and> (c = InvalidArgument \<or> c = NotFound \<or> c = Internal)
     | Inr r \<Rightarrow> r = None \<and> (\<exists>d. fit_to_submit ctx identifier w d \<and> queued_for b' d jobs \<and> stored_pending d w'))"
proof -
  from assms(4) obtain i where i: "identifier = Some i" by (auto simp: valid_identifier_def)
  have v: "ValidateIdentifier (a_ozzo ctx) (Some i) = None"
    using assms(4) by (simp add: ValidateIdentifier_valid [OF assms(1)] i)
  obtain g w1 where get: "GetDeposit (a_connector ctx) i w = (g, w1)" by (metis prod.exhaust)
  show ?thesis
  proof (cases g)
    case (Inl err)
    with assms(3) v get i show ?thesis by (auto simp: SubmitWithdrawal_def split: if_splits)
  next
    case (Inr d)
    obtain n t where p: "RecoveryParams (a_config ctx) = (n, t)" by (metis prod.exhaust)
    let ?b = "WithRecoveryTimeout (WithRecoveryAttempts b n) t"
    obtain q w2 where br: "BroadcastDeposit E ?b d w1 = (q, w2)" by (metis prod.exhaust)
    show ?thesis
    proof (cases "repo_SupportsChain (a_clients ctx) (d_WithdrawalChainId d) \<and> d_WithdrawalTxHash d = None")
      case False
      with assms(3) v get Inr i show ?thesis by (auto simp: SubmitWithdrawal_def split: if_splits)
    next
      case True
      then have fit: "fit_to_submit ctx identifier w d"
        using get Inr i by (auto simp: fit_to_submit_def)
      have res: "(case q of Panic m \<Rightarrow> (Panic m, ?b, w2)
          | Returned (Some err, jobs) \<Rightarrow>
              if errors_Is err ErrFailedToBroadcast
              then (Returned (Inl (Internal, ''failed to broadcast withdrawal''), jobs), ?b, w2)
              else (Returned (Inl (InvalidArgument, error_text err), jobs), ?b, w2)
          | Returned (None, jobs) \<Rightarrow> (Returned (Inr None, jobs), ?b, w2))
          = (Returned (res, jobs), b', w')"
        using assms(3) v get Inr True p br i
        by (auto simp: SubmitWithdrawal_def Let_def split: go_result.splits option.splits)
      show ?thesis
        using res BroadcastDeposit_accepts [OF assms(2), of ?b d w1 _ w2] br fit
          BroadcastDeposit_rejects [of E ?b d w1 _ _ w2]
        by (cases q) (auto split: option.splits if_splits intro!: exI [of _ d])
    qed
  qed
qed

text \<open>
  C28: What a request to submit a withdrawal answers. A request without a valid identifier is
  rejected before anything is read. An error, whatever it is, starts no withdrawal. A success
  has the empty answer, and means: the core knows the deposit, its withdrawal chain is supported
  and no withdrawal is recorded there, one container for exactly this deposit is on its way to
  the workers of that chain, and the deposit is stored as pending.
\<close>

theorem submit_withdrawal_answers:
  assumes "ozzo_contract (a_ozzo ctx)" and "sql_honest E"
    and "SubmitWithdrawal E ctx b identifier w = (Returned (res, jobs), b', w')"
  shows "(\<not> valid_identifier identifier \<longrightarrow>
         w' = w \<and> b' = b \<and> jobs = [] \<and> (\<exists>msg. res = Inl (InvalidArgument, msg)))
    \<and> (case res of
         Inl (c, msg) \<Rightarrow> jobs = [] \<and> (c = InvalidArgument \<or> c = NotFound \<or> c = Internal)
       | Inr r \<Rightarrow> r = None \<and> (\<exists>d. fit_to_submit ctx identifier w d \<and> queued_for b' d jobs
           \<and> deposit_status (d_Id d) w' = Some STATUS_PENDING))"
proof (cases "valid_identifier identifier")
  case True
  with SubmitWithdrawal_ends [OF assms True] show ?thesis
    by (auto simp: stored_pending_def deposit_status_def split: sum.splits)
next
  case False
  then obtain err where "ValidateIdentifier (a_ozzo ctx) identifier = Some err"
    using ValidateIdentifier_valid [OF assms(1)] by (metis option.exhaust)
  with assms(3) False show ?thesis by (auto simp: SubmitWithdrawal_def)
qed

theorem submit_withdrawal_answers_witness:
  "deposit_status demo_id demo_stored = Some STATUS_PENDING \<and> queued_for demo_api_broadcaster (txToDeposit demo_tx) [demo_job]"
proof -
  have "ozzo_contract (a_ozzo demo_api)" by (simp add: demo_api_def ozzo_ref_contract)
  from submit_withdrawal_answers [OF this demo_sql_ok(2) demo_submit]
  obtain d where "fit_to_submit demo_api (Some demo_id) demo_world d"
    "queued_for demo_api_broadcaster d [demo_job]" "deposit_status (d_Id d) demo_stored = Some STATUS_PENDING"
    by auto
  then show ?thesis
    using demo_get by (auto simp: fit_to_submit_def demo_api_def txToDeposit_def demo_tx_def demo_id_def)
qed

subsection \<open>Checking\<close>

text \<open>
  C30: A withdrawal that was just accepted is visible to \<open>CheckWithdrawal\<close>: with a working
  database it answers with the identifier and the status pending. It reports the configured
  number of attempts as left, and as the time of the next recovery the stored timestamp itself:
  the timeout the code adds to it is lost.
\<close>

theorem accepted_withdrawal_is_reported:
  assumes "ozzo_contract (a_ozzo ctx)" and "sql_ok E" and "sql_honest E"
    and "SubmitWithdrawal E ctx b (Some i) w = (Returned (Inr r, jobs), b', w')"
    and "\<And>d w1. GetDeposit (a_connector ctx) i w = (Inr d, w1) \<Longrightarrow> d_Id d = i"
  shows "\<exists>resp w2 row. CheckWithdrawal E ctx (Some i) w' = (Returned (Inr (Some resp)), w2)
    \<and> find_row d_Id i (w_deposits w') = Some row
    \<and> cw_DepositIdentifier resp = i \<and> cw_WithdrawalStatus resp = STATUS_PENDING
    \<and> cw_Recovery resp = \<lparr>rec_Attempts = ucast (rc_RecoveryAttempts (a_config ctx)),
        rec_Timestamp = word_of_int (time_Unix (d_RecoveryTimestamp row))\<rparr>"
proof -
  have valid: "valid_identifier (Some i)"
    using assms(4) ValidateIdentifier_valid [OF assms(1), of "Some i"]
    by (auto simp: SubmitWithdrawal_def split: option.splits)
  with SubmitWithdrawal_ends [OF assms(1,3,4)] obtain d where
    fit: "fit_to_submit ctx (Some i) w d" and st: "stored_pending d w'" by auto
  with assms(5) have id: "d_Id d = i" by (auto simp: fit_to_submit_def)
  from fit have "d_RecoveryAttempts d = 0"
    by (auto simp: fit_to_submit_def GetDeposit_def txToDeposit_def zero_Deposit_def split: prod.splits sum.splits)
  with st id obtain row where row: "find_row d_Id i (w_deposits w') = Some row"
    "d_WithdrawalStatus row = STATUS_PENDING" "d_RecoveryAttempts row = 0"
    by (auto simp: stored_pending_def)
  have "d_Id row = i" using find_row_SomeD [OF row(1)] by simp
  moreover have "depositsQ_Get E i w' = (Inr (Some row), tick E w')"
    using row(1) by (simp add: depositsQ_Get_def sql_ok_db_Query [OF assms(2)])
  moreover have "ValidateIdentifier (a_ozzo ctx) (Some i) = None"
    using valid by (simp add: ValidateIdentifier_valid [OF assms(1)])
  ultimately show ?thesis using row
    by (simp add: CheckWithdrawal_def RecoveryParams_def ToStatusResponse_def)
qed

theorem accepted_withdrawal_is_reported_witness:
  "\<exists>resp w2. CheckWithdrawal demo_env demo_api (Some demo_id) demo_stored = (Returned (Inr (Some resp)), w2)
     \<and> cw_DepositIdentifier resp = demo_id \<and> cw_WithdrawalStatus resp = STATUS_PENDING"
proof -
  have "ozzo_contract (a_ozzo demo_api)" by (simp add: demo_api_def ozzo_ref_contract)
  moreover have "d_Id d = demo_id" if "GetDeposit (a_connector demo_api) demo_id demo_world = (Inr d, w1)" for d w1
    using that demo_get by (simp add: demo_api_def txToDeposit_def demo_tx_def demo_id_def)
  ultimately show ?thesis
    using accepted_withdrawal_is_reported [OF _ demo_sql_ok demo_submit] by blast
qed

subsection \<open>Listing\<close>

text \<open>
  What the documentation of \<open>OffsetPageParams.ApplyTo\<close> says: the statement is ordered by the
  given column and its conditions stay.
\<close>

definition page_contract :: "page_lib \<Rightarrow> bool" where
  "page_contract ApplyTo \<longleftrightarrow> (\<forall>p sel col. col \<in> set (sel_order (ApplyTo p sel col))
     \<and> sel_where (ApplyTo p sel col) = sel_where sel)"

text \<open>
  \<open>GetWithdrawalsByStatus\<close> never answers with withdrawals. A missing status or a number
  without a name is an invalid argument and nothing is read; for every status the service
  knows, the page is ordered by the column \<open>id\<close>, which the table of deposits does not have, and
  the request ends as an internal error, whatever is stored.
\<close>

theorem listing_by_status_fails:
  assumes "page_contract (a_ApplyTo ctx)"
  shows "\<exists>c msg. fst (GetWithdrawalsByStatus E ctx q w) = Inl (c, msg)
    \<and> (if sint (gw_WithdrawalStatus q) = 0 \<or> WithdrawalStatus_name (sint (gw_WithdrawalStatus q)) = None
       then c = InvalidArgument \<and> snd (GetWithdrawalsByStatus E ctx q w) = w
       else c = Internal)"
proof (cases "sint (gw_WithdrawalStatus q) = 0 \<or> WithdrawalStatus_name (sint (gw_WithdrawalStatus q)) = None")
  case True
  then show ?thesis by (auto simp: GetWithdrawalsByStatus_def Let_def)
next
  case False
  then obtain n s where n: "WithdrawalStatus_name (sint (gw_WithdrawalStatus q)) = Some n"
    and s: "status_of_number (sint (gw_WithdrawalStatus q)) = Some s"
    using status_of_named by blast
  let ?page = "\<lparr>pp_PageNumber = gw_Page q, pp_Limit = (if gw_Limit q = 0 then 10 else gw_Limit q)\<rparr>"
  let ?sel = "depositsQ_Page (a_ApplyTo ctx) ?page NewDepositsQ"
  have "''id'' \<in> set (filter (\<lambda>c. c \<notin> set deposits_columns)
      (map fst (sel_where (depositsQ_FilterByStatus s ?sel)) @ sel_order (depositsQ_FilterByStatus s ?sel)))"
    using assms by (simp add: page_contract_def depositsQ_Page_def depositsQ_FilterByStatus_def deposits_columns_def)
  then obtain c cs where "filter (\<lambda>c. c \<notin> set deposits_columns)
      (map fst (sel_where (depositsQ_FilterByStatus s ?sel)) @ sel_order (depositsQ_FilterByStatus s ?sel)) = c # cs"
    by (metis list.exhaust empty_iff list.set(1))
  then have "\<exists>e. fst (depositsQ_Select_GetWithStatus E (a_pg_order ctx) ?sel s w) = Inl e"
    by (auto simp: depositsQ_Select_GetWithStatus_def db_Select_def split: prod.splits option.splits)
  with False n s show ?thesis
    by (auto simp: GetWithdrawalsByStatus_def Let_def split: prod.splits)
qed

theorem listing_by_status_fails_witness:
  "\<exists>msg. fst (GetWithdrawalsByStatus demo_env demo_api
      \<lparr>gw_WithdrawalStatus = 2, gw_Page = 0, gw_Limit = 5\<rparr> demo_stored) = Inl (Internal, msg)"
proof -
  have "page_contract (a_ApplyTo demo_api)" by (simp add: page_contract_def demo_api_def)
  from listing_by_status_fails [OF this, of demo_env "\<lparr>gw_WithdrawalStatus = 2, gw_Page = 0, gw_Limit = 5\<rparr>" demo_stored]
  show ?thesis by (auto simp: WithdrawalStatus_name_def)
qed

end
