(* ===== verification/Report_Props.thy ===== *)
theory Report_Props
  imports Demo Batches
begin

text \<open>
  Reporting withdrawals to the core: the translation between deposits and the core's
  transactions, the batch of the core submitter, and the fee of its transaction.
\<close>

subsection \<open>Deposits and transactions\<close>

text \<open>
  C21: The translation to the core and back. Reading a transaction and writing it again gives
  the same transaction exactly when its referral id fits the 16 bits the service stores. Writing a
  deposit and reading it again keeps everything the core's transaction has a field for; the
  status, the blocks of the withdrawal, the operator, the Merkle proof and the recovery data are
  reset, and an empty withdrawal hash reads as no hash.
\<close>

theorem transaction_roundtrip:
  "(toTransaction (txToDeposit tx) = tx \<longleftrightarrow> uint (tx_ReferralId tx) < 2 ^ 16)
   \<and> txToDeposit (toTransaction d) = d\<lparr>
       d_WithdrawalStatus := STATUS_UNSPECIFIED, d_WithdrawalCoreBlock := 0, d_WithdrawalChainBlock := 0,
       d_Operator := [], d_MerkleProof := [], d_RecoveryAttempts := 0, d_RecoveryTimestamp := zero_time,
       d_WithdrawalTxHash := (if d_WithdrawalTxHash d = Some [] then None else d_WithdrawalTxHash d)\<rparr>"
proof
  have fits: "ucast (ucast r :: uint16) = r \<longleftrightarrow> uint r < 2 ^ 16" for r :: uint32
    by (simp add: word_uint_eq_iff unsigned_ucast_eq unsigned_take_bit_eq take_bit_int_eq_self_iff)
  have widened: "ucast (ucast r :: uint32) = r" for r :: uint16
    by (simp add: word_uint_eq_iff unsigned_ucast_eq unsigned_take_bit_eq take_bit_int_eq_self_iff)
       (rule order.strict_trans [OF uint_lt2p], simp)
  show "toTransaction (txToDeposit tx) = tx \<longleftrightarrow> uint (tx_ReferralId tx) < 2 ^ 16"
    using fits [of "tx_ReferralId tx"]
    by (cases tx) (auto simp: toTransaction_def txToDeposit_def zero_Deposit_def emptyOrString_def nilOrNotEmpty_def)
  show "txToDeposit (toTransaction d) = d\<lparr>
       d_WithdrawalStatus := STATUS_UNSPECIFIED, d_WithdrawalCoreBlock := 0, d_WithdrawalChainBlock := 0,
       d_Operator := [], d_MerkleProof := [], d_RecoveryAttempts := 0, d_RecoveryTimestamp := zero_time,
       d_WithdrawalTxHash := (if d_WithdrawalTxHash d = Some [] then None else d_WithdrawalTxHash d)\<rparr>"
    by (cases d) (auto simp: toTransaction_def txToDeposit_def zero_Deposit_def emptyOrString_def
        nilOrNotEmpty_def widened split: option.splits)
qed

text \<open>The roundtrip needs no hypothesis; a concrete transaction and its deposit.\<close>

theorem transaction_roundtrip_witness: "toTransaction (txToDeposit demo_tx) = demo_tx"
  using transaction_roundtrip [of demo_tx "txToDeposit demo_tx"] by (simp add: demo_tx_def)

subsection \<open>The batch of the submitter\<close>

text \<open>
  C29: A batch the submitter takes out of its pool was reported. After some failed attempts, the
  last attempt asked the core for each deposit of the pool in turn; every answer was a deposit
  without a withdrawal hash; it then sent one transaction from the service's account, with one
  message per deposit of the pool, in order, each with the pool's data and the referral id that the
  core answered for it, and the core accepted it. What the step does after that is to mark the
  batch: with a working database, exactly the deposits of the pool whose status was submitting are
  processed, and every other status in the table is as before. The retry library keeps its contract,
  and the SDK refuses a list of messages with a nil in it.
\<close>

theorem reported_batch_is_processed:
  assumes "sql_ok E" and "retry_contract R" and "refuses_nil (c_client C)"
    and "submitter_step E R n C k d (pool, w) = (Returned [], w')"
  shows "(\<exists>j ds0 w0 gs v w1. fails (updateTx C) j (pool @ [d], w) (ds0, w0)
        \<and> read_all C (map d_Id (pool @ [d])) w0 = (map Inr gs, v)
        \<and> (\<forall>g \<in> set gs. d_WithdrawalTxHash g = None)
        \<and> submitMsgs C (map2 (\<lambda>e g. Some \<lparr>msg_Submitter = acc_addr (c_account C),
              msg_Transaction = toTransaction (e\<lparr>d_ReferralId := d_ReferralId g\<rparr>)\<rparr>) (pool @ [d]) gs) v
            = (Returned None, w1)
        \<and> w' = mark_processed E (map2 (\<lambda>e g. e\<lparr>d_ReferralId := d_ReferralId g\<rparr>) (pool @ [d]) gs) w1)
    \<and> (\<forall>i. deposit_status i w' =
        (if \<exists>e \<in> set (pool @ [d]). d_Id e = i \<and> d_WithdrawalStatus e = STATUS_SUBMITTING_TO_CORE
         then map_option (\<lambda>_. STATUS_PROCESSED) (deposit_status i w) else deposit_status i w))"
proof -
  obtain r ds w1 where run: "DoWithRetry R n (updateTx C) (pool @ [d], w) = (r, (ds, w1))"
    by (metis prod.exhaust)
  have same: "unreferred ds = unreferred (pool @ [d])" and x: "only_ext w w1"
    using retried_batch [OF assms(2) run] by auto
  then have "ds \<noteq> []" by (auto simp: unreferred_def)
  with assms(4) run have r: "r = Returned None" and w': "w' = mark_processed E ds w1"
    by (auto simp: submitter_step_def Let_def split: if_splits go_result.splits option.splits)
  from DoWithRetry_success [OF assms(2) run [unfolded r]] obtain j s where
    f: "fails (updateTx C) j (pool @ [d], w) s" and last: "updateTx C s = (Returned None, (ds, w1))" .
  obtain ds0 w0 where s: "s = (ds0, w0)" by fastforce
  with last have "UpdateTxInfo C ds0 w0 = ((Returned None, ds), w1)"
    by (auto simp: updateTx_def split: prod.splits)
  from UpdateTxInfo_done [OF assms(3) this] obtain gs v where
    read: "read_all C (map d_Id ds0) w0 = (map Inr gs, v)" and ds: "ds = referred ds0 gs"
    and new: "\<forall>g \<in> set gs. d_WithdrawalTxHash g = None"
    and sent: "submitMsgs C (map (Some \<circ> report_of C) ds) v = (Returned None, w1)" by blast
  note f = f [unfolded s]
  have "unreferred (fst (ds0, w0)) = unreferred (pool @ [d])"
    by (rule fails_invariant [OF f, where P = "\<lambda>s. unreferred (fst s) = unreferred (pool @ [d])"])
       (auto dest!: updateTx_batch)
  then have same0: "unreferred ds0 = unreferred (pool @ [d])" by simp
  have ids: "map d_Id ds0 = map d_Id (pool @ [d])" by (rule unreferred_same [OF same0]) simp
  have batch: "ds = referred (pool @ [d]) gs"
    using ds same0 referred_unreferred by metis
  have msgs: "map (Some \<circ> report_of C) ds = map2 (\<lambda>e g. Some \<lparr>msg_Submitter = acc_addr (c_account C),
      msg_Transaction = toTransaction (e\<lparr>d_ReferralId := d_ReferralId g\<rparr>)\<rparr>) (pool @ [d]) gs"
    unfolding batch referred_def by (simp add: report_of_def prod.case_eq_if)
  have "map (\<lambda>e. (d_Id e, d_WithdrawalStatus e)) ds = map (\<lambda>e. (d_Id e, d_WithdrawalStatus e)) (pool @ [d])"
    by (rule unreferred_same [OF same]) simp
  then have "(\<lambda>e. (d_Id e, d_WithdrawalStatus e)) ` set ds = (\<lambda>e. (d_Id e, d_WithdrawalStatus e)) ` set (pool @ [d])"
    by (metis list.set_map)
  then have "(\<exists>e \<in> set ds. d_Id e = i \<and> d_WithdrawalStatus e = s)
      \<longleftrightarrow> (\<exists>e \<in> set (pool @ [d]). d_Id e = i \<and> d_WithdrawalStatus e = s)" for i s
    by (auto simp: set_eq_iff image_iff) (metis+)
  then have status: "\<forall>i. deposit_status i w' =
      (if \<exists>e \<in> set (pool @ [d]). d_Id e = i \<and> d_WithdrawalStatus e = STATUS_SUBMITTING_TO_CORE
       then map_option (\<lambda>_. STATUS_PROCESSED) (deposit_status i w) else deposit_status i w)"
    using mark_processed_status [OF assms(1), of _ ds w1] only_ext_status [OF x] w' by auto
  have "fails (updateTx C) j (pool @ [d], w) (ds0, w0)
      \<and> read_all C (map d_Id (pool @ [d])) w0 = (map Inr gs, v)
      \<and> (\<forall>g \<in> set gs. d_WithdrawalTxHash g = None)
      \<and> submitMsgs C (map2 (\<lambda>e g. Some \<lparr>msg_Submitter = acc_addr (c_account C),
            msg_Transaction = toTransaction (e\<lparr>d_ReferralId := d_ReferralId g\<rparr>)\<rparr>) (pool @ [d]) gs) v
          = (Returned None, w1)
      \<and> w' = mark_processed E (map2 (\<lambda>e g. e\<lparr>d_ReferralId := d_ReferralId g\<rparr>) (pool @ [d]) gs) w1"
    using f read new sent w' unfolding ids msgs by (simp add: batch referred_def)
  with status show ?thesis by blast
qed

theorem reported_batch_is_processed_witness:
  "deposit_status demo_id (snd (submitter_step demo_env retry_ref 3 demo_connector 1 demo_withdrawn ([], demo_paid)))
     = Some STATUS_PROCESSED"
proof -
  let ?s = "submitter_step demo_env retry_ref 3 demo_connector 1 demo_withdrawn ([], demo_paid)"
  have "fst ?s = Returned []"
    by (simp add: Let_def submitter_step_def DoWithRetry_def retry_ref.simps updateTx_def UpdateTxInfo_def
        GetDeposit_def submitMsgs_def buildTx_def getAccountSequence_def getAccountData_def ext_call_def
        demo_connector_def demo_core_def txToDeposit_def demo_tx_def nilOrNotEmpty_def gasLimit_def
        txCodeSuccess_def errors_Wrap_def)
  then have "?s = (Returned [], snd ?s)" by (metis prod.collapse)
  moreover have "refuses_nil (c_client demo_connector)"
    by (simp add: refuses_nil_def demo_connector_def demo_core_def)
  ultimately have "deposit_status demo_id (snd ?s) = map_option (\<lambda>_. STATUS_PROCESSED) (deposit_status demo_id demo_paid)"
    using reported_batch_is_processed [OF demo_sql_ok(1) retry_ref_contract]
    by (fastforce simp: demo_withdrawn_def demo_deposit_def txToDeposit_def demo_tx_def demo_id_def)
  then show ?thesis
    by (simp add: demo_paid_def deposit_status_def demo_withdrawn_def demo_deposit_def
        txToDeposit_def demo_tx_def demo_id_def)
qed

subsection \<open>A recorded deposit in the pool\<close>

text \<open>The core answers a query for the deposit with a recorded withdrawal, or with an error.\<close>

definition recorded :: "'x Connector \<Rightarrow> DepositIdentifier \<Rightarrow> bool" where
  "recorded C i \<longleftrightarrow> (\<forall>x tx x'. cq_TransactionById (c_client C) (ChainId i) (TxHash i) (TxNonce i) x = (Inr tx, x')
     \<longrightarrow> tx_WithdrawalTxHash tx \<noteq> [])"

lemma recorded_GetDeposit:
  assumes "recorded C i" and "GetDeposit C i w = (Inr g, w')"
  shows "d_WithdrawalTxHash g \<noteq> None"
proof -
  from assms(2) obtain tx x x' where "cq_TransactionById (c_client C) (ChainId i) (TxHash i) (TxNonce i) x = (Inr tx, x')"
    and g: "g = txToDeposit tx"
    by (auto simp: GetDeposit_def ext_call_def split: prod.splits sum.splits)
  with assms(1) have "tx_WithdrawalTxHash tx \<noteq> []" unfolding recorded_def by blast
  with g show ?thesis by (simp add: txToDeposit_def nilOrNotEmpty_def)
qed

lemma UpdateTxInfo_loop_recorded:
  assumes "recorded C i"
  shows "i \<in> d_Id ` set ds \<Longrightarrow> UpdateTxInfo_loop C ds w = ((None, ds', msgs), w') \<Longrightarrow> None \<in> set msgs"
proof (induction ds arbitrary: w ds' msgs w')
  case (Cons d ds)
  obtain g w1 where g: "GetDeposit C (d_Id d) w = (g, w1)" by fastforce
  obtain e2 ds2 msgs2 w2 where rest: "UpdateTxInfo_loop C ds w1 = ((e2, ds2, msgs2), w2)"
    by (metis prod.exhaust)
  show ?case
  proof (cases "i \<in> d_Id ` set ds")
    case True
    with Cons.IH [OF True] rest g Cons.prems(2) show ?thesis
      by (auto simp: Let_def split: sum.splits if_splits)
  next
    case False
    with Cons.prems(1) have "i = d_Id d" by auto
    with recorded_GetDeposit [OF assms] g rest Cons.prems(2) show ?thesis
      by (auto simp: Let_def split: sum.splits if_splits)
  qed
qed simp

lemma updateTx_recorded:
  assumes "refuses_nil (c_client C)" and "recorded C i" and "i \<in> d_Id ` set ds"
  shows "\<exists>err t. updateTx C (ds, w) = (Returned (Some err), t)"
proof -
  obtain e ds2 msgs w1 where l: "UpdateTxInfo_loop C ds w = ((e, ds2, msgs), w1)" by (metis prod.exhaust)
  show ?thesis
  proof (cases e)
    case None
    then have "None \<in> set msgs" using UpdateTxInfo_loop_recorded [OF assms(2,3)] l by auto
    from submitMsgs_nil [OF assms(1) this, of w1] obtain err where
      "submitMsgs C msgs w1 = (Returned (Some err), w1)" ..
    with l None show ?thesis by (auto simp: updateTx_def UpdateTxInfo_def errors_Wrap_def)
  qed (use l in \<open>auto simp: updateTx_def UpdateTxInfo_def\<close>)
qed

lemma unreferred_ids: "unreferred ds' = unreferred ds \<Longrightarrow> map d_Id ds' = map d_Id ds"
  by (erule unreferred_same) simp

lemma submitter_step_recorded:
  assumes "retry_contract R" and "refuses_nil (c_client C)" and "recorded C i" and "i \<in> d_Id ` set pool"
  shows "\<exists>pool' w'. submitter_step E R n C k d (pool, w) = (Returned pool', w')
    \<and> map d_Id pool' = map d_Id (pool @ [d]) \<and> only_ext w w'"
proof (cases "int (length (pool @ [d])) < sint k")
  case True
  then show ?thesis by (auto simp: submitter_step_def intro: ext.R_refl)
next
  case False
  obtain r ds w1 where run: "DoWithRetry R n (updateTx C) (pool @ [d], w) = (r, (ds, w1))"
    by (metis prod.exhaust)
  have err: "\<exists>err t. updateTx C s = (Returned (Some err), t)" if "fails (updateTx C) j (pool @ [d], w) s" for j s
  proof -
    have "map d_Id (fst s) = map d_Id (pool @ [d])"
      by (rule fails_invariant [OF that, where P = "\<lambda>s. map d_Id (fst s) = map d_Id (pool @ [d])"])
         (auto dest!: updateTx_batch unreferred_ids)
    then have "d_Id ` set (fst s) = d_Id ` set (pool @ [d])" by (metis list.set_map)
    with assms(4) have "i \<in> d_Id ` set (fst s)" by auto
    then show ?thesis using updateTx_recorded [OF assms(2,3)] by (metis prod.collapse)
  qed
  have "r \<noteq> Returned None" "\<And>m. r \<noteq> Panic m"
    using run err by (auto elim!: DoWithRetry_success [OF assms(1)] DoWithRetry_panic [OF assms(1)] dest!: err)
  then obtain e where "r = Returned (Some e)" by (metis go_result.exhaust option.exhaust)
  with False run retried_batch [OF assms(1) run] show ?thesis
    by (auto simp: submitter_step_def dest: unreferred_ids)
qed

text \<open>
  C33: Once a deposit whose withdrawal the core already has is in the pool of the submitter,
  the submitter never reports anything again, whatever it receives: \<open>UpdateTxInfo\<close> leaves a nil
  message in the batch for such a deposit, the cosmos-sdk refuses the batch, every retry ends the
  same way, and the pool only grows. No status changes.
\<close>

theorem recorded_deposit_blocks_submitter:
  assumes "retry_contract R" and "refuses_nil (c_client C)" and "recorded C i" and "i \<in> d_Id ` set pool"
  shows "\<exists>pool' rest w'. runCoreSubmitter E R n C k sel (pool, w) = (Returned pool', w')
    \<and> map d_Id pool' = map d_Id pool @ rest \<and> w_deposits w' = w_deposits w"
  using assms(4)
proof (induction sel arbitrary: pool w)
  case (Cons x sel)
  show ?case
  proof (cases x)
    case (Received d)
    from submitter_step_recorded [OF assms(1-3) Cons.prems] obtain pool1 w1 where
      s: "submitter_step E R n C k d (pool, w) = (Returned pool1, w1)"
      and ids: "map d_Id pool1 = map d_Id (pool @ [d])" and x1: "only_ext w w1" by blast
    from ids Cons.prems have "i \<in> d_Id ` set pool1" by (metis UnCI image_set set_append map_append)
    from Cons.IH [OF this, of w1] s ids Received only_ext_rows [OF x1] show ?thesis by auto
  qed auto
qed simp

definition demo_recorded :: "unit Connector" where
  "demo_recorded = demo_connector\<lparr>c_client := demo_core\<lparr>cq_TransactionById :=
     (\<lambda>c h n x. (Inr (demo_tx\<lparr>tx_WithdrawalTxHash := ''0x1''\<rparr>), x))\<rparr>\<rparr>"

theorem recorded_deposit_blocks_submitter_witness:
  "\<exists>pool' rest w'. runCoreSubmitter demo_env retry_ref 3 demo_recorded 1 [Received demo_deposit]
       ([demo_withdrawn], demo_paid) = (Returned pool', w')
     \<and> map d_Id pool' = [demo_id] @ rest \<and> w_deposits w' = w_deposits demo_paid"
proof -
  have "refuses_nil (c_client demo_recorded)" "recorded demo_recorded demo_id"
    by (simp_all add: refuses_nil_def recorded_def demo_recorded_def demo_core_def)
  moreover have "map d_Id [demo_withdrawn] = [demo_id]"
    by (simp add: demo_withdrawn_def demo_deposit_def txToDeposit_def demo_tx_def demo_id_def)
  ultimately show ?thesis
    using recorded_deposit_blocks_submitter [OF retry_ref_contract, of demo_recorded demo_id "[demo_withdrawn]"]
    by (simp del: runCoreSubmitter.simps)
qed

subsection \<open>The fee\<close>

text \<open>\<open>sdk.NewInt64Coin\<close> panics on a negative amount and otherwise makes the coin.\<close>

definition coin_contract :: "'x core_client \<Rightarrow> bool" where
  "coin_contract K \<longleftrightarrow> (\<forall>denom n. (0 \<le> sint n \<longrightarrow> sdk_NewInt64Coin K denom n = Returned (denom, n))
     \<and> (sint n < 0 \<longrightarrow> (\<exists>m. sdk_NewInt64Coin K denom n = Panic m)))"

text \<open>
  C35: The fee of a report is \<open>gasLimit\<close> times the configured price, in 64 bits, read as a
  signed amount. A report that succeeds sent a transaction with exactly the messages, the gas
  limit 3000000 and that product, reduced modulo \<open>2 ^ 64\<close>, as its fee; when the reduced product
  has its top bit set, every report panics instead.
\<close>

theorem report_fee:
  fixes C :: "'x Connector"
  defines "fee \<equiv> (3000000 * uint (set_MinGasPrice (c_settings C))) mod 2 ^ 64"
  assumes "coin_contract (c_client C)" and "msgs \<noteq> []"
  shows "(\<forall>w'. submitMsgs C msgs w = (Returned None, w') \<longrightarrow> fee < 2 ^ 63 \<and>
        (\<exists>draft tx n v res. td_Msgs draft = msgs \<and> td_GasLimit draft = 3000000
          \<and> td_Fee draft = Some (set_Denom (c_settings C), n) \<and> sint n = fee
          \<and> sdk_TxEncoder (c_client C) draft = Inr tx
          \<and> ext_call (cq_BroadcastTx (c_client C) tx) v = (Inr res, w') \<and> res_Code res = 0))
    \<and> (2 ^ 63 \<le> fee \<longrightarrow> sdk_SetMsgs (c_client C) msgs = None \<longrightarrow>
        (\<forall>seq w1. getAccountSequence C w = (Inr seq, w1) \<longrightarrow> (\<exists>m. submitMsgs C msgs w = (Panic m, w1))))"
proof -
  let ?K = "c_client C" and ?denom = "set_Denom (c_settings C)"
  let ?n = "gasLimit * set_MinGasPrice (c_settings C) :: uint64"
  have fee: "uint ?n = fee" by (simp add: fee_def gasLimit_def uint_word_ariths)
  have sign: "sint ?n = (if fee < 2 ^ 63 then fee else fee - 2 ^ 64)"
    using sint_i64 [of ?n] fee by simp
  have "fee < 2 ^ 64" by (simp add: fee_def)
  have coin: "if fee < 2 ^ 63 then sdk_NewInt64Coin ?K ?denom ?n = Returned (?denom, ?n)
      else \<exists>m. sdk_NewInt64Coin ?K ?denom ?n = Panic m"
    using assms(2) sign \<open>fee < 2 ^ 64\<close> by (auto simp: coin_contract_def fee_def)
  have ok: "fee < 2 ^ 63 \<and> (\<exists>draft tx n v res. td_Msgs draft = msgs \<and> td_GasLimit draft = 3000000
      \<and> td_Fee draft = Some (?denom, n) \<and> sint n = fee \<and> sdk_TxEncoder ?K draft = Inr tx
      \<and> ext_call (cq_BroadcastTx ?K tx) v = (Inr res, w') \<and> res_Code res = 0)"
    if s: "submitMsgs C msgs w = (Returned None, w')" for w'
  proof -
    from s assms(3) obtain tx w1 res where
      b: "buildTx C gasLimit ?n msgs w = (Returned (Inr tx), w1)"
      and c: "ext_call (cq_BroadcastTx ?K tx) w1 = (Inr res, w')" "res_Code res = 0"
      by (auto simp: submitMsgs_def Let_def txCodeSuccess_def split: prod.splits go_result.splits sum.splits if_splits)
    from b obtain draft coin where d: "sdk_TxEncoder ?K draft = Inr tx" "td_Msgs draft = msgs"
      "td_GasLimit draft = gasLimit" "td_Fee draft = Some coin"
      "sdk_NewInt64Coin ?K ?denom ?n = Returned coin"
      by (auto simp: buildTx_def Let_def split: prod.splits go_result.splits sum.splits option.splits)
    with coin have "fee < 2 ^ 63" "coin = (?denom, ?n)" by (auto split: if_splits)
    with c d sign show ?thesis
      by (intro conjI exI [of _ draft] exI [of _ tx] exI [of _ ?n] exI [of _ w1] exI [of _ res])
         (simp_all add: gasLimit_def)
  qed
  have panics: "\<exists>m. submitMsgs C msgs w = (Panic m, w1)"
    if "2 ^ 63 \<le> fee" "sdk_SetMsgs ?K msgs = None" "getAccountSequence C w = (Inr seq, w1)" for seq w1
    using that coin assms(3) by (auto simp: submitMsgs_def buildTx_def Let_def)
  show ?thesis using ok panics by blast
qed

theorem report_fee_witness:
  "\<exists>m. submitMsgs (demo_connector\<lparr>c_settings := (c_settings demo_connector)\<lparr>set_MinGasPrice := 2 ^ 42\<rparr>\<rparr>)
     [Some (report_of demo_connector demo_withdrawn)] demo_paid = (Panic m, demo_paid)"
proof -
  let ?C = "demo_connector\<lparr>c_settings := (c_settings demo_connector)\<lparr>set_MinGasPrice := 2 ^ 42\<rparr>\<rparr>"
  have "coin_contract (c_client ?C)" by (simp add: coin_contract_def demo_connector_def demo_core_def)
  moreover have "getAccountSequence ?C demo_paid = (Inr 2, demo_paid)"
    by (simp add: getAccountSequence_def getAccountData_def ext_call_def demo_connector_def demo_core_def)
  moreover have "sdk_SetMsgs (c_client ?C) [Some (report_of demo_connector demo_withdrawn)] = None"
    by (simp add: demo_connector_def demo_core_def)
  ultimately show ?thesis
    using report_fee [of ?C "[Some (report_of demo_connector demo_withdrawn)]" demo_paid]
    by (simp add: demo_connector_def)
qed

end
