(* ===== verification/Observer_Props.thy ===== *)
theory Observer_Props
  imports Demo
begin

text \<open>
  The observer: what is read from the events of a block, when a tick of the loop goes on to the
  next block, and when the wait for the block distance ends.
\<close>

subsection \<open>Waiting for the block distance\<close>

text \<open>The worlds in which the wait asks for the height, one after another.\<close>

primrec polls :: "'x env \<Rightarrow> 'x height_retry \<Rightarrow> nat \<Rightarrow> nat \<Rightarrow> 'x world \<Rightarrow> 'x world" where
  "polls E R n 0 w = w"
| "polls E R n (Suc k) w = polls E R n k (snd (getCurrentHeight E R n w))"

text \<open>An answer that ends the wait: an error, a panic, or a height far enough ahead.\<close>

definition stops :: "uint64 \<Rightarrow> uint64 \<Rightarrow> (go_error + uint64) go_result \<Rightarrow> bool" where
  "stops D h q \<longleftrightarrow> (case q of Returned (Inr c) \<Rightarrow> D \<le> c - h | _ \<Rightarrow> True)"

lemma wait_unfold:
  "waitForBlockDistance E R n D h w = (let q = getCurrentHeight E R n w in
     if stops D h (fst q)
     then Some ((case fst q of Panic m \<Rightarrow> Panic m | Returned _ \<Rightarrow> Returned ()), snd q)
     else waitForBlockDistance E R n D h (snd q))"
  by (subst waitForBlockDistance.simps)
     (auto simp: stops_def Let_def split: prod.splits go_result.splits sum.splits)

lemma wait_stops: "stops D h (fst (getCurrentHeight E R n (polls E R n k w))) \<Longrightarrow>
    \<exists>r. waitForBlockDistance E R n D h w = Some r"
proof (induction k arbitrary: w)
  case 0
  then show ?case by (subst wait_unfold) (simp add: Let_def)
next
  case (Suc k)
  then show ?case by (subst wait_unfold) (auto simp: Let_def)
qed

lemma wait_stopped:
  assumes "waitForBlockDistance E R n D h w = Some r"
  shows "\<exists>k. stops D h (fst (getCurrentHeight E R n (polls E R n k w)))"
proof -
  let ?P = "\<lambda>E R n D h w r. \<exists>k. stops D h (fst (getCurrentHeight E R n (polls E R n k w)))"
  show ?thesis
  proof (rule waitForBlockDistance.raw_induct [where P = ?P, OF _ assms])
    fix wait E R n D h w r
    assume IH: "\<And>E R n D h w r. wait E R n D h w = Some r \<Longrightarrow> ?P E R n D h w r"
      and eq: "(case getCurrentHeight E R n w of (q, w1) \<Rightarrow>
        (case q of Panic m \<Rightarrow> Some (Panic m, w1)
         | Returned h' \<Rightarrow> (case h' of Inl err \<Rightarrow> Some (Returned (), w1)
           | Inr currentHeight \<Rightarrow> let gap = currentHeight - h in
               if gap \<ge> D then Some (Returned (), w1) else wait E R n D h w1))) = Some r"
    show "?P E R n D h w r"
    proof (cases "stops D h (fst (getCurrentHeight E R n w))")
      case True
      then show ?thesis by (intro exI [of _ 0]) simp
    next
      case False
      with eq have "wait E R n D h (snd (getCurrentHeight E R n w)) = Some r"
        by (auto simp: stops_def Let_def split: prod.splits go_result.splits sum.splits if_splits)
      from IH [OF this] obtain k where
        "stops D h (fst (getCurrentHeight E R n (polls E R n k (snd (getCurrentHeight E R n w)))))" ..
      then show ?thesis by (intro exI [of _ "Suc k"]) simp
    qed
  qed
qed

text \<open>
  C24: The wait for the block distance ends exactly when one of its polls fails or reports a
  height at least that distance ahead of the block; it ends at once without a distance. The
  difference of the heights wraps around: a chain that is behind the block counts as far ahead,
  so the wait ends although the block does not exist yet.
\<close>

theorem wait_ends_iff:
  "((\<exists>r. waitForBlockDistance E R n D h w = Some r) \<longleftrightarrow>
      (\<exists>k. case fst (getCurrentHeight E R n (polls E R n k w)) of
             Returned (Inr c) \<Rightarrow> D \<le> c - h | _ \<Rightarrow> True))
   \<and> (\<exists>r. waitForBlockDistance E R n 0 h w = Some r)
   \<and> (fst (getCurrentHeight E R n w) = Returned (Inr c) \<longrightarrow> c < h \<longrightarrow>
        uint D + uint h \<le> 2 ^ 64 + uint c \<longrightarrow> (\<exists>r. waitForBlockDistance E R n D h w = Some r))"
proof (intro conjI impI)
  show "(\<exists>r. waitForBlockDistance E R n D h w = Some r) \<longleftrightarrow>
      (\<exists>k. case fst (getCurrentHeight E R n (polls E R n k w)) of
             Returned (Inr c) \<Rightarrow> D \<le> c - h | _ \<Rightarrow> True)"
    using wait_stops [of D h E R n _ w] wait_stopped [of E R n D h w] unfolding stops_def by blast
  have "stops 0 h q" for q by (auto simp: stops_def split: go_result.splits sum.splits)
  then show "\<exists>r. waitForBlockDistance E R n 0 h w = Some r" by (rule wait_stops [where k = 0])
  assume q: "fst (getCurrentHeight E R n w) = Returned (Inr c)" and "c < h"
    and b: "uint D + uint h \<le> 2 ^ 64 + uint c"
  have "uint (c - h) = (uint c - uint h) mod 2 ^ 64" by (simp add: uint_word_ariths)
  also have "\<dots> = (uint c - uint h + 2 ^ 64) mod 2 ^ 64" by (rule mod_add_self2 [symmetric])
  also have "\<dots> = uint c - uint h + 2 ^ 64"
  proof (rule mod_pos_pos_trivial)
    have "uint c < uint h" using \<open>c < h\<close> by (simp add: word_less_def)
    moreover have "uint h < 2 ^ 64" "0 \<le> uint c" using uint_lt2p [of h] by simp_all
    ultimately show "0 \<le> uint c - uint h + 2 ^ 64" "uint c - uint h + 2 ^ 64 < 2 ^ 64" by linarith+
  qed
  finally have "D \<le> c - h" using b by (simp add: word_le_def)
  then show "\<exists>r. waitForBlockDistance E R n D h w = Some r"
    using q by (intro wait_stops [where k = 0]) (simp add: stops_def)
qed

theorem wait_ends_iff_witness: "\<exists>r. waitForBlockDistance demo_env retry_ref 3 2 9 demo_world = Some r"
proof -
  have "fst (getCurrentHeight demo_env retry_ref 3 demo_world) = Returned (Inr 7)"
    by (simp add: getCurrentHeight_def DoWithRetry_def retry_ref.simps abci_call_def ext_call_def
        demo_env_def demo_world_def errors_Wrap_def)
  then show ?thesis using wait_ends_iff [of demo_env retry_ref 3 2 9 demo_world 7, THEN conjunct2, THEN conjunct2] by simp
qed

subsection \<open>Reading a deposit\<close>

text \<open>The attributes the core writes for a deposit.\<close>

definition deposit_attributes :: "bridge_keys \<Rightarrow> Deposit \<Rightarrow> Attribute list" where
  "deposit_attributes K d = map (\<lambda>(k, v). \<lparr>at_Key = k, at_Value = v\<rparr>)
    [(key_DepositTxHash K, TxHash (d_Id d)), (key_DepositNonce K, itoa (sint (TxNonce (d_Id d)))),
     (key_DepositChainId K, ChainId (d_Id d)), (key_DepositAmount K, d_DepositAmount d),
     (key_DepositToken K, d_DepositToken d), (key_DepositBlock K, itoa (sint (d_DepositBlock d))),
     (key_WithdrawalAmount K, d_WithdrawalAmount d), (key_Depositor K, d_Depositor d),
     (key_Receiver K, d_Receiver d), (key_WithdrawalChainID K, d_WithdrawalChainId d),
     (key_WithdrawalTxHash K, case d_WithdrawalTxHash d of None \<Rightarrow> [] | Some h \<Rightarrow> h),
     (key_WithdrawalToken K, d_WithdrawalToken d), (key_Signature K, d_Signature d),
     (key_IsWrapped K, FormatBool (d_IsWrappedToken d)), (key_CommissionAmount K, d_CommissionAmount d),
     (key_MerkleProof K, d_MerkleProof d)]"

definition keys_list :: "bridge_keys \<Rightarrow> string list" where
  "keys_list K = [key_DepositTxHash K, key_DepositNonce K, key_DepositChainId K, key_DepositAmount K,
     key_DepositToken K, key_DepositBlock K, key_WithdrawalAmount K, key_Depositor K, key_Receiver K,
     key_WithdrawalChainID K, key_WithdrawalTxHash K, key_WithdrawalToken K, key_Signature K,
     key_IsWrapped K, key_CommissionAmount K, key_MerkleProof K, key_EpochId K]"

lemma key_nth:
  "key_DepositTxHash K = keys_list K ! 0"
  "key_DepositNonce K = keys_list K ! 1"
  "key_DepositChainId K = keys_list K ! 2"
  "key_DepositAmount K = keys_list K ! 3"
  "key_DepositToken K = keys_list K ! 4"
  "key_DepositBlock K = keys_list K ! 5"
  "key_WithdrawalAmount K = keys_list K ! 6"
  "key_Depositor K = keys_list K ! 7"
  "key_Receiver K = keys_list K ! 8"
  "key_WithdrawalChainID K = keys_list K ! 9"
  "key_WithdrawalTxHash K = keys_list K ! 10"
  "key_WithdrawalToken K = keys_list K ! 11"
  "key_Signature K = keys_list K ! 12"
  "key_IsWrapped K = keys_list K ! 13"
  "key_CommissionAmount K = keys_list K ! 14"
  "key_MerkleProof K = keys_list K ! 15"
  "key_EpochId K = keys_list K ! 16"
  by (simp_all add: keys_list_def)

lemma key_eq:
  assumes "distinct (keys_list K)" and "i < 17" and "j < 17"
  shows "keys_list K ! i = keys_list K ! j \<longleftrightarrow> i = j"
  using assms by (intro nth_eq_iff_index_eq) (simp_all add: keys_list_def)

text \<open>The effect of the attribute with key \<open>k\<close> when the core wrote it for \<open>e\<close>.\<close>

definition put_field :: "bridge_keys \<Rightarrow> Deposit \<Rightarrow> string \<Rightarrow> Deposit \<Rightarrow> Deposit" where
  "put_field K e k d =
    (if k = key_DepositTxHash K then d\<lparr>d_Id := (d_Id d)\<lparr>TxHash := TxHash (d_Id e)\<rparr>\<rparr>
     else if k = key_DepositNonce K then d\<lparr>d_Id := (d_Id d)\<lparr>TxNonce := TxNonce (d_Id e)\<rparr>\<rparr>
     else if k = key_DepositChainId K then d\<lparr>d_Id := (d_Id d)\<lparr>ChainId := ChainId (d_Id e)\<rparr>\<rparr>
     else if k = key_DepositAmount K then d\<lparr>d_DepositAmount := d_DepositAmount e\<rparr>
     else if k = key_DepositToken K then d\<lparr>d_DepositToken := d_DepositToken e\<rparr>
     else if k = key_DepositBlock K then d\<lparr>d_DepositBlock := d_DepositBlock e\<rparr>
     else if k = key_WithdrawalAmount K then d\<lparr>d_WithdrawalAmount := d_WithdrawalAmount e\<rparr>
     else if k = key_Depositor K then d\<lparr>d_Depositor := d_Depositor e\<rparr>
     else if k = key_Receiver K then d\<lparr>d_Receiver := d_Receiver e\<rparr>
     else if k = key_WithdrawalChainID K then d\<lparr>d_WithdrawalChainId := d_WithdrawalChainId e\<rparr>
     else if k = key_WithdrawalTxHash K then
       (if d_WithdrawalTxHash e = None then d else d\<lparr>d_WithdrawalTxHash := d_WithdrawalTxHash e\<rparr>)
     else if k = key_WithdrawalToken K then d\<lparr>d_WithdrawalToken := d_WithdrawalToken e\<rparr>
     else if k = key_Signature K then (if d_Signature e = [] then d else d\<lparr>d_Signature := d_Signature e\<rparr>)
     else if k = key_IsWrapped K then d\<lparr>d_IsWrappedToken := d_IsWrappedToken e\<rparr>
     else if k = key_CommissionAmount K then d\<lparr>d_CommissionAmount := d_CommissionAmount e\<rparr>
     else if k = key_MerkleProof K then d\<lparr>d_MerkleProof := d_MerkleProof e\<rparr>
     else d)"

lemma parse_written_attribute:
  assumes "distinct (keys_list K)" and "d_WithdrawalTxHash e \<noteq> Some []"
    and "a \<in> set (deposit_attributes K e) \<or> at_Key a = key_EpochId K"
  shows "parse_deposit_attribute K a d = Inr (put_field K e (at_Key a) d)"
proof -
  have int: "ParseInt64 (itoa (sint n)) = Inr (sint n)" for n :: int64
    using sint_i64_bounds [of n] by (intro ParseInt64_itoa) auto
  from assms(3) consider (hash) "a = \<lparr>at_Key = key_WithdrawalTxHash K,
      at_Value = (case d_WithdrawalTxHash e of None \<Rightarrow> [] | Some h \<Rightarrow> h)\<rparr>"
    | (epoch) "at_Key a = key_EpochId K"
    | (other) "a \<in> set (deposit_attributes K e)" "at_Key a \<noteq> key_WithdrawalTxHash K"
    by (auto simp: deposit_attributes_def key_nth key_eq [OF assms(1)])
  then show ?thesis
  proof cases
    case hash
    then have key: "at_Key a = key_WithdrawalTxHash K"
      and at: "at_Value a = (case d_WithdrawalTxHash e of None \<Rightarrow> [] | Some h \<Rightarrow> h)" by simp_all
    show ?thesis using at assms(2)
      by (cases "d_WithdrawalTxHash e")
         (simp_all add: parse_deposit_attribute_def put_field_def Let_def key key_nth key_eq [OF assms(1)])
  next
    case epoch
    then show ?thesis
      by (simp add: parse_deposit_attribute_def put_field_def Let_def key_nth key_eq [OF assms(1)])
  next
    case other
    then show ?thesis
      unfolding deposit_attributes_def list.map prod.case list.set insert_iff empty_iff
      by (elim disjE FalseE)
         (simp_all add: parse_deposit_attribute_def put_field_def Let_def int key_nth key_eq [OF assms(1)])
  qed
qed

lemma parse_written_attributes:
  assumes "distinct (keys_list K)" and "d_WithdrawalTxHash e \<noteq> Some []"
  shows "set attrs \<subseteq> set (deposit_attributes K e) \<union> {a. at_Key a = key_EpochId K} \<Longrightarrow>
    parse_deposit_attributes K attrs d = Inr (fold (\<lambda>a. put_field K e (at_Key a)) attrs d)"
  using parse_written_attribute [OF assms] by (induction attrs arbitrary: d) auto

text \<open>A field that one key writes is that key's alone.\<close>

lemma fold_field:
  assumes "\<And>k d. f (put_field K e k d) = (if k = key then g else f d)"
  shows "f (fold (\<lambda>a. put_field K e (at_Key a)) attrs d) = (if key \<in> at_Key ` set attrs then g else f d)"
  by (induction attrs arbitrary: d) (simp_all add: assms)

lemma fold_other:
  assumes "\<And>k d. f (put_field K e k d) = f d"
  shows "f (fold (\<lambda>a. put_field K e (at_Key a)) attrs d) = f d"
  by (induction attrs arbitrary: d) (simp_all add: assms)

lemma put_fields:
  assumes "distinct (keys_list K)"
  shows "TxHash (d_Id (put_field K e k d)) = (if k = key_DepositTxHash K then TxHash (d_Id e) else TxHash (d_Id d))"
    "TxNonce (d_Id (put_field K e k d)) = (if k = key_DepositNonce K then TxNonce (d_Id e) else TxNonce (d_Id d))"
    "ChainId (d_Id (put_field K e k d)) = (if k = key_DepositChainId K then ChainId (d_Id e) else ChainId (d_Id d))"
    "d_DepositAmount (put_field K e k d) = (if k = key_DepositAmount K then d_DepositAmount e else d_DepositAmount d)"
    "d_DepositToken (put_field K e k d) = (if k = key_DepositToken K then d_DepositToken e else d_DepositToken d)"
    "d_DepositBlock (put_field K e k d) = (if k = key_DepositBlock K then d_DepositBlock e else d_DepositBlock d)"
    "d_WithdrawalAmount (put_field K e k d) = (if k = key_WithdrawalAmount K then d_WithdrawalAmount e else d_WithdrawalAmount d)"
    "d_Depositor (put_field K e k d) = (if k = key_Depositor K then d_Depositor e else d_Depositor d)"
    "d_Receiver (put_field K e k d) = (if k = key_Receiver K then d_Receiver e else d_Receiver d)"
    "d_WithdrawalChainId (put_field K e k d) = (if k = key_WithdrawalChainID K then d_WithdrawalChainId e else d_WithdrawalChainId d)"
    "d_WithdrawalToken (put_field K e k d) = (if k = key_WithdrawalToken K then d_WithdrawalToken e else d_WithdrawalToken d)"
    "d_IsWrappedToken (put_field K e k d) = (if k = key_IsWrapped K then d_IsWrappedToken e else d_IsWrappedToken d)"
    "d_CommissionAmount (put_field K e k d) = (if k = key_CommissionAmount K then d_CommissionAmount e else d_CommissionAmount d)"
    "d_MerkleProof (put_field K e k d) = (if k = key_MerkleProof K then d_MerkleProof e else d_MerkleProof d)"
    "d_WithdrawalTxHash e \<noteq> None \<Longrightarrow> d_WithdrawalTxHash (put_field K e k d)
       = (if k = key_WithdrawalTxHash K then d_WithdrawalTxHash e else d_WithdrawalTxHash d)"
    "d_Signature e \<noteq> [] \<Longrightarrow> d_Signature (put_field K e k d)
       = (if k = key_Signature K then d_Signature e else d_Signature d)"
  by (simp_all add: put_field_def key_nth key_eq [OF assms] del: not_None_eq)

lemma put_others:
  "d_WithdrawalStatus (put_field K e k d) = d_WithdrawalStatus d"
  "d_ReferralId (put_field K e k d) = d_ReferralId d"
  "d_WithdrawalChainBlock (put_field K e k d) = d_WithdrawalChainBlock d"
  "d_WithdrawalCoreBlock (put_field K e k d) = d_WithdrawalCoreBlock d"
  "d_TxData (put_field K e k d) = d_TxData d" "d_Operator (put_field K e k d) = d_Operator d"
  "d_RecoveryAttempts (put_field K e k d) = d_RecoveryAttempts d"
  "d_RecoveryTimestamp (put_field K e k d) = d_RecoveryTimestamp d"
  "d_WithdrawalTxHash e = None \<Longrightarrow> d_WithdrawalTxHash (put_field K e k d) = d_WithdrawalTxHash d"
  "d_Signature e = [] \<Longrightarrow> d_Signature (put_field K e k d) = d_Signature d"
  by (simp_all add: put_field_def)

text \<open>
  C22: Reading a deposit event gives back the deposit the core wrote into it: whatever the order
  of the attributes, with or without repetitions and the epoch id, every field the event carries
  is read as it was, and every other field has its zero value. The nonce and the block go through
  decimal and back without loss.
\<close>

theorem deposit_event_roundtrip:
  assumes "distinct (keys_list K)" and "d_WithdrawalTxHash e \<noteq> Some []"
    and "set (deposit_attributes K e) \<subseteq> set attrs"
    and "set attrs \<subseteq> set (deposit_attributes K e) \<union> {a. at_Key a = key_EpochId K}"
  shows "parseSubmittedDeposit K attrs = Inr (e\<lparr>d_WithdrawalStatus := STATUS_UNSPECIFIED, d_ReferralId := 0,
     d_WithdrawalChainBlock := 0, d_WithdrawalCoreBlock := 0, d_TxData := [], d_Operator := [],
     d_RecoveryAttempts := 0, d_RecoveryTimestamp := zero_time\<rparr>)"
proof -
  let ?r = "fold (\<lambda>a. put_field K e (at_Key a)) attrs zero_Deposit"
  have "at_Key ` set (deposit_attributes K e) \<subseteq> at_Key ` set attrs" using assms(3) by (rule image_mono)
  then have keys: "set (butlast (keys_list K)) \<subseteq> at_Key ` set attrs"
    by (simp add: deposit_attributes_def keys_list_def)
  then have mem: "keys_list K ! i \<in> at_Key ` set attrs" if "i < 16" for i
  proof -
    have "length (keys_list K) = 17" by (simp add: keys_list_def)
    with that have "keys_list K ! i = butlast (keys_list K) ! i" "i < length (butlast (keys_list K))"
      by (simp_all add: nth_butlast)
    with keys show ?thesis by (metis nth_mem subsetD)
  qed
  note one = put_fields [OF assms(1), THEN fold_field]
  have hash: "d_WithdrawalTxHash ?r = d_WithdrawalTxHash e"
    by (cases "d_WithdrawalTxHash e = None")
       (simp_all add: one(15) fold_other [OF put_others(9)] key_nth mem, simp add: zero_Deposit_def)
  have sig: "d_Signature ?r = d_Signature e"
    by (cases "d_Signature e = []")
       (simp_all add: one(16) fold_other [OF put_others(10)] key_nth mem, simp add: zero_Deposit_def)
  have id: "d_Id ?r = d_Id e"
    by (rule DepositIdentifier.equality) (simp_all add: one(1-3) key_nth mem)
  have "?r = e\<lparr>d_WithdrawalStatus := STATUS_UNSPECIFIED, d_ReferralId := 0,
     d_WithdrawalChainBlock := 0, d_WithdrawalCoreBlock := 0, d_TxData := [], d_Operator := [],
     d_RecoveryAttempts := 0, d_RecoveryTimestamp := zero_time\<rparr>"
    by (rule Deposit.equality)
       (simp_all add: hash sig id one(4-14) put_others(1-8) [THEN fold_other] key_nth mem,
        simp_all add: zero_Deposit_def)
  with parse_written_attributes [OF assms(1,2,4)] show ?thesis
    by (simp add: parseSubmittedDeposit_def)
qed

theorem deposit_event_roundtrip_witness:
  "parseSubmittedDeposit demo_keys (\<lparr>at_Key = key_EpochId demo_keys, at_Value = ''5''\<rparr>
       # rev (deposit_attributes demo_keys (txToDeposit demo_tx)))
     = Inr ((txToDeposit demo_tx)\<lparr>d_ReferralId := 0\<rparr>)"
proof -
  let ?e = "txToDeposit demo_tx"
  have "distinct (keys_list demo_keys)" by (simp add: keys_list_def demo_keys_def)
  moreover have "d_WithdrawalTxHash ?e \<noteq> Some []" by (simp add: txToDeposit_def nilOrNotEmpty_def)
  ultimately show ?thesis
    using deposit_event_roundtrip [of demo_keys ?e "\<lparr>at_Key = key_EpochId demo_keys, at_Value = ''5''\<rparr>
      # rev (deposit_attributes demo_keys ?e)"]
    by (auto simp: txToDeposit_def zero_Deposit_def demo_tx_def)
qed

subsection \<open>A block with a bad event\<close>

lemma unknown_attribute:
  assumes "a \<in> set attrs" and "at_Key a \<notin> set (keys_list K)"
  shows "\<exists>err. parse_deposit_attributes K attrs d = Inl err"
  using assms
proof (induction attrs arbitrary: d)
  case (Cons b attrs)
  show ?case
  proof (cases "a \<in> set attrs")
    case True
    with Cons show ?thesis by (auto split: sum.splits)
  next
    case False
    with Cons.prems have "at_Key b \<notin> set (keys_list K)" by simp
    then have "\<exists>err. parse_deposit_attribute K b d = Inl err"
      by (simp add: keys_list_def parse_deposit_attribute_def Let_def)
    then show ?thesis by auto
  qed
qed simp

lemma parse_events_bad:
  assumes "ev \<in> set events" and "ev_Type ev = eventDepositSubmitted"
    and "a \<in> set (ev_Attributes ev)" and "at_Key a \<notin> set (keys_list K)"
  shows "\<exists>err. parse_events K events = Inl err"
  using assms(1)
proof (induction events)
  case (Cons x xs)
  then show ?case
    using assms(2) unknown_attribute [OF assms(3,4), of zero_Deposit]
    by (auto simp: parseSubmittedDeposit_def split: sum.splits)
qed simp

text \<open>A log with an event whose attributes the service does not know.\<close>

definition bad_log :: "bridge_keys \<Rightarrow> log_decoder \<Rightarrow> string \<Rightarrow> bool" where
  "bad_log K J log \<longleftrightarrow> log \<noteq> [] \<and> json_Valid J log
     \<and> (\<exists>msgs m ev a. json_Unmarshal J log = Inr msgs \<and> m \<in> set msgs \<and> ev \<in> set (me_Events m)
        \<and> ev_Type ev = eventDepositSubmitted \<and> a \<in> set (ev_Attributes ev)
        \<and> at_Key a \<notin> set (keys_list K))"

lemma parse_logs_bad:
  assumes "log \<in> set logs" and "bad_log K J log"
  shows "\<exists>err. parseDepositsFromTxResults K J logs = Inl err"
  using assms(1)
proof (induction logs)
  case (Cons x xs)
  from assms(2) obtain msgs m ev a where "log \<noteq> []" "json_Valid J log" "json_Unmarshal J log = Inr msgs"
    "m \<in> set msgs" "ev \<in> set (me_Events m)" "ev_Type ev = eventDepositSubmitted"
    "a \<in> set (ev_Attributes ev)" "at_Key a \<notin> set (keys_list K)" by (auto simp: bad_log_def)
  then have "x = log \<Longrightarrow> \<exists>err. parse_events K (concat (map me_Events msgs)) = Inl err"
    by (intro parse_events_bad [of ev _ a]) auto
  with Cons \<open>log \<noteq> []\<close> \<open>json_Valid J log\<close> \<open>json_Unmarshal J log = Inr msgs\<close> show ?case
    by (auto split: sum.splits)
qed simp

lemma fetchBlockEvents_bad:
  assumes "retry_contract Rb" and "fetchBlockEvents ob Rb h w = (r, w')"
    and "\<And>x res x'. o_BlockResults ob h x = (Inr res, x') \<Longrightarrow>
      \<exists>log \<in> set (br_TxLogs res). bad_log (o_keys ob) (o_decoder ob) log"
  shows "(\<exists>err. r = Returned (Inl err)) \<and> only_ext w w'"
proof -
  obtain q a w1 where run: "DoWithRetry Rb (o_Retries ob) (block_call ob h) (None, w) = (q, (a, w1))"
    by (metis prod.exhaust)
  have x: "only_ext w w'"
    using ext.ends_fetchBlockEvents [OF assms(1) ext.R_refl, of w ob h] assms(2) by (simp add: ensures_def)
  consider (ok) "q = Returned None" | (err) e where "q = Returned (Some e)" | (panic) m where "q = Panic m"
    by (metis go_result.exhaust option.exhaust)
  then show ?thesis
  proof cases
    case ok
    from DoWithRetry_success [OF assms(1) run [unfolded ok]] obtain s where
      s: "block_call ob h s = (Returned None, (a, w1))" by metis
    then obtain x res x' where "o_BlockResults ob h x = (Inr res, x')" and a: "a = Some res"
      by (auto simp: block_call_def ext_call_def split: prod.splits sum.splits)
    from assms(3) [OF this(1)] obtain err where
      "parseDepositsFromTxResults (o_keys ob) (o_decoder ob) (br_TxLogs res) = Inl err"
      using parse_logs_bad by blast
    with run ok a assms(2) x show ?thesis by (auto simp: fetchBlockEvents_def)
  next
    case (err e)
    with run assms(2) x show ?thesis by (auto simp: fetchBlockEvents_def)
  next
    case (panic m)
    from DoWithRetry_panic [OF assms(1) run [unfolded panic]] obtain s where
      "block_call ob h s = (Panic m, (a, w1))" by metis
    then show ?thesis by (auto simp: block_call_def split: prod.splits sum.splits)
  qed
qed

lemma blocks_Update_rows:
  "blocksQ_UpdateLatestBlockId E b w = (r, w') \<Longrightarrow>
     w_deposits w' = w_deposits w \<and> w_signatures w' = w_signatures w \<and> w_cache w' = w_cache w"
  by (auto simp: blocksQ_UpdateLatestBlockId_def db_Exec_def ext_call_def split: prod.splits option.splits)

text \<open>
  C34: One event the service cannot read costs its whole block. If a log of the block contains a
  deposit event with an attribute key that is not among the known ones, a tick at the block's
  height that ends without a panic starts nothing and stores no deposit and no epoch, whatever else
  is in the block. When the current height that the tick read has reached the block, the next height
  is the following one, so the block is never read again; otherwise the height stays.
\<close>

theorem bad_event_drops_block:
  assumes "retry_contract R" and "retry_contract Rb"
    and "\<forall>x res x'. o_BlockResults ob h x = (Inr res, x') \<longrightarrow>
      (\<exists>log \<in> set (br_TxLogs res). bad_log (o_keys ob) (o_decoder ob) log)"
    and "fetchEvents_tick E R Rb ob h w = Some (Returned (h', jobs), w')"
  shows "jobs = [] \<and> w_deposits w' = w_deposits w \<and> w_signatures w' = w_signatures w \<and> w_cache w' = w_cache w
    \<and> h' = (case fst (getCurrentHeight E R (o_Retries ob) w) of
        Returned (Inr current) \<Rightarrow> if h \<le> current then h + 1 else h | _ \<Rightarrow> h)"
proof -
  have rows: "w_deposits v = w_deposits u \<and> w_signatures v = w_signatures u \<and> w_cache v = w_cache u
      \<and> w_latest v = w_latest u" if "only_ext u v" for u v :: "'a world"
    using that by (auto simp: only_ext_def)
  obtain q w1 where g: "getCurrentHeight E R (o_Retries ob) w = (q, w1)" by fastforce
  have x1: "only_ext w w1" using ext.ends_getCurrentHeight [OF assms(1) ext.R_refl, of w E "o_Retries ob"] g
    by (simp add: ensures_def)
  show ?thesis
  proof (cases "q = Returned (Inr (case q of Returned (Inr c) \<Rightarrow> c))")
    case False
    with assms(4) g rows [OF x1] show ?thesis
      by (auto simp: fetchEvents_tick_def split: go_result.splits sum.splits)
  next
    case True
    then obtain c where q: "q = Returned (Inr c)" by blast
    from assms(4) g q obtain y w2 where
      wt: "waitForBlockDistance E R (o_Retries ob) (o_blockDistance ob) h w1 = Some (y, w2)"
      by (auto simp: fetchEvents_tick_def split: option.splits)
    have x2: "only_ext w1 w2" using ext.R_waitForBlockDistance [OF wt assms(1) ext.R_refl] by simp
    obtain e w3 where up: "blocksQ_UpdateLatestBlockId E \<lparr>lb_Id = 0, lb_BlockId = h\<rparr> w2 = (e, w3)" by fastforce
    obtain r w4 where fe: "fetchBlockEvents ob Rb h w3 = (r, w4)" by fastforce
    from fetchBlockEvents_bad [OF assms(2) fe] assms(3) obtain err where
      "r = Returned (Inl err)" and x4: "only_ext w3 w4" by blast
    then show ?thesis
      using assms(4) g q wt up fe rows [OF x1] rows [OF x2] blocks_Update_rows [OF up] rows [OF x4]
      by (auto simp: fetchEvents_tick_def not_less split: go_result.splits option.splits if_splits)
  qed
qed

text \<open>A block with a deposit event of an unknown attribute, at height 5.\<close>

definition demo_bad_observer :: "unit Observer" where
  "demo_bad_observer = demo_observer\<lparr>
     o_BlockResults := (\<lambda>h x. (Inr \<lparr>br_TxLogs = [''log''], br_BeginBlockEvents = []\<rparr>, x)),
     o_decoder := \<lparr>json_Valid = (\<lambda>s. True), json_Unmarshal = (\<lambda>s. Inr [\<lparr>me_MsgIndex = 0,
       me_Events = [\<lparr>ev_Type = ''DEPOSIT_SUBMITTED'', ev_Attributes = [\<lparr>at_Key = ''18'', at_Value = []\<rparr>]\<rparr>]\<rparr>])\<rparr>\<rparr>"

theorem bad_event_drops_block_witness:
  "\<exists>w'. fetchEvents_tick demo_env retry_ref retry_ref demo_bad_observer 5 demo_stored = Some (Returned (6, []), w')
     \<and> w_deposits w' = w_deposits demo_stored"
proof -
  have h: "getCurrentHeight demo_env retry_ref 3 w = (Returned (Inr 7), w)" for w
    by (simp add: getCurrentHeight_def DoWithRetry_def retry_ref.simps abci_call_def ext_call_def
        demo_env_def errors_Wrap_def)
  have wait: "waitForBlockDistance demo_env retry_ref 3 0 5 w = Some (Returned (), w)" for w
    by (subst wait_unfold) (simp add: h stops_def)
  have bad: "bad_log (o_keys demo_bad_observer) (o_decoder demo_bad_observer) ''log''"
    by (auto simp: bad_log_def demo_bad_observer_def demo_observer_def demo_keys_def keys_list_def
        eventDepositSubmitted_def)
  let ?t = "fetchEvents_tick demo_env retry_ref retry_ref demo_bad_observer 5 demo_stored"
  have "\<exists>w'. ?t = Some (Returned (6, []), w')"
    by (simp add: fetchEvents_tick_def h wait Let_def demo_bad_observer_def demo_observer_def fetchBlockEvents_def DoWithRetry_def retry_ref.simps
        block_call_def ext_call_def errors_Wrap_def parseSubmittedDeposit_def parse_deposit_attribute_def
        demo_keys_def eventDepositSubmitted_def blocksQ_UpdateLatestBlockId_def
        sql_ok_db_Exec [OF demo_sql_ok(1)])
  then obtain w' where t: "?t = Some (Returned (6, []), w')" ..
  have "\<forall>x res x'. o_BlockResults demo_bad_observer 5 x = (Inr res, x') \<longrightarrow>
      (\<exists>log \<in> set (br_TxLogs res). bad_log (o_keys demo_bad_observer) (o_decoder demo_bad_observer) log)"
    using bad by (simp add: demo_bad_observer_def)
  from bad_event_drops_block [OF retry_ref_contract retry_ref_contract this t] t show ?thesis by blast
qed

end
