(* ===== verification/Evm_Bindings.thy ===== *)
theory Evm_Bindings
  imports Chain_Core
begin

text \<open>
  \<open>internal/core/chain/evm/contracts/bridge.go\<close>, the generated Go binding of the EVM bridge contract:
  its methods, read-only and paid, over go-ethereum's \<open>BoundContract\<close>, which is a parameter. The
  events are in \<open>Evm_Events\<close>. A transaction is known by its hash. \<open>'x\<close> is the outside world.
\<close>

subsection \<open>Library types\<close>

type_synonym address = bytes

datatype abi_value =
    AUint int | AAddress address | ABytes32 bytes | ABool bool
  | ABytesArray "bytes list" | ABytes32Array "bytes list"
  | AAddressArray "address list" | AUintArray "int list" | AString string | ABytes bytes
  | ABytes4 bytes | AUint16 uint16 | AUint8 byte

fun abi_type :: "abi_value \<Rightarrow> string" where
  "abi_type (AUint i) = ''uint256''"
| "abi_type (AAddress a) = ''address''"
| "abi_type (ABytes32 b) = ''bytes32''"
| "abi_type (ABool b) = ''bool''"
| "abi_type (ABytesArray bs) = ''bytes[]''"
| "abi_type (ABytes32Array bs) = ''bytes32[]''"
| "abi_type (AAddressArray as) = ''address[]''"
| "abi_type (AUintArray is) = ''uint256[]''"
| "abi_type (AString s) = ''string''"
| "abi_type (ABytes b) = ''bytes''"
| "abi_type (ABytes4 b) = ''bytes4''"
| "abi_type (AUint16 i) = ''uint16''"
| "abi_type (AUint8 i) = ''uint8''"

record LegacyTx =
  lt_Nonce :: uint64
  lt_Gas :: uint64
  lt_To :: address
  lt_Value :: "int option"
  lt_GasPrice :: "int option"
  lt_Data :: bytes

record TransactOpts =
  to_From :: address
  to_Nonce :: int
  to_Signer :: "address \<Rightarrow> LegacyTx \<Rightarrow> go_error + bytes"
  to_Value :: "int option"
  to_GasPrice :: "int option"
  to_GasLimit :: uint64

record CallOpts =
  co_Pending :: bool

record FilterOpts =
  fo_Start :: uint64
  fo_End :: "uint64 option"

record WatchOpts =
  wo_Start :: "uint64 option"

record eth_log =
  lg_Address :: address
  lg_Topics :: "bytes list"
  lg_Data :: bytes
  lg_BlockNumber :: uint64
  lg_TxHash :: bytes
  lg_TxIndex :: uint64
  lg_Index :: uint64
  lg_Removed :: bool

text \<open>
  What a \<open>select\<close> over a subscription sees, in order: a log, the value of \<open>sub.Err()\<close> (nil when the
  subscription ends), that the sink took an event, or the signal to quit.
\<close>

datatype log_select = GotLog eth_log | SubErr "go_error option" | Sent | Quit

record 'x bound_contract =
  bc_Call :: "CallOpts \<Rightarrow> string \<Rightarrow> abi_value list \<Rightarrow> 'x \<Rightarrow> (go_error + abi_value list) \<times> 'x"
  bc_Transact :: "TransactOpts \<Rightarrow> string \<Rightarrow> abi_value list \<Rightarrow> 'x \<Rightarrow> (go_error + bytes) \<times> 'x"
  bc_RawTransact :: "TransactOpts \<Rightarrow> bytes \<Rightarrow> 'x \<Rightarrow> (go_error + bytes) \<times> 'x"
  bc_Transfer :: "TransactOpts \<Rightarrow> 'x \<Rightarrow> (go_error + bytes) \<times> 'x"
  bc_FilterLogs :: "FilterOpts \<Rightarrow> string \<Rightarrow> abi_value list list \<Rightarrow> 'x \<Rightarrow> (go_error + log_select list) \<times> 'x"
  bc_WatchLogs :: "WatchOpts \<Rightarrow> string \<Rightarrow> abi_value list list \<Rightarrow> 'x \<Rightarrow> (go_error + log_select list) \<times> 'x"
  bc_UnpackLog :: "string \<Rightarrow> eth_log \<Rightarrow> abi_value list \<times> go_error option"

subsection \<open>The binding\<close>

record 'x BridgeCaller = brc_contract :: "'x bound_contract"
record 'x BridgeTransactor = brt_contract :: "'x bound_contract"
record 'x BridgeFilterer = brf_contract :: "'x bound_contract"

record 'x Bridge =
  br_Caller :: "'x BridgeCaller"
  br_Transactor :: "'x BridgeTransactor"
  br_Filterer :: "'x BridgeFilterer"

record 'x BridgeSession =
  bse_Contract :: "'x Bridge"
  bse_CallOpts :: CallOpts
  bse_TransactOpts :: TransactOpts

record 'x BridgeCallerSession =
  bcs_Contract :: "'x BridgeCaller"
  bcs_CallOpts :: CallOpts

record 'x BridgeTransactorSession =
  bts_Contract :: "'x BridgeTransactor"
  bts_TransactOpts :: TransactOpts

text \<open>\<open>MetaData.GetAbi\<close> and \<open>bind.NewBoundContract\<close>; a back end that is not given is \<open>None\<close>.\<close>

record ('a, 'b, 'x) bind_lib =
  bl_GetAbi :: "go_error + 'a"
  bl_NewBoundContract :: "address \<Rightarrow> 'a \<Rightarrow> 'b option \<Rightarrow> 'b option \<Rightarrow> 'b option \<Rightarrow> 'x bound_contract"

definition bindBridge ::
  "('a, 'b, 'x) bind_lib \<Rightarrow> address \<Rightarrow> 'b option \<Rightarrow> 'b option \<Rightarrow> 'b option \<Rightarrow> go_error + 'x bound_contract" where
  "bindBridge B addr caller transactor filterer = (case bl_GetAbi B of
     Inl err \<Rightarrow> Inl err | Inr parsed \<Rightarrow> Inr (bl_NewBoundContract B addr parsed caller transactor filterer))"

definition NewBridge :: "('a, 'b, 'x) bind_lib \<Rightarrow> address \<Rightarrow> 'b \<Rightarrow> go_error + 'x Bridge" where
  "NewBridge B addr backend = (case bindBridge B addr (Some backend) (Some backend) (Some backend) of
     Inl err \<Rightarrow> Inl err
   | Inr contract \<Rightarrow> Inr \<lparr>br_Caller = \<lparr>brc_contract = contract\<rparr>, br_Transactor = \<lparr>brt_contract = contract\<rparr>,
       br_Filterer = \<lparr>brf_contract = contract\<rparr>\<rparr>)"

definition NewBridgeCaller :: "('a, 'b, 'x) bind_lib \<Rightarrow> address \<Rightarrow> 'b \<Rightarrow> go_error + 'x BridgeCaller" where
  "NewBridgeCaller B addr caller = (case bindBridge B addr (Some caller) None None of
     Inl err \<Rightarrow> Inl err | Inr contract \<Rightarrow> Inr \<lparr>brc_contract = contract\<rparr>)"

definition NewBridgeTransactor :: "('a, 'b, 'x) bind_lib \<Rightarrow> address \<Rightarrow> 'b \<Rightarrow> go_error + 'x BridgeTransactor" where
  "NewBridgeTransactor B addr transactor = (case bindBridge B addr None (Some transactor) None of
     Inl err \<Rightarrow> Inl err | Inr contract \<Rightarrow> Inr \<lparr>brt_contract = contract\<rparr>)"

definition NewBridgeFilterer :: "('a, 'b, 'x) bind_lib \<Rightarrow> address \<Rightarrow> 'b \<Rightarrow> go_error + 'x BridgeFilterer" where
  "NewBridgeFilterer B addr filterer = (case bindBridge B addr None None (Some filterer) of
     Inl err \<Rightarrow> Inl err | Inr contract \<Rightarrow> Inr \<lparr>brf_contract = contract\<rparr>)"

text \<open>The raw access, by method name. \<open>BridgeRaw\<close> holds the whole binding, the other two a part of it.\<close>

definition BridgeRaw_Call ::
  "'x Bridge \<Rightarrow> CallOpts \<Rightarrow> string \<Rightarrow> abi_value list \<Rightarrow> 'x \<Rightarrow> (go_error + abi_value list) \<times> 'x" where
  "BridgeRaw_Call raw opts m params x = bc_Call (brc_contract (br_Caller raw)) opts m params x"

definition BridgeRaw_Transfer :: "'x Bridge \<Rightarrow> TransactOpts \<Rightarrow> 'x \<Rightarrow> (go_error + bytes) \<times> 'x" where
  "BridgeRaw_Transfer raw opts x = bc_Transfer (brt_contract (br_Transactor raw)) opts x"

definition BridgeRaw_Transact ::
  "'x Bridge \<Rightarrow> TransactOpts \<Rightarrow> string \<Rightarrow> abi_value list \<Rightarrow> 'x \<Rightarrow> (go_error + bytes) \<times> 'x" where
  "BridgeRaw_Transact raw opts m params x = bc_Transact (brt_contract (br_Transactor raw)) opts m params x"

definition BridgeCallerRaw_Call ::
  "'x BridgeCaller \<Rightarrow> CallOpts \<Rightarrow> string \<Rightarrow> abi_value list \<Rightarrow> 'x \<Rightarrow> (go_error + abi_value list) \<times> 'x" where
  "BridgeCallerRaw_Call raw opts m params x = bc_Call (brc_contract raw) opts m params x"

definition BridgeTransactorRaw_Transfer :: "'x BridgeTransactor \<Rightarrow> TransactOpts \<Rightarrow> 'x \<Rightarrow> (go_error + bytes) \<times> 'x" where
  "BridgeTransactorRaw_Transfer raw opts x = bc_Transfer (brt_contract raw) opts x"

definition BridgeTransactorRaw_Transact ::
  "'x BridgeTransactor \<Rightarrow> TransactOpts \<Rightarrow> string \<Rightarrow> abi_value list \<Rightarrow> 'x \<Rightarrow> (go_error + bytes) \<times> 'x" where
  "BridgeTransactorRaw_Transact raw opts m params x = bc_Transact (brt_contract raw) opts m params x"

subsection \<open>Methods\<close>

text \<open>
  The end of every read-only method: an error is returned; else the first output is converted
  to the result type, and a missing or wrong output panics.
\<close>

definition call_out ::
  "(abi_value \<Rightarrow> 'r option) \<Rightarrow> (go_error + abi_value list) \<times> 'x \<Rightarrow> ('r, 'x) go_call" where
  "call_out conv r = (case r of
     (Inl err, x) \<Rightarrow> (Returned (Inl err), x)
   | (Inr [], x) \<Rightarrow> (Panic ''index out of range'', x)
   | (Inr (out0 # outs), x) \<Rightarrow> (case conv out0 of
       None \<Rightarrow> (Panic ''abi: cannot convert'', x) | Some v \<Rightarrow> (Returned (Inr v), x)))"

definition as_bool :: "abi_value \<Rightarrow> bool option" where
  "as_bool v = (case v of ABool b \<Rightarrow> Some b | _ \<Rightarrow> None)"
definition as_bytes32 :: "abi_value \<Rightarrow> bytes option" where
  "as_bytes32 v = (case v of ABytes32 b \<Rightarrow> Some b | _ \<Rightarrow> None)"
definition as_address :: "abi_value \<Rightarrow> address option" where
  "as_address v = (case v of AAddress a \<Rightarrow> Some a | _ \<Rightarrow> None)"
definition as_addresses :: "abi_value \<Rightarrow> address list option" where
  "as_addresses v = (case v of AAddressArray as \<Rightarrow> Some as | _ \<Rightarrow> None)"
definition as_uint :: "abi_value \<Rightarrow> int option" where
  "as_uint v = (case v of AUint i \<Rightarrow> Some i | _ \<Rightarrow> None)"

definition BridgeCaller_ContainsHash ::
  "'x BridgeCaller \<Rightarrow> CallOpts \<Rightarrow> bytes \<Rightarrow> int \<Rightarrow> 'x \<Rightarrow> (bool, 'x) go_call" where
  "BridgeCaller_ContainsHash br opts txHash txNonce x =
     call_out as_bool (bc_Call (brc_contract br) opts ''containsHash'' [ABytes32 txHash, AUint txNonce] x)"

definition BridgeCaller_GetERC1155SignHash ::
  "'x BridgeCaller \<Rightarrow> CallOpts \<Rightarrow> address \<Rightarrow> int \<Rightarrow> int \<Rightarrow> address \<Rightarrow> bytes \<Rightarrow> int \<Rightarrow> int \<Rightarrow> string \<Rightarrow> bool \<Rightarrow> 'x \<Rightarrow> (bytes, 'x) go_call" where
  "BridgeCaller_GetERC1155SignHash br opts token tokenId amount receiver txHash txNonce chainId tokenURI isWrapped x =
     call_out as_bytes32 (bc_Call (brc_contract br) opts ''getERC1155SignHash'' [AAddress token, AUint tokenId, AUint amount, AAddress receiver, ABytes32 txHash, AUint txNonce, AUint chainId, AString tokenURI, ABool isWrapped] x)"

definition BridgeCaller_GetERC20SignHash ::
  "'x BridgeCaller \<Rightarrow> CallOpts \<Rightarrow> address \<Rightarrow> int \<Rightarrow> address \<Rightarrow> bytes \<Rightarrow> int \<Rightarrow> int \<Rightarrow> bool \<Rightarrow> 'x \<Rightarrow> (bytes, 'x) go_call" where
  "BridgeCaller_GetERC20SignHash br opts token amount receiver txHash txNonce chainId isWrapped x =
     call_out as_bytes32 (bc_Call (brc_contract br) opts ''getERC20SignHash'' [AAddress token, AUint amount, AAddress receiver, ABytes32 txHash, AUint txNonce, AUint chainId, ABool isWrapped] x)"

definition BridgeCaller_GetERC721SignHash ::
  "'x BridgeCaller \<Rightarrow> CallOpts \<Rightarrow> address \<Rightarrow> int \<Rightarrow> address \<Rightarrow> bytes \<Rightarrow> int \<Rightarrow> int \<Rightarrow> string \<Rightarrow> bool \<Rightarrow> 'x \<Rightarrow> (bytes, 'x) go_call" where
  "BridgeCaller_GetERC721SignHash br opts token tokenId receiver txHash txNonce chainId tokenURI isWrapped x =
     call_out as_bytes32 (bc_Call (brc_contract br) opts ''getERC721SignHash'' [AAddress token, AUint tokenId, AAddress receiver, ABytes32 txHash, AUint txNonce, AUint chainId, AString tokenURI, ABool isWrapped] x)"

definition BridgeCaller_GetNativeSignHash ::
  "'x BridgeCaller \<Rightarrow> CallOpts \<Rightarrow> int \<Rightarrow> address \<Rightarrow> bytes \<Rightarrow> int \<Rightarrow> int \<Rightarrow> 'x \<Rightarrow> (bytes, 'x) go_call" where
  "BridgeCaller_GetNativeSignHash br opts amount receiver txHash txNonce chainId x =
     call_out as_bytes32 (bc_Call (brc_contract br) opts ''getNativeSignHash'' [AUint amount, AAddress receiver, ABytes32 txHash, AUint txNonce, AUint chainId] x)"

definition BridgeCaller_GetSigners ::
  "'x BridgeCaller \<Rightarrow> CallOpts \<Rightarrow> 'x \<Rightarrow> (address list, 'x) go_call" where
  "BridgeCaller_GetSigners br opts x =
     call_out as_addresses (bc_Call (brc_contract br) opts ''getSigners'' [] x)"

definition BridgeCaller_GetUpdateSignersSignHash ::
  "'x BridgeCaller \<Rightarrow> CallOpts \<Rightarrow> address \<Rightarrow> int \<Rightarrow> int \<Rightarrow> int \<Rightarrow> bool \<Rightarrow> 'x \<Rightarrow> (bytes, 'x) go_call" where
  "BridgeCaller_GetUpdateSignersSignHash br opts signerToUpdate startTime deadline txNonce isAdding x =
     call_out as_bytes32 (bc_Call (brc_contract br) opts ''getUpdateSignersSignHash'' [AAddress signerToUpdate, AUint startTime, AUint deadline, AUint txNonce, ABool isAdding] x)"

definition BridgeCaller_Owner ::
  "'x BridgeCaller \<Rightarrow> CallOpts \<Rightarrow> 'x \<Rightarrow> (address, 'x) go_call" where
  "BridgeCaller_Owner br opts x =
     call_out as_address (bc_Call (brc_contract br) opts ''owner'' [] x)"

definition BridgeCaller_ProxiableUUID ::
  "'x BridgeCaller \<Rightarrow> CallOpts \<Rightarrow> 'x \<Rightarrow> (bytes, 'x) go_call" where
  "BridgeCaller_ProxiableUUID br opts x =
     call_out as_bytes32 (bc_Call (brc_contract br) opts ''proxiableUUID'' [] x)"

definition BridgeCaller_SignaturesThreshold ::
  "'x BridgeCaller \<Rightarrow> CallOpts \<Rightarrow> 'x \<Rightarrow> (int, 'x) go_call" where
  "BridgeCaller_SignaturesThreshold br opts x =
     call_out as_uint (bc_Call (brc_contract br) opts ''signaturesThreshold'' [] x)"

definition BridgeCaller_SupportsInterface ::
  "'x BridgeCaller \<Rightarrow> CallOpts \<Rightarrow> bytes \<Rightarrow> 'x \<Rightarrow> (bool, 'x) go_call" where
  "BridgeCaller_SupportsInterface br opts interfaceId x =
     call_out as_bool (bc_Call (brc_contract br) opts ''supportsInterface'' [ABytes4 interfaceId] x)"

definition BridgeCaller_UsedHashes ::
  "'x BridgeCaller \<Rightarrow> CallOpts \<Rightarrow> bytes \<Rightarrow> 'x \<Rightarrow> (bool, 'x) go_call" where
  "BridgeCaller_UsedHashes br opts arg0 x =
     call_out as_bool (bc_Call (brc_contract br) opts ''usedHashes'' [ABytes32 arg0] x)"

definition BridgeTransactor_BridgeInit ::
  "'x BridgeTransactor \<Rightarrow> TransactOpts \<Rightarrow> address list \<Rightarrow> int \<Rightarrow> 'x \<Rightarrow> (go_error + bytes) \<times> 'x" where
  "BridgeTransactor_BridgeInit br opts signers signaturesThreshold x =
     bc_Transact (brt_contract br) opts ''__Bridge_init'' [AAddressArray signers, AUint signaturesThreshold] x"

definition BridgeTransactor_SignersInit ::
  "'x BridgeTransactor \<Rightarrow> TransactOpts \<Rightarrow> address list \<Rightarrow> int \<Rightarrow> 'x \<Rightarrow> (go_error + bytes) \<times> 'x" where
  "BridgeTransactor_SignersInit br opts signers signaturesThreshold x =
     bc_Transact (brt_contract br) opts ''__Signers_init'' [AAddressArray signers, AUint signaturesThreshold] x"

definition BridgeTransactor_AddHash ::
  "'x BridgeTransactor \<Rightarrow> TransactOpts \<Rightarrow> bytes \<Rightarrow> int \<Rightarrow> 'x \<Rightarrow> (go_error + bytes) \<times> 'x" where
  "BridgeTransactor_AddHash br opts txHash txNonce x =
     bc_Transact (brt_contract br) opts ''addHash'' [ABytes32 txHash, AUint txNonce] x"

definition BridgeTransactor_AddSigners ::
  "'x BridgeTransactor \<Rightarrow> TransactOpts \<Rightarrow> address list \<Rightarrow> 'x \<Rightarrow> (go_error + bytes) \<times> 'x" where
  "BridgeTransactor_AddSigners br opts signers x =
     bc_Transact (brt_contract br) opts ''addSigners'' [AAddressArray signers] x"

definition BridgeTransactor_DepositERC1155 ::
  "'x BridgeTransactor \<Rightarrow> TransactOpts \<Rightarrow> address \<Rightarrow> int \<Rightarrow> int \<Rightarrow> string \<Rightarrow> string \<Rightarrow> bool \<Rightarrow> uint16 \<Rightarrow> 'x \<Rightarrow> (go_error + bytes) \<times> 'x" where
  "BridgeTransactor_DepositERC1155 br opts token tokenId amount receiver network isWrapped referralId x =
     bc_Transact (brt_contract br) opts ''depositERC1155'' [AAddress token, AUint tokenId, AUint amount, AString receiver, AString network, ABool isWrapped, AUint16 referralId] x"

definition BridgeTransactor_DepositERC20 ::
  "'x BridgeTransactor \<Rightarrow> TransactOpts \<Rightarrow> address \<Rightarrow> int \<Rightarrow> string \<Rightarrow> string \<Rightarrow> bool \<Rightarrow> uint16 \<Rightarrow> 'x \<Rightarrow> (go_error + bytes) \<times> 'x" where
  "BridgeTransactor_DepositERC20 br opts token amount receiver network isWrapped referralId x =
     bc_Transact (brt_contract br) opts ''depositERC20'' [AAddress token, AUint amount, AString receiver, AString network, ABool isWrapped, AUint16 referralId] x"

definition BridgeTransactor_DepositERC721 ::
  "'x BridgeTransactor \<Rightarrow> TransactOpts \<Rightarrow> address \<Rightarrow> int \<Rightarrow> string \<Rightarrow> string \<Rightarrow> bool \<Rightarrow> uint16 \<Rightarrow> 'x \<Rightarrow> (go_error + bytes) \<times> 'x" where
  "BridgeTransactor_DepositERC721 br opts token tokenId receiver network isWrapped referralId x =
     bc_Transact (brt_contract br) opts ''depositERC721'' [AAddress token, AUint tokenId, AString receiver, AString network, ABool isWrapped, AUint16 referralId] x"

definition BridgeTransactor_DepositNative ::
  "'x BridgeTransactor \<Rightarrow> TransactOpts \<Rightarrow> string \<Rightarrow> string \<Rightarrow> uint16 \<Rightarrow> 'x \<Rightarrow> (go_error + bytes) \<times> 'x" where
  "BridgeTransactor_DepositNative br opts receiver network referralId x =
     bc_Transact (brt_contract br) opts ''depositNative'' [AString receiver, AString network, AUint16 referralId] x"

definition BridgeTransactor_OnERC1155BatchReceived ::
  "'x BridgeTransactor \<Rightarrow> TransactOpts \<Rightarrow> address \<Rightarrow> address \<Rightarrow> int list \<Rightarrow> int list \<Rightarrow> bytes \<Rightarrow> 'x \<Rightarrow> (go_error + bytes) \<times> 'x" where
  "BridgeTransactor_OnERC1155BatchReceived br opts arg0 arg1 arg2 arg3 arg4 x =
     bc_Transact (brt_contract br) opts ''onERC1155BatchReceived'' [AAddress arg0, AAddress arg1, AUintArray arg2, AUintArray arg3, ABytes arg4] x"

definition BridgeTransactor_OnERC1155Received ::
  "'x BridgeTransactor \<Rightarrow> TransactOpts \<Rightarrow> address \<Rightarrow> address \<Rightarrow> int \<Rightarrow> int \<Rightarrow> bytes \<Rightarrow> 'x \<Rightarrow> (go_error + bytes) \<times> 'x" where
  "BridgeTransactor_OnERC1155Received br opts arg0 arg1 arg2 arg3 arg4 x =
     bc_Transact (brt_contract br) opts ''onERC1155Received'' [AAddress arg0, AAddress arg1, AUint arg2, AUint arg3, ABytes arg4] x"

definition BridgeTransactor_OnERC721Received ::
  "'x BridgeTransactor \<Rightarrow> TransactOpts \<Rightarrow> address \<Rightarrow> address \<Rightarrow> int \<Rightarrow> bytes \<Rightarrow> 'x \<Rightarrow> (go_error + bytes) \<times> 'x" where
  "BridgeTransactor_OnERC721Received br opts arg0 arg1 arg2 arg3 x =
     bc_Transact (brt_contract br) opts ''onERC721Received'' [AAddress arg0, AAddress arg1, AUint arg2, ABytes arg3] x"

definition BridgeTransactor_RemoveSigners ::
  "'x BridgeTransactor \<Rightarrow> TransactOpts \<Rightarrow> address list \<Rightarrow> 'x \<Rightarrow> (go_error + bytes) \<times> 'x" where
  "BridgeTransactor_RemoveSigners br opts signers x =
     bc_Transact (brt_contract br) opts ''removeSigners'' [AAddressArray signers] x"

definition BridgeTransactor_RenounceOwnership ::
  "'x BridgeTransactor \<Rightarrow> TransactOpts \<Rightarrow> 'x \<Rightarrow> (go_error + bytes) \<times> 'x" where
  "BridgeTransactor_RenounceOwnership br opts x =
     bc_Transact (brt_contract br) opts ''renounceOwnership'' [] x"

definition BridgeTransactor_SetSignaturesThreshold ::
  "'x BridgeTransactor \<Rightarrow> TransactOpts \<Rightarrow> int \<Rightarrow> 'x \<Rightarrow> (go_error + bytes) \<times> 'x" where
  "BridgeTransactor_SetSignaturesThreshold br opts signaturesThreshold x =
     bc_Transact (brt_contract br) opts ''setSignaturesThreshold'' [AUint signaturesThreshold] x"

definition BridgeTransactor_TransferOwnership ::
  "'x BridgeTransactor \<Rightarrow> TransactOpts \<Rightarrow> address \<Rightarrow> 'x \<Rightarrow> (go_error + bytes) \<times> 'x" where
  "BridgeTransactor_TransferOwnership br opts newOwner x =
     bc_Transact (brt_contract br) opts ''transferOwnership'' [AAddress newOwner] x"

definition BridgeTransactor_UpdateSigner ::
  "'x BridgeTransactor \<Rightarrow> TransactOpts \<Rightarrow> address \<Rightarrow> int \<Rightarrow> int \<Rightarrow> int \<Rightarrow> bool \<Rightarrow> bytes list \<Rightarrow> 'x \<Rightarrow> (go_error + bytes) \<times> 'x" where
  "BridgeTransactor_UpdateSigner br opts signerToUpdate startTime deadline txNonce isAdding signatures x =
     bc_Transact (brt_contract br) opts ''updateSigner'' [AAddress signerToUpdate, AUint startTime, AUint deadline, AUint txNonce, ABool isAdding, ABytesArray signatures] x"

definition BridgeTransactor_UpgradeTo ::
  "'x BridgeTransactor \<Rightarrow> TransactOpts \<Rightarrow> address \<Rightarrow> 'x \<Rightarrow> (go_error + bytes) \<times> 'x" where
  "BridgeTransactor_UpgradeTo br opts newImplementation x =
     bc_Transact (brt_contract br) opts ''upgradeTo'' [AAddress newImplementation] x"

definition BridgeTransactor_UpgradeToAndCall ::
  "'x BridgeTransactor \<Rightarrow> TransactOpts \<Rightarrow> address \<Rightarrow> bytes \<Rightarrow> 'x \<Rightarrow> (go_error + bytes) \<times> 'x" where
  "BridgeTransactor_UpgradeToAndCall br opts newImplementation data x =
     bc_Transact (brt_contract br) opts ''upgradeToAndCall'' [AAddress newImplementation, ABytes data] x"

definition BridgeTransactor_WithdrawERC1155 ::
  "'x BridgeTransactor \<Rightarrow> TransactOpts \<Rightarrow> address \<Rightarrow> int \<Rightarrow> int \<Rightarrow> address \<Rightarrow> bytes \<Rightarrow> int \<Rightarrow> string \<Rightarrow> bool \<Rightarrow> bytes list \<Rightarrow> 'x \<Rightarrow> (go_error + bytes) \<times> 'x" where
  "BridgeTransactor_WithdrawERC1155 br opts token tokenId amount receiver txHash txNonce tokenURI isWrapped signatures x =
     bc_Transact (brt_contract br) opts ''withdrawERC1155'' [AAddress token, AUint tokenId, AUint amount, AAddress receiver, ABytes32 txHash, AUint txNonce, AString tokenURI, ABool isWrapped, ABytesArray signatures] x"

definition BridgeTransactor_WithdrawERC20 ::
  "'x BridgeTransactor \<Rightarrow> TransactOpts \<Rightarrow> address \<Rightarrow> int \<Rightarrow> address \<Rightarrow> bytes \<Rightarrow> int \<Rightarrow> bool \<Rightarrow> bytes list \<Rightarrow> 'x \<Rightarrow> (go_error + bytes) \<times> 'x" where
  "BridgeTransactor_WithdrawERC20 br opts token amount receiver txHash txNonce isWrapped signatures x =
     bc_Transact (brt_contract br) opts ''withdrawERC20'' [AAddress token, AUint amount, AAddress receiver, ABytes32 txHash, AUint txNonce, ABool isWrapped, ABytesArray signatures] x"

definition BridgeTransactor_WithdrawERC20Merkelized ::
  "'x BridgeTransactor \<Rightarrow> TransactOpts \<Rightarrow> address \<Rightarrow> int \<Rightarrow> address \<Rightarrow> bytes \<Rightarrow> int \<Rightarrow> bool \<Rightarrow> bytes list \<Rightarrow> bytes list \<Rightarrow> 'x \<Rightarrow> (go_error + bytes) \<times> 'x" where
  "BridgeTransactor_WithdrawERC20Merkelized br opts token amount receiver txHash txNonce isWrapped merkleProof signatures x =
     bc_Transact (brt_contract br) opts ''withdrawERC20Merkelized'' [AAddress token, AUint amount, AAddress receiver, ABytes32 txHash, AUint txNonce, ABool isWrapped, ABytes32Array merkleProof, ABytesArray signatures] x"

definition BridgeTransactor_WithdrawERC721 ::
  "'x BridgeTransactor \<Rightarrow> TransactOpts \<Rightarrow> address \<Rightarrow> int \<Rightarrow> address \<Rightarrow> bytes \<Rightarrow> int \<Rightarrow> string \<Rightarrow> bool \<Rightarrow> bytes list \<Rightarrow> 'x \<Rightarrow> (go_error + bytes) \<times> 'x" where
  "BridgeTransactor_WithdrawERC721 br opts token tokenId receiver txHash txNonce tokenURI isWrapped signatures x =
     bc_Transact (brt_contract br) opts ''withdrawERC721'' [AAddress token, AUint tokenId, AAddress receiver, ABytes32 txHash, AUint txNonce, AString tokenURI, ABool isWrapped, ABytesArray signatures] x"

definition BridgeTransactor_WithdrawNative ::
  "'x BridgeTransactor \<Rightarrow> TransactOpts \<Rightarrow> int \<Rightarrow> address \<Rightarrow> bytes \<Rightarrow> int \<Rightarrow> bytes list \<Rightarrow> 'x \<Rightarrow> (go_error + bytes) \<times> 'x" where
  "BridgeTransactor_WithdrawNative br opts amount receiver txHash txNonce signatures x =
     bc_Transact (brt_contract br) opts ''withdrawNative'' [AUint amount, AAddress receiver, ABytes32 txHash, AUint txNonce, ABytesArray signatures] x"

definition BridgeTransactor_WithdrawNativeMerkelized ::
  "'x BridgeTransactor \<Rightarrow> TransactOpts \<Rightarrow> int \<Rightarrow> address \<Rightarrow> bytes \<Rightarrow> int \<Rightarrow> bytes list \<Rightarrow> bytes list \<Rightarrow> 'x \<Rightarrow> (go_error + bytes) \<times> 'x" where
  "BridgeTransactor_WithdrawNativeMerkelized br opts amount receiver txHash txNonce merkleProof signatures x =
     bc_Transact (brt_contract br) opts ''withdrawNativeMerkelized'' [AUint amount, AAddress receiver, ABytes32 txHash, AUint txNonce, ABytes32Array merkleProof, ABytesArray signatures] x"

definition BridgeTransactor_Receive ::
  "'x BridgeTransactor \<Rightarrow> TransactOpts \<Rightarrow> 'x \<Rightarrow> (go_error + bytes) \<times> 'x" where
  "BridgeTransactor_Receive br opts x =
     bc_RawTransact (brt_contract br) opts [] x"

subsection \<open>Sessions\<close>

definition BridgeSession_ContainsHash :: "'x BridgeSession \<Rightarrow> bytes \<Rightarrow> int \<Rightarrow> 'x \<Rightarrow> (bool, 'x) go_call" where
  "BridgeSession_ContainsHash s txHash txNonce x = BridgeCaller_ContainsHash (br_Caller (bse_Contract s)) (bse_CallOpts s) txHash txNonce x"

definition BridgeCallerSession_ContainsHash :: "'x BridgeCallerSession \<Rightarrow> bytes \<Rightarrow> int \<Rightarrow> 'x \<Rightarrow> (bool, 'x) go_call" where
  "BridgeCallerSession_ContainsHash s txHash txNonce x = BridgeCaller_ContainsHash (bcs_Contract s) (bcs_CallOpts s) txHash txNonce x"

definition BridgeSession_GetERC1155SignHash :: "'x BridgeSession \<Rightarrow> address \<Rightarrow> int \<Rightarrow> int \<Rightarrow> address \<Rightarrow> bytes \<Rightarrow> int \<Rightarrow> int \<Rightarrow> string \<Rightarrow> bool \<Rightarrow> 'x \<Rightarrow> (bytes, 'x) go_call" where
  "BridgeSession_GetERC1155SignHash s token tokenId amount receiver txHash txNonce chainId tokenURI isWrapped x = BridgeCaller_GetERC1155SignHash (br_Caller (bse_Contract s)) (bse_CallOpts s) token tokenId amount receiver txHash txNonce chainId tokenURI isWrapped x"

definition BridgeCallerSession_GetERC1155SignHash :: "'x BridgeCallerSession \<Rightarrow> address \<Rightarrow> int \<Rightarrow> int \<Rightarrow> address \<Rightarrow> bytes \<Rightarrow> int \<Rightarrow> int \<Rightarrow> string \<Rightarrow> bool \<Rightarrow> 'x \<Rightarrow> (bytes, 'x) go_call" where
  "BridgeCallerSession_GetERC1155SignHash s token tokenId amount receiver txHash txNonce chainId tokenURI isWrapped x = BridgeCaller_GetERC1155SignHash (bcs_Contract s) (bcs_CallOpts s) token tokenId amount receiver txHash txNonce chainId tokenURI isWrapped x"

definition BridgeSession_GetERC20SignHash :: "'x BridgeSession \<Rightarrow> address \<Rightarrow> int \<Rightarrow> address \<Rightarrow> bytes \<Rightarrow> int \<Rightarrow> int \<Rightarrow> bool \<Rightarrow> 'x \<Rightarrow> (bytes, 'x) go_call" where
  "BridgeSession_GetERC20SignHash s token amount receiver txHash txNonce chainId isWrapped x = BridgeCaller_GetERC20SignHash (br_Caller (bse_Contract s)) (bse_CallOpts s) token amount receiver txHash txNonce chainId isWrapped x"

definition BridgeCallerSession_GetERC20SignHash :: "'x BridgeCallerSession \<Rightarrow> address \<Rightarrow> int \<Rightarrow> address \<Rightarrow> bytes \<Rightarrow> int \<Rightarrow> int \<Rightarrow> bool \<Rightarrow> 'x \<Rightarrow> (bytes, 'x) go_call" where
  "BridgeCallerSession_GetERC20SignHash s token amount receiver txHash txNonce chainId isWrapped x = BridgeCaller_GetERC20SignHash (bcs_Contract s) (bcs_CallOpts s) token amount receiver txHash txNonce chainId isWrapped x"

definition BridgeSession_GetERC721SignHash :: "'x BridgeSession \<Rightarrow> address \<Rightarrow> int \<Rightarrow> address \<Rightarrow> bytes \<Rightarrow> int \<Rightarrow> int \<Rightarrow> string \<Rightarrow> bool \<Rightarrow> 'x \<Rightarrow> (bytes, 'x) go_call" where
  "BridgeSession_GetERC721SignHash s token tokenId receiver txHash txNonce chainId tokenURI isWrapped x = BridgeCaller_GetERC721SignHash (br_Caller (bse_Contract s)) (bse_CallOpts s) token tokenId receiver txHash txNonce chainId tokenURI isWrapped x"

definition BridgeCallerSession_GetERC721SignHash :: "'x BridgeCallerSession \<Rightarrow> address \<Rightarrow> int \<Rightarrow> address \<Rightarrow> bytes \<Rightarrow> int \<Rightarrow> int \<Rightarrow> string \<Rightarrow> bool \<Rightarrow> 'x \<Rightarrow> (bytes, 'x) go_call" where
  "BridgeCallerSession_GetERC721SignHash s token tokenId receiver txHash txNonce chainId tokenURI isWrapped x = BridgeCaller_GetERC721SignHash (bcs_Contract s) (bcs_CallOpts s) token tokenId receiver txHash txNonce chainId tokenURI isWrapped x"

definition BridgeSession_GetNativeSignHash :: "'x BridgeSession \<Rightarrow> int \<Rightarrow> address \<Rightarrow> bytes \<Rightarrow> int \<Rightarrow> int \<Rightarrow> 'x \<Rightarrow> (bytes, 'x) go_call" where
  "BridgeSession_GetNativeSignHash s amount receiver txHash txNonce chainId x = BridgeCaller_GetNativeSignHash (br_Caller (bse_Contract s)) (bse_CallOpts s) amount receiver txHash txNonce chainId x"

definition BridgeCallerSession_GetNativeSignHash :: "'x BridgeCallerSession \<Rightarrow> int \<Rightarrow> address \<Rightarrow> bytes \<Rightarrow> int \<Rightarrow> int \<Rightarrow> 'x \<Rightarrow> (bytes, 'x) go_call" where
  "BridgeCallerSession_GetNativeSignHash s amount receiver txHash txNonce chainId x = BridgeCaller_GetNativeSignHash (bcs_Contract s) (bcs_CallOpts s) amount receiver txHash txNonce chainId x"

definition BridgeSession_GetSigners :: "'x BridgeSession \<Rightarrow> 'x \<Rightarrow> (address list, 'x) go_call" where
  "BridgeSession_GetSigners s x = BridgeCaller_GetSigners (br_Caller (bse_Contract s)) (bse_CallOpts s) x"

definition BridgeCallerSession_GetSigners :: "'x BridgeCallerSession \<Rightarrow> 'x \<Rightarrow> (address list, 'x) go_call" where
  "BridgeCallerSession_GetSigners s x = BridgeCaller_GetSigners (bcs_Contract s) (bcs_CallOpts s) x"

definition BridgeSession_GetUpdateSignersSignHash :: "'x BridgeSession \<Rightarrow> address \<Rightarrow> int \<Rightarrow> int \<Rightarrow> int \<Rightarrow> bool \<Rightarrow> 'x \<Rightarrow> (bytes, 'x) go_call" where
  "BridgeSession_GetUpdateSignersSignHash s signerToUpdate startTime deadline txNonce isAdding x = BridgeCaller_GetUpdateSignersSignHash (br_Caller (bse_Contract s)) (bse_CallOpts s) signerToUpdate startTime deadline txNonce isAdding x"

definition BridgeCallerSession_GetUpdateSignersSignHash :: "'x BridgeCallerSession \<Rightarrow> address \<Rightarrow> int \<Rightarrow> int \<Rightarrow> int \<Rightarrow> bool \<Rightarrow> 'x \<Rightarrow> (bytes, 'x) go_call" where
  "BridgeCallerSession_GetUpdateSignersSignHash s signerToUpdate startTime deadline txNonce isAdding x = BridgeCaller_GetUpdateSignersSignHash (bcs_Contract s) (bcs_CallOpts s) signerToUpdate startTime deadline txNonce isAdding x"

definition BridgeSession_Owner :: "'x BridgeSession \<Rightarrow> 'x \<Rightarrow> (address, 'x) go_call" where
  "BridgeSession_Owner s x = BridgeCaller_Owner (br_Caller (bse_Contract s)) (bse_CallOpts s) x"

definition BridgeCallerSession_Owner :: "'x BridgeCallerSession \<Rightarrow> 'x \<Rightarrow> (address, 'x) go_call" where
  "BridgeCallerSession_Owner s x = BridgeCaller_Owner (bcs_Contract s) (bcs_CallOpts s) x"

definition BridgeSession_ProxiableUUID :: "'x BridgeSession \<Rightarrow> 'x \<Rightarrow> (bytes, 'x) go_call" where
  "BridgeSession_ProxiableUUID s x = BridgeCaller_ProxiableUUID (br_Caller (bse_Contract s)) (bse_CallOpts s) x"

definition BridgeCallerSession_ProxiableUUID :: "'x BridgeCallerSession \<Rightarrow> 'x \<Rightarrow> (bytes, 'x) go_call" where
  "BridgeCallerSession_ProxiableUUID s x = BridgeCaller_ProxiableUUID (bcs_Contract s) (bcs_CallOpts s) x"

definition BridgeSession_SignaturesThreshold :: "'x BridgeSession \<Rightarrow> 'x \<Rightarrow> (int, 'x) go_call" where
  "BridgeSession_SignaturesThreshold s x = BridgeCaller_SignaturesThreshold (br_Caller (bse_Contract s)) (bse_CallOpts s) x"

definition BridgeCallerSession_SignaturesThreshold :: "'x BridgeCallerSession \<Rightarrow> 'x \<Rightarrow> (int, 'x) go_call" where
  "BridgeCallerSession_SignaturesThreshold s x = BridgeCaller_SignaturesThreshold (bcs_Contract s) (bcs_CallOpts s) x"

definition BridgeSession_SupportsInterface :: "'x BridgeSession \<Rightarrow> bytes \<Rightarrow> 'x \<Rightarrow> (bool, 'x) go_call" where
  "BridgeSession_SupportsInterface s interfaceId x = BridgeCaller_SupportsInterface (br_Caller (bse_Contract s)) (bse_CallOpts s) interfaceId x"

definition BridgeCallerSession_SupportsInterface :: "'x BridgeCallerSession \<Rightarrow> bytes \<Rightarrow> 'x \<Rightarrow> (bool, 'x) go_call" where
  "BridgeCallerSession_SupportsInterface s interfaceId x = BridgeCaller_SupportsInterface (bcs_Contract s) (bcs_CallOpts s) interfaceId x"

definition BridgeSession_UsedHashes :: "'x BridgeSession \<Rightarrow> bytes \<Rightarrow> 'x \<Rightarrow> (bool, 'x) go_call" where
  "BridgeSession_UsedHashes s arg0 x = BridgeCaller_UsedHashes (br_Caller (bse_Contract s)) (bse_CallOpts s) arg0 x"

definition BridgeCallerSession_UsedHashes :: "'x BridgeCallerSession \<Rightarrow> bytes \<Rightarrow> 'x \<Rightarrow> (bool, 'x) go_call" where
  "BridgeCallerSession_UsedHashes s arg0 x = BridgeCaller_UsedHashes (bcs_Contract s) (bcs_CallOpts s) arg0 x"

definition BridgeSession_BridgeInit :: "'x BridgeSession \<Rightarrow> address list \<Rightarrow> int \<Rightarrow> 'x \<Rightarrow> (go_error + bytes) \<times> 'x" where
  "BridgeSession_BridgeInit s signers signaturesThreshold x = BridgeTransactor_BridgeInit (br_Transactor (bse_Contract s)) (bse_TransactOpts s) signers signaturesThreshold x"

definition BridgeTransactorSession_BridgeInit :: "'x BridgeTransactorSession \<Rightarrow> address list \<Rightarrow> int \<Rightarrow> 'x \<Rightarrow> (go_error + bytes) \<times> 'x" where
  "BridgeTransactorSession_BridgeInit s signers signaturesThreshold x = BridgeTransactor_BridgeInit (bts_Contract s) (bts_TransactOpts s) signers signaturesThreshold x"

definition BridgeSession_SignersInit :: "'x BridgeSession \<Rightarrow> address list \<Rightarrow> int \<Rightarrow> 'x \<Rightarrow> (go_error + bytes) \<times> 'x" where
  "BridgeSession_SignersInit s signers signaturesThreshold x = BridgeTransactor_SignersInit (br_Transactor (bse_Contract s)) (bse_TransactOpts s) signers signaturesThreshold x"

definition BridgeTransactorSession_SignersInit :: "'x BridgeTransactorSession \<Rightarrow> address list \<Rightarrow> int \<Rightarrow> 'x \<Rightarrow> (go_error + bytes) \<times> 'x" where
  "BridgeTransactorSession_SignersInit s signers signaturesThreshold x = BridgeTransactor_SignersInit (bts_Contract s) (bts_TransactOpts s) signers signaturesThreshold x"

definition BridgeSession_AddHash :: "'x BridgeSession \<Rightarrow> bytes \<Rightarrow> int \<Rightarrow> 'x \<Rightarrow> (go_error + bytes) \<times> 'x" where
  "BridgeSession_AddHash s txHash txNonce x = BridgeTransactor_AddHash (br_Transactor (bse_Contract s)) (bse_TransactOpts s) txHash txNonce x"

definition BridgeTransactorSession_AddHash :: "'x BridgeTransactorSession \<Rightarrow> bytes \<Rightarrow> int \<Rightarrow> 'x \<Rightarrow> (go_error + bytes) \<times> 'x" where
  "BridgeTransactorSession_AddHash s txHash txNonce x = BridgeTransactor_AddHash (bts_Contract s) (bts_TransactOpts s) txHash txNonce x"

definition BridgeSession_AddSigners :: "'x BridgeSession \<Rightarrow> address list \<Rightarrow> 'x \<Rightarrow> (go_error + bytes) \<times> 'x" where
  "BridgeSession_AddSigners s signers x = BridgeTransactor_AddSigners (br_Transactor (bse_Contract s)) (bse_TransactOpts s) signers x"

definition BridgeTransactorSession_AddSigners :: "'x BridgeTransactorSession \<Rightarrow> address list \<Rightarrow> 'x \<Rightarrow> (go_error + bytes) \<times> 'x" where
  "BridgeTransactorSession_AddSigners s signers x = BridgeTransactor_AddSigners (bts_Contract s) (bts_TransactOpts s) signers x"

definition BridgeSession_DepositERC1155 :: "'x BridgeSession \<Rightarrow> address \<Rightarrow> int \<Rightarrow> int \<Rightarrow> string \<Rightarrow> string \<Rightarrow> bool \<Rightarrow> uint16 \<Rightarrow> 'x \<Rightarrow> (go_error + bytes) \<times> 'x" where
  "BridgeSession_DepositERC1155 s token tokenId amount receiver network isWrapped referralId x = BridgeTransactor_DepositERC1155 (br_Transactor (bse_Contract s)) (bse_TransactOpts s) token tokenId amount receiver network isWrapped referralId x"

definition BridgeTransactorSession_DepositERC1155 :: "'x BridgeTransactorSession \<Rightarrow> address \<Rightarrow> int \<Rightarrow> int \<Rightarrow> string \<Rightarrow> string \<Rightarrow> bool \<Rightarrow> uint16 \<Rightarrow> 'x \<Rightarrow> (go_error + bytes) \<times> 'x" where
  "BridgeTransactorSession_DepositERC1155 s token tokenId amount receiver network isWrapped referralId x = BridgeTransactor_DepositERC1155 (bts_Contract s) (bts_TransactOpts s) token tokenId amount receiver network isWrapped referralId x"

definition BridgeSession_DepositERC20 :: "'x BridgeSession \<Rightarrow> address \<Rightarrow> int \<Rightarrow> string \<Rightarrow> string \<Rightarrow> bool \<Rightarrow> uint16 \<Rightarrow> 'x \<Rightarrow> (go_error + bytes) \<times> 'x" where
  "BridgeSession_DepositERC20 s token amount receiver network isWrapped referralId x = BridgeTransactor_DepositERC20 (br_Transactor (bse_Contract s)) (bse_TransactOpts s) token amount receiver network isWrapped referralId x"

definition BridgeTransactorSession_DepositERC20 :: "'x BridgeTransactorSession \<Rightarrow> address \<Rightarrow> int \<Rightarrow> string \<Rightarrow> string \<Rightarrow> bool \<Rightarrow> uint16 \<Rightarrow> 'x \<Rightarrow> (go_error + bytes) \<times> 'x" where
  "BridgeTransactorSession_DepositERC20 s token amount receiver network isWrapped referralId x = BridgeTransactor_DepositERC20 (bts_Contract s) (bts_TransactOpts s) token amount receiver network isWrapped referralId x"

definition BridgeSession_DepositERC721 :: "'x BridgeSession \<Rightarrow> address \<Rightarrow> int \<Rightarrow> string \<Rightarrow> string \<Rightarrow> bool \<Rightarrow> uint16 \<Rightarrow> 'x \<Rightarrow> (go_error + bytes) \<times> 'x" where
  "BridgeSession_DepositERC721 s token tokenId receiver network isWrapped referralId x = BridgeTransactor_DepositERC721 (br_Transactor (bse_Contract s)) (bse_TransactOpts s) token tokenId receiver network isWrapped referralId x"

definition BridgeTransactorSession_DepositERC721 :: "'x BridgeTransactorSession \<Rightarrow> address \<Rightarrow> int \<Rightarrow> string \<Rightarrow> string \<Rightarrow> bool \<Rightarrow> uint16 \<Rightarrow> 'x \<Rightarrow> (go_error + bytes) \<times> 'x" where
  "BridgeTransactorSession_DepositERC721 s token tokenId receiver network isWrapped referralId x = BridgeTransactor_DepositERC721 (bts_Contract s) (bts_TransactOpts s) token tokenId receiver network isWrapped referralId x"

definition BridgeSession_DepositNative :: "'x BridgeSession \<Rightarrow> string \<Rightarrow> string \<Rightarrow> uint16 \<Rightarrow> 'x \<Rightarrow> (go_error + bytes) \<times> 'x" where
  "BridgeSession_DepositNative s receiver network referralId x = BridgeTransactor_DepositNative (br_Transactor (bse_Contract s)) (bse_TransactOpts s) receiver network referralId x"

definition BridgeTransactorSession_DepositNative :: "'x BridgeTransactorSession \<Rightarrow> string \<Rightarrow> string \<Rightarrow> uint16 \<Rightarrow> 'x \<Rightarrow> (go_error + bytes) \<times> 'x" where
  "BridgeTransactorSession_DepositNative s receiver network referralId x = BridgeTransactor_DepositNative (bts_Contract s) (bts_TransactOpts s) receiver network referralId x"

definition BridgeSession_OnERC1155BatchReceived :: "'x BridgeSession \<Rightarrow> address \<Rightarrow> address \<Rightarrow> int list \<Rightarrow> int list \<Rightarrow> bytes \<Rightarrow> 'x \<Rightarrow> (go_error + bytes) \<times> 'x" where
  "BridgeSession_OnERC1155BatchReceived s arg0 arg1 arg2 arg3 arg4 x = BridgeTransactor_OnERC1155BatchReceived (br_Transactor (bse_Contract s)) (bse_TransactOpts s) arg0 arg1 arg2 arg3 arg4 x"

definition BridgeTransactorSession_OnERC1155BatchReceived :: "'x BridgeTransactorSession \<Rightarrow> address \<Rightarrow> address \<Rightarrow> int list \<Rightarrow> int list \<Rightarrow> bytes \<Rightarrow> 'x \<Rightarrow> (go_error + bytes) \<times> 'x" where
  "BridgeTransactorSession_OnERC1155BatchReceived s arg0 arg1 arg2 arg3 arg4 x = BridgeTransactor_OnERC1155BatchReceived (bts_Contract s) (bts_TransactOpts s) arg0 arg1 arg2 arg3 arg4 x"

definition BridgeSession_OnERC1155Received :: "'x BridgeSession \<Rightarrow> address \<Rightarrow> address \<Rightarrow> int \<Rightarrow> int \<Rightarrow> bytes \<Rightarrow> 'x \<Rightarrow> (go_error + bytes) \<times> 'x" where
  "BridgeSession_OnERC1155Received s arg0 arg1 arg2 arg3 arg4 x = BridgeTransactor_OnERC1155Received (br_Transactor (bse_Contract s)) (bse_TransactOpts s) arg0 arg1 arg2 arg3 arg4 x"

definition BridgeTransactorSession_OnERC1155Received :: "'x BridgeTransactorSession \<Rightarrow> address \<Rightarrow> address \<Rightarrow> int \<Rightarrow> int \<Rightarrow> bytes \<Rightarrow> 'x \<Rightarrow> (go_error + bytes) \<times> 'x" where
  "BridgeTransactorSession_OnERC1155Received s arg0 arg1 arg2 arg3 arg4 x = BridgeTransactor_OnERC1155Received (bts_Contract s) (bts_TransactOpts s) arg0 arg1 arg2 arg3 arg4 x"

definition BridgeSession_OnERC721Received :: "'x BridgeSession \<Rightarrow> address \<Rightarrow> address \<Rightarrow> int \<Rightarrow> bytes \<Rightarrow> 'x \<Rightarrow> (go_error + bytes) \<times> 'x" where
  "BridgeSession_OnERC721Received s arg0 arg1 arg2 arg3 x = BridgeTransactor_OnERC721Received (br_Transactor (bse_Contract s)) (bse_TransactOpts s) arg0 arg1 arg2 arg3 x"

definition BridgeTransactorSession_OnERC721Received :: "'x BridgeTransactorSession \<Rightarrow> address \<Rightarrow> address \<Rightarrow> int \<Rightarrow> bytes \<Rightarrow> 'x \<Rightarrow> (go_error + bytes) \<times> 'x" where
  "BridgeTransactorSession_OnERC721Received s arg0 arg1 arg2 arg3 x = BridgeTransactor_OnERC721Received (bts_Contract s) (bts_TransactOpts s) arg0 arg1 arg2 arg3 x"

definition BridgeSession_RemoveSigners :: "'x BridgeSession \<Rightarrow> address list \<Rightarrow> 'x \<Rightarrow> (go_error + bytes) \<times> 'x" where
  "BridgeSession_RemoveSigners s signers x = BridgeTransactor_RemoveSigners (br_Transactor (bse_Contract s)) (bse_TransactOpts s) signers x"

definition BridgeTransactorSession_RemoveSigners :: "'x BridgeTransactorSession \<Rightarrow> address list \<Rightarrow> 'x \<Rightarrow> (go_error + bytes) \<times> 'x" where
  "BridgeTransactorSession_RemoveSigners s signers x = BridgeTransactor_RemoveSigners (bts_Contract s) (bts_TransactOpts s) signers x"

definition BridgeSession_RenounceOwnership :: "'x BridgeSession \<Rightarrow> 'x \<Rightarrow> (go_error + bytes) \<times> 'x" where
  "BridgeSession_RenounceOwnership s x = BridgeTransactor_RenounceOwnership (br_Transactor (bse_Contract s)) (bse_TransactOpts s) x"

definition BridgeTransactorSession_RenounceOwnership :: "'x BridgeTransactorSession \<Rightarrow> 'x \<Rightarrow> (go_error + bytes) \<times> 'x" where
  "BridgeTransactorSession_RenounceOwnership s x = BridgeTransactor_RenounceOwnership (bts_Contract s) (bts_TransactOpts s) x"

definition BridgeSession_SetSignaturesThreshold :: "'x BridgeSession \<Rightarrow> int \<Rightarrow> 'x \<Rightarrow> (go_error + bytes) \<times> 'x" where
  "BridgeSession_SetSignaturesThreshold s signaturesThreshold x = BridgeTransactor_SetSignaturesThreshold (br_Transactor (bse_Contract s)) (bse_TransactOpts s) signaturesThreshold x"

definition BridgeTransactorSession_SetSignaturesThreshold :: "'x BridgeTransactorSession \<Rightarrow> int \<Rightarrow> 'x \<Rightarrow> (go_error + bytes) \<times> 'x" where
  "BridgeTransactorSession_SetSignaturesThreshold s signaturesThreshold x = BridgeTransactor_SetSignaturesThreshold (bts_Contract s) (bts_TransactOpts s) signaturesThreshold x"

definition BridgeSession_TransferOwnership :: "'x BridgeSession \<Rightarrow> address \<Rightarrow> 'x \<Rightarrow> (go_error + bytes) \<times> 'x" where
  "BridgeSession_TransferOwnership s newOwner x = BridgeTransactor_TransferOwnership (br_Transactor (bse_Contract s)) (bse_TransactOpts s) newOwner x"

definition BridgeTransactorSession_TransferOwnership :: "'x BridgeTransactorSession \<Rightarrow> address \<Rightarrow> 'x \<Rightarrow> (go_error + bytes) \<times> 'x" where
  "BridgeTransactorSession_TransferOwnership s newOwner x = BridgeTransactor_TransferOwnership (bts_Contract s) (bts_TransactOpts s) newOwner x"

definition BridgeSession_UpdateSigner :: "'x BridgeSession \<Rightarrow> address \<Rightarrow> int \<Rightarrow> int \<Rightarrow> int \<Rightarrow> bool \<Rightarrow> bytes list \<Rightarrow> 'x \<Rightarrow> (go_error + bytes) \<times> 'x" where
  "BridgeSession_UpdateSigner s signerToUpdate startTime deadline txNonce isAdding signatures x = BridgeTransactor_UpdateSigner (br_Transactor (bse_Contract s)) (bse_TransactOpts s) signerToUpdate startTime deadline txNonce isAdding signatures x"

definition BridgeTransactorSession_UpdateSigner :: "'x BridgeTransactorSession \<Rightarrow> address \<Rightarrow> int \<Rightarrow> int \<Rightarrow> int \<Rightarrow> bool \<Rightarrow> bytes list \<Rightarrow> 'x \<Rightarrow> (go_error + bytes) \<times> 'x" where
  "BridgeTransactorSession_UpdateSigner s signerToUpdate startTime deadline txNonce isAdding signatures x = BridgeTransactor_UpdateSigner (bts_Contract s) (bts_TransactOpts s) signerToUpdate startTime deadline txNonce isAdding signatures x"

definition BridgeSession_UpgradeTo :: "'x BridgeSession \<Rightarrow> address \<Rightarrow> 'x \<Rightarrow> (go_error + bytes) \<times> 'x" where
  "BridgeSession_UpgradeTo s newImplementation x = BridgeTransactor_UpgradeTo (br_Transactor (bse_Contract s)) (bse_TransactOpts s) newImplementation x"

definition BridgeTransactorSession_UpgradeTo :: "'x BridgeTransactorSession \<Rightarrow> address \<Rightarrow> 'x \<Rightarrow> (go_error + bytes) \<times> 'x" where
  "BridgeTransactorSession_UpgradeTo s newImplementation x = BridgeTransactor_UpgradeTo (bts_Contract s) (bts_TransactOpts s) newImplementation x"

definition BridgeSession_UpgradeToAndCall :: "'x BridgeSession \<Rightarrow> address \<Rightarrow> bytes \<Rightarrow> 'x \<Rightarrow> (go_error + bytes) \<times> 'x" where
  "BridgeSession_UpgradeToAndCall s newImplementation data x = BridgeTransactor_UpgradeToAndCall (br_Transactor (bse_Contract s)) (bse_TransactOpts s) newImplementation data x"

definition BridgeTransactorSession_UpgradeToAndCall :: "'x BridgeTransactorSession \<Rightarrow> address \<Rightarrow> bytes \<Rightarrow> 'x \<Rightarrow> (go_error + bytes) \<times> 'x" where
  "BridgeTransactorSession_UpgradeToAndCall s newImplementation data x = BridgeTransactor_UpgradeToAndCall (bts_Contract s) (bts_TransactOpts s) newImplementation data x"

definition BridgeSession_WithdrawERC1155 :: "'x BridgeSession \<Rightarrow> address \<Rightarrow> int \<Rightarrow> int \<Rightarrow> address \<Rightarrow> bytes \<Rightarrow> int \<Rightarrow> string \<Rightarrow> bool \<Rightarrow> bytes list \<Rightarrow> 'x \<Rightarrow> (go_error + bytes) \<times> 'x" where
  "BridgeSession_WithdrawERC1155 s token tokenId amount receiver txHash txNonce tokenURI isWrapped signatures x = BridgeTransactor_WithdrawERC1155 (br_Transactor (bse_Contract s)) (bse_TransactOpts s) token tokenId amount receiver txHash txNonce tokenURI isWrapped signatures x"

definition BridgeTransactorSession_WithdrawERC1155 :: "'x BridgeTransactorSession \<Rightarrow> address \<Rightarrow> int \<Rightarrow> int \<Rightarrow> address \<Rightarrow> bytes \<Rightarrow> int \<Rightarrow> string \<Rightarrow> bool \<Rightarrow> bytes list \<Rightarrow> 'x \<Rightarrow> (go_error + bytes) \<times> 'x" where
  "BridgeTransactorSession_WithdrawERC1155 s token tokenId amount receiver txHash txNonce tokenURI isWrapped signatures x = BridgeTransactor_WithdrawERC1155 (bts_Contract s) (bts_TransactOpts s) token tokenId amount receiver txHash txNonce tokenURI isWrapped signatures x"

definition BridgeSession_WithdrawERC20 :: "'x BridgeSession \<Rightarrow> address \<Rightarrow> int \<Rightarrow> address \<Rightarrow> bytes \<Rightarrow> int \<Rightarrow> bool \<Rightarrow> bytes list \<Rightarrow> 'x \<Rightarrow> (go_error + bytes) \<times> 'x" where
  "BridgeSession_WithdrawERC20 s token amount receiver txHash txNonce isWrapped signatures x = BridgeTransactor_WithdrawERC20 (br_Transactor (bse_Contract s)) (bse_TransactOpts s) token amount receiver txHash txNonce isWrapped signatures x"

definition BridgeTransactorSession_WithdrawERC20 :: "'x BridgeTransactorSession \<Rightarrow> address \<Rightarrow> int \<Rightarrow> address \<Rightarrow> bytes \<Rightarrow> int \<Rightarrow> bool \<Rightarrow> bytes list \<Rightarrow> 'x \<Rightarrow> (go_error + bytes) \<times> 'x" where
  "BridgeTransactorSession_WithdrawERC20 s token amount receiver txHash txNonce isWrapped signatures x = BridgeTransactor_WithdrawERC20 (bts_Contract s) (bts_TransactOpts s) token amount receiver txHash txNonce isWrapped signatures x"

definition BridgeSession_WithdrawERC20Merkelized :: "'x BridgeSession \<Rightarrow> address \<Rightarrow> int \<Rightarrow> address \<Rightarrow> bytes \<Rightarrow> int \<Rightarrow> bool \<Rightarrow> bytes list \<Rightarrow> bytes list \<Rightarrow> 'x \<Rightarrow> (go_error + bytes) \<times> 'x" where
  "BridgeSession_WithdrawERC20Merkelized s token amount receiver txHash txNonce isWrapped merkleProof signatures x = BridgeTransactor_WithdrawERC20Merkelized (br_Transactor (bse_Contract s)) (bse_TransactOpts s) token amount receiver txHash txNonce isWrapped merkleProof signatures x"

definition BridgeTransactorSession_WithdrawERC20Merkelized :: "'x BridgeTransactorSession \<Rightarrow> address \<Rightarrow> int \<Rightarrow> address \<Rightarrow> bytes \<Rightarrow> int \<Rightarrow> bool \<Rightarrow> bytes list \<Rightarrow> bytes list \<Rightarrow> 'x \<Rightarrow> (go_error + bytes) \<times> 'x" where
  "BridgeTransactorSession_WithdrawERC20Merkelized s token amount receiver txHash txNonce isWrapped merkleProof signatures x = BridgeTransactor_WithdrawERC20Merkelized (bts_Contract s) (bts_TransactOpts s) token amount receiver txHash txNonce isWrapped merkleProof signatures x"

definition BridgeSession_WithdrawERC721 :: "'x BridgeSession \<Rightarrow> address \<Rightarrow> int \<Rightarrow> address \<Rightarrow> bytes \<Rightarrow> int \<Rightarrow> string \<Rightarrow> bool \<Rightarrow> bytes list \<Rightarrow> 'x \<Rightarrow> (go_error + bytes) \<times> 'x" where
  "BridgeSession_WithdrawERC721 s token tokenId receiver txHash txNonce tokenURI isWrapped signatures x = BridgeTransactor_WithdrawERC721 (br_Transactor (bse_Contract s)) (bse_TransactOpts s) token tokenId receiver txHash txNonce tokenURI isWrapped signatures x"

definition BridgeTransactorSession_WithdrawERC721 :: "'x BridgeTransactorSession \<Rightarrow> address \<Rightarrow> int \<Rightarrow> address \<Rightarrow> bytes \<Rightarrow> int \<Rightarrow> string \<Rightarrow> bool \<Rightarrow> bytes list \<Rightarrow> 'x \<Rightarrow> (go_error + bytes) \<times> 'x" where
  "BridgeTransactorSession_WithdrawERC721 s token tokenId receiver txHash txNonce tokenURI isWrapped signatures x = BridgeTransactor_WithdrawERC721 (bts_Contract s) (bts_TransactOpts s) token tokenId receiver txHash txNonce tokenURI isWrapped signatures x"

definition BridgeSession_WithdrawNative :: "'x BridgeSession \<Rightarrow> int \<Rightarrow> address \<Rightarrow> bytes \<Rightarrow> int \<Rightarrow> bytes list \<Rightarrow> 'x \<Rightarrow> (go_error + bytes) \<times> 'x" where
  "BridgeSession_WithdrawNative s amount receiver txHash txNonce signatures x = BridgeTransactor_WithdrawNative (br_Transactor (bse_Contract s)) (bse_TransactOpts s) amount receiver txHash txNonce signatures x"

definition BridgeTransactorSession_WithdrawNative :: "'x BridgeTransactorSession \<Rightarrow> int \<Rightarrow> address \<Rightarrow> bytes \<Rightarrow> int \<Rightarrow> bytes list \<Rightarrow> 'x \<Rightarrow> (go_error + bytes) \<times> 'x" where
  "BridgeTransactorSession_WithdrawNative s amount receiver txHash txNonce signatures x = BridgeTransactor_WithdrawNative (bts_Contract s) (bts_TransactOpts s) amount receiver txHash txNonce signatures x"

definition BridgeSession_WithdrawNativeMerkelized :: "'x BridgeSession \<Rightarrow> int \<Rightarrow> address \<Rightarrow> bytes \<Rightarrow> int \<Rightarrow> bytes list \<Rightarrow> bytes list \<Rightarrow> 'x \<Rightarrow> (go_error + bytes) \<times> 'x" where
  "BridgeSession_WithdrawNativeMerkelized s amount receiver txHash txNonce merkleProof signatures x = BridgeTransactor_WithdrawNativeMerkelized (br_Transactor (bse_Contract s)) (bse_TransactOpts s) amount receiver txHash txNonce merkleProof signatures x"

definition BridgeTransactorSession_WithdrawNativeMerkelized :: "'x BridgeTransactorSession \<Rightarrow> int \<Rightarrow> address \<Rightarrow> bytes \<Rightarrow> int \<Rightarrow> bytes list \<Rightarrow> bytes list \<Rightarrow> 'x \<Rightarrow> (go_error + bytes) \<times> 'x" where
  "BridgeTransactorSession_WithdrawNativeMerkelized s amount receiver txHash txNonce merkleProof signatures x = BridgeTransactor_WithdrawNativeMerkelized (bts_Contract s) (bts_TransactOpts s) amount receiver txHash txNonce merkleProof signatures x"

definition BridgeSession_Receive :: "'x BridgeSession \<Rightarrow> 'x \<Rightarrow> (go_error + bytes) \<times> 'x" where
  "BridgeSession_Receive s x = BridgeTransactor_Receive (br_Transactor (bse_Contract s)) (bse_TransactOpts s) x"

definition BridgeTransactorSession_Receive :: "'x BridgeTransactorSession \<Rightarrow> 'x \<Rightarrow> (go_error + bytes) \<times> 'x" where
  "BridgeTransactorSession_Receive s x = BridgeTransactor_Receive (bts_Contract s) (bts_TransactOpts s) x"

subsection \<open>The ABI (\<open>BridgeMetaData\<close>)\<close>

text \<open>The functions of the contract: the name, the types of the inputs and of the outputs.\<close>

definition bridge_abi :: "(string \<times> string list \<times> string list) list" where
  "bridge_abi = [
      (''__Bridge_init'', [''address[]'', ''uint256''], []),
      (''__Signers_init'', [''address[]'', ''uint256''], []),
      (''addHash'', [''bytes32'', ''uint256''], []),
      (''addSigners'', [''address[]''], []),
      (''containsHash'', [''bytes32'', ''uint256''], [''bool'']),
      (''depositERC1155'', [''address'', ''uint256'', ''uint256'', ''string'', ''string'', ''bool'', ''uint16''], []),
      (''depositERC20'', [''address'', ''uint256'', ''string'', ''string'', ''bool'', ''uint16''], []),
      (''depositERC721'', [''address'', ''uint256'', ''string'', ''string'', ''bool'', ''uint16''], []),
      (''depositNative'', [''string'', ''string'', ''uint16''], []),
      (''getERC1155SignHash'', [''address'', ''uint256'', ''uint256'', ''address'', ''bytes32'', ''uint256'', ''uint256'', ''string'', ''bool''], [''bytes32'']),
      (''getERC20SignHash'', [''address'', ''uint256'', ''address'', ''bytes32'', ''uint256'', ''uint256'', ''bool''], [''bytes32'']),
      (''getERC721SignHash'', [''address'', ''uint256'', ''address'', ''bytes32'', ''uint256'', ''uint256'', ''string'', ''bool''], [''bytes32'']),
      (''getNativeSignHash'', [''uint256'', ''address'', ''bytes32'', ''uint256'', ''uint256''], [''bytes32'']),
      (''getSigners'', [], [''address[]'']),
      (''getUpdateSignersSignHash'', [''address'', ''uint256'', ''uint256'', ''uint256'', ''bool''], [''bytes32'']),
      (''onERC1155BatchReceived'', [''address'', ''address'', ''uint256[]'', ''uint256[]'', ''bytes''], [''bytes4'']),
      (''onERC1155Received'', [''address'', ''address'', ''uint256'', ''uint256'', ''bytes''], [''bytes4'']),
      (''onERC721Received'', [''address'', ''address'', ''uint256'', ''bytes''], [''bytes4'']),
      (''owner'', [], [''address'']),
      (''proxiableUUID'', [], [''bytes32'']),
      (''removeSigners'', [''address[]''], []),
      (''renounceOwnership'', [], []),
      (''setSignaturesThreshold'', [''uint256''], []),
      (''signaturesThreshold'', [], [''uint256'']),
      (''supportsInterface'', [''bytes4''], [''bool'']),
      (''transferOwnership'', [''address''], []),
      (''updateSigner'', [''address'', ''uint256'', ''uint256'', ''uint256'', ''bool'', ''bytes[]''], []),
      (''upgradeTo'', [''address''], []),
      (''upgradeToAndCall'', [''address'', ''bytes''], []),
      (''usedHashes'', [''bytes32''], [''bool'']),
      (''withdrawERC1155'', [''address'', ''uint256'', ''uint256'', ''address'', ''bytes32'', ''uint256'', ''string'', ''bool'', ''bytes[]''], []),
      (''withdrawERC20'', [''address'', ''uint256'', ''address'', ''bytes32'', ''uint256'', ''bool'', ''bytes[]''], []),
      (''withdrawERC20Merkelized'', [''address'', ''uint256'', ''address'', ''bytes32'', ''uint256'', ''bool'', ''bytes32[]'', ''bytes[]''], []),
      (''withdrawERC721'', [''address'', ''uint256'', ''address'', ''bytes32'', ''uint256'', ''string'', ''bool'', ''bytes[]''], []),
      (''withdrawNative'', [''uint256'', ''address'', ''bytes32'', ''uint256'', ''bytes[]''], [])]"

definition bridge_methods :: "string set" where
  "bridge_methods = fst ` set bridge_abi"

definition abi_inputs :: "string \<Rightarrow> string list option" where
  "abi_inputs m = map_option fst (map_of bridge_abi m)"

text \<open>A call that the ABI can pack.\<close>

definition abi_packs :: "string \<Rightarrow> abi_value list \<Rightarrow> bool" where
  "abi_packs m args \<longleftrightarrow> abi_inputs m = Some (map abi_type args)"

text \<open>
  The documented contract of a call: its outputs have the types of the ABI. Then no read-only method
  panics.
\<close>

definition outputs_ok :: "'x bound_contract \<Rightarrow> bool" where
  "outputs_ok K \<longleftrightarrow> (\<forall>opts m args x outs x'. bc_Call K opts m args x = (Inr outs, x') \<longrightarrow>
     (\<exists>ins. map_of bridge_abi m = Some (ins, map abi_type outs)))"

lemma abi_type_out:
  "abi_type v = ''bool'' \<Longrightarrow> as_bool v \<noteq> None" "abi_type v = ''bytes32'' \<Longrightarrow> as_bytes32 v \<noteq> None"
  "abi_type v = ''address'' \<Longrightarrow> as_address v \<noteq> None" "abi_type v = ''address[]'' \<Longrightarrow> as_addresses v \<noteq> None"
  "abi_type v = ''uint256'' \<Longrightarrow> as_uint v \<noteq> None"
  by (cases v; simp add: as_bool_def as_bytes32_def as_address_def as_addresses_def as_uint_def)+

lemma call_out_returns:
  assumes "outputs_ok K" and "map_of bridge_abi m = Some (ins, [t])"
    and "\<And>v. abi_type v = t \<Longrightarrow> conv v \<noteq> None"
  shows "\<exists>r y. call_out conv (bc_Call K opts m args x) = (Returned r, y)"
proof (cases "bc_Call K opts m args x")
  case (Pair r x1)
  show ?thesis
  proof (cases r)
    case (Inl err)
    with Pair show ?thesis by (simp add: call_out_def)
  next
    case (Inr outs)
    with Pair assms(1,2) have "map abi_type outs = [t]" by (fastforce simp: outputs_ok_def)
    then obtain v where "outs = [v]" and "abi_type v = t" by (cases outs) auto
    with Pair Inr assms(3) [of v] show ?thesis by (auto simp: call_out_def)
  qed
qed

lemmas bridge_reads = BridgeCaller_ContainsHash_def
  BridgeCaller_GetERC1155SignHash_def
  BridgeCaller_GetERC20SignHash_def
  BridgeCaller_GetERC721SignHash_def
  BridgeCaller_GetNativeSignHash_def
  BridgeCaller_GetSigners_def
  BridgeCaller_GetUpdateSignersSignHash_def
  BridgeCaller_Owner_def
  BridgeCaller_ProxiableUUID_def
  BridgeCaller_SignaturesThreshold_def
  BridgeCaller_SupportsInterface_def
  BridgeCaller_UsedHashes_def

lemmas bridge_writes = BridgeTransactor_BridgeInit_def
  BridgeTransactor_SignersInit_def
  BridgeTransactor_AddHash_def
  BridgeTransactor_AddSigners_def
  BridgeTransactor_DepositERC1155_def
  BridgeTransactor_DepositERC20_def
  BridgeTransactor_DepositERC721_def
  BridgeTransactor_DepositNative_def
  BridgeTransactor_OnERC1155BatchReceived_def
  BridgeTransactor_OnERC1155Received_def
  BridgeTransactor_OnERC721Received_def
  BridgeTransactor_RemoveSigners_def
  BridgeTransactor_RenounceOwnership_def
  BridgeTransactor_SetSignaturesThreshold_def
  BridgeTransactor_TransferOwnership_def
  BridgeTransactor_UpdateSigner_def
  BridgeTransactor_UpgradeTo_def
  BridgeTransactor_UpgradeToAndCall_def
  BridgeTransactor_WithdrawERC1155_def
  BridgeTransactor_WithdrawERC20_def
  BridgeTransactor_WithdrawERC20Merkelized_def
  BridgeTransactor_WithdrawERC721_def
  BridgeTransactor_WithdrawNative_def
  BridgeTransactor_WithdrawNativeMerkelized_def
  BridgeTransactor_Receive_def

end
