(* ===== verification/Evm.thy ===== *)
theory Evm
  imports Evm_Bindings Retrier
begin

text \<open>
  \<open>internal/core/chain/evm\<close>: the client of an EVM chain. Parameters of the model
  (\<open>evm_lib\<close>, \<open>evm_rpc\<close>): go-ethereum's hex, Keccak, address, ABI and transaction functions,
  \<open>encoding/json\<close> for a list of strings, and the RPC node. The contract is called through its
  binding in \<open>Evm_Bindings\<close>. \<open>'x\<close> is the state of the outside world.
\<close>

subsection \<open>Library types\<close>

record CallMsg =
  cm_From :: address
  cm_To :: address
  cm_GasPrice :: int
  cm_Data :: bytes

record Receipt =
  rc_TxHash :: bytes
  rc_Status :: uint64

record 'k evm_lib =
  hexutil_Decode :: "string \<Rightarrow> go_error + bytes"
  Keccak256 :: "bytes \<Rightarrow> bytes"
  json_Strings :: "string \<Rightarrow> go_error + string list"
  HexToAddress :: "string \<Rightarrow> address"
  Address_String :: "address \<Rightarrow> string"
  Hash_Hex :: "bytes \<Rightarrow> string"
  PubkeyToAddress :: "'k \<Rightarrow> address"
  abi_Pack :: "string \<Rightarrow> abi_value list \<Rightarrow> go_error + bytes"
  NewKeyedTransactor :: "'k \<Rightarrow> int \<Rightarrow> go_error + TransactOpts"

text \<open>
  The node. \<open>head_events\<close> is what \<open>select\<close> sees on the subscription before the deadline passes.
\<close>

record 'x evm_rpc =
  SuggestGasPrice :: "'x \<Rightarrow> (go_error + int) \<times> 'x"
  ChainID :: "'x \<Rightarrow> (go_error + int) \<times> 'x"
  PendingNonceAt :: "address \<Rightarrow> 'x \<Rightarrow> (go_error + uint64) \<times> 'x"
  EstimateGas :: "CallMsg \<Rightarrow> 'x \<Rightarrow> (go_error + uint64) \<times> 'x"
  HeaderByNumber :: "'x \<Rightarrow> (go_error + int) \<times> 'x"
  TransactionReceipt :: "bytes \<Rightarrow> 'x \<Rightarrow> (go_error + Receipt) \<times> 'x"
  BlockReceipts :: "int64 \<Rightarrow> 'x \<Rightarrow> (go_error + Receipt list) \<times> 'x"
  SubscribeNewHead :: "'x \<Rightarrow> go_error option \<times> 'x"
  head_events :: "'x \<Rightarrow> int select list \<times> 'x"
  WaitMined :: "bytes \<Rightarrow> 'x \<Rightarrow> (go_error + Receipt) \<times> 'x"

record ('k, 'x) evm_retry =
  rt_Retries :: nat
  rt_header :: "(int option \<times> 'x) retry_fun"
  rt_finalize :: "'x retry_fun"

subsection \<open>The chain (\<open>chain.go\<close>, \<open>types.go\<close>)\<close>

record 'k EvmChain =
  evm_Id :: string
  evm_BridgeAddress :: address
  evm_OperatorsPrivKeys :: "'k list"
  evm_Workers :: int
  evm_WSTimeout :: int64
  evm_GasPriceMultiplier :: int64

text \<open>The parsers of the \<open>figure\<close> library and \<open>crypto.HexToECDSA\<close>.\<close>

record ('v, 'k) evm_figure =
  fig_EthClient :: "'v \<Rightarrow> go_error + unit"
  fig_Address :: "'v \<Rightarrow> go_error + address"
  fig_int64 :: "int64 \<Rightarrow> go_error + int64"
  fig_int :: "int \<Rightarrow> go_error + int"
  HexToECDSA :: "string \<Rightarrow> go_error + 'k"

definition EVMHooks :: "('v, 'k) evm_figure \<Rightarrow> string list \<Rightarrow> go_error + 'k list" where
  "EVMHooks F value = parse_keys (HexToECDSA F) ''failed to init keypair'' value"

definition FromChain :: "('v, 'k) evm_figure \<Rightarrow> 'v ChainConfig \<Rightarrow> 'k EvmChain go_result" where
  "FromChain F c =
   (if ch_Type c \<noteq> Type_string TypeEVM then Panic ''chain is not EVM''
    else case fig_EthClient F (ch_Rpc c) of Inl _ \<Rightarrow> Panic ''failed to obtain Ethereum clients''
    | Inr _ \<Rightarrow>
   (case fig_Address F (ch_BridgeAddresses c) of Inl _ \<Rightarrow> Panic ''failed to obtain bridge addresses''
    | Inr addr \<Rightarrow>
   (case EVMHooks F (ch_OperatorsPrivateKeys c) of
      Inl _ \<Rightarrow> Panic ''failed to obtain operators private keys''
    | Inr keys \<Rightarrow>
   (case fig_int64 F (ch_WSTimeout c) of Inl _ \<Rightarrow> Panic ''failed to obtain ws timeout time''
    | Inr timeout \<Rightarrow>
   (case fig_int F (ch_Workers c) of Inl _ \<Rightarrow> Panic ''failed to obtain workers number''
    | Inr workers \<Rightarrow>
   (case fig_EthClient F (ch_WSRpc c) of Inl _ \<Rightarrow> Panic ''failed to obtain ws rpc address''
    | Inr _ \<Rightarrow>
   (case fig_int64 F (ch_GasPriceMultiplier c) of Inl _ \<Rightarrow> Panic ''failed to obtain gas multiplier''
    | Inr multiplier \<Rightarrow>
      if workers > int (length keys)
      then Panic ''number of workers is greater than number of operators private keys''
      else Returned \<lparr>evm_Id = ch_Id c, evm_BridgeAddress = addr, evm_OperatorsPrivKeys = keys,
             evm_Workers = workers, evm_WSTimeout = timeout,
             evm_GasPriceMultiplier = multiplier\<rparr>)))))))"

definition withdrawERC20 :: string where "withdrawERC20 = ''withdrawERC20''"
definition withdrawNative :: string where "withdrawNative = ''withdrawNative''"
definition withdrawERC20Merkelized :: string where
  "withdrawERC20Merkelized = ''withdrawERC20Merkelized''"
definition withdrawNativeMerkelized :: string where
  "withdrawNativeMerkelized = ''withdrawNativeMerklelized''"
definition notAvailableBlockReceipts :: string where
  "notAvailableBlockReceipts = ''the method eth_getBlockReceipts does not exist/is not available''"

lemmas evm_methods = withdrawERC20_def withdrawNative_def withdrawERC20Merkelized_def
  withdrawNativeMerkelized_def

record 'k signerInfo =
  sg_address :: address
  sg_privateKey :: 'k

record ('k, 'x) EvmClient =
  ec_lib :: "'k evm_lib"
  ec_rpc :: "'x evm_rpc"
  ec_retry :: "('k, 'x) evm_retry"
  ec_chain :: "'k EvmChain"
  ec_contractClient :: "'x Bridge"

text \<open>\<open>(abi.ABI).Pack\<close> is documented to fail for a name that is not a method of the ABI.\<close>

definition abi_contract :: "'k evm_lib \<Rightarrow> bool" where
  "abi_contract L \<longleftrightarrow> (\<forall>m args. m \<notin> bridge_methods \<longrightarrow> (\<exists>err. abi_Pack L m args = Inl err))"

subsection \<open>The client (\<open>client.go\<close>)\<close>

text \<open>\<open>NewBridgeClient\<close>: \<open>abi.JSON\<close> on the ABI of the binding is the parameter \<open>parsed\<close>; the back end is
  the RPC client of the chain.\<close>

definition evm_NewBridgeClient ::
  "('a, 'b, 'x) bind_lib \<Rightarrow> go_error + unit \<Rightarrow> 'b \<Rightarrow> 'k evm_lib \<Rightarrow> 'x evm_rpc \<Rightarrow> ('k, 'x) evm_retry
     \<Rightarrow> 'k EvmChain \<Rightarrow> ('k, 'x) EvmClient go_result" where
  "evm_NewBridgeClient B parsed backend L rpc retry c = (case parsed of
     Inl err \<Rightarrow> Panic ''failed to parse bridge ABI''
   | Inr bridgeAbi \<Rightarrow> (case NewBridge B (evm_BridgeAddress c) backend of
       Inl err \<Rightarrow> Panic ''failed to init bridge client''
     | Inr contractClient \<Rightarrow> Returned \<lparr>ec_lib = L, ec_rpc = rpc, ec_retry = retry, ec_chain = c,
         ec_contractClient = contractClient\<rparr>))"

subsection \<open>Hashes and proofs (\<open>utils.go\<close>)\<close>

definition DigestLength :: nat where
  "DigestLength = 32"

text \<open>\<open>copy(res[:], bytes)\<close> into a zeroed array of 32 bytes.\<close>

definition copy32 :: "bytes \<Rightarrow> bytes" where
  "copy32 bs = take DigestLength (bs @ replicate DigestLength 0)"

definition txHashToBytes32 :: "'k evm_lib \<Rightarrow> string \<Rightarrow> bytes" where
  "txHashToBytes32 L txHash = (case hexutil_Decode L txHash of
     Inl err \<Rightarrow> copy32 (Keccak256 L (bytes_of_string txHash))
   | Inr hashBytes \<Rightarrow>
       if length hashBytes \<noteq> DigestLength then copy32 (Keccak256 L (bytes_of_string txHash))
       else copy32 hashBytes)"

fun merkle_elements :: "'k evm_lib \<Rightarrow> string list \<Rightarrow> go_error + bytes list" where
  "merkle_elements L [] = Inr []"
| "merkle_elements L (hashStr # hashes) =
     wrap_then (hexutil_Decode L hashStr) ''failed to decode hex'' (\<lambda>proofBytes.
       if length proofBytes \<noteq> DigestLength
       then Inl (Msg ''invalid hash length, expected exactly 32 bytes'')
       else case merkle_elements L hashes of Inl err \<Rightarrow> Inl err
         | Inr proof \<Rightarrow> Inr (copy32 proofBytes # proof))"

definition merkleProofParsing :: "'k evm_lib \<Rightarrow> string \<Rightarrow> go_error + bytes list" where
  "merkleProofParsing L merkleProof =
     (if merkleProof = [] then Inr []
      else wrap_then (json_Strings L merkleProof) ''failed to unmarshal merkle proof JSON''
             (merkle_elements L))"

lemma length_copy32 [simp]: "length (copy32 bs) = 32"
  by (simp add: copy32_def DigestLength_def)

lemma copy32_id: "length bs = 32 \<Longrightarrow> copy32 bs = bs"
  by (simp add: copy32_def DigestLength_def)

subsection \<open>Transactions (\<open>chain.go\<close>, \<open>data.go\<close>)\<close>

definition prepareTxOpts ::
  "('k, 'x) EvmClient \<Rightarrow> bytes \<Rightarrow> 'k signerInfo \<Rightarrow> 'x \<Rightarrow> (TransactOpts, 'x) go_call" where
  "prepareTxOpts C data signer x =
     rpc_then (SuggestGasPrice (ec_rpc C) x) ''failed to fetch gas price'' (\<lambda>gasPrice x1.
     rpc_then (ChainID (ec_rpc C) x1) ''failed to fetch chain id'' (\<lambda>chainId x2.
     pure_then (NewKeyedTransactor (ec_lib C) (sg_privateKey signer) chainId) x2
       ''failed to generate transactor'' (\<lambda>tx.
     rpc_then (PendingNonceAt (ec_rpc C) (sg_address signer) x2)
       ''failed to fetch operator account nonce'' (\<lambda>nonce x3.
     let tx1 = tx\<lparr>to_Nonce := uint nonce\<rparr>;
         mul = sint (evm_GasPriceMultiplier (ec_chain C));
         txGasPrice = gasPrice * mul div 100;
         callMsg = \<lparr>cm_From = sg_address signer, cm_To = evm_BridgeAddress (ec_chain C),
                    cm_GasPrice = txGasPrice, cm_Data = data\<rparr> in
     rpc_then (EstimateGas (ec_rpc C) callMsg x3) ''failed to estimate gas limit'' (\<lambda>gasLimit x4.
     (Returned (Inr (tx1\<lparr>to_GasLimit := gasLimit\<rparr>)), x4))))))"

definition getWithdrawalTxHash ::
  "('k, 'x) EvmClient \<Rightarrow> TransactOpts \<Rightarrow> bytes \<Rightarrow> go_error + string" where
  "getWithdrawalTxHash C transactOpts data =
     (let tx = \<lparr>lt_Nonce = big_Uint64 (to_Nonce transactOpts), lt_Gas = to_GasLimit transactOpts,
                lt_To = evm_BridgeAddress (ec_chain C), lt_Value = to_Value transactOpts,
                lt_GasPrice = to_GasPrice transactOpts, lt_Data = data\<rparr> in
      wrap_then (to_Signer transactOpts (to_From transactOpts) tx) ''failed to sign transaction''
        (\<lambda>signTx. Inr (Hash_Hex (ec_lib C) signTx)))"

definition parse_amount :: "Deposit \<Rightarrow> go_error + int" where
  "parse_amount d = (case big_SetString (d_WithdrawalAmount d) of
     None \<Rightarrow> Inl (Msg ''failed to parse withdrawal amount'') | Some amount \<Rightarrow> Inr amount)"

definition getWithdrawalTxData ::
  "('k, 'x) EvmClient \<Rightarrow> string \<Rightarrow> Deposit \<Rightarrow> go_error + bytes" where
  "getWithdrawalTxData C m d = (let L = ec_lib C in
     case parse_amount d of Inl err \<Rightarrow> Inl err | Inr amount \<Rightarrow>
     let receiverAddress = HexToAddress L (d_Receiver d) in
     wrap_then (hexutil_Decode L (d_Signature d)) ''failed to decode signature'' (\<lambda>signatureBytes.
     wrap_then (merkleProofParsing L (d_MerkleProof d)) ''failed to parse MerkleProof'' (\<lambda>proof.
     if m = withdrawNative then
       abi_Pack L withdrawNative [AUint amount, AAddress receiverAddress,
         ABytes32 (txHashToBytes32 L (TxHash (d_Id d))), AUint (sint (TxNonce (d_Id d))),
         ABytesArray [signatureBytes]]
     else if m = withdrawERC20 then
       abi_Pack L withdrawERC20 [AAddress (HexToAddress L (d_WithdrawalToken d)), AUint amount,
         AAddress receiverAddress, ABytes32 (txHashToBytes32 L (TxHash (d_Id d))),
         AUint (sint (TxNonce (d_Id d))), ABool (d_IsWrappedToken d), ABytesArray [signatureBytes]]
     else if m = withdrawERC20Merkelized then
       abi_Pack L withdrawERC20Merkelized [AAddress (HexToAddress L (d_WithdrawalToken d)),
         AUint amount, AAddress receiverAddress, ABytes32 (txHashToBytes32 L (TxHash (d_Id d))),
         AUint (sint (TxNonce (d_Id d))), ABool (d_IsWrappedToken d), ABytes32Array proof,
         ABytesArray [signatureBytes]]
     else if m = withdrawNativeMerkelized then
       abi_Pack L withdrawNativeMerkelized [AUint amount, AAddress receiverAddress,
         ABytes32 (txHashToBytes32 L (TxHash (d_Id d))), AUint (sint (TxNonce (d_Id d))),
         ABytes32Array proof, ABytesArray [signatureBytes]]
     else Inl (Msg ''unknown method''))))"

subsection \<open>Reading the chain (\<open>client.go\<close>)\<close>

definition EvmClient_IsProcessed ::
  "('k, 'x) EvmClient \<Rightarrow> Deposit \<Rightarrow> 'x \<Rightarrow> (bool \<times> go_error option) go_result \<times> 'x" where
  "EvmClient_IsProcessed C d x =
     (case BridgeCaller_ContainsHash (br_Caller (ec_contractClient C)) \<lparr>co_Pending = False\<rparr>
             (txHashToBytes32 (ec_lib C) (TxHash (d_Id d))) (sint (TxNonce (d_Id d))) x of
        (Panic m, x1) \<Rightarrow> (Panic m, x1)
      | (Returned (Inl err), x1) \<Rightarrow>
          (Returned (False, Some (Wrap ''failed to call contract for used hash'' err)), x1)
      | (Returned (Inr used), x1) \<Rightarrow> (Returned (used, None), x1))"

definition get_header :: "('k, 'x) EvmClient \<Rightarrow> (int option \<times> 'x) retried" where
  "get_header C s = (case s of (header, x) \<Rightarrow> (case HeaderByNumber (ec_rpc C) x of
     (Inl err, x1) \<Rightarrow> (Returned (Some (Wrap ''failed to get block header'' err)), (None, x1))
   | (Inr number, x1) \<Rightarrow> (Returned None, (Some number, x1))))"

definition getBlockWithRetry :: "('k, 'x) EvmClient \<Rightarrow> 'x \<Rightarrow> (int64, 'x) go_call" where
  "getBlockWithRetry C x =
     (case DoWithRetry (rt_header (ec_retry C)) (rt_Retries (ec_retry C)) (get_header C) (None, x) of
        (Panic m, (header, x1)) \<Rightarrow> (Panic m, x1)
      | (Returned (Some err), (header, x1)) \<Rightarrow> (Returned (Inl (Wrap ''failed to get block'' err)), x1)
      | (Returned None, (None, x1)) \<Rightarrow> (Panic ''nil pointer dereference'', x1)
      | (Returned None, (Some number, x1)) \<Rightarrow> (Returned (Inr (word_of_int number)), x1))"

subsection \<open>Finalization (\<open>withdraw.go\<close>)\<close>

definition ReceiptStatusSuccessful :: uint64 where
  "ReceiptStatusSuccessful = 1"

text \<open>The receipts of a block, in order; \<open>None\<close> when none is of this transaction.\<close>

fun find_receipt :: "bytes \<Rightarrow> Receipt list \<Rightarrow> go_error option option" where
  "find_receipt txHash [] = None"
| "find_receipt txHash (r # rs) =
     (if rc_TxHash r \<noteq> txHash then find_receipt txHash rs
      else if rc_Status r = ReceiptStatusSuccessful then Some None
      else Some (Some (Msg ''tx failed on network'')))"

definition finalize_timeout ::
  "('k, 'x) EvmClient \<Rightarrow> bytes \<Rightarrow> 'x \<Rightarrow> go_error option \<times> 'x" where
  "finalize_timeout C txHash x = (case TransactionReceipt (ec_rpc C) txHash x of
     (Inl err, x1) \<Rightarrow>
       (Some (if errors_Is err ErrEthNotFound then Msg ''timeout waiting for tx finalize''
              else Wrap ''failed to get transaction receipt'' err), x1)
   | (Inr receipt, x1) \<Rightarrow>
       (if rc_Status receipt = ReceiptStatusSuccessful then None
        else Some (Msg ''transaction failed on network''), x1))"

text \<open>The loop over the new heads; the deadline makes \<open>ctxt.Done\<close> the last outcome.\<close>

fun finalize_loop ::
  "('k, 'x) EvmClient \<Rightarrow> bytes \<Rightarrow> int select list \<Rightarrow> 'x \<Rightarrow> go_error option \<times> 'x" where
  "finalize_loop C txHash [] x = finalize_timeout C txHash x"
| "finalize_loop C txHash (CtxDone # sel) x = finalize_timeout C txHash x"
| "finalize_loop C txHash (ChanClosed # sel) x = (Some (Msg ''receipt channel closed''), x)"
| "finalize_loop C txHash (Received number # sel) x =
     (case BlockReceipts (ec_rpc C) (word_of_int number) x of
        (Inl err, x1) \<Rightarrow>
          (Some (if strings_Contains (error_text err) notAvailableBlockReceipts
                 then Wrap ''failed to finalize'' (Leaf ErrSkippedFinalization)
                 else Wrap ''failed to get block receipts'' err), x1)
      | (Inr receipts, x1) \<Rightarrow> (case find_receipt txHash receipts of
          None \<Rightarrow> finalize_loop C txHash sel x1
        | Some err \<Rightarrow> (err, x1)))"

definition subscribeToWs :: "('k, 'x) EvmClient \<Rightarrow> 'x retried" where
  "subscribeToWs C x = (case SubscribeNewHead (ec_rpc C) x of
     (err, x1) \<Rightarrow> (Returned (errors_Wrap err ''failed to subscribe to headers''), x1))"

definition evm_finalize :: "('k, 'x) EvmClient \<Rightarrow> bytes \<Rightarrow> 'x retried" where
  "evm_finalize C txHash x =
     (case DoWithRetry (rt_finalize (ec_retry C)) (rt_Retries (ec_retry C)) (subscribeToWs C) x of
        (Panic m, x1) \<Rightarrow> (Panic m, x1)
      | (Returned (Some err), x1) \<Rightarrow> (Returned (Some err), x1)
      | (Returned None, x1) \<Rightarrow> (case head_events (ec_rpc C) x1 of
          (sel, x2) \<Rightarrow> (case finalize_loop C txHash sel x2 of (err, x3) \<Rightarrow> (Returned err, x3))))"

definition finalizer :: "('k, 'x) EvmClient \<Rightarrow> bytes \<Rightarrow> 'x retried" where
  "finalizer C txHash x = (case evm_finalize C txHash x of
     (Panic m, x1) \<Rightarrow> (Panic m, x1)
   | (Returned None, x1) \<Rightarrow> (Returned None, x1)
   | (Returned (Some err), x1) \<Rightarrow>
       (Returned (if errors_Is err ErrSkippedFinalization then None
                  else Some (Wrap ''failed to finalize'' err)), x1))"

subsection \<open>Withdrawals (\<open>withdraw.go\<close>)\<close>

text \<open>
  The four withdrawal methods share their text up to the contract call (\<open>withdraw_setup\<close>) and
  after it (\<open>withdraw_finish\<close>). All errors of the first part return an empty hash and block 0;
  the two Merkle methods parse the proof once more between the two.
\<close>

record withdraw_data =
  wd_opts :: TransactOpts
  wd_amount :: int
  wd_receiver :: address
  wd_signature :: bytes
  wd_hash :: string
  wd_block :: int64

definition withdraw_setup ::
  "('k, 'x) EvmClient \<Rightarrow> string \<Rightarrow> Deposit \<Rightarrow> 'k signerInfo \<Rightarrow> 'x \<Rightarrow> (withdraw_data, 'x) go_call" where
  "withdraw_setup C m d signer x =
     pure_then (getWithdrawalTxData C m d) x ''failed to get withdrawal tx data'' (\<lambda>data.
     call_then (prepareTxOpts C data signer x) ''failed to prepare transact opts'' (\<lambda>transactOpts x1.
     case parse_amount d of Inl err \<Rightarrow> (Returned (Inl err), x1) | Inr amount \<Rightarrow>
     pure_then (hexutil_Decode (ec_lib C) (d_Signature d)) x1 ''failed to decode signature''
       (\<lambda>signatureBytes.
     pure_then (getWithdrawalTxHash C transactOpts data) x1 ''failed to get withdrawal tx hash''
       (\<lambda>hash.
     call_then (getBlockWithRetry C x1) ''failed to get block'' (\<lambda>block x2.
     (Returned (Inr \<lparr>wd_opts = transactOpts, wd_amount = amount,
        wd_receiver = HexToAddress (ec_lib C) (d_Receiver d), wd_signature = signatureBytes,
        wd_hash = hash, wd_block = block\<rparr>), x2))))))"

type_synonym 'x withdrawn = "(string \<times> int64 \<times> go_error option) go_result \<times> 'x"

definition withdraw_finish ::
  "('k, 'x) EvmClient \<Rightarrow> string \<Rightarrow> withdraw_data \<Rightarrow> (go_error + bytes) \<times> 'x \<Rightarrow> 'x withdrawn" where
  "withdraw_finish C msg wd sent = (case sent of
     (Inl err, x1) \<Rightarrow> (Returned (wd_hash wd, wd_block wd, Some (Wrap msg err)), x1)
   | (Inr tx, x1) \<Rightarrow>
   (case DoWithRetry (rt_finalize (ec_retry C)) (rt_Retries (ec_retry C)) (finalizer C tx) x1 of
      (Panic m, x2) \<Rightarrow> (Panic m, x2)
    | (Returned (Some err), x2) \<Rightarrow>
        (Returned (wd_hash wd, wd_block wd, Some (Wrap ''failed to perform finalization'' err)), x2)
    | (Returned None, x2) \<Rightarrow> (Returned (Hash_Hex (ec_lib C) tx, wd_block wd, None), x2)))"

definition client_withdrawNative ::
  "('k, 'x) EvmClient \<Rightarrow> Deposit \<Rightarrow> 'k signerInfo \<Rightarrow> 'x \<Rightarrow> 'x withdrawn" where
  "client_withdrawNative C d signer x = (case withdraw_setup C withdrawNative d signer x of
     (Panic m, x1) \<Rightarrow> (Panic m, x1)
   | (Returned (Inl err), x1) \<Rightarrow> (Returned ([], 0, Some err), x1)
   | (Returned (Inr wd), x1) \<Rightarrow>
       withdraw_finish C ''failed to withdraw native'' wd
         (BridgeTransactor_WithdrawNative (br_Transactor (ec_contractClient C)) (wd_opts wd)
            (wd_amount wd) (wd_receiver wd) (txHashToBytes32 (ec_lib C) (TxHash (d_Id d)))
            (sint (TxNonce (d_Id d))) [wd_signature wd] x1))"

definition client_withdrawToken ::
  "('k, 'x) EvmClient \<Rightarrow> Deposit \<Rightarrow> 'k signerInfo \<Rightarrow> 'x \<Rightarrow> 'x withdrawn" where
  "client_withdrawToken C d signer x = (case withdraw_setup C withdrawERC20 d signer x of
     (Panic m, x1) \<Rightarrow> (Panic m, x1)
   | (Returned (Inl err), x1) \<Rightarrow> (Returned ([], 0, Some err), x1)
   | (Returned (Inr wd), x1) \<Rightarrow>
       withdraw_finish C ''failed to withdraw token'' wd
         (BridgeTransactor_WithdrawERC20 (br_Transactor (ec_contractClient C)) (wd_opts wd)
            (HexToAddress (ec_lib C) (d_WithdrawalToken d)) (wd_amount wd)
            (wd_receiver wd) (txHashToBytes32 (ec_lib C) (TxHash (d_Id d)))
            (sint (TxNonce (d_Id d))) (d_IsWrappedToken d) [wd_signature wd] x1))"

definition client_withdrawERC20Merkelized ::
  "('k, 'x) EvmClient \<Rightarrow> Deposit \<Rightarrow> 'k signerInfo \<Rightarrow> 'x \<Rightarrow> 'x withdrawn" where
  "client_withdrawERC20Merkelized C d signer x =
     (case withdraw_setup C withdrawERC20Merkelized d signer x of
     (Panic m, x1) \<Rightarrow> (Panic m, x1)
   | (Returned (Inl err), x1) \<Rightarrow> (Returned ([], 0, Some err), x1)
   | (Returned (Inr wd), x1) \<Rightarrow>
     (case merkleProofParsing (ec_lib C) (d_MerkleProof d) of
        Inl err \<Rightarrow> (Returned ([], 0, Some (Wrap ''failed to parse MerkleProof'' err)), x1)
      | Inr proof \<Rightarrow>
       withdraw_finish C ''failed to withdraw ERC20Merklized'' wd
         (BridgeTransactor_WithdrawERC20Merkelized (br_Transactor (ec_contractClient C)) (wd_opts wd)
            (HexToAddress (ec_lib C) (d_WithdrawalToken d)) (wd_amount wd)
            (wd_receiver wd) (txHashToBytes32 (ec_lib C) (TxHash (d_Id d)))
            (sint (TxNonce (d_Id d))) (d_IsWrappedToken d) proof [wd_signature wd] x1)))"

definition client_withdrawNativeMerkelized ::
  "('k, 'x) EvmClient \<Rightarrow> Deposit \<Rightarrow> 'k signerInfo \<Rightarrow> 'x \<Rightarrow> 'x withdrawn" where
  "client_withdrawNativeMerkelized C d signer x =
     (case withdraw_setup C withdrawNativeMerkelized d signer x of
     (Panic m, x1) \<Rightarrow> (Panic m, x1)
   | (Returned (Inl err), x1) \<Rightarrow> (Returned ([], 0, Some err), x1)
   | (Returned (Inr wd), x1) \<Rightarrow>
     (case merkleProofParsing (ec_lib C) (d_MerkleProof d) of
        Inl err \<Rightarrow> (Returned ([], 0, Some (Wrap ''failed to parse MerkleProof'' err)), x1)
      | Inr proof \<Rightarrow>
       withdraw_finish C ''failed to withdraw merkelized native'' wd
         (BridgeTransactor_WithdrawNativeMerkelized (br_Transactor (ec_contractClient C)) (wd_opts wd)
            (wd_amount wd) (wd_receiver wd) (txHashToBytes32 (ec_lib C) (TxHash (d_Id d)))
            (sint (TxNonce (d_Id d))) proof [wd_signature wd] x1)))"

definition getWithdrawFunc ::
  "('k, 'x) EvmClient \<Rightarrow> Deposit \<Rightarrow> (Deposit \<Rightarrow> 'k signerInfo \<Rightarrow> 'x \<Rightarrow> 'x withdrawn)" where
  "getWithdrawFunc C d =
     (let isNative = (d_WithdrawalToken d = DefaultNativeTokenAddress);
          isMerkelized = (d_MerkleProof d \<noteq> []) in
      if isNative \<and> isMerkelized then client_withdrawNativeMerkelized C
      else if isNative \<and> \<not> isMerkelized then client_withdrawNative C
      else if \<not> isNative \<and> isMerkelized then client_withdrawERC20Merkelized C
      else client_withdrawToken C)"

definition EvmClient_Withdraw ::
  "('k, 'x) EvmClient \<Rightarrow> Deposit \<Rightarrow> 'k signerInfo \<Rightarrow> 'x
     \<Rightarrow> (string \<times> string \<times> int64 \<times> go_error option) go_result \<times> 'x" where
  "EvmClient_Withdraw C d signer x = (case getWithdrawFunc C d d signer x of
     (Panic m, x1) \<Rightarrow> (Panic m, x1)
   | (Returned (txHash, block, err), x1) \<Rightarrow>
       (Returned (Address_String (ec_lib C) (sg_address signer), txHash, block, err), x1))"

subsection \<open>Updating signers (\<open>signer.go\<close>)\<close>

definition receiptSuccess :: uint64 where
  "receiptSuccess = 1"

definition EvmClient_UpdateSigners ::
  "('k, 'x) EvmClient \<Rightarrow> Epoch \<Rightarrow> 'k signerInfo \<Rightarrow> 'x \<Rightarrow> (string \<times> int64, 'x) go_call" where
  "EvmClient_UpdateSigners C e txSigner x =
     pure_then (hexutil_Decode (ec_lib C) (e_Signature e)) x ''failed to decode signature''
       (\<lambda>signatureBytes.
     let signer = HexToAddress (ec_lib C) (e_Signer e) in
     case big_SetString (e_Nonce e) of
       None \<Rightarrow> (Returned (Inl (Msg ''failed to parse nonce'')), x)
     | Some nonce \<Rightarrow>
     pure_then (abi_Pack (ec_lib C) ''updateSigner''
         [AAddress signer, AUint (uint (e_StartTime e)), AUint (uint (e_EndTime e)), AUint nonce,
          ABool (e_SignatureMode e), ABytesArray [signatureBytes]]) x ''failed to prepare transact opts''
       (\<lambda>data.
     call_then (prepareTxOpts C data txSigner x) ''failed to prepare transact opts''
       (\<lambda>transactOpts x1.
     call_then (getBlockWithRetry C x1) ''failed to get block'' (\<lambda>block x2.
     rpc_then (BridgeTransactor_UpdateSigner (br_Transactor (ec_contractClient C)) transactOpts signer
         (uint (e_StartTime e)) (uint (e_EndTime e)) nonce (e_SignatureMode e) [signatureBytes] x2)
       ''failed to update signers'' (\<lambda>tx x3.
     rpc_then (WaitMined (ec_rpc C) tx x3) ''failed to wait for mining'' (\<lambda>receipt x4.
     if rc_Status receipt \<noteq> receiptSuccess
     then (Returned (Inl (Msg ''transaction execution failed'')), x4)
     else (Returned (Inr (Hash_Hex (ec_lib C) tx, block)), x4)))))))"

subsection \<open>Child clients (\<open>child_client.go\<close>)\<close>

text \<open>A child is its signers; \<open>rand.Intn\<close> picks the one that signs.\<close>

definition evm_AddSigner :: "'k evm_lib \<Rightarrow> 'k \<Rightarrow> 'k signerInfo" where
  "evm_AddSigner L key = \<lparr>sg_address = PubkeyToAddress L key, sg_privateKey = key\<rparr>"

definition evm_ConfigureChildClients :: "('k, 'x) EvmClient \<Rightarrow> 'k signerInfo list list go_result" where
  "evm_ConfigureChildClients C =
     ConfigureChildClients (evm_Workers (ec_chain C)) (evm_AddSigner (ec_lib C))
       (evm_OperatorsPrivKeys (ec_chain C))"

definition evm_child_Withdraw ::
  "(nat \<Rightarrow> 'x \<Rightarrow> nat \<times> 'x) \<Rightarrow> ('k, 'x) EvmClient \<Rightarrow> 'k signerInfo list \<Rightarrow> Deposit \<Rightarrow> 'x
     \<Rightarrow> (string \<times> string \<times> int64 \<times> go_error option) go_result \<times> 'x" where
  "evm_child_Withdraw rand_Intn C signers d x =
     (if signers = [] then (Returned ([], [], 0, Some (Msg ''no signers available'')), x)
      else case pick_signer rand_Intn signers x of
          (Panic m, x1) \<Rightarrow> (Panic m, x1)
        | (Returned signer, x1) \<Rightarrow> EvmClient_Withdraw C d signer x1)"

definition evm_child_UpdateSigners ::
  "(nat \<Rightarrow> 'x \<Rightarrow> nat \<times> 'x) \<Rightarrow> ('k, 'x) EvmClient \<Rightarrow> 'k signerInfo list \<Rightarrow> Epoch \<Rightarrow> 'x
     \<Rightarrow> (string \<times> int64 \<times> go_error option) go_result \<times> 'x" where
  "evm_child_UpdateSigners rand_Intn C signers e x =
     (if signers = [] then (Returned ([], 0, Some (Msg ''no signers available'')), x)
      else case pick_signer rand_Intn signers x of
          (Panic m, x1) \<Rightarrow> (Panic m, x1)
        | (Returned signer, x1) \<Rightarrow>
        (case EvmClient_UpdateSigners C e signer x1 of
           (Panic m, x2) \<Rightarrow> (Panic m, x2)
         | (Returned (Inl err), x2) \<Rightarrow>
             (Returned ([], 0, Some (Wrap ''failed to call update signers method'' err)), x2)
         | (Returned (Inr (tx, block)), x2) \<Rightarrow> (Returned (tx, block, None), x2)))"

text \<open>The value of a call that cannot panic.\<close>

fun returned_value :: "'a go_result \<times> 'x \<Rightarrow> 'a \<times> 'x" where
  "returned_value (Returned a, x) = (a, x)"

definition EvmChildClient ::
  "(nat \<Rightarrow> 'x \<Rightarrow> nat \<times> 'x) \<Rightarrow> ('k, 'x) EvmClient \<Rightarrow> 'k signerInfo list \<Rightarrow> 'x ChildClient" where
  "EvmChildClient rand_Intn C signers =
     \<lparr>cc_UpdateSigners = (\<lambda>e x. returned_value (evm_child_UpdateSigners rand_Intn C signers e x)),
      cc_Withdraw = (\<lambda>d x. returned_value (evm_child_Withdraw rand_Intn C signers d x)),
      cc_IsProcessed = (\<lambda>d x. returned_value (EvmClient_IsProcessed C d x))\<rparr>"

end
