(* ===== verification/Evm_Props.thy ===== *)
theory Evm_Props
  imports Evm
begin

text \<open>
  What the EVM client guarantees: which contract call a successful withdrawal made and what
  confirmed it, the gas a transaction is given, and that the client's calls do not panic.
\<close>

subsection \<open>Finalization\<close>

definition confirmed :: "('k, 'x) EvmClient \<Rightarrow> bytes \<Rightarrow> 'x \<Rightarrow> bool" where
  "confirmed C txHash x' \<longleftrightarrow>
     (\<exists>r y. TransactionReceipt (ec_rpc C) txHash y = (Inr r, x') \<and> rc_Status r = 1)
   \<or> (\<exists>n rs r y. BlockReceipts (ec_rpc C) n y = (Inr rs, x') \<and> r \<in> set rs
        \<and> rc_TxHash r = txHash \<and> rc_Status r = 1)"

text \<open>The node does not offer the call that finalization needs.\<close>

definition receipts_unavailable :: "('k, 'x) EvmClient \<Rightarrow> 'x \<Rightarrow> bool" where
  "receipts_unavailable C x' \<longleftrightarrow>
     (\<exists>n y err. BlockReceipts (ec_rpc C) n y = (Inl err, x')
        \<and> (strings_Contains (error_text err) notAvailableBlockReceipts
           \<or> errors_Is err ErrSkippedFinalization))"

lemma find_receipt_SomeD:
  "find_receipt h rs = Some None \<Longrightarrow> \<exists>r \<in> set rs. rc_TxHash r = h \<and> rc_Status r = 1"
  by (induction rs) (auto simp: ReceiptStatusSuccessful_def split: if_splits)

lemma finalize_timeout_None:
  "finalize_timeout C h x = (None, x') \<Longrightarrow> confirmed C h x'"
  by (auto simp: finalize_timeout_def confirmed_def ReceiptStatusSuccessful_def
      split: prod.splits sum.splits if_splits)

lemma finalize_loop_None: "finalize_loop C h sel x = (None, x') \<Longrightarrow> confirmed C h x'"
proof (induction C h sel x rule: finalize_loop.induct)
  case (4 C h number sel x)
  obtain q x1 where b: "BlockReceipts (ec_rpc C) (word_of_int number) x = (q, x1)" by fastforce
  from "4.prems" b obtain rs where q: "q = Inr rs" by (cases q) (auto split: if_splits)
  show ?case
  proof (cases "find_receipt h rs")
    case None
    with "4.prems" b q "4.IH" show ?thesis by simp
  next
    case (Some err)
    with "4.prems" b q have "err = None" "x' = x1" by simp_all
    with Some b q show ?thesis
      unfolding confirmed_def by (blast dest: find_receipt_SomeD)
  qed
qed (auto dest: finalize_timeout_None)

lemma evm_finalize_None:
  "evm_finalize C h x = (Returned None, x') \<Longrightarrow> confirmed C h x'"
  by (auto simp: evm_finalize_def finalize_loop_None split: prod.splits go_result.splits option.splits)

lemma subscribeToWs_never_panics: "never_panics (subscribeToWs C)"
  by (rule never_panicsI) (auto simp: subscribeToWs_def split: prod.splits)

lemma evm_finalize_never_panics:
  assumes "retry_contract (rt_finalize (ec_retry C))"
  shows "never_panics (evm_finalize C h)"
proof (rule never_panicsI)
  fix x m x'
  assume "evm_finalize C h x = (Panic m, x')"
  then show False
    using never_panicsD [OF DoWithRetry_never_panics [OF assms subscribeToWs_never_panics]]
    by (auto simp: evm_finalize_def split: prod.splits go_result.splits option.splits)
qed

lemma finalizer_never_panics:
  assumes "retry_contract (rt_finalize (ec_retry C))"
  shows "never_panics (finalizer C h)"
proof (rule never_panicsI)
  fix x m x'
  assume "finalizer C h x = (Panic m, x')"
  then show False
    using never_panicsD [OF evm_finalize_never_panics [OF assms]]
    by (auto simp: finalizer_def split: prod.splits go_result.splits option.splits)
qed


subsection \<open>Blocks\<close>

lemma get_header_never_panics: "never_panics (get_header C)"
  by (rule never_panicsI) (auto simp: get_header_def split: prod.splits sum.splits)

lemma getBlockWithRetry_never_panics:
  assumes "retry_contract (rt_header (ec_retry C))"
  shows "never_panics (getBlockWithRetry C)"
proof (rule never_panicsI)
  fix x m x'
  let ?R = "DoWithRetry (rt_header (ec_retry C)) (rt_Retries (ec_retry C)) (get_header C) (None, x)"
  assume p: "getBlockWithRetry C x = (Panic m, x')"
  then consider s where "?R = (Panic m, s)" | y where "?R = (Returned None, (None, y))"
    by (auto simp: getBlockWithRetry_def split: prod.splits go_result.splits option.splits)
  then show False
  proof cases
    case 1
    then show False
      by (rule never_panicsD [OF DoWithRetry_never_panics [OF assms get_header_never_panics]])
  next
    case 2
    then obtain k t where "get_header C t = (Returned None, (None, y))"
      by (rule DoWithRetry_success [OF assms])
    then show False by (auto simp: get_header_def split: prod.splits sum.splits)
  qed
qed

lemma prepareTxOpts_never_panics: "never_panics (prepareTxOpts C data signer)"
  by (rule never_panicsI) (simp add: prepareTxOpts_def go_simps Let_def)

lemma withdraw_setup_never_panics:
  assumes "retry_contract (rt_header (ec_retry C))"
  shows "never_panics (withdraw_setup C m d signer)"
  by (rule never_panicsI, cases "parse_amount d")
     (auto simp: withdraw_setup_def go_simps
        dest: never_panicsD [OF getBlockWithRetry_never_panics [OF assms]]
          never_panicsD [OF prepareTxOpts_never_panics])

lemma withdraw_finish_no_panic:
  assumes "retry_contract (rt_finalize (ec_retry C))" and "withdraw_finish C msg wd sent = (Panic p, x')"
  shows False
  using assms(2) never_panicsD [OF DoWithRetry_never_panics [OF assms(1) finalizer_never_panics [OF assms(1)]]]
  by (auto simp: withdraw_finish_def split: prod.splits sum.splits go_result.splits option.splits)

lemmas client_withdraw_defs = client_withdrawNative_def client_withdrawToken_def
  client_withdrawERC20Merkelized_def client_withdrawNativeMerkelized_def

definition evm_retries_ok :: "('k, 'x) EvmClient \<Rightarrow> bool" where
  "evm_retries_ok C \<longleftrightarrow> retry_contract (rt_header (ec_retry C))
     \<and> retry_contract (rt_finalize (ec_retry C))"

lemma EvmClient_Withdraw_never_panics:
  assumes "evm_retries_ok C"
  shows "never_panics (EvmClient_Withdraw C d signer)"
proof (rule never_panicsI)
  fix x p x'
  from assms have r: "retry_contract (rt_header (ec_retry C))" "retry_contract (rt_finalize (ec_retry C))"
    by (simp_all add: evm_retries_ok_def)
  assume "EvmClient_Withdraw C d signer x = (Panic p, x')"
  then have "getWithdrawFunc C d d signer x = (Panic p, x')"
    by (auto simp: EvmClient_Withdraw_def split: prod.splits go_result.splits)
  then show False
    by (auto simp: getWithdrawFunc_def client_withdraw_defs Let_def
        split: prod.splits go_result.splits sum.splits if_splits
        dest: never_panicsD [OF withdraw_setup_never_panics [OF r(1)]]
          withdraw_finish_no_panic [OF r(2)])
qed

lemma EvmClient_UpdateSigners_never_panics:
  assumes "evm_retries_ok C"
  shows "never_panics (EvmClient_UpdateSigners C e signer)"
proof (rule never_panicsI)
  fix x p x'
  from assms have r: "retry_contract (rt_header (ec_retry C))" by (simp add: evm_retries_ok_def)
  assume "EvmClient_UpdateSigners C e signer x = (Panic p, x')"
  then show False
    by (auto simp: EvmClient_UpdateSigners_def go_simps Let_def split: option.splits if_splits
        dest: never_panicsD [OF getBlockWithRetry_never_panics [OF r]]
          never_panicsD [OF prepareTxOpts_never_panics])
qed

lemma returned_value_id:
  assumes "never_panics f"
  shows "map_prod Returned id (returned_value (f x)) = f x"
  using assms by (cases "f x") (auto simp: never_panics_def returned_iff dest!: spec [of _ x])

subsection \<open>Properties\<close>





lemma native_merkelized_fails:
  assumes "abi_contract (ec_lib C)"
  shows "\<exists>err. getWithdrawalTxData C withdrawNativeMerkelized d = Inl err"
proof -
  have m: "withdrawNativeMerkelized \<notin> bridge_methods" "withdrawNativeMerkelized \<noteq> withdrawNative"
    "withdrawNativeMerkelized \<noteq> withdrawERC20" "withdrawNativeMerkelized \<noteq> withdrawERC20Merkelized"
    by (simp_all add: evm_methods bridge_methods_def bridge_abi_def)
  with assms have "\<exists>err. abi_Pack (ec_lib C) withdrawNativeMerkelized args = Inl err" for args
    by (auto simp: abi_contract_def)
  with m show ?thesis
    by (cases "parse_amount d")
       (auto simp: getWithdrawalTxData_def Let_def wrap_then_def split: sum.splits)
qed













text \<open>A concrete node and library for witnesses; the outside world counts the RPC calls.\<close>

definition demo_lib :: "nat evm_lib" where
  "demo_lib = \<lparr>
     hexutil_Decode = (\<lambda>s. if strings_HasPrefix s ''0x'' then hex_DecodeString (drop 2 s)
                           else Inl (Msg ''hex string without 0x prefix'')),
     Keccak256 = (\<lambda>bs. take 32 (bs @ replicate 32 7)),
     json_Strings = (\<lambda>s. if s = ''[]'' then Inr [] else Inl (Msg ''unexpected end of JSON input'')),
     HexToAddress = (\<lambda>s. case hex_DecodeString (drop 2 s) of Inl _ \<Rightarrow> replicate 20 0
                         | Inr bs \<Rightarrow> take 20 (bs @ replicate 20 0)),
     Address_String = (\<lambda>a. ''0x'' @ hex_EncodeToString a),
     Hash_Hex = (\<lambda>h. ''0x'' @ hex_EncodeToString h),
     PubkeyToAddress = (\<lambda>k. replicate 20 (word_of_nat k)),
     abi_Pack = (\<lambda>m args. if m \<in> bridge_methods then Inr (bytes_of_string m)
                          else Inl (Msg (''method not found: '' @ m))),
     NewKeyedTransactor = (\<lambda>k chain. Inr \<lparr>to_From = replicate 20 (word_of_nat k), to_Nonce = 0,
        to_Signer = (\<lambda>a tx. Inr (lt_Data tx)), to_Value = None, to_GasPrice = None, to_GasLimit = 0\<rparr>)\<rparr>"

definition demo_rpc :: "nat evm_rpc" where
  "demo_rpc = \<lparr>
     SuggestGasPrice = (\<lambda>x. (Inr 1000, Suc x)), ChainID = (\<lambda>x. (Inr 1, Suc x)),
     PendingNonceAt = (\<lambda>a x. (Inr 5, Suc x)), EstimateGas = (\<lambda>m x. (Inr 21000, Suc x)),
     HeaderByNumber = (\<lambda>x. (Inr 100, Suc x)),
     TransactionReceipt = (\<lambda>h x. (Inl (Leaf ErrEthNotFound), Suc x)),
     BlockReceipts = (\<lambda>n x. (Inr [\<lparr>rc_TxHash = [1], rc_Status = 0\<rparr>, \<lparr>rc_TxHash = [9], rc_Status = 1\<rparr>], Suc x)),
     SubscribeNewHead = (\<lambda>x. (None, Suc x)), head_events = (\<lambda>x. ([Received 101], x)),
     WaitMined = (\<lambda>h x. (Inr \<lparr>rc_TxHash = h, rc_Status = 1\<rparr>, Suc x))\<rparr>"

definition demo_contract :: "nat bound_contract" where
  "demo_contract = \<lparr>
     bc_Call = (\<lambda>opts m args x. (if m = ''containsHash'' then Inr [ABool False]
                                  else Inl (Msg ''execution reverted''), Suc x)),
     bc_Transact = (\<lambda>opts m args x. (Inr [9], Suc x)),
     bc_RawTransact = (\<lambda>opts data x. (Inr [9], Suc x)), bc_Transfer = (\<lambda>opts x. (Inr [9], Suc x)),
     bc_FilterLogs = (\<lambda>opts m q x. (Inr [], Suc x)), bc_WatchLogs = (\<lambda>opts m q x. (Inr [], Suc x)),
     bc_UnpackLog = (\<lambda>m l. ([], None))\<rparr>"

definition demo_bridge :: "nat Bridge" where
  "demo_bridge = \<lparr>br_Caller = \<lparr>brc_contract = demo_contract\<rparr>,
     br_Transactor = \<lparr>brt_contract = demo_contract\<rparr>, br_Filterer = \<lparr>brf_contract = demo_contract\<rparr>\<rparr>"

definition demo_evm :: "(nat, nat) EvmClient" where
  "demo_evm = \<lparr>ec_lib = demo_lib, ec_rpc = demo_rpc,
     ec_retry = \<lparr>rt_Retries = 3, rt_header = retry_ref, rt_finalize = retry_ref\<rparr>,
     ec_chain = \<lparr>evm_Id = ''1'', evm_BridgeAddress = replicate 20 1, evm_OperatorsPrivKeys = [4],
       evm_Workers = 1, evm_WSTimeout = 10, evm_GasPriceMultiplier = 120\<rparr>,
     ec_contractClient = demo_bridge\<rparr>"

definition demo_signer :: "nat signerInfo" where
  "demo_signer = \<lparr>sg_address = replicate 20 4, sg_privateKey = 4\<rparr>"

definition demo_deposit :: Deposit where
  "demo_deposit = zero_Deposit\<lparr>d_WithdrawalAmount := ''10'', d_Signature := ''0x0a'',
     d_WithdrawalToken := ''0x01'', d_Receiver := ''0x02''\<rparr>"

lemmas demo_evm_defs = demo_evm_def demo_lib_def demo_rpc_def demo_bridge_def demo_contract_def
  demo_signer_def demo_deposit_def

lemma demo_evm_ok: "evm_retries_ok demo_evm" "abi_contract (ec_lib demo_evm)"
  by (simp_all add: evm_retries_ok_def abi_contract_def demo_evm_defs retry_ref_contract)

lemma demo_outputs_ok: "outputs_ok (brc_contract (br_Caller (ec_contractClient demo_evm)))"
  by (auto simp: outputs_ok_def demo_evm_defs bridge_abi_def split: if_splits)

lemma EvmClient_IsProcessed_never_panics:
  assumes "outputs_ok (brc_contract (br_Caller (ec_contractClient C)))"
  shows "never_panics (EvmClient_IsProcessed C d)"
proof (rule never_panicsI)
  fix x m x'
  assume "EvmClient_IsProcessed C d x = (Panic m, x')"
  moreover have "\<exists>r y. BridgeCaller_ContainsHash (br_Caller (ec_contractClient C)) opts h n x = (Returned r, y)" for opts h n
    unfolding BridgeCaller_ContainsHash_def
    by (rule call_out_returns [OF assms _ abi_type_out(1)]) (simp_all add: bridge_abi_def)
  ultimately show False
    by (auto simp: EvmClient_IsProcessed_def split: prod.splits go_result.splits sum.splits) (metis Pair_inject go_result.distinct(1))
qed



text \<open>
  C38: The method name the client packs for a native withdrawal with a Merkle proof is not a
  method of the contract's ABI. Every such withdrawal ends in an error before anything is read
  from or sent to the chain, whatever the node and the deposit are.
\<close>

theorem evm_native_merkelized_never_sent:
  assumes "abi_contract (ec_lib C)" and "d_WithdrawalToken d = DefaultNativeTokenAddress"
    and "d_MerkleProof d \<noteq> []"
  shows "\<exists>err. EvmClient_Withdraw C d signer x
    = (Returned (Address_String (ec_lib C) (sg_address signer), [], 0, Some err), x)"
  using native_merkelized_fails [OF assms(1), of d] assms(2,3)
  by (auto simp: EvmClient_Withdraw_def getWithdrawFunc_def client_withdrawNativeMerkelized_def
      withdraw_setup_def Let_def)

theorem evm_native_merkelized_never_sent_witness:
  "\<exists>err. EvmClient_Withdraw demo_evm (demo_deposit\<lparr>d_WithdrawalToken := DefaultNativeTokenAddress,
       d_MerkleProof := ''[]''\<rparr>) demo_signer 0
     = (Returned (Address_String (ec_lib demo_evm) (sg_address demo_signer), [], 0, Some err), 0)"
  by (rule evm_native_merkelized_never_sent [OF demo_evm_ok(2)]) simp_all

text \<open>
  C17: \<open>finalize\<close> returns nil only after the node returned a receipt of that transaction whose
  status is successful: from \<open>BlockReceipts\<close> of a new head, or from \<open>TransactionReceipt\<close> when the
  deadline passed. It never panics, so the retries around it end in an error or in success.
\<close>

theorem evm_finalize_sound:
  assumes "retry_contract (rt_finalize (ec_retry C))"
  shows "never_panics (evm_finalize C txHash)
    \<and> (\<forall>x x'. evm_finalize C txHash x = (Returned None, x') \<longrightarrow> confirmed C txHash x')"
  using evm_finalize_never_panics [OF assms, of txHash] by (auto dest: evm_finalize_None)

theorem evm_finalize_sound_witness:
  "never_panics (evm_finalize demo_evm [9]) \<and> confirmed demo_evm [9] 2"
proof -
  have "evm_finalize demo_evm [9] 0 = (Returned None, 2)" by code_simp
  moreover have "retry_contract (rt_finalize (ec_retry demo_evm))"
    by (simp add: demo_evm_defs retry_ref_contract)
  ultimately show ?thesis using evm_finalize_sound by blast
qed

lemma evm_child_never_panics:
  assumes "evm_retries_ok C" and "rand_law rand_Intn"
  shows "never_panics (evm_child_Withdraw rand_Intn C signers d)"
    and "never_panics (evm_child_UpdateSigners rand_Intn C signers e)"
proof -
  have pick: "\<exists>i y. pick_signer rand_Intn signers x = (Returned (signers ! i), y)" if "signers \<noteq> []" for x
    using pick_signer_law [OF assms(2) that, of x] by blast
  show "never_panics (evm_child_Withdraw rand_Intn C signers d)"
  proof (rule never_panicsI)
    fix x p x' assume run: "evm_child_Withdraw rand_Intn C signers d x = (Panic p, x')"
    then have "signers \<noteq> []" by (auto simp: evm_child_Withdraw_def)
    with pick [of x] run show False
      by (auto simp: evm_child_Withdraw_def dest: never_panicsD [OF EvmClient_Withdraw_never_panics [OF assms(1)]])
  qed
  show "never_panics (evm_child_UpdateSigners rand_Intn C signers e)"
  proof (rule never_panicsI)
    fix x p x' assume run: "evm_child_UpdateSigners rand_Intn C signers e x = (Panic p, x')"
    then have "signers \<noteq> []" by (auto simp: evm_child_UpdateSigners_def)
    with pick [of x] run show False
      by (auto simp: evm_child_UpdateSigners_def split: prod.splits go_result.splits sum.splits
          dest: never_panicsD [OF EvmClient_UpdateSigners_never_panics [OF assms(1)]])
  qed
qed

lemma returned_values:
  "never_panics f \<Longrightarrow> \<exists>r y. f x = (Returned r, y) \<and> returned_value (f x) = (r, y)"
  by (cases "f x") (auto simp: never_panics_def returned_iff dest!: spec [of _ x])

text \<open>
  C36: A child client of an EVM chain signs with one of its own signers or refuses. For a random
  source that keeps its law and retries as documented, none of the three calls panics, whatever
  signers the child has, and the value the broadcaster's interface gives is the method's result.
  Without signers both \<open>Withdraw\<close> and \<open>UpdateSigners\<close> return the error that none is available, and
  touch nothing. With signers one is drawn; the withdrawal is the client's withdrawal with that
  signer, and the update of the signers gives the client's hash and block, or its error, wrapped.
\<close>

theorem evm_child_signs_or_refuses:
  assumes "evm_retries_ok C" and "outputs_ok (brc_contract (br_Caller (ec_contractClient C)))"
    and "rand_law rand_Intn"
  shows "(\<exists>r y. evm_child_Withdraw rand_Intn C signers d x = (Returned r, y)
        \<and> cc_Withdraw (EvmChildClient rand_Intn C signers) d x = (r, y))
    \<and> (\<exists>r y. evm_child_UpdateSigners rand_Intn C signers e x = (Returned r, y)
        \<and> cc_UpdateSigners (EvmChildClient rand_Intn C signers) e x = (r, y))
    \<and> (\<exists>r y. EvmClient_IsProcessed C d x = (Returned r, y)
        \<and> cc_IsProcessed (EvmChildClient rand_Intn C signers) d x = (r, y))
    \<and> (if signers = [] then
          evm_child_Withdraw rand_Intn C signers d x
            = (Returned ([], [], 0, Some (Msg ''no signers available'')), x)
          \<and> evm_child_UpdateSigners rand_Intn C signers e x
            = (Returned ([], 0, Some (Msg ''no signers available'')), x)
        else (\<exists>i y. rand_Intn (length signers) x = (i, y) \<and> i < length signers
          \<and> evm_child_Withdraw rand_Intn C signers d x = EvmClient_Withdraw C d (signers ! i) y
          \<and> ((\<exists>tx block z. EvmClient_UpdateSigners C e (signers ! i) y = (Returned (Inr (tx, block)), z)
                \<and> evm_child_UpdateSigners rand_Intn C signers e x = (Returned (tx, block, None), z))
            \<or> (\<exists>err z. EvmClient_UpdateSigners C e (signers ! i) y = (Returned (Inl err), z)
                \<and> evm_child_UpdateSigners rand_Intn C signers e x
                    = (Returned ([], 0, Some (Wrap ''failed to call update signers method'' err)), z)))))"
proof -
  have "\<exists>r y. evm_child_Withdraw rand_Intn C signers d x = (Returned r, y)
      \<and> cc_Withdraw (EvmChildClient rand_Intn C signers) d x = (r, y)"
    using returned_values [OF evm_child_never_panics(1) [OF assms(1,3)]] by (simp add: EvmChildClient_def)
  moreover have "\<exists>r y. evm_child_UpdateSigners rand_Intn C signers e x = (Returned r, y)
      \<and> cc_UpdateSigners (EvmChildClient rand_Intn C signers) e x = (r, y)"
    using returned_values [OF evm_child_never_panics(2) [OF assms(1,3)]] by (simp add: EvmChildClient_def)
  moreover have "\<exists>r y. EvmClient_IsProcessed C d x = (Returned r, y)
      \<and> cc_IsProcessed (EvmChildClient rand_Intn C signers) d x = (r, y)"
    using returned_values [OF EvmClient_IsProcessed_never_panics [OF assms(2)]] by (simp add: EvmChildClient_def)
  moreover have "\<exists>i y. rand_Intn (length signers) x = (i, y) \<and> i < length signers
      \<and> evm_child_Withdraw rand_Intn C signers d x = EvmClient_Withdraw C d (signers ! i) y
      \<and> ((\<exists>tx block z. EvmClient_UpdateSigners C e (signers ! i) y = (Returned (Inr (tx, block)), z)
            \<and> evm_child_UpdateSigners rand_Intn C signers e x = (Returned (tx, block, None), z))
        \<or> (\<exists>err z. EvmClient_UpdateSigners C e (signers ! i) y = (Returned (Inl err), z)
            \<and> evm_child_UpdateSigners rand_Intn C signers e x
                = (Returned ([], 0, Some (Wrap ''failed to call update signers method'' err)), z)))"
    if some: "signers \<noteq> []"
  proof -
    obtain i y where p: "rand_Intn (length signers) x = (i, y)" "i < length signers"
      "pick_signer rand_Intn signers x = (Returned (signers ! i), y)"
      by (rule pick_signer_law [OF assms(3) some])
    obtain q z where u: "EvmClient_UpdateSigners C e (signers ! i) y = (q, z)" by fastforce
    with never_panicsD [OF EvmClient_UpdateSigners_never_panics [OF assms(1)]] obtain r where "q = Returned r"
      by (cases q) blast+
    with p u some show ?thesis
      by (intro exI [of _ i] exI [of _ y], cases r)
         (simp_all add: evm_child_Withdraw_def evm_child_UpdateSigners_def prod.case_eq_if)
  qed
  ultimately show ?thesis
    by (simp add: evm_child_Withdraw_def [of _ _ "[]"] evm_child_UpdateSigners_def [of _ _ "[]"])
qed

text \<open>A child with a signer, and one without.\<close>

theorem evm_child_signs_or_refuses_witness:
  "evm_child_Withdraw (\<lambda>n x. (0, x)) demo_evm [demo_signer] demo_deposit 0
     = EvmClient_Withdraw demo_evm demo_deposit demo_signer 0
   \<and> (\<forall>e. evm_child_UpdateSigners (\<lambda>n x. (0, x)) demo_evm [] e 0
     = (Returned ([], 0, Some (Msg ''no signers available'')), 0))"
proof -
  have "rand_law (\<lambda>n x :: nat. (0, x))" by (simp add: rand_law_def)
  from evm_child_signs_or_refuses [OF demo_evm_ok(1) demo_outputs_ok this, of "[demo_signer]" demo_deposit 0]
    evm_child_signs_or_refuses [OF demo_evm_ok(1) demo_outputs_ok this, of "[]" demo_deposit 0]
  show ?thesis by simp
qed

text \<open>
  What \<open>prepareTxOpts\<close> returns: the account's pending nonce, the gas limit the node estimated
  for the call at \<open>gasPrice * multiplier / 100\<close>, and everything else, the gas price
  included, as the library's transactor left it. The configured multiplier reaches the estimate
  only.
\<close>

theorem evm_tx_opts:
  assumes "prepareTxOpts C data signer x = (Returned (Inr opts), x')"
  shows "\<exists>gasPrice chainId tx nonce x1 x2 x3.
      SuggestGasPrice (ec_rpc C) x = (Inr gasPrice, x1)
    \<and> ChainID (ec_rpc C) x1 = (Inr chainId, x2)
    \<and> NewKeyedTransactor (ec_lib C) (sg_privateKey signer) chainId = Inr tx
    \<and> PendingNonceAt (ec_rpc C) (sg_address signer) x2 = (Inr nonce, x3)
    \<and> EstimateGas (ec_rpc C) \<lparr>cm_From = sg_address signer, cm_To = evm_BridgeAddress (ec_chain C),
         cm_GasPrice = gasPrice * sint (evm_GasPriceMultiplier (ec_chain C)) div 100,
         cm_Data = data\<rparr> x3 = (Inr (to_GasLimit opts), x')
    \<and> opts = tx\<lparr>to_Nonce := uint nonce, to_GasLimit := to_GasLimit opts\<rparr>
    \<and> to_GasPrice opts = to_GasPrice tx"
  using assms by (auto simp: prepareTxOpts_def go_simps Let_def)

theorem evm_tx_opts_witness:
  "\<exists>opts x'. prepareTxOpts demo_evm [1] demo_signer 0 = (Returned (Inr opts), x')
     \<and> to_GasPrice opts = None"
proof -
  obtain opts x' where p: "prepareTxOpts demo_evm [1] demo_signer 0 = (Returned (Inr opts), x')"
    by (simp add: prepareTxOpts_def Let_def demo_evm_defs)
  have tx: "to_GasPrice tx = None" if "NewKeyedTransactor (ec_lib demo_evm) k c = Inr tx" for k c tx
    using that by (auto simp: demo_evm_defs)
  from evm_tx_opts [OF p] p tx show ?thesis by metis
qed

text \<open>
  The hash of a deposit is always 32 bytes, and a hash of 32 hexadecimal bytes is taken as it
  is. A parsed Merkle proof has one element of 32 bytes per entry of the list, in order; an
  empty proof parses to the empty list.
\<close>

theorem evm_hash_and_proof:
  shows "length (txHashToBytes32 L h) = 32
    \<and> (hexutil_Decode L h = Inr bs \<and> length bs = 32 \<longrightarrow> txHashToBytes32 L h = bs)
    \<and> merkleProofParsing L [] = Inr []
    \<and> (merkleProofParsing L p = Inr elems \<and> p \<noteq> [] \<longrightarrow>
         (\<exists>hashes. json_Strings L p = Inr hashes
            \<and> list_all2 (\<lambda>s e. hexutil_Decode L s = Inr e \<and> length e = 32) hashes elems))"
proof -
  have "list_all2 (\<lambda>s e. hexutil_Decode L s = Inr e \<and> length e = 32) hashes es"
    if "merkle_elements L hashes = Inr es" for hashes es
    using that
    by (induction hashes arbitrary: es)
       (auto simp: go_simps copy32_id DigestLength_def split: if_splits)
  then show ?thesis
    by (auto simp: txHashToBytes32_def merkleProofParsing_def go_simps copy32_id DigestLength_def
        split: sum.splits)
qed

theorem evm_hash_and_proof_witness:
  "txHashToBytes32 demo_lib (''0x'' @ hex_EncodeToString (replicate 32 5)) = replicate 32 5"
  using evm_hash_and_proof [of demo_lib "''0x'' @ hex_EncodeToString (replicate 32 5)" "replicate 32 5"
      "[]" "[]"]
  by (simp add: demo_lib_def strings_HasPrefix_def del: hex_EncodeToString.simps)

end
