(* ===== verification/Solana_Contract.thy ===== *)
theory Solana_Contract
  imports Chain_Core
begin

text \<open>
  \<open>internal/core/chain/solana/contract\<close>: what the instructions of the bridge program share.
  The Borsh encoder and decoder of \<open>gagliardetto/binary\<close> and the derivation of program
  addresses of \<open>solana-go\<close> are parameters (\<open>borsh\<close>, \<open>pda_lib\<close>); \<open>borsh_ok\<close> is the documented
  contract of the encoder. The instructions themselves are in \<open>Solana_Instructions\<close>.
\<close>

subsection \<open>Accounts and program addresses\<close>

type_synonym pubkey = bytes

record AccountMeta =
  am_PublicKey :: pubkey
  am_IsWritable :: bool
  am_IsSigner :: bool

definition Meta :: "pubkey \<Rightarrow> AccountMeta" where
  "Meta key = \<lparr>am_PublicKey = key, am_IsWritable = False, am_IsSigner = False\<rparr>"

definition WRITE :: "AccountMeta \<Rightarrow> AccountMeta" where
  "WRITE m = m\<lparr>am_IsWritable := True\<rparr>"

definition SIGNER :: "AccountMeta \<Rightarrow> AccountMeta" where
  "SIGNER m = m\<lparr>am_IsSigner := True\<rparr>"

text \<open>\<open>Addresses["11111111111111111111111111111111"]\<close>: 32 zero bytes in base 58.\<close>

definition SystemProgramAddress :: pubkey where
  "SystemProgramAddress = replicate 32 0"

record pda_lib =
  FindProgramAddress :: "bytes list \<Rightarrow> pubkey \<Rightarrow> go_error + pubkey \<times> byte"
  CreateProgramAddress :: "bytes list \<Rightarrow> pubkey \<Rightarrow> go_error + pubkey"
  MarshalBorsh_string :: "string \<Rightarrow> go_error + bytes"
  MarshalBorsh_u64 :: "uint64 \<Rightarrow> go_error + bytes"
  MarshalBorsh_array :: "bytes \<Rightarrow> go_error + bytes"

text \<open>
  The end of every \<open>find...Address\<close>: the seeds are marshalled in order, the first error
  returns. With a known bump seed the code appends the named result \<open>bumpSeed\<close>, which is still 0.
\<close>

fun marshal_seeds :: "(go_error + bytes) list \<Rightarrow> go_error + bytes list" where
  "marshal_seeds [] = Inr []"
| "marshal_seeds (r # rs) = (case r of Inl err \<Rightarrow> Inl err
     | Inr s \<Rightarrow> (case marshal_seeds rs of Inl err \<Rightarrow> Inl err | Inr ss \<Rightarrow> Inr (s # ss)))"

definition find_address ::
  "pda_lib \<Rightarrow> pubkey \<Rightarrow> (go_error + bytes) list \<Rightarrow> byte \<Rightarrow> go_error + pubkey \<times> byte" where
  "find_address S programID seeds knownBumpSeed = (case marshal_seeds seeds of
     Inl err \<Rightarrow> Inl err
   | Inr ss \<Rightarrow>
      let bumpSeed = 0 in
      if knownBumpSeed \<noteq> 0
      then (case CreateProgramAddress S (ss @ [[bumpSeed]]) programID of
              Inl err \<Rightarrow> Inl err | Inr pda \<Rightarrow> Inr (pda, bumpSeed))
      else FindProgramAddress S ss programID)"

subsection \<open>Encoding\<close>

datatype UpdateSignerRequestType = UpdateSignerRequestTypeAdd | UpdateSignerRequestTypeRemove

text \<open>A pointer is encoded by its value; a decoder returns the rest of its input.\<close>

record 'a codec =
  enc :: "'a option \<Rightarrow> go_error + bytes"
  dec :: "bytes \<Rightarrow> go_error + 'a option \<times> bytes"

record borsh =
  bo_string :: "string codec"
  bo_u64 :: "uint64 codec"
  bo_i64 :: "int64 codec"
  bo_u8 :: "byte codec"
  bo_array :: "nat \<Rightarrow> bytes codec"
  bo_request :: "UpdateSignerRequestType codec"
  bo_u16 :: "uint16 codec"
  bo_bool :: "bool codec"
  bo_keys :: "bytes list codec"

definition codec_ok :: "('a \<Rightarrow> bool) \<Rightarrow> 'a codec \<Rightarrow> bool" where
  "codec_ok P c \<longleftrightarrow> (\<forall>v. P v \<longrightarrow> (\<exists>bs. enc c (Some v) = Inr bs
     \<and> (\<forall>rest. dec c (bs @ rest) = Inr (Some v, rest))))"

definition short_string :: "string \<Rightarrow> bool" where
  "short_string s \<longleftrightarrow> length s < 2 ^ 32"

text \<open>A \<open>[][33]uint8\<close>: compressed public keys.\<close>

definition key_list :: "bytes list \<Rightarrow> bool" where
  "key_list ks \<longleftrightarrow> length ks < 2 ^ 32 \<and> (\<forall>k \<in> set ks. length k = 33)"

definition borsh_ok :: "borsh \<Rightarrow> bool" where
  "borsh_ok B \<longleftrightarrow> codec_ok short_string (bo_string B) \<and> codec_ok (\<lambda>_. True) (bo_u64 B)
     \<and> codec_ok (\<lambda>_. True) (bo_i64 B) \<and> codec_ok (\<lambda>_. True) (bo_u8 B)
     \<and> codec_ok (\<lambda>_. True) (bo_request B) \<and> codec_ok (\<lambda>_. True) (bo_u16 B)
     \<and> codec_ok (\<lambda>_. True) (bo_bool B) \<and> codec_ok key_list (bo_keys B) \<and> (\<forall>n. codec_ok (\<lambda>bs. length bs = n) (bo_array B n))"

text \<open>A parameter that is set to a value of its Go type.\<close>

definition set_to :: "('a \<Rightarrow> bool) \<Rightarrow> 'a option \<Rightarrow> bool" where
  "set_to P v \<longleftrightarrow> (\<exists>a. v = Some a \<and> P a)"

text \<open>The loops of \<open>MarshalWithEncoder\<close> and \<open>UnmarshalWithDecoder\<close>.\<close>

fun enc_all :: "(go_error + bytes) list \<Rightarrow> go_error + bytes" where
  "enc_all [] = Inr []"
| "enc_all (r # rs) = (case r of Inl err \<Rightarrow> Inl err
     | Inr bs \<Rightarrow> (case enc_all rs of Inl err \<Rightarrow> Inl err | Inr more_bytes \<Rightarrow> Inr (bs @ more_bytes)))"

definition dec_then :: "'a codec \<Rightarrow> bytes \<Rightarrow> ('a option \<Rightarrow> bytes \<Rightarrow> go_error + 'i \<times> bytes) \<Rightarrow> go_error + 'i \<times> bytes" where
  "dec_then c input k = (case dec c input of Inl err \<Rightarrow> Inl err | Inr (v, rest) \<Rightarrow> k v rest)"

text \<open>The two halves of \<open>Validate\<close>: parameters, then accounts by their index.\<close>

fun unset_param :: "(bool \<times> string) list \<Rightarrow> go_error option" where
  "unset_param [] = None"
| "unset_param ((unset, name) # ps) =
     (if unset then Some (Msg (name @ '' parameter is not set'')) else unset_param ps)"

fun unset_account :: "AccountMeta option list \<Rightarrow> string list \<Rightarrow> go_error option go_result" where
  "unset_account ms [] = Returned None"
| "unset_account [] (n # ns) = Panic ''index out of range''"
| "unset_account (None # ms) (n # ns) = Returned (Some (Msg (''accounts.'' @ n @ '' is not set'')))"
| "unset_account (Some m # ms) (n # ns) = unset_account ms ns"

definition validate ::
  "(bool \<times> string) list \<Rightarrow> AccountMeta option list \<Rightarrow> string list \<Rightarrow> go_error option go_result" where
  "validate ps ms ns = (case unset_param ps of Some err \<Rightarrow> Returned (Some err)
     | None \<Rightarrow> unset_account ms ns)"

subsection \<open>Instructions (\<open>instructions.go\<close>)\<close>

type_synonym TypeID = bytes

definition Instruction_ChangeAuthority :: TypeID where
  "Instruction_ChangeAuthority = [50, 106, 66, 104, 99, 118, 145, 88]"
definition Instruction_DepositNative :: TypeID where
  "Instruction_DepositNative = [13, 158, 13, 223, 95, 213, 28, 6]"
definition Instruction_DepositSpl :: TypeID where
  "Instruction_DepositSpl = [224, 0, 198, 175, 198, 47, 105, 204]"
definition Instruction_DepositWrapped :: TypeID where
  "Instruction_DepositWrapped = [55, 72, 116, 0, 195, 33, 142, 235]"
definition Instruction_InitSplVault :: TypeID where
  "Instruction_InitSplVault = [119, 252, 157, 7, 107, 181, 216, 143]"
definition Instruction_InitWrappedMint :: TypeID where
  "Instruction_InitWrappedMint = [130, 249, 176, 48, 101, 223, 71, 226]"
definition Instruction_Initialize :: TypeID where
  "Instruction_Initialize = [175, 175, 109, 31, 13, 152, 155, 237]"
definition Instruction_UpdateSigner :: TypeID where
  "Instruction_UpdateSigner = [185, 87, 194, 176, 97, 171, 41, 144]"
definition Instruction_WithdrawNative :: TypeID where
  "Instruction_WithdrawNative = [113, 227, 26, 32, 53, 66, 90, 250]"
definition Instruction_WithdrawSpl :: TypeID where
  "Instruction_WithdrawSpl = [181, 154, 94, 86, 62, 115, 6, 186]"
definition Instruction_WithdrawWrapped :: TypeID where
  "Instruction_WithdrawWrapped = [65, 137, 94, 48, 86, 93, 152, 251]"

lemmas type_ids = Instruction_ChangeAuthority_def Instruction_DepositNative_def
  Instruction_DepositSpl_def Instruction_DepositWrapped_def Instruction_InitSplVault_def
  Instruction_InitWrappedMint_def Instruction_Initialize_def Instruction_UpdateSigner_def
  Instruction_WithdrawNative_def Instruction_WithdrawSpl_def Instruction_WithdrawWrapped_def

definition InstructionIDToName :: "TypeID \<Rightarrow> string" where
  "InstructionIDToName tid =
     (if tid = Instruction_ChangeAuthority then ''ChangeAuthority''
      else if tid = Instruction_DepositNative then ''DepositNative''
      else if tid = Instruction_DepositSpl then ''DepositSpl''
      else if tid = Instruction_DepositWrapped then ''DepositWrapped''
      else if tid = Instruction_InitSplVault then ''InitSplVault''
      else if tid = Instruction_InitWrappedMint then ''InitWrappedMint''
      else if tid = Instruction_Initialize then ''Initialize''
      else if tid = Instruction_UpdateSigner then ''UpdateSigner''
      else if tid = Instruction_WithdrawNative then ''WithdrawNative''
      else if tid = Instruction_WithdrawSpl then ''WithdrawSpl''
      else if tid = Instruction_WithdrawWrapped then ''WithdrawWrapped''
      else [])"

text \<open>
  A built instruction: its id and its implementation. \<open>in_Accounts\<close> and \<open>in_Impl\<close> are
  what \<open>GetAccounts\<close> and \<open>MarshalWithEncoder\<close> of the implementation give.
\<close>

record Instruction =
  in_TypeID :: TypeID
  in_Accounts :: "AccountMeta option list"
  in_Impl :: "borsh \<Rightarrow> go_error + bytes"

definition Instruction_MarshalWithEncoder :: "borsh \<Rightarrow> Instruction \<Rightarrow> go_error + bytes" where
  "Instruction_MarshalWithEncoder B inst = enc_all [Inr (in_TypeID inst), in_Impl inst B]"

definition Instruction_Data :: "borsh \<Rightarrow> Instruction \<Rightarrow> go_error + bytes" where
  "Instruction_Data B inst = wrap_then (Instruction_MarshalWithEncoder B inst)
     ''unable to encode instruction'' Inr"

lemma Instruction_Data_Inr:
  "Instruction_Data B inst = Inr bs \<longleftrightarrow> (\<exists>body. in_Impl inst B = Inr body \<and> bs = in_TypeID inst @ body)"
  by (auto simp: Instruction_Data_def Instruction_MarshalWithEncoder_def go_simps)

subsection \<open>The contract of an instruction's codec\<close>

text \<open>
  \<open>params\<close> is the instruction without its accounts, which are not part of its data. \<open>params_set\<close>
  says that every parameter is set to a value of its Go type.
\<close>

locale instruction_codec =
  fixes marshal :: "borsh \<Rightarrow> 'i \<Rightarrow> go_error + bytes"
    and unmarshal :: "borsh \<Rightarrow> 'i \<Rightarrow> bytes \<Rightarrow> go_error + 'i \<times> bytes"
    and params_set :: "'i \<Rightarrow> bool"
    and params :: "'i \<Rightarrow> 'i"
  assumes roundtrip: "borsh_ok B \<Longrightarrow> params_set i \<Longrightarrow>
    \<exists>bs. marshal B i = Inr bs
       \<and> (\<forall>obj rest. \<exists>j. unmarshal B obj (bs @ rest) = Inr (j, rest) \<and> params j = params i)"
begin

lemma total: "borsh_ok B \<Longrightarrow> params_set i \<Longrightarrow> \<exists>bs. marshal B i = Inr bs"
  using roundtrip by blast

lemma decodes:
  assumes "borsh_ok B" and "params_set i" and "marshal B i = Inr bs"
  shows "\<exists>j. unmarshal B obj (bs @ rest) = Inr (j, rest) \<and> params j = params i"
  using roundtrip [OF assms(1,2)] assms(3) by fastforce

lemma prefix_free:
  assumes "borsh_ok B" and "params_set i" and "params_set j"
    and "marshal B i = Inr b1" and "marshal B j = Inr b2" and "b1 @ r1 = b2 @ r2"
  shows "params i = params j \<and> r1 = r2"
proof -
  from decodes [OF assms(1,2,4), of i r1] obtain k where
    k: "unmarshal B i (b1 @ r1) = Inr (k, r1)" "params k = params i" by blast
  from decodes [OF assms(1,3,5), of i r2] obtain l where
    l: "unmarshal B i (b2 @ r2) = Inr (l, r2)" "params l = params j" by blast
  from k l assms(6) show ?thesis by simp
qed

lemma data_injective:
  assumes "borsh_ok B" and "params_set i" and "params_set j" and "marshal B i = marshal B j"
  shows "params i = params j"
proof -
  from total [OF assms(1,2)] obtain bs where "marshal B i = Inr bs" ..
  with prefix_free [OF assms(1-3), of bs bs "[]" "[]"] assms(4) show ?thesis by simp
qed

end

lemma codec_okD:
  assumes "codec_ok P c" and "set_to P v"
  obtains bs where "enc c v = Inr bs" "\<And>rest. dec c (bs @ rest) = Inr (v, rest)"
  using assms unfolding codec_ok_def set_to_def by blast

lemma dec_then_Inr [simp]: "dec c input = Inr (v, rest) \<Longrightarrow> dec_then c input k = k v rest"
  by (simp add: dec_then_def)

lemma set_to_Some [simp]: "set_to P (Some a) = P a" and set_to_None [simp]: "\<not> set_to P None"
  by (simp_all add: set_to_def)

end
