(* ===== verification/Solana_Instructions.thy ===== *)
theory Solana_Instructions
  imports Solana_Contract
begin

text \<open>
  The five instructions of the bridge program that the relayer sends: their builders,
  account metas, validation, data layout and program addresses, one group per file of
  \<open>internal/core/chain/solana/contract\<close>. Each group ends with the proof that its encoder
  and decoder satisfy \<open>instruction_codec\<close>.
\<close>

subsection \<open>\<open>WithdrawNative\<close> (\<open>withdraw_native.go\<close>)\<close>

record WithdrawNative =
  wn_BridgeId :: "string option"
  wn_Hash :: "bytes option"
  wn_Amount :: "uint64 option"
  wn_Uid :: "bytes option"
  wn_Signature :: "bytes option"
  wn_RecoveryId :: "byte option"
  wn_AccountMetaSlice :: "AccountMeta option list"

text \<open>The zero value \<open>WithdrawNative{}\<close>, and the builder with its fixed account.\<close>

definition zero_WithdrawNative :: WithdrawNative where
  "zero_WithdrawNative = \<lparr>wn_BridgeId = None, wn_Hash = None, wn_Amount = None, wn_Uid = None, wn_Signature = None, wn_RecoveryId = None,
     wn_AccountMetaSlice = []\<rparr>"

definition NewWithdrawNativeInstructionBuilder :: WithdrawNative where
  "NewWithdrawNativeInstructionBuilder =
     zero_WithdrawNative\<lparr>wn_AccountMetaSlice := (replicate 5 None)[4 := Some (Meta SystemProgramAddress)]\<rparr>"

definition WithdrawNative_SetBridgeId :: "string \<Rightarrow> WithdrawNative \<Rightarrow> WithdrawNative" where
  "WithdrawNative_SetBridgeId v inst = inst\<lparr>wn_BridgeId := Some v\<rparr>"

definition WithdrawNative_SetHash :: "bytes \<Rightarrow> WithdrawNative \<Rightarrow> WithdrawNative" where
  "WithdrawNative_SetHash v inst = inst\<lparr>wn_Hash := Some v\<rparr>"

definition WithdrawNative_SetAmount :: "uint64 \<Rightarrow> WithdrawNative \<Rightarrow> WithdrawNative" where
  "WithdrawNative_SetAmount v inst = inst\<lparr>wn_Amount := Some v\<rparr>"

definition WithdrawNative_SetUid :: "bytes \<Rightarrow> WithdrawNative \<Rightarrow> WithdrawNative" where
  "WithdrawNative_SetUid v inst = inst\<lparr>wn_Uid := Some v\<rparr>"

definition WithdrawNative_SetSignature :: "bytes \<Rightarrow> WithdrawNative \<Rightarrow> WithdrawNative" where
  "WithdrawNative_SetSignature v inst = inst\<lparr>wn_Signature := Some v\<rparr>"

definition WithdrawNative_SetRecoveryId :: "byte \<Rightarrow> WithdrawNative \<Rightarrow> WithdrawNative" where
  "WithdrawNative_SetRecoveryId v inst = inst\<lparr>wn_RecoveryId := Some v\<rparr>"

definition WithdrawNative_SetReceiverAccount :: "pubkey \<Rightarrow> WithdrawNative \<Rightarrow> WithdrawNative" where
  "WithdrawNative_SetReceiverAccount v inst =
     inst\<lparr>wn_AccountMetaSlice := (wn_AccountMetaSlice inst)[0 := Some (WRITE (Meta v))]\<rparr>"

definition WithdrawNative_SetAuthorityAccount :: "pubkey \<Rightarrow> WithdrawNative \<Rightarrow> WithdrawNative" where
  "WithdrawNative_SetAuthorityAccount v inst =
     inst\<lparr>wn_AccountMetaSlice := (wn_AccountMetaSlice inst)[1 := Some (WRITE (Meta v))]\<rparr>"

definition WithdrawNative_SetTxUsedAccount :: "pubkey \<Rightarrow> WithdrawNative \<Rightarrow> WithdrawNative" where
  "WithdrawNative_SetTxUsedAccount v inst =
     inst\<lparr>wn_AccountMetaSlice := (wn_AccountMetaSlice inst)[2 := Some (WRITE (Meta v))]\<rparr>"

definition WithdrawNative_SetSignerAccount :: "pubkey \<Rightarrow> WithdrawNative \<Rightarrow> WithdrawNative" where
  "WithdrawNative_SetSignerAccount v inst =
     inst\<lparr>wn_AccountMetaSlice := (wn_AccountMetaSlice inst)[3 := Some (SIGNER (WRITE (Meta v)))]\<rparr>"

definition WithdrawNative_SetSystemProgramAccount :: "pubkey \<Rightarrow> WithdrawNative \<Rightarrow> WithdrawNative" where
  "WithdrawNative_SetSystemProgramAccount v inst =
     inst\<lparr>wn_AccountMetaSlice := (wn_AccountMetaSlice inst)[4 := Some (Meta v)]\<rparr>"

lemmas WithdrawNative_setters = WithdrawNative_SetBridgeId_def
  WithdrawNative_SetHash_def
  WithdrawNative_SetAmount_def
  WithdrawNative_SetUid_def
  WithdrawNative_SetSignature_def
  WithdrawNative_SetRecoveryId_def
  WithdrawNative_SetReceiverAccount_def
  WithdrawNative_SetAuthorityAccount_def
  WithdrawNative_SetTxUsedAccount_def
  WithdrawNative_SetSignerAccount_def
  WithdrawNative_SetSystemProgramAccount_def

definition WithdrawNative_findAuthorityAddress :: "pda_lib \<Rightarrow> pubkey \<Rightarrow> string \<Rightarrow> byte \<Rightarrow> go_error + pubkey \<times> byte" where
  "WithdrawNative_findAuthorityAddress S programID bridgeId knownBumpSeed = find_address S programID
     [Inr (bytes_of_string ''authority''), MarshalBorsh_string S bridgeId] knownBumpSeed"

definition WithdrawNative_findAuthorityAddressWithBumpSeed :: "pda_lib \<Rightarrow> pubkey \<Rightarrow> string \<Rightarrow> byte \<Rightarrow> go_error + pubkey" where
  "WithdrawNative_findAuthorityAddressWithBumpSeed S programID bridgeId bumpSeed = map_sum id fst (WithdrawNative_findAuthorityAddress S programID bridgeId bumpSeed)"

definition WithdrawNative_findTxUsedAddress :: "pda_lib \<Rightarrow> pubkey \<Rightarrow> bytes \<Rightarrow> string \<Rightarrow> byte \<Rightarrow> go_error + pubkey \<times> byte" where
  "WithdrawNative_findTxUsedAddress S programID hash bridgeId knownBumpSeed = find_address S programID
     [Inr (bytes_of_string ''withdraw''), MarshalBorsh_array S hash, MarshalBorsh_string S bridgeId] knownBumpSeed"

definition WithdrawNative_findTxUsedAddressWithBumpSeed :: "pda_lib \<Rightarrow> pubkey \<Rightarrow> bytes \<Rightarrow> string \<Rightarrow> byte \<Rightarrow> go_error + pubkey" where
  "WithdrawNative_findTxUsedAddressWithBumpSeed S programID hash bridgeId bumpSeed = map_sum id fst (WithdrawNative_findTxUsedAddress S programID hash bridgeId bumpSeed)"

definition WithdrawNative_Validate :: "WithdrawNative \<Rightarrow> go_error option go_result" where
  "WithdrawNative_Validate inst = validate
     [(wn_BridgeId inst = None, ''BridgeId''),
      (wn_Hash inst = None, ''Hash''),
      (wn_Amount inst = None, ''Amount''),
      (wn_Uid inst = None, ''Uid''),
      (wn_Signature inst = None, ''Signature''),
      (wn_RecoveryId inst = None, ''RecoveryId'')]
     (wn_AccountMetaSlice inst) [''Receiver'', ''Authority'', ''TxUsed'', ''Signer'', ''SystemProgram'']"

definition WithdrawNative_MarshalWithEncoder :: "borsh \<Rightarrow> WithdrawNative \<Rightarrow> go_error + bytes" where
  "WithdrawNative_MarshalWithEncoder B inst = enc_all
     [enc (bo_string B) (wn_BridgeId inst),
      enc (bo_array B 32) (wn_Hash inst),
      enc (bo_u64 B) (wn_Amount inst),
      enc (bo_array B 32) (wn_Uid inst),
      enc (bo_array B 64) (wn_Signature inst),
      enc (bo_u8 B) (wn_RecoveryId inst)]"

definition WithdrawNative_UnmarshalWithDecoder ::
  "borsh \<Rightarrow> WithdrawNative \<Rightarrow> bytes \<Rightarrow> go_error + WithdrawNative \<times> bytes" where
  "WithdrawNative_UnmarshalWithDecoder B inst r0 =
     dec_then (bo_string B) r0 (\<lambda>v1 r1.
     dec_then (bo_array B 32) r1 (\<lambda>v2 r2.
     dec_then (bo_u64 B) r2 (\<lambda>v3 r3.
     dec_then (bo_array B 32) r3 (\<lambda>v4 r4.
     dec_then (bo_array B 64) r4 (\<lambda>v5 r5.
     dec_then (bo_u8 B) r5 (\<lambda>v6 r6.
     Inr (inst\<lparr>wn_BridgeId := v1, wn_Hash := v2, wn_Amount := v3, wn_Uid := v4, wn_Signature := v5, wn_RecoveryId := v6\<rparr>, r6)))))))"

definition WithdrawNative_Build :: "WithdrawNative \<Rightarrow> Instruction" where
  "WithdrawNative_Build inst = \<lparr>in_TypeID = Instruction_WithdrawNative, in_Accounts = wn_AccountMetaSlice inst,
     in_Impl = (\<lambda>B. WithdrawNative_MarshalWithEncoder B inst)\<rparr>"

definition WithdrawNative_ValidateAndBuild :: "WithdrawNative \<Rightarrow> (go_error + Instruction) go_result" where
  "WithdrawNative_ValidateAndBuild inst = (case WithdrawNative_Validate inst of Panic m \<Rightarrow> Panic m
     | Returned (Some err) \<Rightarrow> Returned (Inl err)
     | Returned None \<Rightarrow> Returned (Inr (WithdrawNative_Build inst)))"

definition NewWithdrawNativeInstruction ::
  "string \<Rightarrow> bytes \<Rightarrow> uint64 \<Rightarrow> bytes \<Rightarrow> bytes \<Rightarrow> byte \<Rightarrow> pubkey \<Rightarrow> pubkey \<Rightarrow> pubkey \<Rightarrow> pubkey \<Rightarrow> pubkey \<Rightarrow> WithdrawNative" where
  "NewWithdrawNativeInstruction bridge_id hash amount uid signature recovery_id receiver authority txUsed signer systemProgram =
    (WithdrawNative_SetSystemProgramAccount systemProgram \<circ>
     WithdrawNative_SetSignerAccount signer \<circ>
     WithdrawNative_SetTxUsedAccount txUsed \<circ>
     WithdrawNative_SetAuthorityAccount authority \<circ>
     WithdrawNative_SetReceiverAccount receiver \<circ>
     WithdrawNative_SetRecoveryId recovery_id \<circ>
     WithdrawNative_SetSignature signature \<circ>
     WithdrawNative_SetUid uid \<circ>
     WithdrawNative_SetAmount amount \<circ>
     WithdrawNative_SetHash hash \<circ>
     WithdrawNative_SetBridgeId bridge_id)
       NewWithdrawNativeInstructionBuilder"

text \<open>The codec contract for \<open>WithdrawNative\<close>.\<close>

definition WithdrawNative_params_set :: "WithdrawNative \<Rightarrow> bool" where
  "WithdrawNative_params_set inst \<longleftrightarrow> set_to short_string (wn_BridgeId inst)
     \<and> set_to (\<lambda>bs. length bs = 32) (wn_Hash inst)
     \<and> set_to (\<lambda>_. True) (wn_Amount inst)
     \<and> set_to (\<lambda>bs. length bs = 32) (wn_Uid inst)
     \<and> set_to (\<lambda>bs. length bs = 64) (wn_Signature inst)
     \<and> set_to (\<lambda>_. True) (wn_RecoveryId inst)"

definition WithdrawNative_params :: "WithdrawNative \<Rightarrow> WithdrawNative" where
  "WithdrawNative_params inst = inst\<lparr>wn_AccountMetaSlice := []\<rparr>"

lemma WithdrawNative_roundtrip:
  assumes "borsh_ok B" and "WithdrawNative_params_set inst"
  shows "\<exists>bs. WithdrawNative_MarshalWithEncoder B inst = Inr bs
    \<and> (\<forall>obj rest. \<exists>j. WithdrawNative_UnmarshalWithDecoder B obj (bs @ rest) = Inr (j, rest)
         \<and> WithdrawNative_params j = WithdrawNative_params inst)"
proof -
  note ok = assms(1) [unfolded borsh_ok_def] and ps = assms(2) [unfolded WithdrawNative_params_set_def]
  obtain b1 where e1: "enc (bo_string B) (wn_BridgeId inst) = Inr b1"
      "\<And>rest. dec (bo_string B) (b1 @ rest) = Inr (wn_BridgeId inst, rest)"
    using ok ps codec_okD [of _ "bo_string B" "wn_BridgeId inst"] by blast
  obtain b2 where e2: "enc (bo_array B 32) (wn_Hash inst) = Inr b2"
      "\<And>rest. dec (bo_array B 32) (b2 @ rest) = Inr (wn_Hash inst, rest)"
    using ok ps codec_okD [of _ "bo_array B 32" "wn_Hash inst"] by blast
  obtain b3 where e3: "enc (bo_u64 B) (wn_Amount inst) = Inr b3"
      "\<And>rest. dec (bo_u64 B) (b3 @ rest) = Inr (wn_Amount inst, rest)"
    using ok ps codec_okD [of _ "bo_u64 B" "wn_Amount inst"] by blast
  obtain b4 where e4: "enc (bo_array B 32) (wn_Uid inst) = Inr b4"
      "\<And>rest. dec (bo_array B 32) (b4 @ rest) = Inr (wn_Uid inst, rest)"
    using ok ps codec_okD [of _ "bo_array B 32" "wn_Uid inst"] by blast
  obtain b5 where e5: "enc (bo_array B 64) (wn_Signature inst) = Inr b5"
      "\<And>rest. dec (bo_array B 64) (b5 @ rest) = Inr (wn_Signature inst, rest)"
    using ok ps codec_okD [of _ "bo_array B 64" "wn_Signature inst"] by blast
  obtain b6 where e6: "enc (bo_u8 B) (wn_RecoveryId inst) = Inr b6"
      "\<And>rest. dec (bo_u8 B) (b6 @ rest) = Inr (wn_RecoveryId inst, rest)"
    using ok ps codec_okD [of _ "bo_u8 B" "wn_RecoveryId inst"] by blast
  show ?thesis
    by (rule exI [of _ "b1 @ b2 @ b3 @ b4 @ b5 @ b6"])
       (simp add: WithdrawNative_MarshalWithEncoder_def WithdrawNative_UnmarshalWithDecoder_def WithdrawNative_params_def
          e1 e2 e3 e4 e5 e6)
qed

interpretation wn_codec: instruction_codec WithdrawNative_MarshalWithEncoder WithdrawNative_UnmarshalWithDecoder
    WithdrawNative_params_set WithdrawNative_params
  by unfold_locales (rule WithdrawNative_roundtrip)

lemma WithdrawNative_New_valid:
  "WithdrawNative_Validate (NewWithdrawNativeInstruction bridge_id hash amount uid signature recovery_id receiver authority txUsed signer systemProgram) = Returned None"
  by (simp add: NewWithdrawNativeInstruction_def NewWithdrawNativeInstructionBuilder_def zero_WithdrawNative_def WithdrawNative_setters
      WithdrawNative_Validate_def validate_def numeral_eq_Suc)

subsection \<open>\<open>WithdrawSpl\<close> (\<open>withdraw_spl.go\<close>)\<close>

record WithdrawSpl =
  ws_BridgeId :: "string option"
  ws_Hash :: "bytes option"
  ws_Amount :: "uint64 option"
  ws_Uid :: "bytes option"
  ws_Signature :: "bytes option"
  ws_RecoveryId :: "byte option"
  ws_AccountMetaSlice :: "AccountMeta option list"

text \<open>The zero value \<open>WithdrawSpl{}\<close>, and the builder with its fixed account.\<close>

definition zero_WithdrawSpl :: WithdrawSpl where
  "zero_WithdrawSpl = \<lparr>ws_BridgeId = None, ws_Hash = None, ws_Amount = None, ws_Uid = None, ws_Signature = None, ws_RecoveryId = None,
     ws_AccountMetaSlice = []\<rparr>"

definition NewWithdrawSplInstructionBuilder :: WithdrawSpl where
  "NewWithdrawSplInstructionBuilder =
     zero_WithdrawSpl\<lparr>ws_AccountMetaSlice := (replicate 8 None)[6 := Some (Meta SystemProgramAddress)]\<rparr>"

definition WithdrawSpl_SetBridgeId :: "string \<Rightarrow> WithdrawSpl \<Rightarrow> WithdrawSpl" where
  "WithdrawSpl_SetBridgeId v inst = inst\<lparr>ws_BridgeId := Some v\<rparr>"

definition WithdrawSpl_SetHash :: "bytes \<Rightarrow> WithdrawSpl \<Rightarrow> WithdrawSpl" where
  "WithdrawSpl_SetHash v inst = inst\<lparr>ws_Hash := Some v\<rparr>"

definition WithdrawSpl_SetAmount :: "uint64 \<Rightarrow> WithdrawSpl \<Rightarrow> WithdrawSpl" where
  "WithdrawSpl_SetAmount v inst = inst\<lparr>ws_Amount := Some v\<rparr>"

definition WithdrawSpl_SetUid :: "bytes \<Rightarrow> WithdrawSpl \<Rightarrow> WithdrawSpl" where
  "WithdrawSpl_SetUid v inst = inst\<lparr>ws_Uid := Some v\<rparr>"

definition WithdrawSpl_SetSignature :: "bytes \<Rightarrow> WithdrawSpl \<Rightarrow> WithdrawSpl" where
  "WithdrawSpl_SetSignature v inst = inst\<lparr>ws_Signature := Some v\<rparr>"

definition WithdrawSpl_SetRecoveryId :: "byte \<Rightarrow> WithdrawSpl \<Rightarrow> WithdrawSpl" where
  "WithdrawSpl_SetRecoveryId v inst = inst\<lparr>ws_RecoveryId := Some v\<rparr>"

definition WithdrawSpl_SetMintAccount :: "pubkey \<Rightarrow> WithdrawSpl \<Rightarrow> WithdrawSpl" where
  "WithdrawSpl_SetMintAccount v inst =
     inst\<lparr>ws_AccountMetaSlice := (ws_AccountMetaSlice inst)[0 := Some (Meta v)]\<rparr>"

definition WithdrawSpl_SetSplVaultAccount :: "pubkey \<Rightarrow> WithdrawSpl \<Rightarrow> WithdrawSpl" where
  "WithdrawSpl_SetSplVaultAccount v inst =
     inst\<lparr>ws_AccountMetaSlice := (ws_AccountMetaSlice inst)[1 := Some (WRITE (Meta v))]\<rparr>"

definition WithdrawSpl_SetReceiverAccount :: "pubkey \<Rightarrow> WithdrawSpl \<Rightarrow> WithdrawSpl" where
  "WithdrawSpl_SetReceiverAccount v inst =
     inst\<lparr>ws_AccountMetaSlice := (ws_AccountMetaSlice inst)[2 := Some (WRITE (Meta v))]\<rparr>"

definition WithdrawSpl_SetAuthorityAccount :: "pubkey \<Rightarrow> WithdrawSpl \<Rightarrow> WithdrawSpl" where
  "WithdrawSpl_SetAuthorityAccount v inst =
     inst\<lparr>ws_AccountMetaSlice := (ws_AccountMetaSlice inst)[3 := Some (Meta v)]\<rparr>"

definition WithdrawSpl_SetTxUsedAccount :: "pubkey \<Rightarrow> WithdrawSpl \<Rightarrow> WithdrawSpl" where
  "WithdrawSpl_SetTxUsedAccount v inst =
     inst\<lparr>ws_AccountMetaSlice := (ws_AccountMetaSlice inst)[4 := Some (WRITE (Meta v))]\<rparr>"

definition WithdrawSpl_SetSignerAccount :: "pubkey \<Rightarrow> WithdrawSpl \<Rightarrow> WithdrawSpl" where
  "WithdrawSpl_SetSignerAccount v inst =
     inst\<lparr>ws_AccountMetaSlice := (ws_AccountMetaSlice inst)[5 := Some (SIGNER (WRITE (Meta v)))]\<rparr>"

definition WithdrawSpl_SetSystemProgramAccount :: "pubkey \<Rightarrow> WithdrawSpl \<Rightarrow> WithdrawSpl" where
  "WithdrawSpl_SetSystemProgramAccount v inst =
     inst\<lparr>ws_AccountMetaSlice := (ws_AccountMetaSlice inst)[6 := Some (Meta v)]\<rparr>"

definition WithdrawSpl_SetTokenProgramAccount :: "pubkey \<Rightarrow> WithdrawSpl \<Rightarrow> WithdrawSpl" where
  "WithdrawSpl_SetTokenProgramAccount v inst =
     inst\<lparr>ws_AccountMetaSlice := (ws_AccountMetaSlice inst)[7 := Some (Meta v)]\<rparr>"

lemmas WithdrawSpl_setters = WithdrawSpl_SetBridgeId_def
  WithdrawSpl_SetHash_def
  WithdrawSpl_SetAmount_def
  WithdrawSpl_SetUid_def
  WithdrawSpl_SetSignature_def
  WithdrawSpl_SetRecoveryId_def
  WithdrawSpl_SetMintAccount_def
  WithdrawSpl_SetSplVaultAccount_def
  WithdrawSpl_SetReceiverAccount_def
  WithdrawSpl_SetAuthorityAccount_def
  WithdrawSpl_SetTxUsedAccount_def
  WithdrawSpl_SetSignerAccount_def
  WithdrawSpl_SetSystemProgramAccount_def
  WithdrawSpl_SetTokenProgramAccount_def

definition WithdrawSpl_findSplVaultAddress :: "pda_lib \<Rightarrow> pubkey \<Rightarrow> pubkey \<Rightarrow> string \<Rightarrow> byte \<Rightarrow> go_error + pubkey \<times> byte" where
  "WithdrawSpl_findSplVaultAddress S programID mint bridgeId knownBumpSeed = find_address S programID
     [Inr (bytes_of_string ''vault''), Inr mint, MarshalBorsh_string S bridgeId] knownBumpSeed"

definition WithdrawSpl_findSplVaultAddressWithBumpSeed :: "pda_lib \<Rightarrow> pubkey \<Rightarrow> pubkey \<Rightarrow> string \<Rightarrow> byte \<Rightarrow> go_error + pubkey" where
  "WithdrawSpl_findSplVaultAddressWithBumpSeed S programID mint bridgeId bumpSeed = map_sum id fst (WithdrawSpl_findSplVaultAddress S programID mint bridgeId bumpSeed)"

definition WithdrawSpl_findAuthorityAddress :: "pda_lib \<Rightarrow> pubkey \<Rightarrow> string \<Rightarrow> byte \<Rightarrow> go_error + pubkey \<times> byte" where
  "WithdrawSpl_findAuthorityAddress S programID bridgeId knownBumpSeed = find_address S programID
     [Inr (bytes_of_string ''authority''), MarshalBorsh_string S bridgeId] knownBumpSeed"

definition WithdrawSpl_findAuthorityAddressWithBumpSeed :: "pda_lib \<Rightarrow> pubkey \<Rightarrow> string \<Rightarrow> byte \<Rightarrow> go_error + pubkey" where
  "WithdrawSpl_findAuthorityAddressWithBumpSeed S programID bridgeId bumpSeed = map_sum id fst (WithdrawSpl_findAuthorityAddress S programID bridgeId bumpSeed)"

definition WithdrawSpl_findTxUsedAddress :: "pda_lib \<Rightarrow> pubkey \<Rightarrow> bytes \<Rightarrow> string \<Rightarrow> byte \<Rightarrow> go_error + pubkey \<times> byte" where
  "WithdrawSpl_findTxUsedAddress S programID hash bridgeId knownBumpSeed = find_address S programID
     [Inr (bytes_of_string ''withdraw''), MarshalBorsh_array S hash, MarshalBorsh_string S bridgeId] knownBumpSeed"

definition WithdrawSpl_findTxUsedAddressWithBumpSeed :: "pda_lib \<Rightarrow> pubkey \<Rightarrow> bytes \<Rightarrow> string \<Rightarrow> byte \<Rightarrow> go_error + pubkey" where
  "WithdrawSpl_findTxUsedAddressWithBumpSeed S programID hash bridgeId bumpSeed = map_sum id fst (WithdrawSpl_findTxUsedAddress S programID hash bridgeId bumpSeed)"

definition WithdrawSpl_Validate :: "WithdrawSpl \<Rightarrow> go_error option go_result" where
  "WithdrawSpl_Validate inst = validate
     [(ws_BridgeId inst = None, ''BridgeId''),
      (ws_Hash inst = None, ''Hash''),
      (ws_Amount inst = None, ''Amount''),
      (ws_Uid inst = None, ''Uid''),
      (ws_Signature inst = None, ''Signature''),
      (ws_RecoveryId inst = None, ''RecoveryId'')]
     (ws_AccountMetaSlice inst) [''Mint'', ''SplVault'', ''Receiver'', ''Authority'', ''TxUsed'', ''Signer'', ''SystemProgram'', ''TokenProgram'']"

definition WithdrawSpl_MarshalWithEncoder :: "borsh \<Rightarrow> WithdrawSpl \<Rightarrow> go_error + bytes" where
  "WithdrawSpl_MarshalWithEncoder B inst = enc_all
     [enc (bo_string B) (ws_BridgeId inst),
      enc (bo_array B 32) (ws_Hash inst),
      enc (bo_u64 B) (ws_Amount inst),
      enc (bo_array B 32) (ws_Uid inst),
      enc (bo_array B 64) (ws_Signature inst),
      enc (bo_u8 B) (ws_RecoveryId inst)]"

definition WithdrawSpl_UnmarshalWithDecoder ::
  "borsh \<Rightarrow> WithdrawSpl \<Rightarrow> bytes \<Rightarrow> go_error + WithdrawSpl \<times> bytes" where
  "WithdrawSpl_UnmarshalWithDecoder B inst r0 =
     dec_then (bo_string B) r0 (\<lambda>v1 r1.
     dec_then (bo_array B 32) r1 (\<lambda>v2 r2.
     dec_then (bo_u64 B) r2 (\<lambda>v3 r3.
     dec_then (bo_array B 32) r3 (\<lambda>v4 r4.
     dec_then (bo_array B 64) r4 (\<lambda>v5 r5.
     dec_then (bo_u8 B) r5 (\<lambda>v6 r6.
     Inr (inst\<lparr>ws_BridgeId := v1, ws_Hash := v2, ws_Amount := v3, ws_Uid := v4, ws_Signature := v5, ws_RecoveryId := v6\<rparr>, r6)))))))"

definition WithdrawSpl_Build :: "WithdrawSpl \<Rightarrow> Instruction" where
  "WithdrawSpl_Build inst = \<lparr>in_TypeID = Instruction_WithdrawSpl, in_Accounts = ws_AccountMetaSlice inst,
     in_Impl = (\<lambda>B. WithdrawSpl_MarshalWithEncoder B inst)\<rparr>"

definition WithdrawSpl_ValidateAndBuild :: "WithdrawSpl \<Rightarrow> (go_error + Instruction) go_result" where
  "WithdrawSpl_ValidateAndBuild inst = (case WithdrawSpl_Validate inst of Panic m \<Rightarrow> Panic m
     | Returned (Some err) \<Rightarrow> Returned (Inl err)
     | Returned None \<Rightarrow> Returned (Inr (WithdrawSpl_Build inst)))"

definition NewWithdrawSplInstruction ::
  "string \<Rightarrow> bytes \<Rightarrow> uint64 \<Rightarrow> bytes \<Rightarrow> bytes \<Rightarrow> byte \<Rightarrow> pubkey \<Rightarrow> pubkey \<Rightarrow> pubkey \<Rightarrow> pubkey \<Rightarrow> pubkey \<Rightarrow> pubkey \<Rightarrow> pubkey \<Rightarrow> pubkey \<Rightarrow> WithdrawSpl" where
  "NewWithdrawSplInstruction bridge_id hash amount uid signature recovery_id mint splVault receiver authority txUsed signer systemProgram tokenProgram =
    (WithdrawSpl_SetTokenProgramAccount tokenProgram \<circ>
     WithdrawSpl_SetSystemProgramAccount systemProgram \<circ>
     WithdrawSpl_SetSignerAccount signer \<circ>
     WithdrawSpl_SetTxUsedAccount txUsed \<circ>
     WithdrawSpl_SetAuthorityAccount authority \<circ>
     WithdrawSpl_SetReceiverAccount receiver \<circ>
     WithdrawSpl_SetSplVaultAccount splVault \<circ>
     WithdrawSpl_SetMintAccount mint \<circ>
     WithdrawSpl_SetRecoveryId recovery_id \<circ>
     WithdrawSpl_SetSignature signature \<circ>
     WithdrawSpl_SetUid uid \<circ>
     WithdrawSpl_SetAmount amount \<circ>
     WithdrawSpl_SetHash hash \<circ>
     WithdrawSpl_SetBridgeId bridge_id)
       NewWithdrawSplInstructionBuilder"

text \<open>The codec contract for \<open>WithdrawSpl\<close>.\<close>

definition WithdrawSpl_params_set :: "WithdrawSpl \<Rightarrow> bool" where
  "WithdrawSpl_params_set inst \<longleftrightarrow> set_to short_string (ws_BridgeId inst)
     \<and> set_to (\<lambda>bs. length bs = 32) (ws_Hash inst)
     \<and> set_to (\<lambda>_. True) (ws_Amount inst)
     \<and> set_to (\<lambda>bs. length bs = 32) (ws_Uid inst)
     \<and> set_to (\<lambda>bs. length bs = 64) (ws_Signature inst)
     \<and> set_to (\<lambda>_. True) (ws_RecoveryId inst)"

definition WithdrawSpl_params :: "WithdrawSpl \<Rightarrow> WithdrawSpl" where
  "WithdrawSpl_params inst = inst\<lparr>ws_AccountMetaSlice := []\<rparr>"

lemma WithdrawSpl_roundtrip:
  assumes "borsh_ok B" and "WithdrawSpl_params_set inst"
  shows "\<exists>bs. WithdrawSpl_MarshalWithEncoder B inst = Inr bs
    \<and> (\<forall>obj rest. \<exists>j. WithdrawSpl_UnmarshalWithDecoder B obj (bs @ rest) = Inr (j, rest)
         \<and> WithdrawSpl_params j = WithdrawSpl_params inst)"
proof -
  note ok = assms(1) [unfolded borsh_ok_def] and ps = assms(2) [unfolded WithdrawSpl_params_set_def]
  obtain b1 where e1: "enc (bo_string B) (ws_BridgeId inst) = Inr b1"
      "\<And>rest. dec (bo_string B) (b1 @ rest) = Inr (ws_BridgeId inst, rest)"
    using ok ps codec_okD [of _ "bo_string B" "ws_BridgeId inst"] by blast
  obtain b2 where e2: "enc (bo_array B 32) (ws_Hash inst) = Inr b2"
      "\<And>rest. dec (bo_array B 32) (b2 @ rest) = Inr (ws_Hash inst, rest)"
    using ok ps codec_okD [of _ "bo_array B 32" "ws_Hash inst"] by blast
  obtain b3 where e3: "enc (bo_u64 B) (ws_Amount inst) = Inr b3"
      "\<And>rest. dec (bo_u64 B) (b3 @ rest) = Inr (ws_Amount inst, rest)"
    using ok ps codec_okD [of _ "bo_u64 B" "ws_Amount inst"] by blast
  obtain b4 where e4: "enc (bo_array B 32) (ws_Uid inst) = Inr b4"
      "\<And>rest. dec (bo_array B 32) (b4 @ rest) = Inr (ws_Uid inst, rest)"
    using ok ps codec_okD [of _ "bo_array B 32" "ws_Uid inst"] by blast
  obtain b5 where e5: "enc (bo_array B 64) (ws_Signature inst) = Inr b5"
      "\<And>rest. dec (bo_array B 64) (b5 @ rest) = Inr (ws_Signature inst, rest)"
    using ok ps codec_okD [of _ "bo_array B 64" "ws_Signature inst"] by blast
  obtain b6 where e6: "enc (bo_u8 B) (ws_RecoveryId inst) = Inr b6"
      "\<And>rest. dec (bo_u8 B) (b6 @ rest) = Inr (ws_RecoveryId inst, rest)"
    using ok ps codec_okD [of _ "bo_u8 B" "ws_RecoveryId inst"] by blast
  show ?thesis
    by (rule exI [of _ "b1 @ b2 @ b3 @ b4 @ b5 @ b6"])
       (simp add: WithdrawSpl_MarshalWithEncoder_def WithdrawSpl_UnmarshalWithDecoder_def WithdrawSpl_params_def
          e1 e2 e3 e4 e5 e6)
qed

interpretation ws_codec: instruction_codec WithdrawSpl_MarshalWithEncoder WithdrawSpl_UnmarshalWithDecoder
    WithdrawSpl_params_set WithdrawSpl_params
  by unfold_locales (rule WithdrawSpl_roundtrip)

lemma WithdrawSpl_New_valid:
  "WithdrawSpl_Validate (NewWithdrawSplInstruction bridge_id hash amount uid signature recovery_id mint splVault receiver authority txUsed signer systemProgram tokenProgram) = Returned None"
  by (simp add: NewWithdrawSplInstruction_def NewWithdrawSplInstructionBuilder_def zero_WithdrawSpl_def WithdrawSpl_setters
      WithdrawSpl_Validate_def validate_def numeral_eq_Suc)

subsection \<open>\<open>WithdrawWrapped\<close> (\<open>withdraw_wrapped.go\<close>)\<close>

record WithdrawWrapped =
  ww_BridgeId :: "string option"
  ww_Hash :: "bytes option"
  ww_MintNonce :: "uint64 option"
  ww_Symbol :: "string option"
  ww_Amount :: "uint64 option"
  ww_Uid :: "bytes option"
  ww_Signature :: "bytes option"
  ww_RecoveryId :: "byte option"
  ww_AccountMetaSlice :: "AccountMeta option list"

text \<open>The zero value \<open>WithdrawWrapped{}\<close>, and the builder with its fixed account.\<close>

definition zero_WithdrawWrapped :: WithdrawWrapped where
  "zero_WithdrawWrapped = \<lparr>ww_BridgeId = None, ww_Hash = None, ww_MintNonce = None, ww_Symbol = None, ww_Amount = None, ww_Uid = None, ww_Signature = None, ww_RecoveryId = None,
     ww_AccountMetaSlice = []\<rparr>"

definition NewWithdrawWrappedInstructionBuilder :: WithdrawWrapped where
  "NewWithdrawWrappedInstructionBuilder =
     zero_WithdrawWrapped\<lparr>ww_AccountMetaSlice := (replicate 7 None)[5 := Some (Meta SystemProgramAddress)]\<rparr>"

definition WithdrawWrapped_SetBridgeId :: "string \<Rightarrow> WithdrawWrapped \<Rightarrow> WithdrawWrapped" where
  "WithdrawWrapped_SetBridgeId v inst = inst\<lparr>ww_BridgeId := Some v\<rparr>"

definition WithdrawWrapped_SetHash :: "bytes \<Rightarrow> WithdrawWrapped \<Rightarrow> WithdrawWrapped" where
  "WithdrawWrapped_SetHash v inst = inst\<lparr>ww_Hash := Some v\<rparr>"

definition WithdrawWrapped_SetMintNonce :: "uint64 \<Rightarrow> WithdrawWrapped \<Rightarrow> WithdrawWrapped" where
  "WithdrawWrapped_SetMintNonce v inst = inst\<lparr>ww_MintNonce := Some v\<rparr>"

definition WithdrawWrapped_SetSymbol :: "string \<Rightarrow> WithdrawWrapped \<Rightarrow> WithdrawWrapped" where
  "WithdrawWrapped_SetSymbol v inst = inst\<lparr>ww_Symbol := Some v\<rparr>"

definition WithdrawWrapped_SetAmount :: "uint64 \<Rightarrow> WithdrawWrapped \<Rightarrow> WithdrawWrapped" where
  "WithdrawWrapped_SetAmount v inst = inst\<lparr>ww_Amount := Some v\<rparr>"

definition WithdrawWrapped_SetUid :: "bytes \<Rightarrow> WithdrawWrapped \<Rightarrow> WithdrawWrapped" where
  "WithdrawWrapped_SetUid v inst = inst\<lparr>ww_Uid := Some v\<rparr>"

definition WithdrawWrapped_SetSignature :: "bytes \<Rightarrow> WithdrawWrapped \<Rightarrow> WithdrawWrapped" where
  "WithdrawWrapped_SetSignature v inst = inst\<lparr>ww_Signature := Some v\<rparr>"

definition WithdrawWrapped_SetRecoveryId :: "byte \<Rightarrow> WithdrawWrapped \<Rightarrow> WithdrawWrapped" where
  "WithdrawWrapped_SetRecoveryId v inst = inst\<lparr>ww_RecoveryId := Some v\<rparr>"

definition WithdrawWrapped_SetMintAccount :: "pubkey \<Rightarrow> WithdrawWrapped \<Rightarrow> WithdrawWrapped" where
  "WithdrawWrapped_SetMintAccount v inst =
     inst\<lparr>ww_AccountMetaSlice := (ww_AccountMetaSlice inst)[0 := Some (WRITE (Meta v))]\<rparr>"

definition WithdrawWrapped_SetReceiverAccount :: "pubkey \<Rightarrow> WithdrawWrapped \<Rightarrow> WithdrawWrapped" where
  "WithdrawWrapped_SetReceiverAccount v inst =
     inst\<lparr>ww_AccountMetaSlice := (ww_AccountMetaSlice inst)[1 := Some (WRITE (Meta v))]\<rparr>"

definition WithdrawWrapped_SetAuthorityAccount :: "pubkey \<Rightarrow> WithdrawWrapped \<Rightarrow> WithdrawWrapped" where
  "WithdrawWrapped_SetAuthorityAccount v inst =
     inst\<lparr>ww_AccountMetaSlice := (ww_AccountMetaSlice inst)[2 := Some (Meta v)]\<rparr>"

definition WithdrawWrapped_SetTxUsedAccount :: "pubkey \<Rightarrow> WithdrawWrapped \<Rightarrow> WithdrawWrapped" where
  "WithdrawWrapped_SetTxUsedAccount v inst =
     inst\<lparr>ww_AccountMetaSlice := (ww_AccountMetaSlice inst)[3 := Some (WRITE (Meta v))]\<rparr>"

definition WithdrawWrapped_SetSignerAccount :: "pubkey \<Rightarrow> WithdrawWrapped \<Rightarrow> WithdrawWrapped" where
  "WithdrawWrapped_SetSignerAccount v inst =
     inst\<lparr>ww_AccountMetaSlice := (ww_AccountMetaSlice inst)[4 := Some (SIGNER (WRITE (Meta v)))]\<rparr>"

definition WithdrawWrapped_SetSystemProgramAccount :: "pubkey \<Rightarrow> WithdrawWrapped \<Rightarrow> WithdrawWrapped" where
  "WithdrawWrapped_SetSystemProgramAccount v inst =
     inst\<lparr>ww_AccountMetaSlice := (ww_AccountMetaSlice inst)[5 := Some (Meta v)]\<rparr>"

definition WithdrawWrapped_SetTokenProgramAccount :: "pubkey \<Rightarrow> WithdrawWrapped \<Rightarrow> WithdrawWrapped" where
  "WithdrawWrapped_SetTokenProgramAccount v inst =
     inst\<lparr>ww_AccountMetaSlice := (ww_AccountMetaSlice inst)[6 := Some (Meta v)]\<rparr>"

lemmas WithdrawWrapped_setters = WithdrawWrapped_SetBridgeId_def
  WithdrawWrapped_SetHash_def
  WithdrawWrapped_SetMintNonce_def
  WithdrawWrapped_SetSymbol_def
  WithdrawWrapped_SetAmount_def
  WithdrawWrapped_SetUid_def
  WithdrawWrapped_SetSignature_def
  WithdrawWrapped_SetRecoveryId_def
  WithdrawWrapped_SetMintAccount_def
  WithdrawWrapped_SetReceiverAccount_def
  WithdrawWrapped_SetAuthorityAccount_def
  WithdrawWrapped_SetTxUsedAccount_def
  WithdrawWrapped_SetSignerAccount_def
  WithdrawWrapped_SetSystemProgramAccount_def
  WithdrawWrapped_SetTokenProgramAccount_def

definition WithdrawWrapped_findMintAddress :: "pda_lib \<Rightarrow> pubkey \<Rightarrow> string \<Rightarrow> uint64 \<Rightarrow> string \<Rightarrow> byte \<Rightarrow> go_error + pubkey \<times> byte" where
  "WithdrawWrapped_findMintAddress S programID symbol mintNonce bridgeId knownBumpSeed = find_address S programID
     [Inr (bytes_of_string ''mint''), MarshalBorsh_string S symbol, MarshalBorsh_u64 S mintNonce, MarshalBorsh_string S bridgeId] knownBumpSeed"

definition WithdrawWrapped_findMintAddressWithBumpSeed :: "pda_lib \<Rightarrow> pubkey \<Rightarrow> string \<Rightarrow> uint64 \<Rightarrow> string \<Rightarrow> byte \<Rightarrow> go_error + pubkey" where
  "WithdrawWrapped_findMintAddressWithBumpSeed S programID symbol mintNonce bridgeId bumpSeed = map_sum id fst (WithdrawWrapped_findMintAddress S programID symbol mintNonce bridgeId bumpSeed)"

definition WithdrawWrapped_findAuthorityAddress :: "pda_lib \<Rightarrow> pubkey \<Rightarrow> string \<Rightarrow> byte \<Rightarrow> go_error + pubkey \<times> byte" where
  "WithdrawWrapped_findAuthorityAddress S programID bridgeId knownBumpSeed = find_address S programID
     [Inr (bytes_of_string ''authority''), MarshalBorsh_string S bridgeId] knownBumpSeed"

definition WithdrawWrapped_findAuthorityAddressWithBumpSeed :: "pda_lib \<Rightarrow> pubkey \<Rightarrow> string \<Rightarrow> byte \<Rightarrow> go_error + pubkey" where
  "WithdrawWrapped_findAuthorityAddressWithBumpSeed S programID bridgeId bumpSeed = map_sum id fst (WithdrawWrapped_findAuthorityAddress S programID bridgeId bumpSeed)"

definition WithdrawWrapped_findTxUsedAddress :: "pda_lib \<Rightarrow> pubkey \<Rightarrow> bytes \<Rightarrow> string \<Rightarrow> byte \<Rightarrow> go_error + pubkey \<times> byte" where
  "WithdrawWrapped_findTxUsedAddress S programID hash bridgeId knownBumpSeed = find_address S programID
     [Inr (bytes_of_string ''withdraw''), MarshalBorsh_array S hash, MarshalBorsh_string S bridgeId] knownBumpSeed"

definition WithdrawWrapped_findTxUsedAddressWithBumpSeed :: "pda_lib \<Rightarrow> pubkey \<Rightarrow> bytes \<Rightarrow> string \<Rightarrow> byte \<Rightarrow> go_error + pubkey" where
  "WithdrawWrapped_findTxUsedAddressWithBumpSeed S programID hash bridgeId bumpSeed = map_sum id fst (WithdrawWrapped_findTxUsedAddress S programID hash bridgeId bumpSeed)"

definition WithdrawWrapped_Validate :: "WithdrawWrapped \<Rightarrow> go_error option go_result" where
  "WithdrawWrapped_Validate inst = validate
     [(ww_BridgeId inst = None, ''BridgeId''),
      (ww_Hash inst = None, ''Hash''),
      (ww_MintNonce inst = None, ''MintNonce''),
      (ww_Symbol inst = None, ''Symbol''),
      (ww_Amount inst = None, ''Amount''),
      (ww_Uid inst = None, ''Uid''),
      (ww_Signature inst = None, ''Signature''),
      (ww_RecoveryId inst = None, ''RecoveryId'')]
     (ww_AccountMetaSlice inst) [''Mint'', ''Receiver'', ''Authority'', ''TxUsed'', ''Signer'', ''SystemProgram'', ''TokenProgram'']"

definition WithdrawWrapped_MarshalWithEncoder :: "borsh \<Rightarrow> WithdrawWrapped \<Rightarrow> go_error + bytes" where
  "WithdrawWrapped_MarshalWithEncoder B inst = enc_all
     [enc (bo_string B) (ww_BridgeId inst),
      enc (bo_array B 32) (ww_Hash inst),
      enc (bo_u64 B) (ww_MintNonce inst),
      enc (bo_string B) (ww_Symbol inst),
      enc (bo_u64 B) (ww_Amount inst),
      enc (bo_array B 32) (ww_Uid inst),
      enc (bo_array B 64) (ww_Signature inst),
      enc (bo_u8 B) (ww_RecoveryId inst)]"

definition WithdrawWrapped_UnmarshalWithDecoder ::
  "borsh \<Rightarrow> WithdrawWrapped \<Rightarrow> bytes \<Rightarrow> go_error + WithdrawWrapped \<times> bytes" where
  "WithdrawWrapped_UnmarshalWithDecoder B inst r0 =
     dec_then (bo_string B) r0 (\<lambda>v1 r1.
     dec_then (bo_array B 32) r1 (\<lambda>v2 r2.
     dec_then (bo_u64 B) r2 (\<lambda>v3 r3.
     dec_then (bo_string B) r3 (\<lambda>v4 r4.
     dec_then (bo_u64 B) r4 (\<lambda>v5 r5.
     dec_then (bo_array B 32) r5 (\<lambda>v6 r6.
     dec_then (bo_array B 64) r6 (\<lambda>v7 r7.
     dec_then (bo_u8 B) r7 (\<lambda>v8 r8.
     Inr (inst\<lparr>ww_BridgeId := v1, ww_Hash := v2, ww_MintNonce := v3, ww_Symbol := v4, ww_Amount := v5, ww_Uid := v6, ww_Signature := v7, ww_RecoveryId := v8\<rparr>, r8)))))))))"

definition WithdrawWrapped_Build :: "WithdrawWrapped \<Rightarrow> Instruction" where
  "WithdrawWrapped_Build inst = \<lparr>in_TypeID = Instruction_WithdrawWrapped, in_Accounts = ww_AccountMetaSlice inst,
     in_Impl = (\<lambda>B. WithdrawWrapped_MarshalWithEncoder B inst)\<rparr>"

definition WithdrawWrapped_ValidateAndBuild :: "WithdrawWrapped \<Rightarrow> (go_error + Instruction) go_result" where
  "WithdrawWrapped_ValidateAndBuild inst = (case WithdrawWrapped_Validate inst of Panic m \<Rightarrow> Panic m
     | Returned (Some err) \<Rightarrow> Returned (Inl err)
     | Returned None \<Rightarrow> Returned (Inr (WithdrawWrapped_Build inst)))"

definition NewWithdrawWrappedInstruction ::
  "string \<Rightarrow> bytes \<Rightarrow> uint64 \<Rightarrow> string \<Rightarrow> uint64 \<Rightarrow> bytes \<Rightarrow> bytes \<Rightarrow> byte \<Rightarrow> pubkey \<Rightarrow> pubkey \<Rightarrow> pubkey \<Rightarrow> pubkey \<Rightarrow> pubkey \<Rightarrow> pubkey \<Rightarrow> pubkey \<Rightarrow> WithdrawWrapped" where
  "NewWithdrawWrappedInstruction bridge_id hash mint_nonce symbol amount uid signature recovery_id mint receiver authority txUsed signer systemProgram tokenProgram =
    (WithdrawWrapped_SetTokenProgramAccount tokenProgram \<circ>
     WithdrawWrapped_SetSystemProgramAccount systemProgram \<circ>
     WithdrawWrapped_SetSignerAccount signer \<circ>
     WithdrawWrapped_SetTxUsedAccount txUsed \<circ>
     WithdrawWrapped_SetAuthorityAccount authority \<circ>
     WithdrawWrapped_SetReceiverAccount receiver \<circ>
     WithdrawWrapped_SetMintAccount mint \<circ>
     WithdrawWrapped_SetRecoveryId recovery_id \<circ>
     WithdrawWrapped_SetSignature signature \<circ>
     WithdrawWrapped_SetUid uid \<circ>
     WithdrawWrapped_SetAmount amount \<circ>
     WithdrawWrapped_SetSymbol symbol \<circ>
     WithdrawWrapped_SetMintNonce mint_nonce \<circ>
     WithdrawWrapped_SetHash hash \<circ>
     WithdrawWrapped_SetBridgeId bridge_id)
       NewWithdrawWrappedInstructionBuilder"

text \<open>The codec contract for \<open>WithdrawWrapped\<close>.\<close>

definition WithdrawWrapped_params_set :: "WithdrawWrapped \<Rightarrow> bool" where
  "WithdrawWrapped_params_set inst \<longleftrightarrow> set_to short_string (ww_BridgeId inst)
     \<and> set_to (\<lambda>bs. length bs = 32) (ww_Hash inst)
     \<and> set_to (\<lambda>_. True) (ww_MintNonce inst)
     \<and> set_to short_string (ww_Symbol inst)
     \<and> set_to (\<lambda>_. True) (ww_Amount inst)
     \<and> set_to (\<lambda>bs. length bs = 32) (ww_Uid inst)
     \<and> set_to (\<lambda>bs. length bs = 64) (ww_Signature inst)
     \<and> set_to (\<lambda>_. True) (ww_RecoveryId inst)"

definition WithdrawWrapped_params :: "WithdrawWrapped \<Rightarrow> WithdrawWrapped" where
  "WithdrawWrapped_params inst = inst\<lparr>ww_AccountMetaSlice := []\<rparr>"

lemma WithdrawWrapped_roundtrip:
  assumes "borsh_ok B" and "WithdrawWrapped_params_set inst"
  shows "\<exists>bs. WithdrawWrapped_MarshalWithEncoder B inst = Inr bs
    \<and> (\<forall>obj rest. \<exists>j. WithdrawWrapped_UnmarshalWithDecoder B obj (bs @ rest) = Inr (j, rest)
         \<and> WithdrawWrapped_params j = WithdrawWrapped_params inst)"
proof -
  note ok = assms(1) [unfolded borsh_ok_def] and ps = assms(2) [unfolded WithdrawWrapped_params_set_def]
  obtain b1 where e1: "enc (bo_string B) (ww_BridgeId inst) = Inr b1"
      "\<And>rest. dec (bo_string B) (b1 @ rest) = Inr (ww_BridgeId inst, rest)"
    using ok ps codec_okD [of _ "bo_string B" "ww_BridgeId inst"] by blast
  obtain b2 where e2: "enc (bo_array B 32) (ww_Hash inst) = Inr b2"
      "\<And>rest. dec (bo_array B 32) (b2 @ rest) = Inr (ww_Hash inst, rest)"
    using ok ps codec_okD [of _ "bo_array B 32" "ww_Hash inst"] by blast
  obtain b3 where e3: "enc (bo_u64 B) (ww_MintNonce inst) = Inr b3"
      "\<And>rest. dec (bo_u64 B) (b3 @ rest) = Inr (ww_MintNonce inst, rest)"
    using ok ps codec_okD [of _ "bo_u64 B" "ww_MintNonce inst"] by blast
  obtain b4 where e4: "enc (bo_string B) (ww_Symbol inst) = Inr b4"
      "\<And>rest. dec (bo_string B) (b4 @ rest) = Inr (ww_Symbol inst, rest)"
    using ok ps codec_okD [of _ "bo_string B" "ww_Symbol inst"] by blast
  obtain b5 where e5: "enc (bo_u64 B) (ww_Amount inst) = Inr b5"
      "\<And>rest. dec (bo_u64 B) (b5 @ rest) = Inr (ww_Amount inst, rest)"
    using ok ps codec_okD [of _ "bo_u64 B" "ww_Amount inst"] by blast
  obtain b6 where e6: "enc (bo_array B 32) (ww_Uid inst) = Inr b6"
      "\<And>rest. dec (bo_array B 32) (b6 @ rest) = Inr (ww_Uid inst, rest)"
    using ok ps codec_okD [of _ "bo_array B 32" "ww_Uid inst"] by blast
  obtain b7 where e7: "enc (bo_array B 64) (ww_Signature inst) = Inr b7"
      "\<And>rest. dec (bo_array B 64) (b7 @ rest) = Inr (ww_Signature inst, rest)"
    using ok ps codec_okD [of _ "bo_array B 64" "ww_Signature inst"] by blast
  obtain b8 where e8: "enc (bo_u8 B) (ww_RecoveryId inst) = Inr b8"
      "\<And>rest. dec (bo_u8 B) (b8 @ rest) = Inr (ww_RecoveryId inst, rest)"
    using ok ps codec_okD [of _ "bo_u8 B" "ww_RecoveryId inst"] by blast
  show ?thesis
    by (rule exI [of _ "b1 @ b2 @ b3 @ b4 @ b5 @ b6 @ b7 @ b8"])
       (simp add: WithdrawWrapped_MarshalWithEncoder_def WithdrawWrapped_UnmarshalWithDecoder_def WithdrawWrapped_params_def
          e1 e2 e3 e4 e5 e6 e7 e8)
qed

interpretation ww_codec: instruction_codec WithdrawWrapped_MarshalWithEncoder WithdrawWrapped_UnmarshalWithDecoder
    WithdrawWrapped_params_set WithdrawWrapped_params
  by unfold_locales (rule WithdrawWrapped_roundtrip)

lemma WithdrawWrapped_New_valid:
  "WithdrawWrapped_Validate (NewWithdrawWrappedInstruction bridge_id hash mint_nonce symbol amount uid signature recovery_id mint receiver authority txUsed signer systemProgram tokenProgram) = Returned None"
  by (simp add: NewWithdrawWrappedInstruction_def NewWithdrawWrappedInstructionBuilder_def zero_WithdrawWrapped_def WithdrawWrapped_setters
      WithdrawWrapped_Validate_def validate_def numeral_eq_Suc)

subsection \<open>\<open>InitSplVault\<close> (\<open>init_spl_vault.go\<close>)\<close>

record InitSplVault =
  iv_BridgeId :: "string option"
  iv_AccountMetaSlice :: "AccountMeta option list"

text \<open>The zero value \<open>InitSplVault{}\<close>, and the builder with its fixed account.\<close>

definition zero_InitSplVault :: InitSplVault where
  "zero_InitSplVault = \<lparr>iv_BridgeId = None,
     iv_AccountMetaSlice = []\<rparr>"

definition NewInitSplVaultInstructionBuilder :: InitSplVault where
  "NewInitSplVaultInstructionBuilder =
     zero_InitSplVault\<lparr>iv_AccountMetaSlice := (replicate 5 None)[4 := Some (Meta SystemProgramAddress)]\<rparr>"

definition InitSplVault_SetBridgeId :: "string \<Rightarrow> InitSplVault \<Rightarrow> InitSplVault" where
  "InitSplVault_SetBridgeId v inst = inst\<lparr>iv_BridgeId := Some v\<rparr>"

definition InitSplVault_SetMintAccount :: "pubkey \<Rightarrow> InitSplVault \<Rightarrow> InitSplVault" where
  "InitSplVault_SetMintAccount v inst =
     inst\<lparr>iv_AccountMetaSlice := (iv_AccountMetaSlice inst)[0 := Some (Meta v)]\<rparr>"

definition InitSplVault_SetSplVaultAccount :: "pubkey \<Rightarrow> InitSplVault \<Rightarrow> InitSplVault" where
  "InitSplVault_SetSplVaultAccount v inst =
     inst\<lparr>iv_AccountMetaSlice := (iv_AccountMetaSlice inst)[1 := Some (WRITE (Meta v))]\<rparr>"

definition InitSplVault_SetSignerAccount :: "pubkey \<Rightarrow> InitSplVault \<Rightarrow> InitSplVault" where
  "InitSplVault_SetSignerAccount v inst =
     inst\<lparr>iv_AccountMetaSlice := (iv_AccountMetaSlice inst)[2 := Some (SIGNER (WRITE (Meta v)))]\<rparr>"

definition InitSplVault_SetTokenProgramAccount :: "pubkey \<Rightarrow> InitSplVault \<Rightarrow> InitSplVault" where
  "InitSplVault_SetTokenProgramAccount v inst =
     inst\<lparr>iv_AccountMetaSlice := (iv_AccountMetaSlice inst)[3 := Some (Meta v)]\<rparr>"

definition InitSplVault_SetSystemProgramAccount :: "pubkey \<Rightarrow> InitSplVault \<Rightarrow> InitSplVault" where
  "InitSplVault_SetSystemProgramAccount v inst =
     inst\<lparr>iv_AccountMetaSlice := (iv_AccountMetaSlice inst)[4 := Some (Meta v)]\<rparr>"

lemmas InitSplVault_setters = InitSplVault_SetBridgeId_def
  InitSplVault_SetMintAccount_def
  InitSplVault_SetSplVaultAccount_def
  InitSplVault_SetSignerAccount_def
  InitSplVault_SetTokenProgramAccount_def
  InitSplVault_SetSystemProgramAccount_def

definition InitSplVault_findSplVaultAddress :: "pda_lib \<Rightarrow> pubkey \<Rightarrow> pubkey \<Rightarrow> string \<Rightarrow> byte \<Rightarrow> go_error + pubkey \<times> byte" where
  "InitSplVault_findSplVaultAddress S programID mint bridgeId knownBumpSeed = find_address S programID
     [Inr (bytes_of_string ''vault''), Inr mint, MarshalBorsh_string S bridgeId] knownBumpSeed"

definition InitSplVault_findSplVaultAddressWithBumpSeed :: "pda_lib \<Rightarrow> pubkey \<Rightarrow> pubkey \<Rightarrow> string \<Rightarrow> byte \<Rightarrow> go_error + pubkey" where
  "InitSplVault_findSplVaultAddressWithBumpSeed S programID mint bridgeId bumpSeed = map_sum id fst (InitSplVault_findSplVaultAddress S programID mint bridgeId bumpSeed)"

definition InitSplVault_Validate :: "InitSplVault \<Rightarrow> go_error option go_result" where
  "InitSplVault_Validate inst = validate
     [(iv_BridgeId inst = None, ''BridgeId'')]
     (iv_AccountMetaSlice inst) [''Mint'', ''SplVault'', ''Signer'', ''TokenProgram'', ''SystemProgram'']"

definition InitSplVault_MarshalWithEncoder :: "borsh \<Rightarrow> InitSplVault \<Rightarrow> go_error + bytes" where
  "InitSplVault_MarshalWithEncoder B inst = enc_all
     [enc (bo_string B) (iv_BridgeId inst)]"

definition InitSplVault_UnmarshalWithDecoder ::
  "borsh \<Rightarrow> InitSplVault \<Rightarrow> bytes \<Rightarrow> go_error + InitSplVault \<times> bytes" where
  "InitSplVault_UnmarshalWithDecoder B inst r0 =
     dec_then (bo_string B) r0 (\<lambda>v1 r1.
     Inr (inst\<lparr>iv_BridgeId := v1\<rparr>, r1))"

definition InitSplVault_Build :: "InitSplVault \<Rightarrow> Instruction" where
  "InitSplVault_Build inst = \<lparr>in_TypeID = Instruction_InitSplVault, in_Accounts = iv_AccountMetaSlice inst,
     in_Impl = (\<lambda>B. InitSplVault_MarshalWithEncoder B inst)\<rparr>"

definition InitSplVault_ValidateAndBuild :: "InitSplVault \<Rightarrow> (go_error + Instruction) go_result" where
  "InitSplVault_ValidateAndBuild inst = (case InitSplVault_Validate inst of Panic m \<Rightarrow> Panic m
     | Returned (Some err) \<Rightarrow> Returned (Inl err)
     | Returned None \<Rightarrow> Returned (Inr (InitSplVault_Build inst)))"

definition NewInitSplVaultInstruction ::
  "string \<Rightarrow> pubkey \<Rightarrow> pubkey \<Rightarrow> pubkey \<Rightarrow> pubkey \<Rightarrow> pubkey \<Rightarrow> InitSplVault" where
  "NewInitSplVaultInstruction bridge_id mint splVault signer tokenProgram systemProgram =
    (InitSplVault_SetSystemProgramAccount systemProgram \<circ>
     InitSplVault_SetTokenProgramAccount tokenProgram \<circ>
     InitSplVault_SetSignerAccount signer \<circ>
     InitSplVault_SetSplVaultAccount splVault \<circ>
     InitSplVault_SetMintAccount mint \<circ>
     InitSplVault_SetBridgeId bridge_id)
       NewInitSplVaultInstructionBuilder"

text \<open>The codec contract for \<open>InitSplVault\<close>.\<close>

definition InitSplVault_params_set :: "InitSplVault \<Rightarrow> bool" where
  "InitSplVault_params_set inst \<longleftrightarrow> set_to short_string (iv_BridgeId inst)"

definition InitSplVault_params :: "InitSplVault \<Rightarrow> InitSplVault" where
  "InitSplVault_params inst = inst\<lparr>iv_AccountMetaSlice := []\<rparr>"

lemma InitSplVault_roundtrip:
  assumes "borsh_ok B" and "InitSplVault_params_set inst"
  shows "\<exists>bs. InitSplVault_MarshalWithEncoder B inst = Inr bs
    \<and> (\<forall>obj rest. \<exists>j. InitSplVault_UnmarshalWithDecoder B obj (bs @ rest) = Inr (j, rest)
         \<and> InitSplVault_params j = InitSplVault_params inst)"
proof -
  note ok = assms(1) [unfolded borsh_ok_def] and ps = assms(2) [unfolded InitSplVault_params_set_def]
  obtain b1 where e1: "enc (bo_string B) (iv_BridgeId inst) = Inr b1"
      "\<And>rest. dec (bo_string B) (b1 @ rest) = Inr (iv_BridgeId inst, rest)"
    using ok ps codec_okD [of _ "bo_string B" "iv_BridgeId inst"] by blast
  show ?thesis
    by (rule exI [of _ "b1"])
       (simp add: InitSplVault_MarshalWithEncoder_def InitSplVault_UnmarshalWithDecoder_def InitSplVault_params_def
          e1)
qed

interpretation iv_codec: instruction_codec InitSplVault_MarshalWithEncoder InitSplVault_UnmarshalWithDecoder
    InitSplVault_params_set InitSplVault_params
  by unfold_locales (rule InitSplVault_roundtrip)

lemma InitSplVault_New_valid:
  "InitSplVault_Validate (NewInitSplVaultInstruction bridge_id mint splVault signer tokenProgram systemProgram) = Returned None"
  by (simp add: NewInitSplVaultInstruction_def NewInitSplVaultInstructionBuilder_def zero_InitSplVault_def InitSplVault_setters
      InitSplVault_Validate_def validate_def numeral_eq_Suc)

subsection \<open>\<open>UpdateSigner\<close> (\<open>update_signer.go\<close>)\<close>

record UpdateSigner =
  us_BridgeId :: "string option"
  us_RequestType :: "UpdateSignerRequestType option"
  us_Signer :: "bytes option"
  us_StartTimestamp :: "int64 option"
  us_EndTimestamp :: "int64 option"
  us_NewNonce :: "uint64 option"
  us_Signature :: "bytes option"
  us_RecoveryId :: "byte option"
  us_AccountMetaSlice :: "AccountMeta option list"

text \<open>The zero value \<open>UpdateSigner{}\<close>, and the builder with its fixed account.\<close>

definition zero_UpdateSigner :: UpdateSigner where
  "zero_UpdateSigner = \<lparr>us_BridgeId = None, us_RequestType = None, us_Signer = None, us_StartTimestamp = None, us_EndTimestamp = None, us_NewNonce = None, us_Signature = None, us_RecoveryId = None,
     us_AccountMetaSlice = []\<rparr>"

definition NewUpdateSignerInstructionBuilder :: UpdateSigner where
  "NewUpdateSignerInstructionBuilder =
     zero_UpdateSigner\<lparr>us_AccountMetaSlice := replicate 2 None\<rparr>"

definition UpdateSigner_SetBridgeId :: "string \<Rightarrow> UpdateSigner \<Rightarrow> UpdateSigner" where
  "UpdateSigner_SetBridgeId v inst = inst\<lparr>us_BridgeId := Some v\<rparr>"

definition UpdateSigner_SetRequestType :: "UpdateSignerRequestType \<Rightarrow> UpdateSigner \<Rightarrow> UpdateSigner" where
  "UpdateSigner_SetRequestType v inst = inst\<lparr>us_RequestType := Some v\<rparr>"

definition UpdateSigner_SetSigner :: "bytes \<Rightarrow> UpdateSigner \<Rightarrow> UpdateSigner" where
  "UpdateSigner_SetSigner v inst = inst\<lparr>us_Signer := Some v\<rparr>"

definition UpdateSigner_SetStartTimestamp :: "int64 \<Rightarrow> UpdateSigner \<Rightarrow> UpdateSigner" where
  "UpdateSigner_SetStartTimestamp v inst = inst\<lparr>us_StartTimestamp := Some v\<rparr>"

definition UpdateSigner_SetEndTimestamp :: "int64 \<Rightarrow> UpdateSigner \<Rightarrow> UpdateSigner" where
  "UpdateSigner_SetEndTimestamp v inst = inst\<lparr>us_EndTimestamp := Some v\<rparr>"

definition UpdateSigner_SetNewNonce :: "uint64 \<Rightarrow> UpdateSigner \<Rightarrow> UpdateSigner" where
  "UpdateSigner_SetNewNonce v inst = inst\<lparr>us_NewNonce := Some v\<rparr>"

definition UpdateSigner_SetSignature :: "bytes \<Rightarrow> UpdateSigner \<Rightarrow> UpdateSigner" where
  "UpdateSigner_SetSignature v inst = inst\<lparr>us_Signature := Some v\<rparr>"

definition UpdateSigner_SetRecoveryId :: "byte \<Rightarrow> UpdateSigner \<Rightarrow> UpdateSigner" where
  "UpdateSigner_SetRecoveryId v inst = inst\<lparr>us_RecoveryId := Some v\<rparr>"

definition UpdateSigner_SetAuthorityAccount :: "pubkey \<Rightarrow> UpdateSigner \<Rightarrow> UpdateSigner" where
  "UpdateSigner_SetAuthorityAccount v inst =
     inst\<lparr>us_AccountMetaSlice := (us_AccountMetaSlice inst)[0 := Some (WRITE (Meta v))]\<rparr>"

definition UpdateSigner_SetSignerAccount :: "pubkey \<Rightarrow> UpdateSigner \<Rightarrow> UpdateSigner" where
  "UpdateSigner_SetSignerAccount v inst =
     inst\<lparr>us_AccountMetaSlice := (us_AccountMetaSlice inst)[1 := Some (SIGNER (WRITE (Meta v)))]\<rparr>"

lemmas UpdateSigner_setters = UpdateSigner_SetBridgeId_def
  UpdateSigner_SetRequestType_def
  UpdateSigner_SetSigner_def
  UpdateSigner_SetStartTimestamp_def
  UpdateSigner_SetEndTimestamp_def
  UpdateSigner_SetNewNonce_def
  UpdateSigner_SetSignature_def
  UpdateSigner_SetRecoveryId_def
  UpdateSigner_SetAuthorityAccount_def
  UpdateSigner_SetSignerAccount_def

definition UpdateSigner_findAuthorityAddress :: "pda_lib \<Rightarrow> pubkey \<Rightarrow> string \<Rightarrow> byte \<Rightarrow> go_error + pubkey \<times> byte" where
  "UpdateSigner_findAuthorityAddress S programID bridgeId knownBumpSeed = find_address S programID
     [Inr (bytes_of_string ''authority''), MarshalBorsh_string S bridgeId] knownBumpSeed"

definition UpdateSigner_findAuthorityAddressWithBumpSeed :: "pda_lib \<Rightarrow> pubkey \<Rightarrow> string \<Rightarrow> byte \<Rightarrow> go_error + pubkey" where
  "UpdateSigner_findAuthorityAddressWithBumpSeed S programID bridgeId bumpSeed = map_sum id fst (UpdateSigner_findAuthorityAddress S programID bridgeId bumpSeed)"

definition UpdateSigner_Validate :: "UpdateSigner \<Rightarrow> go_error option go_result" where
  "UpdateSigner_Validate inst = validate
     [(us_BridgeId inst = None, ''BridgeId''),
      (us_RequestType inst = None, ''RequestType''),
      (us_Signer inst = None, ''Signer''),
      (us_StartTimestamp inst = None, ''StartTimestamp''),
      (us_EndTimestamp inst = None, ''EndTimestamp''),
      (us_NewNonce inst = None, ''NewNonce''),
      (us_Signature inst = None, ''Signature''),
      (us_RecoveryId inst = None, ''RecoveryId'')]
     (us_AccountMetaSlice inst) [''Authority'', ''Signer'']"

definition UpdateSigner_MarshalWithEncoder :: "borsh \<Rightarrow> UpdateSigner \<Rightarrow> go_error + bytes" where
  "UpdateSigner_MarshalWithEncoder B inst = enc_all
     [enc (bo_string B) (us_BridgeId inst),
      enc (bo_request B) (us_RequestType inst),
      enc (bo_array B 33) (us_Signer inst),
      enc (bo_i64 B) (us_StartTimestamp inst),
      enc (bo_i64 B) (us_EndTimestamp inst),
      enc (bo_u64 B) (us_NewNonce inst),
      enc (bo_array B 64) (us_Signature inst),
      enc (bo_u8 B) (us_RecoveryId inst)]"

definition UpdateSigner_UnmarshalWithDecoder ::
  "borsh \<Rightarrow> UpdateSigner \<Rightarrow> bytes \<Rightarrow> go_error + UpdateSigner \<times> bytes" where
  "UpdateSigner_UnmarshalWithDecoder B inst r0 =
     dec_then (bo_string B) r0 (\<lambda>v1 r1.
     dec_then (bo_request B) r1 (\<lambda>v2 r2.
     dec_then (bo_array B 33) r2 (\<lambda>v3 r3.
     dec_then (bo_i64 B) r3 (\<lambda>v4 r4.
     dec_then (bo_i64 B) r4 (\<lambda>v5 r5.
     dec_then (bo_u64 B) r5 (\<lambda>v6 r6.
     dec_then (bo_array B 64) r6 (\<lambda>v7 r7.
     dec_then (bo_u8 B) r7 (\<lambda>v8 r8.
     Inr (inst\<lparr>us_BridgeId := v1, us_RequestType := v2, us_Signer := v3, us_StartTimestamp := v4, us_EndTimestamp := v5, us_NewNonce := v6, us_Signature := v7, us_RecoveryId := v8\<rparr>, r8)))))))))"

definition UpdateSigner_Build :: "UpdateSigner \<Rightarrow> Instruction" where
  "UpdateSigner_Build inst = \<lparr>in_TypeID = Instruction_UpdateSigner, in_Accounts = us_AccountMetaSlice inst,
     in_Impl = (\<lambda>B. UpdateSigner_MarshalWithEncoder B inst)\<rparr>"

definition UpdateSigner_ValidateAndBuild :: "UpdateSigner \<Rightarrow> (go_error + Instruction) go_result" where
  "UpdateSigner_ValidateAndBuild inst = (case UpdateSigner_Validate inst of Panic m \<Rightarrow> Panic m
     | Returned (Some err) \<Rightarrow> Returned (Inl err)
     | Returned None \<Rightarrow> Returned (Inr (UpdateSigner_Build inst)))"

definition NewUpdateSignerInstruction ::
  "string \<Rightarrow> UpdateSignerRequestType \<Rightarrow> bytes \<Rightarrow> int64 \<Rightarrow> int64 \<Rightarrow> uint64 \<Rightarrow> bytes \<Rightarrow> byte \<Rightarrow> pubkey \<Rightarrow> pubkey \<Rightarrow> UpdateSigner" where
  "NewUpdateSignerInstruction bridge_id request_type signer start_timestamp end_timestamp new_nonce signature recovery_id authority signerAccount =
    (UpdateSigner_SetSignerAccount signerAccount \<circ>
     UpdateSigner_SetAuthorityAccount authority \<circ>
     UpdateSigner_SetRecoveryId recovery_id \<circ>
     UpdateSigner_SetSignature signature \<circ>
     UpdateSigner_SetNewNonce new_nonce \<circ>
     UpdateSigner_SetEndTimestamp end_timestamp \<circ>
     UpdateSigner_SetStartTimestamp start_timestamp \<circ>
     UpdateSigner_SetSigner signer \<circ>
     UpdateSigner_SetRequestType request_type \<circ>
     UpdateSigner_SetBridgeId bridge_id)
       NewUpdateSignerInstructionBuilder"

text \<open>The codec contract for \<open>UpdateSigner\<close>.\<close>

definition UpdateSigner_params_set :: "UpdateSigner \<Rightarrow> bool" where
  "UpdateSigner_params_set inst \<longleftrightarrow> set_to short_string (us_BridgeId inst)
     \<and> set_to (\<lambda>_. True) (us_RequestType inst)
     \<and> set_to (\<lambda>bs. length bs = 33) (us_Signer inst)
     \<and> set_to (\<lambda>_. True) (us_StartTimestamp inst)
     \<and> set_to (\<lambda>_. True) (us_EndTimestamp inst)
     \<and> set_to (\<lambda>_. True) (us_NewNonce inst)
     \<and> set_to (\<lambda>bs. length bs = 64) (us_Signature inst)
     \<and> set_to (\<lambda>_. True) (us_RecoveryId inst)"

definition UpdateSigner_params :: "UpdateSigner \<Rightarrow> UpdateSigner" where
  "UpdateSigner_params inst = inst\<lparr>us_AccountMetaSlice := []\<rparr>"

lemma UpdateSigner_roundtrip:
  assumes "borsh_ok B" and "UpdateSigner_params_set inst"
  shows "\<exists>bs. UpdateSigner_MarshalWithEncoder B inst = Inr bs
    \<and> (\<forall>obj rest. \<exists>j. UpdateSigner_UnmarshalWithDecoder B obj (bs @ rest) = Inr (j, rest)
         \<and> UpdateSigner_params j = UpdateSigner_params inst)"
proof -
  note ok = assms(1) [unfolded borsh_ok_def] and ps = assms(2) [unfolded UpdateSigner_params_set_def]
  obtain b1 where e1: "enc (bo_string B) (us_BridgeId inst) = Inr b1"
      "\<And>rest. dec (bo_string B) (b1 @ rest) = Inr (us_BridgeId inst, rest)"
    using ok ps codec_okD [of _ "bo_string B" "us_BridgeId inst"] by blast
  obtain b2 where e2: "enc (bo_request B) (us_RequestType inst) = Inr b2"
      "\<And>rest. dec (bo_request B) (b2 @ rest) = Inr (us_RequestType inst, rest)"
    using ok ps codec_okD [of _ "bo_request B" "us_RequestType inst"] by blast
  obtain b3 where e3: "enc (bo_array B 33) (us_Signer inst) = Inr b3"
      "\<And>rest. dec (bo_array B 33) (b3 @ rest) = Inr (us_Signer inst, rest)"
    using ok ps codec_okD [of _ "bo_array B 33" "us_Signer inst"] by blast
  obtain b4 where e4: "enc (bo_i64 B) (us_StartTimestamp inst) = Inr b4"
      "\<And>rest. dec (bo_i64 B) (b4 @ rest) = Inr (us_StartTimestamp inst, rest)"
    using ok ps codec_okD [of _ "bo_i64 B" "us_StartTimestamp inst"] by blast
  obtain b5 where e5: "enc (bo_i64 B) (us_EndTimestamp inst) = Inr b5"
      "\<And>rest. dec (bo_i64 B) (b5 @ rest) = Inr (us_EndTimestamp inst, rest)"
    using ok ps codec_okD [of _ "bo_i64 B" "us_EndTimestamp inst"] by blast
  obtain b6 where e6: "enc (bo_u64 B) (us_NewNonce inst) = Inr b6"
      "\<And>rest. dec (bo_u64 B) (b6 @ rest) = Inr (us_NewNonce inst, rest)"
    using ok ps codec_okD [of _ "bo_u64 B" "us_NewNonce inst"] by blast
  obtain b7 where e7: "enc (bo_array B 64) (us_Signature inst) = Inr b7"
      "\<And>rest. dec (bo_array B 64) (b7 @ rest) = Inr (us_Signature inst, rest)"
    using ok ps codec_okD [of _ "bo_array B 64" "us_Signature inst"] by blast
  obtain b8 where e8: "enc (bo_u8 B) (us_RecoveryId inst) = Inr b8"
      "\<And>rest. dec (bo_u8 B) (b8 @ rest) = Inr (us_RecoveryId inst, rest)"
    using ok ps codec_okD [of _ "bo_u8 B" "us_RecoveryId inst"] by blast
  show ?thesis
    by (rule exI [of _ "b1 @ b2 @ b3 @ b4 @ b5 @ b6 @ b7 @ b8"])
       (simp add: UpdateSigner_MarshalWithEncoder_def UpdateSigner_UnmarshalWithDecoder_def UpdateSigner_params_def
          e1 e2 e3 e4 e5 e6 e7 e8)
qed

interpretation us_codec: instruction_codec UpdateSigner_MarshalWithEncoder UpdateSigner_UnmarshalWithDecoder
    UpdateSigner_params_set UpdateSigner_params
  by unfold_locales (rule UpdateSigner_roundtrip)

lemma UpdateSigner_New_valid:
  "UpdateSigner_Validate (NewUpdateSignerInstruction bridge_id request_type signer start_timestamp end_timestamp new_nonce signature recovery_id authority signerAccount) = Returned None"
  by (simp add: NewUpdateSignerInstruction_def NewUpdateSignerInstructionBuilder_def zero_UpdateSigner_def UpdateSigner_setters
      UpdateSigner_Validate_def validate_def numeral_eq_Suc)

end
