(* ===== verification/Solana.thy ===== *)
theory Solana
  imports Solana_Instructions Retrier
begin

text \<open>
  \<open>internal/core/chain/solana\<close>: the client of a Solana chain. Parameters: \<open>solana-go\<close> (keys,
  transactions, program addresses), SHA-256, base 58, \<open>encoding/json\<close> and the RPC node. The
  program id is a package variable of the \<open>contract\<close> package, shared by every Solana client of
  the process, so it is part of the state next to the outside world.
\<close>

subsection \<open>State and library\<close>

record 'x sol_state =
  ss_ProgramID :: pubkey
  ss_ext :: 'x

definition sol_call :: "('x \<Rightarrow> 'a \<times> 'x) \<Rightarrow> 'x sol_state \<Rightarrow> 'a \<times> 'x sol_state" where
  "sol_call f s = (case f (ss_ext s) of (a, x) \<Rightarrow> (a, s\<lparr>ss_ext := x\<rparr>))"

text \<open>A decoded JSON value; the keys of an object are distinct.\<close>

datatype json = JNull | JBool bool | JNumber int | JString string | JArray "json list"
  | JObject "(string \<times> json) list"

record Wallet =
  wl_PublicKey :: pubkey
  wl_PrivateKey :: bytes

record account_info =
  ai_Owner :: pubkey
  ai_RawJSON :: bytes

record sol_lib =
  sl_pda :: pda_lib
  sl_borsh :: borsh
  Sum256 :: "bytes \<Rightarrow> bytes"
  PublicKeyFromBase58 :: "string \<Rightarrow> go_error + pubkey"
  PublicKey_String :: "pubkey \<Rightarrow> string"
  Signature_String :: "bytes \<Rightarrow> string"
  sl_hexutil_Decode :: "string \<Rightarrow> go_error + bytes"
  json_Object :: "bytes \<Rightarrow> go_error + (string \<times> json) list"
  SystemProgramID :: pubkey
  Token2022ProgramID :: pubkey
  NewTransaction :: "pubkey \<Rightarrow> AccountMeta option list \<Rightarrow> (go_error + bytes) \<Rightarrow> bytes \<Rightarrow> pubkey
     \<Rightarrow> go_error + bytes"
  tx_Sign :: "bytes \<Rightarrow> Wallet \<Rightarrow> go_error + bytes list \<times> bytes"

record 'x sol_rpc =
  GetLatestBlockhash :: "'x \<Rightarrow> (go_error + bytes \<times> uint64) \<times> 'x"
  GetAccountInfo :: "pubkey \<Rightarrow> 'x \<Rightarrow> (go_error + account_info) \<times> 'x"
  GetAccountInfoWithOpts :: "pubkey \<Rightarrow> 'x \<Rightarrow> (go_error + account_info) \<times> 'x"
  SendAndConfirm :: "bytes \<Rightarrow> 'x \<Rightarrow> (go_error + bytes) \<times> 'x"

record SolChain =
  sol_Id :: string
  sol_BridgeAddress :: pubkey
  sol_OperatorsWallets :: "Wallet list"
  sol_Workers :: int
  sol_WSTimeout :: int64
  sol_BridgeId :: string
  sol_IsTestnet :: bool

record 'x SolClient =
  so_lib :: sol_lib
  so_rpc :: "'x sol_rpc"
  so_chain :: SolChain
  so_Retries :: nat
  so_retry :: "((bytes \<times> uint64) option \<times> 'x sol_state) retry_fun"

subsection \<open>The chain (\<open>chain.go\<close>)\<close>

record 'v sol_figure =
  sfig_Meta :: "'v \<Rightarrow> go_error + string \<times> bool"
  sfig_Rpc :: "'v \<Rightarrow> go_error + unit"
  sfig_PublicKey :: "'v \<Rightarrow> go_error + pubkey"
  sfig_Wallet :: "string \<Rightarrow> go_error + Wallet"
  sfig_int64 :: "int64 \<Rightarrow> go_error + int64"
  sfig_int :: "int \<Rightarrow> go_error + int"
  ws_Connect :: "bool \<Rightarrow> go_error option"

fun parse_wallets :: "(string \<Rightarrow> go_error + Wallet) \<Rightarrow> string list \<Rightarrow> go_error + Wallet list" where
  "parse_wallets wallet [] = Inr []"
| "parse_wallets wallet (str # strs) = (case wallet str of Inl err \<Rightarrow> Inl err
     | Inr w \<Rightarrow> (case parse_wallets wallet strs of Inl err \<Rightarrow> Inl err | Inr ws \<Rightarrow> Inr (w # ws)))"

definition sol_FromChain :: "'v sol_figure \<Rightarrow> 'v ChainConfig \<Rightarrow> SolChain go_result" where
  "sol_FromChain F c =
   (if ch_Type c \<noteq> Type_string TypeSolana then Panic ''chain is not Solana''
    else case sfig_Meta F (ch_Meta c) of Inl _ \<Rightarrow> Panic ''failed to decode chain meta''
    | Inr (bridgeId, testnet) \<Rightarrow>
   (case sfig_Rpc F (ch_Rpc c) of Inl _ \<Rightarrow> Panic ''failed to obtain Solana clients''
    | Inr _ \<Rightarrow>
   (case sfig_PublicKey F (ch_BridgeAddresses c) of Inl _ \<Rightarrow> Panic ''failed to obtain bridge addresses''
    | Inr addr \<Rightarrow>
   (case parse_wallets (sfig_Wallet F) (ch_OperatorsPrivateKeys c) of
      Inl _ \<Rightarrow> Panic ''failed to obtain operator wallet''
    | Inr wallets \<Rightarrow>
   (case sfig_int64 F (ch_WSTimeout c) of Inl _ \<Rightarrow> Panic ''failed to obtain timeout''
    | Inr timeout \<Rightarrow>
   (case sfig_int F (ch_Workers c) of Inl _ \<Rightarrow> Panic ''failed to obtain workers number''
    | Inr workers \<Rightarrow>
   (case ws_Connect F testnet of Some _ \<Rightarrow> Panic ''failed to connect to websocket''
    | None \<Rightarrow>
      if workers > int (length wallets)
      then Panic ''number of workers is greater than number of operators private keys''
      else Returned \<lparr>sol_Id = ch_Id c, sol_BridgeAddress = addr, sol_OperatorsWallets = wallets,
             sol_Workers = workers, sol_WSTimeout = timeout, sol_BridgeId = bridgeId,
             sol_IsTestnet = testnet\<rparr>)))))))"

subsection \<open>Hashes and signatures (\<open>helpers.go\<close>, \<open>utils.go\<close>)\<close>

definition getUid :: "sol_lib \<Rightarrow> string \<Rightarrow> int \<Rightarrow> bytes" where
  "getUid L txHash nonce =
     Sum256 L (bytes_of_string txHash @ LittleEndian_PutUint64 (big_Uint64 nonce))"

text \<open>The buffer that is hashed; \<open>append(buffer, token)\<close> only for a token.\<close>

definition withdraw_buffer ::
  "'x SolClient \<Rightarrow> uint64 \<Rightarrow> bytes \<Rightarrow> pubkey \<Rightarrow> bytes \<Rightarrow> bytes" where
  "withdraw_buffer C amount uid receiver token =
     bytes_of_string ''withdraw'' @ bytes_of_string (sol_BridgeId (so_chain C))
     @ LittleEndian_PutUint64 amount @ uid @ receiver @ token"

definition getSignHash :: "'x SolClient \<Rightarrow> Deposit \<Rightarrow> go_error + bytes" where
  "getSignHash C d = (let L = so_lib C in
     wrap_then (ParseUint (d_WithdrawalAmount d) 64) ''failed to parse withdrawal amount'' (\<lambda>amount.
     let uid = Sum256 L (bytes_of_string (TxHash (d_Id d)) @ LittleEndian_PutUint64 (TxNonce (d_Id d))) in
     wrap_then (PublicKeyFromBase58 L (d_Receiver d)) ''failed to parse receiver address'' (\<lambda>receiver.
     if d_WithdrawalToken d \<noteq> DefaultNativeTokenAddress
     then (case PublicKeyFromBase58 L (d_WithdrawalToken d) of
             Inl err \<Rightarrow> Inl err
           | Inr token \<Rightarrow> Inr (Sum256 L (withdraw_buffer C (word_of_nat amount) uid receiver token)))
     else Inr (Sum256 L (withdraw_buffer C (word_of_nat amount) uid receiver [])))))"

definition getWithdrawalHash :: "'x SolClient \<Rightarrow> Deposit \<Rightarrow> go_error + bytes" where
  "getWithdrawalHash C d = (let L = so_lib C in
     case big_SetString (d_WithdrawalAmount d) of
       None \<Rightarrow> Inl (Msg ''could not convert withdrawal amount to big.Int'')
     | Some amount \<Rightarrow>
     (let uid = getUid L (TxHash (d_Id d)) (sint (TxNonce (d_Id d))) in
     wrap_then (PublicKeyFromBase58 L (d_Receiver d)) ''failed to parse receiver address'' (\<lambda>receiver.
     if d_WithdrawalToken d \<noteq> DefaultNativeTokenAddress
     then (case PublicKeyFromBase58 L (d_WithdrawalToken d) of
             Inl err \<Rightarrow> Inl err
           | Inr token \<Rightarrow> Inr (Sum256 L (withdraw_buffer C (big_Uint64 amount) uid receiver token)))
     else Inr (Sum256 L (withdraw_buffer C (big_Uint64 amount) uid receiver [])))))"

definition getWithdrawalPDA ::
  "'x SolClient \<Rightarrow> bytes \<Rightarrow> 'x sol_state \<Rightarrow> go_error + pubkey" where
  "getWithdrawalPDA C withdrawalHash s =
     wrap_then (FindProgramAddress (sl_pda (so_lib C))
         [bytes_of_string ''withdraw'', withdrawalHash, bytes_of_string (sol_BridgeId (so_chain C))]
         (ss_ProgramID s))
       ''could not retrieve withdrawal PDA contract'' (\<lambda>(pda, bump). Inr pda)"

text \<open>For a signature of the wrong length, \<open>errors.Wrapf(err, ...)\<close> wraps a nil error.\<close>

definition processSignature :: "sol_lib \<Rightarrow> string \<Rightarrow> go_error + bytes \<times> byte" where
  "processSignature L signature =
     wrap_then (sl_hexutil_Decode L signature) ''invalid signature'' (\<lambda>signatureBytes.
       if length signatureBytes \<noteq> 65 then Inr (replicate 64 0, 0)
       else let recId0 = signatureBytes ! 64;
                recId = (if recId0 \<ge> 27 then recId0 - 27 else recId0) in
            if recId > 3 then Inl (Msg ''Invalid recovery ID after normalization'')
            else Inr (take 64 signatureBytes, recId))"

text \<open>
  Signature, recovery id and signer; the last component is nil together with the zero values.
  Again a wrong length alone gives a nil error.
\<close>

definition parseSignatureAndSigner ::
  "sol_lib \<Rightarrow> string \<Rightarrow> string \<Rightarrow> go_error + bytes \<times> byte \<times> bytes" where
  "parseSignatureAndSigner L signatureHex signerHex =
     (case sl_hexutil_Decode L signatureHex of
        Inl err \<Rightarrow> Inl (Wrap ''invalid signature'' err)
      | Inr sigBytes \<Rightarrow>
          if length sigBytes \<noteq> 65 then Inr (replicate 64 0, 0, [])
          else (case sl_hexutil_Decode L signerHex of
             Inl err \<Rightarrow> Inl (Wrap ''invalid signer pubkey'' err)
           | Inr signerBytes \<Rightarrow>
               if length signerBytes \<noteq> 33 then Inr (replicate 64 0, 0, [])
               else Inr (take 64 sigBytes, sigBytes ! 64, signerBytes)))"

subsection \<open>Token metadata (\<open>utils.go\<close>)\<close>

record tokenMetadata =
  tm_Name :: string
  tm_Symbol :: string
  tm_Uri :: string
  tm_Nonce :: uint64

text \<open>Type assertions on decoded JSON: a missing key is a nil interface and panics too.\<close>

definition assert_object :: "json option \<Rightarrow> (string \<times> json) list go_result" where
  "assert_object v = (case v of Some (JObject kvs) \<Rightarrow> Returned kvs
     | _ \<Rightarrow> Panic ''interface conversion: not map[string]interface {}'')"

definition assert_array :: "json option \<Rightarrow> json list go_result" where
  "assert_array v = (case v of Some (JArray vs) \<Rightarrow> Returned vs
     | _ \<Rightarrow> Panic ''interface conversion: not []interface {}'')"

definition assert_string :: "json option \<Rightarrow> string go_result" where
  "assert_string v = (case v of Some (JString s) \<Rightarrow> Returned s
     | _ \<Rightarrow> Panic ''interface conversion: not string'')"

definition index :: "json list \<Rightarrow> nat \<Rightarrow> json option go_result" where
  "index vs i = (if i < length vs then Returned (Some (vs ! i)) else Panic ''index out of range'')"

definition and_then :: "'a go_result \<Rightarrow> ('a \<Rightarrow> 'b go_result) \<Rightarrow> 'b go_result" where
  "and_then r k = (case r of Panic m \<Rightarrow> Panic m | Returned a \<Rightarrow> k a)"

fun metadata_items :: "json list \<Rightarrow> tokenMetadata \<Rightarrow> (go_error + tokenMetadata) go_result" where
  "metadata_items [] t = Returned (Inr t)"
| "metadata_items (item # items) t =
     and_then (assert_array (Some item)) (\<lambda>pair.
     and_then (index pair 0) (\<lambda>key.
       if key = Some (JString ''nonce'') then
         and_then (index pair 1) (\<lambda>v1.
         and_then (assert_string v1) (\<lambda>str.
         case ParseInt64 str of
           Inl err \<Rightarrow> Returned (Inl (Wrap ''invalid nonce value'' err))
         | Inr nonce \<Rightarrow> metadata_items items (t\<lparr>tm_Nonce := word_of_int nonce\<rparr>)))
       else metadata_items items t))"

definition metadata_extension ::
  "json \<Rightarrow> tokenMetadata \<Rightarrow> (go_error + tokenMetadata) go_result" where
  "metadata_extension e t =
     and_then (assert_object (Some e)) (\<lambda>ext.
     and_then (assert_string (map_of ext ''extension'')) (\<lambda>extName.
     and_then (assert_object (map_of ext ''state'')) (\<lambda>state.
     if extName = ''tokenMetadata'' then
       and_then (assert_string (map_of state ''name'')) (\<lambda>name.
       and_then (assert_string (map_of state ''symbol'')) (\<lambda>symbol.
       and_then (assert_string (map_of state ''uri'')) (\<lambda>uri.
       and_then (assert_array (map_of state ''additionalMetadata'')) (\<lambda>addMeta.
       metadata_items addMeta (t\<lparr>tm_Name := name, tm_Symbol := symbol, tm_Uri := uri\<rparr>)))))
     else Returned (Inr t))))"

fun metadata_extensions :: "json list \<Rightarrow> tokenMetadata \<Rightarrow> (go_error + tokenMetadata) go_result" where
  "metadata_extensions [] t = Returned (Inr t)"
| "metadata_extensions (e # es) t = and_then (metadata_extension e t) (\<lambda>r.
     case r of Inl err \<Rightarrow> Returned (Inl err) | Inr t1 \<Rightarrow> metadata_extensions es t1)"

definition parseTokenMetadata :: "sol_lib \<Rightarrow> bytes \<Rightarrow> (go_error + tokenMetadata) go_result" where
  "parseTokenMetadata L data = (case json_Object L data of
     Inl err \<Rightarrow> Panic (error_text err)
   | Inr parsed \<Rightarrow>
     and_then (assert_object (map_of parsed ''parsed'')) (\<lambda>p.
     and_then (assert_object (map_of p ''info'')) (\<lambda>parsedInfo.
     and_then (assert_array (map_of parsedInfo ''extensions'')) (\<lambda>extensions.
     metadata_extensions extensions \<lparr>tm_Name = [], tm_Symbol = [], tm_Uri = [], tm_Nonce = 0\<rparr>))))"

definition getTokenMetadata ::
  "'x SolClient \<Rightarrow> pubkey \<Rightarrow> 'x sol_state \<Rightarrow> (tokenMetadata, 'x sol_state) go_call" where
  "getTokenMetadata C tokenAccount s =
     rpc_then (sol_call (GetAccountInfoWithOpts (so_rpc C) tokenAccount) s)
       ''unable to get account info''
       (\<lambda>accountInfo s1. (parseTokenMetadata (so_lib C) (ai_RawJSON accountInfo), s1))"

subsection \<open>Reading the chain (\<open>client.go\<close>, \<open>helpers.go\<close>)\<close>

definition getBlock :: "'x SolClient \<Rightarrow> ((bytes \<times> uint64) option \<times> 'x sol_state) retried" where
  "getBlock C p = (case p of (block, s) \<Rightarrow> (case sol_call (GetLatestBlockhash (so_rpc C)) s of
     (Inl err, s1) \<Rightarrow> (Returned (Some err), (None, s1))
   | (Inr b, s1) \<Rightarrow> (Returned None, (Some b, s1))))"

definition getLatestBlockWithRetry :: "'x SolClient \<Rightarrow> 'x sol_state \<Rightarrow> (int64, 'x sol_state) go_call" where
  "getLatestBlockWithRetry C s =
     (case DoWithRetry (so_retry C) (so_Retries C) (getBlock C) (None, s) of
        (Panic m, (block, s1)) \<Rightarrow> (Panic m, s1)
      | (Returned (Some err), (block, s1)) \<Rightarrow> (Returned (Inl (Wrap ''failed to get block'' err)), s1)
      | (Returned None, (None, s1)) \<Rightarrow> (Panic ''nil pointer dereference'', s1)
      | (Returned None, (Some (blockhash, height), s1)) \<Rightarrow> (Returned (Inr height), s1))"

definition SolClient_IsProcessed ::
  "'x SolClient \<Rightarrow> Deposit \<Rightarrow> 'x sol_state \<Rightarrow> (bool \<times> go_error option) \<times> 'x sol_state" where
  "SolClient_IsProcessed C d s = (case getWithdrawalHash C d of
     Inl err \<Rightarrow> ((False, Some (Wrap ''failed to get withdrawal hash'' err)), s)
   | Inr withdrawalHash \<Rightarrow>
   (case getWithdrawalPDA C withdrawalHash s of
      Inl err \<Rightarrow> ((False, Some (Wrap ''failed to get withdrawal pda'' err)), s)
    | Inr pda \<Rightarrow>
   (case sol_call (GetAccountInfo (so_rpc C) pda) s of
      (Inl err, s1) \<Rightarrow>
        (if errors_Is err ErrRpcNotFound then (False, None)
         else (False, Some (Wrap ''failed to get account info'' err)), s1)
    | (Inr _, s1) \<Rightarrow> ((True, None), s1))))"

subsection \<open>Sending (\<open>client.go\<close>)\<close>

text \<open>\<open>contract.SetProgramID\<close> in \<open>NewBridgeClient\<close> overwrites the package variable.\<close>

definition sol_NewBridgeClient ::
  "sol_lib \<Rightarrow> 'x sol_rpc \<Rightarrow> nat \<Rightarrow> ((bytes \<times> uint64) option \<times> 'x sol_state) retry_fun \<Rightarrow> SolChain
     \<Rightarrow> 'x sol_state \<Rightarrow> 'x SolClient \<times> 'x sol_state" where
  "sol_NewBridgeClient L rpc retries retry chain s =
     (\<lparr>so_lib = L, so_rpc = rpc, so_chain = chain, so_Retries = retries, so_retry = retry\<rparr>,
      s\<lparr>ss_ProgramID := sol_BridgeAddress chain\<rparr>)"

text \<open>
  The signature (nil or a pointer) and the error. The instruction names its program when the
  transaction is made, so it is the program id of that moment.
\<close>

definition SendTx ::
  "'x SolClient \<Rightarrow> Instruction \<Rightarrow> Wallet \<Rightarrow> 'x sol_state
     \<Rightarrow> (bytes option \<times> go_error option) go_result \<times> 'x sol_state" where
  "SendTx C inst wallet s = (let L = so_lib C in
     case sol_call (GetLatestBlockhash (so_rpc C)) s of
       (Inl err, s1) \<Rightarrow> (Returned (None, Some (Wrap ''unable to get latest blockhash'' err)), s1)
     | (Inr (blockhash, height), s1) \<Rightarrow>
     (case NewTransaction L (ss_ProgramID s1) (in_Accounts inst) (Instruction_Data (sl_borsh L) inst)
             blockhash (wl_PublicKey wallet) of
       Inl err \<Rightarrow> (Returned (None, Some (Wrap ''unable to create transaction'' err)), s1)
     | Inr tx \<Rightarrow>
     (case tx_Sign L tx wallet of
       Inl err \<Rightarrow> (Returned (None, Some (Wrap ''unable to sign transaction'' err)), s1)
     | Inr (sign, signedTx) \<Rightarrow>
     (case sol_call (SendAndConfirm (so_rpc C) signedTx) s1 of
       (Inl err, s2) \<Rightarrow>
         (if sign = [] then (Panic ''index out of range'', s2)
          else (Returned (Some (hd sign), Some (Wrap ''unable to send transaction'' err)), s2))
     | (Inr signTx, s2) \<Rightarrow> (Returned (Some signTx, None), s2)))))"

subsection \<open>Withdrawals (\<open>helpers.go\<close>, \<open>withdraw.go\<close>, \<open>vault.go\<close>, \<open>spl.go\<close>, \<open>wrapped.go\<close>)\<close>

record withdrawalContext =
  wc_Receiver :: pubkey
  wc_Token :: pubkey
  wc_Authority :: pubkey
  wc_WithdrawalPDA :: pubkey
  wc_Amount :: uint64
  wc_BridgeID :: string
  wc_UID :: bytes
  wc_Sig :: bytes
  wc_RecID :: byte
  wc_WithdrawalTxHash :: bytes
  wc_TxNonce :: uint64

definition authority_seeds :: "'x SolClient \<Rightarrow> bytes list" where
  "authority_seeds C = [bytes_of_string ''authority'', bytes_of_string (sol_BridgeId (so_chain C))]"

text \<open>\<open>copy\<close> into a zeroed array of \<open>n\<close> bytes.\<close>

definition copy_array :: "nat \<Rightarrow> bytes \<Rightarrow> bytes" where
  "copy_array n bs = take n (bs @ replicate n 0)"

definition getWithdrawalContext ::
  "'x SolClient \<Rightarrow> Deposit \<Rightarrow> 'x sol_state \<Rightarrow> go_error + withdrawalContext" where
  "getWithdrawalContext C d s = (let L = so_lib C in
     wrap_then (processSignature L (d_Signature d)) ''unable to process signature''
       (\<lambda>(signatureBytes, recId).
     let uid = copy_array 32 (getUid L (TxHash (d_Id d)) (sint (TxNonce (d_Id d)))) in
     wrap_then (getSignHash C d) ''unable to get withdrawal hash'' (\<lambda>withdrawalHash.
     wrap_then (getWithdrawalPDA C withdrawalHash s) ''unable to get withdrawal pda'' (\<lambda>pda.
     case big_SetString (d_WithdrawalAmount d) of
       None \<Rightarrow> Inl (Msg ''unable to parse withdrawal amount'')
     | Some amount \<Rightarrow>
     wrap_then (PublicKeyFromBase58 L (d_Receiver d)) ''unable to parse receiver address'' (\<lambda>receiver.
     wrap_then (if d_WithdrawalToken d \<noteq> DefaultNativeTokenAddress
                then PublicKeyFromBase58 L (d_WithdrawalToken d) else Inr (replicate 32 0))
       ''unable to parse withdrawal token'' (\<lambda>token.
     wrap_then (FindProgramAddress (sl_pda L) (authority_seeds C) (ss_ProgramID s))
       ''unable to find authority account'' (\<lambda>(authority, bump).
     Inr \<lparr>wc_Receiver = receiver, wc_Token = token, wc_Authority = authority,
          wc_WithdrawalPDA = pda, wc_Amount = big_Uint64 amount,
          wc_BridgeID = sol_BridgeId (so_chain C), wc_UID = uid, wc_Sig = signatureBytes,
          wc_RecID = recId, wc_WithdrawalTxHash = copy_array 32 withdrawalHash,
          wc_TxNonce = TxNonce (d_Id d)\<rparr>)))))))"

text \<open>
  The vault of a token: \<open>Inr None\<close> is the pair of a nil pointer and a nil error, which
  the code returns after it created the vault, because \<open>errors.Wrap\<close> then wraps the nil error
  of \<open>SendTx\<close>.
\<close>

definition getSPLVault ::
  "'x SolClient \<Rightarrow> Deposit \<Rightarrow> Wallet \<Rightarrow> 'x sol_state \<Rightarrow> (pubkey option, 'x sol_state) go_call" where
  "getSPLVault C d signer s = (let L = so_lib C in
     pure_then (PublicKeyFromBase58 L (d_WithdrawalToken d)) s
       ''failed to retrieve withdrawal token account'' (\<lambda>tokenAccount.
     rpc_then (sol_call (GetAccountInfo (so_rpc C) tokenAccount) s)
       ''failed to get withdrawal token account info'' (\<lambda>tokenInfo s1.
     pure_then (FindProgramAddress (sl_pda L) [bytes_of_string ''vault'', tokenAccount,
         bytes_of_string (sol_BridgeId (so_chain C))] (ss_ProgramID s1)) s1
       ''unable to init splVault'' (\<lambda>(vault, bump).
     let vaultInst = InitSplVault_Build (NewInitSplVaultInstruction (sol_BridgeId (so_chain C))
           tokenAccount vault (wl_PublicKey signer) (ai_Owner tokenInfo) (SystemProgramID L)) in
     case sol_call (GetAccountInfo (so_rpc C) vault) s1 of
       (Inr _, s2) \<Rightarrow> (Returned (Inr (Some vault)), s2)
     | (Inl err, s2) \<Rightarrow>
         if errors_Is err ErrRpcNotFound then
           (case SendTx C vaultInst signer s2 of
              (Panic m, s3) \<Rightarrow> (Panic m, s3)
            | (Returned (hash, Some err2), s3) \<Rightarrow>
                (Returned (Inl (Wrap ''unable to init vault'' err2)), s3)
            | (Returned (hash, None), s3) \<Rightarrow> (Returned (Inr None), s3))
         else (Returned (Inl (Wrap ''unable to get account info'' err)), s2)))))"

type_synonym 'x sol_withdrawn = "(string \<times> int64 \<times> go_error option) go_result \<times> 'x sol_state"

definition sol_failed :: "string \<Rightarrow> go_error \<Rightarrow> 'x sol_state \<Rightarrow> 'x sol_withdrawn" where
  "sol_failed msg err s = (Returned ([], 0, Some (Wrap msg err)), s)"

text \<open>
  The end of the two token withdrawals: the current block, then the transaction. A failed
  transaction reports its hash when there is one.
\<close>

definition send_withdrawal ::
  "'x SolClient \<Rightarrow> Instruction \<Rightarrow> Wallet \<Rightarrow> string \<Rightarrow> string \<Rightarrow> 'x sol_state \<Rightarrow> 'x sol_withdrawn" where
  "send_withdrawal C inst signer sent_msg unsent_msg s = (case getLatestBlockWithRetry C s of
     (Panic m, s1) \<Rightarrow> (Panic m, s1)
   | (Returned (Inl err), s1) \<Rightarrow> sol_failed ''failed to get latest block number'' err s1
   | (Returned (Inr blockNumber), s1) \<Rightarrow>
   (case SendTx C inst signer s1 of
      (Panic m, s2) \<Rightarrow> (Panic m, s2)
    | (Returned (Some txHash, Some err), s2) \<Rightarrow>
        (Returned (Signature_String (so_lib C) txHash, blockNumber, Some (Wrap sent_msg err)), s2)
    | (Returned (None, Some err), s2) \<Rightarrow>
        (Returned ([], blockNumber, Some (Wrap unsent_msg err)), s2)
    | (Returned (Some txHash, None), s2) \<Rightarrow>
        (Returned (Signature_String (so_lib C) txHash, blockNumber, None), s2)
    | (Returned (None, None), s2) \<Rightarrow> (Panic ''nil pointer dereference'', s2)))"

definition sol_withdrawNative ::
  "'x SolClient \<Rightarrow> Deposit \<Rightarrow> Wallet \<Rightarrow> 'x sol_state \<Rightarrow> 'x sol_withdrawn" where
  "sol_withdrawNative C d signer s = (let L = so_lib C in case getWithdrawalContext C d s of
     Inl err \<Rightarrow> sol_failed ''failed to get withdrawal context'' err s
   | Inr w \<Rightarrow>
     (let inst = WithdrawNative_Build (NewWithdrawNativeInstruction (sol_BridgeId (so_chain C))
            (wc_WithdrawalTxHash w) (wc_Amount w) (wc_UID w) (wc_Sig w) (wc_RecID w)
            (wc_Receiver w) (wc_Authority w) (wc_WithdrawalPDA w) (wl_PublicKey signer)
            (SystemProgramID L)) in
      case getLatestBlockWithRetry C s of
        (Panic m, s1) \<Rightarrow> (Panic m, s1)
      | (Returned (Inl err), s1) \<Rightarrow> sol_failed ''failed to get latest block number'' err s1
      | (Returned (Inr blockNumber), s1) \<Rightarrow>
      (case SendTx C inst signer s1 of
         (Panic m, s2) \<Rightarrow> (Panic m, s2)
       | (Returned (None, err), s2) \<Rightarrow>
           (Returned ([], blockNumber, errors_Wrap err ''failed to send withdrawal tx''), s2)
       | (Returned (Some hash, err), s2) \<Rightarrow>
           (Returned (Signature_String L hash, blockNumber,
              errors_Wrap err ''unable to send native withdrawal tx''), s2))))"

definition sol_withdrawSPL ::
  "'x SolClient \<Rightarrow> Deposit \<Rightarrow> Wallet \<Rightarrow> 'x sol_state \<Rightarrow> 'x sol_withdrawn" where
  "sol_withdrawSPL C d signer s = (let L = so_lib C in case getWithdrawalContext C d s of
     Inl err \<Rightarrow> sol_failed ''failed to get withdrawal context'' err s
   | Inr w \<Rightarrow>
   (case getSPLVault C d signer s of
      (Panic m, s1) \<Rightarrow> (Panic m, s1)
    | (Returned (Inl err), s1) \<Rightarrow> sol_failed ''failed to get withdrawal SPL vault'' err s1
    | (Returned (Inr vault), s1) \<Rightarrow>
   (case sol_call (GetAccountInfo (so_rpc C) (wc_Token w)) s1 of
      (Inl err, s2) \<Rightarrow> sol_failed ''failed to get token info'' err s2
    | (Inr tokenInfo, s2) \<Rightarrow>
   (case vault of
      None \<Rightarrow> (Panic ''nil pointer dereference'', s2)
    | Some v \<Rightarrow>
        send_withdrawal C (WithdrawSpl_Build (NewWithdrawSplInstruction (sol_BridgeId (so_chain C))
            (wc_WithdrawalTxHash w) (wc_Amount w) (wc_UID w) (wc_Sig w) (wc_RecID w)
            (wc_Token w) v (wc_Receiver w) (wc_Authority w) (wc_WithdrawalPDA w)
            (wl_PublicKey signer) (SystemProgramID L) (ai_Owner tokenInfo)))
          signer ''failed to send withdrawal tx'' ''unable to send withdrawal token instruction'' s2))))"

definition sol_withdrawWrapped ::
  "'x SolClient \<Rightarrow> Deposit \<Rightarrow> Wallet \<Rightarrow> 'x sol_state \<Rightarrow> 'x sol_withdrawn" where
  "sol_withdrawWrapped C d signer s = (let L = so_lib C in case getWithdrawalContext C d s of
     Inl err \<Rightarrow> sol_failed ''failed to get withdrawal context'' err s
   | Inr w \<Rightarrow>
   (case getTokenMetadata C (wc_Token w) s of
      (Panic m, s1) \<Rightarrow> (Panic m, s1)
    | (Returned (Inl err), s1) \<Rightarrow> sol_failed ''failed to get withdrawal token metadata'' err s1
    | (Returned (Inr tokenData), s1) \<Rightarrow>
        send_withdrawal C (WithdrawWrapped_Build (NewWithdrawWrappedInstruction
            (sol_BridgeId (so_chain C)) (wc_WithdrawalTxHash w) (tm_Nonce tokenData)
            (tm_Symbol tokenData) (wc_Amount w) (wc_UID w) (wc_Sig w) (wc_RecID w) (wc_Token w)
            (wc_Receiver w) (wc_Authority w) (wc_WithdrawalPDA w) (wl_PublicKey signer)
            (SystemProgramID L) (Token2022ProgramID L)))
          signer ''unable to send withdrawal wrapped instruction''
          ''unable to send withdrawal wrapped instruction'' s1))"

definition wrap_withdrawn :: "string \<Rightarrow> 'x sol_withdrawn \<Rightarrow> 'x sol_withdrawn" where
  "wrap_withdrawn msg r = (case r of (Panic m, s) \<Rightarrow> (Panic m, s)
     | (Returned (h, b, err), s) \<Rightarrow> (Returned (h, b, errors_Wrap err msg), s))"

definition sol_withdrawToken ::
  "'x SolClient \<Rightarrow> Deposit \<Rightarrow> Wallet \<Rightarrow> 'x sol_state \<Rightarrow> 'x sol_withdrawn" where
  "sol_withdrawToken C d signer s = (case PublicKeyFromBase58 (so_lib C) (d_Receiver d) of
     Inl err \<Rightarrow> sol_failed ''failed to decode receiver public key'' err s
   | Inr receiverPub \<Rightarrow>
   (case sol_call (GetAccountInfo (so_rpc C) receiverPub) s of
      (Inl err, s1) \<Rightarrow> sol_failed ''failed to get receiver account info'' err s1
    | (Inr _, s1) \<Rightarrow>
        if \<not> d_IsWrappedToken d
        then wrap_withdrawn ''failed to withdraw SPL token'' (sol_withdrawSPL C d signer s1)
        else wrap_withdrawn ''failed to withdraw wrapped token'' (sol_withdrawWrapped C d signer s1)))"

definition SolClient_Withdraw ::
  "'x SolClient \<Rightarrow> Deposit \<Rightarrow> Wallet \<Rightarrow> 'x sol_state
     \<Rightarrow> (string \<times> string \<times> int64 \<times> go_error option) go_result \<times> 'x sol_state" where
  "SolClient_Withdraw C d signer s =
     (case (if d_WithdrawalToken d = DefaultNativeTokenAddress
            then wrap_withdrawn ''failed to withdraw native'' (sol_withdrawNative C d signer s)
            else wrap_withdrawn ''failed to withdraw token'' (sol_withdrawToken C d signer s)) of
        (Panic m, s1) \<Rightarrow> (Panic m, s1)
      | (Returned (txHash, block, err), s1) \<Rightarrow>
          (Returned (PublicKey_String (so_lib C) (wl_PublicKey signer), txHash, block, err), s1))"

subsection \<open>Updating signers (\<open>signer.go\<close>)\<close>

text \<open>
  \<open>MustPublicKeyFromBase58(addr.String())\<close> is the address itself (\<open>solana-go\<close> documents the two
  as inverse); it is assigned to the package variable.
\<close>

definition SolClient_UpdateSigners ::
  "'x SolClient \<Rightarrow> Epoch \<Rightarrow> Wallet \<Rightarrow> 'x sol_state
     \<Rightarrow> (string \<times> int64 \<times> go_error option) go_result \<times> 'x sol_state" where
  "SolClient_UpdateSigners C e signer s = (let L = so_lib C in
     case parseSignatureAndSigner L (e_Signature e) (e_Signer e) of
       Inl err \<Rightarrow> (Returned ([], 0, Some err), s)
     | Inr (sigArray, recoveryId, signerBytes) \<Rightarrow>
     (case ParseUint (e_Nonce e) 64 of
       Inl err \<Rightarrow> (Returned ([], 0, Some (Wrap ''failed to parse nonce'' err)), s)
     | Inr nonce \<Rightarrow>
     (let reqType = (if e_SignatureMode e then UpdateSignerRequestTypeAdd
                     else UpdateSignerRequestTypeRemove);
          s1 = s\<lparr>ss_ProgramID := sol_BridgeAddress (so_chain C)\<rparr> in
      case FindProgramAddress (sl_pda L) (authority_seeds C) (sol_BridgeAddress (so_chain C)) of
        Inl err \<Rightarrow> (Returned ([], 0, Some (Wrap ''failed to manually find authority pda'' err)), s1)
      | Inr (authorityPda, bump) \<Rightarrow>
      (let inst = UpdateSigner_Build (NewUpdateSignerInstruction (sol_BridgeId (so_chain C)) reqType
             (copy_array 33 signerBytes) (e_StartTime e) (e_EndTime e) (word_of_nat nonce)
             sigArray recoveryId authorityPda (wl_PublicKey signer)) in
       case getLatestBlockWithRetry C s1 of
         (Panic m, s2) \<Rightarrow> (Panic m, s2)
       | (Returned (Inl err), s2) \<Rightarrow> sol_failed ''failed to get latest block number'' err s2
       | (Returned (Inr blockNumber), s2) \<Rightarrow>
       (case SendTx C inst signer s2 of
          (Panic m, s3) \<Rightarrow> (Panic m, s3)
        | (Returned (hash, Some err), s3) \<Rightarrow>
            (Returned ([], blockNumber, Some (Wrap ''failed to send update signers tx'' err)), s3)
        | (Returned (Some hash, None), s3) \<Rightarrow>
            (Returned (Signature_String L hash, blockNumber, None), s3)
        | (Returned (None, None), s3) \<Rightarrow> (Panic ''nil pointer dereference'', s3))))))"

subsection \<open>Child clients (\<open>child_client.go\<close>)\<close>

definition sol_ConfigureChildClients :: "'x SolClient \<Rightarrow> Wallet list list go_result" where
  "sol_ConfigureChildClients C =
     ConfigureChildClients (sol_Workers (so_chain C)) id (sol_OperatorsWallets (so_chain C))"

definition sol_child_Withdraw ::
  "(nat \<Rightarrow> 'x sol_state \<Rightarrow> nat \<times> 'x sol_state) \<Rightarrow> 'x SolClient \<Rightarrow> Wallet list \<Rightarrow> Deposit \<Rightarrow> 'x sol_state
     \<Rightarrow> (string \<times> string \<times> int64 \<times> go_error option) go_result \<times> 'x sol_state" where
  "sol_child_Withdraw rand_Intn C signers d s =
     (if signers = [] then (Returned ([], [], 0, Some (Msg ''no signers available'')), s)
      else case pick_signer rand_Intn signers s of
          (Panic m, s1) \<Rightarrow> (Panic m, s1)
        | (Returned signer, s1) \<Rightarrow> SolClient_Withdraw C d signer s1)"

definition sol_child_UpdateSigners ::
  "(nat \<Rightarrow> 'x sol_state \<Rightarrow> nat \<times> 'x sol_state) \<Rightarrow> 'x SolClient \<Rightarrow> Wallet list \<Rightarrow> Epoch \<Rightarrow> 'x sol_state
     \<Rightarrow> (string \<times> int64 \<times> go_error option) go_result \<times> 'x sol_state" where
  "sol_child_UpdateSigners rand_Intn C signers e s =
     (if signers = [] then (Returned ([], 0, Some (Msg ''no signers available'')), s)
      else case pick_signer rand_Intn signers s of
          (Panic m, s1) \<Rightarrow> (Panic m, s1)
        | (Returned signer, s1) \<Rightarrow>
        (case SolClient_UpdateSigners C e signer s1 of
           (Panic m, s2) \<Rightarrow> (Panic m, s2)
         | (Returned (tx, block, Some err), s2) \<Rightarrow>
             (Returned ([], 0, Some (Wrap ''failed to call update signers method'' err)), s2)
         | (Returned (tx, block, None), s2) \<Rightarrow> (Returned (tx, block, None), s2)))"

end
