(* ===== verification/Ton.thy ===== *)
theory Ton
  imports Chain_Core Retrier
begin

text \<open>
  \<open>internal/core/chain/ton\<close>: the client of the TON chain. Parameters: \<open>tonutils-go\<close> (addresses,
  cells, wallets, the lite client) and go-ethereum's hex and Keccak. A cell is kept as the
  sequence of builder calls that made it; whether a builder accepts a sequence (1023 bits,
  4 references, numbers in range) is the parameter \<open>builder_accepts\<close>, and a \<open>Must\<close> call that
  is not accepted panics.
\<close>

subsection \<open>Library\<close>

type_synonym ton_address = bytes

datatype cell_op =
    StoreUInt nat nat
  | StoreInt int nat
  | StoreBigInt int nat
  | StoreBoolBit bool
  | StoreAddr "ton_address option"
  | StoreSlice bytes nat
  | StoreRef cell
and cell = Cell "cell_op list"

datatype get_arg = ArgInt int | ArgSlice cell

record get_result =
  gr_Int :: "go_error + int"
  gr_Slice :: "go_error + cell"

record ton_block =
  tb_SeqNo :: uint32

record ton_message =
  tmsg_Mode :: nat
  tmsg_IHRDisabled :: bool
  tmsg_Bounce :: bool
  tmsg_DstAddr :: ton_address
  tmsg_Amount :: nat
  tmsg_Body :: "cell option"

record 'k ton_lib =
  tl_hexutil_Decode :: "string \<Rightarrow> go_error + bytes"
  tl_Keccak256 :: "bytes \<Rightarrow> bytes"
  ParseAddr :: "string \<Rightarrow> go_error + ton_address"
  builder_accepts :: "cell_op list \<Rightarrow> bool"
  store_error :: "cell_op \<Rightarrow> go_error option"
  LoadAddr :: "cell \<Rightarrow> go_error + ton_address"
  WalletAddress :: "'k \<Rightarrow> string"

record ('k, 'x) ton_api =
  GetMasterchainInfo :: "'x \<Rightarrow> (go_error + ton_block) \<times> 'x"
  CurrentMasterchainInfo :: "'x \<Rightarrow> (go_error + ton_block) \<times> 'x"
  GetAccount_IsActive :: "ton_block \<Rightarrow> ton_address \<Rightarrow> 'x \<Rightarrow> (go_error + bool) \<times> 'x"
  RunGetMethod :: "ton_block \<Rightarrow> ton_address \<Rightarrow> string \<Rightarrow> get_arg list \<Rightarrow> 'x
     \<Rightarrow> (go_error + get_result) \<times> 'x"
  SendManyWaitTxHash :: "'k \<Rightarrow> ton_message list \<Rightarrow> 'x \<Rightarrow> (go_error + bytes) \<times> 'x"

record TonChain =
  ton_Id :: string
  ton_BridgeContractAddress :: ton_address
  ton_Workers :: int
  ton_OperatorsPrivateKeys :: "bytes list"

record ('k, 'x) TonClient =
  tc_lib :: "'k ton_lib"
  tc_api :: "('k, 'x) ton_api"
  tc_chain :: TonChain

text \<open>A chain of \<open>Must\<close> calls on \<open>BeginCell()\<close>.\<close>

definition must_cell :: "'k ton_lib \<Rightarrow> cell_op list \<Rightarrow> cell go_result" where
  "must_cell L ops = (if builder_accepts L ops then Returned (Cell ops)
     else Panic ''cell builder overflow'')"

subsection \<open>Constants (\<open>types.go\<close>, \<open>signer.go\<close>)\<close>

definition opCodeBitSize :: nat where "opCodeBitSize = 32"
definition networkCellSizeBytes :: int where "networkCellSizeBytes = 32"
definition networkCellSizeBit :: nat where "networkCellSizeBit = 256"
definition signatureBitSize :: nat where "signatureBitSize = 520"
definition amountBitSize :: nat where "amountBitSize = 257"
definition hashBitSize :: nat where "hashBitSize = 257"
definition nonceBitSize :: nat where "nonceBitSize = 257"
definition withdrawNativeCode :: nat where "withdrawNativeCode = 1289667639"
definition withdrawJettonCode :: nat where "withdrawJettonCode = 39151229"
definition forwardTonAmount :: int where "forwardTonAmount = 500000000"
definition totalTonAmount :: int where "totalTonAmount = 1000000000"
definition trueBit :: int where "trueBit = -1"
definition updateSignerKeyBySignatureOpCode :: nat where "updateSignerKeyBySignatureOpCode = 0x12312324"
definition signerRecoveryH :: nat where "signerRecoveryH = 4"
definition updateSignersGas :: nat where "updateSignersGas = 200000000"

subsection \<open>The chain (\<open>chain.go\<close>)\<close>

record 'v ton_figure =
  tfig_Address :: "'v \<Rightarrow> go_error + ton_address"
  tfig_RPC :: "'v \<Rightarrow> go_error + unit"
  tfig_hexutil_Decode :: "string \<Rightarrow> go_error + bytes"
  tfig_int :: "int \<Rightarrow> go_error + int"

definition privateKeyHook :: "'v ton_figure \<Rightarrow> string list \<Rightarrow> go_error + bytes list" where
  "privateKeyHook F value = parse_keys (tfig_hexutil_Decode F) ''failed to decode private key'' value"

definition ton_FromChain :: "'v ton_figure \<Rightarrow> 'v ChainConfig \<Rightarrow> TonChain go_result" where
  "ton_FromChain F c =
   (if ch_Type c \<noteq> Type_string TypeTON then Panic ''chain is not TON''
    else case tfig_Address F (ch_BridgeAddresses c) of
      Inl _ \<Rightarrow> Panic ''failed to obtain bridge addresses''
    | Inr addr \<Rightarrow>
   (case tfig_RPC F (ch_Rpc c) of Inl _ \<Rightarrow> Panic ''failed to obtain TON rpc''
    | Inr _ \<Rightarrow>
   (case privateKeyHook F (ch_OperatorsPrivateKeys c) of
      Inl _ \<Rightarrow> Panic ''failed to obtain operator private key''
    | Inr keys \<Rightarrow>
   (case tfig_int F (ch_Workers c) of Inl _ \<Rightarrow> Panic ''failed to obtain workers number''
    | Inr workers \<Rightarrow>
      if workers > int (length keys)
      then Panic ''number of workers is greater than number of operators private keys''
      else Returned \<lparr>ton_Id = ch_Id c, ton_BridgeContractAddress = addr, ton_Workers = workers,
             ton_OperatorsPrivateKeys = keys\<rparr>))))"

subsection \<open>Cells of the parts (\<open>utils.go\<close>)\<close>

definition fillBytesToSize :: "string \<Rightarrow> int \<Rightarrow> byte \<Rightarrow> go_error + bytes" where
  "fillBytesToSize str size0 fill =
     (let size = (if size0 = 0 then 32 else size0);
          raw = bytes_of_string str in
      if int (length raw) > size
      then Inl (Msg (CHR 0x22 # str @ [CHR 0x22] @ '' is longer than '' @ itoa size @ '' bytes''))
      else Inr (raw @ replicate (nat size - length raw) fill))"

definition store_cell :: "'k ton_lib \<Rightarrow> cell_op \<Rightarrow> string \<Rightarrow> go_error + cell" where
  "store_cell L op msg = (case store_error L op of
     Some err \<Rightarrow> Inl (Wrap msg err) | None \<Rightarrow> Inr (Cell [op]))"

definition getNetworkCell :: "'k ton_lib \<Rightarrow> string \<Rightarrow> go_error + cell" where
  "getNetworkCell L network =
     wrap_then (fillBytesToSize network networkCellSizeBytes 0) ''failed to fill bytes''
       (\<lambda>networkBytes. store_cell L (StoreSlice networkBytes networkCellSizeBit) ''failed to store bytes'')"

definition getSignatureCell :: "'k ton_lib \<Rightarrow> string \<Rightarrow> go_error + cell" where
  "getSignatureCell L signature =
     wrap_then (tl_hexutil_Decode L signature) ''error decoding signature''
       (\<lambda>signatureBytes. store_cell L (StoreSlice signatureBytes signatureBitSize)
          ''failed to store signature bytes to cell'')"

definition getAddressCell :: "'k ton_lib \<Rightarrow> string \<Rightarrow> go_error + cell" where
  "getAddressCell L addr =
     wrap_then (ParseAddr L addr) ''failed to parse address''
       (\<lambda>address. store_cell L (StoreAddr (Some address)) ''failed to store address'')"

definition ton_txHashToBytes32 :: "'k ton_lib \<Rightarrow> string \<Rightarrow> bytes" where
  "ton_txHashToBytes32 L txHash = (case tl_hexutil_Decode L txHash of
     Inl err \<Rightarrow> tl_Keccak256 L (bytes_of_string txHash)
   | Inr hashBytes \<Rightarrow>
       if length hashBytes \<noteq> 32 then tl_Keccak256 L (bytes_of_string txHash) else hashBytes)"

subsection \<open>Native withdrawals (\<open>native.go\<close>, \<open>withdrawal.go\<close>)\<close>

definition hash_int :: "'k ton_lib \<Rightarrow> Deposit \<Rightarrow> int" where
  "hash_int L d = int (big_SetBytes (ton_txHashToBytes32 L (TxHash (d_Id d))))"

definition buildWithdrawNativeCell ::
  "('k, 'x) TonClient \<Rightarrow> Deposit \<Rightarrow> (go_error + cell option) go_result" where
  "buildWithdrawNativeCell C d = (let L = tc_lib C in
     case getNetworkCell L (d_WithdrawalChainId d) of
       Inl err \<Rightarrow> Returned (Inl (Wrap ''error getting network cell'' err))
     | Inr networkCell \<Rightarrow>
     (case getSignatureCell L (d_Signature d) of
       Inl err \<Rightarrow> Returned (Inl (Wrap ''error getting signature cell'' err))
     | Inr signatureCell \<Rightarrow>
     (case ParseAddr L (d_Receiver d) of
       Inl err \<Rightarrow> Returned (Inl (Wrap ''error parsing receiver address'' err))
     | Inr receiverAddress \<Rightarrow>
     (case big_SetString (d_WithdrawalAmount d) of
       None \<Rightarrow> Returned (Inl (Msg ''error parsing withdrawal amount''))
     | Some amount \<Rightarrow>
     (case must_cell L [StoreBigInt (sint (TxNonce (d_Id d))) nonceBitSize, StoreRef signatureCell,
                        StoreRef networkCell] of
       Panic m \<Rightarrow> Panic m
     | Returned cell1 \<Rightarrow>
     (case must_cell L [StoreUInt withdrawNativeCode opCodeBitSize, StoreBigInt amount amountBitSize,
                        StoreAddr (Some receiverAddress), StoreBigInt (hash_int L d) hashBitSize,
                        StoreRef cell1] of
       Panic m \<Rightarrow> Panic m
     | Returned body \<Rightarrow> Returned (Inr (Some body))))))))"

text \<open>\<open>withdraw\<close> sends 1.5 TON with the given body, which may be nil.\<close>

definition ton_withdraw ::
  "('k, 'x) TonClient \<Rightarrow> cell option \<Rightarrow> 'k \<Rightarrow> 'x \<Rightarrow> (string \<times> go_error option) \<times> 'x" where
  "ton_withdraw C body signer x =
     (case SendManyWaitTxHash (tc_api C) signer
             [\<lparr>tmsg_Mode = 1, tmsg_IHRDisabled = True, tmsg_Bounce = False,
               tmsg_DstAddr = ton_BridgeContractAddress (tc_chain C), tmsg_Amount = 1500000000,
               tmsg_Body = body\<rparr>] x of
        (Inl err, x1) \<Rightarrow> (([], Some (Wrap ''error sending withdrawal transaction'' err)), x1)
      | (Inr h, x1) \<Rightarrow> ((hex_EncodeToString h, None), x1))"

type_synonym 'x ton_withdrawn = "(string \<times> int64 \<times> go_error option) go_result \<times> 'x"

definition ton_withdrawNative ::
  "('k, 'x) TonClient \<Rightarrow> Deposit \<Rightarrow> 'k \<Rightarrow> 'x \<Rightarrow> 'x ton_withdrawn" where
  "ton_withdrawNative C d signer x = (case buildWithdrawNativeCell C d of
     Panic m \<Rightarrow> (Panic m, x)
   | Returned (Inl err) \<Rightarrow>
       (Returned ([], 0, Some (Wrap ''failed to build withdraw native cell'' err)), x)
   | Returned (Inr body) \<Rightarrow>
   (case GetMasterchainInfo (tc_api C) x of
      (Inl err, x1) \<Rightarrow> (Returned ([], 0, Some (Wrap ''failed to get master chain info'' err)), x1)
    | (Inr b, x1) \<Rightarrow>
   (case ton_withdraw C body signer x1 of
      ((hash, err), x2) \<Rightarrow>
        (Returned (hash, ucast (tb_SeqNo b), errors_Wrap err ''failed to withdraw native''), x2))))"

text \<open>The store address of a deposit: the hash the contract computes, then its address.\<close>

fun be_bytes :: "nat \<Rightarrow> bytes" where
  "be_bytes n = (if n = 0 then [] else be_bytes (n div 256) @ [word_of_nat (n mod 256)])"

declare be_bytes.simps [simp del]

definition big_Bytes :: "int \<Rightarrow> bytes" where
  "big_Bytes i = be_bytes (nat \<bar>i\<bar>)"

definition get_hash ::
  "('k, 'x) TonClient \<Rightarrow> ton_block \<Rightarrow> string \<Rightarrow> get_arg list \<Rightarrow> string \<Rightarrow> string \<Rightarrow> 'x
     \<Rightarrow> (go_error + bytes) \<times> 'x" where
  "get_hash C master m args run_msg int_msg x =
     (case RunGetMethod (tc_api C) master (ton_BridgeContractAddress (tc_chain C)) m args x of
        (Inl err, x1) \<Rightarrow> (Inl (Wrap run_msg err), x1)
      | (Inr res, x1) \<Rightarrow> (case gr_Int res of
          Inl err \<Rightarrow> (Inl (Wrap int_msg err), x1)
        | Inr resBig \<Rightarrow> (Inr (big_Bytes resBig), x1)))"

definition getWithdrawalNativeHash ::
  "('k, 'x) TonClient \<Rightarrow> Deposit \<Rightarrow> 'x \<Rightarrow> (go_error + bytes) \<times> 'x" where
  "getWithdrawalNativeHash C d x = (let L = tc_lib C in
     case GetMasterchainInfo (tc_api C) x of
       (Inl err, x1) \<Rightarrow> (Inl (Wrap ''failed to get the master chain info'' err), x1)
     | (Inr master, x1) \<Rightarrow>
     (case getNetworkCell L (d_WithdrawalChainId d) of
       Inl err \<Rightarrow> (Inl (Wrap ''failed to get the network cell'' err), x1)
     | Inr networkCell \<Rightarrow>
     (case getAddressCell L (d_Receiver d) of
       Inl err \<Rightarrow> (Inl (Wrap ''failed to get receiver address cell'' err), x1)
     | Inr receiverCell \<Rightarrow>
     (case big_SetString (d_WithdrawalAmount d) of
       None \<Rightarrow> (Inl (Msg ''failed to parse withdrawal amount''), x1)
     | Some withdrawalAmount \<Rightarrow>
         get_hash C master ''nativeHash''
           [ArgInt withdrawalAmount, ArgSlice receiverCell, ArgInt (hash_int L d),
            ArgInt (uint (TxNonce (d_Id d))), ArgSlice networkCell]
           ''failed to get the native hash'' ''failed to get the withdrawal native hash'' x1))))"

subsection \<open>Jetton withdrawals (\<open>jetton.go\<close>)\<close>

definition deriveJettonAddress ::
  "('k, 'x) TonClient \<Rightarrow> ton_address \<Rightarrow> ton_address \<Rightarrow> 'x \<Rightarrow> (go_error + ton_address) \<times> 'x" where
  "deriveJettonAddress C ownerAddress jettonAddress x = (let L = tc_lib C in
     case CurrentMasterchainInfo (tc_api C) x of
       (Inl err, x1) \<Rightarrow> (Inl (Wrap ''error getting current masterchain info'' err), x1)
     | (Inr block, x1) \<Rightarrow>
     (case store_cell L (StoreAddr (Some ownerAddress)) ''error storing owner address'' of
       Inl err \<Rightarrow> (Inl err, x1)
     | Inr queryCell \<Rightarrow>
     (case RunGetMethod (tc_api C) block jettonAddress ''get_wallet_address'' [ArgSlice queryCell] x1 of
       (Inl err, x2) \<Rightarrow> (Inl (Wrap ''error getting jetton address'' err), x2)
     | (Inr res, x2) \<Rightarrow>
     (case gr_Slice res of
       Inl err \<Rightarrow> (Inl (Wrap ''error getting result slice'' err), x2)
     | Inr resSlice \<Rightarrow>
     (case LoadAddr L resSlice of
       Inl err \<Rightarrow> (Inl (Wrap ''error loading jetton address'' err), x2)
     | Inr val \<Rightarrow> (Inr val, x2))))))"

text \<open>
  The error of \<open>deriveJettonAddress\<close> is overwritten unread, so a failure stores a nil address;
  an amount that does not parse wraps the then nil error and returns a nil cell and no error.
\<close>

definition buildWithdrawJettonCell ::
  "('k, 'x) TonClient \<Rightarrow> Deposit \<Rightarrow> 'x \<Rightarrow> (cell option, 'x) go_call" where
  "buildWithdrawJettonCell C d x = (let L = tc_lib C in
     case getSignatureCell L (d_Signature d) of
       Inl err \<Rightarrow> (Returned (Inl (Wrap ''error getting signature'' err)), x)
     | Inr signCell \<Rightarrow>
     (case getNetworkCell L (d_WithdrawalChainId d) of
       Inl err \<Rightarrow> (Returned (Inl (Wrap ''error converting network'' err)), x)
     | Inr networkCell \<Rightarrow>
     (case ParseAddr L (d_WithdrawalToken d) of
       Inl err \<Rightarrow> (Returned (Inl (Wrap ''error parsing jetton address'' err)), x)
     | Inr jettonAddress \<Rightarrow>
     (case deriveJettonAddress C (ton_BridgeContractAddress (tc_chain C)) jettonAddress x of
       (derived, x1) \<Rightarrow>
     (let bridgeJettonAddress = (case derived of Inl _ \<Rightarrow> None | Inr a \<Rightarrow> Some a) in
     case ParseAddr L (d_Receiver d) of
       Inl err \<Rightarrow> (Returned (Inl (Wrap ''error parsing receiver address'' err)), x1)
     | Inr receiverAddress \<Rightarrow>
     (case big_SetString (d_WithdrawalAmount d) of
       None \<Rightarrow> (Returned (Inr None), x1)
     | Some amount \<Rightarrow>
     (case must_cell L [StoreBigInt forwardTonAmount amountBitSize,
                        StoreBigInt totalTonAmount amountBitSize] of
       Panic m \<Rightarrow> (Panic m, x1)
     | Returned cell2 \<Rightarrow>
     (case must_cell L [StoreBigInt (sint (TxNonce (d_Id d))) nonceBitSize, StoreRef networkCell,
             StoreBoolBit (d_IsWrappedToken d), StoreRef signCell, StoreAddr (Some jettonAddress),
             StoreAddr bridgeJettonAddress, StoreRef cell2] of
       Panic m \<Rightarrow> (Panic m, x1)
     | Returned cell1 \<Rightarrow>
     (case must_cell L [StoreUInt withdrawJettonCode opCodeBitSize, StoreAddr (Some receiverAddress),
             StoreBigInt amount amountBitSize, StoreBigInt (hash_int L d) amountBitSize,
             StoreRef cell1] of
       Panic m \<Rightarrow> (Panic m, x1)
     | Returned finalBody \<Rightarrow> (Returned (Inr (Some finalBody)), x1))))))))))"

definition ton_withdrawToken ::
  "('k, 'x) TonClient \<Rightarrow> Deposit \<Rightarrow> 'k \<Rightarrow> 'x \<Rightarrow> 'x ton_withdrawn" where
  "ton_withdrawToken C d signer x = (case buildWithdrawJettonCell C d x of
     (Panic m, x1) \<Rightarrow> (Panic m, x1)
   | (Returned (Inl err), x1) \<Rightarrow>
       (Returned ([], 0, Some (Wrap ''error building withdraw jetton cell'' err)), x1)
   | (Returned (Inr body), x1) \<Rightarrow>
   (case GetMasterchainInfo (tc_api C) x1 of
      (Inl err, x2) \<Rightarrow> (Returned ([], 0, Some (Wrap ''error getting master chain info'' err)), x2)
    | (Inr b, x2) \<Rightarrow>
   (case ton_withdraw C body signer x2 of
      ((txHash, err), x3) \<Rightarrow>
        (Returned (txHash, ucast (tb_SeqNo b), errors_Wrap err ''failed to withdraw jetton''), x3))))"

definition getWithdrawalJettonHash ::
  "('k, 'x) TonClient \<Rightarrow> Deposit \<Rightarrow> 'x \<Rightarrow> (go_error + bytes) \<times> 'x" where
  "getWithdrawalJettonHash C d x = (let L = tc_lib C in
     case GetMasterchainInfo (tc_api C) x of
       (Inl err, x1) \<Rightarrow> (Inl (Wrap ''failed to get the master chain info'' err), x1)
     | (Inr master, x1) \<Rightarrow>
     (case getNetworkCell L (d_WithdrawalChainId d) of
       Inl err \<Rightarrow> (Inl (Wrap ''failed to get the network cell'' err), x1)
     | Inr networkCell \<Rightarrow>
     (case getAddressCell L (d_Receiver d) of
       Inl err \<Rightarrow> (Inl (Wrap ''failed to get receiver cell'' err), x1)
     | Inr receiverCell \<Rightarrow>
     (let wrappedBit = (if d_IsWrappedToken d then trueBit else 0) in
     case getAddressCell L (d_WithdrawalToken d) of
       Inl err \<Rightarrow> (Inl (Wrap ''failed to get withdrawal token address cell'' err), x1)
     | Inr withdrawalTokenCell \<Rightarrow>
     (case big_SetString (d_WithdrawalAmount d) of
       None \<Rightarrow> (Inl (Msg ''failed to parse withdrawal amount''), x1)
     | Some withdrawalAmount \<Rightarrow>
         get_hash C master ''jettonHash''
           [ArgInt withdrawalAmount, ArgSlice receiverCell, ArgInt (hash_int L d),
            ArgInt (uint (TxNonce (d_Id d))), ArgSlice networkCell, ArgInt wrappedBit,
            ArgSlice withdrawalTokenCell]
           ''failed to get the jetton hash'' ''failed to get the jetton hash'' x1)))))"

subsection \<open>The client (\<open>client.go\<close>, \<open>withdrawal.go\<close>, \<open>signer.go\<close>, \<open>child_client.go\<close>)\<close>

definition getStoreAddress ::
  "('k, 'x) TonClient \<Rightarrow> Deposit \<Rightarrow> 'x \<Rightarrow> (go_error + ton_address) \<times> 'x" where
  "getStoreAddress C d x =
     (case (if d_WithdrawalToken d = DefaultNativeTokenAddress
            then apfst (map_sum (Wrap ''failed to get withdrawal native hash'') id) (getWithdrawalNativeHash C d x)
            else apfst (map_sum (Wrap ''failed to get withdrawal jetton hash'') id) (getWithdrawalJettonHash C d x)) of
        (Inl err, x1) \<Rightarrow> (Inl err, x1)
      | (Inr withdrawalHash, x1) \<Rightarrow>
     (case CurrentMasterchainInfo (tc_api C) x1 of
        (Inl err, x2) \<Rightarrow> (Inl (Wrap ''failed to get current master chain info'' err), x2)
      | (Inr b, x2) \<Rightarrow>
     (case RunGetMethod (tc_api C) b (ton_BridgeContractAddress (tc_chain C)) ''storeAddress''
             [ArgInt (int (big_SetBytes withdrawalHash))] x2 of
        (Inl err, x3) \<Rightarrow> (Inl (Wrap ''failed to call contract to get store address'' err), x3)
      | (Inr res, x3) \<Rightarrow>
     (case gr_Slice res of
        Inl err \<Rightarrow> (Inl (Wrap ''error getting result slice'' err), x3)
      | Inr resSlice \<Rightarrow>
     (case LoadAddr (tc_lib C) resSlice of
        Inl err \<Rightarrow> (Inl (Wrap ''error loading store address'' err), x3)
      | Inr val \<Rightarrow> (Inr val, x3))))))"

definition TonClient_IsProcessed ::
  "('k, 'x) TonClient \<Rightarrow> Deposit \<Rightarrow> 'x \<Rightarrow> (bool \<times> go_error option) \<times> 'x" where
  "TonClient_IsProcessed C d x = (case getStoreAddress C d x of
     (Inl err, x1) \<Rightarrow> ((False, Some (Wrap ''error getting store address'' err)), x1)
   | (Inr address, x1) \<Rightarrow>
   (case CurrentMasterchainInfo (tc_api C) x1 of
      (Inl err, x2) \<Rightarrow> ((False, Some (Wrap ''error getting current master chain info'' err)), x2)
    | (Inr block, x2) \<Rightarrow>
   (case GetAccount_IsActive (tc_api C) block address x2 of
      (Inl err, x3) \<Rightarrow> ((False, Some (Wrap ''error getting account info'' err)), x3)
    | (Inr active, x3) \<Rightarrow> ((active, None), x3))))"

definition TonClient_Withdraw ::
  "('k, 'x) TonClient \<Rightarrow> Deposit \<Rightarrow> 'k \<Rightarrow> 'x
     \<Rightarrow> (string \<times> string \<times> int64 \<times> go_error option) go_result \<times> 'x" where
  "TonClient_Withdraw C d signer x =
     (let addr = WalletAddress (tc_lib C) signer in
      if d_WithdrawalToken d = DefaultNativeTokenAddress
      then (case ton_withdrawNative C d signer x of
              (Panic m, x1) \<Rightarrow> (Panic m, x1)
            | (Returned (h, b, err), x1) \<Rightarrow>
                (Returned (addr, h, b, errors_Wrap err ''failed to withdraw native token''), x1))
      else (case ton_withdrawToken C d signer x of
              (Panic m, x1) \<Rightarrow> (Panic m, x1)
            | (Returned (h, b, err), x1) \<Rightarrow>
                (Returned (addr, h, b, errors_Wrap err ''failed to withdraw token''), x1)))"

definition buildUpdateSignerCell ::
  "('k, 'x) TonClient \<Rightarrow> Epoch \<Rightarrow> (go_error + cell) go_result" where
  "buildUpdateSignerCell C e = (let L = tc_lib C in
     case HexToCoordinates (e_Signer e) of
       Inl err \<Rightarrow> Returned (Inl (Wrap ''failed to get pubkey'' err))
     | Inr (x, y) \<Rightarrow>
     (case hex_DecodeString (strings_TrimPrefix (e_Signature e) ''0x'') of
       Inl err \<Rightarrow> Returned (Inl (Wrap ''failed to decode signature'' err))
     | Inr signatureBytes \<Rightarrow>
     (case must_cell L [StoreSlice signatureBytes (length signatureBytes * 8)] of
       Panic m \<Rightarrow> Panic m
     | Returned signatureCell \<Rightarrow>
     (case ParseUint (e_Nonce e) 64 of
       Inl err \<Rightarrow> Returned (Inl (Wrap ''failed to parse nonce'' err))
     | Inr nonce \<Rightarrow>
     (case must_cell L [StoreUInt updateSignerKeyBySignatureOpCode 32, StoreUInt signerRecoveryH 8,
             StoreUInt x 256, StoreUInt y 256, StoreInt (sint (e_StartTime e)) 64,
             StoreInt (sint (e_EndTime e)) 64, StoreUInt nonce 64,
             StoreBoolBit (e_SignatureMode e), StoreRef signatureCell] of
       Panic m \<Rightarrow> Panic m
     | Returned body \<Rightarrow> Returned (Inr body))))))"

definition TonClient_UpdateSigners ::
  "('k, 'x) TonClient \<Rightarrow> Epoch \<Rightarrow> 'k \<Rightarrow> 'x \<Rightarrow> (string \<times> int64, 'x) go_call" where
  "TonClient_UpdateSigners C e signer x =
     call_then (buildUpdateSignerCell C e, x) ''failed to build update signer cell''
       (\<lambda>updateSignerCell x1.
     rpc_then (CurrentMasterchainInfo (tc_api C) x1) ''failed to get current master chain info''
       (\<lambda>block x2.
     rpc_then (SendManyWaitTxHash (tc_api C) signer
         [\<lparr>tmsg_Mode = 1, tmsg_IHRDisabled = True, tmsg_Bounce = True,
           tmsg_DstAddr = ton_BridgeContractAddress (tc_chain C), tmsg_Amount = updateSignersGas,
           tmsg_Body = Some updateSignerCell\<rparr>] x2)
       ''failed to send update signers transaction''
       (\<lambda>txHashBytes x3.
     (Returned (Inr (hex_EncodeToString txHashBytes, ucast (tb_SeqNo block))), x3))))"

text \<open>\<open>ConfigureChildClients\<close> makes a wallet from each key; the index is computed first.\<close>

fun ton_add_signers ::
  "nat \<Rightarrow> nat \<Rightarrow> (bytes \<Rightarrow> go_error + 'k) \<Rightarrow> bytes list \<Rightarrow> 'k list list \<Rightarrow> 'k list list go_result" where
  "ton_add_signers workers i from_key [] childs = Returned childs"
| "ton_add_signers workers i from_key (key # keys) childs =
     (if workers = 0 then Panic ''integer divide by zero''
      else let idx = i mod workers in
        (case from_key key of
           Inl err \<Rightarrow> Panic ''failed to create wallet''
         | Inr w \<Rightarrow> ton_add_signers workers (Suc i) from_key keys (childs[idx := childs ! idx @ [w]])))"

definition ton_ConfigureChildClients ::
  "(bytes \<Rightarrow> go_error + 'k) \<Rightarrow> ('k, 'x) TonClient \<Rightarrow> 'k list list go_result" where
  "ton_ConfigureChildClients from_key C =
     (let workers = ton_Workers (tc_chain C) in
      if workers < 0 then Panic ''makeslice: len out of range''
      else ton_add_signers (nat workers) 0 from_key (ton_OperatorsPrivateKeys (tc_chain C))
             (replicate (nat workers) []))"

text \<open>With wallets for all keys, the children are those of the common code.\<close>

lemma ton_add_signers_wallets:
  assumes "list_all2 (\<lambda>key w. from_key key = Inr w) keys ws"
  shows "ton_add_signers workers i from_key keys childs = add_signers workers i id ws childs"
  using assms by (induction keys ws arbitrary: i childs rule: list_all2_induct) (auto simp: Let_def)

definition ton_child_Withdraw ::
  "(nat \<Rightarrow> 'x \<Rightarrow> nat \<times> 'x) \<Rightarrow> ('k, 'x) TonClient \<Rightarrow> 'k list \<Rightarrow> Deposit \<Rightarrow> 'x
     \<Rightarrow> (string \<times> string \<times> int64 \<times> go_error option) go_result \<times> 'x" where
  "ton_child_Withdraw rand_Intn C signers d x =
     (if signers = [] then (Returned ([], [], 0, Some (Msg ''no signers available'')), x)
      else case pick_signer rand_Intn signers x of
          (Panic m, x1) \<Rightarrow> (Panic m, x1)
        | (Returned signer, x1) \<Rightarrow> TonClient_Withdraw C d signer x1)"

definition ton_child_UpdateSigners ::
  "(nat \<Rightarrow> 'x \<Rightarrow> nat \<times> 'x) \<Rightarrow> ('k, 'x) TonClient \<Rightarrow> 'k list \<Rightarrow> Epoch \<Rightarrow> 'x
     \<Rightarrow> (string \<times> int64 \<times> go_error option) go_result \<times> 'x" where
  "ton_child_UpdateSigners rand_Intn C signers e x =
     (if signers = [] then (Returned ([], 0, Some (Msg ''no signers available'')), x)
      else case pick_signer rand_Intn signers x of
          (Panic m, x1) \<Rightarrow> (Panic m, x1)
        | (Returned signer, x1) \<Rightarrow>
        (case TonClient_UpdateSigners C e signer x1 of
           (Panic m, x2) \<Rightarrow> (Panic m, x2)
         | (Returned (Inl err), x2) \<Rightarrow>
             (Returned ([], 0, Some (Wrap ''failed to call update signers method'' err)), x2)
         | (Returned (Inr (tx, block)), x2) \<Rightarrow> (Returned (tx, block, None), x2)))"

end
