(* ===== verification/Chain_Props.thy ===== *)
theory Chain_Props
  imports Evm_Props Solana Ton "HOL-Library.Multiset"
begin

text \<open>
  How the operators' keys of a chain become the signers of its child clients, for the three
  kinds of chains.
\<close>

subsection \<open>Dealing the signers\<close>

lemma mset_concat_deal:
  "i < length xs \<Longrightarrow> mset (concat (xs[i := xs ! i @ [y]])) = add_mset y (mset (concat xs))"
proof (induction xs arbitrary: i)
  case (Cons x xs)
  then show ?case by (cases i) simp_all
qed simp

lemma add_signers_mset:
  assumes "add_signers workers i sgn_of keys childs = Returned cs" and "length childs = workers"
  shows "mset (concat cs) = mset (concat childs) + mset (map sgn_of keys)"
  using assms
proof (induction workers i sgn_of keys childs rule: add_signers.induct)
  case (2 workers i sgn_of key keys childs)
  then show ?case by (auto simp: Let_def mset_concat_deal split: if_splits)
qed simp

text \<open>Every child has a signer, and every signer is with exactly one child.\<close>

definition dealt :: "'s list \<Rightarrow> 's list list \<Rightarrow> bool" where
  "dealt signers childs \<longleftrightarrow> [] \<notin> set childs \<and> mset (concat childs) = mset signers"

lemma configure_childs_dealt:
  assumes "configure_childs workers sgn_of keys = Returned cs" and "workers \<le> length keys"
  shows "dealt (map sgn_of keys) cs \<and> length cs = workers"
proof -
  note spec = configure_childs_spec [OF assms(1)]
  have "cs ! j \<noteq> []" if "j < workers" for j
  proof -
    have "j \<in> set (filter (\<lambda>n. n mod workers = j) [0..<length keys])" using that assms(2) by simp
    then show ?thesis using spec(2) [OF that] by (auto simp: filter_empty_conv)
  qed
  then have "[] \<notin> set cs" using spec(1) by (metis in_set_conv_nth)
  moreover have "concat (replicate workers ([] :: 'b list)) = []" by (induction workers) simp_all
  then have "mset (concat cs) = mset (map sgn_of keys)"
    using add_signers_mset [OF assms(1) [unfolded configure_childs_def]] by simp
  ultimately show ?thesis using spec(1) by (simp add: dealt_def)
qed

lemma ConfigureChildClients_dealt:
  assumes "ConfigureChildClients workers sgn_of keys = Returned cs" and "workers \<le> int (length keys)"
  shows "dealt (map sgn_of keys) cs \<and> int (length cs) = workers"
proof -
  from assms(1) have c: "configure_childs (nat workers) sgn_of keys = Returned cs" "0 \<le> workers"
    by (auto simp: ConfigureChildClients_def split: if_splits)
  with configure_childs_dealt [OF c(1)] assms(2) show ?thesis by auto
qed

lemma ConfigureChildClients_returned:
  "(\<exists>cs. ConfigureChildClients workers sgn_of keys = Returned cs) \<longleftrightarrow> 0 < workers \<or> workers = 0 \<and> keys = []"
  using configure_childs_returned [of "nat workers" sgn_of keys] by (auto simp: ConfigureChildClients_def)

lemma ton_add_signers_from:
  assumes "ton_add_signers workers i from_key keys childs = Returned cs"
  shows "\<exists>ws. list_all2 (\<lambda>key w. from_key key = Inr w) keys ws"
  using assms
proof (induction workers i from_key keys childs rule: ton_add_signers.induct)
  case (2 workers i from_key key keys childs)
  then show ?case by (auto simp: Let_def list_all2_Cons1 split: if_splits sum.splits)
qed (auto intro: exI [of _ "[]"])

subsection \<open>What the configurations accept\<close>

lemma FromChain_workers:
  "FromChain F c = Returned chain \<Longrightarrow> evm_Workers chain \<le> int (length (evm_OperatorsPrivKeys chain))"
  by (auto simp: FromChain_def split: if_splits sum.splits)

lemma sol_FromChain_workers:
  "sol_FromChain F c = Returned chain \<Longrightarrow> sol_Workers chain \<le> int (length (sol_OperatorsWallets chain))"
  by (auto simp: sol_FromChain_def split: if_splits sum.splits prod.splits option.splits)

lemma ton_FromChain_workers:
  "ton_FromChain F c = Returned chain \<Longrightarrow> ton_Workers chain \<le> int (length (ton_OperatorsPrivateKeys chain))"
  by (auto simp: ton_FromChain_def split: if_splits sum.splits)

lemma ton_Configure_dealt:
  assumes "ton_FromChain F c = Returned (tc_chain C)" and "ton_ConfigureChildClients from_key C = Returned cs"
  shows "\<exists>ws. list_all2 (\<lambda>key w. from_key key = Inr w) (ton_OperatorsPrivateKeys (tc_chain C)) ws
    \<and> dealt ws cs \<and> int (length cs) = ton_Workers (tc_chain C)"
proof -
  let ?keys = "ton_OperatorsPrivateKeys (tc_chain C)" and ?n = "ton_Workers (tc_chain C)"
  from assms(2) have n: "0 \<le> ?n"
    and a: "ton_add_signers (nat ?n) 0 from_key ?keys (replicate (nat ?n) []) = Returned cs"
    by (auto simp: ton_ConfigureChildClients_def Let_def split: if_splits)
  from ton_add_signers_from [OF a] obtain ws where ws: "list_all2 (\<lambda>key w. from_key key = Inr w) ?keys ws" ..
  have "configure_childs (nat ?n) id ws = Returned cs"
    using a ton_add_signers_wallets [OF ws] by (simp add: configure_childs_def)
  moreover have "nat ?n \<le> length ws"
    using ton_FromChain_workers [OF assms(1)] list_all2_lengthD [OF ws] by simp
  ultimately have "dealt (map id ws) cs \<and> length cs = nat ?n" by (rule configure_childs_dealt)
  with ws n show ?thesis by auto
qed

text \<open>
  A chain whose configuration is accepted deals its operators' keys completely and leaves no
  child without a signer: as many children as workers, at least one signer each, every key with
  exactly one of them. So the \<open>no signers available\<close> errors of the children never occur. It holds
  for the three kinds of chains. Configuring panics only for a negative number of workers, or for
  no workers when there are keys.
\<close>

theorem children_have_signers:
  "(FromChain F c = Returned (ec_chain C) \<longrightarrow> evm_ConfigureChildClients C = Returned childs \<longrightarrow>
      dealt (map (evm_AddSigner (ec_lib C)) (evm_OperatorsPrivKeys (ec_chain C))) childs
      \<and> int (length childs) = evm_Workers (ec_chain C))
   \<and> (sol_FromChain F' c = Returned (so_chain S) \<longrightarrow> sol_ConfigureChildClients S = Returned wallets \<longrightarrow>
      dealt (sol_OperatorsWallets (so_chain S)) wallets \<and> int (length wallets) = sol_Workers (so_chain S))
   \<and> (ton_FromChain F'' c = Returned (tc_chain T) \<longrightarrow> ton_ConfigureChildClients from_key T = Returned ws \<longrightarrow>
      (\<exists>all. list_all2 (\<lambda>key w. from_key key = Inr w) (ton_OperatorsPrivateKeys (tc_chain T)) all
        \<and> dealt all ws \<and> int (length ws) = ton_Workers (tc_chain T)))
   \<and> ((\<exists>cs. evm_ConfigureChildClients C = Returned cs) \<longleftrightarrow> 0 < evm_Workers (ec_chain C)
        \<or> evm_Workers (ec_chain C) = 0 \<and> evm_OperatorsPrivKeys (ec_chain C) = [])"
proof (intro conjI impI)
  assume a: "FromChain F c = Returned (ec_chain C)" "evm_ConfigureChildClients C = Returned childs"
  from ConfigureChildClients_dealt [OF a(2) [unfolded evm_ConfigureChildClients_def] FromChain_workers [OF a(1)]]
  show "dealt (map (evm_AddSigner (ec_lib C)) (evm_OperatorsPrivKeys (ec_chain C))) childs"
    and "int (length childs) = evm_Workers (ec_chain C)" by simp_all
next
  assume a: "sol_FromChain F' c = Returned (so_chain S)" "sol_ConfigureChildClients S = Returned wallets"
  from ConfigureChildClients_dealt [OF a(2) [unfolded sol_ConfigureChildClients_def] sol_FromChain_workers [OF a(1)]]
  show "dealt (sol_OperatorsWallets (so_chain S)) wallets"
    and "int (length wallets) = sol_Workers (so_chain S)" by simp_all
next
  assume "ton_FromChain F'' c = Returned (tc_chain T)" "ton_ConfigureChildClients from_key T = Returned ws"
  then show "\<exists>all. list_all2 (\<lambda>key w. from_key key = Inr w) (ton_OperatorsPrivateKeys (tc_chain T)) all
      \<and> dealt all ws \<and> int (length ws) = ton_Workers (tc_chain T)" by (rule ton_Configure_dealt)
next
  show "(\<exists>cs. evm_ConfigureChildClients C = Returned cs) \<longleftrightarrow> 0 < evm_Workers (ec_chain C)
      \<or> evm_Workers (ec_chain C) = 0 \<and> evm_OperatorsPrivKeys (ec_chain C) = []"
    unfolding evm_ConfigureChildClients_def by (rule ConfigureChildClients_returned)
qed

text \<open>A configuration with three keys for two workers.\<close>

definition demo_figure :: "(nat, nat) evm_figure" where
  "demo_figure = \<lparr>fig_EthClient = (\<lambda>v. Inr ()), fig_Address = (\<lambda>v. Inr (replicate 20 1)),
     fig_int64 = (\<lambda>n. Inr n), fig_int = (\<lambda>n. Inr n), HexToECDSA = (\<lambda>s. Inr (length s))\<rparr>"

definition demo_config :: "nat ChainConfig" where
  "demo_config = \<lparr>ch_Id = ''1'', ch_Type = ''EVM'', ch_Rpc = 0, ch_BridgeAddresses = 0,
     ch_OperatorsPrivateKeys = [''a'', ''bb'', ''ccc''], ch_WSTimeout = 10, ch_WSRpc = 0, ch_Workers = 2,
     ch_GasPriceMultiplier = 120, ch_Meta = 0\<rparr>"

definition demo_dealt :: "(nat, nat) EvmClient" where
  "demo_dealt = demo_evm\<lparr>ec_chain := \<lparr>evm_Id = ''1'', evm_BridgeAddress = replicate 20 1,
     evm_OperatorsPrivKeys = [1, 2, 3], evm_Workers = 2, evm_WSTimeout = 10, evm_GasPriceMultiplier = 120\<rparr>\<rparr>"

theorem children_have_signers_witness:
  "dealt (map (evm_AddSigner demo_lib) [1, 2, 3])
     [[evm_AddSigner demo_lib 1, evm_AddSigner demo_lib 3], [evm_AddSigner demo_lib 2]]"
proof -
  have "FromChain demo_figure demo_config = Returned (ec_chain demo_dealt)"
    by (simp add: FromChain_def demo_figure_def demo_config_def demo_dealt_def EVMHooks_def wrap_then_def)
  moreover have "evm_ConfigureChildClients demo_dealt
      = Returned [[evm_AddSigner demo_lib 1, evm_AddSigner demo_lib 3], [evm_AddSigner demo_lib 2]]"
    by (simp add: evm_ConfigureChildClients_def ConfigureChildClients_def configure_childs_def demo_dealt_def
        demo_evm_def Let_def numeral_2_eq_2)
  ultimately show ?thesis
    using children_have_signers [THEN conjunct1, of demo_figure demo_config demo_dealt
      "[[evm_AddSigner demo_lib 1, evm_AddSigner demo_lib 3], [evm_AddSigner demo_lib 2]]"] by (auto simp: demo_dealt_def demo_evm_def)
qed

end
