(* ===== verification/Evm_Events.thy ===== *)
theory Evm_Events
  imports Evm_Bindings
begin

text \<open>
  The events in \<open>internal/core/chain/evm/contracts/bridge.go\<close>: iterators over the logs of a filter,
  subscriptions, and the parsing of a single log. The nine events share their code, given here once
  with the unpacking of a log as its parameter. The logs are in \<open>bc_FilterLogs\<close> and
  \<open>bc_WatchLogs\<close> of the library: the sequence of what a \<open>select\<close> over them sees.
\<close>

subsection \<open>Iterators\<close>

text \<open>The log channel and the subscription are the outcomes still to come.\<close>

record 'e event_iterator =
  it_Event :: "'e option"
  it_event :: string
  it_logs :: "log_select list"
  it_done :: bool
  it_fail :: "go_error option"
  it_unsubscribed :: bool

text \<open>A log is unpacked into a new event, which has its \<open>Raw\<close> log when that succeeds.\<close>

definition deliver ::
  "(eth_log \<Rightarrow> 'e \<times> go_error option) \<Rightarrow> eth_log \<Rightarrow> log_select list \<Rightarrow> 'e event_iterator \<Rightarrow> bool \<times> 'e event_iterator" where
  "deliver unpack log rest it = (case unpack log of (e, err) \<Rightarrow>
     (case err of
        Some _ \<Rightarrow> (False, it\<lparr>it_Event := Some e, it_logs := rest, it_fail := err\<rparr>)
      | None \<Rightarrow> (True, it\<lparr>it_Event := Some e, it_logs := rest\<rparr>)))"

text \<open>
  \<open>Next\<close>. When the subscription is done only a log that is there already is delivered; else the call
  waits for a log or for the end of the subscription, which is followed by a second call. \<open>None\<close> is
  a call that waits for ever.
\<close>

definition next_done ::
  "(eth_log \<Rightarrow> 'e \<times> go_error option) \<Rightarrow> 'e event_iterator \<Rightarrow> bool \<times> 'e event_iterator" where
  "next_done unpack it =
     (if it_fail it \<noteq> None then (False, it)
      else case it_logs it of GotLog log # rest \<Rightarrow> deliver unpack log rest it | _ \<Rightarrow> (False, it))"

definition iterator_Next ::
  "(eth_log \<Rightarrow> 'e \<times> go_error option) \<Rightarrow> 'e event_iterator \<Rightarrow> (bool \<times> 'e event_iterator) option" where
  "iterator_Next unpack it =
     (if it_fail it \<noteq> None then Some (False, it)
      else if it_done it then Some (next_done unpack it)
      else case it_logs it of
        GotLog log # rest \<Rightarrow> Some (deliver unpack log rest it)
      | SubErr err # rest \<Rightarrow> Some (next_done unpack (it\<lparr>it_logs := rest, it_done := True, it_fail := err\<rparr>))
      | _ \<Rightarrow> None)"

definition filter_event ::
  "(go_error + log_select list) \<times> 'x \<Rightarrow> string \<Rightarrow> (go_error + 'e event_iterator) \<times> 'x" where
  "filter_event r name = (case r of
     (Inl err, x) \<Rightarrow> (Inl err, x)
   | (Inr logs, x) \<Rightarrow> (Inr \<lparr>it_Event = None, it_event = name, it_logs = logs, it_done = False,
       it_fail = None, it_unsubscribed = False\<rparr>, x))"

subsection \<open>Subscriptions\<close>

text \<open>
  The goroutine of a subscription: the events its sink took, and how it ended (\<open>None\<close> while it
  waits). It unsubscribes when it ends.
\<close>

record 'e subscription =
  sub_events :: "'e list"
  sub_result :: "go_error option option"
  sub_unsubscribed :: bool

definition sub_end :: "'e list \<Rightarrow> go_error option \<Rightarrow> 'e subscription" where
  "sub_end es err = \<lparr>sub_events = es, sub_result = Some err, sub_unsubscribed = True\<rparr>"

definition sub_waits :: "'e list \<Rightarrow> 'e subscription" where
  "sub_waits es = \<lparr>sub_events = es, sub_result = None, sub_unsubscribed = False\<rparr>"

text \<open>The outer \<open>select\<close> takes a log, the end or the signal to quit; the inner one, with an event in hand,
  waits for the sink. What a \<open>select\<close> cannot take is passed over.\<close>

fun watch_loop ::
  "(eth_log \<Rightarrow> 'e \<times> go_error option) \<Rightarrow> 'e option \<Rightarrow> 'e list \<Rightarrow> log_select list \<Rightarrow> 'e subscription" where
  "watch_loop unpack held es [] = sub_waits es"
| "watch_loop unpack held es (SubErr err # rest) = sub_end es err"
| "watch_loop unpack held es (Quit # rest) = sub_end es None"
| "watch_loop unpack None es (GotLog log # rest) = (case unpack log of
     (e, Some err) \<Rightarrow> sub_end es (Some err)
   | (e, None) \<Rightarrow> watch_loop unpack (Some e) es rest)"
| "watch_loop unpack (Some e) es (GotLog log # rest) = watch_loop unpack (Some e) es rest"
| "watch_loop unpack (Some e) es (Sent # rest) = watch_loop unpack None (es @ [e]) rest"
| "watch_loop unpack None es (Sent # rest) = watch_loop unpack None es rest"

definition watch_event ::
  "(eth_log \<Rightarrow> 'e \<times> go_error option) \<Rightarrow> (go_error + log_select list) \<times> 'x \<Rightarrow> (go_error + 'e subscription) \<times> 'x" where
  "watch_event unpack r = (case r of
     (Inl err, x) \<Rightarrow> (Inl err, x) | (Inr logs, x) \<Rightarrow> (Inr (watch_loop unpack None [] logs), x))"

definition parse_event :: "'e \<times> go_error option \<Rightarrow> go_error + 'e" where
  "parse_event r = (case r of (e, Some err) \<Rightarrow> Inl err | (e, None) \<Rightarrow> Inr e)"

subsection \<open>The events\<close>

text \<open>The fields that \<open>UnpackLog\<close> filled, in the order of the ABI; the others are zero.\<close>

definition out_address :: "abi_value list \<Rightarrow> nat \<Rightarrow> address" where
  "out_address vs i = (case drop i vs of AAddress a # _ \<Rightarrow> a | _ \<Rightarrow> replicate 20 0)"
definition out_uint :: "abi_value list \<Rightarrow> nat \<Rightarrow> int" where
  "out_uint vs i = (case drop i vs of AUint n # _ \<Rightarrow> n | _ \<Rightarrow> 0)"
definition out_string :: "abi_value list \<Rightarrow> nat \<Rightarrow> string" where
  "out_string vs i = (case drop i vs of AString s # _ \<Rightarrow> s | _ \<Rightarrow> [])"
definition out_bool :: "abi_value list \<Rightarrow> nat \<Rightarrow> bool" where
  "out_bool vs i = (case drop i vs of ABool b # _ \<Rightarrow> b | _ \<Rightarrow> False)"
definition out_uint16 :: "abi_value list \<Rightarrow> nat \<Rightarrow> uint16" where
  "out_uint16 vs i = (case drop i vs of AUint16 n # _ \<Rightarrow> n | _ \<Rightarrow> 0)"
definition out_uint8 :: "abi_value list \<Rightarrow> nat \<Rightarrow> byte" where
  "out_uint8 vs i = (case drop i vs of AUint8 n # _ \<Rightarrow> n | _ \<Rightarrow> 0)"

subsubsection \<open>\<open>AdminChanged\<close>\<close>

record BridgeAdminChanged =
  AdminChanged_PreviousAdmin :: address
  AdminChanged_NewAdmin :: address
  AdminChanged_Raw :: "eth_log option"

definition unpack_AdminChanged :: "'x bound_contract \<Rightarrow> string \<Rightarrow> eth_log \<Rightarrow> BridgeAdminChanged \<times> go_error option" where
  "unpack_AdminChanged K name log = (case bc_UnpackLog K name log of (vs, err) \<Rightarrow>
     (\<lparr>AdminChanged_PreviousAdmin = out_address vs 0, AdminChanged_NewAdmin = out_address vs 1,
       AdminChanged_Raw = (if err = None then Some log else None)\<rparr>, err))"

definition BridgeAdminChangedIterator_Next ::
  "'x bound_contract \<Rightarrow> BridgeAdminChanged event_iterator \<Rightarrow> (bool \<times> BridgeAdminChanged event_iterator) option" where
  "BridgeAdminChangedIterator_Next K it = iterator_Next (unpack_AdminChanged K (it_event it)) it"

definition BridgeAdminChangedIterator_Error :: "BridgeAdminChanged event_iterator \<Rightarrow> go_error option" where
  "BridgeAdminChangedIterator_Error it = it_fail it"

definition BridgeAdminChangedIterator_Close :: "BridgeAdminChanged event_iterator \<Rightarrow> go_error option \<times> BridgeAdminChanged event_iterator" where
  "BridgeAdminChangedIterator_Close it = (None, it\<lparr>it_unsubscribed := True\<rparr>)"

definition BridgeFilterer_FilterAdminChanged ::
  "'x BridgeFilterer \<Rightarrow> FilterOpts \<Rightarrow> 'x \<Rightarrow> (go_error + BridgeAdminChanged event_iterator) \<times> 'x" where
  "BridgeFilterer_FilterAdminChanged br opts x =
     filter_event (bc_FilterLogs (brf_contract br) opts ''AdminChanged'' [] x) ''AdminChanged''"

definition BridgeFilterer_WatchAdminChanged ::
  "'x BridgeFilterer \<Rightarrow> WatchOpts \<Rightarrow> 'x \<Rightarrow> (go_error + BridgeAdminChanged subscription) \<times> 'x" where
  "BridgeFilterer_WatchAdminChanged br opts x =
     watch_event (unpack_AdminChanged (brf_contract br) ''AdminChanged'')
       (bc_WatchLogs (brf_contract br) opts ''AdminChanged'' [] x)"

definition BridgeFilterer_ParseAdminChanged :: "'x BridgeFilterer \<Rightarrow> eth_log \<Rightarrow> go_error + BridgeAdminChanged" where
  "BridgeFilterer_ParseAdminChanged br log = parse_event (unpack_AdminChanged (brf_contract br) ''AdminChanged'' log)"

subsubsection \<open>\<open>BeaconUpgraded\<close>\<close>

record BridgeBeaconUpgraded =
  BeaconUpgraded_Beacon :: address
  BeaconUpgraded_Raw :: "eth_log option"

definition unpack_BeaconUpgraded :: "'x bound_contract \<Rightarrow> string \<Rightarrow> eth_log \<Rightarrow> BridgeBeaconUpgraded \<times> go_error option" where
  "unpack_BeaconUpgraded K name log = (case bc_UnpackLog K name log of (vs, err) \<Rightarrow>
     (\<lparr>BeaconUpgraded_Beacon = out_address vs 0,
       BeaconUpgraded_Raw = (if err = None then Some log else None)\<rparr>, err))"

definition BridgeBeaconUpgradedIterator_Next ::
  "'x bound_contract \<Rightarrow> BridgeBeaconUpgraded event_iterator \<Rightarrow> (bool \<times> BridgeBeaconUpgraded event_iterator) option" where
  "BridgeBeaconUpgradedIterator_Next K it = iterator_Next (unpack_BeaconUpgraded K (it_event it)) it"

definition BridgeBeaconUpgradedIterator_Error :: "BridgeBeaconUpgraded event_iterator \<Rightarrow> go_error option" where
  "BridgeBeaconUpgradedIterator_Error it = it_fail it"

definition BridgeBeaconUpgradedIterator_Close :: "BridgeBeaconUpgraded event_iterator \<Rightarrow> go_error option \<times> BridgeBeaconUpgraded event_iterator" where
  "BridgeBeaconUpgradedIterator_Close it = (None, it\<lparr>it_unsubscribed := True\<rparr>)"

definition BridgeFilterer_FilterBeaconUpgraded ::
  "'x BridgeFilterer \<Rightarrow> FilterOpts \<Rightarrow> address list \<Rightarrow> 'x \<Rightarrow> (go_error + BridgeBeaconUpgraded event_iterator) \<times> 'x" where
  "BridgeFilterer_FilterBeaconUpgraded br opts beacon x =
     filter_event (bc_FilterLogs (brf_contract br) opts ''BeaconUpgraded'' [map AAddress beacon] x) ''BeaconUpgraded''"

definition BridgeFilterer_WatchBeaconUpgraded ::
  "'x BridgeFilterer \<Rightarrow> WatchOpts \<Rightarrow> address list \<Rightarrow> 'x \<Rightarrow> (go_error + BridgeBeaconUpgraded subscription) \<times> 'x" where
  "BridgeFilterer_WatchBeaconUpgraded br opts beacon x =
     watch_event (unpack_BeaconUpgraded (brf_contract br) ''BeaconUpgraded'')
       (bc_WatchLogs (brf_contract br) opts ''BeaconUpgraded'' [map AAddress beacon] x)"

definition BridgeFilterer_ParseBeaconUpgraded :: "'x BridgeFilterer \<Rightarrow> eth_log \<Rightarrow> go_error + BridgeBeaconUpgraded" where
  "BridgeFilterer_ParseBeaconUpgraded br log = parse_event (unpack_BeaconUpgraded (brf_contract br) ''BeaconUpgraded'' log)"

subsubsection \<open>\<open>DepositedERC1155\<close>\<close>

record BridgeDepositedERC1155 =
  DepositedERC1155_Token :: address
  DepositedERC1155_TokenId :: int
  DepositedERC1155_Amount :: int
  DepositedERC1155_Receiver :: string
  DepositedERC1155_Network :: string
  DepositedERC1155_IsWrapped :: bool
  DepositedERC1155_ReferralId :: uint16
  DepositedERC1155_Raw :: "eth_log option"

definition unpack_DepositedERC1155 :: "'x bound_contract \<Rightarrow> string \<Rightarrow> eth_log \<Rightarrow> BridgeDepositedERC1155 \<times> go_error option" where
  "unpack_DepositedERC1155 K name log = (case bc_UnpackLog K name log of (vs, err) \<Rightarrow>
     (\<lparr>DepositedERC1155_Token = out_address vs 0, DepositedERC1155_TokenId = out_uint vs 1, DepositedERC1155_Amount = out_uint vs 2, DepositedERC1155_Receiver = out_string vs 3, DepositedERC1155_Network = out_string vs 4, DepositedERC1155_IsWrapped = out_bool vs 5, DepositedERC1155_ReferralId = out_uint16 vs 6,
       DepositedERC1155_Raw = (if err = None then Some log else None)\<rparr>, err))"

definition BridgeDepositedERC1155Iterator_Next ::
  "'x bound_contract \<Rightarrow> BridgeDepositedERC1155 event_iterator \<Rightarrow> (bool \<times> BridgeDepositedERC1155 event_iterator) option" where
  "BridgeDepositedERC1155Iterator_Next K it = iterator_Next (unpack_DepositedERC1155 K (it_event it)) it"

definition BridgeDepositedERC1155Iterator_Error :: "BridgeDepositedERC1155 event_iterator \<Rightarrow> go_error option" where
  "BridgeDepositedERC1155Iterator_Error it = it_fail it"

definition BridgeDepositedERC1155Iterator_Close :: "BridgeDepositedERC1155 event_iterator \<Rightarrow> go_error option \<times> BridgeDepositedERC1155 event_iterator" where
  "BridgeDepositedERC1155Iterator_Close it = (None, it\<lparr>it_unsubscribed := True\<rparr>)"

definition BridgeFilterer_FilterDepositedERC1155 ::
  "'x BridgeFilterer \<Rightarrow> FilterOpts \<Rightarrow> 'x \<Rightarrow> (go_error + BridgeDepositedERC1155 event_iterator) \<times> 'x" where
  "BridgeFilterer_FilterDepositedERC1155 br opts x =
     filter_event (bc_FilterLogs (brf_contract br) opts ''DepositedERC1155'' [] x) ''DepositedERC1155''"

definition BridgeFilterer_WatchDepositedERC1155 ::
  "'x BridgeFilterer \<Rightarrow> WatchOpts \<Rightarrow> 'x \<Rightarrow> (go_error + BridgeDepositedERC1155 subscription) \<times> 'x" where
  "BridgeFilterer_WatchDepositedERC1155 br opts x =
     watch_event (unpack_DepositedERC1155 (brf_contract br) ''DepositedERC1155'')
       (bc_WatchLogs (brf_contract br) opts ''DepositedERC1155'' [] x)"

definition BridgeFilterer_ParseDepositedERC1155 :: "'x BridgeFilterer \<Rightarrow> eth_log \<Rightarrow> go_error + BridgeDepositedERC1155" where
  "BridgeFilterer_ParseDepositedERC1155 br log = parse_event (unpack_DepositedERC1155 (brf_contract br) ''DepositedERC1155'' log)"

subsubsection \<open>\<open>DepositedERC20\<close>\<close>

record BridgeDepositedERC20 =
  DepositedERC20_Token :: address
  DepositedERC20_Amount :: int
  DepositedERC20_Receiver :: string
  DepositedERC20_Network :: string
  DepositedERC20_IsWrapped :: bool
  DepositedERC20_ReferralId :: uint16
  DepositedERC20_Raw :: "eth_log option"

definition unpack_DepositedERC20 :: "'x bound_contract \<Rightarrow> string \<Rightarrow> eth_log \<Rightarrow> BridgeDepositedERC20 \<times> go_error option" where
  "unpack_DepositedERC20 K name log = (case bc_UnpackLog K name log of (vs, err) \<Rightarrow>
     (\<lparr>DepositedERC20_Token = out_address vs 0, DepositedERC20_Amount = out_uint vs 1, DepositedERC20_Receiver = out_string vs 2, DepositedERC20_Network = out_string vs 3, DepositedERC20_IsWrapped = out_bool vs 4, DepositedERC20_ReferralId = out_uint16 vs 5,
       DepositedERC20_Raw = (if err = None then Some log else None)\<rparr>, err))"

definition BridgeDepositedERC20Iterator_Next ::
  "'x bound_contract \<Rightarrow> BridgeDepositedERC20 event_iterator \<Rightarrow> (bool \<times> BridgeDepositedERC20 event_iterator) option" where
  "BridgeDepositedERC20Iterator_Next K it = iterator_Next (unpack_DepositedERC20 K (it_event it)) it"

definition BridgeDepositedERC20Iterator_Error :: "BridgeDepositedERC20 event_iterator \<Rightarrow> go_error option" where
  "BridgeDepositedERC20Iterator_Error it = it_fail it"

definition BridgeDepositedERC20Iterator_Close :: "BridgeDepositedERC20 event_iterator \<Rightarrow> go_error option \<times> BridgeDepositedERC20 event_iterator" where
  "BridgeDepositedERC20Iterator_Close it = (None, it\<lparr>it_unsubscribed := True\<rparr>)"

definition BridgeFilterer_FilterDepositedERC20 ::
  "'x BridgeFilterer \<Rightarrow> FilterOpts \<Rightarrow> 'x \<Rightarrow> (go_error + BridgeDepositedERC20 event_iterator) \<times> 'x" where
  "BridgeFilterer_FilterDepositedERC20 br opts x =
     filter_event (bc_FilterLogs (brf_contract br) opts ''DepositedERC20'' [] x) ''DepositedERC20''"

definition BridgeFilterer_WatchDepositedERC20 ::
  "'x BridgeFilterer \<Rightarrow> WatchOpts \<Rightarrow> 'x \<Rightarrow> (go_error + BridgeDepositedERC20 subscription) \<times> 'x" where
  "BridgeFilterer_WatchDepositedERC20 br opts x =
     watch_event (unpack_DepositedERC20 (brf_contract br) ''DepositedERC20'')
       (bc_WatchLogs (brf_contract br) opts ''DepositedERC20'' [] x)"

definition BridgeFilterer_ParseDepositedERC20 :: "'x BridgeFilterer \<Rightarrow> eth_log \<Rightarrow> go_error + BridgeDepositedERC20" where
  "BridgeFilterer_ParseDepositedERC20 br log = parse_event (unpack_DepositedERC20 (brf_contract br) ''DepositedERC20'' log)"

subsubsection \<open>\<open>DepositedERC721\<close>\<close>

record BridgeDepositedERC721 =
  DepositedERC721_Token :: address
  DepositedERC721_TokenId :: int
  DepositedERC721_Receiver :: string
  DepositedERC721_Network :: string
  DepositedERC721_IsWrapped :: bool
  DepositedERC721_ReferralId :: uint16
  DepositedERC721_Raw :: "eth_log option"

definition unpack_DepositedERC721 :: "'x bound_contract \<Rightarrow> string \<Rightarrow> eth_log \<Rightarrow> BridgeDepositedERC721 \<times> go_error option" where
  "unpack_DepositedERC721 K name log = (case bc_UnpackLog K name log of (vs, err) \<Rightarrow>
     (\<lparr>DepositedERC721_Token = out_address vs 0, DepositedERC721_TokenId = out_uint vs 1, DepositedERC721_Receiver = out_string vs 2, DepositedERC721_Network = out_string vs 3, DepositedERC721_IsWrapped = out_bool vs 4, DepositedERC721_ReferralId = out_uint16 vs 5,
       DepositedERC721_Raw = (if err = None then Some log else None)\<rparr>, err))"

definition BridgeDepositedERC721Iterator_Next ::
  "'x bound_contract \<Rightarrow> BridgeDepositedERC721 event_iterator \<Rightarrow> (bool \<times> BridgeDepositedERC721 event_iterator) option" where
  "BridgeDepositedERC721Iterator_Next K it = iterator_Next (unpack_DepositedERC721 K (it_event it)) it"

definition BridgeDepositedERC721Iterator_Error :: "BridgeDepositedERC721 event_iterator \<Rightarrow> go_error option" where
  "BridgeDepositedERC721Iterator_Error it = it_fail it"

definition BridgeDepositedERC721Iterator_Close :: "BridgeDepositedERC721 event_iterator \<Rightarrow> go_error option \<times> BridgeDepositedERC721 event_iterator" where
  "BridgeDepositedERC721Iterator_Close it = (None, it\<lparr>it_unsubscribed := True\<rparr>)"

definition BridgeFilterer_FilterDepositedERC721 ::
  "'x BridgeFilterer \<Rightarrow> FilterOpts \<Rightarrow> 'x \<Rightarrow> (go_error + BridgeDepositedERC721 event_iterator) \<times> 'x" where
  "BridgeFilterer_FilterDepositedERC721 br opts x =
     filter_event (bc_FilterLogs (brf_contract br) opts ''DepositedERC721'' [] x) ''DepositedERC721''"

definition BridgeFilterer_WatchDepositedERC721 ::
  "'x BridgeFilterer \<Rightarrow> WatchOpts \<Rightarrow> 'x \<Rightarrow> (go_error + BridgeDepositedERC721 subscription) \<times> 'x" where
  "BridgeFilterer_WatchDepositedERC721 br opts x =
     watch_event (unpack_DepositedERC721 (brf_contract br) ''DepositedERC721'')
       (bc_WatchLogs (brf_contract br) opts ''DepositedERC721'' [] x)"

definition BridgeFilterer_ParseDepositedERC721 :: "'x BridgeFilterer \<Rightarrow> eth_log \<Rightarrow> go_error + BridgeDepositedERC721" where
  "BridgeFilterer_ParseDepositedERC721 br log = parse_event (unpack_DepositedERC721 (brf_contract br) ''DepositedERC721'' log)"

subsubsection \<open>\<open>DepositedNative\<close>\<close>

record BridgeDepositedNative =
  DepositedNative_Amount :: int
  DepositedNative_Receiver :: string
  DepositedNative_Network :: string
  DepositedNative_ReferralId :: uint16
  DepositedNative_Raw :: "eth_log option"

definition unpack_DepositedNative :: "'x bound_contract \<Rightarrow> string \<Rightarrow> eth_log \<Rightarrow> BridgeDepositedNative \<times> go_error option" where
  "unpack_DepositedNative K name log = (case bc_UnpackLog K name log of (vs, err) \<Rightarrow>
     (\<lparr>DepositedNative_Amount = out_uint vs 0, DepositedNative_Receiver = out_string vs 1, DepositedNative_Network = out_string vs 2, DepositedNative_ReferralId = out_uint16 vs 3,
       DepositedNative_Raw = (if err = None then Some log else None)\<rparr>, err))"

definition BridgeDepositedNativeIterator_Next ::
  "'x bound_contract \<Rightarrow> BridgeDepositedNative event_iterator \<Rightarrow> (bool \<times> BridgeDepositedNative event_iterator) option" where
  "BridgeDepositedNativeIterator_Next K it = iterator_Next (unpack_DepositedNative K (it_event it)) it"

definition BridgeDepositedNativeIterator_Error :: "BridgeDepositedNative event_iterator \<Rightarrow> go_error option" where
  "BridgeDepositedNativeIterator_Error it = it_fail it"

definition BridgeDepositedNativeIterator_Close :: "BridgeDepositedNative event_iterator \<Rightarrow> go_error option \<times> BridgeDepositedNative event_iterator" where
  "BridgeDepositedNativeIterator_Close it = (None, it\<lparr>it_unsubscribed := True\<rparr>)"

definition BridgeFilterer_FilterDepositedNative ::
  "'x BridgeFilterer \<Rightarrow> FilterOpts \<Rightarrow> 'x \<Rightarrow> (go_error + BridgeDepositedNative event_iterator) \<times> 'x" where
  "BridgeFilterer_FilterDepositedNative br opts x =
     filter_event (bc_FilterLogs (brf_contract br) opts ''DepositedNative'' [] x) ''DepositedNative''"

definition BridgeFilterer_WatchDepositedNative ::
  "'x BridgeFilterer \<Rightarrow> WatchOpts \<Rightarrow> 'x \<Rightarrow> (go_error + BridgeDepositedNative subscription) \<times> 'x" where
  "BridgeFilterer_WatchDepositedNative br opts x =
     watch_event (unpack_DepositedNative (brf_contract br) ''DepositedNative'')
       (bc_WatchLogs (brf_contract br) opts ''DepositedNative'' [] x)"

definition BridgeFilterer_ParseDepositedNative :: "'x BridgeFilterer \<Rightarrow> eth_log \<Rightarrow> go_error + BridgeDepositedNative" where
  "BridgeFilterer_ParseDepositedNative br log = parse_event (unpack_DepositedNative (brf_contract br) ''DepositedNative'' log)"

subsubsection \<open>\<open>Initialized\<close>\<close>

record BridgeInitialized =
  Initialized_Version :: byte
  Initialized_Raw :: "eth_log option"

definition unpack_Initialized :: "'x bound_contract \<Rightarrow> string \<Rightarrow> eth_log \<Rightarrow> BridgeInitialized \<times> go_error option" where
  "unpack_Initialized K name log = (case bc_UnpackLog K name log of (vs, err) \<Rightarrow>
     (\<lparr>Initialized_Version = out_uint8 vs 0,
       Initialized_Raw = (if err = None then Some log else None)\<rparr>, err))"

definition BridgeInitializedIterator_Next ::
  "'x bound_contract \<Rightarrow> BridgeInitialized event_iterator \<Rightarrow> (bool \<times> BridgeInitialized event_iterator) option" where
  "BridgeInitializedIterator_Next K it = iterator_Next (unpack_Initialized K (it_event it)) it"

definition BridgeInitializedIterator_Error :: "BridgeInitialized event_iterator \<Rightarrow> go_error option" where
  "BridgeInitializedIterator_Error it = it_fail it"

definition BridgeInitializedIterator_Close :: "BridgeInitialized event_iterator \<Rightarrow> go_error option \<times> BridgeInitialized event_iterator" where
  "BridgeInitializedIterator_Close it = (None, it\<lparr>it_unsubscribed := True\<rparr>)"

definition BridgeFilterer_FilterInitialized ::
  "'x BridgeFilterer \<Rightarrow> FilterOpts \<Rightarrow> 'x \<Rightarrow> (go_error + BridgeInitialized event_iterator) \<times> 'x" where
  "BridgeFilterer_FilterInitialized br opts x =
     filter_event (bc_FilterLogs (brf_contract br) opts ''Initialized'' [] x) ''Initialized''"

definition BridgeFilterer_WatchInitialized ::
  "'x BridgeFilterer \<Rightarrow> WatchOpts \<Rightarrow> 'x \<Rightarrow> (go_error + BridgeInitialized subscription) \<times> 'x" where
  "BridgeFilterer_WatchInitialized br opts x =
     watch_event (unpack_Initialized (brf_contract br) ''Initialized'')
       (bc_WatchLogs (brf_contract br) opts ''Initialized'' [] x)"

definition BridgeFilterer_ParseInitialized :: "'x BridgeFilterer \<Rightarrow> eth_log \<Rightarrow> go_error + BridgeInitialized" where
  "BridgeFilterer_ParseInitialized br log = parse_event (unpack_Initialized (brf_contract br) ''Initialized'' log)"

subsubsection \<open>\<open>OwnershipTransferred\<close>\<close>

record BridgeOwnershipTransferred =
  OwnershipTransferred_PreviousOwner :: address
  OwnershipTransferred_NewOwner :: address
  OwnershipTransferred_Raw :: "eth_log option"

definition unpack_OwnershipTransferred :: "'x bound_contract \<Rightarrow> string \<Rightarrow> eth_log \<Rightarrow> BridgeOwnershipTransferred \<times> go_error option" where
  "unpack_OwnershipTransferred K name log = (case bc_UnpackLog K name log of (vs, err) \<Rightarrow>
     (\<lparr>OwnershipTransferred_PreviousOwner = out_address vs 0, OwnershipTransferred_NewOwner = out_address vs 1,
       OwnershipTransferred_Raw = (if err = None then Some log else None)\<rparr>, err))"

definition BridgeOwnershipTransferredIterator_Next ::
  "'x bound_contract \<Rightarrow> BridgeOwnershipTransferred event_iterator \<Rightarrow> (bool \<times> BridgeOwnershipTransferred event_iterator) option" where
  "BridgeOwnershipTransferredIterator_Next K it = iterator_Next (unpack_OwnershipTransferred K (it_event it)) it"

definition BridgeOwnershipTransferredIterator_Error :: "BridgeOwnershipTransferred event_iterator \<Rightarrow> go_error option" where
  "BridgeOwnershipTransferredIterator_Error it = it_fail it"

definition BridgeOwnershipTransferredIterator_Close :: "BridgeOwnershipTransferred event_iterator \<Rightarrow> go_error option \<times> BridgeOwnershipTransferred event_iterator" where
  "BridgeOwnershipTransferredIterator_Close it = (None, it\<lparr>it_unsubscribed := True\<rparr>)"

definition BridgeFilterer_FilterOwnershipTransferred ::
  "'x BridgeFilterer \<Rightarrow> FilterOpts \<Rightarrow> address list \<Rightarrow> address list \<Rightarrow> 'x \<Rightarrow> (go_error + BridgeOwnershipTransferred event_iterator) \<times> 'x" where
  "BridgeFilterer_FilterOwnershipTransferred br opts previousOwner newOwner x =
     filter_event (bc_FilterLogs (brf_contract br) opts ''OwnershipTransferred'' [map AAddress previousOwner, map AAddress newOwner] x) ''OwnershipTransferred''"

definition BridgeFilterer_WatchOwnershipTransferred ::
  "'x BridgeFilterer \<Rightarrow> WatchOpts \<Rightarrow> address list \<Rightarrow> address list \<Rightarrow> 'x \<Rightarrow> (go_error + BridgeOwnershipTransferred subscription) \<times> 'x" where
  "BridgeFilterer_WatchOwnershipTransferred br opts previousOwner newOwner x =
     watch_event (unpack_OwnershipTransferred (brf_contract br) ''OwnershipTransferred'')
       (bc_WatchLogs (brf_contract br) opts ''OwnershipTransferred'' [map AAddress previousOwner, map AAddress newOwner] x)"

definition BridgeFilterer_ParseOwnershipTransferred :: "'x BridgeFilterer \<Rightarrow> eth_log \<Rightarrow> go_error + BridgeOwnershipTransferred" where
  "BridgeFilterer_ParseOwnershipTransferred br log = parse_event (unpack_OwnershipTransferred (brf_contract br) ''OwnershipTransferred'' log)"

subsubsection \<open>\<open>Upgraded\<close>\<close>

record BridgeUpgraded =
  Upgraded_Implementation :: address
  Upgraded_Raw :: "eth_log option"

definition unpack_Upgraded :: "'x bound_contract \<Rightarrow> string \<Rightarrow> eth_log \<Rightarrow> BridgeUpgraded \<times> go_error option" where
  "unpack_Upgraded K name log = (case bc_UnpackLog K name log of (vs, err) \<Rightarrow>
     (\<lparr>Upgraded_Implementation = out_address vs 0,
       Upgraded_Raw = (if err = None then Some log else None)\<rparr>, err))"

definition BridgeUpgradedIterator_Next ::
  "'x bound_contract \<Rightarrow> BridgeUpgraded event_iterator \<Rightarrow> (bool \<times> BridgeUpgraded event_iterator) option" where
  "BridgeUpgradedIterator_Next K it = iterator_Next (unpack_Upgraded K (it_event it)) it"

definition BridgeUpgradedIterator_Error :: "BridgeUpgraded event_iterator \<Rightarrow> go_error option" where
  "BridgeUpgradedIterator_Error it = it_fail it"

definition BridgeUpgradedIterator_Close :: "BridgeUpgraded event_iterator \<Rightarrow> go_error option \<times> BridgeUpgraded event_iterator" where
  "BridgeUpgradedIterator_Close it = (None, it\<lparr>it_unsubscribed := True\<rparr>)"

definition BridgeFilterer_FilterUpgraded ::
  "'x BridgeFilterer \<Rightarrow> FilterOpts \<Rightarrow> address list \<Rightarrow> 'x \<Rightarrow> (go_error + BridgeUpgraded event_iterator) \<times> 'x" where
  "BridgeFilterer_FilterUpgraded br opts implementation x =
     filter_event (bc_FilterLogs (brf_contract br) opts ''Upgraded'' [map AAddress implementation] x) ''Upgraded''"

definition BridgeFilterer_WatchUpgraded ::
  "'x BridgeFilterer \<Rightarrow> WatchOpts \<Rightarrow> address list \<Rightarrow> 'x \<Rightarrow> (go_error + BridgeUpgraded subscription) \<times> 'x" where
  "BridgeFilterer_WatchUpgraded br opts implementation x =
     watch_event (unpack_Upgraded (brf_contract br) ''Upgraded'')
       (bc_WatchLogs (brf_contract br) opts ''Upgraded'' [map AAddress implementation] x)"

definition BridgeFilterer_ParseUpgraded :: "'x BridgeFilterer \<Rightarrow> eth_log \<Rightarrow> go_error + BridgeUpgraded" where
  "BridgeFilterer_ParseUpgraded br log = parse_event (unpack_Upgraded (brf_contract br) ''Upgraded'' log)"

subsection \<open>What the iterators and subscriptions deliver\<close>

text \<open>Calling \<open>Next\<close> until it says no: the events, and the iterator then.\<close>

fun iterate :: "(eth_log \<Rightarrow> 'e \<times> go_error option) \<Rightarrow> nat \<Rightarrow> 'e event_iterator \<Rightarrow> ('e list \<times> 'e event_iterator) option" where
  "iterate unpack 0 it = None"
| "iterate unpack (Suc n) it = (case iterator_Next unpack it of
     None \<Rightarrow> None
   | Some (False, it') \<Rightarrow> Some ([], it')
   | Some (True, it') \<Rightarrow> map_option (apfst (Cons (the (it_Event it')))) (iterate unpack n it'))"

lemma iterate_log:
  assumes "it_fail it = None" and "it_logs it = GotLog log # rest" and "unpack log = (e, None)"
  shows "iterate unpack (Suc n) it
    = map_option (apfst (Cons e)) (iterate unpack n (it\<lparr>it_Event := Some e, it_logs := rest\<rparr>))"
  using assms by (cases "it_done it") (simp_all add: iterator_Next_def next_done_def deliver_def)

lemma iterate_stops:
  assumes "it_fail it = None" and "it_done it" and "it_logs it = []"
  shows "iterate unpack (Suc n) it = Some ([], it)"
  using assms by (simp add: iterator_Next_def next_done_def)

lemma iterate_drains:
  assumes "it_fail it = None" and "it_done it" and "it_logs it = map GotLog logs"
    and "\<forall>log \<in> set logs. snd (unpack log) = None" and "length logs < n"
  shows "\<exists>it'. iterate unpack n it = Some (map (fst \<circ> unpack) logs, it') \<and> it_fail it' = None"
  using assms
proof (induction logs arbitrary: it n)
  case Nil
  then obtain k where "n = Suc k" by (cases n) auto
  with Nil iterate_stops [of it unpack k] show ?case by simp
next
  case (Cons log logs)
  then obtain k where n: "n = Suc k" and k: "length logs < k" by (cases n) auto
  from Cons.prems(4) obtain e where e: "unpack log = (e, None)" by (cases "unpack log") auto
  have "\<exists>it'. iterate unpack k (it\<lparr>it_Event := Some e, it_logs := map GotLog logs\<rparr>)
      = Some (map (fst \<circ> unpack) logs, it') \<and> it_fail it' = None"
    by (rule Cons.IH) (use Cons.prems k in simp_all)
  with iterate_log [where unpack = unpack and it = it and log = log and e = e and rest = "map GotLog logs" and n = k]
    Cons.prems(1,3) e n show ?case by auto
qed

text \<open>A filter whose subscription ends without an error delivers every log, in order, those that come
  before the end and those still buffered at the end.\<close>

lemma iterate_delivers:
  assumes "it_fail it = None" and "\<not> it_done it"
    and "it_logs it = map GotLog before_end @ SubErr None # map GotLog buffered"
    and "\<forall>log \<in> set (before_end @ buffered). snd (unpack log) = None"
    and "length (before_end @ buffered) < n"
  shows "\<exists>it'. iterate unpack n it = Some (map (fst \<circ> unpack) (before_end @ buffered), it') \<and> it_fail it' = None"
  using assms
proof (induction before_end arbitrary: it n)
  case Nil
  let ?it = "it\<lparr>it_logs := map GotLog buffered, it_done := True, it_fail := None\<rparr>"
  have "iterator_Next unpack it = iterator_Next unpack ?it"
    using Nil.prems(1,2,3) by (simp add: iterator_Next_def)
  moreover obtain k where "n = Suc k" using Nil.prems(5) by (cases n) auto
  ultimately have "iterate unpack n it = iterate unpack n ?it" by simp
  with iterate_drains [of ?it buffered unpack n] Nil.prems show ?case by (simp add: comp_def)
next
  case (Cons log logs)
  then obtain k where n: "n = Suc k" and k: "length (logs @ buffered) < k" by (cases n) auto
  from Cons.prems(4) obtain e where e: "unpack log = (e, None)" by (cases "unpack log") auto
  have "\<exists>it'. iterate unpack k (it\<lparr>it_Event := Some e, it_logs := map GotLog logs @ SubErr None # map GotLog buffered\<rparr>)
      = Some (map (fst \<circ> unpack) (logs @ buffered), it') \<and> it_fail it' = None"
    by (rule Cons.IH) (use Cons.prems k in simp_all)
  with iterate_log [where unpack = unpack and it = it and log = log and e = e and n = k
      and rest = "map GotLog logs @ SubErr None # map GotLog buffered"] Cons.prems(1,3) e n
  show ?case by auto
qed

text \<open>A subscription delivers each log once, in order, as long as its sink takes them.\<close>

lemma watch_delivers:
  assumes "\<forall>log \<in> set logs. snd (unpack log) = None"
  shows "watch_loop unpack None es (concat (map (\<lambda>log. [GotLog log, Sent]) logs) @ end_of_logs)
    = watch_loop unpack None (es @ map (fst \<circ> unpack) logs) end_of_logs"
  using assms
proof (induction logs arbitrary: es)
  case (Cons log logs)
  then obtain e where "unpack log = (e, None)" by (cases "unpack log") auto
  with Cons show ?case by simp
qed simp

end
