(* ===== verification/Evm_Bindings_Props.thy ===== *)
theory Evm_Bindings_Props
  imports Evm_Events Evm_Props
begin

text \<open>
  What holds of the generated EVM binding: its calls fit the ABI it carries, with one exception, and
  no read-only call panics on a contract whose outputs fit the ABI.
\<close>

text \<open>A contract that leaves the last call it was given in the state.\<close>

definition recorder :: "(string \<times> abi_value list) bound_contract" where
  "recorder = \<lparr>bc_Call = \<lambda>opts m args x. (Inl (Msg ''recorded''), (m, args)),
     bc_Transact = \<lambda>opts m args x. (Inl (Msg ''recorded''), (m, args)),
     bc_RawTransact = \<lambda>opts d x. (Inl (Msg ''recorded''), x), bc_Transfer = \<lambda>opts x. (Inl (Msg ''recorded''), x),
     bc_FilterLogs = \<lambda>opts m q x. (Inl (Msg ''recorded''), x), bc_WatchLogs = \<lambda>opts m q x. (Inl (Msg ''recorded''), x),
     bc_UnpackLog = \<lambda>name log. ([], Some (Msg ''recorded''))\<rparr>"

definition packed :: "string \<times> abi_value list \<Rightarrow> bool" where
  "packed call = abi_packs (fst call) (snd call)"

lemma recorded_read: "snd (call_out conv (bc_Call recorder opts m args x)) = (m, args)"
  by (simp add: call_out_def recorder_def)

lemma recorded_write: "snd (bc_Transact recorder opts m args x) = (m, args)"
  by (simp add: recorder_def)

lemma packed_iff: "packed (m, args) \<longleftrightarrow> abi_inputs m = Some (map abi_type args)"
  by (simp add: packed_def abi_packs_def)

text \<open>The inputs of each method.\<close>

lemma bridge_inputs:
  "abi_inputs ''withdrawNativeMerkelized'' = None"
  "abi_inputs ''__Bridge_init'' = Some [''address[]'', ''uint256'']"
  "abi_inputs ''__Signers_init'' = Some [''address[]'', ''uint256'']"
  "abi_inputs ''addHash'' = Some [''bytes32'', ''uint256'']"
  "abi_inputs ''addSigners'' = Some [''address[]'']"
  "abi_inputs ''containsHash'' = Some [''bytes32'', ''uint256'']"
  "abi_inputs ''depositERC1155'' = Some [''address'', ''uint256'', ''uint256'', ''string'', ''string'', ''bool'', ''uint16'']"
  "abi_inputs ''depositERC20'' = Some [''address'', ''uint256'', ''string'', ''string'', ''bool'', ''uint16'']"
  "abi_inputs ''depositERC721'' = Some [''address'', ''uint256'', ''string'', ''string'', ''bool'', ''uint16'']"
  "abi_inputs ''depositNative'' = Some [''string'', ''string'', ''uint16'']"
  "abi_inputs ''getERC1155SignHash'' = Some [''address'', ''uint256'', ''uint256'', ''address'', ''bytes32'', ''uint256'', ''uint256'', ''string'', ''bool'']"
  "abi_inputs ''getERC20SignHash'' = Some [''address'', ''uint256'', ''address'', ''bytes32'', ''uint256'', ''uint256'', ''bool'']"
  "abi_inputs ''getERC721SignHash'' = Some [''address'', ''uint256'', ''address'', ''bytes32'', ''uint256'', ''uint256'', ''string'', ''bool'']"
  "abi_inputs ''getNativeSignHash'' = Some [''uint256'', ''address'', ''bytes32'', ''uint256'', ''uint256'']"
  "abi_inputs ''getSigners'' = Some []"
  "abi_inputs ''getUpdateSignersSignHash'' = Some [''address'', ''uint256'', ''uint256'', ''uint256'', ''bool'']"
  "abi_inputs ''onERC1155BatchReceived'' = Some [''address'', ''address'', ''uint256[]'', ''uint256[]'', ''bytes'']"
  "abi_inputs ''onERC1155Received'' = Some [''address'', ''address'', ''uint256'', ''uint256'', ''bytes'']"
  "abi_inputs ''onERC721Received'' = Some [''address'', ''address'', ''uint256'', ''bytes'']"
  "abi_inputs ''owner'' = Some []"
  "abi_inputs ''proxiableUUID'' = Some []"
  "abi_inputs ''removeSigners'' = Some [''address[]'']"
  "abi_inputs ''renounceOwnership'' = Some []"
  "abi_inputs ''setSignaturesThreshold'' = Some [''uint256'']"
  "abi_inputs ''signaturesThreshold'' = Some []"
  "abi_inputs ''supportsInterface'' = Some [''bytes4'']"
  "abi_inputs ''transferOwnership'' = Some [''address'']"
  "abi_inputs ''updateSigner'' = Some [''address'', ''uint256'', ''uint256'', ''uint256'', ''bool'', ''bytes[]'']"
  "abi_inputs ''upgradeTo'' = Some [''address'']"
  "abi_inputs ''upgradeToAndCall'' = Some [''address'', ''bytes'']"
  "abi_inputs ''usedHashes'' = Some [''bytes32'']"
  "abi_inputs ''withdrawERC1155'' = Some [''address'', ''uint256'', ''uint256'', ''address'', ''bytes32'', ''uint256'', ''string'', ''bool'', ''bytes[]'']"
  "abi_inputs ''withdrawERC20'' = Some [''address'', ''uint256'', ''address'', ''bytes32'', ''uint256'', ''bool'', ''bytes[]'']"
  "abi_inputs ''withdrawERC20Merkelized'' = Some [''address'', ''uint256'', ''address'', ''bytes32'', ''uint256'', ''bool'', ''bytes32[]'', ''bytes[]'']"
  "abi_inputs ''withdrawERC721'' = Some [''address'', ''uint256'', ''address'', ''bytes32'', ''uint256'', ''string'', ''bool'', ''bytes[]'']"
  "abi_inputs ''withdrawNative'' = Some [''uint256'', ''address'', ''bytes32'', ''uint256'', ''bytes[]'']"
  by code_simp+

text \<open>
  C37: Every method of the binding calls a method of the ABI it was generated with, with arguments of
  the types that method takes, in order; so its call can be packed for the contract. The one
  exception is \<open>WithdrawNativeMerkelized\<close>, whose method the ABI does not have: a Merkle withdrawal of
  the native coin can not even be packed.
\<close>

theorem bindings_match_abi:
  "list_all packed [
      snd (BridgeCaller_ContainsHash \<lparr>brc_contract = recorder\<rparr> copts txHash txNonce x),
      snd (BridgeCaller_GetERC1155SignHash \<lparr>brc_contract = recorder\<rparr> copts token tokenId amount receiver_a txHash txNonce chainId tokenURI isWrapped x),
      snd (BridgeCaller_GetERC20SignHash \<lparr>brc_contract = recorder\<rparr> copts token amount receiver_a txHash txNonce chainId isWrapped x),
      snd (BridgeCaller_GetERC721SignHash \<lparr>brc_contract = recorder\<rparr> copts token tokenId receiver_a txHash txNonce chainId tokenURI isWrapped x),
      snd (BridgeCaller_GetNativeSignHash \<lparr>brc_contract = recorder\<rparr> copts amount receiver_a txHash txNonce chainId x),
      snd (BridgeCaller_GetSigners \<lparr>brc_contract = recorder\<rparr> copts x),
      snd (BridgeCaller_GetUpdateSignersSignHash \<lparr>brc_contract = recorder\<rparr> copts signerToUpdate startTime deadline txNonce isAdding x),
      snd (BridgeCaller_Owner \<lparr>brc_contract = recorder\<rparr> copts x),
      snd (BridgeCaller_ProxiableUUID \<lparr>brc_contract = recorder\<rparr> copts x),
      snd (BridgeCaller_SignaturesThreshold \<lparr>brc_contract = recorder\<rparr> copts x),
      snd (BridgeCaller_SupportsInterface \<lparr>brc_contract = recorder\<rparr> copts interfaceId x),
      snd (BridgeCaller_UsedHashes \<lparr>brc_contract = recorder\<rparr> copts arg0_b x)]
   \<and> list_all packed [
      snd (BridgeTransactor_BridgeInit \<lparr>brt_contract = recorder\<rparr> opts signers signaturesThreshold x),
      snd (BridgeTransactor_SignersInit \<lparr>brt_contract = recorder\<rparr> opts signers signaturesThreshold x),
      snd (BridgeTransactor_AddHash \<lparr>brt_contract = recorder\<rparr> opts txHash txNonce x),
      snd (BridgeTransactor_AddSigners \<lparr>brt_contract = recorder\<rparr> opts signers x),
      snd (BridgeTransactor_DepositERC1155 \<lparr>brt_contract = recorder\<rparr> opts token tokenId amount receiver_s network isWrapped referralId x),
      snd (BridgeTransactor_DepositERC20 \<lparr>brt_contract = recorder\<rparr> opts token amount receiver_s network isWrapped referralId x),
      snd (BridgeTransactor_DepositERC721 \<lparr>brt_contract = recorder\<rparr> opts token tokenId receiver_s network isWrapped referralId x),
      snd (BridgeTransactor_DepositNative \<lparr>brt_contract = recorder\<rparr> opts receiver_s network referralId x),
      snd (BridgeTransactor_OnERC1155BatchReceived \<lparr>brt_contract = recorder\<rparr> opts arg0_a arg1 arg2_ns arg3_ns arg4 x),
      snd (BridgeTransactor_OnERC1155Received \<lparr>brt_contract = recorder\<rparr> opts arg0_a arg1 arg2_n arg3_n arg4 x),
      snd (BridgeTransactor_OnERC721Received \<lparr>brt_contract = recorder\<rparr> opts arg0_a arg1 arg2_n arg3_b x),
      snd (BridgeTransactor_RemoveSigners \<lparr>brt_contract = recorder\<rparr> opts signers x),
      snd (BridgeTransactor_RenounceOwnership \<lparr>brt_contract = recorder\<rparr> opts x),
      snd (BridgeTransactor_SetSignaturesThreshold \<lparr>brt_contract = recorder\<rparr> opts signaturesThreshold x),
      snd (BridgeTransactor_TransferOwnership \<lparr>brt_contract = recorder\<rparr> opts newOwner x),
      snd (BridgeTransactor_UpdateSigner \<lparr>brt_contract = recorder\<rparr> opts signerToUpdate startTime deadline txNonce isAdding signatures x),
      snd (BridgeTransactor_UpgradeTo \<lparr>brt_contract = recorder\<rparr> opts newImplementation x),
      snd (BridgeTransactor_UpgradeToAndCall \<lparr>brt_contract = recorder\<rparr> opts newImplementation data x),
      snd (BridgeTransactor_WithdrawERC1155 \<lparr>brt_contract = recorder\<rparr> opts token tokenId amount receiver_a txHash txNonce tokenURI isWrapped signatures x),
      snd (BridgeTransactor_WithdrawERC20 \<lparr>brt_contract = recorder\<rparr> opts token amount receiver_a txHash txNonce isWrapped signatures x),
      snd (BridgeTransactor_WithdrawERC20Merkelized \<lparr>brt_contract = recorder\<rparr> opts token amount receiver_a txHash txNonce isWrapped merkleProof signatures x),
      snd (BridgeTransactor_WithdrawERC721 \<lparr>brt_contract = recorder\<rparr> opts token tokenId receiver_a txHash txNonce tokenURI isWrapped signatures x),
      snd (BridgeTransactor_WithdrawNative \<lparr>brt_contract = recorder\<rparr> opts amount receiver_a txHash txNonce signatures x)]
   \<and> \<not> packed (snd (BridgeTransactor_WithdrawNativeMerkelized \<lparr>brt_contract = recorder\<rparr> opts amount receiver_a txHash txNonce merkleProof signatures x))"
  by (intro conjI; simp only: bridge_reads bridge_writes BridgeCaller.simps BridgeTransactor.simps
        recorded_read recorded_write list.pred_inject packed_iff bridge_inputs list.map abi_type.simps
        simp_thms option.distinct)

text \<open>No read-only method panics.\<close>

lemma bridge_outputs:
  "map_option snd (map_of bridge_abi ''containsHash'') = Some [''bool'']"
  "map_option snd (map_of bridge_abi ''getERC1155SignHash'') = Some [''bytes32'']"
  "map_option snd (map_of bridge_abi ''getERC20SignHash'') = Some [''bytes32'']"
  "map_option snd (map_of bridge_abi ''getERC721SignHash'') = Some [''bytes32'']"
  "map_option snd (map_of bridge_abi ''getNativeSignHash'') = Some [''bytes32'']"
  "map_option snd (map_of bridge_abi ''getSigners'') = Some [''address[]'']"
  "map_option snd (map_of bridge_abi ''getUpdateSignersSignHash'') = Some [''bytes32'']"
  "map_option snd (map_of bridge_abi ''owner'') = Some [''address'']"
  "map_option snd (map_of bridge_abi ''proxiableUUID'') = Some [''bytes32'']"
  "map_option snd (map_of bridge_abi ''signaturesThreshold'') = Some [''uint256'']"
  "map_option snd (map_of bridge_abi ''supportsInterface'') = Some [''bool'']"
  "map_option snd (map_of bridge_abi ''usedHashes'') = Some [''bool'']"
  by code_simp+

lemma read_returns:
  assumes "outputs_ok K" and "map_option snd (map_of bridge_abi m) = Some [t]"
    and "\<And>v. abi_type v = t \<Longrightarrow> conv v \<noteq> None"
  shows "\<exists>r y. call_out conv (bc_Call K opts m args x) = (Returned r, y)"
  using assms call_out_returns [of K m _ t conv opts args x] by fastforce

lemma reads_never_panic:
  assumes "outputs_ok (brc_contract br)"
  shows
    "\<exists>r y. BridgeCaller_ContainsHash br copts txHash txNonce x = (Returned r, y)"
    "\<exists>r y. BridgeCaller_GetERC1155SignHash br copts token tokenId amount receiver_a txHash txNonce chainId tokenURI isWrapped x = (Returned r, y)"
    "\<exists>r y. BridgeCaller_GetERC20SignHash br copts token amount receiver_a txHash txNonce chainId isWrapped x = (Returned r, y)"
    "\<exists>r y. BridgeCaller_GetERC721SignHash br copts token tokenId receiver_a txHash txNonce chainId tokenURI isWrapped x = (Returned r, y)"
    "\<exists>r y. BridgeCaller_GetNativeSignHash br copts amount receiver_a txHash txNonce chainId x = (Returned r, y)"
    "\<exists>r y. BridgeCaller_GetSigners br copts x = (Returned r, y)"
    "\<exists>r y. BridgeCaller_GetUpdateSignersSignHash br copts signerToUpdate startTime deadline txNonce isAdding x = (Returned r, y)"
    "\<exists>r y. BridgeCaller_Owner br copts x = (Returned r, y)"
    "\<exists>r y. BridgeCaller_ProxiableUUID br copts x = (Returned r, y)"
    "\<exists>r y. BridgeCaller_SignaturesThreshold br copts x = (Returned r, y)"
    "\<exists>r y. BridgeCaller_SupportsInterface br copts interfaceId x = (Returned r, y)"
    "\<exists>r y. BridgeCaller_UsedHashes br copts arg0_b x = (Returned r, y)"
  unfolding bridge_reads
  by (rule read_returns [OF assms], rule bridge_outputs, erule abi_type_out)+

end
