(* ===== verification/Solana_Props.thy ===== *)
theory Solana_Props
  imports Solana
begin

text \<open>
  What the Solana client guarantees: the two computations of the withdrawal hash agree, what a
  successful withdrawal sent, the layout of instruction data, and the branches
  where a nil error or a nil pointer appears.
\<close>

subsection \<open>Lemmas\<close>

text \<open>SHA-256 has 32 bytes.\<close>

definition Sum256_ok :: "sol_lib \<Rightarrow> bool" where
  "Sum256_ok L \<longleftrightarrow> (\<forall>bs. length (Sum256 L bs) = 32)"

lemma copy_array_id: "length bs = n \<Longrightarrow> copy_array n bs = bs"
  by (simp add: copy_array_def)

lemma big_Uint64_nat: "big_Uint64 (int n) = word_of_nat n"
  by (simp add: big_Uint64_def)

lemma big_Uint64_sint: "0 \<le> sint w \<Longrightarrow> big_Uint64 (sint w) = w"
  by (simp add: big_Uint64_def)

lemma hash_agreement:
  assumes "ParseUint (d_WithdrawalAmount d) 64 = Inr n" and "0 \<le> sint (TxNonce (d_Id d))"
  shows "getWithdrawalHash C d = getSignHash C d"
  using ParseUint_big_SetString [OF assms(1)] ParseUint_bound [OF assms(1)] assms
  by (auto simp: getWithdrawalHash_def getSignHash_def getUid_def Let_def big_Uint64_nat
      big_Uint64_sint wrap_then_def split: sum.splits)

lemma getSignHash_length:
  assumes "Sum256_ok (so_lib C)" and "getSignHash C d = Inr hash"
  shows "length hash = 32"
  using assms by (auto simp: getSignHash_def Sum256_ok_def Let_def go_simps split: if_splits)

lemma getBlock_program: "getBlock C (b, s) = (r, (b', s')) \<Longrightarrow> ss_ProgramID s' = ss_ProgramID s"
  by (auto simp: getBlock_def sol_call_def split: prod.splits sum.splits)

lemma getLatestBlock_program:
  assumes "retry_contract (so_retry C)" and "getLatestBlockWithRetry C s = (r, s')"
  shows "ss_ProgramID s' = ss_ProgramID s"
proof -
  obtain q b s1 where d: "DoWithRetry (so_retry C) (so_Retries C) (getBlock C) (None, s) = (q, (b, s1))"
    by (metis prod.exhaust)
  have "(\<lambda>p. ss_ProgramID (snd p) = ss_ProgramID s) (b, s1)"
    by (rule DoWithRetry_invariant [OF assms(1) d]) (auto dest: getBlock_program)
  moreover from assms(2) d have "s' = s1"
    by (auto simp: getLatestBlockWithRetry_def split: go_result.splits option.splits prod.splits)
  ultimately show ?thesis by simp
qed


lemma getWithdrawalContextD:
  assumes "getWithdrawalContext C d s = Inr w" and "Sum256_ok (so_lib C)"
  obtains hash amount where "getSignHash C d = Inr hash" "wc_WithdrawalTxHash w = hash"
    "ParseUint (d_WithdrawalAmount d) 64 = Inr amount" "wc_Amount w = word_of_nat amount"
    "getWithdrawalPDA C hash s = Inr (wc_WithdrawalPDA w)"
    "processSignature (so_lib C) (d_Signature d) = Inr (wc_Sig w, wc_RecID w)"
    "wc_UID w = getUid (so_lib C) (TxHash (d_Id d)) (sint (TxNonce (d_Id d)))"
    "PublicKeyFromBase58 (so_lib C) (d_Receiver d) = Inr (wc_Receiver w)"
proof -
  let ?L = "so_lib C"
  from assms(1) obtain sig rid hash pda amount receiver where
    sig: "processSignature ?L (d_Signature d) = Inr (sig, rid)" and hash: "getSignHash C d = Inr hash"
    and pda: "getWithdrawalPDA C hash s = Inr pda" and amount: "big_SetString (d_WithdrawalAmount d) = Some amount"
    and receiver: "PublicKeyFromBase58 ?L (d_Receiver d) = Inr receiver"
    and w: "wc_WithdrawalTxHash w = copy_array 32 hash" "wc_Amount w = big_Uint64 amount"
      "wc_WithdrawalPDA w = pda" "wc_Sig w = sig" "wc_RecID w = rid" "wc_Receiver w = receiver"
      "wc_UID w = copy_array 32 (getUid ?L (TxHash (d_Id d)) (sint (TxNonce (d_Id d))))"
    by (auto simp: getWithdrawalContext_def Let_def go_simps split: option.splits prod.splits)
  from hash obtain n where n: "ParseUint (d_WithdrawalAmount d) 64 = Inr n"
    by (auto simp: getSignHash_def Let_def go_simps)
  from amount ParseUint_big_SetString [OF n] have "amount = int n" by simp
  with w(2) have "wc_Amount w = word_of_nat n" by (simp add: big_Uint64_nat)
  moreover have "length (getUid ?L (TxHash (d_Id d)) (sint (TxNonce (d_Id d)))) = 32"
    using assms(2) by (simp add: getUid_def Sum256_ok_def)
  ultimately show thesis
    using that [of hash n] hash n pda sig receiver w getSignHash_length [OF assms(2) hash]
    by (simp add: copy_array_id)
qed

lemma known_bump_ignored:
  "k \<noteq> 0 \<Longrightarrow> l \<noteq> 0 \<Longrightarrow> find_address S p seeds k = find_address S p seeds l"
  by (auto simp: find_address_def split: sum.splits)

lemma type_ids_distinct:
  "distinct [Instruction_ChangeAuthority, Instruction_DepositNative, Instruction_DepositSpl,
     Instruction_DepositWrapped, Instruction_InitSplVault, Instruction_InitWrappedMint,
     Instruction_Initialize, Instruction_UpdateSigner, Instruction_WithdrawNative,
     Instruction_WithdrawSpl, Instruction_WithdrawWrapped]"
  by (simp add: type_ids)

subsection \<open>A concrete library and node for witnesses\<close>

text \<open>Borsh: little-endian numbers, strings with a four-byte length, arrays as they are.\<close>

definition demo_num :: "nat \<Rightarrow> ('a \<Rightarrow> nat) \<Rightarrow> (nat \<Rightarrow> 'a) \<Rightarrow> 'a codec" where
  "demo_num k f g = \<lparr>enc = (\<lambda>v. case v of None \<Rightarrow> Inl (Msg ''nil'') | Some a \<Rightarrow> Inr (le_bytes k (f a))),
     dec = (\<lambda>bs. if length bs < k then Inl (Msg ''EOF'') else Inr (Some (g (le_value (take k bs))), drop k bs))\<rparr>"

definition demo_string :: "string codec" where
  "demo_string = \<lparr>enc = (\<lambda>v. case v of None \<Rightarrow> Inl (Msg ''nil'')
       | Some s \<Rightarrow> Inr (le_bytes 4 (length s) @ map of_char s)),
     dec = (\<lambda>bs. let n = le_value (take 4 bs) in
       if length bs < 4 + n then Inl (Msg ''EOF'')
       else Inr (Some (map (\<lambda>b. char_of (unat b)) (take n (drop 4 bs))), drop (4 + n) bs))\<rparr>"

definition demo_array :: "nat \<Rightarrow> bytes codec" where
  "demo_array n = \<lparr>enc = (\<lambda>v. case v of None \<Rightarrow> Inl (Msg ''nil'') | Some bs \<Rightarrow> Inr bs),
     dec = (\<lambda>bs. if length bs < n then Inl (Msg ''EOF'') else Inr (Some (take n bs), drop n bs))\<rparr>"

fun demo_chunks :: "nat \<Rightarrow> bytes \<Rightarrow> bytes list" where
  "demo_chunks 0 bs = []"
| "demo_chunks (Suc n) bs = take 33 bs # demo_chunks n (drop 33 bs)"

definition demo_key_list :: "bytes list codec" where
  "demo_key_list = \<lparr>enc = (\<lambda>v. case v of None \<Rightarrow> Inl (Msg ''nil'')
       | Some ks \<Rightarrow> Inr (le_bytes 4 (length ks) @ concat ks)),
     dec = (\<lambda>bs. let n = le_value (take 4 bs) in
       if length bs < 4 + 33 * n then Inl (Msg ''EOF'')
       else Inr (Some (demo_chunks n (drop 4 bs)), drop (4 + 33 * n) bs))\<rparr>"

definition demo_borsh :: borsh where
  "demo_borsh = \<lparr>bo_string = demo_string, bo_u64 = demo_num 8 unat word_of_nat,
     bo_i64 = demo_num 8 unat word_of_nat, bo_u8 = demo_num 1 unat word_of_nat,
     bo_array = demo_array,
     bo_request = demo_num 1 (\<lambda>r. if r = UpdateSignerRequestTypeAdd then 0 else 1)
       (\<lambda>n. if n = 0 then UpdateSignerRequestTypeAdd else UpdateSignerRequestTypeRemove),
     bo_u16 = demo_num 2 unat word_of_nat,
     bo_bool = demo_num 1 (\<lambda>b. if b then 1 else 0) (\<lambda>n. n = 1),
     bo_keys = demo_key_list\<rparr>"

lemma demo_num_ok:
  assumes "\<And>a. f a < 256 ^ k" and "\<And>a. g (f a) = a"
  shows "codec_ok (\<lambda>_. True) (demo_num k f g)"
  using assms by (auto simp: codec_ok_def demo_num_def le_value_le_bytes)

lemma demo_string_ok: "codec_ok short_string demo_string"
proof -
  have "map ((\<lambda>b. char_of (unat b)) \<circ> (of_char :: char \<Rightarrow> byte)) s = s" for s
    by (induction s) simp_all
  then show ?thesis
    by (auto simp: codec_ok_def demo_string_def short_string_def le_value_le_bytes)
qed

lemma demo_chunks_concat: "\<forall>k \<in> set ks. length k = 33 \<Longrightarrow> demo_chunks (length ks) (concat ks @ rest) = ks"
  by (induction ks) simp_all

lemma length_concat_keys: "\<forall>k \<in> set ks. length k = 33 \<Longrightarrow> length (concat ks) = 33 * length ks"
  by (induction ks) simp_all

lemma demo_key_list_ok: "codec_ok key_list demo_key_list"
  unfolding codec_ok_def demo_key_list_def key_list_def
  by (auto simp: le_value_le_bytes demo_chunks_concat length_concat_keys)

lemma demo_borsh_ok: "borsh_ok demo_borsh"
proof -
  have unat_u16_less: "unat (a :: uint16) < 65536" for a
    using unsigned_less [of a] by simp
  have "codec_ok (\<lambda>_. True) (demo_num 2 unat (word_of_nat :: nat \<Rightarrow> uint16))"
    by (intro demo_num_ok) (simp_all add: unat_u16_less)
  moreover have "codec_ok (\<lambda>_. True) (demo_num 1 (\<lambda>b. if b then 1 else 0) (\<lambda>n. n = 1))"
    by (intro demo_num_ok) simp_all
  moreover have "codec_ok (\<lambda>_. True) (demo_num 8 unat (word_of_nat :: nat \<Rightarrow> uint64))"
    using unat_u64_less by (intro demo_num_ok) simp_all
  moreover have "codec_ok (\<lambda>_. True) (demo_num 1 unat (word_of_nat :: nat \<Rightarrow> byte))"
    by (intro demo_num_ok) simp_all
  moreover have "codec_ok (\<lambda>_. True) (bo_request demo_borsh)"
    unfolding demo_borsh_def using UpdateSignerRequestType.exhaust
    by simp (rule demo_num_ok, auto)
  ultimately show ?thesis
    using demo_string_ok demo_key_list_ok by (simp add: borsh_ok_def demo_borsh_def codec_ok_def demo_array_def)
qed

text \<open>
  Hashes, keys and addresses that only depend on the length of what they are made from are
  enough for witnesses.
\<close>

definition demo_key :: "nat \<Rightarrow> bytes" where
  "demo_key n = replicate 32 (word_of_nat n)"

definition demo_sol_lib :: sol_lib where
  "demo_sol_lib = \<lparr>
     sl_pda = \<lparr>FindProgramAddress = (\<lambda>seeds p. Inr (demo_key (length seeds + 100), 255)),
       CreateProgramAddress = (\<lambda>seeds p. Inr (demo_key (length seeds + 100))),
       MarshalBorsh_string = (\<lambda>s. enc demo_string (Some s)),
       MarshalBorsh_u64 = (\<lambda>n. enc (demo_num 8 unat word_of_nat) (Some n)),
       MarshalBorsh_array = Inr\<rparr>,
     sl_borsh = demo_borsh, Sum256 = (\<lambda>bs. demo_key (length bs)),
     PublicKeyFromBase58 = (\<lambda>s. Inr (demo_key (length s))),
     PublicKey_String = (\<lambda>k. ''key''), Signature_String = (\<lambda>h. ''signature''),
     sl_hexutil_Decode = (\<lambda>s. Inr (replicate (length s) 1)),
     json_Object = (\<lambda>bs. Inl (Msg ''unexpected end of JSON input'')),
     SystemProgramID = SystemProgramAddress, Token2022ProgramID = demo_key 6,
     NewTransaction = (\<lambda>p accs data blockhash payer. Inr []),
     tx_Sign = (\<lambda>tx w. Inr ([[1]], tx))\<rparr>"

text \<open>
  A node where only the accounts listed in \<open>known\<close> exist; its state is the height, which grows
  with each call.
\<close>

definition demo_sol_rpc :: "pubkey list \<Rightarrow> nat sol_rpc" where
  "demo_sol_rpc known = \<lparr>GetLatestBlockhash = (\<lambda>x. (Inr ([7], word_of_nat x), Suc x)),
     GetAccountInfo = (\<lambda>k x. (if k \<in> set known then Inr \<lparr>ai_Owner = [5], ai_RawJSON = []\<rparr>
                               else Inl (Leaf ErrRpcNotFound), Suc x)),
     GetAccountInfoWithOpts = (\<lambda>k x. (Inl (Leaf ErrRpcNotFound), Suc x)),
     SendAndConfirm = (\<lambda>tx x. (Inr [9], Suc x))\<rparr>"

definition demo_sol_chain :: SolChain where
  "demo_sol_chain = \<lparr>sol_Id = ''solana'', sol_BridgeAddress = replicate 32 2,
     sol_OperatorsWallets = [\<lparr>wl_PublicKey = replicate 32 3, wl_PrivateKey = []\<rparr>],
     sol_Workers = 1, sol_WSTimeout = 30, sol_BridgeId = ''b'', sol_IsTestnet = True\<rparr>"

definition demo_sol :: "pubkey list \<Rightarrow> nat SolClient" where
  "demo_sol known = \<lparr>so_lib = demo_sol_lib, so_rpc = demo_sol_rpc known, so_chain = demo_sol_chain,
     so_Retries = 2, so_retry = retry_ref\<rparr>"

definition demo_state :: "nat \<Rightarrow> nat sol_state" where
  "demo_state n = \<lparr>ss_ProgramID = replicate 32 2, ss_ext = n\<rparr>"

definition demo_wallet :: Wallet where
  "demo_wallet = \<lparr>wl_PublicKey = replicate 32 3, wl_PrivateKey = []\<rparr>"

definition sol_deposit :: Deposit where
  "sol_deposit = zero_Deposit\<lparr>d_Id := \<lparr>TxHash = ''h'', TxNonce = 4, ChainId = ''1''\<rparr>,
     d_WithdrawalAmount := itoa 10, d_Receiver := ''rr'',
     d_WithdrawalToken := DefaultNativeTokenAddress,
     d_Signature := replicate 65 (CHR ''0'')\<rparr>"

lemmas demo_sol_defs = demo_sol_def demo_sol_lib_def demo_sol_rpc_def demo_sol_chain_def
  demo_state_def demo_wallet_def sol_deposit_def

lemma demo_sol_ok: "Sum256_ok (so_lib (demo_sol known))" "retry_contract (so_retry (demo_sol known))"
  by (simp_all add: Sum256_ok_def demo_sol_def demo_sol_lib_def demo_key_def retry_ref_contract)

lemma demo_context:
  assumes "d_WithdrawalAmount d = itoa 10" and "length (d_Signature d) = 65"
  shows "\<exists>w. getWithdrawalContext (demo_sol known) d (demo_state 0) = Inr w
    \<and> (d_WithdrawalToken d \<noteq> DefaultNativeTokenAddress \<longrightarrow>
         wc_Token w = demo_key (length (d_WithdrawalToken d)))"
proof -
  have "ParseUint (itoa 10) 64 = Inr 10" by (simp add: itoa_def)
  moreover have "(replicate 65 1 :: bytes) ! 64 = 1" by (rule nth_replicate) simp
  moreover have "\<not> (27 :: byte) \<le> 1" "\<not> (3 :: byte) < 1"
    by (simp_all add: word_le_nat_alt word_less_nat_alt)
  ultimately show ?thesis
    using assms by (simp add: getWithdrawalContext_def getSignHash_def getWithdrawalPDA_def
        processSignature_def Let_def demo_sol_def demo_sol_lib_def demo_sol_chain_def demo_state_def
        del: replicate.simps)
qed

lemma demo_sol_context: "\<exists>w. getWithdrawalContext (demo_sol []) sol_deposit (demo_state 0) = Inr w"
  using demo_context [of sol_deposit "[]"] by (auto simp: sol_deposit_def)



lemma demo_SendTx:
  "SendTx (demo_sol known) inst w (demo_state n)
     = (Returned (Some [9], None), demo_state (Suc (Suc n)))"
  by (simp add: SendTx_def Let_def sol_call_def demo_sol_def demo_sol_lib_def demo_sol_rpc_def
      demo_state_def)

subsection \<open>Properties\<close>

text \<open>
  C19: The two computations of the withdrawal hash agree: \<open>getWithdrawalHash\<close> (big integers,
  used by \<open>IsProcessed\<close>) and \<open>getSignHash\<close> (64-bit numbers, used by a withdrawal), whenever the
  deposit's nonce is not negative and a withdrawal context exists. So \<open>IsProcessed\<close> answers by
  asking for exactly the account that a withdrawal of the deposit marks as used.
\<close>

theorem sol_IsProcessed_agrees:
  assumes "getWithdrawalContext C d s = Inr w" and "0 \<le> sint (TxNonce (d_Id d))"
    and "Sum256_ok (so_lib C)"
  shows "getWithdrawalHash C d = getSignHash C d
    \<and> SolClient_IsProcessed C d s =
       (case sol_call (GetAccountInfo (so_rpc C) (wc_WithdrawalPDA w)) s of
          (Inr info, s1) \<Rightarrow> ((True, None), s1)
        | (Inl err, s1) \<Rightarrow> (if errors_Is err ErrRpcNotFound then (False, None)
                            else (False, Some (Wrap ''failed to get account info'' err)), s1))"
proof (rule getWithdrawalContextD [OF assms(1,3)])
  fix hash amount
  assume "getSignHash C d = Inr hash" "ParseUint (d_WithdrawalAmount d) 64 = Inr amount"
    "getWithdrawalPDA C hash s = Inr (wc_WithdrawalPDA w)"
  with hash_agreement [OF _ assms(2), of amount C] show ?thesis
    by (auto simp: SolClient_IsProcessed_def split: sum.splits prod.splits)
qed

theorem sol_IsProcessed_agrees_witness:
  "getWithdrawalHash (demo_sol []) sol_deposit = getSignHash (demo_sol []) sol_deposit"
proof -
  obtain w where "getWithdrawalContext (demo_sol []) sol_deposit (demo_state 0) = Inr w"
    using demo_sol_context by blast
  from sol_IsProcessed_agrees [OF this _ demo_sol_ok(1)] show ?thesis
    by (simp add: sol_deposit_def)
qed



text \<open>
  C39: \<open>processSignature\<close> on every branch. A signature of 65 bytes gives its first 64 bytes and a
  recovery id of at most 3, after the offset 27 is taken off; a larger id is an error. A
  decodable signature of any other length is no error: the result is the zero signature.
\<close>

theorem sol_processSignature_spec:
  assumes "sl_hexutil_Decode L signature = Inr bs"
  shows "(length bs \<noteq> 65 \<longrightarrow> processSignature L signature = Inr (replicate 64 0, 0))
    \<and> (length bs = 65 \<and> (bs ! 64 \<le> 3 \<or> 27 \<le> bs ! 64 \<and> bs ! 64 \<le> 30) \<longrightarrow>
         (\<exists>recId. processSignature L signature = Inr (take 64 bs, recId) \<and> recId \<le> 3
            \<and> (bs ! 64 = recId \<or> bs ! 64 = recId + 27)))
    \<and> (length bs = 65 \<and> \<not> (bs ! 64 \<le> 3 \<or> 27 \<le> bs ! 64 \<and> bs ! 64 \<le> 30) \<longrightarrow>
         (\<exists>err. processSignature L signature = Inl err))"
proof -
  have minus: "b - 27 > 3 \<longleftrightarrow> b > 30" if "27 \<le> b" for b :: byte
    using that by (simp add: word_less_nat_alt word_le_nat_alt unat_sub) arith
  have small: "\<not> b \<le> 3" if "27 \<le> b" for b :: byte
    using that by (simp add: word_le_nat_alt)
  show ?thesis
  proof (cases "27 \<le> bs ! 64")
    case True
    with assms minus [of "bs ! 64"] small [of "bs ! 64"] show ?thesis
      by (auto simp: processSignature_def Let_def not_le not_less)
  next
    case False
    with assms show ?thesis by (auto simp: processSignature_def Let_def not_le not_less)
  qed
qed

theorem sol_processSignature_spec_witness:
  "processSignature demo_sol_lib ''0x0a'' = Inr (replicate 64 0, 0)"
proof -
  have "sl_hexutil_Decode demo_sol_lib ''0x0a'' = Inr (replicate (length ''0x0a'') 1)"
    by (simp only: demo_sol_lib_def sol_lib.simps)
  from sol_processSignature_spec [OF this] show ?thesis by simp
qed

text \<open>
  The first withdrawal of a token whose vault does not exist yet: the client creates the
  vault, \<open>getSPLVault\<close> then returns nil without an error, and \<open>withdrawSPL\<close> dereferences the nil
  pointer. The process panics after the vault was created and no withdrawal is sent.
\<close>

theorem sol_new_vault_panics:
  assumes "getWithdrawalContext C d s = Inr w"
    and "PublicKeyFromBase58 (so_lib C) (d_WithdrawalToken d) = Inr token"
    and "sol_call (GetAccountInfo (so_rpc C) token) s = (Inr info, s1)"
    and "FindProgramAddress (sl_pda (so_lib C)) [bytes_of_string ''vault'', token,
           bytes_of_string (sol_BridgeId (so_chain C))] (ss_ProgramID s1) = Inr (vault, bump)"
    and "sol_call (GetAccountInfo (so_rpc C) vault) s1 = (Inl err, s2)" and "errors_Is err ErrRpcNotFound"
    and "SendTx C (InitSplVault_Build (NewInitSplVaultInstruction (sol_BridgeId (so_chain C)) token
           vault (wl_PublicKey signer) (ai_Owner info) (SystemProgramID (so_lib C)))) signer s2
         = (Returned (Some tx, None), s3)"
    and "sol_call (GetAccountInfo (so_rpc C) (wc_Token w)) s3 = (Inr info2, s4)"
  shows "getSPLVault C d signer s = (Returned (Inr None), s3)
    \<and> sol_withdrawSPL C d signer s = (Panic ''nil pointer dereference'', s4)"
proof -
  have v: "getSPLVault C d signer s = (Returned (Inr None), s3)"
    using assms(2-7) by (simp add: getSPLVault_def Let_def)
  with assms(1,8) show ?thesis by (simp add: sol_withdrawSPL_def Let_def)
qed

definition spl_deposit :: Deposit where
  "spl_deposit = sol_deposit\<lparr>d_WithdrawalToken := ''t''\<rparr>"

theorem sol_new_vault_panics_witness:
  "\<exists>s4. sol_withdrawSPL (demo_sol [demo_key 1]) spl_deposit demo_wallet
     (demo_state 0) = (Panic ''nil pointer dereference'', s4)"
proof -
  let ?C = "demo_sol [demo_key 1]"
  let ?t = "demo_key 1"
  let ?v = "demo_key 103"
  obtain w where w: "getWithdrawalContext ?C spl_deposit (demo_state 0) = Inr w" "wc_Token w = ?t"
    using demo_context [of spl_deposit "[demo_key 1]"]
    by (auto simp: spl_deposit_def sol_deposit_def DefaultNativeTokenAddress_def)
  have a: "sol_call (GetAccountInfo (so_rpc ?C) ?t) (demo_state n)
      = (Inr \<lparr>ai_Owner = [5], ai_RawJSON = []\<rparr>, demo_state (Suc n))" for n
    by (simp add: sol_call_def demo_sol_defs)
  have v: "?v \<noteq> ?t" by (simp add: demo_key_def)
  then have b: "sol_call (GetAccountInfo (so_rpc ?C) ?v) (demo_state 1)
      = (Inl (Leaf ErrRpcNotFound), demo_state 2)"
    by (simp add: sol_call_def demo_sol_def demo_sol_rpc_def demo_state_def)
  have tx: "SendTx ?C (InitSplVault_Build (NewInitSplVaultInstruction (sol_BridgeId (so_chain ?C)) ?t
      ?v (wl_PublicKey demo_wallet) [5] (SystemProgramID (so_lib ?C)))) demo_wallet
      (demo_state 2) = (Returned (Some [9], None), demo_state 4)"
    by (simp add: demo_SendTx)
  have t: "PublicKeyFromBase58 (so_lib ?C) (d_WithdrawalToken spl_deposit) = Inr ?t"
    by (simp add: demo_sol_def demo_sol_lib_def spl_deposit_def)
  have f: "FindProgramAddress (sl_pda (so_lib ?C)) [bytes_of_string ''vault'', ?t,
      bytes_of_string (sol_BridgeId (so_chain ?C))] (ss_ProgramID (demo_state 1)) = Inr (?v, 255)"
    by (simp add: demo_sol_def demo_sol_lib_def demo_sol_chain_def demo_state_def)
  have "getSPLVault ?C spl_deposit demo_wallet (demo_state 0) = (Returned (Inr None), demo_state 4)
     \<and> sol_withdrawSPL ?C spl_deposit demo_wallet (demo_state 0)
       = (Panic ''nil pointer dereference'', demo_state 5)"
    by (rule sol_new_vault_panics [OF w(1) t a [of 0, folded One_nat_def] f b])
       (use tx a [of 4] w(2) in simp_all)
  then show ?thesis by blast
qed

text \<open>
  The program id is shared by all Solana clients of the process. After a second
  \<open>NewBridgeClient\<close> the first client derives the account of a withdrawal from the second
  client's bridge address, until an update of signers of the first client sets it back.
\<close>

theorem sol_program_id_shared:
  assumes "sol_NewBridgeClient L rpc n retry chain1 s = (C1, s1)"
    and "sol_NewBridgeClient L rpc n retry chain2 s1 = (C2, s2)"
  shows "getWithdrawalPDA C1 hash s2 = wrap_then (FindProgramAddress (sl_pda L)
      [bytes_of_string ''withdraw'', hash, bytes_of_string (sol_BridgeId chain1)]
      (sol_BridgeAddress chain2)) ''could not retrieve withdrawal PDA contract'' (\<lambda>(pda, bump). Inr pda)
    \<and> (retry_contract retry \<longrightarrow> SolClient_UpdateSigners C1 e signer s2 = (Returned (tx, b, None), s3)
         \<longrightarrow> ss_ProgramID s3 = sol_BridgeAddress chain1)"
proof -
  have send: "ss_ProgramID s'' = ss_ProgramID s'" if "SendTx C inst w s' = (r, s'')" for C inst w s' r s''
    using that by (auto simp: SendTx_def sol_call_def Let_def split: prod.splits sum.splits if_splits)
  from assms have C1: "so_chain C1 = chain1" "so_lib C1 = L" "so_retry C1 = retry"
    and s2: "ss_ProgramID s2 = sol_BridgeAddress chain2"
    by (auto simp: sol_NewBridgeClient_def)
  have upd: "ss_ProgramID s3 = sol_BridgeAddress chain1"
    if "retry_contract retry" and u: "SolClient_UpdateSigners C1 e signer s2 = (Returned (tx, b, None), s3)"
  proof -
    from u C1 obtain r q s4 inst where
      "getLatestBlockWithRetry C1 (s2\<lparr>ss_ProgramID := sol_BridgeAddress chain1\<rparr>) = (r, s4)"
      "SendTx C1 inst signer s4 = (q, s3)"
      by (auto simp: SolClient_UpdateSigners_def Let_def sol_failed_def
          split: sum.splits prod.splits go_result.splits option.splits)
    with getLatestBlock_program [of C1] that(1) C1 send show ?thesis by fastforce
  qed
  with C1 s2 show ?thesis by (simp add: getWithdrawalPDA_def)
qed

theorem sol_program_id_shared_witness:
  "getWithdrawalPDA (demo_sol []) [3, 2] ((demo_state 0)\<lparr>ss_ProgramID := [8]\<rparr>)
     = wrap_then (FindProgramAddress (sl_pda demo_sol_lib)
         [bytes_of_string ''withdraw'', [3, 2], bytes_of_string ''b''] [8])
         ''could not retrieve withdrawal PDA contract'' (\<lambda>(pda, bump). Inr pda)"
proof -
  have "sol_NewBridgeClient demo_sol_lib (demo_sol_rpc []) 2 retry_ref demo_sol_chain (demo_state 0)
      = (demo_sol [], demo_state 0)"
    by (simp add: sol_NewBridgeClient_def demo_sol_def demo_sol_chain_def demo_state_def)
  from sol_program_id_shared [OF this, of "demo_sol_chain\<lparr>sol_BridgeAddress := [8]\<rparr>"]
  show ?thesis by (simp add: sol_NewBridgeClient_def demo_sol_chain_def)
qed

text \<open>
  The data of a \<open>withdraw_wrapped\<close> instruction, for any encoder that keeps the Borsh
  contract: an instruction built by its constructor validates, its data is the discriminator
  followed by the encoded parameters, the generated decoder reads back exactly those
  parameters, and two instructions with the same data have the same parameters.
\<close>

theorem sol_withdraw_wrapped_data:
  fixes bridge_id hash mint_nonce symbol amount uid signature recovery_id
    and mint receiver authority txUsed signer systemProgram tokenProgram
  defines "inst \<equiv> NewWithdrawWrappedInstruction bridge_id hash mint_nonce symbol amount uid signature
     recovery_id mint receiver authority txUsed signer systemProgram tokenProgram"
  assumes "borsh_ok B" and "length bridge_id < 2 ^ 32" and "length symbol < 2 ^ 32"
    and "length hash = 32" and "length uid = 32" and "length signature = 64"
  shows "WithdrawWrapped_ValidateAndBuild inst = Returned (Inr (WithdrawWrapped_Build inst))
    \<and> (\<exists>body. Instruction_Data B (WithdrawWrapped_Build inst) = Inr (Instruction_WithdrawWrapped @ body)
        \<and> (\<exists>j. WithdrawWrapped_UnmarshalWithDecoder B zero_WithdrawWrapped body = Inr (j, [])
            \<and> ww_BridgeId j = Some bridge_id \<and> ww_Hash j = Some hash \<and> ww_MintNonce j = Some mint_nonce
            \<and> ww_Symbol j = Some symbol \<and> ww_Amount j = Some amount \<and> ww_Uid j = Some uid
            \<and> ww_Signature j = Some signature \<and> ww_RecoveryId j = Some recovery_id))
    \<and> (\<forall>other. WithdrawWrapped_params_set other \<longrightarrow>
        Instruction_Data B (WithdrawWrapped_Build other) = Instruction_Data B (WithdrawWrapped_Build inst)
        \<longrightarrow> WithdrawWrapped_params other = WithdrawWrapped_params inst)"
proof -
  have ps: "WithdrawWrapped_params_set inst"
    using assms(3-) by (simp add: inst_def WithdrawWrapped_params_set_def short_string_def
        NewWithdrawWrappedInstruction_def NewWithdrawWrappedInstructionBuilder_def
        zero_WithdrawWrapped_def WithdrawWrapped_setters)
  from ww_codec.total [OF assms(2) ps] obtain body where
    body: "WithdrawWrapped_MarshalWithEncoder B inst = Inr body" ..
  with ww_codec.decodes [OF assms(2) ps, of body zero_WithdrawWrapped "[]"] obtain j where
    j: "WithdrawWrapped_UnmarshalWithDecoder B zero_WithdrawWrapped body = Inr (j, [])"
    and p: "WithdrawWrapped_params j = WithdrawWrapped_params inst" by auto
  from p have fields: "ww_BridgeId j = Some bridge_id" "ww_Hash j = Some hash"
    "ww_MintNonce j = Some mint_nonce" "ww_Symbol j = Some symbol" "ww_Amount j = Some amount"
    "ww_Uid j = Some uid" "ww_Signature j = Some signature" "ww_RecoveryId j = Some recovery_id"
    by (cases j, simp add: WithdrawWrapped_params_def inst_def NewWithdrawWrappedInstruction_def
        NewWithdrawWrappedInstructionBuilder_def zero_WithdrawWrapped_def WithdrawWrapped_setters)+
  have data: "Instruction_Data B (WithdrawWrapped_Build i) = Inr bs \<longleftrightarrow>
      (\<exists>b. WithdrawWrapped_MarshalWithEncoder B i = Inr b \<and> bs = Instruction_WithdrawWrapped @ b)" for i bs
    by (simp add: Instruction_Data_Inr WithdrawWrapped_Build_def)
  have inj: "WithdrawWrapped_params other = WithdrawWrapped_params inst"
    if "WithdrawWrapped_params_set other" and
      "Instruction_Data B (WithdrawWrapped_Build other) = Instruction_Data B (WithdrawWrapped_Build inst)"
    for other
  proof (rule ww_codec.data_injective [OF assms(2) that(1) ps])
    from that(2) body data [of inst] have
      "Instruction_Data B (WithdrawWrapped_Build other) = Inr (Instruction_WithdrawWrapped @ body)" by simp
    with data [of other] body show
      "WithdrawWrapped_MarshalWithEncoder B other = WithdrawWrapped_MarshalWithEncoder B inst" by auto
  qed
  have "WithdrawWrapped_ValidateAndBuild inst = Returned (Inr (WithdrawWrapped_Build inst))"
    by (simp add: WithdrawWrapped_ValidateAndBuild_def inst_def WithdrawWrapped_New_valid)
  with body data j fields inj show ?thesis by blast
qed

theorem sol_withdraw_wrapped_data_witness:
  "\<exists>body. Instruction_Data demo_borsh (WithdrawWrapped_Build (NewWithdrawWrappedInstruction ''b''
      (replicate 32 1) 2 ''S'' 3 (replicate 32 4) (replicate 64 5) 1 [1] [2] [3] [4] [5] [6] [7]))
    = Inr (Instruction_WithdrawWrapped @ body)"
  using sol_withdraw_wrapped_data [OF demo_borsh_ok, of "''b''" "''S''" "replicate 32 1" "replicate 32 4"
      "replicate 64 5" 2 3 1 "[1]" "[2]" "[3]" "[4]" "[5]" "[6]" "[7]"]
  by auto

end
