(* ===== verification/Solana_Other_Instructions.thy ===== *)
theory Solana_Other_Instructions
  imports Solana_Contract
begin

text \<open>
  The six instructions of the bridge program that users and the administrator of the bridge send:
  \<open>Initialize\<close>, \<open>ChangeAuthority\<close>, \<open>InitWrappedMint\<close> and the three deposits. The relayer has
  their bindings and tests but never sends them. The layout is that of \<open>Solana_Instructions\<close>.
\<close>

subsection \<open>\<open>Initialize\<close> (\<open>initialize.go\<close>)\<close>

record Initialize =
  ini_BridgeId :: "string option"
  ini_Authorities :: "bytes list option"
  ini_AccountMetaSlice :: "AccountMeta option list"

text \<open>The zero value \<open>Initialize{}\<close>, and the builder with its fixed account.\<close>

definition zero_Initialize :: Initialize where
  "zero_Initialize = \<lparr>ini_BridgeId = None, ini_Authorities = None,
     ini_AccountMetaSlice = []\<rparr>"

definition NewInitializeInstructionBuilder :: Initialize where
  "NewInitializeInstructionBuilder =
     zero_Initialize\<lparr>ini_AccountMetaSlice := (replicate 3 None)[2 := Some (Meta SystemProgramAddress)]\<rparr>"

definition Initialize_SetBridgeId :: "string \<Rightarrow> Initialize \<Rightarrow> Initialize" where
  "Initialize_SetBridgeId v inst = inst\<lparr>ini_BridgeId := Some v\<rparr>"

definition Initialize_SetAuthorities :: "bytes list \<Rightarrow> Initialize \<Rightarrow> Initialize" where
  "Initialize_SetAuthorities v inst = inst\<lparr>ini_Authorities := Some v\<rparr>"

definition Initialize_SetAuthorityAccount :: "pubkey \<Rightarrow> Initialize \<Rightarrow> Initialize" where
  "Initialize_SetAuthorityAccount v inst =
     inst\<lparr>ini_AccountMetaSlice := (ini_AccountMetaSlice inst)[0 := Some (WRITE (Meta v))]\<rparr>"

definition Initialize_SetSignerAccount :: "pubkey \<Rightarrow> Initialize \<Rightarrow> Initialize" where
  "Initialize_SetSignerAccount v inst =
     inst\<lparr>ini_AccountMetaSlice := (ini_AccountMetaSlice inst)[1 := Some (SIGNER (WRITE (Meta v)))]\<rparr>"

definition Initialize_SetSystemProgramAccount :: "pubkey \<Rightarrow> Initialize \<Rightarrow> Initialize" where
  "Initialize_SetSystemProgramAccount v inst =
     inst\<lparr>ini_AccountMetaSlice := (ini_AccountMetaSlice inst)[2 := Some (Meta v)]\<rparr>"

lemmas Initialize_setters = Initialize_SetBridgeId_def
  Initialize_SetAuthorities_def
  Initialize_SetAuthorityAccount_def
  Initialize_SetSignerAccount_def
  Initialize_SetSystemProgramAccount_def

definition Initialize_findAuthorityAddress :: "pda_lib \<Rightarrow> pubkey \<Rightarrow> string \<Rightarrow> byte \<Rightarrow> go_error + pubkey \<times> byte" where
  "Initialize_findAuthorityAddress S programID bridgeId knownBumpSeed = find_address S programID
     [Inr (bytes_of_string ''authority''), MarshalBorsh_string S bridgeId] knownBumpSeed"

definition Initialize_findAuthorityAddressWithBumpSeed :: "pda_lib \<Rightarrow> pubkey \<Rightarrow> string \<Rightarrow> byte \<Rightarrow> go_error + pubkey" where
  "Initialize_findAuthorityAddressWithBumpSeed S programID bridgeId bumpSeed = map_sum id fst (Initialize_findAuthorityAddress S programID bridgeId bumpSeed)"

definition Initialize_Validate :: "Initialize \<Rightarrow> go_error option go_result" where
  "Initialize_Validate inst = validate
     [(ini_BridgeId inst = None, ''BridgeId''),
      (ini_Authorities inst = None, ''Authorities'')]
     (ini_AccountMetaSlice inst) [''Authority'', ''Signer'', ''SystemProgram'']"

definition Initialize_MarshalWithEncoder :: "borsh \<Rightarrow> Initialize \<Rightarrow> go_error + bytes" where
  "Initialize_MarshalWithEncoder B inst = enc_all
     [enc (bo_string B) (ini_BridgeId inst),
      enc (bo_keys B) (ini_Authorities inst)]"

definition Initialize_UnmarshalWithDecoder ::
  "borsh \<Rightarrow> Initialize \<Rightarrow> bytes \<Rightarrow> go_error + Initialize \<times> bytes" where
  "Initialize_UnmarshalWithDecoder B inst r0 =
     dec_then (bo_string B) r0 (\<lambda>v1 r1.
     dec_then (bo_keys B) r1 (\<lambda>v2 r2.
     Inr (inst\<lparr>ini_BridgeId := v1, ini_Authorities := v2\<rparr>, r2)))"

definition Initialize_Build :: "Initialize \<Rightarrow> Instruction" where
  "Initialize_Build inst = \<lparr>in_TypeID = Instruction_Initialize, in_Accounts = ini_AccountMetaSlice inst,
     in_Impl = (\<lambda>B. Initialize_MarshalWithEncoder B inst)\<rparr>"

definition Initialize_ValidateAndBuild :: "Initialize \<Rightarrow> (go_error + Instruction) go_result" where
  "Initialize_ValidateAndBuild inst = (case Initialize_Validate inst of Panic m \<Rightarrow> Panic m
     | Returned (Some err) \<Rightarrow> Returned (Inl err)
     | Returned None \<Rightarrow> Returned (Inr (Initialize_Build inst)))"

definition NewInitializeInstruction ::
  "string \<Rightarrow> bytes list \<Rightarrow> pubkey \<Rightarrow> pubkey \<Rightarrow> pubkey \<Rightarrow> Initialize" where
  "NewInitializeInstruction bridge_id authorities authority signer systemProgram =
    (Initialize_SetSystemProgramAccount systemProgram \<circ>
     Initialize_SetSignerAccount signer \<circ>
     Initialize_SetAuthorityAccount authority \<circ>
     Initialize_SetAuthorities authorities \<circ>
     Initialize_SetBridgeId bridge_id)
       NewInitializeInstructionBuilder"

text \<open>The codec contract for \<open>Initialize\<close>.\<close>

definition Initialize_params_set :: "Initialize \<Rightarrow> bool" where
  "Initialize_params_set inst \<longleftrightarrow> set_to short_string (ini_BridgeId inst)
     \<and> set_to key_list (ini_Authorities inst)"

definition Initialize_params :: "Initialize \<Rightarrow> Initialize" where
  "Initialize_params inst = inst\<lparr>ini_AccountMetaSlice := []\<rparr>"

lemma Initialize_roundtrip:
  assumes "borsh_ok B" and "Initialize_params_set inst"
  shows "\<exists>bs. Initialize_MarshalWithEncoder B inst = Inr bs
    \<and> (\<forall>obj rest. \<exists>j. Initialize_UnmarshalWithDecoder B obj (bs @ rest) = Inr (j, rest)
         \<and> Initialize_params j = Initialize_params inst)"
proof -
  note ok = assms(1) [unfolded borsh_ok_def] and ps = assms(2) [unfolded Initialize_params_set_def]
  obtain b1 where e1: "enc (bo_string B) (ini_BridgeId inst) = Inr b1"
      "\<And>rest. dec (bo_string B) (b1 @ rest) = Inr (ini_BridgeId inst, rest)"
    using ok ps codec_okD [of _ "bo_string B" "ini_BridgeId inst"] by blast
  obtain b2 where e2: "enc (bo_keys B) (ini_Authorities inst) = Inr b2"
      "\<And>rest. dec (bo_keys B) (b2 @ rest) = Inr (ini_Authorities inst, rest)"
    using ok ps codec_okD [of _ "bo_keys B" "ini_Authorities inst"] by blast
  show ?thesis
    by (rule exI [of _ "b1 @ b2"])
       (simp add: Initialize_MarshalWithEncoder_def Initialize_UnmarshalWithDecoder_def Initialize_params_def
          e1 e2)
qed

interpretation ini_codec: instruction_codec Initialize_MarshalWithEncoder Initialize_UnmarshalWithDecoder
    Initialize_params_set Initialize_params
  by unfold_locales (rule Initialize_roundtrip)

lemma Initialize_New_valid:
  "Initialize_Validate (NewInitializeInstruction bridge_id authorities authority signer systemProgram) = Returned None"
  by (simp add: NewInitializeInstruction_def NewInitializeInstructionBuilder_def zero_Initialize_def Initialize_setters
      Initialize_Validate_def validate_def numeral_eq_Suc)

subsection \<open>\<open>ChangeAuthority\<close> (\<open>change_authority.go\<close>)\<close>

record ChangeAuthority =
  ca_BridgeId :: "string option"
  ca_NewAuthorities :: "bytes list option"
  ca_NewNonce :: "uint64 option"
  ca_Signature :: "bytes option"
  ca_RecoveryId :: "byte option"
  ca_AccountMetaSlice :: "AccountMeta option list"

text \<open>The zero value \<open>ChangeAuthority{}\<close>, and the builder with its fixed account.\<close>

definition zero_ChangeAuthority :: ChangeAuthority where
  "zero_ChangeAuthority = \<lparr>ca_BridgeId = None, ca_NewAuthorities = None, ca_NewNonce = None, ca_Signature = None, ca_RecoveryId = None,
     ca_AccountMetaSlice = []\<rparr>"

definition NewChangeAuthorityInstructionBuilder :: ChangeAuthority where
  "NewChangeAuthorityInstructionBuilder =
     zero_ChangeAuthority\<lparr>ca_AccountMetaSlice := replicate 2 None\<rparr>"

definition ChangeAuthority_SetBridgeId :: "string \<Rightarrow> ChangeAuthority \<Rightarrow> ChangeAuthority" where
  "ChangeAuthority_SetBridgeId v inst = inst\<lparr>ca_BridgeId := Some v\<rparr>"

definition ChangeAuthority_SetNewAuthorities :: "bytes list \<Rightarrow> ChangeAuthority \<Rightarrow> ChangeAuthority" where
  "ChangeAuthority_SetNewAuthorities v inst = inst\<lparr>ca_NewAuthorities := Some v\<rparr>"

definition ChangeAuthority_SetNewNonce :: "uint64 \<Rightarrow> ChangeAuthority \<Rightarrow> ChangeAuthority" where
  "ChangeAuthority_SetNewNonce v inst = inst\<lparr>ca_NewNonce := Some v\<rparr>"

definition ChangeAuthority_SetSignature :: "bytes \<Rightarrow> ChangeAuthority \<Rightarrow> ChangeAuthority" where
  "ChangeAuthority_SetSignature v inst = inst\<lparr>ca_Signature := Some v\<rparr>"

definition ChangeAuthority_SetRecoveryId :: "byte \<Rightarrow> ChangeAuthority \<Rightarrow> ChangeAuthority" where
  "ChangeAuthority_SetRecoveryId v inst = inst\<lparr>ca_RecoveryId := Some v\<rparr>"

definition ChangeAuthority_SetAuthorityAccount :: "pubkey \<Rightarrow> ChangeAuthority \<Rightarrow> ChangeAuthority" where
  "ChangeAuthority_SetAuthorityAccount v inst =
     inst\<lparr>ca_AccountMetaSlice := (ca_AccountMetaSlice inst)[0 := Some (WRITE (Meta v))]\<rparr>"

definition ChangeAuthority_SetSignerAccount :: "pubkey \<Rightarrow> ChangeAuthority \<Rightarrow> ChangeAuthority" where
  "ChangeAuthority_SetSignerAccount v inst =
     inst\<lparr>ca_AccountMetaSlice := (ca_AccountMetaSlice inst)[1 := Some (SIGNER (WRITE (Meta v)))]\<rparr>"

lemmas ChangeAuthority_setters = ChangeAuthority_SetBridgeId_def
  ChangeAuthority_SetNewAuthorities_def
  ChangeAuthority_SetNewNonce_def
  ChangeAuthority_SetSignature_def
  ChangeAuthority_SetRecoveryId_def
  ChangeAuthority_SetAuthorityAccount_def
  ChangeAuthority_SetSignerAccount_def

definition ChangeAuthority_findAuthorityAddress :: "pda_lib \<Rightarrow> pubkey \<Rightarrow> string \<Rightarrow> byte \<Rightarrow> go_error + pubkey \<times> byte" where
  "ChangeAuthority_findAuthorityAddress S programID bridgeId knownBumpSeed = find_address S programID
     [Inr (bytes_of_string ''authority''), MarshalBorsh_string S bridgeId] knownBumpSeed"

definition ChangeAuthority_findAuthorityAddressWithBumpSeed :: "pda_lib \<Rightarrow> pubkey \<Rightarrow> string \<Rightarrow> byte \<Rightarrow> go_error + pubkey" where
  "ChangeAuthority_findAuthorityAddressWithBumpSeed S programID bridgeId bumpSeed = map_sum id fst (ChangeAuthority_findAuthorityAddress S programID bridgeId bumpSeed)"

definition ChangeAuthority_Validate :: "ChangeAuthority \<Rightarrow> go_error option go_result" where
  "ChangeAuthority_Validate inst = validate
     [(ca_BridgeId inst = None, ''BridgeId''),
      (ca_NewAuthorities inst = None, ''NewAuthorities''),
      (ca_NewNonce inst = None, ''NewNonce''),
      (ca_Signature inst = None, ''Signature''),
      (ca_RecoveryId inst = None, ''RecoveryId'')]
     (ca_AccountMetaSlice inst) [''Authority'', ''Signer'']"

definition ChangeAuthority_MarshalWithEncoder :: "borsh \<Rightarrow> ChangeAuthority \<Rightarrow> go_error + bytes" where
  "ChangeAuthority_MarshalWithEncoder B inst = enc_all
     [enc (bo_string B) (ca_BridgeId inst),
      enc (bo_keys B) (ca_NewAuthorities inst),
      enc (bo_u64 B) (ca_NewNonce inst),
      enc (bo_array B 64) (ca_Signature inst),
      enc (bo_u8 B) (ca_RecoveryId inst)]"

definition ChangeAuthority_UnmarshalWithDecoder ::
  "borsh \<Rightarrow> ChangeAuthority \<Rightarrow> bytes \<Rightarrow> go_error + ChangeAuthority \<times> bytes" where
  "ChangeAuthority_UnmarshalWithDecoder B inst r0 =
     dec_then (bo_string B) r0 (\<lambda>v1 r1.
     dec_then (bo_keys B) r1 (\<lambda>v2 r2.
     dec_then (bo_u64 B) r2 (\<lambda>v3 r3.
     dec_then (bo_array B 64) r3 (\<lambda>v4 r4.
     dec_then (bo_u8 B) r4 (\<lambda>v5 r5.
     Inr (inst\<lparr>ca_BridgeId := v1, ca_NewAuthorities := v2, ca_NewNonce := v3, ca_Signature := v4, ca_RecoveryId := v5\<rparr>, r5))))))"

definition ChangeAuthority_Build :: "ChangeAuthority \<Rightarrow> Instruction" where
  "ChangeAuthority_Build inst = \<lparr>in_TypeID = Instruction_ChangeAuthority, in_Accounts = ca_AccountMetaSlice inst,
     in_Impl = (\<lambda>B. ChangeAuthority_MarshalWithEncoder B inst)\<rparr>"

definition ChangeAuthority_ValidateAndBuild :: "ChangeAuthority \<Rightarrow> (go_error + Instruction) go_result" where
  "ChangeAuthority_ValidateAndBuild inst = (case ChangeAuthority_Validate inst of Panic m \<Rightarrow> Panic m
     | Returned (Some err) \<Rightarrow> Returned (Inl err)
     | Returned None \<Rightarrow> Returned (Inr (ChangeAuthority_Build inst)))"

definition NewChangeAuthorityInstruction ::
  "string \<Rightarrow> bytes list \<Rightarrow> uint64 \<Rightarrow> bytes \<Rightarrow> byte \<Rightarrow> pubkey \<Rightarrow> pubkey \<Rightarrow> ChangeAuthority" where
  "NewChangeAuthorityInstruction bridge_id new_authorities new_nonce signature recovery_id authority signer =
    (ChangeAuthority_SetSignerAccount signer \<circ>
     ChangeAuthority_SetAuthorityAccount authority \<circ>
     ChangeAuthority_SetRecoveryId recovery_id \<circ>
     ChangeAuthority_SetSignature signature \<circ>
     ChangeAuthority_SetNewNonce new_nonce \<circ>
     ChangeAuthority_SetNewAuthorities new_authorities \<circ>
     ChangeAuthority_SetBridgeId bridge_id)
       NewChangeAuthorityInstructionBuilder"

text \<open>The codec contract for \<open>ChangeAuthority\<close>.\<close>

definition ChangeAuthority_params_set :: "ChangeAuthority \<Rightarrow> bool" where
  "ChangeAuthority_params_set inst \<longleftrightarrow> set_to short_string (ca_BridgeId inst)
     \<and> set_to key_list (ca_NewAuthorities inst)
     \<and> set_to (\<lambda>_. True) (ca_NewNonce inst)
     \<and> set_to (\<lambda>bs. length bs = 64) (ca_Signature inst)
     \<and> set_to (\<lambda>_. True) (ca_RecoveryId inst)"

definition ChangeAuthority_params :: "ChangeAuthority \<Rightarrow> ChangeAuthority" where
  "ChangeAuthority_params inst = inst\<lparr>ca_AccountMetaSlice := []\<rparr>"

lemma ChangeAuthority_roundtrip:
  assumes "borsh_ok B" and "ChangeAuthority_params_set inst"
  shows "\<exists>bs. ChangeAuthority_MarshalWithEncoder B inst = Inr bs
    \<and> (\<forall>obj rest. \<exists>j. ChangeAuthority_UnmarshalWithDecoder B obj (bs @ rest) = Inr (j, rest)
         \<and> ChangeAuthority_params j = ChangeAuthority_params inst)"
proof -
  note ok = assms(1) [unfolded borsh_ok_def] and ps = assms(2) [unfolded ChangeAuthority_params_set_def]
  obtain b1 where e1: "enc (bo_string B) (ca_BridgeId inst) = Inr b1"
      "\<And>rest. dec (bo_string B) (b1 @ rest) = Inr (ca_BridgeId inst, rest)"
    using ok ps codec_okD [of _ "bo_string B" "ca_BridgeId inst"] by blast
  obtain b2 where e2: "enc (bo_keys B) (ca_NewAuthorities inst) = Inr b2"
      "\<And>rest. dec (bo_keys B) (b2 @ rest) = Inr (ca_NewAuthorities inst, rest)"
    using ok ps codec_okD [of _ "bo_keys B" "ca_NewAuthorities inst"] by blast
  obtain b3 where e3: "enc (bo_u64 B) (ca_NewNonce inst) = Inr b3"
      "\<And>rest. dec (bo_u64 B) (b3 @ rest) = Inr (ca_NewNonce inst, rest)"
    using ok ps codec_okD [of _ "bo_u64 B" "ca_NewNonce inst"] by blast
  obtain b4 where e4: "enc (bo_array B 64) (ca_Signature inst) = Inr b4"
      "\<And>rest. dec (bo_array B 64) (b4 @ rest) = Inr (ca_Signature inst, rest)"
    using ok ps codec_okD [of _ "bo_array B 64" "ca_Signature inst"] by blast
  obtain b5 where e5: "enc (bo_u8 B) (ca_RecoveryId inst) = Inr b5"
      "\<And>rest. dec (bo_u8 B) (b5 @ rest) = Inr (ca_RecoveryId inst, rest)"
    using ok ps codec_okD [of _ "bo_u8 B" "ca_RecoveryId inst"] by blast
  show ?thesis
    by (rule exI [of _ "b1 @ b2 @ b3 @ b4 @ b5"])
       (simp add: ChangeAuthority_MarshalWithEncoder_def ChangeAuthority_UnmarshalWithDecoder_def ChangeAuthority_params_def
          e1 e2 e3 e4 e5)
qed

interpretation ca_codec: instruction_codec ChangeAuthority_MarshalWithEncoder ChangeAuthority_UnmarshalWithDecoder
    ChangeAuthority_params_set ChangeAuthority_params
  by unfold_locales (rule ChangeAuthority_roundtrip)

lemma ChangeAuthority_New_valid:
  "ChangeAuthority_Validate (NewChangeAuthorityInstruction bridge_id new_authorities new_nonce signature recovery_id authority signer) = Returned None"
  by (simp add: NewChangeAuthorityInstruction_def NewChangeAuthorityInstructionBuilder_def zero_ChangeAuthority_def ChangeAuthority_setters
      ChangeAuthority_Validate_def validate_def numeral_eq_Suc)

subsection \<open>\<open>InitWrappedMint\<close> (\<open>init_wrapped_mint.go\<close>)\<close>

record InitWrappedMint =
  im_BridgeId :: "string option"
  im_Decimals :: "byte option"
  im_MintNonce :: "uint64 option"
  im_Symbol :: "string option"
  im_Name :: "string option"
  im_Uri :: "string option"
  im_AccountMetaSlice :: "AccountMeta option list"

text \<open>The zero value \<open>InitWrappedMint{}\<close>, and the builder with its fixed account.\<close>

definition zero_InitWrappedMint :: InitWrappedMint where
  "zero_InitWrappedMint = \<lparr>im_BridgeId = None, im_Decimals = None, im_MintNonce = None, im_Symbol = None, im_Name = None, im_Uri = None,
     im_AccountMetaSlice = []\<rparr>"

definition NewInitWrappedMintInstructionBuilder :: InitWrappedMint where
  "NewInitWrappedMintInstructionBuilder =
     zero_InitWrappedMint\<lparr>im_AccountMetaSlice := (replicate 4 None)[3 := Some (Meta SystemProgramAddress)]\<rparr>"

definition InitWrappedMint_SetBridgeId :: "string \<Rightarrow> InitWrappedMint \<Rightarrow> InitWrappedMint" where
  "InitWrappedMint_SetBridgeId v inst = inst\<lparr>im_BridgeId := Some v\<rparr>"

definition InitWrappedMint_SetDecimals :: "byte \<Rightarrow> InitWrappedMint \<Rightarrow> InitWrappedMint" where
  "InitWrappedMint_SetDecimals v inst = inst\<lparr>im_Decimals := Some v\<rparr>"

definition InitWrappedMint_SetMintNonce :: "uint64 \<Rightarrow> InitWrappedMint \<Rightarrow> InitWrappedMint" where
  "InitWrappedMint_SetMintNonce v inst = inst\<lparr>im_MintNonce := Some v\<rparr>"

definition InitWrappedMint_SetSymbol :: "string \<Rightarrow> InitWrappedMint \<Rightarrow> InitWrappedMint" where
  "InitWrappedMint_SetSymbol v inst = inst\<lparr>im_Symbol := Some v\<rparr>"

definition InitWrappedMint_SetName :: "string \<Rightarrow> InitWrappedMint \<Rightarrow> InitWrappedMint" where
  "InitWrappedMint_SetName v inst = inst\<lparr>im_Name := Some v\<rparr>"

definition InitWrappedMint_SetUri :: "string \<Rightarrow> InitWrappedMint \<Rightarrow> InitWrappedMint" where
  "InitWrappedMint_SetUri v inst = inst\<lparr>im_Uri := Some v\<rparr>"

definition InitWrappedMint_SetMintAccount :: "pubkey \<Rightarrow> InitWrappedMint \<Rightarrow> InitWrappedMint" where
  "InitWrappedMint_SetMintAccount v inst =
     inst\<lparr>im_AccountMetaSlice := (im_AccountMetaSlice inst)[0 := Some (WRITE (Meta v))]\<rparr>"

definition InitWrappedMint_SetSignerAccount :: "pubkey \<Rightarrow> InitWrappedMint \<Rightarrow> InitWrappedMint" where
  "InitWrappedMint_SetSignerAccount v inst =
     inst\<lparr>im_AccountMetaSlice := (im_AccountMetaSlice inst)[1 := Some (SIGNER (WRITE (Meta v)))]\<rparr>"

definition InitWrappedMint_SetTokenProgramAccount :: "pubkey \<Rightarrow> InitWrappedMint \<Rightarrow> InitWrappedMint" where
  "InitWrappedMint_SetTokenProgramAccount v inst =
     inst\<lparr>im_AccountMetaSlice := (im_AccountMetaSlice inst)[2 := Some (Meta v)]\<rparr>"

definition InitWrappedMint_SetSystemProgramAccount :: "pubkey \<Rightarrow> InitWrappedMint \<Rightarrow> InitWrappedMint" where
  "InitWrappedMint_SetSystemProgramAccount v inst =
     inst\<lparr>im_AccountMetaSlice := (im_AccountMetaSlice inst)[3 := Some (Meta v)]\<rparr>"

lemmas InitWrappedMint_setters = InitWrappedMint_SetBridgeId_def
  InitWrappedMint_SetDecimals_def
  InitWrappedMint_SetMintNonce_def
  InitWrappedMint_SetSymbol_def
  InitWrappedMint_SetName_def
  InitWrappedMint_SetUri_def
  InitWrappedMint_SetMintAccount_def
  InitWrappedMint_SetSignerAccount_def
  InitWrappedMint_SetTokenProgramAccount_def
  InitWrappedMint_SetSystemProgramAccount_def

definition InitWrappedMint_findMintAddress :: "pda_lib \<Rightarrow> pubkey \<Rightarrow> string \<Rightarrow> uint64 \<Rightarrow> string \<Rightarrow> byte \<Rightarrow> go_error + pubkey \<times> byte" where
  "InitWrappedMint_findMintAddress S programID symbol mintNonce bridgeId knownBumpSeed = find_address S programID
     [Inr (bytes_of_string ''mint''), MarshalBorsh_string S symbol, MarshalBorsh_u64 S mintNonce, MarshalBorsh_string S bridgeId] knownBumpSeed"

definition InitWrappedMint_findMintAddressWithBumpSeed :: "pda_lib \<Rightarrow> pubkey \<Rightarrow> string \<Rightarrow> uint64 \<Rightarrow> string \<Rightarrow> byte \<Rightarrow> go_error + pubkey" where
  "InitWrappedMint_findMintAddressWithBumpSeed S programID symbol mintNonce bridgeId bumpSeed = map_sum id fst (InitWrappedMint_findMintAddress S programID symbol mintNonce bridgeId bumpSeed)"

definition InitWrappedMint_Validate :: "InitWrappedMint \<Rightarrow> go_error option go_result" where
  "InitWrappedMint_Validate inst = validate
     [(im_BridgeId inst = None, ''BridgeId''),
      (im_Decimals inst = None, ''Decimals''),
      (im_MintNonce inst = None, ''MintNonce''),
      (im_Symbol inst = None, ''Symbol''),
      (im_Name inst = None, ''Name''),
      (im_Uri inst = None, ''Uri'')]
     (im_AccountMetaSlice inst) [''Mint'', ''Signer'', ''TokenProgram'', ''SystemProgram'']"

definition InitWrappedMint_MarshalWithEncoder :: "borsh \<Rightarrow> InitWrappedMint \<Rightarrow> go_error + bytes" where
  "InitWrappedMint_MarshalWithEncoder B inst = enc_all
     [enc (bo_string B) (im_BridgeId inst),
      enc (bo_u8 B) (im_Decimals inst),
      enc (bo_u64 B) (im_MintNonce inst),
      enc (bo_string B) (im_Symbol inst),
      enc (bo_string B) (im_Name inst),
      enc (bo_string B) (im_Uri inst)]"

definition InitWrappedMint_UnmarshalWithDecoder ::
  "borsh \<Rightarrow> InitWrappedMint \<Rightarrow> bytes \<Rightarrow> go_error + InitWrappedMint \<times> bytes" where
  "InitWrappedMint_UnmarshalWithDecoder B inst r0 =
     dec_then (bo_string B) r0 (\<lambda>v1 r1.
     dec_then (bo_u8 B) r1 (\<lambda>v2 r2.
     dec_then (bo_u64 B) r2 (\<lambda>v3 r3.
     dec_then (bo_string B) r3 (\<lambda>v4 r4.
     dec_then (bo_string B) r4 (\<lambda>v5 r5.
     dec_then (bo_string B) r5 (\<lambda>v6 r6.
     Inr (inst\<lparr>im_BridgeId := v1, im_Decimals := v2, im_MintNonce := v3, im_Symbol := v4, im_Name := v5, im_Uri := v6\<rparr>, r6)))))))"

definition InitWrappedMint_Build :: "InitWrappedMint \<Rightarrow> Instruction" where
  "InitWrappedMint_Build inst = \<lparr>in_TypeID = Instruction_InitWrappedMint, in_Accounts = im_AccountMetaSlice inst,
     in_Impl = (\<lambda>B. InitWrappedMint_MarshalWithEncoder B inst)\<rparr>"

definition InitWrappedMint_ValidateAndBuild :: "InitWrappedMint \<Rightarrow> (go_error + Instruction) go_result" where
  "InitWrappedMint_ValidateAndBuild inst = (case InitWrappedMint_Validate inst of Panic m \<Rightarrow> Panic m
     | Returned (Some err) \<Rightarrow> Returned (Inl err)
     | Returned None \<Rightarrow> Returned (Inr (InitWrappedMint_Build inst)))"

definition NewInitWrappedMintInstruction ::
  "string \<Rightarrow> byte \<Rightarrow> uint64 \<Rightarrow> string \<Rightarrow> string \<Rightarrow> string \<Rightarrow> pubkey \<Rightarrow> pubkey \<Rightarrow> pubkey \<Rightarrow> pubkey \<Rightarrow> InitWrappedMint" where
  "NewInitWrappedMintInstruction bridge_id decimals mint_nonce symbol name uri mint signer tokenProgram systemProgram =
    (InitWrappedMint_SetSystemProgramAccount systemProgram \<circ>
     InitWrappedMint_SetTokenProgramAccount tokenProgram \<circ>
     InitWrappedMint_SetSignerAccount signer \<circ>
     InitWrappedMint_SetMintAccount mint \<circ>
     InitWrappedMint_SetUri uri \<circ>
     InitWrappedMint_SetName name \<circ>
     InitWrappedMint_SetSymbol symbol \<circ>
     InitWrappedMint_SetMintNonce mint_nonce \<circ>
     InitWrappedMint_SetDecimals decimals \<circ>
     InitWrappedMint_SetBridgeId bridge_id)
       NewInitWrappedMintInstructionBuilder"

text \<open>The codec contract for \<open>InitWrappedMint\<close>.\<close>

definition InitWrappedMint_params_set :: "InitWrappedMint \<Rightarrow> bool" where
  "InitWrappedMint_params_set inst \<longleftrightarrow> set_to short_string (im_BridgeId inst)
     \<and> set_to (\<lambda>_. True) (im_Decimals inst)
     \<and> set_to (\<lambda>_. True) (im_MintNonce inst)
     \<and> set_to short_string (im_Symbol inst)
     \<and> set_to short_string (im_Name inst)
     \<and> set_to short_string (im_Uri inst)"

definition InitWrappedMint_params :: "InitWrappedMint \<Rightarrow> InitWrappedMint" where
  "InitWrappedMint_params inst = inst\<lparr>im_AccountMetaSlice := []\<rparr>"

lemma InitWrappedMint_roundtrip:
  assumes "borsh_ok B" and "InitWrappedMint_params_set inst"
  shows "\<exists>bs. InitWrappedMint_MarshalWithEncoder B inst = Inr bs
    \<and> (\<forall>obj rest. \<exists>j. InitWrappedMint_UnmarshalWithDecoder B obj (bs @ rest) = Inr (j, rest)
         \<and> InitWrappedMint_params j = InitWrappedMint_params inst)"
proof -
  note ok = assms(1) [unfolded borsh_ok_def] and ps = assms(2) [unfolded InitWrappedMint_params_set_def]
  obtain b1 where e1: "enc (bo_string B) (im_BridgeId inst) = Inr b1"
      "\<And>rest. dec (bo_string B) (b1 @ rest) = Inr (im_BridgeId inst, rest)"
    using ok ps codec_okD [of _ "bo_string B" "im_BridgeId inst"] by blast
  obtain b2 where e2: "enc (bo_u8 B) (im_Decimals inst) = Inr b2"
      "\<And>rest. dec (bo_u8 B) (b2 @ rest) = Inr (im_Decimals inst, rest)"
    using ok ps codec_okD [of _ "bo_u8 B" "im_Decimals inst"] by blast
  obtain b3 where e3: "enc (bo_u64 B) (im_MintNonce inst) = Inr b3"
      "\<And>rest. dec (bo_u64 B) (b3 @ rest) = Inr (im_MintNonce inst, rest)"
    using ok ps codec_okD [of _ "bo_u64 B" "im_MintNonce inst"] by blast
  obtain b4 where e4: "enc (bo_string B) (im_Symbol inst) = Inr b4"
      "\<And>rest. dec (bo_string B) (b4 @ rest) = Inr (im_Symbol inst, rest)"
    using ok ps codec_okD [of _ "bo_string B" "im_Symbol inst"] by blast
  obtain b5 where e5: "enc (bo_string B) (im_Name inst) = Inr b5"
      "\<And>rest. dec (bo_string B) (b5 @ rest) = Inr (im_Name inst, rest)"
    using ok ps codec_okD [of _ "bo_string B" "im_Name inst"] by blast
  obtain b6 where e6: "enc (bo_string B) (im_Uri inst) = Inr b6"
      "\<And>rest. dec (bo_string B) (b6 @ rest) = Inr (im_Uri inst, rest)"
    using ok ps codec_okD [of _ "bo_string B" "im_Uri inst"] by blast
  show ?thesis
    by (rule exI [of _ "b1 @ b2 @ b3 @ b4 @ b5 @ b6"])
       (simp add: InitWrappedMint_MarshalWithEncoder_def InitWrappedMint_UnmarshalWithDecoder_def InitWrappedMint_params_def
          e1 e2 e3 e4 e5 e6)
qed

interpretation im_codec: instruction_codec InitWrappedMint_MarshalWithEncoder InitWrappedMint_UnmarshalWithDecoder
    InitWrappedMint_params_set InitWrappedMint_params
  by unfold_locales (rule InitWrappedMint_roundtrip)

lemma InitWrappedMint_New_valid:
  "InitWrappedMint_Validate (NewInitWrappedMintInstruction bridge_id decimals mint_nonce symbol name uri mint signer tokenProgram systemProgram) = Returned None"
  by (simp add: NewInitWrappedMintInstruction_def NewInitWrappedMintInstructionBuilder_def zero_InitWrappedMint_def InitWrappedMint_setters
      InitWrappedMint_Validate_def validate_def numeral_eq_Suc)

subsection \<open>\<open>DepositNative\<close> (\<open>deposit_native.go\<close>)\<close>

record DepositNative =
  dn_BridgeId :: "string option"
  dn_Amount :: "uint64 option"
  dn_ChainId :: "string option"
  dn_Address :: "string option"
  dn_ReferralId :: "uint16 option"
  dn_AccountMetaSlice :: "AccountMeta option list"

text \<open>The zero value \<open>DepositNative{}\<close>, and the builder with its fixed account.\<close>

definition zero_DepositNative :: DepositNative where
  "zero_DepositNative = \<lparr>dn_BridgeId = None, dn_Amount = None, dn_ChainId = None, dn_Address = None, dn_ReferralId = None,
     dn_AccountMetaSlice = []\<rparr>"

definition NewDepositNativeInstructionBuilder :: DepositNative where
  "NewDepositNativeInstructionBuilder =
     zero_DepositNative\<lparr>dn_AccountMetaSlice := (replicate 3 None)[2 := Some (Meta SystemProgramAddress)]\<rparr>"

definition DepositNative_SetBridgeId :: "string \<Rightarrow> DepositNative \<Rightarrow> DepositNative" where
  "DepositNative_SetBridgeId v inst = inst\<lparr>dn_BridgeId := Some v\<rparr>"

definition DepositNative_SetAmount :: "uint64 \<Rightarrow> DepositNative \<Rightarrow> DepositNative" where
  "DepositNative_SetAmount v inst = inst\<lparr>dn_Amount := Some v\<rparr>"

definition DepositNative_SetChainId :: "string \<Rightarrow> DepositNative \<Rightarrow> DepositNative" where
  "DepositNative_SetChainId v inst = inst\<lparr>dn_ChainId := Some v\<rparr>"

definition DepositNative_SetAddress :: "string \<Rightarrow> DepositNative \<Rightarrow> DepositNative" where
  "DepositNative_SetAddress v inst = inst\<lparr>dn_Address := Some v\<rparr>"

definition DepositNative_SetReferralId :: "uint16 \<Rightarrow> DepositNative \<Rightarrow> DepositNative" where
  "DepositNative_SetReferralId v inst = inst\<lparr>dn_ReferralId := Some v\<rparr>"

definition DepositNative_SetAuthorityAccount :: "pubkey \<Rightarrow> DepositNative \<Rightarrow> DepositNative" where
  "DepositNative_SetAuthorityAccount v inst =
     inst\<lparr>dn_AccountMetaSlice := (dn_AccountMetaSlice inst)[0 := Some (WRITE (Meta v))]\<rparr>"

definition DepositNative_SetSenderAccount :: "pubkey \<Rightarrow> DepositNative \<Rightarrow> DepositNative" where
  "DepositNative_SetSenderAccount v inst =
     inst\<lparr>dn_AccountMetaSlice := (dn_AccountMetaSlice inst)[1 := Some (SIGNER (WRITE (Meta v)))]\<rparr>"

definition DepositNative_SetSystemProgramAccount :: "pubkey \<Rightarrow> DepositNative \<Rightarrow> DepositNative" where
  "DepositNative_SetSystemProgramAccount v inst =
     inst\<lparr>dn_AccountMetaSlice := (dn_AccountMetaSlice inst)[2 := Some (Meta v)]\<rparr>"

lemmas DepositNative_setters = DepositNative_SetBridgeId_def
  DepositNative_SetAmount_def
  DepositNative_SetChainId_def
  DepositNative_SetAddress_def
  DepositNative_SetReferralId_def
  DepositNative_SetAuthorityAccount_def
  DepositNative_SetSenderAccount_def
  DepositNative_SetSystemProgramAccount_def

definition DepositNative_findAuthorityAddress :: "pda_lib \<Rightarrow> pubkey \<Rightarrow> string \<Rightarrow> byte \<Rightarrow> go_error + pubkey \<times> byte" where
  "DepositNative_findAuthorityAddress S programID bridgeId knownBumpSeed = find_address S programID
     [Inr (bytes_of_string ''authority''), MarshalBorsh_string S bridgeId] knownBumpSeed"

definition DepositNative_findAuthorityAddressWithBumpSeed :: "pda_lib \<Rightarrow> pubkey \<Rightarrow> string \<Rightarrow> byte \<Rightarrow> go_error + pubkey" where
  "DepositNative_findAuthorityAddressWithBumpSeed S programID bridgeId bumpSeed = map_sum id fst (DepositNative_findAuthorityAddress S programID bridgeId bumpSeed)"

definition DepositNative_Validate :: "DepositNative \<Rightarrow> go_error option go_result" where
  "DepositNative_Validate inst = validate
     [(dn_BridgeId inst = None, ''BridgeId''),
      (dn_Amount inst = None, ''Amount''),
      (dn_ChainId inst = None, ''ChainId''),
      (dn_Address inst = None, ''Address''),
      (dn_ReferralId inst = None, ''ReferralId'')]
     (dn_AccountMetaSlice inst) [''Authority'', ''Sender'', ''SystemProgram'']"

definition DepositNative_MarshalWithEncoder :: "borsh \<Rightarrow> DepositNative \<Rightarrow> go_error + bytes" where
  "DepositNative_MarshalWithEncoder B inst = enc_all
     [enc (bo_string B) (dn_BridgeId inst),
      enc (bo_u64 B) (dn_Amount inst),
      enc (bo_string B) (dn_ChainId inst),
      enc (bo_string B) (dn_Address inst),
      enc (bo_u16 B) (dn_ReferralId inst)]"

definition DepositNative_UnmarshalWithDecoder ::
  "borsh \<Rightarrow> DepositNative \<Rightarrow> bytes \<Rightarrow> go_error + DepositNative \<times> bytes" where
  "DepositNative_UnmarshalWithDecoder B inst r0 =
     dec_then (bo_string B) r0 (\<lambda>v1 r1.
     dec_then (bo_u64 B) r1 (\<lambda>v2 r2.
     dec_then (bo_string B) r2 (\<lambda>v3 r3.
     dec_then (bo_string B) r3 (\<lambda>v4 r4.
     dec_then (bo_u16 B) r4 (\<lambda>v5 r5.
     Inr (inst\<lparr>dn_BridgeId := v1, dn_Amount := v2, dn_ChainId := v3, dn_Address := v4, dn_ReferralId := v5\<rparr>, r5))))))"

definition DepositNative_Build :: "DepositNative \<Rightarrow> Instruction" where
  "DepositNative_Build inst = \<lparr>in_TypeID = Instruction_DepositNative, in_Accounts = dn_AccountMetaSlice inst,
     in_Impl = (\<lambda>B. DepositNative_MarshalWithEncoder B inst)\<rparr>"

definition DepositNative_ValidateAndBuild :: "DepositNative \<Rightarrow> (go_error + Instruction) go_result" where
  "DepositNative_ValidateAndBuild inst = (case DepositNative_Validate inst of Panic m \<Rightarrow> Panic m
     | Returned (Some err) \<Rightarrow> Returned (Inl err)
     | Returned None \<Rightarrow> Returned (Inr (DepositNative_Build inst)))"

definition NewDepositNativeInstruction ::
  "string \<Rightarrow> uint64 \<Rightarrow> string \<Rightarrow> string \<Rightarrow> uint16 \<Rightarrow> pubkey \<Rightarrow> pubkey \<Rightarrow> pubkey \<Rightarrow> DepositNative" where
  "NewDepositNativeInstruction bridge_id amount chain_id address referral_id authority sender systemProgram =
    (DepositNative_SetSystemProgramAccount systemProgram \<circ>
     DepositNative_SetSenderAccount sender \<circ>
     DepositNative_SetAuthorityAccount authority \<circ>
     DepositNative_SetReferralId referral_id \<circ>
     DepositNative_SetAddress address \<circ>
     DepositNative_SetChainId chain_id \<circ>
     DepositNative_SetAmount amount \<circ>
     DepositNative_SetBridgeId bridge_id)
       NewDepositNativeInstructionBuilder"

text \<open>The codec contract for \<open>DepositNative\<close>.\<close>

definition DepositNative_params_set :: "DepositNative \<Rightarrow> bool" where
  "DepositNative_params_set inst \<longleftrightarrow> set_to short_string (dn_BridgeId inst)
     \<and> set_to (\<lambda>_. True) (dn_Amount inst)
     \<and> set_to short_string (dn_ChainId inst)
     \<and> set_to short_string (dn_Address inst)
     \<and> set_to (\<lambda>_. True) (dn_ReferralId inst)"

definition DepositNative_params :: "DepositNative \<Rightarrow> DepositNative" where
  "DepositNative_params inst = inst\<lparr>dn_AccountMetaSlice := []\<rparr>"

lemma DepositNative_roundtrip:
  assumes "borsh_ok B" and "DepositNative_params_set inst"
  shows "\<exists>bs. DepositNative_MarshalWithEncoder B inst = Inr bs
    \<and> (\<forall>obj rest. \<exists>j. DepositNative_UnmarshalWithDecoder B obj (bs @ rest) = Inr (j, rest)
         \<and> DepositNative_params j = DepositNative_params inst)"
proof -
  note ok = assms(1) [unfolded borsh_ok_def] and ps = assms(2) [unfolded DepositNative_params_set_def]
  obtain b1 where e1: "enc (bo_string B) (dn_BridgeId inst) = Inr b1"
      "\<And>rest. dec (bo_string B) (b1 @ rest) = Inr (dn_BridgeId inst, rest)"
    using ok ps codec_okD [of _ "bo_string B" "dn_BridgeId inst"] by blast
  obtain b2 where e2: "enc (bo_u64 B) (dn_Amount inst) = Inr b2"
      "\<And>rest. dec (bo_u64 B) (b2 @ rest) = Inr (dn_Amount inst, rest)"
    using ok ps codec_okD [of _ "bo_u64 B" "dn_Amount inst"] by blast
  obtain b3 where e3: "enc (bo_string B) (dn_ChainId inst) = Inr b3"
      "\<And>rest. dec (bo_string B) (b3 @ rest) = Inr (dn_ChainId inst, rest)"
    using ok ps codec_okD [of _ "bo_string B" "dn_ChainId inst"] by blast
  obtain b4 where e4: "enc (bo_string B) (dn_Address inst) = Inr b4"
      "\<And>rest. dec (bo_string B) (b4 @ rest) = Inr (dn_Address inst, rest)"
    using ok ps codec_okD [of _ "bo_string B" "dn_Address inst"] by blast
  obtain b5 where e5: "enc (bo_u16 B) (dn_ReferralId inst) = Inr b5"
      "\<And>rest. dec (bo_u16 B) (b5 @ rest) = Inr (dn_ReferralId inst, rest)"
    using ok ps codec_okD [of _ "bo_u16 B" "dn_ReferralId inst"] by blast
  show ?thesis
    by (rule exI [of _ "b1 @ b2 @ b3 @ b4 @ b5"])
       (simp add: DepositNative_MarshalWithEncoder_def DepositNative_UnmarshalWithDecoder_def DepositNative_params_def
          e1 e2 e3 e4 e5)
qed

interpretation dn_codec: instruction_codec DepositNative_MarshalWithEncoder DepositNative_UnmarshalWithDecoder
    DepositNative_params_set DepositNative_params
  by unfold_locales (rule DepositNative_roundtrip)

lemma DepositNative_New_valid:
  "DepositNative_Validate (NewDepositNativeInstruction bridge_id amount chain_id address referral_id authority sender systemProgram) = Returned None"
  by (simp add: NewDepositNativeInstruction_def NewDepositNativeInstructionBuilder_def zero_DepositNative_def DepositNative_setters
      DepositNative_Validate_def validate_def numeral_eq_Suc)

subsection \<open>\<open>DepositSpl\<close> (\<open>deposit_spl.go\<close>)\<close>

record DepositSpl =
  ds_BridgeId :: "string option"
  ds_Amount :: "uint64 option"
  ds_ChainId :: "string option"
  ds_Address :: "string option"
  ds_ReferralId :: "uint16 option"
  ds_AccountMetaSlice :: "AccountMeta option list"

text \<open>The zero value \<open>DepositSpl{}\<close>, and the builder with its fixed account.\<close>

definition zero_DepositSpl :: DepositSpl where
  "zero_DepositSpl = \<lparr>ds_BridgeId = None, ds_Amount = None, ds_ChainId = None, ds_Address = None, ds_ReferralId = None,
     ds_AccountMetaSlice = []\<rparr>"

definition NewDepositSplInstructionBuilder :: DepositSpl where
  "NewDepositSplInstructionBuilder =
     zero_DepositSpl\<lparr>ds_AccountMetaSlice := replicate 5 None\<rparr>"

definition DepositSpl_SetBridgeId :: "string \<Rightarrow> DepositSpl \<Rightarrow> DepositSpl" where
  "DepositSpl_SetBridgeId v inst = inst\<lparr>ds_BridgeId := Some v\<rparr>"

definition DepositSpl_SetAmount :: "uint64 \<Rightarrow> DepositSpl \<Rightarrow> DepositSpl" where
  "DepositSpl_SetAmount v inst = inst\<lparr>ds_Amount := Some v\<rparr>"

definition DepositSpl_SetChainId :: "string \<Rightarrow> DepositSpl \<Rightarrow> DepositSpl" where
  "DepositSpl_SetChainId v inst = inst\<lparr>ds_ChainId := Some v\<rparr>"

definition DepositSpl_SetAddress :: "string \<Rightarrow> DepositSpl \<Rightarrow> DepositSpl" where
  "DepositSpl_SetAddress v inst = inst\<lparr>ds_Address := Some v\<rparr>"

definition DepositSpl_SetReferralId :: "uint16 \<Rightarrow> DepositSpl \<Rightarrow> DepositSpl" where
  "DepositSpl_SetReferralId v inst = inst\<lparr>ds_ReferralId := Some v\<rparr>"

definition DepositSpl_SetMintAccount :: "pubkey \<Rightarrow> DepositSpl \<Rightarrow> DepositSpl" where
  "DepositSpl_SetMintAccount v inst =
     inst\<lparr>ds_AccountMetaSlice := (ds_AccountMetaSlice inst)[0 := Some (Meta v)]\<rparr>"

definition DepositSpl_SetSplVaultAccount :: "pubkey \<Rightarrow> DepositSpl \<Rightarrow> DepositSpl" where
  "DepositSpl_SetSplVaultAccount v inst =
     inst\<lparr>ds_AccountMetaSlice := (ds_AccountMetaSlice inst)[1 := Some (WRITE (Meta v))]\<rparr>"

definition DepositSpl_SetSenderAccount :: "pubkey \<Rightarrow> DepositSpl \<Rightarrow> DepositSpl" where
  "DepositSpl_SetSenderAccount v inst =
     inst\<lparr>ds_AccountMetaSlice := (ds_AccountMetaSlice inst)[2 := Some (WRITE (Meta v))]\<rparr>"

definition DepositSpl_SetSignerAccount :: "pubkey \<Rightarrow> DepositSpl \<Rightarrow> DepositSpl" where
  "DepositSpl_SetSignerAccount v inst =
     inst\<lparr>ds_AccountMetaSlice := (ds_AccountMetaSlice inst)[3 := Some (SIGNER (WRITE (Meta v)))]\<rparr>"

definition DepositSpl_SetTokenProgramAccount :: "pubkey \<Rightarrow> DepositSpl \<Rightarrow> DepositSpl" where
  "DepositSpl_SetTokenProgramAccount v inst =
     inst\<lparr>ds_AccountMetaSlice := (ds_AccountMetaSlice inst)[4 := Some (Meta v)]\<rparr>"

lemmas DepositSpl_setters = DepositSpl_SetBridgeId_def
  DepositSpl_SetAmount_def
  DepositSpl_SetChainId_def
  DepositSpl_SetAddress_def
  DepositSpl_SetReferralId_def
  DepositSpl_SetMintAccount_def
  DepositSpl_SetSplVaultAccount_def
  DepositSpl_SetSenderAccount_def
  DepositSpl_SetSignerAccount_def
  DepositSpl_SetTokenProgramAccount_def

definition DepositSpl_findSplVaultAddress :: "pda_lib \<Rightarrow> pubkey \<Rightarrow> pubkey \<Rightarrow> string \<Rightarrow> byte \<Rightarrow> go_error + pubkey \<times> byte" where
  "DepositSpl_findSplVaultAddress S programID mint bridgeId knownBumpSeed = find_address S programID
     [Inr (bytes_of_string ''vault''), Inr mint, MarshalBorsh_string S bridgeId] knownBumpSeed"

definition DepositSpl_findSplVaultAddressWithBumpSeed :: "pda_lib \<Rightarrow> pubkey \<Rightarrow> pubkey \<Rightarrow> string \<Rightarrow> byte \<Rightarrow> go_error + pubkey" where
  "DepositSpl_findSplVaultAddressWithBumpSeed S programID mint bridgeId bumpSeed = map_sum id fst (DepositSpl_findSplVaultAddress S programID mint bridgeId bumpSeed)"

definition DepositSpl_Validate :: "DepositSpl \<Rightarrow> go_error option go_result" where
  "DepositSpl_Validate inst = validate
     [(ds_BridgeId inst = None, ''BridgeId''),
      (ds_Amount inst = None, ''Amount''),
      (ds_ChainId inst = None, ''ChainId''),
      (ds_Address inst = None, ''Address''),
      (ds_ReferralId inst = None, ''ReferralId'')]
     (ds_AccountMetaSlice inst) [''Mint'', ''SplVault'', ''Sender'', ''Signer'', ''TokenProgram'']"

definition DepositSpl_MarshalWithEncoder :: "borsh \<Rightarrow> DepositSpl \<Rightarrow> go_error + bytes" where
  "DepositSpl_MarshalWithEncoder B inst = enc_all
     [enc (bo_string B) (ds_BridgeId inst),
      enc (bo_u64 B) (ds_Amount inst),
      enc (bo_string B) (ds_ChainId inst),
      enc (bo_string B) (ds_Address inst),
      enc (bo_u16 B) (ds_ReferralId inst)]"

definition DepositSpl_UnmarshalWithDecoder ::
  "borsh \<Rightarrow> DepositSpl \<Rightarrow> bytes \<Rightarrow> go_error + DepositSpl \<times> bytes" where
  "DepositSpl_UnmarshalWithDecoder B inst r0 =
     dec_then (bo_string B) r0 (\<lambda>v1 r1.
     dec_then (bo_u64 B) r1 (\<lambda>v2 r2.
     dec_then (bo_string B) r2 (\<lambda>v3 r3.
     dec_then (bo_string B) r3 (\<lambda>v4 r4.
     dec_then (bo_u16 B) r4 (\<lambda>v5 r5.
     Inr (inst\<lparr>ds_BridgeId := v1, ds_Amount := v2, ds_ChainId := v3, ds_Address := v4, ds_ReferralId := v5\<rparr>, r5))))))"

definition DepositSpl_Build :: "DepositSpl \<Rightarrow> Instruction" where
  "DepositSpl_Build inst = \<lparr>in_TypeID = Instruction_DepositSpl, in_Accounts = ds_AccountMetaSlice inst,
     in_Impl = (\<lambda>B. DepositSpl_MarshalWithEncoder B inst)\<rparr>"

definition DepositSpl_ValidateAndBuild :: "DepositSpl \<Rightarrow> (go_error + Instruction) go_result" where
  "DepositSpl_ValidateAndBuild inst = (case DepositSpl_Validate inst of Panic m \<Rightarrow> Panic m
     | Returned (Some err) \<Rightarrow> Returned (Inl err)
     | Returned None \<Rightarrow> Returned (Inr (DepositSpl_Build inst)))"

definition NewDepositSplInstruction ::
  "string \<Rightarrow> uint64 \<Rightarrow> string \<Rightarrow> string \<Rightarrow> uint16 \<Rightarrow> pubkey \<Rightarrow> pubkey \<Rightarrow> pubkey \<Rightarrow> pubkey \<Rightarrow> pubkey \<Rightarrow> DepositSpl" where
  "NewDepositSplInstruction bridge_id amount chain_id address referral_id mint splVault sender signer tokenProgram =
    (DepositSpl_SetTokenProgramAccount tokenProgram \<circ>
     DepositSpl_SetSignerAccount signer \<circ>
     DepositSpl_SetSenderAccount sender \<circ>
     DepositSpl_SetSplVaultAccount splVault \<circ>
     DepositSpl_SetMintAccount mint \<circ>
     DepositSpl_SetReferralId referral_id \<circ>
     DepositSpl_SetAddress address \<circ>
     DepositSpl_SetChainId chain_id \<circ>
     DepositSpl_SetAmount amount \<circ>
     DepositSpl_SetBridgeId bridge_id)
       NewDepositSplInstructionBuilder"

text \<open>The codec contract for \<open>DepositSpl\<close>.\<close>

definition DepositSpl_params_set :: "DepositSpl \<Rightarrow> bool" where
  "DepositSpl_params_set inst \<longleftrightarrow> set_to short_string (ds_BridgeId inst)
     \<and> set_to (\<lambda>_. True) (ds_Amount inst)
     \<and> set_to short_string (ds_ChainId inst)
     \<and> set_to short_string (ds_Address inst)
     \<and> set_to (\<lambda>_. True) (ds_ReferralId inst)"

definition DepositSpl_params :: "DepositSpl \<Rightarrow> DepositSpl" where
  "DepositSpl_params inst = inst\<lparr>ds_AccountMetaSlice := []\<rparr>"

lemma DepositSpl_roundtrip:
  assumes "borsh_ok B" and "DepositSpl_params_set inst"
  shows "\<exists>bs. DepositSpl_MarshalWithEncoder B inst = Inr bs
    \<and> (\<forall>obj rest. \<exists>j. DepositSpl_UnmarshalWithDecoder B obj (bs @ rest) = Inr (j, rest)
         \<and> DepositSpl_params j = DepositSpl_params inst)"
proof -
  note ok = assms(1) [unfolded borsh_ok_def] and ps = assms(2) [unfolded DepositSpl_params_set_def]
  obtain b1 where e1: "enc (bo_string B) (ds_BridgeId inst) = Inr b1"
      "\<And>rest. dec (bo_string B) (b1 @ rest) = Inr (ds_BridgeId inst, rest)"
    using ok ps codec_okD [of _ "bo_string B" "ds_BridgeId inst"] by blast
  obtain b2 where e2: "enc (bo_u64 B) (ds_Amount inst) = Inr b2"
      "\<And>rest. dec (bo_u64 B) (b2 @ rest) = Inr (ds_Amount inst, rest)"
    using ok ps codec_okD [of _ "bo_u64 B" "ds_Amount inst"] by blast
  obtain b3 where e3: "enc (bo_string B) (ds_ChainId inst) = Inr b3"
      "\<And>rest. dec (bo_string B) (b3 @ rest) = Inr (ds_ChainId inst, rest)"
    using ok ps codec_okD [of _ "bo_string B" "ds_ChainId inst"] by blast
  obtain b4 where e4: "enc (bo_string B) (ds_Address inst) = Inr b4"
      "\<And>rest. dec (bo_string B) (b4 @ rest) = Inr (ds_Address inst, rest)"
    using ok ps codec_okD [of _ "bo_string B" "ds_Address inst"] by blast
  obtain b5 where e5: "enc (bo_u16 B) (ds_ReferralId inst) = Inr b5"
      "\<And>rest. dec (bo_u16 B) (b5 @ rest) = Inr (ds_ReferralId inst, rest)"
    using ok ps codec_okD [of _ "bo_u16 B" "ds_ReferralId inst"] by blast
  show ?thesis
    by (rule exI [of _ "b1 @ b2 @ b3 @ b4 @ b5"])
       (simp add: DepositSpl_MarshalWithEncoder_def DepositSpl_UnmarshalWithDecoder_def DepositSpl_params_def
          e1 e2 e3 e4 e5)
qed

interpretation ds_codec: instruction_codec DepositSpl_MarshalWithEncoder DepositSpl_UnmarshalWithDecoder
    DepositSpl_params_set DepositSpl_params
  by unfold_locales (rule DepositSpl_roundtrip)

lemma DepositSpl_New_valid:
  "DepositSpl_Validate (NewDepositSplInstruction bridge_id amount chain_id address referral_id mint splVault sender signer tokenProgram) = Returned None"
  by (simp add: NewDepositSplInstruction_def NewDepositSplInstructionBuilder_def zero_DepositSpl_def DepositSpl_setters
      DepositSpl_Validate_def validate_def numeral_eq_Suc)

subsection \<open>\<open>DepositWrapped\<close> (\<open>deposit_wrapped.go\<close>)\<close>

record DepositWrapped =
  dw_BridgeId :: "string option"
  dw_MintNonce :: "uint64 option"
  dw_Symbol :: "string option"
  dw_Amount :: "uint64 option"
  dw_ChainId :: "string option"
  dw_Address :: "string option"
  dw_ReferralId :: "uint16 option"
  dw_AccountMetaSlice :: "AccountMeta option list"

text \<open>The zero value \<open>DepositWrapped{}\<close>, and the builder with its fixed account.\<close>

definition zero_DepositWrapped :: DepositWrapped where
  "zero_DepositWrapped = \<lparr>dw_BridgeId = None, dw_MintNonce = None, dw_Symbol = None, dw_Amount = None, dw_ChainId = None, dw_Address = None, dw_ReferralId = None,
     dw_AccountMetaSlice = []\<rparr>"

definition NewDepositWrappedInstructionBuilder :: DepositWrapped where
  "NewDepositWrappedInstructionBuilder =
     zero_DepositWrapped\<lparr>dw_AccountMetaSlice := replicate 4 None\<rparr>"

definition DepositWrapped_SetBridgeId :: "string \<Rightarrow> DepositWrapped \<Rightarrow> DepositWrapped" where
  "DepositWrapped_SetBridgeId v inst = inst\<lparr>dw_BridgeId := Some v\<rparr>"

definition DepositWrapped_SetMintNonce :: "uint64 \<Rightarrow> DepositWrapped \<Rightarrow> DepositWrapped" where
  "DepositWrapped_SetMintNonce v inst = inst\<lparr>dw_MintNonce := Some v\<rparr>"

definition DepositWrapped_SetSymbol :: "string \<Rightarrow> DepositWrapped \<Rightarrow> DepositWrapped" where
  "DepositWrapped_SetSymbol v inst = inst\<lparr>dw_Symbol := Some v\<rparr>"

definition DepositWrapped_SetAmount :: "uint64 \<Rightarrow> DepositWrapped \<Rightarrow> DepositWrapped" where
  "DepositWrapped_SetAmount v inst = inst\<lparr>dw_Amount := Some v\<rparr>"

definition DepositWrapped_SetChainId :: "string \<Rightarrow> DepositWrapped \<Rightarrow> DepositWrapped" where
  "DepositWrapped_SetChainId v inst = inst\<lparr>dw_ChainId := Some v\<rparr>"

definition DepositWrapped_SetAddress :: "string \<Rightarrow> DepositWrapped \<Rightarrow> DepositWrapped" where
  "DepositWrapped_SetAddress v inst = inst\<lparr>dw_Address := Some v\<rparr>"

definition DepositWrapped_SetReferralId :: "uint16 \<Rightarrow> DepositWrapped \<Rightarrow> DepositWrapped" where
  "DepositWrapped_SetReferralId v inst = inst\<lparr>dw_ReferralId := Some v\<rparr>"

definition DepositWrapped_SetMintAccount :: "pubkey \<Rightarrow> DepositWrapped \<Rightarrow> DepositWrapped" where
  "DepositWrapped_SetMintAccount v inst =
     inst\<lparr>dw_AccountMetaSlice := (dw_AccountMetaSlice inst)[0 := Some (WRITE (Meta v))]\<rparr>"

definition DepositWrapped_SetSenderAccount :: "pubkey \<Rightarrow> DepositWrapped \<Rightarrow> DepositWrapped" where
  "DepositWrapped_SetSenderAccount v inst =
     inst\<lparr>dw_AccountMetaSlice := (dw_AccountMetaSlice inst)[1 := Some (WRITE (Meta v))]\<rparr>"

definition DepositWrapped_SetSignerAccount :: "pubkey \<Rightarrow> DepositWrapped \<Rightarrow> DepositWrapped" where
  "DepositWrapped_SetSignerAccount v inst =
     inst\<lparr>dw_AccountMetaSlice := (dw_AccountMetaSlice inst)[2 := Some (SIGNER (WRITE (Meta v)))]\<rparr>"

definition DepositWrapped_SetTokenProgramAccount :: "pubkey \<Rightarrow> DepositWrapped \<Rightarrow> DepositWrapped" where
  "DepositWrapped_SetTokenProgramAccount v inst =
     inst\<lparr>dw_AccountMetaSlice := (dw_AccountMetaSlice inst)[3 := Some (Meta v)]\<rparr>"

lemmas DepositWrapped_setters = DepositWrapped_SetBridgeId_def
  DepositWrapped_SetMintNonce_def
  DepositWrapped_SetSymbol_def
  DepositWrapped_SetAmount_def
  DepositWrapped_SetChainId_def
  DepositWrapped_SetAddress_def
  DepositWrapped_SetReferralId_def
  DepositWrapped_SetMintAccount_def
  DepositWrapped_SetSenderAccount_def
  DepositWrapped_SetSignerAccount_def
  DepositWrapped_SetTokenProgramAccount_def

definition DepositWrapped_findMintAddress :: "pda_lib \<Rightarrow> pubkey \<Rightarrow> string \<Rightarrow> uint64 \<Rightarrow> string \<Rightarrow> byte \<Rightarrow> go_error + pubkey \<times> byte" where
  "DepositWrapped_findMintAddress S programID symbol mintNonce bridgeId knownBumpSeed = find_address S programID
     [Inr (bytes_of_string ''mint''), MarshalBorsh_string S symbol, MarshalBorsh_u64 S mintNonce, MarshalBorsh_string S bridgeId] knownBumpSeed"

definition DepositWrapped_findMintAddressWithBumpSeed :: "pda_lib \<Rightarrow> pubkey \<Rightarrow> string \<Rightarrow> uint64 \<Rightarrow> string \<Rightarrow> byte \<Rightarrow> go_error + pubkey" where
  "DepositWrapped_findMintAddressWithBumpSeed S programID symbol mintNonce bridgeId bumpSeed = map_sum id fst (DepositWrapped_findMintAddress S programID symbol mintNonce bridgeId bumpSeed)"

definition DepositWrapped_Validate :: "DepositWrapped \<Rightarrow> go_error option go_result" where
  "DepositWrapped_Validate inst = validate
     [(dw_BridgeId inst = None, ''BridgeId''),
      (dw_MintNonce inst = None, ''MintNonce''),
      (dw_Symbol inst = None, ''Symbol''),
      (dw_Amount inst = None, ''Amount''),
      (dw_ChainId inst = None, ''ChainId''),
      (dw_Address inst = None, ''Address''),
      (dw_ReferralId inst = None, ''ReferralId'')]
     (dw_AccountMetaSlice inst) [''Mint'', ''Sender'', ''Signer'', ''TokenProgram'']"

definition DepositWrapped_MarshalWithEncoder :: "borsh \<Rightarrow> DepositWrapped \<Rightarrow> go_error + bytes" where
  "DepositWrapped_MarshalWithEncoder B inst = enc_all
     [enc (bo_string B) (dw_BridgeId inst),
      enc (bo_u64 B) (dw_MintNonce inst),
      enc (bo_string B) (dw_Symbol inst),
      enc (bo_u64 B) (dw_Amount inst),
      enc (bo_string B) (dw_ChainId inst),
      enc (bo_string B) (dw_Address inst),
      enc (bo_u16 B) (dw_ReferralId inst)]"

definition DepositWrapped_UnmarshalWithDecoder ::
  "borsh \<Rightarrow> DepositWrapped \<Rightarrow> bytes \<Rightarrow> go_error + DepositWrapped \<times> bytes" where
  "DepositWrapped_UnmarshalWithDecoder B inst r0 =
     dec_then (bo_string B) r0 (\<lambda>v1 r1.
     dec_then (bo_u64 B) r1 (\<lambda>v2 r2.
     dec_then (bo_string B) r2 (\<lambda>v3 r3.
     dec_then (bo_u64 B) r3 (\<lambda>v4 r4.
     dec_then (bo_string B) r4 (\<lambda>v5 r5.
     dec_then (bo_string B) r5 (\<lambda>v6 r6.
     dec_then (bo_u16 B) r6 (\<lambda>v7 r7.
     Inr (inst\<lparr>dw_BridgeId := v1, dw_MintNonce := v2, dw_Symbol := v3, dw_Amount := v4, dw_ChainId := v5, dw_Address := v6, dw_ReferralId := v7\<rparr>, r7))))))))"

definition DepositWrapped_Build :: "DepositWrapped \<Rightarrow> Instruction" where
  "DepositWrapped_Build inst = \<lparr>in_TypeID = Instruction_DepositWrapped, in_Accounts = dw_AccountMetaSlice inst,
     in_Impl = (\<lambda>B. DepositWrapped_MarshalWithEncoder B inst)\<rparr>"

definition DepositWrapped_ValidateAndBuild :: "DepositWrapped \<Rightarrow> (go_error + Instruction) go_result" where
  "DepositWrapped_ValidateAndBuild inst = (case DepositWrapped_Validate inst of Panic m \<Rightarrow> Panic m
     | Returned (Some err) \<Rightarrow> Returned (Inl err)
     | Returned None \<Rightarrow> Returned (Inr (DepositWrapped_Build inst)))"

definition NewDepositWrappedInstruction ::
  "string \<Rightarrow> uint64 \<Rightarrow> string \<Rightarrow> uint64 \<Rightarrow> string \<Rightarrow> string \<Rightarrow> uint16 \<Rightarrow> pubkey \<Rightarrow> pubkey \<Rightarrow> pubkey \<Rightarrow> pubkey \<Rightarrow> DepositWrapped" where
  "NewDepositWrappedInstruction bridge_id mint_nonce symbol amount chain_id address referral_id mint sender signer tokenProgram =
    (DepositWrapped_SetTokenProgramAccount tokenProgram \<circ>
     DepositWrapped_SetSignerAccount signer \<circ>
     DepositWrapped_SetSenderAccount sender \<circ>
     DepositWrapped_SetMintAccount mint \<circ>
     DepositWrapped_SetReferralId referral_id \<circ>
     DepositWrapped_SetAddress address \<circ>
     DepositWrapped_SetChainId chain_id \<circ>
     DepositWrapped_SetAmount amount \<circ>
     DepositWrapped_SetSymbol symbol \<circ>
     DepositWrapped_SetMintNonce mint_nonce \<circ>
     DepositWrapped_SetBridgeId bridge_id)
       NewDepositWrappedInstructionBuilder"

text \<open>The codec contract for \<open>DepositWrapped\<close>.\<close>

definition DepositWrapped_params_set :: "DepositWrapped \<Rightarrow> bool" where
  "DepositWrapped_params_set inst \<longleftrightarrow> set_to short_string (dw_BridgeId inst)
     \<and> set_to (\<lambda>_. True) (dw_MintNonce inst)
     \<and> set_to short_string (dw_Symbol inst)
     \<and> set_to (\<lambda>_. True) (dw_Amount inst)
     \<and> set_to short_string (dw_ChainId inst)
     \<and> set_to short_string (dw_Address inst)
     \<and> set_to (\<lambda>_. True) (dw_ReferralId inst)"

definition DepositWrapped_params :: "DepositWrapped \<Rightarrow> DepositWrapped" where
  "DepositWrapped_params inst = inst\<lparr>dw_AccountMetaSlice := []\<rparr>"

lemma DepositWrapped_roundtrip:
  assumes "borsh_ok B" and "DepositWrapped_params_set inst"
  shows "\<exists>bs. DepositWrapped_MarshalWithEncoder B inst = Inr bs
    \<and> (\<forall>obj rest. \<exists>j. DepositWrapped_UnmarshalWithDecoder B obj (bs @ rest) = Inr (j, rest)
         \<and> DepositWrapped_params j = DepositWrapped_params inst)"
proof -
  note ok = assms(1) [unfolded borsh_ok_def] and ps = assms(2) [unfolded DepositWrapped_params_set_def]
  obtain b1 where e1: "enc (bo_string B) (dw_BridgeId inst) = Inr b1"
      "\<And>rest. dec (bo_string B) (b1 @ rest) = Inr (dw_BridgeId inst, rest)"
    using ok ps codec_okD [of _ "bo_string B" "dw_BridgeId inst"] by blast
  obtain b2 where e2: "enc (bo_u64 B) (dw_MintNonce inst) = Inr b2"
      "\<And>rest. dec (bo_u64 B) (b2 @ rest) = Inr (dw_MintNonce inst, rest)"
    using ok ps codec_okD [of _ "bo_u64 B" "dw_MintNonce inst"] by blast
  obtain b3 where e3: "enc (bo_string B) (dw_Symbol inst) = Inr b3"
      "\<And>rest. dec (bo_string B) (b3 @ rest) = Inr (dw_Symbol inst, rest)"
    using ok ps codec_okD [of _ "bo_string B" "dw_Symbol inst"] by blast
  obtain b4 where e4: "enc (bo_u64 B) (dw_Amount inst) = Inr b4"
      "\<And>rest. dec (bo_u64 B) (b4 @ rest) = Inr (dw_Amount inst, rest)"
    using ok ps codec_okD [of _ "bo_u64 B" "dw_Amount inst"] by blast
  obtain b5 where e5: "enc (bo_string B) (dw_ChainId inst) = Inr b5"
      "\<And>rest. dec (bo_string B) (b5 @ rest) = Inr (dw_ChainId inst, rest)"
    using ok ps codec_okD [of _ "bo_string B" "dw_ChainId inst"] by blast
  obtain b6 where e6: "enc (bo_string B) (dw_Address inst) = Inr b6"
      "\<And>rest. dec (bo_string B) (b6 @ rest) = Inr (dw_Address inst, rest)"
    using ok ps codec_okD [of _ "bo_string B" "dw_Address inst"] by blast
  obtain b7 where e7: "enc (bo_u16 B) (dw_ReferralId inst) = Inr b7"
      "\<And>rest. dec (bo_u16 B) (b7 @ rest) = Inr (dw_ReferralId inst, rest)"
    using ok ps codec_okD [of _ "bo_u16 B" "dw_ReferralId inst"] by blast
  show ?thesis
    by (rule exI [of _ "b1 @ b2 @ b3 @ b4 @ b5 @ b6 @ b7"])
       (simp add: DepositWrapped_MarshalWithEncoder_def DepositWrapped_UnmarshalWithDecoder_def DepositWrapped_params_def
          e1 e2 e3 e4 e5 e6 e7)
qed

interpretation dw_codec: instruction_codec DepositWrapped_MarshalWithEncoder DepositWrapped_UnmarshalWithDecoder
    DepositWrapped_params_set DepositWrapped_params
  by unfold_locales (rule DepositWrapped_roundtrip)

lemma DepositWrapped_New_valid:
  "DepositWrapped_Validate (NewDepositWrappedInstruction bridge_id mint_nonce symbol amount chain_id address referral_id mint sender signer tokenProgram) = Returned None"
  by (simp add: NewDepositWrappedInstruction_def NewDepositWrappedInstructionBuilder_def zero_DepositWrapped_def DepositWrapped_setters
      DepositWrapped_Validate_def validate_def numeral_eq_Suc)

end
