(* ===== verification/Solana_Decode.thy ===== *)
theory Solana_Decode
  imports Solana_Instructions Solana_Other_Instructions
begin

text \<open>
  The reading side of \<open>contract/instructions.go\<close>: the table of the eleven instructions,
  \<open>DecodeInstruction\<close> and \<open>DecodeInstructions\<close>. The variant decoder of \<open>gagliardetto/binary\<close> and
  the messages of \<open>solana-go\<close> are parameters. The lemmas show, over the sum of the eleven
  instruction types, what each \<open>instruction_codec\<close> gives for its own.
\<close>

subsection \<open>Implementations\<close>

text \<open>\<open>BaseVariant.Impl\<close>: a pointer to one of the instructions.\<close>

datatype instruction_impl =
    Impl_ChangeAuthority ChangeAuthority
  | Impl_DepositNative DepositNative
  | Impl_DepositSpl DepositSpl
  | Impl_DepositWrapped DepositWrapped
  | Impl_InitSplVault InitSplVault
  | Impl_InitWrappedMint InitWrappedMint
  | Impl_Initialize Initialize
  | Impl_UpdateSigner UpdateSigner
  | Impl_WithdrawNative WithdrawNative
  | Impl_WithdrawSpl WithdrawSpl
  | Impl_WithdrawWrapped WithdrawWrapped

fun impl_Build :: "instruction_impl \<Rightarrow> Instruction" where
  "impl_Build (Impl_ChangeAuthority i) = ChangeAuthority_Build i"
| "impl_Build (Impl_DepositNative i) = DepositNative_Build i"
| "impl_Build (Impl_DepositSpl i) = DepositSpl_Build i"
| "impl_Build (Impl_DepositWrapped i) = DepositWrapped_Build i"
| "impl_Build (Impl_InitSplVault i) = InitSplVault_Build i"
| "impl_Build (Impl_InitWrappedMint i) = InitWrappedMint_Build i"
| "impl_Build (Impl_Initialize i) = Initialize_Build i"
| "impl_Build (Impl_UpdateSigner i) = UpdateSigner_Build i"
| "impl_Build (Impl_WithdrawNative i) = WithdrawNative_Build i"
| "impl_Build (Impl_WithdrawSpl i) = WithdrawSpl_Build i"
| "impl_Build (Impl_WithdrawWrapped i) = WithdrawWrapped_Build i"

fun impl_GetAccounts :: "instruction_impl \<Rightarrow> AccountMeta option list" where
  "impl_GetAccounts (Impl_ChangeAuthority i) = ca_AccountMetaSlice i"
| "impl_GetAccounts (Impl_DepositNative i) = dn_AccountMetaSlice i"
| "impl_GetAccounts (Impl_DepositSpl i) = ds_AccountMetaSlice i"
| "impl_GetAccounts (Impl_DepositWrapped i) = dw_AccountMetaSlice i"
| "impl_GetAccounts (Impl_InitSplVault i) = iv_AccountMetaSlice i"
| "impl_GetAccounts (Impl_InitWrappedMint i) = im_AccountMetaSlice i"
| "impl_GetAccounts (Impl_Initialize i) = ini_AccountMetaSlice i"
| "impl_GetAccounts (Impl_UpdateSigner i) = us_AccountMetaSlice i"
| "impl_GetAccounts (Impl_WithdrawNative i) = wn_AccountMetaSlice i"
| "impl_GetAccounts (Impl_WithdrawSpl i) = ws_AccountMetaSlice i"
| "impl_GetAccounts (Impl_WithdrawWrapped i) = ww_AccountMetaSlice i"

text \<open>\<open>SetAccounts\<close>, which the pointer to an instruction has from its embedded \<open>AccountMetaSlice\<close>.\<close>

fun impl_SetAccounts :: "AccountMeta option list \<Rightarrow> instruction_impl \<Rightarrow> instruction_impl" where
  "impl_SetAccounts ms (Impl_ChangeAuthority i) = Impl_ChangeAuthority (i\<lparr>ca_AccountMetaSlice := ms\<rparr>)"
| "impl_SetAccounts ms (Impl_DepositNative i) = Impl_DepositNative (i\<lparr>dn_AccountMetaSlice := ms\<rparr>)"
| "impl_SetAccounts ms (Impl_DepositSpl i) = Impl_DepositSpl (i\<lparr>ds_AccountMetaSlice := ms\<rparr>)"
| "impl_SetAccounts ms (Impl_DepositWrapped i) = Impl_DepositWrapped (i\<lparr>dw_AccountMetaSlice := ms\<rparr>)"
| "impl_SetAccounts ms (Impl_InitSplVault i) = Impl_InitSplVault (i\<lparr>iv_AccountMetaSlice := ms\<rparr>)"
| "impl_SetAccounts ms (Impl_InitWrappedMint i) = Impl_InitWrappedMint (i\<lparr>im_AccountMetaSlice := ms\<rparr>)"
| "impl_SetAccounts ms (Impl_Initialize i) = Impl_Initialize (i\<lparr>ini_AccountMetaSlice := ms\<rparr>)"
| "impl_SetAccounts ms (Impl_UpdateSigner i) = Impl_UpdateSigner (i\<lparr>us_AccountMetaSlice := ms\<rparr>)"
| "impl_SetAccounts ms (Impl_WithdrawNative i) = Impl_WithdrawNative (i\<lparr>wn_AccountMetaSlice := ms\<rparr>)"
| "impl_SetAccounts ms (Impl_WithdrawSpl i) = Impl_WithdrawSpl (i\<lparr>ws_AccountMetaSlice := ms\<rparr>)"
| "impl_SetAccounts ms (Impl_WithdrawWrapped i) = Impl_WithdrawWrapped (i\<lparr>ww_AccountMetaSlice := ms\<rparr>)"

fun impl_params_set :: "instruction_impl \<Rightarrow> bool" where
  "impl_params_set (Impl_ChangeAuthority i) = ChangeAuthority_params_set i"
| "impl_params_set (Impl_DepositNative i) = DepositNative_params_set i"
| "impl_params_set (Impl_DepositSpl i) = DepositSpl_params_set i"
| "impl_params_set (Impl_DepositWrapped i) = DepositWrapped_params_set i"
| "impl_params_set (Impl_InitSplVault i) = InitSplVault_params_set i"
| "impl_params_set (Impl_InitWrappedMint i) = InitWrappedMint_params_set i"
| "impl_params_set (Impl_Initialize i) = Initialize_params_set i"
| "impl_params_set (Impl_UpdateSigner i) = UpdateSigner_params_set i"
| "impl_params_set (Impl_WithdrawNative i) = WithdrawNative_params_set i"
| "impl_params_set (Impl_WithdrawSpl i) = WithdrawSpl_params_set i"
| "impl_params_set (Impl_WithdrawWrapped i) = WithdrawWrapped_params_set i"

fun impl_params :: "instruction_impl \<Rightarrow> instruction_impl" where
  "impl_params (Impl_ChangeAuthority i) = Impl_ChangeAuthority (ChangeAuthority_params i)"
| "impl_params (Impl_DepositNative i) = Impl_DepositNative (DepositNative_params i)"
| "impl_params (Impl_DepositSpl i) = Impl_DepositSpl (DepositSpl_params i)"
| "impl_params (Impl_DepositWrapped i) = Impl_DepositWrapped (DepositWrapped_params i)"
| "impl_params (Impl_InitSplVault i) = Impl_InitSplVault (InitSplVault_params i)"
| "impl_params (Impl_InitWrappedMint i) = Impl_InitWrappedMint (InitWrappedMint_params i)"
| "impl_params (Impl_Initialize i) = Impl_Initialize (Initialize_params i)"
| "impl_params (Impl_UpdateSigner i) = Impl_UpdateSigner (UpdateSigner_params i)"
| "impl_params (Impl_WithdrawNative i) = Impl_WithdrawNative (WithdrawNative_params i)"
| "impl_params (Impl_WithdrawSpl i) = Impl_WithdrawSpl (WithdrawSpl_params i)"
| "impl_params (Impl_WithdrawWrapped i) = Impl_WithdrawWrapped (WithdrawWrapped_params i)"

subsection \<open>The table (\<open>InstructionImplDef\<close>)\<close>

type_synonym variant_type = "string \<times> (bytes \<Rightarrow> go_error + instruction_impl \<times> bytes)"

text \<open>A variant is read into a new value of its type.\<close>

definition variant ::
  "('i \<Rightarrow> instruction_impl) \<Rightarrow> ('i \<Rightarrow> bytes \<Rightarrow> go_error + 'i \<times> bytes) \<Rightarrow> 'i \<Rightarrow> bytes
     \<Rightarrow> go_error + instruction_impl \<times> bytes" where
  "variant C unmarshal zero bs = map_sum id (apfst C) (unmarshal zero bs)"

definition InstructionImplDef :: "borsh \<Rightarrow> variant_type list" where
  "InstructionImplDef B =
    [(''change_authority'', variant Impl_ChangeAuthority (ChangeAuthority_UnmarshalWithDecoder B) zero_ChangeAuthority),
     (''deposit_native'', variant Impl_DepositNative (DepositNative_UnmarshalWithDecoder B) zero_DepositNative),
     (''deposit_spl'', variant Impl_DepositSpl (DepositSpl_UnmarshalWithDecoder B) zero_DepositSpl),
     (''deposit_wrapped'', variant Impl_DepositWrapped (DepositWrapped_UnmarshalWithDecoder B) zero_DepositWrapped),
     (''init_spl_vault'', variant Impl_InitSplVault (InitSplVault_UnmarshalWithDecoder B) zero_InitSplVault),
     (''init_wrapped_mint'', variant Impl_InitWrappedMint (InitWrappedMint_UnmarshalWithDecoder B) zero_InitWrappedMint),
     (''initialize'', variant Impl_Initialize (Initialize_UnmarshalWithDecoder B) zero_Initialize),
     (''update_signer'', variant Impl_UpdateSigner (UpdateSigner_UnmarshalWithDecoder B) zero_UpdateSigner),
     (''withdraw_native'', variant Impl_WithdrawNative (WithdrawNative_UnmarshalWithDecoder B) zero_WithdrawNative),
     (''withdraw_spl'', variant Impl_WithdrawSpl (WithdrawSpl_UnmarshalWithDecoder B) zero_WithdrawSpl),
     (''withdraw_wrapped'', variant Impl_WithdrawWrapped (WithdrawWrapped_UnmarshalWithDecoder B) zero_WithdrawWrapped)]"

subsection \<open>Decoding\<close>

text \<open>
  The library: the id that Anchor gives an instruction name, \<open>UnmarshalBinaryVariant\<close> over a table
  (the type id, the implementation and the rest of the input), and \<open>AccountMetaSlice.SetAccounts\<close>
  (the new slice, or an error).
\<close>

record anchor_lib =
  al_Sighash :: "string \<Rightarrow> TypeID"
  al_UnmarshalBinaryVariant ::
    "variant_type list \<Rightarrow> bytes \<Rightarrow> go_error + (TypeID \<times> instruction_impl) \<times> bytes"
  al_SetAccounts :: "AccountMeta option list \<Rightarrow> go_error + AccountMeta option list"

definition Instruction_UnmarshalWithDecoder ::
  "anchor_lib \<Rightarrow> borsh \<Rightarrow> bytes \<Rightarrow> go_error + (TypeID \<times> instruction_impl) \<times> bytes" where
  "Instruction_UnmarshalWithDecoder A B input = al_UnmarshalBinaryVariant A (InstructionImplDef B) input"

definition DecodeInstruction ::
  "anchor_lib \<Rightarrow> borsh \<Rightarrow> AccountMeta option list \<Rightarrow> bytes \<Rightarrow> go_error + TypeID \<times> instruction_impl" where
  "DecodeInstruction A B accounts data =
     (case Instruction_UnmarshalWithDecoder A B data of
        Inl err \<Rightarrow> Inl (Wrap ''unable to decode instruction'' err)
      | Inr ((tid, impl), rest) \<Rightarrow>
          (case al_SetAccounts A accounts of
             Inl err \<Rightarrow> Inl (Wrap ''unable to set accounts for instruction'' err)
           | Inr ms \<Rightarrow> Inr (tid, impl_SetAccounts ms impl)))"

definition registryDecodeInstruction ::
  "anchor_lib \<Rightarrow> borsh \<Rightarrow> AccountMeta option list \<Rightarrow> bytes \<Rightarrow> go_error + TypeID \<times> instruction_impl" where
  "registryDecodeInstruction A B accounts data = (case DecodeInstruction A B accounts data of
     Inl err \<Rightarrow> Inl err | Inr inst \<Rightarrow> Inr inst)"

text \<open>A compiled instruction of a message; the message is the library's.\<close>

record compiled_instruction =
  ci_ProgramIDIndex :: uint16
  ci_Data :: bytes

record 'm message_lib =
  ml_Instructions :: "'m \<Rightarrow> compiled_instruction list"
  ml_Program :: "'m \<Rightarrow> uint16 \<Rightarrow> go_error + pubkey"
  ml_ResolveInstructionAccounts :: "'m \<Rightarrow> compiled_instruction \<Rightarrow> go_error + AccountMeta option list"

text \<open>The loop of \<open>DecodeInstructions\<close>: the instructions found so far, and the error that ended it. A
  failed \<open>DecodeInstruction\<close> returns what was decoded before.\<close>

fun decode_instructions_loop ::
  "anchor_lib \<Rightarrow> borsh \<Rightarrow> 'm message_lib \<Rightarrow> pubkey \<Rightarrow> 'm \<Rightarrow> compiled_instruction list
     \<Rightarrow> (TypeID \<times> instruction_impl) list \<Rightarrow> (TypeID \<times> instruction_impl) list \<times> go_error option" where
  "decode_instructions_loop A B M programID m [] instructions = (instructions, None)"
| "decode_instructions_loop A B M programID m (ins # inss) instructions =
     (case ml_Program M m (ci_ProgramIDIndex ins) of
        Inl err \<Rightarrow> (instructions, Some err)
      | Inr pid \<Rightarrow>
          if pid \<noteq> programID then decode_instructions_loop A B M programID m inss instructions
          else (case ml_ResolveInstructionAccounts M m ins of
             Inl err \<Rightarrow> (instructions, Some err)
           | Inr accounts \<Rightarrow>
               (case DecodeInstruction A B accounts (ci_Data ins) of
                  Inl err \<Rightarrow> (instructions, Some err)
                | Inr inst \<Rightarrow> decode_instructions_loop A B M programID m inss (instructions @ [inst]))))"

definition DecodeInstructions ::
  "anchor_lib \<Rightarrow> borsh \<Rightarrow> 'm message_lib \<Rightarrow> pubkey \<Rightarrow> 'm \<Rightarrow> (TypeID \<times> instruction_impl) list \<times> go_error option" where
  "DecodeInstructions A B M programID m =
     decode_instructions_loop A B M programID m (ml_Instructions M m) []"

subsection \<open>The contract of the library\<close>

text \<open>
  \<open>UnmarshalBinaryVariant\<close> reads the id of eight bytes, looks its type up in the table and decodes what follows;
  \<open>SetAccounts\<close> replaces the slice. The ids of the table are those of the constants in
  \<open>instructions.go\<close> (the first eight bytes of the SHA-256 of \<open>global:\<close> and the name).
\<close>

definition anchor_ok :: "anchor_lib \<Rightarrow> bool" where
  "anchor_ok A \<longleftrightarrow>
     (\<forall>defs name decode bs. distinct (map (al_Sighash A \<circ> fst) defs) \<and> (name, decode) \<in> set defs \<longrightarrow>
        al_UnmarshalBinaryVariant A defs (al_Sighash A name @ bs) =
          map_sum id (apfst (Pair (al_Sighash A name))) (decode bs))
     \<and> (\<forall>name. length (al_Sighash A name) = 8) \<and> (\<forall>ms. al_SetAccounts A ms = Inr ms)"

definition anchor_ids :: "(string \<times> TypeID) list" where
  "anchor_ids =
    [(''change_authority'', Instruction_ChangeAuthority),
     (''deposit_native'', Instruction_DepositNative),
     (''deposit_spl'', Instruction_DepositSpl),
     (''deposit_wrapped'', Instruction_DepositWrapped),
     (''init_spl_vault'', Instruction_InitSplVault),
     (''init_wrapped_mint'', Instruction_InitWrappedMint),
     (''initialize'', Instruction_Initialize),
     (''update_signer'', Instruction_UpdateSigner),
     (''withdraw_native'', Instruction_WithdrawNative),
     (''withdraw_spl'', Instruction_WithdrawSpl),
     (''withdraw_wrapped'', Instruction_WithdrawWrapped)]"

definition sighash_ok :: "anchor_lib \<Rightarrow> bool" where
  "sighash_ok A \<longleftrightarrow> (\<forall>(name, tid) \<in> set anchor_ids. al_Sighash A name = tid)"

lemma sighashes:
  assumes "sighash_ok A"
  shows "map (al_Sighash A \<circ> fst) (InstructionImplDef B) = map snd anchor_ids"
  using assms by (simp add: sighash_ok_def anchor_ids_def InstructionImplDef_def)

lemma anchor_ids_distinct: "distinct (map snd anchor_ids)"
  by (simp add: anchor_ids_def type_ids)

lemma unmarshal_variant:
  assumes "anchor_ok A" and "sighash_ok A" and "(name, decode) \<in> set (InstructionImplDef B)"
    and "(name, tid) \<in> set anchor_ids"
  shows "Instruction_UnmarshalWithDecoder A B (tid @ bs) = map_sum id (apfst (Pair tid)) (decode bs)"
proof -
  have "al_Sighash A name = tid" using assms(2,4) by (auto simp: sighash_ok_def)
  moreover have "distinct (map (al_Sighash A \<circ> fst) (InstructionImplDef B))"
    unfolding sighashes [OF assms(2)] by (rule anchor_ids_distinct)
  ultimately show ?thesis
    using assms(1,3) unfolding anchor_ok_def Instruction_UnmarshalWithDecoder_def by blast
qed

text \<open>One step of the proof for each of the eleven types.\<close>

lemma variant_decodes:
  assumes "anchor_ok A" and "sighash_ok A" and "(name, tid) \<in> set anchor_ids"
    and "(name, variant C u zero) \<in> set (InstructionImplDef B)"
    and "u zero (body @ rest) = Inr (j, rest)"
  shows "Instruction_UnmarshalWithDecoder A B (tid @ body @ rest) = Inr ((tid, C j), rest)"
  using unmarshal_variant [OF assms(1,2,4,3)] assms(5) by (simp add: variant_def)

lemma impl_decodes:
  assumes "anchor_ok A" and "sighash_ok A" and "borsh_ok B" and "impl_params_set impl"
    and "in_Impl (impl_Build impl) B = Inr body"
  shows "\<exists>j. Instruction_UnmarshalWithDecoder A B (in_TypeID (impl_Build impl) @ body @ rest)
      = Inr ((in_TypeID (impl_Build impl), j), rest) \<and> impl_params j = impl_params impl"
proof (cases impl)
  case (Impl_ChangeAuthority i)
  with assms(4,5) have "ChangeAuthority_params_set i" "ChangeAuthority_MarshalWithEncoder B i = Inr body"
    by (simp_all add: ChangeAuthority_Build_def)
  from ca_codec.decodes [OF assms(3) this] obtain j where
    j: "ChangeAuthority_UnmarshalWithDecoder B zero_ChangeAuthority (body @ rest) = Inr (j, rest)" "ChangeAuthority_params j = ChangeAuthority_params i"
    by blast
  have "Instruction_UnmarshalWithDecoder A B (Instruction_ChangeAuthority @ body @ rest) = Inr ((Instruction_ChangeAuthority, Impl_ChangeAuthority j), rest)"
    by (rule variant_decodes [where name = "''change_authority''" and C = Impl_ChangeAuthority and zero = zero_ChangeAuthority
          and u = "ChangeAuthority_UnmarshalWithDecoder B", OF assms(1,2) _ _ j(1)])
       (simp_all add: anchor_ids_def InstructionImplDef_def)
  with j(2) Impl_ChangeAuthority show ?thesis by (simp add: ChangeAuthority_Build_def)
next
  case (Impl_DepositNative i)
  with assms(4,5) have "DepositNative_params_set i" "DepositNative_MarshalWithEncoder B i = Inr body"
    by (simp_all add: DepositNative_Build_def)
  from dn_codec.decodes [OF assms(3) this] obtain j where
    j: "DepositNative_UnmarshalWithDecoder B zero_DepositNative (body @ rest) = Inr (j, rest)" "DepositNative_params j = DepositNative_params i"
    by blast
  have "Instruction_UnmarshalWithDecoder A B (Instruction_DepositNative @ body @ rest) = Inr ((Instruction_DepositNative, Impl_DepositNative j), rest)"
    by (rule variant_decodes [where name = "''deposit_native''" and C = Impl_DepositNative and zero = zero_DepositNative
          and u = "DepositNative_UnmarshalWithDecoder B", OF assms(1,2) _ _ j(1)])
       (simp_all add: anchor_ids_def InstructionImplDef_def)
  with j(2) Impl_DepositNative show ?thesis by (simp add: DepositNative_Build_def)
next
  case (Impl_DepositSpl i)
  with assms(4,5) have "DepositSpl_params_set i" "DepositSpl_MarshalWithEncoder B i = Inr body"
    by (simp_all add: DepositSpl_Build_def)
  from ds_codec.decodes [OF assms(3) this] obtain j where
    j: "DepositSpl_UnmarshalWithDecoder B zero_DepositSpl (body @ rest) = Inr (j, rest)" "DepositSpl_params j = DepositSpl_params i"
    by blast
  have "Instruction_UnmarshalWithDecoder A B (Instruction_DepositSpl @ body @ rest) = Inr ((Instruction_DepositSpl, Impl_DepositSpl j), rest)"
    by (rule variant_decodes [where name = "''deposit_spl''" and C = Impl_DepositSpl and zero = zero_DepositSpl
          and u = "DepositSpl_UnmarshalWithDecoder B", OF assms(1,2) _ _ j(1)])
       (simp_all add: anchor_ids_def InstructionImplDef_def)
  with j(2) Impl_DepositSpl show ?thesis by (simp add: DepositSpl_Build_def)
next
  case (Impl_DepositWrapped i)
  with assms(4,5) have "DepositWrapped_params_set i" "DepositWrapped_MarshalWithEncoder B i = Inr body"
    by (simp_all add: DepositWrapped_Build_def)
  from dw_codec.decodes [OF assms(3) this] obtain j where
    j: "DepositWrapped_UnmarshalWithDecoder B zero_DepositWrapped (body @ rest) = Inr (j, rest)" "DepositWrapped_params j = DepositWrapped_params i"
    by blast
  have "Instruction_UnmarshalWithDecoder A B (Instruction_DepositWrapped @ body @ rest) = Inr ((Instruction_DepositWrapped, Impl_DepositWrapped j), rest)"
    by (rule variant_decodes [where name = "''deposit_wrapped''" and C = Impl_DepositWrapped and zero = zero_DepositWrapped
          and u = "DepositWrapped_UnmarshalWithDecoder B", OF assms(1,2) _ _ j(1)])
       (simp_all add: anchor_ids_def InstructionImplDef_def)
  with j(2) Impl_DepositWrapped show ?thesis by (simp add: DepositWrapped_Build_def)
next
  case (Impl_InitSplVault i)
  with assms(4,5) have "InitSplVault_params_set i" "InitSplVault_MarshalWithEncoder B i = Inr body"
    by (simp_all add: InitSplVault_Build_def)
  from iv_codec.decodes [OF assms(3) this] obtain j where
    j: "InitSplVault_UnmarshalWithDecoder B zero_InitSplVault (body @ rest) = Inr (j, rest)" "InitSplVault_params j = InitSplVault_params i"
    by blast
  have "Instruction_UnmarshalWithDecoder A B (Instruction_InitSplVault @ body @ rest) = Inr ((Instruction_InitSplVault, Impl_InitSplVault j), rest)"
    by (rule variant_decodes [where name = "''init_spl_vault''" and C = Impl_InitSplVault and zero = zero_InitSplVault
          and u = "InitSplVault_UnmarshalWithDecoder B", OF assms(1,2) _ _ j(1)])
       (simp_all add: anchor_ids_def InstructionImplDef_def)
  with j(2) Impl_InitSplVault show ?thesis by (simp add: InitSplVault_Build_def)
next
  case (Impl_InitWrappedMint i)
  with assms(4,5) have "InitWrappedMint_params_set i" "InitWrappedMint_MarshalWithEncoder B i = Inr body"
    by (simp_all add: InitWrappedMint_Build_def)
  from im_codec.decodes [OF assms(3) this] obtain j where
    j: "InitWrappedMint_UnmarshalWithDecoder B zero_InitWrappedMint (body @ rest) = Inr (j, rest)" "InitWrappedMint_params j = InitWrappedMint_params i"
    by blast
  have "Instruction_UnmarshalWithDecoder A B (Instruction_InitWrappedMint @ body @ rest) = Inr ((Instruction_InitWrappedMint, Impl_InitWrappedMint j), rest)"
    by (rule variant_decodes [where name = "''init_wrapped_mint''" and C = Impl_InitWrappedMint and zero = zero_InitWrappedMint
          and u = "InitWrappedMint_UnmarshalWithDecoder B", OF assms(1,2) _ _ j(1)])
       (simp_all add: anchor_ids_def InstructionImplDef_def)
  with j(2) Impl_InitWrappedMint show ?thesis by (simp add: InitWrappedMint_Build_def)
next
  case (Impl_Initialize i)
  with assms(4,5) have "Initialize_params_set i" "Initialize_MarshalWithEncoder B i = Inr body"
    by (simp_all add: Initialize_Build_def)
  from ini_codec.decodes [OF assms(3) this] obtain j where
    j: "Initialize_UnmarshalWithDecoder B zero_Initialize (body @ rest) = Inr (j, rest)" "Initialize_params j = Initialize_params i"
    by blast
  have "Instruction_UnmarshalWithDecoder A B (Instruction_Initialize @ body @ rest) = Inr ((Instruction_Initialize, Impl_Initialize j), rest)"
    by (rule variant_decodes [where name = "''initialize''" and C = Impl_Initialize and zero = zero_Initialize
          and u = "Initialize_UnmarshalWithDecoder B", OF assms(1,2) _ _ j(1)])
       (simp_all add: anchor_ids_def InstructionImplDef_def)
  with j(2) Impl_Initialize show ?thesis by (simp add: Initialize_Build_def)
next
  case (Impl_UpdateSigner i)
  with assms(4,5) have "UpdateSigner_params_set i" "UpdateSigner_MarshalWithEncoder B i = Inr body"
    by (simp_all add: UpdateSigner_Build_def)
  from us_codec.decodes [OF assms(3) this] obtain j where
    j: "UpdateSigner_UnmarshalWithDecoder B zero_UpdateSigner (body @ rest) = Inr (j, rest)" "UpdateSigner_params j = UpdateSigner_params i"
    by blast
  have "Instruction_UnmarshalWithDecoder A B (Instruction_UpdateSigner @ body @ rest) = Inr ((Instruction_UpdateSigner, Impl_UpdateSigner j), rest)"
    by (rule variant_decodes [where name = "''update_signer''" and C = Impl_UpdateSigner and zero = zero_UpdateSigner
          and u = "UpdateSigner_UnmarshalWithDecoder B", OF assms(1,2) _ _ j(1)])
       (simp_all add: anchor_ids_def InstructionImplDef_def)
  with j(2) Impl_UpdateSigner show ?thesis by (simp add: UpdateSigner_Build_def)
next
  case (Impl_WithdrawNative i)
  with assms(4,5) have "WithdrawNative_params_set i" "WithdrawNative_MarshalWithEncoder B i = Inr body"
    by (simp_all add: WithdrawNative_Build_def)
  from wn_codec.decodes [OF assms(3) this] obtain j where
    j: "WithdrawNative_UnmarshalWithDecoder B zero_WithdrawNative (body @ rest) = Inr (j, rest)" "WithdrawNative_params j = WithdrawNative_params i"
    by blast
  have "Instruction_UnmarshalWithDecoder A B (Instruction_WithdrawNative @ body @ rest) = Inr ((Instruction_WithdrawNative, Impl_WithdrawNative j), rest)"
    by (rule variant_decodes [where name = "''withdraw_native''" and C = Impl_WithdrawNative and zero = zero_WithdrawNative
          and u = "WithdrawNative_UnmarshalWithDecoder B", OF assms(1,2) _ _ j(1)])
       (simp_all add: anchor_ids_def InstructionImplDef_def)
  with j(2) Impl_WithdrawNative show ?thesis by (simp add: WithdrawNative_Build_def)
next
  case (Impl_WithdrawSpl i)
  with assms(4,5) have "WithdrawSpl_params_set i" "WithdrawSpl_MarshalWithEncoder B i = Inr body"
    by (simp_all add: WithdrawSpl_Build_def)
  from ws_codec.decodes [OF assms(3) this] obtain j where
    j: "WithdrawSpl_UnmarshalWithDecoder B zero_WithdrawSpl (body @ rest) = Inr (j, rest)" "WithdrawSpl_params j = WithdrawSpl_params i"
    by blast
  have "Instruction_UnmarshalWithDecoder A B (Instruction_WithdrawSpl @ body @ rest) = Inr ((Instruction_WithdrawSpl, Impl_WithdrawSpl j), rest)"
    by (rule variant_decodes [where name = "''withdraw_spl''" and C = Impl_WithdrawSpl and zero = zero_WithdrawSpl
          and u = "WithdrawSpl_UnmarshalWithDecoder B", OF assms(1,2) _ _ j(1)])
       (simp_all add: anchor_ids_def InstructionImplDef_def)
  with j(2) Impl_WithdrawSpl show ?thesis by (simp add: WithdrawSpl_Build_def)
next
  case (Impl_WithdrawWrapped i)
  with assms(4,5) have "WithdrawWrapped_params_set i" "WithdrawWrapped_MarshalWithEncoder B i = Inr body"
    by (simp_all add: WithdrawWrapped_Build_def)
  from ww_codec.decodes [OF assms(3) this] obtain j where
    j: "WithdrawWrapped_UnmarshalWithDecoder B zero_WithdrawWrapped (body @ rest) = Inr (j, rest)" "WithdrawWrapped_params j = WithdrawWrapped_params i"
    by blast
  have "Instruction_UnmarshalWithDecoder A B (Instruction_WithdrawWrapped @ body @ rest) = Inr ((Instruction_WithdrawWrapped, Impl_WithdrawWrapped j), rest)"
    by (rule variant_decodes [where name = "''withdraw_wrapped''" and C = Impl_WithdrawWrapped and zero = zero_WithdrawWrapped
          and u = "WithdrawWrapped_UnmarshalWithDecoder B", OF assms(1,2) _ _ j(1)])
       (simp_all add: anchor_ids_def InstructionImplDef_def)
  with j(2) Impl_WithdrawWrapped show ?thesis by (simp add: WithdrawWrapped_Build_def)
qed

lemma impl_builds:
  assumes "borsh_ok B" and "impl_params_set impl"
  shows "\<exists>body. in_Impl (impl_Build impl) B = Inr body"
  using assms
  by (cases impl)
     (simp_all add: ChangeAuthority_Build_def ca_codec.total DepositNative_Build_def dn_codec.total DepositSpl_Build_def ds_codec.total DepositWrapped_Build_def dw_codec.total InitSplVault_Build_def iv_codec.total InitWrappedMint_Build_def im_codec.total Initialize_Build_def ini_codec.total UpdateSigner_Build_def us_codec.total WithdrawNative_Build_def wn_codec.total WithdrawSpl_Build_def ws_codec.total WithdrawWrapped_Build_def ww_codec.total)

lemma impl_SetAccounts_params [simp]:
  "impl_params (impl_SetAccounts ms impl) = impl_params impl"
  "impl_GetAccounts (impl_SetAccounts ms impl) = ms"
  by (cases impl, simp_all add: ChangeAuthority_params_def DepositNative_params_def DepositSpl_params_def DepositWrapped_params_def InitSplVault_params_def InitWrappedMint_params_def Initialize_params_def UpdateSigner_params_def WithdrawNative_params_def WithdrawSpl_params_def WithdrawWrapped_params_def)+

text \<open>What \<open>DecodeInstructions\<close> returns without an error: the instructions of the program, in order.\<close>

lemma decode_instructions_loop_ok:
  assumes "decode_instructions_loop A B M p m inss found = (all, None)"
  shows "\<exists>more_found. all = found @ more_found \<and> list_all2 (\<lambda>ins inst. \<exists>accounts.
      ml_ResolveInstructionAccounts M m ins = Inr accounts
      \<and> DecodeInstruction A B accounts (ci_Data ins) = Inr inst)
    (filter (\<lambda>ins. ml_Program M m (ci_ProgramIDIndex ins) = Inr p) inss) more_found"
  using assms
proof (induction inss arbitrary: found)
  case (Cons ins inss)
  then show ?case
    by (fastforce split: sum.splits if_splits)
qed simp

lemma DecodeInstructions_ok:
  assumes "DecodeInstructions A B M p m = (found, None)"
  shows "list_all2 (\<lambda>ins inst. \<exists>accounts. ml_ResolveInstructionAccounts M m ins = Inr accounts
      \<and> DecodeInstruction A B accounts (ci_Data ins) = Inr inst)
    (filter (\<lambda>ins. ml_Program M m (ci_ProgramIDIndex ins) = Inr p) (ml_Instructions M m)) found"
  using decode_instructions_loop_ok [OF assms [unfolded DecodeInstructions_def]] by simp

end
