(* ===== verification/Solana_Events.thy ===== *)
theory Solana_Events
  imports Solana_Decode
begin

text \<open>
  \<open>contract/events.go\<close> and \<open>contract/errors.go\<close>: the events in the logs and in the inner
  instructions of a transaction, and the custom errors of the program in an RPC error.
  Base 64 is Go's \<open>encoding/base64\<close>; base 58, the transaction and the decoded JSON of an RPC
  error are the library's.
\<close>

subsection \<open>Base 64 (\<open>base64.StdEncoding\<close>)\<close>

definition b64_alphabet :: string where
  "b64_alphabet = ''ABCDEFGHIJKLMNOPQRSTUVWXYZabcdefghijklmnopqrstuvwxyz0123456789+/''"

definition b64_char :: "nat \<Rightarrow> char" where
  "b64_char n = b64_alphabet ! n"

fun index_of :: "'a \<Rightarrow> 'a list \<Rightarrow> nat option" where
  "index_of c [] = None"
| "index_of c (x # xs) = (if c = x then Some 0 else map_option Suc (index_of c xs))"

definition b64_val :: "char \<Rightarrow> nat option" where
  "b64_val c = index_of c b64_alphabet"

fun b64_encode :: "nat list \<Rightarrow> string" where
  "b64_encode [] = []"
| "b64_encode [a] = [b64_char (a div 4), b64_char (a mod 4 * 16), CHR ''='', CHR ''='']"
| "b64_encode [a, b] =
     [b64_char (a div 4), b64_char (a mod 4 * 16 + b div 16), b64_char (b mod 16 * 4), CHR ''='']"
| "b64_encode (a # b # c # r) =
     [b64_char (a div 4), b64_char (a mod 4 * 16 + b div 16), b64_char (b mod 16 * 4 + c div 64),
      b64_char (c mod 64)] @ b64_encode r"

text \<open>Four characters at a time; padding only at the end. Line breaks are skipped before.\<close>

fun b64_decode :: "string \<Rightarrow> nat list option" where
  "b64_decode [] = Some []"
| "b64_decode (c1 # c2 # c3 # c4 # r) =
     (case (b64_val c1, b64_val c2) of
        (Some v1, Some v2) \<Rightarrow>
          if c3 = CHR ''='' \<and> c4 = CHR ''='' \<and> r = [] then Some [v1 * 4 + v2 div 16]
          else (case b64_val c3 of
             None \<Rightarrow> None
           | Some v3 \<Rightarrow>
               if c4 = CHR ''='' \<and> r = [] then Some [v1 * 4 + v2 div 16, v2 mod 16 * 16 + v3 div 4]
               else (case b64_val c4 of
                  None \<Rightarrow> None
                | Some v4 \<Rightarrow> map_option (\<lambda>bs. (v1 * 4 + v2 div 16) # (v2 mod 16 * 16 + v3 div 4)
                     # (v3 mod 4 * 64 + v4) # bs) (b64_decode r)))
      | _ \<Rightarrow> None)"
| "b64_decode _ = None"

definition base64_EncodeToString :: "bytes \<Rightarrow> string" where
  "base64_EncodeToString bs = b64_encode (map unat bs)"

definition base64_DecodeString :: "string \<Rightarrow> go_error + bytes" where
  "base64_DecodeString s =
     (case b64_decode (filter (\<lambda>c. char_code c \<noteq> 10 \<and> char_code c \<noteq> 13) s) of
        None \<Rightarrow> Inl (Msg ''illegal base64 data'')
      | Some ns \<Rightarrow> Inr (map word_of_nat ns))"

lemma b64_val_char_all:
  "\<forall>n \<in> set [0..<64]. b64_val (b64_char n) = Some n \<and> char_code (b64_char n) \<noteq> 10
     \<and> char_code (b64_char n) \<noteq> 13 \<and> b64_char n \<noteq> CHR ''=''"
  by code_simp

lemma b64_val_char:
  assumes "n < 64"
  shows "b64_val (b64_char n) = Some n" "char_code (b64_char n) \<noteq> 10"
    "char_code (b64_char n) \<noteq> 13" "b64_char n \<noteq> CHR ''=''"
  using b64_val_char_all assms by simp_all

lemma b64_digits:
  assumes "a < 256" and "b < 256" and "c < (256 :: nat)"
  shows "a div 4 < 64" "a mod 4 * 16 + b div 16 < 64" "b mod 16 * 4 + c div 64 < 64" "c mod 64 < 64"
    "a mod 4 * 16 < 64" "b mod 16 * 4 < 64"
  using assms by simp_all

lemma b64_bytes:
  assumes "b < 256" and "c < (256 :: nat)"
  shows "a div 4 * 4 + (a mod 4 * 16 + b div 16) div 16 = a"
    "(a mod 4 * 16 + b div 16) mod 16 * 16 + (b mod 16 * 4 + c div 64) div 4 = b"
    "(b mod 16 * 4 + c div 64) mod 4 * 64 + c mod 64 = c"
proof -
  have "b div 16 < 16" "c div 64 < 4" using assms by simp_all
  then have "(a mod 4 * 16 + b div 16) div 16 = a mod 4" "(a mod 4 * 16 + b div 16) mod 16 = b div 16"
    "(b mod 16 * 4 + c div 64) div 4 = b mod 16" "(b mod 16 * 4 + c div 64) mod 4 = c div 64"
    by simp_all
  then show "a div 4 * 4 + (a mod 4 * 16 + b div 16) div 16 = a"
    "(a mod 4 * 16 + b div 16) mod 16 * 16 + (b mod 16 * 4 + c div 64) div 4 = b"
    "(b mod 16 * 4 + c div 64) mod 4 * 64 + c mod 64 = c"
    by (simp_all only: div_mult_mod_eq)
qed

lemma b64_encode_chars:
  "\<forall>n \<in> set ns. n < 256 \<Longrightarrow> set (b64_encode ns) \<subseteq> insert (CHR ''='') (b64_char ` {..<64})"
proof (induction ns rule: b64_encode.induct)
  case (2 a)
  then show ?case using b64_digits [of a 0 0] by simp
next
  case (3 a b)
  then show ?case using b64_digits [of a b 0] by simp
next
  case (4 a b c r)
  then show ?case using b64_digits [of a b c] by simp
qed simp

lemma b64_encode_clean:
  assumes "\<forall>n \<in> set ns. n < 256" and "x \<in> set (b64_encode ns)"
  shows "char_code x \<noteq> 10 \<and> char_code x \<noteq> 13"
proof -
  from b64_encode_chars [OF assms(1)] assms(2) have "x = CHR ''='' \<or> (\<exists>n < 64. x = b64_char n)" by blast
  then show ?thesis by (auto simp: b64_val_char) (simp_all add: char_code_def)
qed

lemma b64_roundtrip: "\<forall>n \<in> set ns. n < 256 \<Longrightarrow> b64_decode (b64_encode ns) = Some ns"
proof (induction ns rule: b64_encode.induct)
  case (2 a)
  then have "a < 256" by simp
  note digits = b64_digits [OF this, where b = 0 and c = 0]
  show ?case using b64_bytes(1) [of 0 0 a] by (simp add: b64_val_char [OF digits(1)] b64_val_char [OF digits(5)])
next
  case (3 a b)
  then have "a < 256" "b < 256" by simp_all
  note digits = b64_digits [OF this, where c = 0] and bytes = b64_bytes [OF this(2), where c = 0]
  show ?case using bytes(1,2)
    by (simp add: b64_val_char [OF digits(1)] b64_val_char [OF digits(2)] b64_val_char [OF digits(6)])
next
  case (4 a b c r)
  then have "a < 256" "b < 256" "c < 256" and r: "b64_decode (b64_encode r) = Some r" by simp_all
  note digits = b64_digits [OF this(1-3)] and bytes = b64_bytes [OF this(2,3)]
  show ?case using bytes
    by (simp add: r bytes b64_val_char [OF digits(1)] b64_val_char [OF digits(2)] b64_val_char [OF digits(3)]
        b64_val_char [OF digits(4)])
qed simp

lemma base64_roundtrip: "base64_DecodeString (base64_EncodeToString bs) = Inr bs"
proof -
  have small: "\<forall>n \<in> set (map unat bs). n < 256" by simp
  have "filter (\<lambda>c. char_code c \<noteq> 10 \<and> char_code c \<noteq> 13) (b64_encode (map unat bs)) = b64_encode (map unat bs)"
    by (rule filter_True) (use b64_encode_clean [OF small] in \<open>blast\<close>)
  then show ?thesis
    by (simp add: base64_DecodeString_def base64_EncodeToString_def b64_roundtrip [OF small] comp_def)
qed

subsection \<open>Events (\<open>events.go\<close>)\<close>

text \<open>
  The types of the program's events, by discriminator: a name and \<open>UnmarshalWithDecoder\<close>. The
  program declares none, so both tables are empty.
\<close>

type_synonym 'e event_types = "TypeID \<Rightarrow> (string \<times> (bytes \<Rightarrow> go_error + 'e)) option"

definition eventTypes :: "'e event_types" where
  "eventTypes = (\<lambda>discriminator. None)"

definition eventNames :: "TypeID \<Rightarrow> string" where
  "eventNames = (\<lambda>discriminator. [])"

record 'e Event =
  ev_Name :: string
  ev_Data :: 'e

definition eventLogPrefix :: string where
  "eventLogPrefix = ''Program data: ''"

fun decodeEventsFromLogMessage_loop :: "string list \<Rightarrow> bytes list \<Rightarrow> bytes list \<times> go_error option" where
  "decodeEventsFromLogMessage_loop [] eventBinaries = (eventBinaries, None)"
| "decodeEventsFromLogMessage_loop (log # logs) eventBinaries =
     (if strings_HasPrefix log eventLogPrefix
      then (let eventBase64 = drop (length eventLogPrefix) log in
        case base64_DecodeString eventBase64 of
          Inl _ \<Rightarrow> (eventBinaries, Some (Msg (''failed to decode logMessage event: '' @ eventBase64)))
        | Inr eventBinary \<Rightarrow> decodeEventsFromLogMessage_loop logs (eventBinaries @ [eventBinary]))
      else decodeEventsFromLogMessage_loop logs eventBinaries)"

definition decodeEventsFromLogMessage :: "string list \<Rightarrow> bytes list \<times> go_error option" where
  "decodeEventsFromLogMessage logMessages = decodeEventsFromLogMessage_loop logMessages []"

text \<open>The instructions inside another one: the index of the program and the data in base 58.\<close>

record inner_instruction =
  ix_ProgramIDIndex :: uint16
  ix_Data :: string

fun decodeEventsFromEmitCPI_loop ::
  "(string \<Rightarrow> go_error + bytes) \<Rightarrow> inner_instruction list \<Rightarrow> pubkey list \<Rightarrow> pubkey \<Rightarrow> bytes list
     \<Rightarrow> (bytes list \<times> go_error option) go_result" where
  "decodeEventsFromEmitCPI_loop base58_Decode [] accountKeys targetProgramId eventBinaries
     = Returned (eventBinaries, None)"
| "decodeEventsFromEmitCPI_loop base58_Decode (ix # ixs) accountKeys targetProgramId eventBinaries =
     (if unat (ix_ProgramIDIndex ix) \<ge> length accountKeys then Panic ''index out of range''
      else if accountKeys ! unat (ix_ProgramIDIndex ix) \<noteq> targetProgramId
      then decodeEventsFromEmitCPI_loop base58_Decode ixs accountKeys targetProgramId eventBinaries
      else case base58_Decode (ix_Data ix) of
        Inl err \<Rightarrow> Returned (eventBinaries, Some err)
      | Inr ixData \<Rightarrow>
          if length ixData < 8
          then decodeEventsFromEmitCPI_loop base58_Decode ixs accountKeys targetProgramId eventBinaries
          else (case base64_DecodeString (base64_EncodeToString (drop 8 ixData)) of
             Inl err \<Rightarrow> Returned (eventBinaries, Some err)
           | Inr eventBinary \<Rightarrow>
               decodeEventsFromEmitCPI_loop base58_Decode ixs accountKeys targetProgramId
                 (eventBinaries @ [eventBinary])))"

text \<open>The outer loop appends the instructions of each inner group in order, so it is the inner
  loop over their concatenation.\<close>

definition decodeEventsFromEmitCPI ::
  "(string \<Rightarrow> go_error + bytes) \<Rightarrow> inner_instruction list list \<Rightarrow> pubkey list \<Rightarrow> pubkey
     \<Rightarrow> (bytes list \<times> go_error option) go_result" where
  "decodeEventsFromEmitCPI base58_Decode InnerInstructions accountKeys targetProgramId =
     decodeEventsFromEmitCPI_loop base58_Decode (concat InnerInstructions) accountKeys targetProgramId []"

fun parseEvents_loop ::
  "'e event_types \<Rightarrow> (TypeID \<Rightarrow> string) \<Rightarrow> bytes list \<Rightarrow> 'e Event list \<Rightarrow> 'e Event list \<times> go_error option" where
  "parseEvents_loop types names [] evts = (evts, None)"
| "parseEvents_loop types names (eventBinary # eventBinaries) evts =
     (if length eventBinary < 8 then parseEvents_loop types names eventBinaries evts
      else case types (take 8 eventBinary) of
        None \<Rightarrow> parseEvents_loop types names eventBinaries evts
      | Some (name, unmarshal) \<Rightarrow>
          (case unmarshal eventBinary of
             Inl err \<Rightarrow> (evts, Some (Wrap (''failed to unmarshal event '' @ name) err))
           | Inr eventData \<Rightarrow> parseEvents_loop types names eventBinaries
               (evts @ [\<lparr>ev_Name = names (take 8 eventBinary), ev_Data = eventData\<rparr>])))"

definition parseEvents :: "bytes list \<Rightarrow> 'e Event list \<times> go_error option" where
  "parseEvents base64Binaries = parseEvents_loop eventTypes eventNames base64Binaries []"

text \<open>What \<open>DecodeEvents\<close> asks of the transaction: its message with the address lookups, its logs and
  inner instructions. \<open>tr_ResolveLookups\<close> gives the account keys after the tables are set.\<close>

record tx_result =
  tr_GetTransaction :: "go_error + unit"
  tr_AddressTableLookups :: "pubkey list"
  tr_AccountKeys :: "pubkey list"
  tr_ResolveLookups :: "(pubkey \<Rightarrow> pubkey list option) \<Rightarrow> go_error + pubkey list"
  tr_LogMessages :: "string list"
  tr_InnerInstructions :: "inner_instruction list list"

definition DecodeEvents ::
  "(string \<Rightarrow> go_error + bytes) \<Rightarrow> tx_result \<Rightarrow> pubkey
     \<Rightarrow> (pubkey list \<Rightarrow> go_error + (pubkey \<Rightarrow> pubkey list option)) \<Rightarrow> ('e Event list \<times> go_error option) go_result" where
  "DecodeEvents base58_Decode txData targetProgramId getAddressTables =
     (case tr_GetTransaction txData of Inl err \<Rightarrow> Returned ([], Some err) | Inr _ \<Rightarrow>
     (case (if tr_AddressTableLookups txData = [] then Inr (tr_AccountKeys txData)
            else case getAddressTables (tr_AddressTableLookups txData) of
              Inl err \<Rightarrow> Inl err | Inr tables \<Rightarrow> tr_ResolveLookups txData tables) of
        Inl err \<Rightarrow> Returned ([], Some err)
      | Inr accountKeys \<Rightarrow>
     (case decodeEventsFromLogMessage (tr_LogMessages txData) of
        (_, Some err) \<Rightarrow> Returned ([], Some err)
      | (logBinaries, None) \<Rightarrow>
     (case decodeEventsFromEmitCPI base58_Decode (tr_InnerInstructions txData) accountKeys targetProgramId of
        Panic m \<Rightarrow> Panic m
      | Returned (_, Some err) \<Rightarrow> Returned ([], Some err)
      | Returned (cpiBinaries, None) \<Rightarrow> Returned (parseEvents (logBinaries @ cpiBinaries))))))"

text \<open>With the empty tables no event is ever found.\<close>

lemma parseEvents_nothing: "parseEvents bs = ([], None)"
proof -
  have "parseEvents_loop eventTypes eventNames bs evts = (evts, None)" for evts
    by (induction bs) (simp_all add: eventTypes_def)
  then show ?thesis by (simp add: parseEvents_def)
qed

lemma DecodeEvents_nothing:
  "DecodeEvents D tx p g = Returned (evts, err) \<Longrightarrow> evts = []"
  by (auto simp: DecodeEvents_def parseEvents_nothing split: sum.splits option.splits prod.splits go_result.splits)

text \<open>The data of an instruction is taken without its first eight bytes, whatever it is.\<close>

lemma emit_cpi_data:
  assumes "base58_Decode (ix_Data ix) = Inr ixData" and "8 \<le> length ixData"
    and "unat (ix_ProgramIDIndex ix) < length keys" and "keys ! unat (ix_ProgramIDIndex ix) = p"
  shows "decodeEventsFromEmitCPI base58_Decode [[ix]] keys p = Returned ([drop 8 ixData], None)"
  using assms by (simp add: decodeEventsFromEmitCPI_def base64_roundtrip)

end
