(* ===== verification/Solana_Errors.thy ===== *)
theory Solana_Errors
  imports Go_Std Complex_Main
begin

text \<open>
  \<open>contract/errors.go\<close>: the custom errors of the bridge program, and how they are found in the
  error of an RPC call. The data of an RPC error is decoded JSON, whose dynamic types the code
  asserts step by step; \<open>as_RPCError\<close> stands for \<open>errors.As\<close> with the library's error type.
\<close>

subsection \<open>The table\<close>

record CustomError =
  ce_code :: int
  ce_name :: string
  ce_msg :: string

definition custom_error :: "int \<Rightarrow> string \<Rightarrow> string \<Rightarrow> CustomError" where
  "custom_error code msg name = \<lparr>ce_code = code, ce_name = name, ce_msg = msg\<rparr>"

definition ErrInvalidAmount :: CustomError where
  "ErrInvalidAmount = custom_error 6000 ''Cannot deposit 0 tokens'' ''InvalidAmount''"
definition ErrInvalidSignature :: CustomError where
  "ErrInvalidSignature = custom_error 6001 ''Unauthorized signers'' ''InvalidSignature''"
definition ErrDoubleSpending :: CustomError where
  "ErrDoubleSpending = custom_error 6002 ''Attempting double-spending withdrawal'' ''DoubleSpending''"
definition ErrMismatchedHash :: CustomError where
  "ErrMismatchedHash = custom_error 6003 ''Mismatched hash'' ''MismatchedHash''"
definition ErrInvalidWithdrawal :: CustomError where
  "ErrInvalidWithdrawal = custom_error 6004 ''Attempting to withdraw too many lamports'' ''InvalidWithdrawal''"
definition ErrOutdatedNonce :: CustomError where
  "ErrOutdatedNonce = custom_error 6005 ''Nonce must be larger than the old one'' ''OutdatedNonce''"
definition ErrRequestNotYetValid :: CustomError where
  "ErrRequestNotYetValid = custom_error 6006 ''Request is not valid yet.'' ''RequestNotYetValid''"
definition ErrRequestExpired :: CustomError where
  "ErrRequestExpired = custom_error 6007 ''Request is expired'' ''RequestExpired''"
definition ErrSignerExist :: CustomError where
  "ErrSignerExist = custom_error 6008 ''Signer is already exist'' ''SignerExist''"
definition ErrSignerNotExist :: CustomError where
  "ErrSignerNotExist = custom_error 6009 ''Signer is not exist'' ''SignerNotExist''"

lemmas custom_errors = ErrInvalidAmount_def ErrInvalidSignature_def ErrDoubleSpending_def
  ErrMismatchedHash_def ErrInvalidWithdrawal_def ErrOutdatedNonce_def ErrRequestNotYetValid_def
  ErrRequestExpired_def ErrSignerExist_def ErrSignerNotExist_def custom_error_def

definition Errors :: "int \<Rightarrow> CustomError option" where
  "Errors = [6000 \<mapsto> ErrInvalidAmount, 6001 \<mapsto> ErrInvalidSignature, 6002 \<mapsto> ErrDoubleSpending,
     6003 \<mapsto> ErrMismatchedHash, 6004 \<mapsto> ErrInvalidWithdrawal, 6005 \<mapsto> ErrOutdatedNonce,
     6006 \<mapsto> ErrRequestNotYetValid, 6007 \<mapsto> ErrRequestExpired, 6008 \<mapsto> ErrSignerExist,
     6009 \<mapsto> ErrSignerNotExist]"

definition CustomError_Error :: "CustomError \<Rightarrow> string" where
  "CustomError_Error e = ce_name e @ ''('' @ itoa (ce_code e) @ ''): '' @ ce_msg e"

subsection \<open>Decoding\<close>

text \<open>A value of the type \<open>interface{}\<close> as the JSON decoder makes them. A number is a
  \<open>json.Number\<close> (its text) or a finite \<open>float64\<close>, whose conversion to \<open>int\<close> drops the fraction.\<close>

datatype any =
    AnyNil
  | AnyMap "(string \<times> any) list"
  | AnyList "any list"
  | AnyNumber string
  | AnyFloat rat
  | AnyString string
  | AnyBool bool

definition any_index :: "any \<Rightarrow> string \<Rightarrow> any option" where
  "any_index v k = (case v of AnyMap m \<Rightarrow> map_of m k | _ \<Rightarrow> None)"

definition int_of_float :: "rat \<Rightarrow> int" where
  "int_of_float f = (if f < 0 then - \<lfloor>- f\<rfloor> else \<lfloor>f\<rfloor>)"

definition decodeErrorCode :: "(go_error \<Rightarrow> any option) \<Rightarrow> go_error \<Rightarrow> int \<times> bool" where
  "decodeErrorCode as_RPCError rpcErr = (case as_RPCError rpcErr of
     None \<Rightarrow> (0, False)
   | Some data \<Rightarrow> (case any_index data ''err'' of
       None \<Rightarrow> (0, False)
     | Some rootErr \<Rightarrow> (case any_index rootErr ''InstructionError'' of
         Some (AnyList items) \<Rightarrow>
           if length items = 2 then (case any_index (items ! 1) ''Custom'' of
               Some (AnyNumber n) \<Rightarrow> (case ParseInt64 n of Inr code \<Rightarrow> (code, True) | Inl _ \<Rightarrow> (0, False))
             | Some (AnyFloat f) \<Rightarrow> (int_of_float f, True)
             | _ \<Rightarrow> (0, False))
           else (0, False)
       | _ \<Rightarrow> (0, False))))"

definition DecodeCustomError :: "(go_error \<Rightarrow> any option) \<Rightarrow> go_error \<Rightarrow> CustomError option \<times> bool" where
  "DecodeCustomError as_RPCError rpcErr = (case decodeErrorCode as_RPCError rpcErr of
     (errCode, True) \<Rightarrow> (case Errors errCode of Some customErr \<Rightarrow> (Some customErr, True) | None \<Rightarrow> (None, False))
   | (errCode, False) \<Rightarrow> (None, False))"

subsection \<open>What is decoded\<close>

lemma Errors_code: "Errors c = Some e \<Longrightarrow> ce_code e = c"
  by (auto simp: Errors_def custom_errors split: if_splits)

lemma Errors_range: "(\<exists>e. Errors c = Some e) \<longleftrightarrow> 6000 \<le> c \<and> c \<le> 6009"
  by (auto simp: Errors_def) presburger

text \<open>The data of an RPC error in which instruction \<open>i\<close> failed with a custom code.\<close>

definition instruction_error :: "any \<Rightarrow> any \<Rightarrow> any" where
  "instruction_error i code =
     AnyMap [(''err'', AnyMap [(''InstructionError'', AnyList [i, AnyMap [(''Custom'', code)]])])]"

lemma decode_instruction_error:
  assumes "as_RPCError e = Some (instruction_error i code)"
    and "code = AnyNumber (itoa c) \<and> - (2 ^ 63) \<le> c \<and> c < 2 ^ 63 \<or> code = AnyFloat (of_int c)"
  shows "decodeErrorCode as_RPCError e = (c, True)"
  using assms
  by (auto simp: decodeErrorCode_def instruction_error_def any_index_def int_of_float_def ParseInt64_itoa)

lemma DecodeCustomError_instruction:
  assumes "as_RPCError e = Some (instruction_error i code)"
    and "code = AnyNumber (itoa c) \<and> - (2 ^ 63) \<le> c \<and> c < 2 ^ 63 \<or> code = AnyFloat (of_int c)"
  shows "DecodeCustomError as_RPCError e = (Errors c, 6000 \<le> c \<and> c \<le> 6009)"
  using decode_instruction_error [of as_RPCError, OF assms] Errors_range [of c]
  by (auto simp: DecodeCustomError_def split: option.splits)

end
