(* ===== verification/Solana_Accounts.thy ===== *)
theory Solana_Accounts
  imports Solana_Contract
begin

text \<open>
  The accounts of the bridge program as the bindings read and write them: \<open>Authority\<close> and
  \<open>TxUsed\<close> of \<open>contract/types.go\<close>, and the same data after an account discriminator in
  \<open>contract/accounts.go\<close>. \<open>TxUsed\<close> marks a withdrawal hash as spent. The service itself asks only
  whether that account exists.
\<close>

subsection \<open>Types (\<open>types.go\<close>)\<close>

record Authority =
  au_Bump :: byte
  au_Signers :: "bytes list"
  au_AuthNonce :: uint64

record TxUsed =
  tu_Used :: bool

text \<open>A field of value type is encoded as it is and decoded in place.\<close>

definition enc_value :: "'a codec \<Rightarrow> 'a \<Rightarrow> go_error + bytes" where
  "enc_value c v = enc c (Some v)"

definition dec_value :: "'a codec \<Rightarrow> 'a \<Rightarrow> bytes \<Rightarrow> ('a \<Rightarrow> bytes \<Rightarrow> go_error + 'i \<times> bytes) \<Rightarrow> go_error + 'i \<times> bytes" where
  "dec_value c old input k = dec_then c input (\<lambda>v rest. k (case v of Some a \<Rightarrow> a | None \<Rightarrow> old) rest)"

definition Authority_MarshalWithEncoder :: "borsh \<Rightarrow> Authority \<Rightarrow> go_error + bytes" where
  "Authority_MarshalWithEncoder B obj = enc_all
     [enc_value (bo_u8 B) (au_Bump obj),
      enc_value (bo_keys B) (au_Signers obj),
      enc_value (bo_u64 B) (au_AuthNonce obj)]"

definition Authority_UnmarshalWithDecoder ::
  "borsh \<Rightarrow> Authority \<Rightarrow> bytes \<Rightarrow> go_error + Authority \<times> bytes" where
  "Authority_UnmarshalWithDecoder B obj r0 =
     dec_value (bo_u8 B) (au_Bump obj) r0 (\<lambda>v1 r1.
     dec_value (bo_keys B) (au_Signers obj) r1 (\<lambda>v2 r2.
     dec_value (bo_u64 B) (au_AuthNonce obj) r2 (\<lambda>v3 r3.
     Inr (obj\<lparr>au_Bump := v1, au_Signers := v2, au_AuthNonce := v3\<rparr>, r3))))"

definition TxUsed_MarshalWithEncoder :: "borsh \<Rightarrow> TxUsed \<Rightarrow> go_error + bytes" where
  "TxUsed_MarshalWithEncoder B obj = enc_all [enc_value (bo_bool B) (tu_Used obj)]"

text \<open>Without input left (\<open>HasRemaining\<close>) the object stays as it is.\<close>

definition TxUsed_UnmarshalWithDecoder ::
  "borsh \<Rightarrow> TxUsed \<Rightarrow> bytes \<Rightarrow> go_error + TxUsed \<times> bytes" where
  "TxUsed_UnmarshalWithDecoder B obj r0 =
     (if r0 = [] then Inr (obj, r0)
      else dec_value (bo_bool B) (tu_Used obj) r0 (\<lambda>v1 r1. Inr (obj\<lparr>tu_Used := v1\<rparr>, r1)))"

definition UpdateSignerRequestType_String :: "UpdateSignerRequestType \<Rightarrow> string" where
  "UpdateSignerRequestType_String value = (case value of
     UpdateSignerRequestTypeAdd \<Rightarrow> ''Add'' | UpdateSignerRequestTypeRemove \<Rightarrow> ''Remove'')"

subsection \<open>Accounts (\<open>accounts.go\<close>)\<close>

text \<open>\<open>AuthorityAccount\<close> and \<open>TxUsedAccount\<close> have the fields of the types above.\<close>

definition AuthorityAccountDiscriminator :: bytes where
  "AuthorityAccountDiscriminator = [36, 108, 254, 18, 167, 144, 27, 36]"

definition TxUsedAccountDiscriminator :: bytes where
  "TxUsedAccountDiscriminator = [241, 123, 49, 175, 159, 254, 70, 203]"

text \<open>
  The check of the discriminator. \<open>ReadTypeID\<close> reads eight bytes or fails; its error and the
  text of \<open>fmt.Errorf\<close> are given by their beginning.
\<close>

definition read_discriminator ::
  "bytes \<Rightarrow> bytes \<Rightarrow> (bytes \<Rightarrow> go_error + 'i \<times> bytes) \<Rightarrow> go_error + 'i \<times> bytes" where
  "read_discriminator wanted r0 k =
     (if length r0 < 8 then Inl (Msg ''required 8 bytes'')
      else if take 8 r0 \<noteq> wanted then Inl (Msg ''wrong discriminator'')
      else k (drop 8 r0))"

definition AuthorityAccount_MarshalWithEncoder :: "borsh \<Rightarrow> Authority \<Rightarrow> go_error + bytes" where
  "AuthorityAccount_MarshalWithEncoder B obj = enc_all
     [Inr AuthorityAccountDiscriminator,
      enc_value (bo_u8 B) (au_Bump obj),
      enc_value (bo_keys B) (au_Signers obj),
      enc_value (bo_u64 B) (au_AuthNonce obj)]"

definition AuthorityAccount_UnmarshalWithDecoder ::
  "borsh \<Rightarrow> Authority \<Rightarrow> bytes \<Rightarrow> go_error + Authority \<times> bytes" where
  "AuthorityAccount_UnmarshalWithDecoder B obj r =
     read_discriminator AuthorityAccountDiscriminator r (\<lambda>r0.
     dec_value (bo_u8 B) (au_Bump obj) r0 (\<lambda>v1 r1.
     dec_value (bo_keys B) (au_Signers obj) r1 (\<lambda>v2 r2.
     dec_value (bo_u64 B) (au_AuthNonce obj) r2 (\<lambda>v3 r3.
     Inr (obj\<lparr>au_Bump := v1, au_Signers := v2, au_AuthNonce := v3\<rparr>, r3)))))"

definition TxUsedAccount_MarshalWithEncoder :: "borsh \<Rightarrow> TxUsed \<Rightarrow> go_error + bytes" where
  "TxUsedAccount_MarshalWithEncoder B obj = enc_all
     [Inr TxUsedAccountDiscriminator, enc_value (bo_bool B) (tu_Used obj)]"

definition TxUsedAccount_UnmarshalWithDecoder ::
  "borsh \<Rightarrow> TxUsed \<Rightarrow> bytes \<Rightarrow> go_error + TxUsed \<times> bytes" where
  "TxUsedAccount_UnmarshalWithDecoder B obj r =
     read_discriminator TxUsedAccountDiscriminator r (\<lambda>r0.
     if r0 = [] then Inr (obj, r0)
     else dec_value (bo_bool B) (tu_Used obj) r0 (\<lambda>v1 r1. Inr (obj\<lparr>tu_Used := v1\<rparr>, r1)))"

subsection \<open>Codecs\<close>

lemma codec_okE:
  assumes "codec_ok P c" and "P v"
  obtains bs where "enc_value c v = Inr bs" "\<And>old rest k. dec_value c old (bs @ rest) k = k v rest"
  using assms unfolding codec_ok_def enc_value_def dec_value_def dec_then_def by force

text \<open>An account is its type's data after the discriminator.\<close>

lemma account_data:
  "AuthorityAccount_MarshalWithEncoder B a = map_sum id ((@) AuthorityAccountDiscriminator) (Authority_MarshalWithEncoder B a)"
  "TxUsedAccount_MarshalWithEncoder B u = map_sum id ((@) TxUsedAccountDiscriminator) (TxUsed_MarshalWithEncoder B u)"
  by (simp_all add: AuthorityAccount_MarshalWithEncoder_def Authority_MarshalWithEncoder_def
      TxUsedAccount_MarshalWithEncoder_def TxUsed_MarshalWithEncoder_def map_sum_def split: sum.splits)

lemma account_read:
  "AuthorityAccount_UnmarshalWithDecoder B a (AuthorityAccountDiscriminator @ r) = Authority_UnmarshalWithDecoder B a r"
  "TxUsedAccount_UnmarshalWithDecoder B u (TxUsedAccountDiscriminator @ r) = TxUsed_UnmarshalWithDecoder B u r"
  by (simp_all add: AuthorityAccount_UnmarshalWithDecoder_def Authority_UnmarshalWithDecoder_def
      TxUsedAccount_UnmarshalWithDecoder_def TxUsed_UnmarshalWithDecoder_def read_discriminator_def
      AuthorityAccountDiscriminator_def TxUsedAccountDiscriminator_def)

text \<open>An account of one kind is never read as the other, nor is an account without a discriminator.\<close>

lemma account_kinds:
  "\<exists>e. AuthorityAccount_UnmarshalWithDecoder B a (TxUsedAccountDiscriminator @ r) = Inl e"
  "\<exists>e. TxUsedAccount_UnmarshalWithDecoder B u (AuthorityAccountDiscriminator @ r) = Inl e"
  by (simp_all add: AuthorityAccount_UnmarshalWithDecoder_def TxUsedAccount_UnmarshalWithDecoder_def
      read_discriminator_def AuthorityAccountDiscriminator_def TxUsedAccountDiscriminator_def)

definition Authority_set :: "Authority \<Rightarrow> bool" where
  "Authority_set a \<longleftrightarrow> key_list (au_Signers a)"

lemma Authority_roundtrip:
  assumes "borsh_ok B" and "Authority_set a"
  shows "\<exists>bs. Authority_MarshalWithEncoder B a = Inr bs
    \<and> (\<forall>obj rest. \<exists>j. Authority_UnmarshalWithDecoder B obj (bs @ rest) = Inr (j, rest) \<and> id j = id a)"
proof -
  note ok = assms(1) [unfolded borsh_ok_def]
  obtain b1 where 1: "enc_value (bo_u8 B) (au_Bump a) = Inr b1"
      "\<And>old rest k. dec_value (bo_u8 B) old (b1 @ rest) k = (k (au_Bump a) rest :: go_error + Authority \<times> bytes)"
    using ok codec_okE [of "\<lambda>_. True" "bo_u8 B" "au_Bump a"] by blast
  obtain b2 where 2: "enc_value (bo_keys B) (au_Signers a) = Inr b2"
      "\<And>old rest k. dec_value (bo_keys B) old (b2 @ rest) k = (k (au_Signers a) rest :: go_error + Authority \<times> bytes)"
    using ok assms(2) codec_okE [of key_list "bo_keys B" "au_Signers a"] unfolding Authority_set_def by blast
  obtain b3 where 3: "enc_value (bo_u64 B) (au_AuthNonce a) = Inr b3"
      "\<And>old rest k. dec_value (bo_u64 B) old (b3 @ rest) k = (k (au_AuthNonce a) rest :: go_error + Authority \<times> bytes)"
    using ok codec_okE [of "\<lambda>_. True" "bo_u64 B" "au_AuthNonce a"] by blast
  show ?thesis
    by (rule exI [of _ "b1 @ b2 @ b3"])
       (simp add: Authority_MarshalWithEncoder_def Authority_UnmarshalWithDecoder_def 1 2 3)
qed

interpretation authority_codec: instruction_codec Authority_MarshalWithEncoder Authority_UnmarshalWithDecoder
    Authority_set id
  by unfold_locales (rule Authority_roundtrip)

interpretation authority_account_codec: instruction_codec AuthorityAccount_MarshalWithEncoder
    AuthorityAccount_UnmarshalWithDecoder Authority_set id
proof
  fix B a assume "borsh_ok B" "Authority_set a"
  from Authority_roundtrip [OF this] obtain bs where "Authority_MarshalWithEncoder B a = Inr bs"
    and "\<And>obj rest. \<exists>j. Authority_UnmarshalWithDecoder B obj (bs @ rest) = Inr (j, rest) \<and> id j = id a"
    by blast
  then show "\<exists>bs. AuthorityAccount_MarshalWithEncoder B a = Inr bs
      \<and> (\<forall>obj rest. \<exists>j. AuthorityAccount_UnmarshalWithDecoder B obj (bs @ rest) = Inr (j, rest) \<and> id j = id a)"
    by (intro exI [of _ "AuthorityAccountDiscriminator @ bs"])
       (simp add: account_data account_read)
qed

lemma TxUsed_roundtrip:
  assumes "borsh_ok B" and "TxUsed_MarshalWithEncoder B u = Inr bs" and "bs \<noteq> []"
  shows "TxUsed_UnmarshalWithDecoder B obj (bs @ rest) = Inr (u, rest)"
proof -
  note ok = assms(1) [unfolded borsh_ok_def]
  obtain b where "enc_value (bo_bool B) (tu_Used u) = Inr b"
      "\<And>old rest k. dec_value (bo_bool B) old (b @ rest) k = (k (tu_Used u) rest :: go_error + TxUsed \<times> bytes)"
    using ok codec_okE [of "\<lambda>_. True" "bo_bool B" "tu_Used u"] by blast
  with assms(2,3) show ?thesis by (simp add: TxUsed_MarshalWithEncoder_def TxUsed_UnmarshalWithDecoder_def)
qed

end
