(* ===== verification/Solana_Bindings_Props.thy ===== *)
theory Solana_Bindings_Props
  imports Solana_Events Solana_Errors Solana_Accounts Solana_Props
begin

text \<open>
  The bindings of the Solana program as a whole: what any instruction of the program encodes to,
  \<open>DecodeInstruction\<close> reads back.
\<close>

subsection \<open>A concrete variant decoder for the witness\<close>

definition demo_sighash :: "string \<Rightarrow> TypeID" where
  "demo_sighash name = (case map_of anchor_ids name of Some tid \<Rightarrow> tid | None \<Rightarrow> replicate 8 0)"

definition demo_unmarshal_variant ::
  "variant_type list \<Rightarrow> bytes \<Rightarrow> go_error + (TypeID \<times> instruction_impl) \<times> bytes" where
  "demo_unmarshal_variant defs input =
     (case find (\<lambda>(name, decode). demo_sighash name = take 8 input) defs of
        None \<Rightarrow> Inl (Msg ''no known type for type'')
      | Some (name, decode) \<Rightarrow> map_sum id (apfst (Pair (take 8 input))) (decode (drop 8 input)))"

definition demo_anchor :: anchor_lib where
  "demo_anchor = \<lparr>al_Sighash = demo_sighash, al_UnmarshalBinaryVariant = demo_unmarshal_variant,
     al_SetAccounts = Inr\<rparr>"

lemma find_distinct:
  "distinct (map (f \<circ> fst) xs) \<Longrightarrow> (a, b) \<in> set xs \<Longrightarrow> find (\<lambda>(x, y). f x = f a) xs = Some (a, b)"
  by (induction xs) (auto simp: rev_image_eqI image_iff)

lemma demo_sighash_length: "length (demo_sighash name) = 8"
  by (simp add: demo_sighash_def anchor_ids_def type_ids)

lemma demo_anchor_ok: "anchor_ok demo_anchor"
  by (auto simp: anchor_ok_def demo_anchor_def demo_unmarshal_variant_def demo_sighash_length
      take_append drop_append find_distinct [where f = demo_sighash])

lemma demo_anchor_ids: "sighash_ok demo_anchor"
  by (simp add: sighash_ok_def demo_anchor_def demo_sighash_def anchor_ids_def)

text \<open>C20: Every instruction of the program, with its parameters set, is encoded, and
  \<open>DecodeInstruction\<close> over its data gives back the same kind of instruction with the same
  parameters, and with the accounts it is given: none of the eleven kinds is taken for another.\<close>

theorem sol_instruction_roundtrip:
  assumes "anchor_ok A" and "sighash_ok A" and "borsh_ok B" and "impl_params_set impl"
  shows "\<exists>data j. Instruction_Data B (impl_Build impl) = Inr data
    \<and> DecodeInstruction A B accounts data = Inr (in_TypeID (impl_Build impl), j)
    \<and> impl_params j = impl_params impl \<and> impl_GetAccounts j = accounts"
proof -
  obtain body where body: "in_Impl (impl_Build impl) B = Inr body"
    using impl_builds [OF assms(3,4)] by blast
  then have "Instruction_Data B (impl_Build impl) = Inr (in_TypeID (impl_Build impl) @ body)"
    by (simp add: Instruction_Data_Inr)
  moreover obtain j where "Instruction_UnmarshalWithDecoder A B (in_TypeID (impl_Build impl) @ body)
      = Inr ((in_TypeID (impl_Build impl), j), [])" and "impl_params j = impl_params impl"
    using impl_decodes [OF assms body, of "[]"] by auto
  moreover have "al_SetAccounts A accounts = Inr accounts" using assms(1) by (simp add: anchor_ok_def)
  ultimately show ?thesis by (auto simp: DecodeInstruction_def)
qed

theorem sol_instruction_roundtrip_witness:
  "\<exists>data i. Instruction_Data demo_borsh (InitSplVault_Build (InitSplVault_SetBridgeId ''b'' zero_InitSplVault)) = Inr data
    \<and> DecodeInstruction demo_anchor demo_borsh [Some (Meta [1])] data = Inr (Instruction_InitSplVault, Impl_InitSplVault i)
    \<and> iv_BridgeId i = Some ''b''"
proof -
  let ?i = "InitSplVault_SetBridgeId ''b'' zero_InitSplVault"
  have "impl_params_set (Impl_InitSplVault ?i)"
    by (simp add: InitSplVault_params_set_def InitSplVault_SetBridgeId_def short_string_def)
  from sol_instruction_roundtrip [OF demo_anchor_ok demo_anchor_ids demo_borsh_ok this, of "[Some (Meta [1])]"]
  obtain data j where d: "Instruction_Data demo_borsh (InitSplVault_Build ?i) = Inr data"
    "DecodeInstruction demo_anchor demo_borsh [Some (Meta [1])] data = Inr (Instruction_InitSplVault, j)"
    and j: "impl_params j = Impl_InitSplVault (InitSplVault_params ?i)"
    by (auto simp: InitSplVault_Build_def)
  from j obtain i where "j = Impl_InitSplVault i" and "InitSplVault_params i = InitSplVault_params ?i"
    by (cases j) auto
  then have "iv_BridgeId i = Some ''b''"
    by (cases i) (simp add: InitSplVault_params_def InitSplVault_SetBridgeId_def zero_InitSplVault_def)
  with d \<open>j = Impl_InitSplVault i\<close> show ?thesis by blast
qed

end
