(* ===== verification/Ton_Props.thy ===== *)
theory Ton_Props
  imports Ton
begin

text \<open>
  What the TON client guarantees: the padding of chain ids, the message of a withdrawal, the
  store address that \<open>IsProcessed\<close> asks for, and the branch where a withdrawal without a body is
  paid for.
\<close>

subsection \<open>Lemmas\<close>

lemma be_bytes_value: "le_value (rev (be_bytes n)) = n"
proof (induction n rule: be_bytes.induct)
  case (1 n)
  show ?case
  proof (cases "n = 0")
    case True
    then show ?thesis by (simp add: be_bytes.simps [of 0])
  next
    case False
    with 1 show ?thesis by (simp add: be_bytes.simps [of n])
  qed
qed

lemma big_SetBytes_Bytes: "int (big_SetBytes (big_Bytes i)) = \<bar>i\<bar>"
  by (simp add: big_SetBytes_def big_Bytes_def be_bytes_value)

lemma append_replicate_inj:
  assumes "c \<notin> set xs" and "c \<notin> set ys" and "xs @ replicate m c = ys @ replicate n c"
  shows "xs = ys"
proof -
  have "takeWhile (\<lambda>b. b \<noteq> c) (zs @ replicate k c) = zs" if "c \<notin> set zs" for zs k
    using that by (induction zs) (auto simp: takeWhile_eq_Nil_iff hd_replicate)
  from this [OF assms(1), of m] this [OF assms(2), of n] assms(3) show ?thesis by simp
qed

lemma uint_eq_sint: "0 \<le> sint w \<Longrightarrow> uint w = sint w" for w :: int64
proof -
  assume "0 \<le> sint w"
  moreover have "uint w = uint (word_of_int (sint w) :: int64)" by simp
  moreover have "uint (word_of_int (sint w) :: int64) = take_bit 64 (sint w)"
    by (simp only: unsigned_of_int) simp
  ultimately show "uint w = sint w" using sint_i64_bounds [of w] by (simp add: take_bit_int_eq_self)
qed

subsection \<open>A concrete library and node for witnesses\<close>

definition demo_ton_lib :: "nat ton_lib" where
  "demo_ton_lib = \<lparr>tl_hexutil_Decode = (\<lambda>s. Inr (replicate 65 1)), tl_Keccak256 = (\<lambda>bs. replicate 32 1),
     ParseAddr = (\<lambda>s. if s = [] then Inl (Msg ''invalid address'') else Inr [1]),
     builder_accepts = (\<lambda>ops. True), store_error = (\<lambda>op. None), LoadAddr = (\<lambda>c. Inr [2]),
     WalletAddress = (\<lambda>k. ''wallet'')\<rparr>"

definition demo_ton_api :: "(nat, ton_message list) ton_api" where
  "demo_ton_api = \<lparr>GetMasterchainInfo = (\<lambda>x. (Inr \<lparr>tb_SeqNo = 7\<rparr>, x)),
     CurrentMasterchainInfo = (\<lambda>x. (Inr \<lparr>tb_SeqNo = 7\<rparr>, x)),
     GetAccount_IsActive = (\<lambda>b a x. (Inr False, x)),
     RunGetMethod = (\<lambda>b a m args x. (Inr \<lparr>gr_Int = Inr 300, gr_Slice = Inr (Cell [])\<rparr>, x)),
     SendManyWaitTxHash = (\<lambda>k ms x. (Inr [10], ms @ x))\<rparr>"

definition demo_ton :: "(nat, ton_message list) TonClient" where
  "demo_ton = \<lparr>tc_lib = demo_ton_lib, tc_api = demo_ton_api,
     tc_chain = \<lparr>ton_Id = ''ton'', ton_BridgeContractAddress = [9], ton_Workers = 1,
       ton_OperatorsPrivateKeys = []\<rparr>\<rparr>"

lemmas demo_ton_defs = demo_ton_def demo_ton_lib_def demo_ton_api_def

definition ton_deposit :: Deposit where
  "ton_deposit = zero_Deposit\<lparr>d_WithdrawalAmount := itoa 10, d_Receiver := ''r'',
     d_WithdrawalToken := DefaultNativeTokenAddress\<rparr>"

subsection \<open>Properties\<close>

text \<open>
  \<open>fillBytesToSize\<close> with a positive size. A string that fits is padded with the fill byte to
  exactly that size, a longer one is an error. For zero padding, two strings without NUL
  bytes have the same padding only if they are equal, so a network cell names one chain.
\<close>

theorem ton_fillBytesToSize_spec:
  assumes "0 < sz"
  shows "(int (length s) \<le> sz \<longrightarrow>
      (\<exists>bs. fillBytesToSize s sz fill = Inr bs \<and> length bs = nat sz
         \<and> take (length s) bs = bytes_of_string s \<and> (\<forall>i. length s \<le> i \<and> i < nat sz \<longrightarrow> bs ! i = fill)))
    \<and> (sz < int (length s) \<longrightarrow> (\<exists>err. fillBytesToSize s sz fill = Inl err))
    \<and> (0 \<notin> set (bytes_of_string s) \<and> 0 \<notin> set (bytes_of_string t)
         \<and> fillBytesToSize s sz 0 = Inr bs' \<and> fillBytesToSize t sz 0 = Inr bs' \<longrightarrow> s = t)"
proof -
  have "s = t" if "0 \<notin> set (bytes_of_string s)" "0 \<notin> set (bytes_of_string t)"
    "fillBytesToSize s sz 0 = Inr bs'" "fillBytesToSize t sz 0 = Inr bs'"
  proof -
    from that(3,4) assms have
      "bytes_of_string s @ replicate (nat sz - length s) 0 = bytes_of_string t @ replicate (nat sz - length t) 0"
      by (auto simp: fillBytesToSize_def Let_def split: if_splits)
    from append_replicate_inj [OF that(1,2) this] show ?thesis by simp
  qed
  with assms show ?thesis by (auto simp: fillBytesToSize_def Let_def nth_append)
qed

theorem ton_fillBytesToSize_spec_witness:
  "\<exists>bs. fillBytesToSize ''TON'' 32 0 = Inr bs \<and> length bs = 32"
  using ton_fillBytesToSize_spec [of 32 "''TON''" 0 "[]" "[]"] by auto

text \<open>
  C25: A native withdrawal that the TON client reports without error sent exactly one message: to the
  bridge contract, with 1.5 TON, in mode 1 and without bounce; its body holds the operation
  code, the parsed amount, the receiver and the deposit's hash, and by reference the
  nonce, the signature and the network. The reported block is the one read just before sending.
\<close>

theorem ton_native_withdrawal_sent:
  assumes "ton_withdrawNative C d signer x = (Returned (h, blk, None), x')"
  shows "\<exists>amount receiver signatureCell networkCell b x1 bs.
      big_SetString (d_WithdrawalAmount d) = Some amount
    \<and> ParseAddr (tc_lib C) (d_Receiver d) = Inr receiver
    \<and> getSignatureCell (tc_lib C) (d_Signature d) = Inr signatureCell
    \<and> getNetworkCell (tc_lib C) (d_WithdrawalChainId d) = Inr networkCell
    \<and> GetMasterchainInfo (tc_api C) x = (Inr b, x1)
    \<and> SendManyWaitTxHash (tc_api C) signer
        [\<lparr>tmsg_Mode = 1, tmsg_IHRDisabled = True, tmsg_Bounce = False,
          tmsg_DstAddr = ton_BridgeContractAddress (tc_chain C), tmsg_Amount = 1500000000,
          tmsg_Body = Some (Cell [StoreUInt 1289667639 32, StoreBigInt amount 257,
             StoreAddr (Some receiver), StoreBigInt (hash_int (tc_lib C) d) 257,
             StoreRef (Cell [StoreBigInt (sint (TxNonce (d_Id d))) 257, StoreRef signatureCell,
               StoreRef networkCell])])\<rparr>] x1 = (Inr bs, x')
    \<and> h = hex_EncodeToString bs \<and> blk = ucast (tb_SeqNo b)"
proof -
  from assms obtain body b x1 bs where
    body: "buildWithdrawNativeCell C d = Returned (Inr body)"
    and b: "GetMasterchainInfo (tc_api C) x = (Inr b, x1)"
    and w: "ton_withdraw C body signer x1 = ((hex_EncodeToString bs, None), x')"
      "SendManyWaitTxHash (tc_api C) signer [\<lparr>tmsg_Mode = 1, tmsg_IHRDisabled = True, tmsg_Bounce = False,
          tmsg_DstAddr = ton_BridgeContractAddress (tc_chain C), tmsg_Amount = 1500000000,
          tmsg_Body = body\<rparr>] x1 = (Inr bs, x')"
    and r: "h = hex_EncodeToString bs" "blk = ucast (tb_SeqNo b)"
    by (auto simp: ton_withdrawNative_def ton_withdraw_def
        split: go_result.splits sum.splits prod.splits)
  from body obtain amount receiver signatureCell networkCell where
    "big_SetString (d_WithdrawalAmount d) = Some amount"
    "ParseAddr (tc_lib C) (d_Receiver d) = Inr receiver"
    "getSignatureCell (tc_lib C) (d_Signature d) = Inr signatureCell"
    "getNetworkCell (tc_lib C) (d_WithdrawalChainId d) = Inr networkCell"
    "body = Some (Cell [StoreUInt 1289667639 32, StoreBigInt amount 257,
             StoreAddr (Some receiver), StoreBigInt (hash_int (tc_lib C) d) 257,
             StoreRef (Cell [StoreBigInt (sint (TxNonce (d_Id d))) 257, StoreRef signatureCell,
               StoreRef networkCell])])"
    by (auto simp: buildWithdrawNativeCell_def Let_def must_cell_def withdrawNativeCode_def
        opCodeBitSize_def amountBitSize_def hashBitSize_def nonceBitSize_def
        split: sum.splits option.splits if_splits)
  with b w r show ?thesis by blast
qed

theorem ton_native_withdrawal_sent_witness:
  "\<exists>body. snd (ton_withdrawNative demo_ton ton_deposit 0 []) =
     [\<lparr>tmsg_Mode = 1, tmsg_IHRDisabled = True, tmsg_Bounce = False, tmsg_DstAddr = [9], tmsg_Amount = 1500000000,
       tmsg_Body = Some body\<rparr>]"
proof -
  have "\<exists>h b x'. ton_withdrawNative demo_ton ton_deposit 0 [] = (Returned (h, b, None), x')"
    by (simp add: ton_withdrawNative_def buildWithdrawNativeCell_def getNetworkCell_def
        getSignatureCell_def store_cell_def fillBytesToSize_def networkCellSizeBytes_def must_cell_def
        ton_withdraw_def Let_def demo_ton_defs ton_deposit_def zero_Deposit_def bytes_of_string_def)
  then obtain h b x' where w: "ton_withdrawNative demo_ton ton_deposit 0 [] = (Returned (h, b, None), x')"
    by blast
  have "\<exists>body. x' = [\<lparr>tmsg_Mode = 1, tmsg_IHRDisabled = True, tmsg_Bounce = False, tmsg_DstAddr = [9], tmsg_Amount = 1500000000,
       tmsg_Body = Some body\<rparr>]"
    using ton_native_withdrawal_sent [OF w] by (auto simp: demo_ton_defs)
  with w show ?thesis by simp
qed

text \<open>
  C40: A jetton withdrawal whose amount does not parse. \<open>buildWithdrawJettonCell\<close> returns a nil
  cell and no error, and the client sends a message of 1.5 TON without any body to the bridge;
  if the wallet accepts it, the withdrawal is reported as successful.
\<close>

theorem ton_bad_amount_sends_empty_message:
  assumes "getSignatureCell (tc_lib C) (d_Signature d) = Inr s"
    and "getNetworkCell (tc_lib C) (d_WithdrawalChainId d) = Inr n"
    and "ParseAddr (tc_lib C) (d_WithdrawalToken d) = Inr token"
    and "ParseAddr (tc_lib C) (d_Receiver d) = Inr receiver"
    and "big_SetString (d_WithdrawalAmount d) = None"
    and "deriveJettonAddress C (ton_BridgeContractAddress (tc_chain C)) token x = (derived, x1)"
    and "GetMasterchainInfo (tc_api C) x1 = (Inr b, x2)"
    and "SendManyWaitTxHash (tc_api C) signer
        [\<lparr>tmsg_Mode = 1, tmsg_IHRDisabled = True, tmsg_Bounce = False,
          tmsg_DstAddr = ton_BridgeContractAddress (tc_chain C), tmsg_Amount = 1500000000,
          tmsg_Body = None\<rparr>] x2 = (Inr bs, x3)"
  shows "buildWithdrawJettonCell C d x = (Returned (Inr None), x1)
    \<and> ton_withdrawToken C d signer x
        = (Returned (hex_EncodeToString bs, ucast (tb_SeqNo b), None), x3)"
proof -
  have "buildWithdrawJettonCell C d x = (Returned (Inr None), x1)"
    using assms(1-6) by (simp add: buildWithdrawJettonCell_def Let_def)
  with assms(7,8) show ?thesis by (simp add: ton_withdrawToken_def ton_withdraw_def)
qed

theorem ton_bad_amount_sends_empty_message_witness:
  "snd (ton_withdrawToken demo_ton (ton_deposit\<lparr>d_WithdrawalToken := ''t'', d_WithdrawalAmount := ''x''\<rparr>) 0 [])
     = [\<lparr>tmsg_Mode = 1, tmsg_IHRDisabled = True, tmsg_Bounce = False, tmsg_DstAddr = [9], tmsg_Amount = 1500000000,
         tmsg_Body = None\<rparr>]"
proof -
  let ?d = "ton_deposit\<lparr>d_WithdrawalToken := ''t'', d_WithdrawalAmount := ''x''\<rparr>"
  let ?m = "\<lparr>tmsg_Mode = 1, tmsg_IHRDisabled = True, tmsg_Bounce = False,
     tmsg_DstAddr = ton_BridgeContractAddress (tc_chain demo_ton), tmsg_Amount = 1500000000,
     tmsg_Body = None\<rparr>"
  have "getSignatureCell (tc_lib demo_ton) (d_Signature ?d)
      = Inr (Cell [StoreSlice (replicate 65 1) signatureBitSize])"
    by (simp add: getSignatureCell_def store_cell_def demo_ton_defs)
  moreover have "getNetworkCell (tc_lib demo_ton) (d_WithdrawalChainId ?d)
      = Inr (Cell [StoreSlice (replicate 32 0) networkCellSizeBit])"
    by (simp add: getNetworkCell_def store_cell_def fillBytesToSize_def networkCellSizeBytes_def
        demo_ton_defs ton_deposit_def zero_Deposit_def bytes_of_string_def)
  moreover have "ParseAddr (tc_lib demo_ton) (d_WithdrawalToken ?d) = Inr [1]"
    and "ParseAddr (tc_lib demo_ton) (d_Receiver ?d) = Inr [1]"
    and "big_SetString (d_WithdrawalAmount ?d) = None"
    by (simp_all add: demo_ton_defs ton_deposit_def big_SetString_def parse_dec_def is_digit_def
        char_code_def)
  moreover have "deriveJettonAddress demo_ton (ton_BridgeContractAddress (tc_chain demo_ton)) [1] []
      = (Inr [2], [])"
    by (simp add: deriveJettonAddress_def Let_def store_cell_def demo_ton_defs)
  moreover have "GetMasterchainInfo (tc_api demo_ton) [] = (Inr \<lparr>tb_SeqNo = 7\<rparr>, [])"
    and "SendManyWaitTxHash (tc_api demo_ton) 0 [?m] [] = (Inr [10], [?m])"
    by (simp_all add: demo_ton_defs)
  ultimately have "ton_withdrawToken demo_ton ?d 0 []
      = (Returned (hex_EncodeToString [10], ucast (tb_SeqNo \<lparr>tb_SeqNo = 7\<rparr>), None), [?m])"
    by (rule ton_bad_amount_sends_empty_message [THEN conjunct2])
  then show ?thesis by (simp add: demo_ton_defs)
qed

text \<open>
  \<open>IsProcessed\<close> for a native deposit asks the bridge contract for the hash of the deposit's
  parsed amount, receiver, hash, unsigned nonce and network, then for the store of exactly that number
  (the bytes in between lose nothing), and answers whether the account there is active. The
  nonce is the one the withdrawal stores whenever it is not negative.
\<close>

theorem ton_IsProcessed_native:
  assumes "TonClient_IsProcessed C d x = ((b, None), x')"
    and "d_WithdrawalToken d = DefaultNativeTokenAddress"
  shows "\<exists>amount receiverCell networkCell master x1 res n x2 blk x3 res2 slice addr blk2 x4 x5.
      big_SetString (d_WithdrawalAmount d) = Some amount
    \<and> getAddressCell (tc_lib C) (d_Receiver d) = Inr receiverCell
    \<and> getNetworkCell (tc_lib C) (d_WithdrawalChainId d) = Inr networkCell
    \<and> GetMasterchainInfo (tc_api C) x = (Inr master, x1)
    \<and> RunGetMethod (tc_api C) master (ton_BridgeContractAddress (tc_chain C)) ''nativeHash''
        [ArgInt amount, ArgSlice receiverCell, ArgInt (hash_int (tc_lib C) d),
         ArgInt (uint (TxNonce (d_Id d))), ArgSlice networkCell] x1 = (Inr res, x2)
    \<and> gr_Int res = Inr n
    \<and> CurrentMasterchainInfo (tc_api C) x2 = (Inr blk, x3)
    \<and> RunGetMethod (tc_api C) blk (ton_BridgeContractAddress (tc_chain C)) ''storeAddress''
        [ArgInt \<bar>n\<bar>] x3 = (Inr res2, x4)
    \<and> gr_Slice res2 = Inr slice \<and> LoadAddr (tc_lib C) slice = Inr addr
    \<and> CurrentMasterchainInfo (tc_api C) x4 = (Inr blk2, x5)
    \<and> GetAccount_IsActive (tc_api C) blk2 addr x5 = (Inr b, x')
    \<and> (0 \<le> sint (TxNonce (d_Id d)) \<longrightarrow> uint (TxNonce (d_Id d)) = sint (TxNonce (d_Id d)))"
proof -
  from assms(1) obtain addr x4 blk2 x5 where s: "getStoreAddress C d x = (Inr addr, x4)"
    and a: "CurrentMasterchainInfo (tc_api C) x4 = (Inr blk2, x5)"
      "GetAccount_IsActive (tc_api C) blk2 addr x5 = (Inr b, x')"
    by (auto simp: TonClient_IsProcessed_def split: prod.splits sum.splits)
  from s assms(2) obtain hash x2 blk x3 res2 slice where
    h: "getWithdrawalNativeHash C d x = (Inr hash, x2)"
    and r: "CurrentMasterchainInfo (tc_api C) x2 = (Inr blk, x3)"
      "RunGetMethod (tc_api C) blk (ton_BridgeContractAddress (tc_chain C)) ''storeAddress''
        [ArgInt (int (big_SetBytes hash))] x3 = (Inr res2, x4)"
      "gr_Slice res2 = Inr slice" "LoadAddr (tc_lib C) slice = Inr addr"
    by (cases "getWithdrawalNativeHash C d x")
       (auto simp: getStoreAddress_def map_sum_def split: prod.splits sum.splits)
  from h obtain amount receiverCell networkCell master x1 res n where
    "big_SetString (d_WithdrawalAmount d) = Some amount"
    "getAddressCell (tc_lib C) (d_Receiver d) = Inr receiverCell"
    "getNetworkCell (tc_lib C) (d_WithdrawalChainId d) = Inr networkCell"
    "GetMasterchainInfo (tc_api C) x = (Inr master, x1)"
    "RunGetMethod (tc_api C) master (ton_BridgeContractAddress (tc_chain C)) ''nativeHash''
        [ArgInt amount, ArgSlice receiverCell, ArgInt (hash_int (tc_lib C) d),
         ArgInt (uint (TxNonce (d_Id d))), ArgSlice networkCell] x1 = (Inr res, x2)"
    "gr_Int res = Inr n" "hash = big_Bytes n"
    by (auto simp: getWithdrawalNativeHash_def get_hash_def Let_def
        split: prod.splits sum.splits option.splits)
  moreover have "0 \<le> sint (TxNonce (d_Id d)) \<longrightarrow> uint (TxNonce (d_Id d)) = sint (TxNonce (d_Id d))"
    by (simp add: uint_eq_sint)
  ultimately show ?thesis using a r big_SetBytes_Bytes by metis
qed

theorem ton_IsProcessed_native_witness:
  "\<exists>cell. getNetworkCell (tc_lib demo_ton) (d_WithdrawalChainId ton_deposit) = Inr cell"
proof -
  have "TonClient_IsProcessed demo_ton ton_deposit [] = ((False, None), [])"
    by (simp add: TonClient_IsProcessed_def getStoreAddress_def getWithdrawalNativeHash_def get_hash_def
        getNetworkCell_def getAddressCell_def store_cell_def fillBytesToSize_def
        networkCellSizeBytes_def Let_def demo_ton_defs ton_deposit_def zero_Deposit_def
        bytes_of_string_def)
  from ton_IsProcessed_native [OF this] show ?thesis by (auto simp: ton_deposit_def)
qed

end
