(* ===== verification/Ton_Contract.thy ===== *)
theory Ton_Contract
  imports Ton
begin

text \<open>
  \<open>internal/core/chain/ton/contract\<close>: the generated codec of the bridge's messages, which lays the
  fields of a message struct out over a chain of cells and reads them back. A struct is seen as
  reflection sees it: its fields in order, each with its name, its \<open>bit_size\<close> tag and its
  value. The builder and the slice of \<open>tonutils-go\<close> are parameters; pointer fields are not nil.
\<close>

subsection \<open>Constants and messages (\<open>bridge.go\<close>, \<open>crypto.go\<close>, \<open>store.go\<close>)\<close>

definition AddressSize :: int where "AddressSize = 267"
definition BitSize :: int where "BitSize = 1"
definition IntSize :: int where "IntSize = 257"
definition CellSize :: int where "CellSize = 1023"

definition OpMsgDepositNative :: nat where "OpMsgDepositNative = 0x5386a723"
definition OpMsgWithdrawJetton :: nat where "OpMsgWithdrawJetton = 0x0255667d"
definition OpMsgWithdrawNative :: nat where "OpMsgWithdrawNative = 0x4cdec437"
definition OpMsgUpdateSignerKeyBySignature :: nat where "OpMsgUpdateSignerKeyBySignature = 0x12312324"
definition OpMsgRemoveSignerKey :: nat where "OpMsgRemoveSignerKey = 0x14141414"
definition OpMsgSetSignerKey :: nat where "OpMsgSetSignerKey = 0x12312323"
definition OpMsgUpdateOwner :: nat where "OpMsgUpdateOwner = 0x12121212"
definition OpMsgUpdateBridgeJettonWallets :: nat where "OpMsgUpdateBridgeJettonWallets = 0x13131444"
definition OpMsgUpdateWrappedJetton :: nat where "OpMsgUpdateWrappedJetton = 0x13131555"
definition OpMsgChangeJettonMasterOwner :: nat where "OpMsgChangeJettonMasterOwner = 0x7187b179"

datatype field_value = SliceV bytes | AddressV ton_address | BoolV bool | BigIntV int

record struct_field =
  sf_Name :: string
  sf_bit_size :: string
  sf_Value :: field_value

type_synonym msg = "struct_field list"

definition field :: "string \<Rightarrow> string \<Rightarrow> field_value \<Rightarrow> struct_field" where
  "field n tag v = \<lparr>sf_Name = n, sf_bit_size = tag, sf_Value = v\<rparr>"

text \<open>\<open>v.Type.String()\<close>\<close>

fun Type_String :: "field_value \<Rightarrow> string" where
  "Type_String (SliceV b) = ''[]uint8''"
| "Type_String (AddressV a) = ''address.Address''"
| "Type_String (BoolV b) = ''bool''"
| "Type_String (BigIntV i) = ''*big.Int''"

record fieldInfo =
  typeName :: string
  fieldName :: string
  bitSize :: int
  fi_value :: field_value

definition MsgDepositNative :: "bytes \<Rightarrow> bytes \<Rightarrow> int \<Rightarrow> msg" where
  "MsgDepositNative Receiver Network ReferralId =
     [field ''Receiver'' ''-'' (SliceV Receiver), field ''Network'' ''-'' (SliceV Network),
      field ''ReferralId'' ''16'' (BigIntV ReferralId)]"

definition MsgWithdrawJetton ::
  "ton_address \<Rightarrow> int \<Rightarrow> int \<Rightarrow> bytes \<Rightarrow> bool \<Rightarrow> bytes \<Rightarrow> ton_address \<Rightarrow> ton_address \<Rightarrow> int \<Rightarrow> int \<Rightarrow> msg" where
  "MsgWithdrawJetton Receiver txHash txNonce Network IsWrapped Signature Token BridgeJettonAddress
       ForwardTonAmount TotalTonAmount =
     [field ''Receiver'' ''-'' (AddressV Receiver), field ''TxHash'' ''-'' (BigIntV txHash),
      field ''TxNonce'' ''-'' (BigIntV txNonce), field ''Network'' ''-'' (SliceV Network),
      field ''IsWrapped'' ''-'' (BoolV IsWrapped), field ''Signature'' ''-'' (SliceV Signature),
      field ''Token'' ''-'' (AddressV Token),
      field ''BridgeJettonAddress'' ''-'' (AddressV BridgeJettonAddress),
      field ''ForwardTonAmount'' ''-'' (BigIntV ForwardTonAmount),
      field ''TotalTonAmount'' ''-'' (BigIntV TotalTonAmount)]"

definition MsgWithdrawNative :: "int \<Rightarrow> ton_address \<Rightarrow> int \<Rightarrow> int \<Rightarrow> bytes \<Rightarrow> bytes \<Rightarrow> msg" where
  "MsgWithdrawNative Amount Receiver txHash txNonce Signature Network =
     [field ''Amount'' ''-'' (BigIntV Amount), field ''Receiver'' ''-'' (AddressV Receiver),
      field ''TxHash'' ''257'' (BigIntV txHash), field ''TxNonce'' ''-'' (BigIntV txNonce),
      field ''Signature'' ''-'' (SliceV Signature), field ''Network'' ''-'' (SliceV Network)]"

definition MsgUpdateSignerKeyBySignature ::
  "int \<Rightarrow> int \<Rightarrow> int \<Rightarrow> int \<Rightarrow> int \<Rightarrow> bool \<Rightarrow> bytes \<Rightarrow> msg" where
  "MsgUpdateSignerKeyBySignature H X Y Starttime Deadline AdditionMode Signature =
     [field ''H'' ''8'' (BigIntV H), field ''X'' ''256'' (BigIntV X), field ''Y'' ''256'' (BigIntV Y),
      field ''Starttime'' ''32'' (BigIntV Starttime), field ''Deadline'' ''32'' (BigIntV Deadline),
      field ''AdditionMode'' ''-'' (BoolV AdditionMode), field ''Signature'' ''-'' (SliceV Signature)]"

definition MsgRemoveSignerKey :: "int \<Rightarrow> int \<Rightarrow> int \<Rightarrow> msg" where
  "MsgRemoveSignerKey H X Y =
     [field ''H'' ''8'' (BigIntV H), field ''X'' ''256'' (BigIntV X), field ''Y'' ''256'' (BigIntV Y)]"

definition MsgSetSignerKey :: "int \<Rightarrow> int \<Rightarrow> int \<Rightarrow> msg" where
  "MsgSetSignerKey H X Y =
     [field ''H'' ''8'' (BigIntV H), field ''X'' ''256'' (BigIntV X), field ''Y'' ''256'' (BigIntV Y)]"

definition MsgUpdateOwner :: "ton_address \<Rightarrow> msg" where
  "MsgUpdateOwner NewOwner = [field ''NewOwner'' ''-'' (AddressV NewOwner)]"

definition MsgUpdateBridgeJettonWallets :: msg where
  "MsgUpdateBridgeJettonWallets = []"

definition MsgUpdateWrappedJetton :: msg where
  "MsgUpdateWrappedJetton = []"

definition MsgChangeJettonMasterOwner :: "ton_address \<Rightarrow> msg" where
  "MsgChangeJettonMasterOwner NewOwner = [field ''NewOwner'' ''-'' (AddressV NewOwner)]"

definition OpJettonDeposited :: nat where "OpJettonDeposited = 0x2ddcbe3"
definition OpNativeDeposited :: nat where "OpNativeDeposited = 0xe858a993"
definition OpWithdrawError :: nat where "OpWithdrawError = 0xc01d9831"
definition OpExcessed :: nat where "OpExcessed = 0x1389787"
definition OpAfterDuplicationCheck :: nat where "OpAfterDuplicationCheck = 0x1111112"
definition OpBeforeSignatureCheck :: nat where "OpBeforeSignatureCheck = 0x11112222"
definition OpBeforeWithdraw :: nat where "OpBeforeWithdraw = 0x33333333"

definition JettonDeposited ::
  "ton_address \<Rightarrow> bytes \<Rightarrow> int \<Rightarrow> bytes \<Rightarrow> bool \<Rightarrow> ton_address \<Rightarrow> int \<Rightarrow> msg" where
  "JettonDeposited Sender Receiver Amount Network IsWrapped Token ReferralId =
     [field ''Sender'' ''-'' (AddressV Sender), field ''Receiver'' ''-'' (SliceV Receiver),
      field ''Amount'' ''-'' (BigIntV Amount), field ''Network'' ''-'' (SliceV Network),
      field ''IsWrapped'' ''-'' (BoolV IsWrapped), field ''Token'' ''-'' (AddressV Token),
      field ''ReferralId'' ''16'' (BigIntV ReferralId)]"

definition NativeDeposited :: "ton_address \<Rightarrow> bytes \<Rightarrow> bytes \<Rightarrow> int \<Rightarrow> int \<Rightarrow> msg" where
  "NativeDeposited Sender Receiver Network Amount ReferralId =
     [field ''Sender'' ''-'' (AddressV Sender), field ''Receiver'' ''-'' (SliceV Receiver),
      field ''Network'' ''-'' (SliceV Network), field ''Amount'' ''-'' (BigIntV Amount),
      field ''ReferralId'' ''16'' (BigIntV ReferralId)]"

definition WithdrawError ::
  "ton_address \<Rightarrow> ton_address \<Rightarrow> bytes \<Rightarrow> int \<Rightarrow> int \<Rightarrow> int \<Rightarrow> int \<Rightarrow> msg" where
  "WithdrawError Sender Receiver Network Amount MessageType ErrorCode Hash =
     [field ''Sender'' ''-'' (AddressV Sender), field ''Receiver'' ''-'' (AddressV Receiver),
      field ''Network'' ''-'' (SliceV Network), field ''Amount'' ''-'' (BigIntV Amount),
      field ''MessageType'' ''-'' (BigIntV MessageType), field ''ErrorCode'' ''-'' (BigIntV ErrorCode),
      field ''Hash'' ''-'' (BigIntV Hash)]"

definition Excessed :: "int \<Rightarrow> msg" where
  "Excessed QueryId = [field ''QueryId'' ''64'' (BigIntV QueryId)]"

definition AfterDuplicationCheck :: "int \<Rightarrow> msg" where
  "AfterDuplicationCheck Hash = [field ''Hash'' ''-'' (BigIntV Hash)]"

definition BeforeSignatureCheck :: "int \<Rightarrow> msg" where
  "BeforeSignatureCheck Hash = [field ''Hash'' ''-'' (BigIntV Hash)]"

definition BeforeWithdraw :: "int \<Rightarrow> msg" where
  "BeforeWithdraw Hash = [field ''Hash'' ''-'' (BigIntV Hash)]"

definition OpMsgIsUsed :: nat where "OpMsgIsUsed = 0x12dd3d08"
definition OpMsgIsUsedResponse :: nat where "OpMsgIsUsedResponse = 0x1c3b2f8d"

definition MsgIsUsed :: "ton_address \<Rightarrow> bytes \<Rightarrow> int \<Rightarrow> int \<Rightarrow> ton_address \<Rightarrow> msg" where
  "MsgIsUsed Destination DestinationPayload Hash MessageType Sender =
     [field ''Destination'' ''-'' (AddressV Destination),
      field ''DestinationPayload'' ''-'' (SliceV DestinationPayload), field ''Hash'' ''-'' (BigIntV Hash),
      field ''MessageType'' ''-'' (BigIntV MessageType), field ''Sender'' ''-'' (AddressV Sender)]"

definition MsgIsUsedResponse :: "bytes \<Rightarrow> bool \<Rightarrow> int \<Rightarrow> int \<Rightarrow> ton_address \<Rightarrow> msg" where
  "MsgIsUsedResponse DestinationPayload IsUsed RequestHash MessageType Sender =
     [field ''DestinationPayload'' ''-'' (SliceV DestinationPayload), field ''IsUsed'' ''-'' (BoolV IsUsed),
      field ''RequestHash'' ''-'' (BigIntV RequestHash), field ''MessageType'' ''-'' (BigIntV MessageType),
      field ''Sender'' ''-'' (AddressV Sender)]"

subsection \<open>The order of the fields (\<open>stuckFileds\<close>)\<close>

definition tag_bits :: "string \<Rightarrow> int" where
  "tag_bits tag = (case ParseInt64 tag of Inl _ \<Rightarrow> - BitSize | Inr n \<Rightarrow> n)"

definition int_size :: "int \<Rightarrow> int" where
  "int_size bit_size = (if bit_size \<le> 0 then IntSize else bit_size)"

definition field_info :: "struct_field \<Rightarrow> fieldInfo" where
  "field_info v = \<lparr>typeName = Type_String (sf_Value v), fieldName = sf_Name v,
     bitSize = tag_bits (sf_bit_size v), fi_value = sf_Value v\<rparr>"

text \<open>The bits that the \<open>switch\<close> takes for a type, which every case adds in the same way.\<close>

definition field_need :: "fieldInfo \<Rightarrow> int option" where
  "field_need d =
     (if typeName d = ''address.Address'' then Some AddressSize
      else if typeName d = ''bool'' then Some BitSize
      else if typeName d = ''*big.Int'' then Some (int_size (bitSize d))
      else None)"

fun stuck_loop :: "msg \<Rightarrow> fieldInfo list \<Rightarrow> fieldInfo list \<Rightarrow> int \<Rightarrow> fieldInfo list" where
  "stuck_loop [] stack slices sz = stack @ slices"
| "stuck_loop (v # vs) stack slices sz0 =
     (let d = field_info v;
          sz = (if bitSize d > 0 then sz0 + bitSize d else sz0) in
      if typeName d = ''[]uint8'' then stuck_loop vs stack (slices @ [d]) sz
      else case field_need d of
        None \<Rightarrow> stuck_loop vs stack slices sz
      | Some need \<Rightarrow>
          if sz + need \<ge> CellSize then stuck_loop vs (stack @ slices @ [d]) [] need
          else stuck_loop vs (stack @ [d]) slices (sz + need))"

definition stuckFileds :: "msg \<Rightarrow> fieldInfo list" where
  "stuckFileds data = stuck_loop data [] [] 0"

subsection \<open>Building (\<open>constructCells\<close>, \<open>aggregateCells\<close>, \<open>BuildMessage\<close>)\<close>

text \<open>The library's builder: the error of a store on a builder that holds some stores already.
  A store that fails leaves the builder as it is.\<close>

type_synonym builder = "cell_op list \<Rightarrow> cell_op \<Rightarrow> go_error option"

definition store :: "builder \<Rightarrow> cell_op list \<Rightarrow> cell_op \<Rightarrow> go_error + cell_op list" where
  "store B b op = (case B b op of Some err \<Rightarrow> Inl err | None \<Rightarrow> Inr (b @ [op]))"

type_synonym cells_state = "int \<times> cell_op list list \<times> cell_op list"

text \<open>The common part of the three cases that store bits: a field after a byte slice starts a new
  cell, and so does a field that does not fit. \<open>full\<close> and \<open>op\<close> are the store of the field in a
  new cell and in the current one, or the failed type assertion.\<close>

definition place_field ::
  "builder \<Rightarrow> bool \<Rightarrow> int \<Rightarrow> go_error + cell_op \<Rightarrow> go_error + cell_op \<Rightarrow> cells_state
     \<Rightarrow> go_error + cells_state" where
  "place_field B after_slice need full op st =
     (case (if after_slice then (0, fst (snd st) @ [snd (snd st)], []) else st) of
        (sz, cells, bld) \<Rightarrow>
          if sz + need \<ge> CellSize
          then (case full of Inl err \<Rightarrow> Inl err | Inr s \<Rightarrow>
            (case store B [] s of Inl err \<Rightarrow> Inl err
             | Inr newSlice \<Rightarrow> Inr (need, cells @ [bld], newSlice)))
          else (case op of Inl err \<Rightarrow> Inl err | Inr s \<Rightarrow>
            (case store B bld s of Inl err \<Rightarrow> Inl err
             | Inr bld1 \<Rightarrow> Inr (sz + need, cells, bld1))))"

definition addr_op :: "field_value \<Rightarrow> go_error + cell_op" where
  "addr_op v = (case v of AddressV a \<Rightarrow> Inr (StoreAddr (Some a)) | _ \<Rightarrow> Inl (Msg ''invalid address type''))"

definition bool_op :: "string \<Rightarrow> field_value \<Rightarrow> go_error + cell_op" where
  "bool_op text v = (case v of BoolV b \<Rightarrow> Inr (StoreBoolBit b) | _ \<Rightarrow> Inl (Msg text))"

definition int_op :: "int \<Rightarrow> field_value \<Rightarrow> go_error + cell_op" where
  "int_op sz v = (case v of BigIntV i \<Rightarrow> Inr (StoreBigInt i (nat sz)) | _ \<Rightarrow> Inl (Msg ''invalid int type''))"

definition construct_field ::
  "builder \<Rightarrow> bool \<Rightarrow> fieldInfo \<Rightarrow> cells_state \<Rightarrow> go_error + cells_state" where
  "construct_field B after_slice d st =
     (if typeName d = ''[]uint8''
      then (case fi_value d of
          SliceV value \<Rightarrow> (case store B [] (StoreSlice value (length value * 8)) of
            Inl err \<Rightarrow> Inl err
          | Inr subCell \<Rightarrow> (case st of (sz, cells, bld) \<Rightarrow>
              (case store B bld (StoreRef (Cell subCell)) of
                 Inl err \<Rightarrow> Inl err | Inr bld1 \<Rightarrow> Inr (sz, cells, bld1))))
        | _ \<Rightarrow> Inl (Msg ''invalid address type''))
      else if typeName d = ''address.Address''
      then place_field B after_slice AddressSize (addr_op (fi_value d)) (addr_op (fi_value d)) st
      else if typeName d = ''bool''
      then place_field B after_slice BitSize (bool_op ''invalid boop type'' (fi_value d))
             (bool_op ''invalid bool type'' (fi_value d)) st
      else if typeName d = ''*big.Int''
      then place_field B after_slice (int_size (bitSize d)) (int_op (int_size (bitSize d)) (fi_value d))
             (int_op (int_size (bitSize d)) (fi_value d)) st
      else Inr st)"

text \<open>\<open>after_slice\<close> is \<open>i != 0 \<and> stack[i-1].typeName == "[]uint8"\<close>.\<close>

fun construct_loop ::
  "builder \<Rightarrow> bool \<Rightarrow> fieldInfo list \<Rightarrow> cells_state \<Rightarrow> go_error + cell_op list list" where
  "construct_loop B after_slice [] (sz, cells, bld) = Inr (if sz > 0 then cells @ [bld] else cells)"
| "construct_loop B after_slice (d # ds) st =
     (case construct_field B after_slice d st of
        Inl err \<Rightarrow> Inl err
      | Inr st1 \<Rightarrow> construct_loop B (typeName d = ''[]uint8'') ds st1)"

definition constructCells :: "builder \<Rightarrow> nat \<Rightarrow> fieldInfo list \<Rightarrow> go_error + cell_op list list" where
  "constructCells B opcode stack =
     construct_loop B False stack
       (0, [], case store B [] (StoreUInt opcode 32) of Inl _ \<Rightarrow> [] | Inr bld \<Rightarrow> bld)"

text \<open>From the last cell to the first, each cell becomes a reference of the one before it.\<close>

fun aggregate_from :: "builder \<Rightarrow> cell_op list \<Rightarrow> cell_op list list \<Rightarrow> go_error + cell_op list" where
  "aggregate_from B c [] = Inr c"
| "aggregate_from B c (c1 # cs) = (case aggregate_from B c1 cs of
     Inl err \<Rightarrow> Inl err | Inr r \<Rightarrow> store B c (StoreRef (Cell r)))"

definition aggregateCells :: "builder \<Rightarrow> cell_op list list \<Rightarrow> go_error + cell" where
  "aggregateCells B cells = (case cells of
     [] \<Rightarrow> Inr (Cell [])
   | c # cs \<Rightarrow> (case aggregate_from B c cs of Inl err \<Rightarrow> Inl err | Inr r \<Rightarrow> Inr (Cell r)))"

definition BuildMessage :: "builder \<Rightarrow> nat \<Rightarrow> msg \<Rightarrow> go_error + cell" where
  "BuildMessage B opcode data = (case constructCells B opcode (stuckFileds data) of
     Inl err \<Rightarrow> Inl err | Inr cells \<Rightarrow> aggregateCells B cells)"

subsection \<open>Parsing (\<open>parseLog\<close>, \<open>ParseMessage\<close>)\<close>

record 's slice_lib =
  sl_BeginParse :: "cell \<Rightarrow> 's"
  sl_LoadInt :: "nat \<Rightarrow> 's \<Rightarrow> (go_error + int) \<times> 's"
  sl_LoadRef :: "'s \<Rightarrow> (go_error + 's) \<times> 's"
  sl_LoadSlice :: "nat \<Rightarrow> 's \<Rightarrow> (go_error + bytes) \<times> 's"
  sl_LoadAddr :: "'s \<Rightarrow> (go_error + ton_address) \<times> 's"
  sl_LoadBoolBit :: "'s \<Rightarrow> (go_error + bool) \<times> 's"
  sl_LoadBigInt :: "nat \<Rightarrow> 's \<Rightarrow> (go_error + int) \<times> 's"
  sl_String :: "'s \<Rightarrow> string"
  sl_ToCell_BitsSize :: "'s \<Rightarrow> int option"

definition set_field :: "string \<Rightarrow> field_value \<Rightarrow> msg \<Rightarrow> msg" where
  "set_field n v res = map (\<lambda>f. if sf_Name f = n then f\<lparr>sf_Value := v\<rparr> else f) res"

text \<open>The next cell of the chain when fewer bits than needed are left. \<open>ToCell\<close> gives nil with its
  error, which is not looked at.\<close>

definition next_cell :: "'s slice_lib \<Rightarrow> int \<Rightarrow> 's \<Rightarrow> (go_error + 's) go_result" where
  "next_cell S need sl = (case sl_ToCell_BitsSize S sl of
     None \<Rightarrow> Panic ''nil pointer dereference''
   | Some bits \<Rightarrow> Returned (if bits < need then fst (sl_LoadRef S sl) else Inr sl))"

fun parse_loop :: "'s slice_lib \<Rightarrow> fieldInfo list \<Rightarrow> 's \<Rightarrow> msg \<Rightarrow> (go_error + msg) go_result" where
  "parse_loop S [] sl res = Returned (Inr res)"
| "parse_loop S (d # ds) sl res =
     (if typeName d = ''[]uint8''
      then (case sl_LoadRef S sl of
          (Inl err, _) \<Rightarrow> Returned (Inl err)
        | (Inr subSl, sl1) \<Rightarrow>
            (case sl_LoadSlice S (length (sl_String S subSl)) subSl of
               (Inl err, _) \<Rightarrow> Returned (Inl err)
             | (Inr b, _) \<Rightarrow> parse_loop S ds sl1 (set_field (fieldName d) (SliceV b) res)))
      else if typeName d = ''address.Address''
      then (case next_cell S AddressSize sl of
          Panic m \<Rightarrow> Panic m
        | Returned (Inl err) \<Rightarrow> Returned (Inl err)
        | Returned (Inr sl1) \<Rightarrow> (case sl_LoadAddr S sl1 of
              (Inl err, _) \<Rightarrow> Returned (Inl err)
            | (Inr a, sl2) \<Rightarrow> parse_loop S ds sl2 (set_field (fieldName d) (AddressV a) res)))
      else if typeName d = ''bool''
      then (case sl_LoadBoolBit S sl of
          (Inl err, _) \<Rightarrow> Returned (Inl err)
        | (Inr b, sl1) \<Rightarrow> parse_loop S ds sl1 (set_field (fieldName d) (BoolV b) res))
      else if typeName d = ''*big.Int''
      then (case next_cell S (int_size (bitSize d)) sl of
          Panic m \<Rightarrow> Panic m
        | Returned (Inl err) \<Rightarrow> Returned (Inl err)
        | Returned (Inr sl1) \<Rightarrow> (case sl_LoadBigInt S (nat (int_size (bitSize d))) sl1 of
              (Inl err, _) \<Rightarrow> Returned (Inl err)
            | (Inr i, sl2) \<Rightarrow> parse_loop S ds sl2 (set_field (fieldName d) (BigIntV i) res)))
      else parse_loop S ds sl res)"

definition parseLog :: "'s slice_lib \<Rightarrow> cell \<Rightarrow> fieldInfo list \<Rightarrow> msg \<Rightarrow> (go_error + msg) go_result" where
  "parseLog S boc stack res = parse_loop S stack (snd (sl_LoadInt S 32 (sl_BeginParse S boc))) res"

definition ParseMessage :: "'s slice_lib \<Rightarrow> cell \<Rightarrow> msg \<Rightarrow> (go_error + msg) go_result" where
  "ParseMessage S boc data = parseLog S boc (stuckFileds data) data"

end
