(* ===== verification/Ton_Contract_Props.thy ===== *)
theory Ton_Contract_Props
  imports Ton_Contract "HOL-Library.Multiset"
begin

text \<open>
  What the generated TON codec does: it keeps every field, it never lays out more than a cell
  holds, it loses the op code of a message without bits, and it reads back what it built as
  long as the message has no byte slice and no flag.
\<close>

subsection \<open>The order of the fields\<close>

definition is_slice :: "fieldInfo \<Rightarrow> bool" where
  "is_slice d \<longleftrightarrow> typeName d = ''[]uint8''"

lemma field_info_need:
  assumes "\<not> is_slice (field_info v)"
  obtains n where "field_need (field_info v) = Some n"
  using assms by (cases "sf_Value v") (auto simp: is_slice_def field_info_def field_need_def)

lemma stuck_loop_order:
  assumes "\<forall>d \<in> set slices. is_slice d"
  shows "mset (stuck_loop vs stack slices z) = mset (stack @ slices @ map field_info vs)
    \<and> filter is_slice (stuck_loop vs stack slices z) = filter is_slice (stack @ slices @ map field_info vs)
    \<and> filter (\<lambda>d. \<not> is_slice d) (stuck_loop vs stack slices z)
        = filter (\<lambda>d. \<not> is_slice d) (stack @ slices @ map field_info vs)"
  using assms
proof (induction vs arbitrary: stack slices z)
  case (Cons v vs)
  have none: "filter (\<lambda>d. \<not> is_slice d) slices = []" using Cons.prems by (simp add: filter_empty_conv)
  show ?case
  proof (cases "is_slice (field_info v)")
    case True
    with Cons.IH [of "slices @ [field_info v]" stack] Cons.prems show ?thesis
      by (simp add: is_slice_def Let_def)
  next
    case False
    then obtain n where "field_need (field_info v) = Some n" by (rule field_info_need)
    with False Cons.IH [of "[]" "stack @ slices @ [field_info v]" n]
      Cons.IH [OF Cons.prems, of "stack @ [field_info v]"] none
    show ?thesis by (simp add: is_slice_def [of "field_info v"] Let_def)
  qed
qed simp

text \<open>\<open>stuckFileds\<close> only reorders: every field of the message is in the stack once, the
  byte slices in their order and the other fields in theirs; a byte slice moves at most
  behind later fields.\<close>

theorem ton_fields_kept:
  "mset (stuckFileds data) = mset (map field_info data)
    \<and> filter is_slice (stuckFileds data) = filter is_slice (map field_info data)
    \<and> filter (\<lambda>d. \<not> is_slice d) (stuckFileds data) = filter (\<lambda>d. \<not> is_slice d) (map field_info data)"
  using stuck_loop_order [of "[]" data "[]" 0] by (simp add: stuckFileds_def)

subsection \<open>Messages without bits\<close>

lemma construct_slices:
  assumes "\<forall>d \<in> set ds. is_slice d" and "construct_loop B b ds (0, [], c) = Inr cells"
  shows "cells = []"
  using assms
proof (induction ds arbitrary: b c)
  case (Cons d ds)
  then show ?case
    by (fastforce simp: is_slice_def construct_field_def split: sum.splits field_value.splits if_splits)
qed simp

lemma stuckFileds_set: "set (stuckFileds data) = field_info ` set data"
  using stuck_loop_order [of "[]" data "[]" 0] by (metis append_Nil empty_iff list.set_map set_empty set_mset_mset stuckFileds_def)

text \<open>A message whose fields are all byte slices, and in particular one without fields (as
  \<open>MsgUpdateBridgeJettonWallets\<close> and \<open>MsgUpdateWrappedJetton\<close>), is built as the empty cell: the op
  code and the slices are lost.\<close>

theorem ton_message_loses_op_code:
  assumes "\<forall>f \<in> set data. \<exists>b. sf_Value f = SliceV b" and "BuildMessage B opcode data = Inr c"
  shows "c = Cell []"
proof -
  have "\<forall>d \<in> set (stuckFileds data). is_slice d"
    using assms(1) by (auto simp: stuckFileds_set is_slice_def field_info_def)
  with assms(2) construct_slices show ?thesis
    by (fastforce simp: BuildMessage_def constructCells_def aggregateCells_def split: sum.splits list.splits)
qed

theorem ton_message_loses_op_code_witness:
  "BuildMessage (\<lambda>b op. None) OpMsgUpdateWrappedJetton MsgUpdateWrappedJetton = Inr (Cell [])"
proof -
  obtain c where c: "BuildMessage (\<lambda>b op. None) OpMsgUpdateWrappedJetton MsgUpdateWrappedJetton = Inr c"
    by (simp add: BuildMessage_def constructCells_def stuckFileds_def MsgUpdateWrappedJetton_def
        store_def aggregateCells_def)
  moreover have "c = Cell []"
    by (rule ton_message_loses_op_code [OF _ c]) (simp add: MsgUpdateWrappedJetton_def)
  ultimately show ?thesis by simp
qed

subsection \<open>The bits of a cell\<close>

fun op_bits :: "cell_op \<Rightarrow> nat" where
  "op_bits (StoreUInt v n) = n"
| "op_bits (StoreInt v n) = n"
| "op_bits (StoreBigInt v n) = n"
| "op_bits (StoreBoolBit b) = 1"
| "op_bits (StoreAddr a) = (if a = None then 2 else 267)"
| "op_bits (StoreSlice b n) = n"
| "op_bits (StoreRef c) = 0"

definition cell_bits :: "cell_op list \<Rightarrow> nat" where
  "cell_bits ops = sum_list (map op_bits ops)"

lemma cell_bits_simps [simp]:
  "cell_bits [] = 0" "cell_bits (op # ops) = op_bits op + cell_bits ops"
  "cell_bits (xs @ ys) = cell_bits xs + cell_bits ys"
  by (simp_all add: cell_bits_def)

text \<open>The bits a cell may hold: the first one has the op code beside the fields.\<close>

fun within :: "cell_op list list \<Rightarrow> bool" where
  "within [] = True"
| "within (c # cs) = (int (cell_bits c) < CellSize + 32 \<and> (\<forall>d \<in> set cs. int (cell_bits d) < CellSize))"

lemma within_append:
  "within (cs @ [c]) \<longleftrightarrow> within cs \<and> int (cell_bits c) < CellSize + (if cs = [] then 32 else 0)"
  by (cases cs) auto

definition cells_ok :: "cells_state \<Rightarrow> bool" where
  "cells_ok st \<longleftrightarrow> (case st of (n, cells, b) \<Rightarrow> within cells \<and> 0 \<le> n \<and> n < CellSize
     \<and> int (cell_bits b) \<le> n + (if cells = [] then 32 else 0))"

lemma store_Inr: "store B b op = Inr b' \<Longrightarrow> b' = b @ [op]"
  by (simp add: store_def split: option.splits)

lemma place_field_ok:
  assumes "cells_ok st" and "0 < need" and "need < CellSize"
    and "\<And>o1. full = Inr o1 \<or> op = Inr o1 \<Longrightarrow> int (op_bits o1) = need"
    and "place_field B after need full op st = Inr st'"
  shows "cells_ok st'"
proof -
  obtain n cells b where st: "(if after then (0, fst (snd st) @ [snd (snd st)], []) else st) = (n, cells, b)"
    by (metis prod.exhaust)
  have ok: "cells_ok (n, cells, b)"
    using assms(1) st by (cases st) (auto simp: cells_ok_def within_append CellSize_def split: if_splits)
  show ?thesis
  proof (cases "n + need \<ge> CellSize")
    case True
    then obtain o1 b1 where "full = Inr o1" and "store B [] o1 = Inr b1" and "st' = (need, cells @ [b], b1)"
      using assms(5) st by (auto simp: place_field_def split: sum.splits)
    with ok assms(2-4) show ?thesis
      by (fastforce simp: cells_ok_def within_append CellSize_def dest: store_Inr)
  next
    case False
    then obtain o1 b1 where "op = Inr o1" and "store B b o1 = Inr b1" and "st' = (n + need, cells, b1)"
      using assms(5) st by (auto simp: place_field_def split: sum.splits)
    with ok False assms(2-4) show ?thesis
      by (fastforce simp: cells_ok_def dest: store_Inr)
  qed
qed

text \<open>The tags of a message ask for less than a cell.\<close>

definition small_tags :: "fieldInfo list \<Rightarrow> bool" where
  "small_tags ds \<longleftrightarrow> (\<forall>d \<in> set ds. bitSize d < CellSize)"

lemma int_size_bounds: "b < CellSize \<Longrightarrow> 0 < int_size b \<and> int_size b < CellSize"
  by (simp add: int_size_def IntSize_def CellSize_def)

lemma construct_field_ok:
  assumes "cells_ok st" and "bitSize d < CellSize" and "construct_field B after d st = Inr st'"
  shows "cells_ok st'"
proof -
  note place = place_field_ok [OF assms(1), where B = B and after = after and st' = st']
  consider "typeName d = ''[]uint8''" | "typeName d = ''address.Address''" | "typeName d = ''bool''"
    | "typeName d = ''*big.Int''"
    | "typeName d \<notin> {''[]uint8'', ''address.Address'', ''bool'', ''*big.Int''}" by blast
  then show ?thesis
  proof cases
    case 1
    with assms show ?thesis
      by (auto simp: construct_field_def cells_ok_def split: field_value.splits sum.splits dest!: store_Inr)
  next
    case 2
    with assms(3) show ?thesis
      by (intro place [of AddressSize "addr_op (fi_value d)" "addr_op (fi_value d)"])
         (auto simp: construct_field_def AddressSize_def CellSize_def addr_op_def split: field_value.splits)
  next
    case 3
    with assms(3) show ?thesis
      by (intro place [of BitSize "bool_op ''invalid boop type'' (fi_value d)" "bool_op ''invalid bool type'' (fi_value d)"])
         (auto simp: construct_field_def BitSize_def CellSize_def bool_op_def split: field_value.splits)
  next
    case 4
    with assms(3) int_size_bounds [OF assms(2)] show ?thesis
      by (intro place [of "int_size (bitSize d)" "int_op (int_size (bitSize d)) (fi_value d)"
            "int_op (int_size (bitSize d)) (fi_value d)"])
         (auto simp: construct_field_def int_op_def split: field_value.splits)
  next
    case 5
    with assms show ?thesis by (simp add: construct_field_def)
  qed
qed

lemma construct_loop_ok:
  "cells_ok st \<Longrightarrow> small_tags ds \<Longrightarrow> construct_loop B after ds st = Inr cells \<Longrightarrow> within cells"
proof (induction ds arbitrary: after st)
  case Nil
  obtain n cs b where "st = (n, cs, b)" by (metis prod.exhaust)
  with Nil show ?case by (auto simp: cells_ok_def within_append split: if_splits)
next
  case (Cons d ds)
  then obtain st1 where f: "construct_field B after d st = Inr st1"
      and "construct_loop B (typeName d = ''[]uint8'') ds st1 = Inr cells"
    by (auto split: sum.splits)
  moreover have "cells_ok st1" using construct_field_ok [OF Cons.prems(1) _ f] Cons.prems(2)
    by (simp add: small_tags_def)
  ultimately show ?case using Cons.IH Cons.prems(2) by (simp add: small_tags_def)
qed

text \<open>No cell is laid out beyond its size: when every tag asks for less than a cell, the first
  cell holds fewer than 1023 bits of fields beside the op code and every later cell holds
  fewer than 1023 bits.\<close>

theorem ton_cells_within_bounds:
  assumes "\<forall>f \<in> set data. tag_bits (sf_bit_size f) < CellSize"
    and "constructCells B opcode (stuckFileds data) = Inr cells"
  shows "\<forall>i < length cells. int (cell_bits (cells ! i)) < CellSize + (if i = 0 then 32 else 0)"
proof -
  have "small_tags (stuckFileds data)"
    using assms(1) by (auto simp: small_tags_def stuckFileds_set field_info_def)
  moreover have "cells_ok (0, [], case store B [] (StoreUInt opcode 32) of Inl _ \<Rightarrow> [] | Inr b \<Rightarrow> b)"
    by (auto simp: cells_ok_def CellSize_def dest: store_Inr split: sum.splits)
  ultimately have "within cells"
    using assms(2) construct_loop_ok by (simp add: constructCells_def)
  then show ?thesis by (cases cells) (auto simp: nth_Cons split: nat.splits)
qed

theorem ton_cells_within_bounds_witness:
  "(\<exists>cells. constructCells (\<lambda>b op. None) OpMsgWithdrawNative
      (stuckFileds (MsgWithdrawNative 1 [] 2 3 [] [])) = Inr cells \<and> length cells = 2
      \<and> int (cell_bits (cells ! 1)) < CellSize)"
proof -
  let ?m = "MsgWithdrawNative 1 [] 2 3 [] []"
  have tags: "\<forall>f \<in> set ?m. tag_bits (sf_bit_size f) < CellSize"
    by (simp add: MsgWithdrawNative_def field_def tag_bits_def CellSize_def BitSize_def ParseInt64_def
        parse_dec_def is_digit_def char_code_def)
  obtain cells where c: "constructCells (\<lambda>b op. None) OpMsgWithdrawNative (stuckFileds ?m) = Inr cells"
      "length cells = 2"
    by (simp add: constructCells_def stuckFileds_def MsgWithdrawNative_def field_def field_info_def
        tag_bits_def CellSize_def BitSize_def IntSize_def AddressSize_def ParseInt64_def parse_dec_def
        is_digit_def char_code_def field_need_def int_size_def store_def construct_field_def
        place_field_def int_op_def addr_op_def Let_def)
  from ton_cells_within_bounds [OF tags c(1)] c(2) have "int (cell_bits (cells ! 1)) < CellSize"
    by (auto dest: spec [of _ 1])
  with c show ?thesis by blast
qed

subsection \<open>Reading back\<close>

text \<open>The contract of the library: a slice stands for the stores that are still to be read; the
  loads read them back in order, the bits of a slice are those of its stores, and a reference
  is followed to the stores of its cell. An integer is read back in the range of its width.\<close>

definition int_fits :: "int \<Rightarrow> nat \<Rightarrow> bool" where
  "int_fits v n \<longleftrightarrow> - (2 ^ (n - 1)) \<le> v \<and> v < 2 ^ (n - 1)"

definition slice_contract :: "'s slice_lib \<Rightarrow> ('s \<Rightarrow> cell_op list \<Rightarrow> bool) \<Rightarrow> bool" where
  "slice_contract S reads \<longleftrightarrow>
     (\<forall>ops. reads (sl_BeginParse S (Cell ops)) ops)
   \<and> (\<forall>s v ops. reads s (StoreUInt v 32 # ops) \<longrightarrow> reads (snd (sl_LoadInt S 32 s)) ops)
   \<and> (\<forall>s a ops. reads s (StoreAddr (Some a) # ops) \<longrightarrow>
        (\<exists>s'. sl_LoadAddr S s = (Inr a, s') \<and> reads s' ops))
   \<and> (\<forall>s v n ops. reads s (StoreBigInt v n # ops) \<and> int_fits v n \<longrightarrow>
        (\<exists>s'. sl_LoadBigInt S n s = (Inr v, s') \<and> reads s' ops))
   \<and> (\<forall>s c ops. reads s (StoreRef (Cell c) # ops) \<longrightarrow>
        (\<exists>t s'. sl_LoadRef S s = (Inr t, s') \<and> reads t c \<and> reads s' ops))
   \<and> (\<forall>s ops. reads s ops \<longrightarrow> sl_ToCell_BitsSize S s = Some (int (cell_bits ops)))"

lemma slice_contract_start: "slice_contract S reads \<Longrightarrow> reads (sl_BeginParse S (Cell ops)) ops"
  by (simp add: slice_contract_def)

lemma slice_contract_uint:
  "slice_contract S reads \<Longrightarrow> reads s (StoreUInt v 32 # ops) \<Longrightarrow> reads (snd (sl_LoadInt S 32 s)) ops"
  by (simp add: slice_contract_def)

lemma slice_contract_addr:
  "slice_contract S reads \<Longrightarrow> reads s (StoreAddr (Some a) # ops) \<Longrightarrow>
     \<exists>s'. sl_LoadAddr S s = (Inr a, s') \<and> reads s' ops"
  by (simp add: slice_contract_def)

lemma slice_contract_int:
  "slice_contract S reads \<Longrightarrow> reads s (StoreBigInt v n # ops) \<Longrightarrow> int_fits v n \<Longrightarrow>
     \<exists>s'. sl_LoadBigInt S n s = (Inr v, s') \<and> reads s' ops"
  by (simp add: slice_contract_def)

lemma slice_contract_ref:
  "slice_contract S reads \<Longrightarrow> reads s (StoreRef (Cell c) # ops) \<Longrightarrow>
     \<exists>t s'. sl_LoadRef S s = (Inr t, s') \<and> reads t c \<and> reads s' ops"
  by (simp add: slice_contract_def)

lemma slice_contract_bits:
  "slice_contract S reads \<Longrightarrow> reads s ops \<Longrightarrow> sl_ToCell_BitsSize S s = Some (int (cell_bits ops))"
  by (simp add: slice_contract_def)

text \<open>The chain that \<open>aggregateCells\<close> makes of a cell and the cells after it.\<close>

fun chain :: "cell_op list \<Rightarrow> cell_op list list \<Rightarrow> cell_op list" where
  "chain c [] = c"
| "chain c (c1 # cs) = c @ [StoreRef (Cell (chain c1 cs))]"

lemma aggregate_chain: "aggregate_from B c cs = Inr r \<Longrightarrow> r = chain c cs"
  by (induction cs arbitrary: c r) (auto split: sum.splits dest: store_Inr)

lemma chain_Cons: "chain (op # c) cs = op # chain c cs"
  by (cases cs) simp_all

text \<open>The fields that the round trip covers: addresses, and integers in range.\<close>

definition readable :: "struct_field \<Rightarrow> bool" where
  "readable f \<longleftrightarrow> (case sf_Value f of
     AddressV a \<Rightarrow> True
   | BigIntV i \<Rightarrow> int_fits i (nat (int_size (tag_bits (sf_bit_size f))))
   | _ \<Rightarrow> False)"

definition set_fields :: "struct_field list \<Rightarrow> msg \<Rightarrow> msg" where
  "set_fields fs res = fold (\<lambda>f. set_field (sf_Name f) (sf_Value f)) fs res"

definition field_op :: "struct_field \<Rightarrow> cell_op" where
  "field_op f = (case sf_Value f of
     BigIntV i \<Rightarrow> StoreBigInt i (nat (int_size (tag_bits (sf_bit_size f))))
   | AddressV a \<Rightarrow> StoreAddr (Some a) | _ \<Rightarrow> StoreBoolBit False)"

definition need_of :: "struct_field \<Rightarrow> int" where
  "need_of f = (case sf_Value f of BigIntV i \<Rightarrow> int_size (tag_bits (sf_bit_size f)) | _ \<Rightarrow> AddressSize)"

lemma int_size_pos [simp]: "0 < int_size n"
  by (simp add: int_size_def IntSize_def)

lemma need_of_readable: "readable f \<Longrightarrow> 0 < need_of f \<and> int (op_bits (field_op f)) = need_of f"
  by (cases "sf_Value f") (simp_all add: readable_def need_of_def field_op_def AddressSize_def order_less_imp_le)

lemma construct_readable:
  assumes "readable f"
  shows "construct_field B False (field_info f) st
    = place_field B False (need_of f) (Inr (field_op f)) (Inr (field_op f)) st"
  using assms
  by (cases "sf_Value f")
     (simp_all add: readable_def need_of_def construct_field_def field_info_def field_op_def addr_op_def int_op_def)

text \<open>A field is read where it is, or in the next cell when this one is used up.\<close>

lemma next_cell_here:
  assumes "slice_contract S reads" and "reads s (op # ops)" and "int (op_bits op) = need"
  shows "next_cell S need s = Returned (Inr s)"
proof -
  from slice_contract_bits [OF assms(1,2)] assms(3) show ?thesis by (simp add: next_cell_def)
qed

lemma next_cell_ref:
  assumes "slice_contract S reads" and "reads s [StoreRef (Cell c)]" and "0 < need"
  obtains t where "next_cell S need s = Returned (Inr t)" and "reads t c"
proof -
  from slice_contract_ref [OF assms(1,2)] obtain t s' where "sl_LoadRef S s = (Inr t, s')" "reads t c"
    by blast
  with slice_contract_bits [OF assms(1,2)] that assms(3) show ?thesis by (simp add: next_cell_def)
qed

lemma parse_readable:
  assumes "slice_contract S reads" and "readable f" and "next_cell S (need_of f) s = Returned (Inr t)"
    and "reads t (field_op f # ops)"
  obtains s' where "reads s' ops"
    and "parse_loop S (field_info f # ds) s res = parse_loop S ds s' (set_field (sf_Name f) (sf_Value f) res)"
proof (cases "sf_Value f")
  case (AddressV a)
  with assms(4) have "reads t (StoreAddr (Some a) # ops)" by (simp add: field_op_def)
  from slice_contract_addr [OF assms(1) this] obtain s' where "sl_LoadAddr S t = (Inr a, s')" "reads s' ops"
    by blast
  with AddressV assms(3) that show ?thesis by (simp add: field_info_def need_of_def)
next
  case (BigIntV i)
  with assms(2) have fits: "int_fits i (nat (int_size (tag_bits (sf_bit_size f))))" by (simp add: readable_def)
  from BigIntV assms(4) have "reads t (StoreBigInt i (nat (int_size (tag_bits (sf_bit_size f)))) # ops)"
    by (simp add: field_op_def)
  from slice_contract_int [OF assms(1) this fits] obtain s' where
    "sl_LoadBigInt S (nat (int_size (tag_bits (sf_bit_size f)))) t = (Inr i, s')" "reads s' ops"
    by blast
  with BigIntV assms(3) that show ?thesis by (simp add: field_info_def need_of_def)
qed (use assms(2) in \<open>simp_all add: readable_def\<close>)

text \<open>The cells that the remaining fields fill, and the way they are read back.\<close>

lemma build_then_parse:
  assumes "slice_contract S reads"
  shows "\<forall>f \<in> set fs. readable f \<Longrightarrow> 0 < n \<or> fs \<noteq> [] \<Longrightarrow>
    construct_loop B False (map field_info fs) (n, cells, b) = Inr out \<Longrightarrow> 0 \<le> n \<Longrightarrow>
    \<exists>c rest. out = cells @ (b @ c) # rest
      \<and> (\<forall>s res. reads s (chain c rest) \<longrightarrow> parse_loop S (map field_info fs) s res = Returned (Inr (set_fields fs res)))"
proof (induction fs arbitrary: n cells b)
  case Nil
  then show ?case by (auto simp: set_fields_def)
next
  case (Cons f fs)
  have f: "readable f" and need: "0 < need_of f" "int (op_bits (field_op f)) = need_of f"
    using Cons.prems(1) need_of_readable by simp_all
  have bits: "typeName (field_info f) \<noteq> ''[]uint8''"
    using f by (cases "sf_Value f") (simp_all add: readable_def field_info_def)
  have tail: "set_fields (f # fs) res = set_fields fs (set_field (sf_Name f) (sf_Value f) res)" for res
    by (simp add: set_fields_def)
  from Cons.prems(3) bits obtain st1 where
      p: "place_field B False (need_of f) (Inr (field_op f)) (Inr (field_op f)) (n, cells, b) = Inr st1"
    and rest: "construct_loop B False (map field_info fs) st1 = Inr out"
    by (auto simp: construct_readable [OF f] split: sum.splits)
  show ?case
  proof (cases "n + need_of f \<ge> CellSize")
    case True
    with p have st1: "st1 = (need_of f, cells @ [b], [field_op f])"
      by (auto simp: place_field_def split: sum.splits dest: store_Inr)
    from Cons.IH [of "need_of f"] Cons.prems(1) need(1) rest [unfolded st1] obtain c cs where
      out: "out = (cells @ [b]) @ ([field_op f] @ c) # cs"
      and parse: "\<And>s res. reads s (chain c cs) \<Longrightarrow>
        parse_loop S (map field_info fs) s res = Returned (Inr (set_fields fs res))"
      by fastforce
    have "parse_loop S (map field_info (f # fs)) s res = Returned (Inr (set_fields (f # fs) res))"
      if s: "reads s (chain [] ((field_op f # c) # cs))" for s res
    proof -
      from s have "reads s [StoreRef (Cell (field_op f # chain c cs))]" by (simp add: chain_Cons)
      then obtain t where t: "next_cell S (need_of f) s = Returned (Inr t)" "reads t (field_op f # chain c cs)"
        by (rule next_cell_ref [OF assms _ need(1)])
      from parse_readable [OF assms f t] show ?thesis using parse tail by (metis list.simps(9))
    qed
    with out show ?thesis by (intro exI [of _ "[]"] exI [of _ "(field_op f # c) # cs"]) simp
  next
    case False
    with p have st1: "st1 = (n + need_of f, cells, b @ [field_op f])"
      by (auto simp: place_field_def split: sum.splits dest: store_Inr)
    from Cons.IH [of "n + need_of f"] Cons.prems(1,4) need(1) rest [unfolded st1] obtain c cs where
      out: "out = cells @ ((b @ [field_op f]) @ c) # cs"
      and parse: "\<And>s res. reads s (chain c cs) \<Longrightarrow>
        parse_loop S (map field_info fs) s res = Returned (Inr (set_fields fs res))"
      by fastforce
    have "parse_loop S (map field_info (f # fs)) s res = Returned (Inr (set_fields (f # fs) res))"
      if s: "reads s (chain (field_op f # c) cs)" for s res
    proof -
      from s have r: "reads s (field_op f # chain c cs)" by (simp add: chain_Cons)
      from parse_readable [OF assms f next_cell_here [OF assms r need(2)] r]
      show ?thesis using parse tail by (metis list.simps(9))
    qed
    with out show ?thesis by (intro exI [of _ "field_op f # c"] exI [of _ cs]) simp
  qed
qed

text \<open>The struct given to \<open>ParseMessage\<close> has the fields of the message with any values.\<close>

definition same_field :: "struct_field \<Rightarrow> struct_field \<Rightarrow> bool" where
  "same_field f g \<longleftrightarrow> sf_Name f = sf_Name g \<and> sf_bit_size f = sf_bit_size g
     \<and> Type_String (sf_Value f) = Type_String (sf_Value g)"

definition shape :: "fieldInfo \<Rightarrow> string \<times> string \<times> int" where
  "shape d = (typeName d, fieldName d, bitSize d)"

lemma parse_loop_shape: "map shape ds = map shape es \<Longrightarrow> parse_loop S ds s res = parse_loop S es s res"
proof (induction ds arbitrary: es s res)
  case (Cons d ds)
  then obtain e fs where es: "es = e # fs" and "shape d = shape e" and fs: "map shape ds = map shape fs"
    by auto
  then have "typeName d = typeName e" "fieldName d = fieldName e" "bitSize d = bitSize e"
    by (simp_all add: shape_def)
  moreover have "parse_loop S ds = parse_loop S fs" by (intro ext Cons.IH fs)
  ultimately show ?case by (simp only: es parse_loop.simps)
qed simp

lemma same_shape: "list_all2 same_field fs gs \<Longrightarrow> map (shape \<circ> field_info) fs = map (shape \<circ> field_info) gs"
  by (induction rule: list_all2_induct) (simp_all add: same_field_def shape_def field_info_def)

lemma set_field_other: "n \<notin> sf_Name ` set fs \<Longrightarrow> set_field n v fs = fs"
  by (induction fs) (auto simp: set_field_def)

lemma set_fields_all:
  "list_all2 same_field ts fs \<Longrightarrow> distinct (map sf_Name (pre @ fs)) \<Longrightarrow> set_fields fs (pre @ ts) = pre @ fs"
proof (induction ts fs arbitrary: pre rule: list_all2_induct)
  case (Cons t ts f fs)
  have names: "sf_Name ` set ts = sf_Name ` set fs"
    using Cons.hyps(2) by (induction rule: list_all2_induct) (simp_all add: same_field_def)
  have "set_field (sf_Name f) (sf_Value f) (pre @ t # ts) = pre @ f # ts"
  proof -
    have "set_field (sf_Name f) (sf_Value f) pre = pre" "set_field (sf_Name f) (sf_Value f) ts = ts"
      using Cons.prems names by (auto intro: set_field_other)
    then show ?thesis using Cons.hyps(1) by (simp add: set_field_def same_field_def)
  qed
  with Cons.IH [of "pre @ [f]"] Cons.prems show ?case by (simp add: set_fields_def)
qed (simp add: set_fields_def)

lemma stuckFileds_no_slices:
  assumes "\<forall>d \<in> field_info ` set data. \<not> is_slice d"
  shows "stuckFileds data = map field_info data"
proof -
  have "filter (\<lambda>d. \<not> is_slice d) (stuckFileds data) = stuckFileds data"
    by (rule filter_True) (use assms in \<open>simp only: stuckFileds_set\<close>)
  moreover have "filter (\<lambda>d. \<not> is_slice d) (map field_info data) = map field_info data"
    by (rule filter_True) (use assms in \<open>simp only: set_map\<close>)
  moreover have "filter (\<lambda>d. \<not> is_slice d) (stuckFileds data) = filter (\<lambda>d. \<not> is_slice d) (map field_info data)"
    using stuck_loop_order [of "[]" data "[]" 0] by (simp only: stuckFileds_def append_Nil list.set ball_empty simp_thms)
  ultimately show ?thesis by metis
qed

lemma readable_no_slice: "readable f \<Longrightarrow> \<not> is_slice (field_info f)"
  by (cases "sf_Value f") (simp_all add: readable_def is_slice_def field_info_def)

lemma same_no_slices:
  assumes "list_all2 same_field ts fs" and "\<forall>f \<in> set fs. readable f"
  shows "\<forall>d \<in> field_info ` set ts. \<not> is_slice d"
proof -
  have "map (typeName \<circ> field_info) ts = map (typeName \<circ> field_info) fs"
    using assms(1) by (induction rule: list_all2_induct) (simp_all add: same_field_def field_info_def)
  then have "(typeName \<circ> field_info) ` set ts = (typeName \<circ> field_info) ` set fs"
    by (metis set_map)
  moreover have "''[]uint8'' \<notin> (typeName \<circ> field_info) ` set fs"
    using assms(2) readable_no_slice by (force simp: is_slice_def)
  ultimately show ?thesis by (force simp: is_slice_def)
qed

text \<open>C23: What the codec builds from a message of addresses and integers it reads back: for a
  library that keeps its contract, whose store takes the op code, and for a message of differently
  named fields, each an address or an integer in the signed range of the width its tag gives,
  parsing the built chain of cells into a struct of the same type gives the message. (The builder
  also takes integers above that range, up to the unsigned bound of the width; those are read back
  negative and are not part of the claim.)\<close>

theorem ton_message_roundtrip:
  assumes "slice_contract S reads" and "B [] (StoreUInt opcode 32) = None"
    and "\<forall>f \<in> set data. readable f" and "distinct (map sf_Name data)"
    and "BuildMessage B opcode data = Inr c"
    and "list_all2 same_field blank data"
  shows "ParseMessage S c blank = Returned (Inr data)"
proof -
  have data: "stuckFileds data = map field_info data"
    using assms(3) readable_no_slice by (intro stuckFileds_no_slices) blast
  have "stuckFileds blank = map field_info blank"
    by (rule stuckFileds_no_slices [OF same_no_slices [OF assms(6,3)]])
  then have stack: "parse_loop S (stuckFileds blank) = parse_loop S (map field_info data)"
    using same_shape [OF assms(6)] by (intro ext parse_loop_shape) simp
  have all: "set_fields data blank = data"
    using set_fields_all [OF assms(6), of "[]"] assms(4) by simp
  show ?thesis
  proof (cases "data = []")
    case True
    with assms(6) have "blank = []" by simp
    with True show ?thesis by (simp add: ParseMessage_def parseLog_def stuckFileds_def)
  next
    case False
    from assms(5) obtain out where build: "construct_loop B False (map field_info data)
        (0, [], [StoreUInt opcode 32]) = Inr out" and c: "aggregateCells B out = Inr c"
      by (auto simp: BuildMessage_def constructCells_def store_def assms(2) data
          split: sum.splits)
    from build_then_parse [OF assms(1,3) _ build] False obtain ops rest where
      out: "out = ([StoreUInt opcode 32] @ ops) # rest"
      and parse: "\<And>s res. reads s (chain ops rest) \<Longrightarrow>
        parse_loop S (map field_info data) s res = Returned (Inr (set_fields data res))"
      by auto
    from c [unfolded out] have "c = Cell (StoreUInt opcode 32 # chain ops rest)"
      by (auto simp: aggregateCells_def chain_Cons split: sum.splits dest: aggregate_chain)
    then have "reads (snd (sl_LoadInt S 32 (sl_BeginParse S c))) (chain ops rest)"
      using slice_contract_uint [OF assms(1) slice_contract_start [OF assms(1)]] by simp
    with parse show ?thesis by (simp add: ParseMessage_def parseLog_def stack all)
  qed
qed

text \<open>The contract can hold: a slice that is the list of the stores left.\<close>

fun ops_LoadInt :: "nat \<Rightarrow> cell_op list \<Rightarrow> (go_error + int) \<times> cell_op list" where
  "ops_LoadInt n (StoreUInt v k # ops) = (Inr (int v), ops)"
| "ops_LoadInt n ops = (Inl (Msg ''not enough data''), ops)"

fun ops_LoadRef :: "cell_op list \<Rightarrow> (go_error + cell_op list) \<times> cell_op list" where
  "ops_LoadRef (StoreRef (Cell c) # ops) = (Inr c, ops)"
| "ops_LoadRef ops = (Inl (Msg ''no more refs''), ops)"

fun ops_LoadAddr :: "cell_op list \<Rightarrow> (go_error + ton_address) \<times> cell_op list" where
  "ops_LoadAddr (StoreAddr (Some a) # ops) = (Inr a, ops)"
| "ops_LoadAddr ops = (Inl (Msg ''not enough data''), ops)"

fun ops_LoadBigInt :: "nat \<Rightarrow> cell_op list \<Rightarrow> (go_error + int) \<times> cell_op list" where
  "ops_LoadBigInt n (StoreBigInt v k # ops) = (Inr v, ops)"
| "ops_LoadBigInt n ops = (Inl (Msg ''not enough data''), ops)"

fun ops_of_cell :: "cell \<Rightarrow> cell_op list" where
  "ops_of_cell (Cell ops) = ops"

definition ops_lib :: "cell_op list slice_lib" where
  "ops_lib = \<lparr>sl_BeginParse = ops_of_cell, sl_LoadInt = ops_LoadInt, sl_LoadRef = ops_LoadRef,
     sl_LoadSlice = (\<lambda>n s. (Inl (Msg ''not enough data''), s)), sl_LoadAddr = ops_LoadAddr,
     sl_LoadBoolBit = (\<lambda>s. (Inl (Msg ''not enough data''), s)), sl_LoadBigInt = ops_LoadBigInt,
     sl_String = (\<lambda>s. []), sl_ToCell_BitsSize = (\<lambda>s. Some (int (cell_bits s)))\<rparr>"

lemma ops_lib_contract: "slice_contract ops_lib (=)"
  by (simp add: slice_contract_def ops_lib_def)

theorem ton_message_roundtrip_witness:
  "ParseMessage ops_lib (Cell [StoreUInt OpMsgRemoveSignerKey 32, StoreBigInt 4 8, StoreBigInt 5 256, StoreBigInt 6 256])
     (MsgRemoveSignerKey 0 0 0) = Returned (Inr (MsgRemoveSignerKey 4 5 6))"
proof (rule ton_message_roundtrip [OF ops_lib_contract, of "\<lambda>b op. None"])
  show "\<forall>f \<in> set (MsgRemoveSignerKey 4 5 6). readable f"
    by (simp add: MsgRemoveSignerKey_def field_def readable_def tag_bits_def ParseInt64_def parse_dec_def
        is_digit_def char_code_def int_size_def int_fits_def)
  show "BuildMessage (\<lambda>b op. None) OpMsgRemoveSignerKey (MsgRemoveSignerKey 4 5 6)
      = Inr (Cell [StoreUInt OpMsgRemoveSignerKey 32, StoreBigInt 4 8, StoreBigInt 5 256, StoreBigInt 6 256])"
    by (simp add: BuildMessage_def constructCells_def stuckFileds_def MsgRemoveSignerKey_def field_def
        field_info_def tag_bits_def CellSize_def BitSize_def IntSize_def ParseInt64_def parse_dec_def
        is_digit_def char_code_def field_need_def int_size_def store_def construct_field_def
        place_field_def int_op_def Let_def aggregateCells_def)
qed (simp_all add: MsgRemoveSignerKey_def field_def same_field_def)

end
