(* ===== verification/Channels.thy ===== *)
theory Channels
  imports Broadcaster "HOL-Library.Multiset"
begin

text \<open>
  The goroutines and channels of the broadcaster: \<open>Broadcaster.Run\<close>, the goroutines that
  \<open>BroadcastDeposit\<close>, \<open>CatchUp\<close>, \<open>BroadcastEpoch\<close> and \<open>CatchUpEpoch\<close> start, the loops of the network
  workers and of the core submitter. Here a step is one operation on a channel, where a step of
  \<open>System\<close> is a whole handler. What a container does is left out: its run ends in some way.
\<close>

subsection \<open>State\<close>

text \<open>Each chain has two channels, in \<open>withdrawalWorkersMap\<close> and in \<open>updateSignersWorkersMap\<close>.\<close>

datatype pool = Withdrawals | SignerUpdates

type_synonym channel = "pool \<times> string"

fun job_channel :: "'x job \<Rightarrow> channel" where
  "job_channel (WithdrawJob c k) = (Withdrawals, c)"
| "job_channel (SignersJob c k) = (SignerUpdates, c)"

text \<open>A worker waits for a container, runs one, waits to send a deposit to \<open>submitChan\<close>, or returned.\<close>

datatype 'x worker = Idle | Running "'x job" | Sending "Deposit option" | Stopped

datatype submitter = NotStarted | Serving | Ended

text \<open>
  \<open>p_channels\<close>: the channels that are in the two maps. \<open>p_started\<close>: goroutines before their
  \<open>select\<close>. \<open>p_selecting\<close>: goroutines in their \<open>select\<close>, with whether the map had the channel when the
  \<open>select\<close> was entered, which is when Go evaluates it; without it the channel is nil and the send never
  proceeds. \<open>p_ran\<close> is a ghost: the containers that workers took.
\<close>

record 'x pipes =
  p_cancelled :: bool
  p_channels :: "channel set"
  p_started :: "'x job multiset"
  p_selecting :: "('x job \<times> bool) multiset"
  p_buffer :: "channel \<Rightarrow> 'x job list"
  p_workers :: "channel \<Rightarrow> 'x worker multiset"
  p_submitter :: submitter
  p_submit :: "Deposit option list"
  p_returned :: bool
  p_ran :: "'x job multiset"

definition no_pipes :: "'x pipes" where
  "no_pipes = \<lparr>p_cancelled = False, p_channels = {}, p_started = {#}, p_selecting = {#},
     p_buffer = (\<lambda>_. []), p_workers = (\<lambda>_. {#}), p_submitter = NotStarted, p_submit = [],
     p_returned = False, p_ran = {#}\<rparr>"

definition workers_of :: "'x Broadcaster \<Rightarrow> string \<Rightarrow> nat" where
  "workers_of b c = (case repo_Clients (b_clientsRepo b) c of Some cl \<Rightarrow> cl_WorkersCount cl | None \<Rightarrow> 0)"

definition chain_room :: "'x Broadcaster \<Rightarrow> nat" where
  "chain_room b = nat (sint (b_chainTxPoolSize b))"

definition submit_room :: "'x Broadcaster \<Rightarrow> nat" where
  "submit_room b = nat (sint (b_submitTxPoolSize b))"

abbreviation all_channels :: "'x Broadcaster \<Rightarrow> channel set" where
  "all_channels b \<equiv> UNIV \<times> dom (repo_Clients (b_clientsRepo b))"

subsection \<open>Starting\<close>

text \<open>
  One round of the loop of \<open>Run\<close>: the channels of a chain, its workers and the two entries of the
  maps. \<open>make\<close> panics for a negative size, so that there is no such step then.
\<close>

definition register :: "'x Broadcaster \<Rightarrow> string \<Rightarrow> 'x pipes \<Rightarrow> 'x pipes" where
  "register b c s = s\<lparr>p_channels := p_channels s \<union> {(Withdrawals, c), (SignerUpdates, c)},
     p_workers := (p_workers s)((Withdrawals, c) := replicate_mset (workers_of b c) Idle,
       (SignerUpdates, c) := replicate_mset (workers_of b c) Idle)\<rparr>"

definition enter_select :: "'x job \<Rightarrow> 'x pipes \<Rightarrow> 'x pipes" where
  "enter_select j s = s\<lparr>p_started := p_started s - {#j#},
     p_selecting := add_mset (j, job_channel j \<in> p_channels s) (p_selecting s)\<rparr>"

definition run_on :: "channel \<Rightarrow> 'x job \<Rightarrow> 'x worker multiset \<Rightarrow> 'x pipes \<Rightarrow> 'x pipes" where
  "run_on ch j W s = s\<lparr>p_workers := (p_workers s)(ch := add_mset (Running j) W), p_ran := add_mset j (p_ran s)\<rparr>"

definition set_worker :: "channel \<Rightarrow> 'x worker \<Rightarrow> 'x worker multiset \<Rightarrow> 'x pipes \<Rightarrow> 'x pipes" where
  "set_worker ch k W s = s\<lparr>p_workers := (p_workers s)(ch := add_mset k W)\<rparr>"

subsection \<open>Steps\<close>

text \<open>
  What the goroutines do by themselves. A channel hands a value over without its buffer only when the
  buffer is empty. Workers of signer updates send nothing. Every \<open>select\<close> also has the end of the
  context; a worker that sends to \<open>submitChan\<close> does not.
\<close>

inductive pipe_moves :: "'x Broadcaster \<Rightarrow> 'x pipes \<Rightarrow> 'x pipes \<Rightarrow> bool" for b :: "'x Broadcaster" where
  registers: "c \<in> dom (repo_Clients (b_clientsRepo b)) \<Longrightarrow> (Withdrawals, c) \<notin> p_channels s \<Longrightarrow>
    0 \<le> sint (b_chainTxPoolSize b) \<Longrightarrow> pipe_moves b s (register b c s)"
| serves: "p_channels s = all_channels b \<Longrightarrow> p_submitter s = NotStarted \<Longrightarrow>
    pipe_moves b s (s\<lparr>p_submitter := Serving\<rparr>)"
| selects: "j \<in># p_started s \<Longrightarrow> pipe_moves b s (enter_select j s)"
| sends: "p_selecting s = add_mset (j, True) J \<Longrightarrow> length (p_buffer s (job_channel j)) < chain_room b \<Longrightarrow>
    pipe_moves b s (s\<lparr>p_selecting := J,
      p_buffer := (p_buffer s)(job_channel j := p_buffer s (job_channel j) @ [j])\<rparr>)"
| hands_over: "p_selecting s = add_mset (j, True) J \<Longrightarrow> p_buffer s (job_channel j) = [] \<Longrightarrow>
    p_workers s (job_channel j) = add_mset Idle W \<Longrightarrow>
    pipe_moves b s (run_on (job_channel j) j W (s\<lparr>p_selecting := J\<rparr>))"
| receives: "p_buffer s ch = j # js \<Longrightarrow> p_workers s ch = add_mset Idle W \<Longrightarrow>
    pipe_moves b s (run_on ch j W (s\<lparr>p_buffer := (p_buffer s)(ch := js)\<rparr>))"
| finishes: "p_workers s ch = add_mset (Running j) W \<Longrightarrow> pipe_moves b s (set_worker ch Idle W s)"
| succeeds: "p_workers s ch = add_mset (Running j) W \<Longrightarrow> fst ch = Withdrawals \<Longrightarrow>
    pipe_moves b s (set_worker ch (Sending d) W s)"
| submits: "p_workers s ch = add_mset (Sending d) W \<Longrightarrow> length (p_submit s) < submit_room b \<Longrightarrow>
    pipe_moves b s (set_worker ch Idle W (s\<lparr>p_submit := p_submit s @ [d]\<rparr>))"
| passes_on: "p_workers s ch = add_mset (Sending d) W \<Longrightarrow> p_submit s = [] \<Longrightarrow> p_submitter s = Serving \<Longrightarrow>
    pipe_moves b s (set_worker ch Idle W s)"
| reports: "p_submit s = d # ds \<Longrightarrow> p_submitter s = Serving \<Longrightarrow> pipe_moves b s (s\<lparr>p_submit := ds\<rparr>)"
| gives_up: "p_cancelled s \<Longrightarrow> p_selecting s = add_mset (j, h) J \<Longrightarrow> pipe_moves b s (s\<lparr>p_selecting := J\<rparr>)"
| worker_stops: "p_cancelled s \<Longrightarrow> p_workers s ch = add_mset Idle W \<Longrightarrow> pipe_moves b s (set_worker ch Stopped W s)"
| submitter_stops: "p_cancelled s \<Longrightarrow> p_submitter s = Serving \<Longrightarrow> pipe_moves b s (s\<lparr>p_submitter := Ended\<rparr>)"
| run_returns: "p_submitter s = Ended \<Longrightarrow> p_started s = {#} \<Longrightarrow> p_selecting s = {#} \<Longrightarrow>
    \<forall>ch \<in> p_channels s. set_mset (p_workers s ch) \<subseteq> {Stopped} \<Longrightarrow> pipe_moves b s (s\<lparr>p_returned := True\<rparr>)"

text \<open>What comes from outside: a container is accepted, the context ends.\<close>

inductive pipe_step :: "'x Broadcaster \<Rightarrow> 'x pipes \<Rightarrow> 'x pipes \<Rightarrow> bool" for b :: "'x Broadcaster" where
  internal: "pipe_moves b s t \<Longrightarrow> pipe_step b s t"
| accepts: "pipe_step b s (s\<lparr>p_started := add_mset j (p_started s)\<rparr>)"
| cancels: "pipe_step b s (s\<lparr>p_cancelled := True\<rparr>)"

abbreviation pipe_steps :: "'x Broadcaster \<Rightarrow> 'x pipes \<Rightarrow> 'x pipes \<Rightarrow> bool" where
  "pipe_steps b \<equiv> (pipe_step b)\<^sup>*\<^sup>*"

lemmas pipe_updates = register_def enter_select_def run_on_def set_worker_def

subsection \<open>A goroutine that came before its channel\<close>

lemma cancelled_stays: "pipe_step b s t \<Longrightarrow> p_cancelled s \<Longrightarrow> p_cancelled t"
  by (auto simp: pipe_updates elim!: pipe_step.cases pipe_moves.cases)

lemma nil_channel_stays:
  assumes "pipe_step b s t" and "\<not> p_cancelled t" and "(j, False) \<in># p_selecting s"
  shows "(j, False) \<in># p_selecting t"
  using assms by (auto simp: pipe_updates elim!: pipe_step.cases pipe_moves.cases)

lemma nil_channel_waits:
  assumes "pipe_steps b s t" and "\<not> p_cancelled t" and "(j, False) \<in># p_selecting s"
  shows "(j, False) \<in># p_selecting t"
  using assms
proof (induction rule: rtranclp_induct)
  case (step t u)
  from step.hyps(2) step.prems(1) have "\<not> p_cancelled t" using cancelled_stays by blast
  with step show ?case using nil_channel_stays by blast
qed

subsection \<open>What holds at every moment\<close>

definition pipes_ok :: "'x Broadcaster \<Rightarrow> 'x pipes \<Rightarrow> bool" where
  "pipes_ok b s \<longleftrightarrow> finite (p_channels s) \<and> p_channels s \<subseteq> all_channels b
     \<and> (\<forall>c. (Withdrawals, c) \<in> p_channels s \<longleftrightarrow> (SignerUpdates, c) \<in> p_channels s)
     \<and> (\<forall>ch. ch \<notin> p_channels s \<longrightarrow> p_buffer s ch = [] \<and> p_workers s ch = {#})
     \<and> (\<forall>ch \<in> p_channels s. size (p_workers s ch) = workers_of b (snd ch))
     \<and> (\<not> p_cancelled s \<longrightarrow> (\<forall>ch. Stopped \<notin># p_workers s ch))
     \<and> (\<forall>j. (j, True) \<in># p_selecting s \<longrightarrow> job_channel j \<in> p_channels s)
     \<and> (p_submitter s \<noteq> NotStarted \<longrightarrow> p_channels s = all_channels b)
     \<and> (p_submitter s = Ended \<longrightarrow> p_cancelled s)"

lemma pipes_ok_none: "pipes_ok b no_pipes"
  by (simp add: pipes_ok_def no_pipes_def)

lemma pipes_okD:
  assumes "pipes_ok b s"
  shows pipes_ok_outside: "ch \<notin> p_channels s \<Longrightarrow> p_buffer s ch = [] \<and> p_workers s ch = {#}"
    and pipes_ok_size: "ch \<in> p_channels s \<Longrightarrow> size (p_workers s ch) = workers_of b (snd ch)"
    and pipes_ok_stopped: "\<not> p_cancelled s \<Longrightarrow> Stopped \<notin># p_workers s ch"
    and pipes_ok_selected: "(j, True) \<in># p_selecting s \<Longrightarrow> job_channel j \<in> p_channels s"
    and pipes_ok_finite: "finite (p_channels s)"
    and pipes_ok_all: "p_submitter s \<noteq> NotStarted \<Longrightarrow> p_channels s = all_channels b"
  using assms unfolding pipes_ok_def by blast+

lemma worker_registered: "pipes_ok b s \<Longrightarrow> p_workers s ch = add_mset k W \<Longrightarrow> ch \<in> p_channels s"
  using pipes_ok_outside [of b s ch] by auto

lemma pipes_ok_worker:
  assumes ok: "pipes_ok b s" and W: "p_workers s ch = add_mset k W" and k': "k' = Stopped \<longrightarrow> p_cancelled s"
  shows "pipes_ok b (s\<lparr>p_workers := (p_workers s)(ch := add_mset k' W)\<rparr>)"
proof -
  have ch: "ch \<in> p_channels s" by (rule worker_registered [OF ok W])
  have size_W: "Suc (size W) = workers_of b (snd ch)" using pipes_ok_size [OF ok ch] W by simp
  have "\<not> p_cancelled s \<Longrightarrow> Stopped \<notin># add_mset k' W"
    using pipes_ok_stopped [OF ok, of ch] W k' by auto
  with ok ch size_W show ?thesis unfolding pipes_ok_def by (simp del: split_paired_All split_paired_Ex)
qed

lemma pipes_ok_buffer:
  assumes "pipes_ok b s" and "ch \<in> p_channels s"
  shows "pipes_ok b (s\<lparr>p_buffer := (p_buffer s)(ch := js)\<rparr>)"
  using assms by (auto simp: pipes_ok_def)

lemma pipes_ok_selecting:
  assumes "pipes_ok b s" and "p_selecting s = add_mset x J"
  shows "pipes_ok b (s\<lparr>p_selecting := J\<rparr>)"
  using assms by (auto simp: pipes_ok_def)

lemma pipes_ok_rest:
  "pipes_ok b (s\<lparr>p_ran := r\<rparr>) = pipes_ok b s" "pipes_ok b (s\<lparr>p_submit := ds\<rparr>) = pipes_ok b s"
  "pipes_ok b (s\<lparr>p_started := J\<rparr>) = pipes_ok b s" "pipes_ok b (s\<lparr>p_returned := h\<rparr>) = pipes_ok b s"
  by (simp_all add: pipes_ok_def)

lemma pipes_ok_swap:
  "pipes_ok b s \<Longrightarrow> p_workers s ch = add_mset k W \<Longrightarrow> (k' = Stopped \<longrightarrow> p_cancelled s) \<Longrightarrow>
     pipes_ok b (set_worker ch k' W s)"
  "pipes_ok b s \<Longrightarrow> p_workers s ch = add_mset k W \<Longrightarrow> pipes_ok b (run_on ch j W s)"
proof -
  have ran: "run_on ch j W s = (s\<lparr>p_workers := (p_workers s)(ch := add_mset (Running j) W)\<rparr>)\<lparr>p_ran := add_mset j (p_ran s)\<rparr>"
    by (simp add: run_on_def)
  show "pipes_ok b s \<Longrightarrow> p_workers s ch = add_mset k W \<Longrightarrow> (k' = Stopped \<longrightarrow> p_cancelled s) \<Longrightarrow>
     pipes_ok b (set_worker ch k' W s)"
    unfolding set_worker_def by (rule pipes_ok_worker)
  show "pipes_ok b s \<Longrightarrow> p_workers s ch = add_mset k W \<Longrightarrow> pipes_ok b (run_on ch j W s)"
    unfolding ran pipes_ok_rest by (rule pipes_ok_worker) simp_all
qed

lemma pipes_ok_move:
  assumes "pipe_moves b s t" and ok: "pipes_ok b s"
  shows "pipes_ok b t"
  using assms(1)
proof cases
  case (registers c)
  then have "c \<in> dom (repo_Clients (b_clientsRepo b)) \<and> p_submitter s = NotStarted"
    using ok by (auto simp: pipes_ok_def)
  with registers ok show ?thesis by (auto simp: pipes_ok_def register_def)
next
  case serves
  with ok show ?thesis by (auto simp: pipes_ok_def)
next
  case (selects j)
  with ok show ?thesis by (auto simp: pipes_ok_def enter_select_def)
next
  case (sends j J)
  with ok have "job_channel j \<in> p_channels (s\<lparr>p_selecting := J\<rparr>)" by (simp add: pipes_ok_def)
  from pipes_ok_buffer [OF pipes_ok_selecting [OF ok sends(2)] this] sends(1) show ?thesis by simp
next
  case (hands_over j J W)
  then show ?thesis by (simp add: pipes_ok_swap(2) [OF pipes_ok_selecting [OF ok hands_over(2)]])
next
  case (receives ch j js W)
  with ok have "ch \<in> p_channels s" using worker_registered by blast
  with receives show ?thesis by (simp add: pipes_ok_swap(2) [OF pipes_ok_buffer [OF ok]])
next
  case (finishes ch j W)
  with ok show ?thesis by (simp add: pipes_ok_swap(1))
next
  case (succeeds ch j W d)
  with ok show ?thesis by (simp add: pipes_ok_swap(1))
next
  case (submits ch d W)
  with ok show ?thesis by (simp add: pipes_ok_swap(1) pipes_ok_rest)
next
  case (passes_on ch d W)
  with ok show ?thesis by (simp add: pipes_ok_swap(1))
next
  case (reports d ds)
  with ok show ?thesis by (simp add: pipes_ok_rest)
next
  case (gives_up j h J)
  with ok show ?thesis by (simp add: pipes_ok_selecting)
next
  case (worker_stops ch W)
  with ok show ?thesis by (simp add: pipes_ok_swap(1))
next
  case submitter_stops
  with ok show ?thesis by (auto simp: pipes_ok_def)
next
  case run_returns
  with ok show ?thesis by (simp add: pipes_ok_rest)
qed

lemma pipes_ok_step: "pipe_step b s t \<Longrightarrow> pipes_ok b s \<Longrightarrow> pipes_ok b t"
  by (erule pipe_step.cases) (auto simp: pipes_ok_move, auto simp: pipes_ok_def)

lemma reachable_pipes_ok: "pipe_steps b no_pipes s \<Longrightarrow> pipes_ok b s"
  by (induction rule: rtranclp_induct) (simp_all add: pipes_ok_none pipes_ok_step)

subsection \<open>A worker that sends to a full channel nobody reads\<close>

text \<open>The submitter is gone and the channel is full: the worker never returns, nor does \<open>Run\<close>.\<close>

definition hangs :: "'x Broadcaster \<Rightarrow> channel \<Rightarrow> Deposit option \<Rightarrow> 'x pipes \<Rightarrow> bool" where
  "hangs b ch d s \<longleftrightarrow> ch \<in> p_channels s \<and> Sending d \<in># p_workers s ch \<and> p_submitter s = Ended
     \<and> submit_room b \<le> length (p_submit s) \<and> \<not> p_returned s"

lemma hangs_stays:
  assumes "pipe_step b s t" and "hangs b ch d s" and "pipes_ok b s"
  shows "hangs b ch d t"
  using assms
  by (auto simp: pipe_updates hangs_def pipes_ok_def elim!: pipe_step.cases pipe_moves.cases split: if_splits)

lemma hangs_for_ever:
  assumes "pipe_steps b s t" and "hangs b ch d s" and "pipes_ok b s"
  shows "hangs b ch d t"
proof -
  from assms(1) have "hangs b ch d t \<and> pipes_ok b t"
    by (induction rule: rtranclp_induct) (use assms hangs_stays pipes_ok_step in blast)+
  then show ?thesis ..
qed

subsection \<open>Delivery\<close>

text \<open>The containers no worker has taken yet, and a bound on the steps that are left.\<close>

definition pending :: "'x pipes \<Rightarrow> 'x job multiset" where
  "pending s = p_started s + image_mset fst (p_selecting s) + (\<Sum>ch \<in> p_channels s. mset (p_buffer s ch))"

fun worker_left :: "'x worker \<Rightarrow> nat" where
  "worker_left (Running j) = 3"
| "worker_left (Sending d) = 2"
| "worker_left k = 0"

definition channel_left :: "'x pipes \<Rightarrow> channel \<Rightarrow> nat" where
  "channel_left s ch = 4 * length (p_buffer s ch) + (\<Sum>k \<in># p_workers s ch. worker_left k)"

definition steps_left :: "'x pipes \<Rightarrow> nat" where
  "steps_left s = 6 * size (p_started s) + 5 * size (p_selecting s)
     + (\<Sum>ch \<in> p_channels s. channel_left s ch) + length (p_submit s)"

text \<open>
  The service after its start: every channel is there, the submitter serves, no goroutine came before
  its channel, and the containers are for chains that have a client.
\<close>

definition steady :: "'x Broadcaster \<Rightarrow> 'x pipes \<Rightarrow> bool" where
  "steady b s \<longleftrightarrow> pipes_ok b s \<and> p_submitter s = Serving \<and> \<not> p_cancelled s
     \<and> (\<forall>j. (j, False) \<notin># p_selecting s) \<and> (\<forall>j. j \<in># p_started s \<longrightarrow> job_channel j \<in> all_channels b)"

lemma sum_at:
  fixes f g :: "'a \<Rightarrow> 'b :: comm_monoid_add"
  assumes "finite C" and "a \<in> C" and "\<And>c. c \<noteq> a \<Longrightarrow> g c = f c"
  shows "sum g C + f a = sum f C + g a"
proof -
  have "sum g (C - {a}) = sum f (C - {a})" using assms(3) by (intro sum.cong) auto
  then show ?thesis using assms(1,2) by (simp add: sum.remove ac_simps)
qed

text \<open>A step that changes one channel only.\<close>

lemma one_channel:
  assumes ok: "pipes_ok b s" and ch: "ch \<in> p_channels s" and same: "p_channels t = p_channels s"
    and "\<And>c. c \<noteq> ch \<Longrightarrow> p_buffer t c = p_buffer s c \<and> p_workers t c = p_workers s c"
  shows "sum (channel_left t) (p_channels t) + channel_left s ch
      = sum (channel_left s) (p_channels s) + channel_left t ch"
    and "(\<Sum>c \<in> p_channels t. mset (p_buffer t c)) + mset (p_buffer s ch)
      = (\<Sum>c \<in> p_channels s. mset (p_buffer s c)) + mset (p_buffer t ch)"
  unfolding same
  by (rule sum_at [OF pipes_ok_finite [OF ok] ch], use assms(4) in \<open>simp add: channel_left_def\<close>)+

lemma steady_move:
  assumes "pipe_moves b s t" and "steady b s"
  shows "steady b t" and "steps_left t < steps_left s" and "pending t + p_ran t = pending s + p_ran s"
proof -
  have ok: "pipes_ok b s" and st: "p_submitter s = Serving" "\<not> p_cancelled s"
    and nil: "(j, False) \<notin># p_selecting s" and started: "j \<in># p_started s \<Longrightarrow> job_channel j \<in> all_channels b" for j
    using assms(2) by (auto simp: steady_def)
  have all: "p_channels s = all_channels b" using pipes_ok_all [OF ok] st by simp
  have "pipes_ok b t" by (rule pipes_ok_move [OF assms(1) ok])
  have "steady b t \<and> steps_left t < steps_left s \<and> pending t + p_ran t = pending s + p_ran s"
    using assms(1)
  proof cases
    case (registers c)
    with all show ?thesis by auto
  next
    case (selects j)
    with started [of j] obtain J where "p_started s = add_mset j J" by (metis insert_DiffM)
    with selects \<open>pipes_ok b t\<close> st nil started all show ?thesis
      by (auto simp: steady_def enter_select_def steps_left_def pending_def channel_left_def)
  next
    case (sends j J)
    have ch: "job_channel j \<in> p_channels s" using pipes_ok_selected [OF ok] sends(2) by simp
    have "p_channels t = p_channels s" using sends(1) by simp
    note one_channel [OF ok ch this]
    with sends \<open>pipes_ok b t\<close> st nil started show ?thesis
      by (auto simp: steady_def steps_left_def pending_def channel_left_def)
  next
    case (hands_over j J W)
    have ch: "job_channel j \<in> p_channels s" using pipes_ok_selected [OF ok] hands_over(2) by simp
    have "p_channels t = p_channels s" using hands_over(1) by (simp add: run_on_def)
    note one_channel [OF ok ch this]
    with hands_over \<open>pipes_ok b t\<close> st nil started show ?thesis
      by (auto simp: steady_def steps_left_def pending_def channel_left_def run_on_def)
  next
    case (receives ch j js W)
    have ch: "ch \<in> p_channels s" by (rule worker_registered [OF ok receives(3)])
    have "p_channels t = p_channels s" using receives(1) by (simp add: run_on_def)
    note one_channel [OF ok ch this]
    with receives \<open>pipes_ok b t\<close> st nil started show ?thesis
      by (auto simp: steady_def steps_left_def pending_def channel_left_def run_on_def)
  next
    case (finishes ch j W)
    have ch: "ch \<in> p_channels s" by (rule worker_registered [OF ok finishes(2)])
    have "p_channels t = p_channels s" using finishes(1) by (simp add: set_worker_def)
    note one_channel [OF ok ch this]
    with finishes \<open>pipes_ok b t\<close> st nil started show ?thesis
      by (auto simp: steady_def steps_left_def pending_def channel_left_def set_worker_def)
  next
    case (succeeds ch j W d)
    have ch: "ch \<in> p_channels s" by (rule worker_registered [OF ok succeeds(2)])
    have "p_channels t = p_channels s" using succeeds(1) by (simp add: set_worker_def)
    note one_channel [OF ok ch this]
    with succeeds \<open>pipes_ok b t\<close> st nil started show ?thesis
      by (auto simp: steady_def steps_left_def pending_def channel_left_def set_worker_def)
  next
    case (submits ch d W)
    have ch: "ch \<in> p_channels s" by (rule worker_registered [OF ok submits(2)])
    have "p_channels t = p_channels s" using submits(1) by (simp add: set_worker_def)
    note one_channel [OF ok ch this]
    with submits \<open>pipes_ok b t\<close> st nil started show ?thesis
      by (auto simp: steady_def steps_left_def pending_def channel_left_def set_worker_def)
  next
    case (passes_on ch d W)
    have ch: "ch \<in> p_channels s" by (rule worker_registered [OF ok passes_on(2)])
    have "p_channels t = p_channels s" using passes_on(1) by (simp add: set_worker_def)
    note one_channel [OF ok ch this]
    with passes_on \<open>pipes_ok b t\<close> st nil started show ?thesis
      by (auto simp: steady_def steps_left_def pending_def channel_left_def set_worker_def)
  next
    case (reports d ds)
    with \<open>pipes_ok b t\<close> st nil started show ?thesis
      by (auto simp: steady_def steps_left_def pending_def channel_left_def)
  qed (use st in \<open>simp_all\<close>)
  then show "steady b t" and "steps_left t < steps_left s" and "pending t + p_ran t = pending s + p_ran s"
    by auto
qed

text \<open>A worker of a channel with a worker can go on or frees the others: some step is possible.\<close>

lemma busy_worker_moves:
  assumes "k \<in># p_workers s ch" and "k \<noteq> Idle" and "k \<noteq> Stopped" and "p_submitter s = Serving"
  shows "\<exists>t. pipe_moves b s t"
proof -
  from assms(1) obtain W where W: "p_workers s ch = add_mset k W" by (metis insert_DiffM)
  show ?thesis
  proof (cases k)
    case (Running j)
    with W finishes show ?thesis by metis
  next
    case (Sending d)
    with W assms(4) passes_on reports show ?thesis by (metis neq_Nil_conv)
  qed (use assms in auto)
qed

lemma waiting_moves:
  assumes st: "steady b s" and ch: "ch \<in> p_channels s" and "0 < workers_of b (snd ch)"
    and idle: "\<And>W. p_workers s ch = add_mset Idle W \<Longrightarrow> \<exists>t. pipe_moves b s t"
  shows "\<exists>t. pipe_moves b s t"
proof -
  have ok: "pipes_ok b s" and serving: "p_submitter s = Serving" and "\<not> p_cancelled s"
    using st by (auto simp: steady_def)
  then have stopped: "Stopped \<notin># p_workers s ch" using pipes_ok_stopped by blast
  from pipes_ok_size [OF ok ch] assms(3) have "p_workers s ch \<noteq> {#}" by auto
  then obtain k W where W: "p_workers s ch = add_mset k W" by (metis multiset_cases)
  show ?thesis
  proof (cases "k = Idle")
    case True
    with W idle show ?thesis by blast
  next
    case False
    with W stopped serving busy_worker_moves [of k s ch b] show ?thesis by auto
  qed
qed

lemma stuck_is_drained:
  assumes st: "steady b s" and workers: "\<forall>c \<in> dom (repo_Clients (b_clientsRepo b)). 0 < workers_of b c"
    and stuck: "\<forall>t. \<not> pipe_moves b s t"
  shows "pending s = {#}" and "p_submit s = []" and "\<forall>ch. set_mset (p_workers s ch) \<subseteq> {Idle}"
proof -
  have ok: "pipes_ok b s" and serving: "p_submitter s = Serving" and running: "\<not> p_cancelled s"
    and nil: "\<And>j. (j, False) \<notin># p_selecting s" using st by (auto simp: steady_def)
  have all: "p_channels s = all_channels b" using pipes_ok_all [OF ok] serving by simp
  have some: "0 < workers_of b (snd ch)" if "ch \<in> p_channels s" for ch using that workers all by auto
  have started: "p_started s = {#}" using stuck selects by (metis multiset_nonemptyE)
  have buffers: "p_buffer s ch = []" if ch: "ch \<in> p_channels s" for ch
  proof (rule ccontr)
    assume "p_buffer s ch \<noteq> []"
    then obtain j js where "p_buffer s ch = j # js" by (cases "p_buffer s ch") auto
    with waiting_moves [OF st ch some [OF ch]] stuck receives show False by metis
  qed
  have "x \<notin># p_selecting s" for x
  proof
    assume x: "x \<in># p_selecting s"
    with nil obtain j where j: "x = (j, True)" by (cases x) (metis (full_types))
    with x obtain J where J: "p_selecting s = add_mset (j, True) J" by (metis insert_DiffM)
    then have ch: "job_channel j \<in> p_channels s" using pipes_ok_selected [OF ok] by simp
    with waiting_moves [OF st ch some [OF ch]] stuck hands_over [OF J buffers [OF ch]] show False by metis
  qed
  then have "p_selecting s = {#}" by (metis multiset_nonemptyE)
  with started buffers show "pending s = {#}" by (simp add: pending_def)
  show "p_submit s = []" using stuck reports serving by (metis neq_Nil_conv)
  show "\<forall>ch. set_mset (p_workers s ch) \<subseteq> {Idle}"
    using busy_worker_moves [OF _ _ _ serving] stuck pipes_ok_stopped [OF ok running] by fastforce
qed

lemma steady_moves:
  assumes "(pipe_moves b ^^ n) s t" and "steady b s"
  shows "steady b t \<and> n + steps_left t \<le> steps_left s \<and> pending t + p_ran t = pending s + p_ran s"
  using assms(1)
proof (induction n arbitrary: t)
  case 0
  with assms(2) show ?case by simp
next
  case (Suc n)
  then obtain u where u: "(pipe_moves b ^^ n) s u" "pipe_moves b u t" by auto
  with Suc.IH [OF u(1)] steady_move [OF u(2)] show ?case by fastforce
qed

lemma steady_ends:
  assumes "steady b s"
  shows "\<exists>n t. (pipe_moves b ^^ n) s t \<and> (\<forall>u. \<not> pipe_moves b t u)"
  using assms
proof (induction "steps_left s" arbitrary: s rule: less_induct)
  case less
  show ?case
  proof (cases "\<exists>t. pipe_moves b s t")
    case True
    then obtain t where t: "pipe_moves b s t" ..
    from less.hyps [OF steady_move(2) [OF t less.prems] steady_move(1) [OF t less.prems]]
    obtain n u where "(pipe_moves b ^^ n) t u" and "\<forall>v. \<not> pipe_moves b u v" by blast
    moreover have "(pipe_moves b ^^ Suc n) s u" using t \<open>(pipe_moves b ^^ n) t u\<close> by (rule relpowp_Suc_I2)
    ultimately show ?thesis by blast
  next
    case False
    moreover have "(pipe_moves b ^^ 0) s s" by simp
    ultimately show ?thesis by blast
  qed
qed

end
