(* ===== verification/Channels_Props.thy ===== *)
theory Channels_Props
  imports Channels Demo
begin

text \<open>What the goroutines and channels of the broadcaster deliver, and two ways in which they do not.\<close>

lemma early_waits:
  assumes "job_channel j \<notin> p_channels s" and "pipe_steps b (enter_select j s) t" and "\<not> p_cancelled t"
  shows "(j, False) \<in># p_selecting t"
  by (rule nil_channel_waits [OF assms(2,3)]) (simp add: enter_select_def assms(1))

text \<open>
  C8: Once the service has started, every container that was accepted is taken by exactly one worker,
  whatever the sizes of the channels and however the goroutines are scheduled: their moves come to an
  end after a bounded number, and where they end nothing waits in a goroutine or a channel, every
  container that waited before has been run once and nothing else has, and every deposit that a
  worker sent has reached the core submitter.
\<close>

theorem accepted_containers_run_once:
  assumes "steady b s" and "\<forall>c \<in> dom (repo_Clients (b_clientsRepo b)). 0 < workers_of b c"
    and "(pipe_moves b ^^ n) s t"
  shows "n \<le> steps_left s \<and> (\<exists>m u. (pipe_moves b ^^ m) t u \<and> (\<forall>v. \<not> pipe_moves b u v))
    \<and> ((\<forall>u. \<not> pipe_moves b t u) \<longrightarrow> p_ran t = p_ran s + pending s \<and> pending t = {#} \<and> p_submit t = []
      \<and> (\<forall>ch. set_mset (p_workers t ch) \<subseteq> {Idle}))"
proof -
  note end_of_run = steady_moves [OF assms(3,1)]
  have "\<exists>m u. (pipe_moves b ^^ m) t u \<and> (\<forall>v. \<not> pipe_moves b u v)" using end_of_run steady_ends by blast
  moreover have "(\<forall>u. \<not> pipe_moves b t u) \<longrightarrow> p_ran t = p_ran s + pending s \<and> pending t = {#} \<and> p_submit t = []
      \<and> (\<forall>ch. set_mset (p_workers t ch) \<subseteq> {Idle})"
    using end_of_run stuck_is_drained [of b t] assms(2) by auto
  ultimately show ?thesis using end_of_run by simp
qed

text \<open>The demo service right after its start, with one accepted container.\<close>

definition demo_work :: "unit job" where
  "demo_work = WithdrawJob ''2'' (DepositBroadcast demo_child zero_Deposit)"

definition demo_pipes :: "unit Broadcaster \<Rightarrow> unit pipes" where
  "demo_pipes b = (register b ''2'' (no_pipes\<lparr>p_started := {#demo_work#}\<rparr>))\<lparr>p_submitter := Serving\<rparr>"

lemma demo_clients: "dom (repo_Clients (b_clientsRepo demo_broadcaster)) = {''2''}"
    "workers_of demo_broadcaster ''2'' = 1"
  by (simp_all add: demo_broadcaster_def demo_repo_def repo_Clients_def workers_of_def demo_client_def)

lemma demo_room: "0 \<le> sint (b_chainTxPoolSize demo_broadcaster)"
  by (simp add: demo_broadcaster_def)

lemma demo_all_channels: "all_channels demo_broadcaster = {(Withdrawals, ''2''), (SignerUpdates, ''2'')}"
proof -
  have "(UNIV :: pool set) = {Withdrawals, SignerUpdates}" using pool.exhaust by auto
  then show ?thesis by (auto simp: demo_clients)
qed

lemma demo_steady: "steady demo_broadcaster (demo_pipes demo_broadcaster)"
proof -
  have "pipe_step demo_broadcaster no_pipes (no_pipes\<lparr>p_started := add_mset demo_work (p_started no_pipes)\<rparr>)"
    by (rule accepts)
  then have start: "pipes_ok demo_broadcaster (no_pipes\<lparr>p_started := {#demo_work#}\<rparr>)"
    using pipes_ok_step pipes_ok_none by (fastforce simp: no_pipes_def)
  have "pipe_moves demo_broadcaster (no_pipes\<lparr>p_started := {#demo_work#}\<rparr>)
      (register demo_broadcaster ''2'' (no_pipes\<lparr>p_started := {#demo_work#}\<rparr>))"
    by (rule registers) (simp_all add: demo_clients demo_room no_pipes_def)
  then have registered: "pipes_ok demo_broadcaster (register demo_broadcaster ''2'' (no_pipes\<lparr>p_started := {#demo_work#}\<rparr>))"
    using start by (rule pipes_ok_move)
  have "pipe_moves demo_broadcaster (register demo_broadcaster ''2'' (no_pipes\<lparr>p_started := {#demo_work#}\<rparr>))
      (demo_pipes demo_broadcaster)"
    unfolding demo_pipes_def by (rule serves) (simp_all add: demo_all_channels register_def no_pipes_def)
  then have "pipes_ok demo_broadcaster (demo_pipes demo_broadcaster)"
    using registered by (rule pipes_ok_move)
  then show ?thesis
    by (simp add: steady_def demo_pipes_def register_def no_pipes_def demo_work_def demo_all_channels)
qed

lemma demo_waiting: "p_ran (demo_pipes b) = {#} \<and> pending (demo_pipes demo_broadcaster) = {#demo_work#}"
  by (simp add: demo_pipes_def register_def no_pipes_def pending_def demo_clients)

theorem accepted_containers_run_once_witness:
  "\<exists>n u. (pipe_moves demo_broadcaster ^^ n) (demo_pipes demo_broadcaster) u \<and> p_ran u = {#demo_work#}
    \<and> pending u = {#} \<and> p_submit u = [] \<and> n \<le> steps_left (demo_pipes demo_broadcaster)"
proof -
  have workers: "\<forall>c \<in> dom (repo_Clients (b_clientsRepo demo_broadcaster)). 0 < workers_of demo_broadcaster c"
    by (simp add: demo_clients)
  note run = accepted_containers_run_once [OF demo_steady workers]
  have none: "(pipe_moves demo_broadcaster ^^ 0) (demo_pipes demo_broadcaster) (demo_pipes demo_broadcaster)"
    by simp
  from run [OF none] obtain n u where u: "(pipe_moves demo_broadcaster ^^ n) (demo_pipes demo_broadcaster) u"
    "\<forall>v. \<not> pipe_moves demo_broadcaster u v" by blast
  from demo_waiting run [OF u(1)] u show ?thesis by auto
qed

text \<open>
  C11: A container whose goroutine looks up its channel before \<open>Run\<close> made it is never run by this
  process: the goroutine sends to a nil channel and waits until the process is told to stop, whatever
  else happens, even after the channel is made. \<open>runService\<close> starts the API, the observer and the
  catch-upper beside \<open>Run\<close>, so nothing excludes it.
\<close>

theorem early_container_is_never_run:
  assumes "j \<in># p_started s" and "job_channel j \<notin> p_channels s"
    and "pipe_steps b (enter_select j s) t" and "\<not> p_cancelled t"
  shows "pipe_moves b s (enter_select j s) \<and> (j, False) \<in># p_selecting t"
  using selects [OF assms(1)] early_waits [OF assms(2,3,4)] ..

definition demo_early :: "unit pipes" where
  "demo_early = enter_select demo_work (no_pipes\<lparr>p_started := {#demo_work#}\<rparr>)"

lemma demo_early_starts:
  "pipe_steps demo_broadcaster demo_early ((register demo_broadcaster ''2'' demo_early)\<lparr>p_submitter := Serving\<rparr>)"
proof -
  have "pipe_moves demo_broadcaster demo_early (register demo_broadcaster ''2'' demo_early)"
    by (rule registers) (simp_all add: demo_clients demo_room demo_early_def enter_select_def no_pipes_def)
  moreover have "pipe_moves demo_broadcaster (register demo_broadcaster ''2'' demo_early)
      ((register demo_broadcaster ''2'' demo_early)\<lparr>p_submitter := Serving\<rparr>)"
    by (rule serves) (simp_all add: demo_all_channels register_def demo_early_def enter_select_def no_pipes_def)
  ultimately show ?thesis by (meson internal converse_rtranclp_into_rtranclp r_into_rtranclp)
qed

theorem early_container_is_never_run_witness:
  "(demo_work, False) \<in># p_selecting ((register demo_broadcaster ''2'' demo_early)\<lparr>p_submitter := Serving\<rparr>)"
  by (rule conjunct2 [OF early_container_is_never_run [of demo_work "no_pipes\<lparr>p_started := {#demo_work#}\<rparr>"
        demo_broadcaster, OF _ _ demo_early_starts [unfolded demo_early_def], folded demo_early_def]])
    (simp_all add: no_pipes_def register_def demo_early_def enter_select_def)

text \<open>
  C12: The send of a finished deposit to the submitter has no way out: when the process is told to stop, the
  submitter has returned and its channel is full, a worker that then finishes a container waits for
  ever, and with it \<open>Run\<close>, so that the service does not stop.
\<close>

theorem full_submit_channel_hangs:
  assumes "pipe_steps b no_pipes s" and "hangs b ch d s" and "pipe_steps b s t"
  shows "\<not> p_returned t \<and> Sending d \<in># p_workers t ch"
  using hangs_for_ever [OF assms(3,2) reachable_pipes_ok [OF assms(1)]] by (simp add: hangs_def)

text \<open>A submit channel without a buffer; the worker finishes after the submitter has stopped.\<close>

definition demo_unbuffered :: "unit Broadcaster" where
  "demo_unbuffered = demo_broadcaster\<lparr>b_submitTxPoolSize := 0\<rparr>"

definition demo_stopping :: "unit pipes" where
  "demo_stopping = \<lparr>p_cancelled = True, p_channels = {(Withdrawals, ''2''), (SignerUpdates, ''2'')},
     p_started = {#}, p_selecting = {#}, p_buffer = (\<lambda>_. []),
     p_workers = (\<lambda>_. {#})((Withdrawals, ''2'') := {#Sending None#}, (SignerUpdates, ''2'') := {#Idle#}),
     p_submitter = Ended, p_submit = [], p_returned = False, p_ran = {#demo_work#}\<rparr>"

lemma demo_unbuffered_simps [simp]:
  "b_clientsRepo demo_unbuffered = b_clientsRepo demo_broadcaster"
  "b_chainTxPoolSize demo_unbuffered = b_chainTxPoolSize demo_broadcaster"
  "workers_of demo_unbuffered ''2'' = 1"
  using demo_clients by (simp_all add: demo_unbuffered_def workers_of_def)

lemma then_moves: "pipe_steps b s t \<Longrightarrow> pipe_moves b t u \<Longrightarrow> pipe_steps b s u"
  by (meson internal rtranclp.rtrancl_into_rtrancl)

lemma demo_stopping_reached: "pipe_steps demo_unbuffered no_pipes demo_stopping"
proof -
  let ?w = "(Withdrawals, ''2'')"
  define s1 where "s1 = no_pipes\<lparr>p_started := {#demo_work#}\<rparr>"
  define s2 where "s2 = register demo_unbuffered ''2'' s1"
  define s3 where "s3 = s2\<lparr>p_submitter := Serving\<rparr>"
  define s4 where "s4 = enter_select demo_work s3"
  define s5 where "s5 = run_on ?w demo_work {#} (s4\<lparr>p_selecting := {#}\<rparr>)"
  define s6 where "s6 = s5\<lparr>p_cancelled := True\<rparr>"
  define s7 where "s7 = s6\<lparr>p_submitter := Ended\<rparr>"
  note defs = s1_def s2_def s3_def s4_def s5_def s6_def s7_def no_pipes_def register_def enter_select_def
    run_on_def set_worker_def
  have w: "job_channel demo_work = ?w" by (simp add: demo_work_def)
  have "pipe_step demo_unbuffered no_pipes (no_pipes\<lparr>p_started := add_mset demo_work (p_started no_pipes)\<rparr>)"
    by (rule accepts)
  then have r: "pipe_steps demo_unbuffered no_pipes s1" by (auto simp: s1_def no_pipes_def)
  have "pipe_moves demo_unbuffered s1 s2" unfolding s2_def
    by (rule registers) (simp_all add: demo_clients demo_room s1_def no_pipes_def)
  note r = then_moves [OF r this]
  have "pipe_moves demo_unbuffered s2 s3" unfolding s3_def
    by (rule serves) (simp_all add: demo_all_channels defs)
  note r = then_moves [OF r this]
  have "pipe_moves demo_unbuffered s3 s4" unfolding s4_def by (rule selects) (simp add: defs)
  note r = then_moves [OF r this]
  have "pipe_moves demo_unbuffered s4 (run_on (job_channel demo_work) demo_work {#} (s4\<lparr>p_selecting := {#}\<rparr>))"
    by (rule hands_over) (simp_all add: defs w)
  then have "pipe_moves demo_unbuffered s4 s5" by (simp only: s5_def w)
  note r = then_moves [OF r this]
  have "pipe_steps demo_unbuffered no_pipes s6"
    unfolding s6_def using r cancels by (rule rtranclp.rtrancl_into_rtrancl)
  then have r: "pipe_steps demo_unbuffered no_pipes s6" .
  have "pipe_moves demo_unbuffered s6 s7" unfolding s7_def
    by (rule submitter_stops) (simp_all add: defs)
  note r = then_moves [OF r this]
  have "pipe_moves demo_unbuffered s7 (set_worker ?w (Sending None) {#} s7)"
    by (rule succeeds [of _ _ demo_work]) (simp_all add: defs)
  then have "pipe_moves demo_unbuffered s7 demo_stopping"
    by (simp add: defs demo_stopping_def w fun_upd_twist)
  with r show ?thesis by (rule then_moves)
qed

theorem full_submit_channel_hangs_witness:
  "\<not> p_returned demo_stopping \<and> Sending None \<in># p_workers demo_stopping (Withdrawals, ''2'')"
  by (rule full_submit_channel_hangs [OF demo_stopping_reached])
    (simp_all add: hangs_def demo_stopping_def demo_unbuffered_def submit_room_def)

end
