(* ===== verification/Rpc.thy ===== *)
theory Rpc
  imports Api Starts
begin

text \<open>
  How a gRPC call reaches the handlers of \<open>Api\<close>: the values in a request's context
  (\<open>internal/api/ctx\<close>), the server's list of them (\<open>internal/api/server.go\<close>), the interceptors
  (\<open>internal/api/middlewares\<close>) and the generated service description, handlers and client stubs
  (\<open>internal/api/types/api_grpc.pb.go\<close>). \<open>'y\<close> is the state the handlers work on.
\<close>

subsection \<open>The context (\<open>ctx.go\<close>)\<close>

datatype ctxKey = dbKey | loggerKey | clientsRepoKey | broadcasterKey | connectorKey | configKey

text \<open>The broadcaster and the logger are pointers; what the former points to is in the state.\<close>

datatype 'x ctxValue =
    CtxDB Selector | CtxLogger | CtxClients "'x clientsRepository" | CtxBroadcaster
  | CtxConnector "'x Connector" | CtxConfig recoveryCfg

type_synonym 'x ctx = "ctxKey \<Rightarrow> 'x ctxValue option"

definition DBProvider :: "Selector \<Rightarrow> 'x ctx \<Rightarrow> 'x ctx" where
  "DBProvider q c = c(dbKey \<mapsto> CtxDB q)"
definition LoggerProvider :: "'x ctx \<Rightarrow> 'x ctx" where
  "LoggerProvider c = c(loggerKey \<mapsto> CtxLogger)"
definition ClientsProvider :: "'x clientsRepository \<Rightarrow> 'x ctx \<Rightarrow> 'x ctx" where
  "ClientsProvider r c = c(clientsRepoKey \<mapsto> CtxClients r)"
definition BroadcasterProvider :: "'x ctx \<Rightarrow> 'x ctx" where
  "BroadcasterProvider c = c(broadcasterKey \<mapsto> CtxBroadcaster)"
definition ConnectorProvider :: "'x Connector \<Rightarrow> 'x ctx \<Rightarrow> 'x ctx" where
  "ConnectorProvider k c = c(connectorKey \<mapsto> CtxConnector k)"
definition ConfigProvider :: "recoveryCfg \<Rightarrow> 'x ctx \<Rightarrow> 'x ctx" where
  "ConfigProvider cfg c = c(configKey \<mapsto> CtxConfig cfg)"

text \<open>Reading a value asserts its type, which panics when it is missing.\<close>

definition no_value :: "'a go_result" where
  "no_value = Panic ''interface conversion''"

definition ctx_DB :: "'x ctx \<Rightarrow> Selector go_result" where
  "ctx_DB c = (case c dbKey of Some (CtxDB q) \<Rightarrow> Returned NewDepositsQ | _ \<Rightarrow> no_value)"
definition ctx_Logger :: "'x ctx \<Rightarrow> unit go_result" where
  "ctx_Logger c = (case c loggerKey of Some CtxLogger \<Rightarrow> Returned () | _ \<Rightarrow> no_value)"
definition ctx_Clients :: "'x ctx \<Rightarrow> 'x clientsRepository go_result" where
  "ctx_Clients c = (case c clientsRepoKey of Some (CtxClients r) \<Rightarrow> Returned r | _ \<Rightarrow> no_value)"
definition ctx_Broadcaster :: "'x ctx \<Rightarrow> unit go_result" where
  "ctx_Broadcaster c = (case c broadcasterKey of Some CtxBroadcaster \<Rightarrow> Returned () | _ \<Rightarrow> no_value)"
definition ctx_Connector :: "'x ctx \<Rightarrow> 'x Connector go_result" where
  "ctx_Connector c = (case c connectorKey of Some (CtxConnector k) \<Rightarrow> Returned k | _ \<Rightarrow> no_value)"
definition ctx_Config :: "'x ctx \<Rightarrow> recoveryCfg go_result" where
  "ctx_Config c = (case c configKey of Some (CtxConfig cfg) \<Rightarrow> Returned cfg | _ \<Rightarrow> no_value)"

text \<open>A value is read at the head of a handler: a panic ends the handler.\<close>

definition with_value :: "'a go_result \<Rightarrow> ('a \<Rightarrow> 'y \<Rightarrow> 'b go_result \<times> 'y) \<Rightarrow> 'y \<Rightarrow> 'b go_result \<times> 'y" where
  "with_value v k y = (case v of Panic m \<Rightarrow> (Panic m, y) | Returned a \<Rightarrow> k a y)"

lemma with_value_simps [simp]:
  "with_value (Returned a) k y = k a y" "with_value (Panic m) k y = (Panic m, y)"
  by (simp_all add: with_value_def)

subsection \<open>The service\<close>

type_synonym 'a reply = "(status + 'a option) go_result"

record ('c, 'y) APIServer =
  srv_SubmitWithdrawal :: "'c \<Rightarrow> DepositIdentifier \<Rightarrow> 'y \<Rightarrow> unit reply \<times> 'y"
  srv_CheckWithdrawal :: "'c \<Rightarrow> DepositIdentifier \<Rightarrow> 'y \<Rightarrow> CheckWithdrawalResponse reply \<times> 'y"
  srv_GetWithdrawalsByStatus :: "'c \<Rightarrow> GetWithdrawalsByStatusRequest \<Rightarrow> 'y \<Rightarrow> CheckWithdrawalResponse list reply \<times> 'y"
  srv_CheckHealth :: "'c \<Rightarrow> unit \<Rightarrow> 'y \<Rightarrow> unit reply \<times> 'y"

definition UnimplementedAPIServer :: "('c, 'y) APIServer" where
  "UnimplementedAPIServer = \<lparr>
     srv_SubmitWithdrawal = (\<lambda>c i y. (Returned (Inl (Unimplemented, ''method SubmitWithdrawal not implemented'')), y)),
     srv_CheckWithdrawal = (\<lambda>c i y. (Returned (Inl (Unimplemented, ''method CheckWithdrawal not implemented'')), y)),
     srv_GetWithdrawalsByStatus =
       (\<lambda>c i y. (Returned (Inl (Unimplemented, ''method GetWithdrawalsByStatus not implemented'')), y)),
     srv_CheckHealth = (\<lambda>c i y. (Returned (Inl (Unimplemented, ''method CheckHealth not implemented'')), y))\<rparr>"

text \<open>
  \<open>grpc.Implementation\<close>: each handler first reads the values it uses. The libraries in \<open>api_ctx\<close> are
  fixed (\<open>L\<close>). The state is the shared broadcaster, the goroutines it started and the world.
\<close>

type_synonym 'x api_state = "'x Broadcaster \<times> 'x job list \<times> 'x world"

definition reply_of :: "((status + unit option) \<times> 'x job list) go_result \<Rightarrow> unit reply" where
  "reply_of r = (case r of Panic m \<Rightarrow> Panic m | Returned p \<Rightarrow> Returned (fst p))"

definition Implementation_SubmitWithdrawal ::
  "'x env \<Rightarrow> 'x api_ctx \<Rightarrow> 'x ctx \<Rightarrow> DepositIdentifier \<Rightarrow> 'x api_state \<Rightarrow> unit reply \<times> 'x api_state" where
  "Implementation_SubmitWithdrawal E L c i =
     with_value (ctx_Clients c) (\<lambda>clients. with_value (ctx_Connector c) (\<lambda>connector.
     with_value (ctx_Broadcaster c) (\<lambda>_. with_value (ctx_Logger c) (\<lambda>_. with_value (ctx_Config c) (\<lambda>cfg (b, jobs, w).
       case SubmitWithdrawal E (L\<lparr>a_clients := clients, a_connector := connector, a_config := cfg\<rparr>) b (Some i) w of
         (r, b', w') \<Rightarrow> (reply_of r, b', jobs @ request_jobs r, w'))))))"

definition Implementation_CheckWithdrawal ::
  "'x env \<Rightarrow> 'x api_ctx \<Rightarrow> 'x ctx \<Rightarrow> DepositIdentifier \<Rightarrow> 'x api_state
     \<Rightarrow> CheckWithdrawalResponse reply \<times> 'x api_state" where
  "Implementation_CheckWithdrawal E L c i =
     with_value (ctx_Logger c) (\<lambda>_. with_value (ctx_DB c) (\<lambda>_. with_value (ctx_Config c) (\<lambda>cfg (b, jobs, w).
       case CheckWithdrawal E (L\<lparr>a_config := cfg\<rparr>) (Some i) w of (r, w') \<Rightarrow> (r, b, jobs, w'))))"

definition Implementation_GetWithdrawalsByStatus ::
  "'x env \<Rightarrow> 'x api_ctx \<Rightarrow> 'x ctx \<Rightarrow> GetWithdrawalsByStatusRequest \<Rightarrow> 'x api_state
     \<Rightarrow> CheckWithdrawalResponse list reply \<times> 'x api_state" where
  "Implementation_GetWithdrawalsByStatus E L c q =
     with_value (ctx_Logger c) (\<lambda>_. with_value (ctx_DB c) (\<lambda>_ (b, jobs, w).
       case GetWithdrawalsByStatus E L q w of (r, w') \<Rightarrow> (Returned r, b, jobs, w')))"

definition Implementation :: "'x env \<Rightarrow> 'x api_ctx \<Rightarrow> ('x ctx, 'x api_state) APIServer" where
  "Implementation E L = \<lparr>srv_SubmitWithdrawal = Implementation_SubmitWithdrawal E L,
     srv_CheckWithdrawal = Implementation_CheckWithdrawal E L,
     srv_GetWithdrawalsByStatus = Implementation_GetWithdrawalsByStatus E L,
     srv_CheckHealth = (\<lambda>c e y. (Returned CheckHealth, y))\<rparr>"

subsection \<open>The server (\<open>server.go\<close>)\<close>

text \<open>The listeners of \<open>Server\<close> are not modelled.\<close>

record 'x Server =
  sr_ctxExtenders :: "('x ctx \<Rightarrow> 'x ctx) list"

definition NewServer :: "recoveryCfg \<Rightarrow> Selector \<Rightarrow> 'x Connector \<Rightarrow> 'x clientsRepository \<Rightarrow> 'x Server" where
  "NewServer cfg dbq connector clientsRepo = \<lparr>sr_ctxExtenders = [LoggerProvider, DBProvider dbq,
     ConnectorProvider connector, BroadcasterProvider, ClientsProvider clientsRepo, ConfigProvider cfg]\<rparr>"

subsection \<open>Interceptors (\<open>grpc_interceptors.go\<close>)\<close>

datatype api_request =
    IdentifierReq DepositIdentifier | StatusReq GetWithdrawalsByStatusRequest | EmptyReq

datatype api_response =
    EmptyResp | CheckResp CheckWithdrawalResponse | ListResp "CheckWithdrawalResponse list"

type_synonym ('c, 'y) unary_handler = "'c \<Rightarrow> api_request \<Rightarrow> 'y \<Rightarrow> api_response reply \<times> 'y"

type_synonym ('c, 'y) interceptor =
  "'c \<Rightarrow> api_request \<Rightarrow> string \<Rightarrow> ('c, 'y) unary_handler \<Rightarrow> 'y \<Rightarrow> api_response reply \<times> 'y"

fun extend_ctx :: "('c \<Rightarrow> 'c) list \<Rightarrow> 'c \<Rightarrow> 'c" where
  "extend_ctx [] c = c"
| "extend_ctx (e # es) c = extend_ctx es (e c)"

definition ContextExtenderInterceptor :: "('c \<Rightarrow> 'c) list \<Rightarrow> ('c, 'y) interceptor" where
  "ContextExtenderInterceptor extenders c req info handler y = handler (extend_ctx extenders c) req y"

text \<open>Logging has no state.\<close>

definition LoggerInterceptor :: "('c, 'y) interceptor" where
  "LoggerInterceptor c req info handler y = (case handler c req y of (res, y') \<Rightarrow> (res, y'))"

definition RecoveryUnaryInterceptor :: "('c, 'y) interceptor" where
  "RecoveryUnaryInterceptor c req info handler y =
     (case handler c req y of (res, y') \<Rightarrow> (Returned (RecoveryInterceptor res), y'))"

text \<open>\<open>grpc.ChainUnaryInterceptor\<close> with what it documents: the first interceptor is the outermost.\<close>

definition chain_contract :: "(('c, 'y) interceptor list \<Rightarrow> ('c, 'y) interceptor) \<Rightarrow> bool" where
  "chain_contract chain \<longleftrightarrow> (\<forall>i c req info h. chain [i] c req info h = i c req info h)
     \<and> (\<forall>i j is c req info h. chain (i # j # is) c req info h = i c req info (\<lambda>c' req'. chain (j # is) c' req' info h))"

definition grpcServer :: "(('x ctx, 'y) interceptor list \<Rightarrow> ('x ctx, 'y) interceptor) \<Rightarrow> 'x Server \<Rightarrow> ('x ctx, 'y) interceptor" where
  "grpcServer chain s =
     chain [ContextExtenderInterceptor (sr_ctxExtenders s), LoggerInterceptor, RecoveryUnaryInterceptor]"

subsection \<open>The generated service description (\<open>api_grpc.pb.go\<close>)\<close>

definition API_SubmitWithdrawal_FullMethodName :: string where
  "API_SubmitWithdrawal_FullMethodName = ''/api.API/SubmitWithdrawal''"
definition API_CheckWithdrawal_FullMethodName :: string where
  "API_CheckWithdrawal_FullMethodName = ''/api.API/CheckWithdrawal''"
definition API_GetWithdrawalsByStatus_FullMethodName :: string where
  "API_GetWithdrawalsByStatus_FullMethodName = ''/api.API/GetWithdrawalsByStatus''"
definition API_CheckHealth_FullMethodName :: string where
  "API_CheckHealth_FullMethodName = ''/api.API/CheckHealth''"

text \<open>The result of a method as the \<open>interface{}\<close> of a handler.\<close>

definition as_response :: "('a \<Rightarrow> api_response) \<Rightarrow> 'a reply \<times> 'y \<Rightarrow> api_response reply \<times> 'y" where
  "as_response f r = (case r of (Panic m, y) \<Rightarrow> (Panic m, y)
     | (Returned (Inl st), y) \<Rightarrow> (Returned (Inl st), y)
     | (Returned (Inr m), y) \<Rightarrow> (Returned (Inr (map_option f m)), y))"

definition API_SubmitWithdrawal_Handler ::
  "('c, 'y) APIServer \<Rightarrow> 'c \<Rightarrow> status + DepositIdentifier \<Rightarrow> ('c, 'y) interceptor option \<Rightarrow> 'y \<Rightarrow> api_response reply \<times> 'y" where
  "API_SubmitWithdrawal_Handler srv c dec interceptor y = (case dec of
     Inl err \<Rightarrow> (Returned (Inl err), y)
   | Inr i \<Rightarrow> (case interceptor of
       None \<Rightarrow> as_response (\<lambda>_. EmptyResp) (srv_SubmitWithdrawal srv c i y)
     | Some icpt \<Rightarrow> icpt c (IdentifierReq i) API_SubmitWithdrawal_FullMethodName (\<lambda>c' req y'. case req of
         IdentifierReq i' \<Rightarrow> as_response (\<lambda>_. EmptyResp) (srv_SubmitWithdrawal srv c' i' y') | _ \<Rightarrow> (no_value, y')) y))"

definition API_CheckWithdrawal_Handler ::
  "('c, 'y) APIServer \<Rightarrow> 'c \<Rightarrow> status + DepositIdentifier \<Rightarrow> ('c, 'y) interceptor option \<Rightarrow> 'y \<Rightarrow> api_response reply \<times> 'y" where
  "API_CheckWithdrawal_Handler srv c dec interceptor y = (case dec of
     Inl err \<Rightarrow> (Returned (Inl err), y)
   | Inr i \<Rightarrow> (case interceptor of
       None \<Rightarrow> as_response CheckResp (srv_CheckWithdrawal srv c i y)
     | Some icpt \<Rightarrow> icpt c (IdentifierReq i) API_CheckWithdrawal_FullMethodName (\<lambda>c' req y'. case req of
         IdentifierReq i' \<Rightarrow> as_response CheckResp (srv_CheckWithdrawal srv c' i' y') | _ \<Rightarrow> (no_value, y')) y))"

definition API_GetWithdrawalsByStatus_Handler ::
  "('c, 'y) APIServer \<Rightarrow> 'c \<Rightarrow> status + GetWithdrawalsByStatusRequest \<Rightarrow> ('c, 'y) interceptor option \<Rightarrow> 'y
     \<Rightarrow> api_response reply \<times> 'y" where
  "API_GetWithdrawalsByStatus_Handler srv c dec interceptor y = (case dec of
     Inl err \<Rightarrow> (Returned (Inl err), y)
   | Inr q \<Rightarrow> (case interceptor of
       None \<Rightarrow> as_response ListResp (srv_GetWithdrawalsByStatus srv c q y)
     | Some icpt \<Rightarrow> icpt c (StatusReq q) API_GetWithdrawalsByStatus_FullMethodName (\<lambda>c' req y'. case req of
         StatusReq q' \<Rightarrow> as_response ListResp (srv_GetWithdrawalsByStatus srv c' q' y') | _ \<Rightarrow> (no_value, y')) y))"

definition API_CheckHealth_Handler ::
  "('c, 'y) APIServer \<Rightarrow> 'c \<Rightarrow> status + unit \<Rightarrow> ('c, 'y) interceptor option \<Rightarrow> 'y \<Rightarrow> api_response reply \<times> 'y" where
  "API_CheckHealth_Handler srv c dec interceptor y = (case dec of
     Inl err \<Rightarrow> (Returned (Inl err), y)
   | Inr _ \<Rightarrow> (case interceptor of
       None \<Rightarrow> as_response (\<lambda>_. EmptyResp) (srv_CheckHealth srv c () y)
     | Some icpt \<Rightarrow> icpt c EmptyReq API_CheckHealth_FullMethodName (\<lambda>c' req y'. case req of
         EmptyReq \<Rightarrow> as_response (\<lambda>_. EmptyResp) (srv_CheckHealth srv c' () y') | _ \<Rightarrow> (no_value, y')) y))"

text \<open>
  \<open>API_ServiceDesc\<close>: the handlers by method name, as functions of the bytes that came in. \<open>dec\<close> decodes
  a message of the type the handler asks for.
\<close>

record request_decoder =
  dec_DepositIdentifier :: "bytes \<Rightarrow> status + DepositIdentifier"
  dec_GetWithdrawalsByStatusRequest :: "bytes \<Rightarrow> status + GetWithdrawalsByStatusRequest"
  dec_Empty :: "bytes \<Rightarrow> status + unit"

definition API_ServiceDesc ::
  "request_decoder \<Rightarrow> (string \<times> (('c, 'y) APIServer \<Rightarrow> 'c \<Rightarrow> bytes \<Rightarrow> ('c, 'y) interceptor option \<Rightarrow> 'y
     \<Rightarrow> api_response reply \<times> 'y)) list" where
  "API_ServiceDesc D = [
     (''SubmitWithdrawal'', \<lambda>srv c bs. API_SubmitWithdrawal_Handler srv c (dec_DepositIdentifier D bs)),
     (''CheckWithdrawal'', \<lambda>srv c bs. API_CheckWithdrawal_Handler srv c (dec_DepositIdentifier D bs)),
     (''GetWithdrawalsByStatus'',
       \<lambda>srv c bs. API_GetWithdrawalsByStatus_Handler srv c (dec_GetWithdrawalsByStatusRequest D bs)),
     (''CheckHealth'', \<lambda>srv c bs. API_CheckHealth_Handler srv c (dec_Empty D bs))]"

text \<open>
  The client stubs. \<open>Invoke\<close> decodes the answer into the message it is given, here one function per
  type of answer.
\<close>

record ('c, 'y) ClientConn =
  cc_Invoke_Empty :: "'c \<Rightarrow> string \<Rightarrow> api_request \<Rightarrow> 'y \<Rightarrow> (status + unit) \<times> 'y"
  cc_Invoke_Check :: "'c \<Rightarrow> string \<Rightarrow> api_request \<Rightarrow> 'y \<Rightarrow> (status + CheckWithdrawalResponse) \<times> 'y"
  cc_Invoke_List :: "'c \<Rightarrow> string \<Rightarrow> api_request \<Rightarrow> 'y \<Rightarrow> (status + CheckWithdrawalResponse list) \<times> 'y"

definition stub_reply :: "(status + 'a) \<times> 'y \<Rightarrow> 'a reply \<times> 'y" where
  "stub_reply r = (case r of (Inl err, y) \<Rightarrow> (Returned (Inl err), y) | (Inr m, y) \<Rightarrow> (Returned (Inr (Some m)), y))"

definition APIClient_SubmitWithdrawal ::
  "('c, 'y) ClientConn \<Rightarrow> 'c \<Rightarrow> DepositIdentifier \<Rightarrow> 'y \<Rightarrow> unit reply \<times> 'y" where
  "APIClient_SubmitWithdrawal cc c i y =
     stub_reply (cc_Invoke_Empty cc c API_SubmitWithdrawal_FullMethodName (IdentifierReq i) y)"

definition APIClient_CheckWithdrawal ::
  "('c, 'y) ClientConn \<Rightarrow> 'c \<Rightarrow> DepositIdentifier \<Rightarrow> 'y \<Rightarrow> CheckWithdrawalResponse reply \<times> 'y" where
  "APIClient_CheckWithdrawal cc c i y =
     stub_reply (cc_Invoke_Check cc c API_CheckWithdrawal_FullMethodName (IdentifierReq i) y)"

definition APIClient_GetWithdrawalsByStatus ::
  "('c, 'y) ClientConn \<Rightarrow> 'c \<Rightarrow> GetWithdrawalsByStatusRequest \<Rightarrow> 'y \<Rightarrow> CheckWithdrawalResponse list reply \<times> 'y" where
  "APIClient_GetWithdrawalsByStatus cc c q y =
     stub_reply (cc_Invoke_List cc c API_GetWithdrawalsByStatus_FullMethodName (StatusReq q) y)"

definition APIClient_CheckHealth :: "('c, 'y) ClientConn \<Rightarrow> 'c \<Rightarrow> unit \<Rightarrow> 'y \<Rightarrow> unit reply \<times> 'y" where
  "APIClient_CheckHealth cc c e y = stub_reply (cc_Invoke_Empty cc c API_CheckHealth_FullMethodName EmptyReq y)"

definition NewAPIClient :: "('c, 'y) ClientConn \<Rightarrow> ('c, 'y) APIServer" where
  "NewAPIClient cc = \<lparr>srv_SubmitWithdrawal = APIClient_SubmitWithdrawal cc,
     srv_CheckWithdrawal = APIClient_CheckWithdrawal cc,
     srv_GetWithdrawalsByStatus = APIClient_GetWithdrawalsByStatus cc,
     srv_CheckHealth = APIClient_CheckHealth cc\<rparr>"

end
