(* ===== verification/Gateway.thy ===== *)
theory Gateway
  imports Rpc
begin

text \<open>
  The generated HTTP gateway \<open>internal/api/types/api.pb.gw.go\<close>: for each route the decoding of the
  request and the call, on the server in this process (\<open>local_request_...\<close>) or over a connection
  (\<open>request_...\<close>). The grpc-gateway library is a parameter. \<open>'c\<close> is the type of contexts.
\<close>

subsection \<open>The library\<close>

record http_request =
  hr_Method :: string
  hr_Path :: string
  hr_Query :: string
  hr_Body :: "string option"

type_synonym path_params = "string \<Rightarrow> string option"

text \<open>\<open>runtime.NewPattern\<close>: the version, the operations on the segments of a path, and the strings they use.\<close>

record pattern =
  pt_version :: nat
  pt_ops :: "nat list"
  pt_pool :: "string list"

record double_array =
  da_Encoding :: "(string \<times> nat) list"
  da_Base :: "nat list"
  da_Check :: "nat list"

text \<open>
  \<open>gw_Decode\<close> is the message that a marshaler's decoder leaves and its error, \<open>gw_IsEOF\<close> is
  \<open>errors.Is(err, io.EOF)\<close>. \<open>gw_Populate\<close> fills a message with the form of a request.
\<close>

record 'c gateway_lib =
  gw_Decode :: "string option \<Rightarrow> DepositIdentifier \<times> go_error option"
  gw_IsEOF :: "go_error \<Rightarrow> bool"
  gw_String :: "string \<Rightarrow> go_error + string"
  gw_Int64 :: "string \<Rightarrow> go_error + int64"
  gw_Enum :: "string \<Rightarrow> (string \<Rightarrow> int option) \<Rightarrow> go_error + int"
  gw_ParseForm :: "http_request \<Rightarrow> go_error option"
  gw_Populate :: "http_request \<Rightarrow> double_array \<Rightarrow> GetWithdrawalsByStatusRequest \<Rightarrow> go_error option \<times> GetWithdrawalsByStatusRequest"
  gw_AnnotateIncomingContext :: "'c \<Rightarrow> http_request \<Rightarrow> string \<Rightarrow> string \<Rightarrow> status + 'c"
  gw_AnnotateContext :: "'c \<Rightarrow> http_request \<Rightarrow> string \<Rightarrow> string \<Rightarrow> status + 'c"

subsection \<open>The requests\<close>

definition missing_parameter :: "string \<Rightarrow> status" where
  "missing_parameter name = (InvalidArgument, ''missing parameter '' @ name)"

definition type_mismatch :: "string \<Rightarrow> go_error \<Rightarrow> status" where
  "type_mismatch name err = (InvalidArgument, ''type mismatch, parameter: '' @ name @ '', error: '' @ error_text err)"

definition path_param :: "path_params \<Rightarrow> string \<Rightarrow> (string \<Rightarrow> go_error + 'a) \<Rightarrow> status + 'a" where
  "path_param params name conv = (case params name of
     None \<Rightarrow> Inl (missing_parameter name)
   | Some val \<Rightarrow> (case conv val of Inl err \<Rightarrow> Inl (type_mismatch name err) | Inr a \<Rightarrow> Inr a))"

definition bad_request :: "status \<Rightarrow> 'y \<Rightarrow> 'a reply \<times> 'y" where
  "bad_request st y = (Returned (Inl st), y)"

definition body_message :: "'c gateway_lib \<Rightarrow> http_request \<Rightarrow> status + DepositIdentifier" where
  "body_message G req = (case gw_Decode G (hr_Body req) of
     (protoReq, Some err) \<Rightarrow> if gw_IsEOF G err then Inr protoReq else Inl (InvalidArgument, error_text err)
   | (protoReq, None) \<Rightarrow> Inr protoReq)"

definition identifier_params :: "'c gateway_lib \<Rightarrow> path_params \<Rightarrow> status + DepositIdentifier" where
  "identifier_params G params = (case path_param params ''chain_id'' (gw_String G) of
     Inl st \<Rightarrow> Inl st
   | Inr chainId \<Rightarrow> (case path_param params ''tx_hash'' (gw_String G) of
       Inl st \<Rightarrow> Inl st
     | Inr txHash \<Rightarrow> (case path_param params ''tx_nonce'' (gw_Int64 G) of
         Inl st \<Rightarrow> Inl st
       | Inr txNonce \<Rightarrow> Inr \<lparr>TxHash = txHash, TxNonce = txNonce, ChainId = chainId\<rparr>)))"

definition filter_API_GetWithdrawalsByStatus_0 :: double_array where
  "filter_API_GetWithdrawalsByStatus_0 =
     \<lparr>da_Encoding = [(''withdrawal_status'', 0)], da_Base = [1, 1, 0], da_Check = [0, 1, 2]\<rparr>"

definition status_params ::
  "'c gateway_lib \<Rightarrow> http_request \<Rightarrow> path_params \<Rightarrow> status + GetWithdrawalsByStatusRequest" where
  "status_params G req params =
   (case path_param params ''withdrawal_status'' (\<lambda>val. gw_Enum G val WithdrawalStatus_value) of
      Inl st \<Rightarrow> Inl st
    | Inr e \<Rightarrow> (case gw_ParseForm G req of
        Some err \<Rightarrow> Inl (InvalidArgument, error_text err)
      | None \<Rightarrow> (case gw_Populate G req filter_API_GetWithdrawalsByStatus_0
            \<lparr>gw_WithdrawalStatus = word_of_int e, gw_Page = 0, gw_Limit = 0\<rparr> of
          (Some err, protoReq) \<Rightarrow> Inl (InvalidArgument, error_text err)
        | (None, protoReq) \<Rightarrow> Inr protoReq)))"

text \<open>
  The functions \<open>request_...\<close> call the stubs of a connection, \<open>local_request_...\<close> the server. The rest
  of the body, which the former read and drop, is not modelled.
\<close>

definition local_request_API_SubmitWithdrawal_0 ::
  "'c gateway_lib \<Rightarrow> 'c \<Rightarrow> ('c, 'y) APIServer \<Rightarrow> http_request \<Rightarrow> path_params \<Rightarrow> 'y \<Rightarrow> unit reply \<times> 'y" where
  "local_request_API_SubmitWithdrawal_0 G c server req params y = (case body_message G req of
     Inl st \<Rightarrow> bad_request st y | Inr i \<Rightarrow> srv_SubmitWithdrawal server c i y)"

definition request_API_SubmitWithdrawal_0 ::
  "'c gateway_lib \<Rightarrow> 'c \<Rightarrow> ('c, 'y) APIServer \<Rightarrow> http_request \<Rightarrow> path_params \<Rightarrow> 'y \<Rightarrow> unit reply \<times> 'y" where
  "request_API_SubmitWithdrawal_0 G c client req params y = (case body_message G req of
     Inl st \<Rightarrow> bad_request st y | Inr i \<Rightarrow> srv_SubmitWithdrawal client c i y)"

definition local_request_API_CheckWithdrawal_0 ::
  "'c gateway_lib \<Rightarrow> 'c \<Rightarrow> ('c, 'y) APIServer \<Rightarrow> http_request \<Rightarrow> path_params \<Rightarrow> 'y \<Rightarrow> CheckWithdrawalResponse reply \<times> 'y" where
  "local_request_API_CheckWithdrawal_0 G c server req params y = (case identifier_params G params of
     Inl st \<Rightarrow> bad_request st y | Inr i \<Rightarrow> srv_CheckWithdrawal server c i y)"

definition request_API_CheckWithdrawal_0 ::
  "'c gateway_lib \<Rightarrow> 'c \<Rightarrow> ('c, 'y) APIServer \<Rightarrow> http_request \<Rightarrow> path_params \<Rightarrow> 'y \<Rightarrow> CheckWithdrawalResponse reply \<times> 'y" where
  "request_API_CheckWithdrawal_0 G c client req params y = (case identifier_params G params of
     Inl st \<Rightarrow> bad_request st y | Inr i \<Rightarrow> srv_CheckWithdrawal client c i y)"

definition local_request_API_GetWithdrawalsByStatus_0 ::
  "'c gateway_lib \<Rightarrow> 'c \<Rightarrow> ('c, 'y) APIServer \<Rightarrow> http_request \<Rightarrow> path_params \<Rightarrow> 'y \<Rightarrow> CheckWithdrawalResponse list reply \<times> 'y" where
  "local_request_API_GetWithdrawalsByStatus_0 G c server req params y = (case status_params G req params of
     Inl st \<Rightarrow> bad_request st y | Inr q \<Rightarrow> srv_GetWithdrawalsByStatus server c q y)"

definition request_API_GetWithdrawalsByStatus_0 ::
  "'c gateway_lib \<Rightarrow> 'c \<Rightarrow> ('c, 'y) APIServer \<Rightarrow> http_request \<Rightarrow> path_params \<Rightarrow> 'y \<Rightarrow> CheckWithdrawalResponse list reply \<times> 'y" where
  "request_API_GetWithdrawalsByStatus_0 G c client req params y = (case status_params G req params of
     Inl st \<Rightarrow> bad_request st y | Inr q \<Rightarrow> srv_GetWithdrawalsByStatus client c q y)"

definition local_request_API_CheckHealth_0 ::
  "'c gateway_lib \<Rightarrow> 'c \<Rightarrow> ('c, 'y) APIServer \<Rightarrow> http_request \<Rightarrow> path_params \<Rightarrow> 'y \<Rightarrow> unit reply \<times> 'y" where
  "local_request_API_CheckHealth_0 G c server req params y = srv_CheckHealth server c () y"

definition request_API_CheckHealth_0 ::
  "'c gateway_lib \<Rightarrow> 'c \<Rightarrow> ('c, 'y) APIServer \<Rightarrow> http_request \<Rightarrow> path_params \<Rightarrow> 'y \<Rightarrow> unit reply \<times> 'y" where
  "request_API_CheckHealth_0 G c client req params y = srv_CheckHealth client c () y"

subsection \<open>The routes\<close>

text \<open>What is written to the client: an error or the message of the reply. A panic leaves the handler.\<close>

datatype http_reply = HTTPError status | ForwardResponseMessage "api_response option"

definition http_answer :: "api_response reply \<times> 'y \<Rightarrow> http_reply go_result \<times> 'y" where
  "http_answer r = (case r of (Panic m, y) \<Rightarrow> (Panic m, y)
     | (Returned (Inl st), y) \<Rightarrow> (Returned (HTTPError st), y)
     | (Returned (Inr resp), y) \<Rightarrow> (Returned (ForwardResponseMessage resp), y))"

definition annotated :: "status + 'c \<Rightarrow> ('c \<Rightarrow> 'y \<Rightarrow> api_response reply \<times> 'y) \<Rightarrow> 'y \<Rightarrow> http_reply go_result \<times> 'y" where
  "annotated a call y = (case a of Inl err \<Rightarrow> (Returned (HTTPError err), y) | Inr c \<Rightarrow> http_answer (call c y))"

definition pattern_API_SubmitWithdrawal_0 :: pattern where
  "pattern_API_SubmitWithdrawal_0 = \<lparr>pt_version = 1, pt_ops = [2, 0], pt_pool = [''submit'']\<rparr>"
definition pattern_API_CheckWithdrawal_0 :: pattern where
  "pattern_API_CheckWithdrawal_0 = \<lparr>pt_version = 1,
     pt_ops = [2, 0, 1, 0, 4, 1, 5, 1, 1, 0, 4, 1, 5, 2, 1, 0, 4, 1, 5, 3],
     pt_pool = [''check'', ''chain_id'', ''tx_hash'', ''tx_nonce'']\<rparr>"
definition pattern_API_GetWithdrawalsByStatus_0 :: pattern where
  "pattern_API_GetWithdrawalsByStatus_0 = \<lparr>pt_version = 1, pt_ops = [2, 0, 2, 1, 2, 2, 1, 0, 4, 1, 5, 3],
     pt_pool = [''get'', ''deposits'', ''status'', ''withdrawal_status'']\<rparr>"
definition pattern_API_CheckHealth_0 :: pattern where
  "pattern_API_CheckHealth_0 = \<lparr>pt_version = 1, pt_ops = [2, 0], pt_pool = [''health'']\<rparr>"

text \<open>A registered route: method, pattern and handler, in the order of \<open>mux.Handle\<close>.\<close>

record ('c, 'y) route =
  rt_Method :: string
  rt_Pattern :: pattern
  rt_Handler :: "'c \<Rightarrow> http_request \<Rightarrow> path_params \<Rightarrow> 'y \<Rightarrow> http_reply go_result \<times> 'y"

definition RegisterAPIHandlerServer :: "'c gateway_lib \<Rightarrow> ('c, 'y) APIServer \<Rightarrow> ('c, 'y) route list" where
  "RegisterAPIHandlerServer G server = [
     \<lparr>rt_Method = ''POST'', rt_Pattern = pattern_API_SubmitWithdrawal_0, rt_Handler = \<lambda>c req params.
        annotated (gw_AnnotateIncomingContext G c req ''/api.API/SubmitWithdrawal'' ''/submit'')
          (\<lambda>c' y. as_response (\<lambda>_. EmptyResp) (local_request_API_SubmitWithdrawal_0 G c' server req params y))\<rparr>,
     \<lparr>rt_Method = ''GET'', rt_Pattern = pattern_API_CheckWithdrawal_0, rt_Handler = \<lambda>c req params.
        annotated (gw_AnnotateIncomingContext G c req ''/api.API/CheckWithdrawal'' ''/check/{chain_id}/{tx_hash}/{tx_nonce}'')
          (\<lambda>c' y. as_response CheckResp (local_request_API_CheckWithdrawal_0 G c' server req params y))\<rparr>,
     \<lparr>rt_Method = ''GET'', rt_Pattern = pattern_API_GetWithdrawalsByStatus_0, rt_Handler = \<lambda>c req params.
        annotated (gw_AnnotateIncomingContext G c req ''/api.API/GetWithdrawalsByStatus'' ''/get/deposits/status/{withdrawal_status}'')
          (\<lambda>c' y. as_response ListResp (local_request_API_GetWithdrawalsByStatus_0 G c' server req params y))\<rparr>,
     \<lparr>rt_Method = ''GET'', rt_Pattern = pattern_API_CheckHealth_0, rt_Handler = \<lambda>c req params.
        annotated (gw_AnnotateIncomingContext G c req ''/api.API/CheckHealth'' ''/health'')
          (\<lambda>c' y. as_response (\<lambda>_. EmptyResp) (local_request_API_CheckHealth_0 G c' server req params y))\<rparr>]"

definition RegisterAPIHandlerClient :: "'c gateway_lib \<Rightarrow> ('c, 'y) APIServer \<Rightarrow> ('c, 'y) route list" where
  "RegisterAPIHandlerClient G client = [
     \<lparr>rt_Method = ''POST'', rt_Pattern = pattern_API_SubmitWithdrawal_0, rt_Handler = \<lambda>c req params.
        annotated (gw_AnnotateContext G c req ''/api.API/SubmitWithdrawal'' ''/submit'')
          (\<lambda>c' y. as_response (\<lambda>_. EmptyResp) (request_API_SubmitWithdrawal_0 G c' client req params y))\<rparr>,
     \<lparr>rt_Method = ''GET'', rt_Pattern = pattern_API_CheckWithdrawal_0, rt_Handler = \<lambda>c req params.
        annotated (gw_AnnotateContext G c req ''/api.API/CheckWithdrawal'' ''/check/{chain_id}/{tx_hash}/{tx_nonce}'')
          (\<lambda>c' y. as_response CheckResp (request_API_CheckWithdrawal_0 G c' client req params y))\<rparr>,
     \<lparr>rt_Method = ''GET'', rt_Pattern = pattern_API_GetWithdrawalsByStatus_0, rt_Handler = \<lambda>c req params.
        annotated (gw_AnnotateContext G c req ''/api.API/GetWithdrawalsByStatus'' ''/get/deposits/status/{withdrawal_status}'')
          (\<lambda>c' y. as_response ListResp (request_API_GetWithdrawalsByStatus_0 G c' client req params y))\<rparr>,
     \<lparr>rt_Method = ''GET'', rt_Pattern = pattern_API_CheckHealth_0, rt_Handler = \<lambda>c req params.
        annotated (gw_AnnotateContext G c req ''/api.API/CheckHealth'' ''/health'')
          (\<lambda>c' y. as_response (\<lambda>_. EmptyResp) (request_API_CheckHealth_0 G c' client req params y))\<rparr>]"

definition RegisterAPIHandler :: "'c gateway_lib \<Rightarrow> ('c, 'y) ClientConn \<Rightarrow> ('c, 'y) route list" where
  "RegisterAPIHandler G conn = RegisterAPIHandlerClient G (NewAPIClient conn)"

text \<open>
  \<open>httpRouter\<close> of \<open>server.go\<close>: a request's context is extended as for a gRPC call before the gateway sees
  it. The recovering middleware, the router's search for the route and the static files are the
  libraries'.
\<close>

definition httpRouter :: "'x ctx gateway_lib \<Rightarrow> 'x env \<Rightarrow> 'x api_ctx \<Rightarrow> 'x Server \<Rightarrow> ('x ctx, 'x api_state) route list" where
  "httpRouter G E L s = map (\<lambda>r. r\<lparr>rt_Handler := \<lambda>c. rt_Handler r (extend_ctx (sr_ctxExtenders s) c)\<rparr>)
     (RegisterAPIHandlerServer G (Implementation E L))"

end
