(* ===== verification/Gateway_Props.thy ===== *)
theory Gateway_Props
  imports Gateway Demo
begin

text \<open>
  The two ways into the API, over gRPC and over HTTP, lead to the same handlers with the same values in
  their context.
\<close>

subsection \<open>The calls of the API\<close>

datatype api_call =
    CallSubmit DepositIdentifier | CallCheck DepositIdentifier
  | CallList GetWithdrawalsByStatusRequest | CallHealth

text \<open>What the handlers of \<open>Api\<close> answer; no context is involved.\<close>

fun api_answer :: "'x env \<Rightarrow> 'x api_ctx \<Rightarrow> api_call \<Rightarrow> 'x api_state \<Rightarrow> api_response reply \<times> 'x api_state" where
  "api_answer E L (CallSubmit i) (b, jobs, w) = (case SubmitWithdrawal E L b (Some i) w of
     (r, b', w') \<Rightarrow> as_response (\<lambda>_. EmptyResp) (reply_of r, b', jobs @ request_jobs r, w'))"
| "api_answer E L (CallCheck i) (b, jobs, w) = (case CheckWithdrawal E L (Some i) w of
     (r, w') \<Rightarrow> as_response CheckResp (r, b, jobs, w'))"
| "api_answer E L (CallList q) (b, jobs, w) = (case GetWithdrawalsByStatus E L q w of
     (r, w') \<Rightarrow> as_response ListResp (Returned r, b, jobs, w'))"
| "api_answer E L CallHealth y = (Returned (Inr (Some EmptyResp)), y)"

text \<open>A gRPC call whose message was decoded, behind the server's interceptors.\<close>

fun grpc_reply :: "('c, 'y) interceptor \<Rightarrow> ('c, 'y) APIServer \<Rightarrow> 'c \<Rightarrow> api_call \<Rightarrow> 'y \<Rightarrow> api_response reply \<times> 'y" where
  "grpc_reply icpt srv c (CallSubmit i) y = API_SubmitWithdrawal_Handler srv c (Inr i) (Some icpt) y"
| "grpc_reply icpt srv c (CallCheck i) y = API_CheckWithdrawal_Handler srv c (Inr i) (Some icpt) y"
| "grpc_reply icpt srv c (CallList q) y = API_GetWithdrawalsByStatus_Handler srv c (Inr q) (Some icpt) y"
| "grpc_reply icpt srv c CallHealth y = API_CheckHealth_Handler srv c (Inr ()) (Some icpt) y"

text \<open>The route of a call, and the HTTP requests that mean it.\<close>

fun call_route :: "api_call \<Rightarrow> nat" where
  "call_route (CallSubmit i) = 0"
| "call_route (CallCheck i) = 1"
| "call_route (CallList q) = 2"
| "call_route CallHealth = 3"

fun means :: "'c gateway_lib \<Rightarrow> http_request \<Rightarrow> path_params \<Rightarrow> api_call \<Rightarrow> bool" where
  "means G req params (CallSubmit i) = (\<exists>err. gw_Decode G (hr_Body req) = (i, err) \<and> (\<forall>e. err = Some e \<longrightarrow> gw_IsEOF G e))"
| "means G req params (CallCheck i) = (params ''chain_id'' = Some (ChainId i) \<and> params ''tx_hash'' = Some (TxHash i)
     \<and> (\<exists>n. params ''tx_nonce'' = Some n \<and> gw_Int64 G n = Inr (TxNonce i)))"
| "means G req params (CallList q) = (\<exists>v e. params ''withdrawal_status'' = Some v \<and> gw_Enum G v WithdrawalStatus_value = Inr e
     \<and> gw_ParseForm G req = None
     \<and> gw_Populate G req filter_API_GetWithdrawalsByStatus_0 \<lparr>gw_WithdrawalStatus = word_of_int e, gw_Page = 0, gw_Limit = 0\<rparr>
         = (None, q))"
| "means G req params CallHealth = True"

definition http_reply_on ::
  "('x ctx, 'x api_state) route list \<Rightarrow> 'x ctx \<Rightarrow> api_call \<Rightarrow> http_request \<Rightarrow> path_params \<Rightarrow> 'x api_state
     \<Rightarrow> http_reply go_result \<times> 'x api_state" where
  "http_reply_on routes c call req params y = rt_Handler (routes ! call_route call) c req params y"

text \<open>
  \<open>runtime.String\<close> returns its argument; annotating a context adds values under keys of the library only,
  or fails.
\<close>

definition gateway_contract :: "'c gateway_lib \<Rightarrow> bool" where
  "gateway_contract G \<longleftrightarrow> (\<forall>v. gw_String G v = Inr v)
     \<and> (\<forall>c req m p c'. gw_AnnotateIncomingContext G c req m p = Inr c' \<longrightarrow> c' = c)"

definition annotates :: "'c gateway_lib \<Rightarrow> 'c \<Rightarrow> http_request \<Rightarrow> bool" where
  "annotates G c req \<longleftrightarrow> (\<forall>m p. \<exists>c'. gw_AnnotateIncomingContext G c req m p = Inr c')"

subsection \<open>Contexts\<close>

text \<open>The values a request finds after the extenders of the server.\<close>

abbreviation served_ctx :: "recoveryCfg \<Rightarrow> Selector \<Rightarrow> 'x Connector \<Rightarrow> 'x clientsRepository \<Rightarrow> 'x ctx \<Rightarrow> 'x ctx" where
  "served_ctx cfg q k r c \<equiv> extend_ctx (sr_ctxExtenders (NewServer cfg q k r)) c"

abbreviation served_api :: "recoveryCfg \<Rightarrow> 'x Connector \<Rightarrow> 'x clientsRepository \<Rightarrow> 'x api_ctx \<Rightarrow> 'x api_ctx" where
  "served_api cfg k r L \<equiv> L\<lparr>a_clients := r, a_connector := k, a_config := cfg\<rparr>"

lemma server_values:
  shows "ctx_Logger (served_ctx cfg q k r c) = Returned ()" "ctx_DB (served_ctx cfg q k r c) = Returned NewDepositsQ" "ctx_Clients (served_ctx cfg q k r c) = Returned r"
    "ctx_Broadcaster (served_ctx cfg q k r c) = Returned ()" "ctx_Connector (served_ctx cfg q k r c) = Returned k" "ctx_Config (served_ctx cfg q k r c) = Returned cfg"
  by (simp_all add: NewServer_def LoggerProvider_def DBProvider_def ConnectorProvider_def
      BroadcasterProvider_def ClientsProvider_def ConfigProvider_def ctx_Logger_def ctx_DB_def
      ctx_Clients_def ctx_Broadcaster_def ctx_Connector_def ctx_Config_def)

lemma CheckWithdrawal_values:
  "CheckWithdrawal E (L\<lparr>a_clients := r, a_connector := k, a_config := cfg\<rparr>) i w = CheckWithdrawal E (L\<lparr>a_config := cfg\<rparr>) i w"
  by (simp add: CheckWithdrawal_def split: option.split sum.split prod.split)

lemma GetWithdrawalsByStatus_values:
  "GetWithdrawalsByStatus E (L\<lparr>a_clients := r, a_connector := k, a_config := cfg\<rparr>) q w = GetWithdrawalsByStatus E L q w"
  by (simp add: GetWithdrawalsByStatus_def Let_def split: option.split)

text \<open>A method of the server on an extended context, as an answer of the API.\<close>

lemma server_answers:
  shows "as_response (\<lambda>_. EmptyResp) (srv_SubmitWithdrawal (Implementation E L) (served_ctx cfg q k r c) i y) = api_answer E (served_api cfg k r L) (CallSubmit i) y"
    and "as_response CheckResp (srv_CheckWithdrawal (Implementation E L) (served_ctx cfg q k r c) i y) = api_answer E (served_api cfg k r L) (CallCheck i) y"
    and "as_response ListResp (srv_GetWithdrawalsByStatus (Implementation E L) (served_ctx cfg q k r c) s y) = api_answer E (served_api cfg k r L) (CallList s) y"
    and "as_response (\<lambda>_. EmptyResp) (srv_CheckHealth (Implementation E L) (served_ctx cfg q k r c) () y) = api_answer E (served_api cfg k r L) CallHealth y"
  by (cases y; simp add: Implementation_def Implementation_SubmitWithdrawal_def Implementation_CheckWithdrawal_def
      Implementation_GetWithdrawalsByStatus_def server_values CheckWithdrawal_values GetWithdrawalsByStatus_values
      CheckHealth_def as_response_def split: prod.splits)+

subsection \<open>The interceptors\<close>

text \<open>The chain of the server: the values, then the handler, whose panic becomes an error.\<close>

lemma grpcServer_spec:
  assumes "chain_contract chain"
  shows "grpcServer chain s c req info h y =
    (case h (extend_ctx (sr_ctxExtenders s) c) req y of (res, y') \<Rightarrow> (Returned (RecoveryInterceptor res), y'))"
proof -
  have "grpcServer chain s c req info h = ContextExtenderInterceptor (sr_ctxExtenders s) c req info
      (\<lambda>c' req'. LoggerInterceptor c' req' info (\<lambda>c'' req''. RecoveryUnaryInterceptor c'' req'' info h))"
    using assms by (simp add: grpcServer_def chain_contract_def)
  then show ?thesis
    by (simp add: ContextExtenderInterceptor_def LoggerInterceptor_def RecoveryUnaryInterceptor_def split: prod.splits)
qed

lemma grpc_reply_spec:
  assumes "chain_contract chain"
  shows "grpc_reply (grpcServer chain (NewServer cfg q k r)) (Implementation E L) c call y =
    (case api_answer E (served_api cfg k r L) call y of (res, y') \<Rightarrow> (Returned (RecoveryInterceptor res), y'))"
  by (cases call) (simp_all add: API_SubmitWithdrawal_Handler_def API_CheckWithdrawal_Handler_def
      API_GetWithdrawalsByStatus_Handler_def API_CheckHealth_Handler_def grpcServer_spec [OF assms] server_answers)

subsection \<open>The gateway\<close>

lemma means_check: "gateway_contract G \<Longrightarrow> means G req params (CallCheck i) \<Longrightarrow> identifier_params G params = Inr i"
  by (auto simp: gateway_contract_def identifier_params_def path_param_def)

lemma means_submit: "means G req params (CallSubmit i) \<Longrightarrow> body_message G req = Inr i"
  by (auto simp: body_message_def split: option.splits)

lemma means_list: "means G req params (CallList q) \<Longrightarrow> status_params G req params = Inr q"
  by (auto simp: status_params_def path_param_def)

lemma http_reply_spec:
  assumes "gateway_contract G" and "annotates G (served_ctx cfg q k r c) req" and "means G req params call"
  shows "http_reply_on (httpRouter G E L (NewServer cfg q k r)) c call req params y
    = http_answer (api_answer E (served_api cfg k r L) call y)"
proof -
  have "gw_AnnotateIncomingContext G (served_ctx cfg q k r c) req m p = Inr (served_ctx cfg q k r c)" for m p
    using assms(1,2) unfolding gateway_contract_def annotates_def by metis
  with assms(3) show ?thesis
    by (cases call) (simp_all add: http_reply_on_def httpRouter_def RegisterAPIHandlerServer_def annotated_def
        local_request_API_SubmitWithdrawal_0_def local_request_API_CheckWithdrawal_0_def
        local_request_API_GetWithdrawalsByStatus_0_def local_request_API_CheckHealth_0_def
        means_submit means_check [OF assms(1)] means_list server_answers del: means.simps)
qed

lemma http_answer_recovered:
  "returned (fst r) \<Longrightarrow> http_answer (case r of (res, y') \<Rightarrow> (Returned (RecoveryInterceptor res), y')) = http_answer r"
  by (cases r; cases "fst r") (simp_all add: RecoveryInterceptor_def)

text \<open>A request that means nothing is answered by the gateway; the server is not called.\<close>

theorem malformed_check_rejected:
  assumes "gateway_contract G" and "annotates G (served_ctx cfg q k r c) req"
    and "\<nexists>i. means G req params (CallCheck i)"
  shows "\<exists>msg. http_reply_on (httpRouter G E L (NewServer cfg q k r)) c (CallCheck i) req params y
    = (Returned (HTTPError (InvalidArgument, msg)), y)"
proof -
  have "gw_AnnotateIncomingContext G (served_ctx cfg q k r c) req m p = Inr (served_ctx cfg q k r c)" for m p
    using assms(1,2) unfolding gateway_contract_def annotates_def by metis
  moreover have "\<exists>msg. identifier_params G params = Inl (InvalidArgument, msg)"
  proof (cases "identifier_params G params")
    case (Inl st)
    then show ?thesis
      by (auto simp: identifier_params_def path_param_def missing_parameter_def type_mismatch_def
          split: option.splits sum.splits)
  next
    case (Inr i)
    then have "means G req params (CallCheck i)"
      using assms(1) by (auto simp: gateway_contract_def identifier_params_def path_param_def split: option.splits sum.splits)
    with assms(3) show ?thesis by blast
  qed
  ultimately show ?thesis
    by (auto simp: http_reply_on_def httpRouter_def RegisterAPIHandlerServer_def annotated_def
        local_request_API_CheckWithdrawal_0_def bad_request_def as_response_def http_answer_def)
qed

text \<open>
  C10: Both ways into the API end in the same handler with the same values in its context, which are always
  there. A gRPC call is answered with what the handler answers, a panic with an internal error. An
  HTTP request that decodes to the same message is answered with the same error or message and
  has the same effect; only a panic goes on to the router.
\<close>

theorem http_agrees_with_grpc:
  assumes "chain_contract chain" and "gateway_contract G" and "annotates G (served_ctx cfg q k r c) req"
    and "means G req params call"
  shows "grpc_reply (grpcServer chain (NewServer cfg q k r)) (Implementation E L) c call y
      = (case api_answer E (served_api cfg k r L) call y of (res, y') \<Rightarrow> (Returned (RecoveryInterceptor res), y'))
    \<and> http_reply_on (httpRouter G E L (NewServer cfg q k r)) c call req params y
      = (if returned (fst (api_answer E (served_api cfg k r L) call y))
         then http_answer (grpc_reply (grpcServer chain (NewServer cfg q k r)) (Implementation E L) c call y)
         else http_answer (api_answer E (served_api cfg k r L) call y))"
  unfolding http_reply_spec [OF assms(2,3,4)] grpc_reply_spec [OF assms(1)] by (simp add: http_answer_recovered)

text \<open>The libraries of the demo service, and a request for a deposit it does not know.\<close>

fun chain_ref :: "('c, 'y) interceptor list \<Rightarrow> ('c, 'y) interceptor" where
  "chain_ref [] c req info h = h c req"
| "chain_ref (i # is) c req info h = i c req info (\<lambda>c' req'. chain_ref is c' req' info h)"

lemma chain_ref_contract: "chain_contract chain_ref"
  by (simp add: chain_contract_def)

definition demo_gateway :: "unit ctx gateway_lib" where
  "demo_gateway = \<lparr>gw_Decode = (\<lambda>s. (demo_id, None)), gw_IsEOF = (\<lambda>e. False), gw_String = Inr,
     gw_Int64 = (\<lambda>s. if s = ''3'' then Inr 3 else Inl (Msg ''invalid syntax'')),
     gw_Enum = (\<lambda>s f. case f s of Some n \<Rightarrow> Inr n | None \<Rightarrow> Inl (Msg ''not valid'')),
     gw_ParseForm = (\<lambda>r. None), gw_Populate = (\<lambda>r f q. (None, q)),
     gw_AnnotateIncomingContext = (\<lambda>c r m p. Inr c), gw_AnnotateContext = (\<lambda>c r m p. Inr c)\<rparr>"

definition demo_request :: http_request where
  "demo_request = \<lparr>hr_Method = ''GET'', hr_Path = ''/check/1/0xd/3'', hr_Query = [], hr_Body = None\<rparr>"

definition demo_params :: path_params where
  "demo_params = [''chain_id'' \<mapsto> ''1'', ''tx_hash'' \<mapsto> ''0xd'', ''tx_nonce'' \<mapsto> ''3'']"

lemma demo_answer:
  "api_answer demo_env demo_api (CallCheck demo_id) (demo_broadcaster, [], demo_world)
    = (Returned (Inl (NotFound, ''withdrawal data not found'')), (demo_broadcaster, [], demo_world))"
proof -
  have "ValidateIdentifier (a_ozzo demo_api) (Some demo_id) = None"
    by (simp add: demo_api_def ValidateIdentifier_None [OF ozzo_ref_contract] demo_id_def)
  moreover have "depositsQ_Get demo_env demo_id demo_world = (Inr None, demo_world)"
    by (simp add: depositsQ_Get_def db_Query_def demo_env_def demo_world_def ext_call_def find_row_def)
  ultimately show ?thesis by (simp add: CheckWithdrawal_def as_response_def)
qed

theorem http_agrees_with_grpc_witness:
  "http_reply_on (httpRouter demo_gateway demo_env demo_api
      (NewServer (a_config demo_api) NewDepositsQ (a_connector demo_api) (a_clients demo_api))) Map.empty
      (CallCheck demo_id) demo_request demo_params (demo_broadcaster, [], demo_world)
    = (Returned (HTTPError (NotFound, ''withdrawal data not found'')), (demo_broadcaster, [], demo_world))"
proof -
  have G: "gateway_contract demo_gateway" and A: "annotates demo_gateway c demo_request" for c
    by (simp_all add: gateway_contract_def annotates_def demo_gateway_def)
  have M: "means demo_gateway demo_request demo_params (CallCheck demo_id)"
    by (simp add: demo_gateway_def demo_params_def demo_id_def)
  have L: "served_api (a_config demo_api) (a_connector demo_api) (a_clients demo_api) demo_api = demo_api"
    by simp
  show ?thesis
    using http_agrees_with_grpc [where cfg = "a_config demo_api" and q = NewDepositsQ and k = "a_connector demo_api"
        and r = "a_clients demo_api" and c = Map.empty and E = demo_env and L = demo_api
        and y = "(demo_broadcaster, [], demo_world)", OF chain_ref_contract G A M]
    by (simp only: L demo_answer) (simp add: http_answer_def RecoveryInterceptor_def)
qed

end
