(* ===== verification/Config.thy ===== *)
theory Config
  imports Connector Chain_Core
begin

text \<open>
  The configuration: \<open>internal/config\<close>, the \<open>config\<close> packages of the components and the flags of
  \<open>cmd/utils/flags.go\<close>. A section of the file has the type \<open>'v\<close>; the \<open>figure\<close> library, which fills a struct
  from a section, is a parameter of each reader. \<open>comfig.Once\<close> keeps the first result: a value here
  is what the first call computes.
\<close>

subsection \<open>Sections\<close>

text \<open>\<open>kv.MustGetStringMap\<close> panics when the section can not be read; each reader panics on an error of \<open>figure\<close>.\<close>

type_synonym 'v getter = "string \<Rightarrow> go_error + 'v"

definition figure_out :: "('v \<Rightarrow> go_error + 'a) \<Rightarrow> 'v getter \<Rightarrow> string \<Rightarrow> string \<Rightarrow> 'a go_result" where
  "figure_out please getter key msg = (case getter key of
     Inl err \<Rightarrow> Panic ''failed to get string map''
   | Inr m \<Rightarrow> (case please m of Inl err \<Rightarrow> Panic msg | Inr cfg \<Rightarrow> Returned cfg))"

text \<open>\<open>time.Duration(n) * time.Second\<close> on 64 bits.\<close>

definition seconds :: "int64 \<Rightarrow> duration" where
  "seconds n = sint (n * word_of_int time_Second)"

record retrierCfg =
  rt_RetryAttempts :: uint64
  rt_RetryTimeout :: int64

definition retrier_config :: "('v \<Rightarrow> go_error + retrierCfg) \<Rightarrow> 'v getter \<Rightarrow> retrierCfg go_result" where
  "retrier_config please getter = figure_out please getter ''retry'' ''failed to figure out retry config''"
definition RetryAttempts :: "retrierCfg \<Rightarrow> uint64" where
  "RetryAttempts cfg = rt_RetryAttempts cfg"
definition RetryTimeout :: "retrierCfg \<Rightarrow> duration" where
  "RetryTimeout cfg = seconds (rt_RetryTimeout cfg)"

definition block_delay_config :: "('v \<Rightarrow> go_error + int64) \<Rightarrow> 'v getter \<Rightarrow> int64 go_result" where
  "block_delay_config please getter = figure_out please getter ''block_delay'' ''failed to figure out block delay config''"
definition BlockDelay :: "int64 \<Rightarrow> duration" where
  "BlockDelay cfg = seconds cfg"

definition observer_config :: "('v \<Rightarrow> go_error + int64) \<Rightarrow> 'v getter \<Rightarrow> int64 go_result" where
  "observer_config please getter = figure_out please getter ''observer'' ''failed to figure out core observer config''"
definition ObserverPollingInterval :: "int64 \<Rightarrow> duration" where
  "ObserverPollingInterval cfg = seconds cfg"

record BroadcasterConfig =
  bc_TxPoolSize :: int64
  bc_SubmitTxPoolSize :: int64
  bc_SubmitBatchSize :: int64

definition broadcaster_config :: "('v \<Rightarrow> go_error + BroadcasterConfig) \<Rightarrow> 'v getter \<Rightarrow> BroadcasterConfig go_result" where
  "broadcaster_config please getter = figure_out please getter ''broadcaster'' ''failed to configure broadcaster''"

text \<open>The tendermint client is made and started anew by each call.\<close>

record 't tendermint_lib =
  http_New :: "string \<Rightarrow> string \<Rightarrow> go_error + 't"
  http_Start :: "'t \<Rightarrow> go_error option"

definition tendermint_config :: "('v \<Rightarrow> go_error + string) \<Rightarrow> 'v getter \<Rightarrow> string go_result" where
  "tendermint_config please getter =
     figure_out please getter ''tendermint_connector'' ''failed to figure out tendermint connector config''"

definition TendermintHttpClient :: "'t tendermint_lib \<Rightarrow> ('v \<Rightarrow> go_error + string) \<Rightarrow> 'v getter \<Rightarrow> 't go_result" where
  "TendermintHttpClient T please getter = (case tendermint_config please getter of
     Panic m \<Rightarrow> Panic m
   | Returned rpc \<Rightarrow> (case http_New T rpc ''/websocket'' of
       Inl err \<Rightarrow> Panic ''failed to create tendermint http client''
     | Inr client \<Rightarrow> (case http_Start T client of
         Some err \<Rightarrow> Panic ''failed to start tendermint http client''
       | None \<Rightarrow> Returned client)))"

subsection \<open>The connector (\<open>core/connector/config\<close>)\<close>

record Connection =
  cn_Addr :: string
  cn_EnableTLS :: bool

datatype transport = Insecure | TLS13

record 'c ConnectorConfig =
  cc_Account :: Account
  cc_Settings :: Settings
  cc_Connection :: 'c

definition CoreConnectorConfig ::
  "('v \<Rightarrow> go_error + Account \<times> Settings \<times> Connection) \<Rightarrow> (string \<Rightarrow> transport \<Rightarrow> go_error + 'c) \<Rightarrow> 'v getter
     \<Rightarrow> 'c ConnectorConfig go_result" where
  "CoreConnectorConfig please grpc_NewClient getter =
   (case figure_out please getter ''core_connector'' ''failed to configure core connector'' of
      Panic m \<Rightarrow> Panic m
    | Returned (account, settings, connection) \<Rightarrow>
        (let security = (if cn_EnableTLS connection then TLS13 else Insecure) in
         case grpc_NewClient (cn_Addr connection) security of
           Inl err \<Rightarrow> Panic ''failed to connect to core via gRPC''
         | Inr client \<Rightarrow> Returned \<lparr>cc_Account = account, cc_Settings = settings, cc_Connection = client\<rparr>))"

text \<open>The value of a field of the file, of which only strings are taken.\<close>

datatype yaml_value = YString string | YOther string

definition accountHook :: "(string \<Rightarrow> go_error + Account) \<Rightarrow> yaml_value \<Rightarrow> go_error + Account" where
  "accountHook new_account value = (case value of
     YString v \<Rightarrow> (case new_account v of Inl err \<Rightarrow> Inl (Wrap ''failed to create account'' err) | Inr acc \<Rightarrow> Inr acc)
   | YOther t \<Rightarrow> Inl (Msg (''unsupported conversion from '' @ t)))"

definition listenerHook :: "(string \<Rightarrow> string \<Rightarrow> go_error + 'l) \<Rightarrow> yaml_value \<Rightarrow> go_error + 'l" where
  "listenerHook net_Listen value = (case value of
     YString addr \<Rightarrow> (case net_Listen ''tcp'' addr of
       Inl err \<Rightarrow> Inl (Wrap (''failed to listen on '' @ addr) err) | Inr ls \<Rightarrow> Inr ls)
   | YOther t \<Rightarrow> Inl (Msg (''unsupported conversion from '' @ t)))"

record 'l listeners =
  ls_ApiGrpc :: 'l
  ls_ApiHttp :: 'l

definition listener_config :: "('v \<Rightarrow> go_error + 'l listeners) \<Rightarrow> 'v getter \<Rightarrow> 'l listeners go_result" where
  "listener_config please getter = figure_out please getter ''listeners'' ''failed to load listener config''"

definition sol_rpcHook :: "(string \<Rightarrow> 'r) \<Rightarrow> yaml_value \<Rightarrow> go_error + 'r" where
  "sol_rpcHook rpc_New value = (case value of
     YString v \<Rightarrow> Inr (rpc_New v) | YOther t \<Rightarrow> Inl (Msg (''unsupported conversion from '' @ t)))"

definition sol_keyHook :: "(string \<Rightarrow> go_error + 'k) \<Rightarrow> yaml_value \<Rightarrow> go_error + 'k" where
  "sol_keyHook key_of value = (case value of
     YString v \<Rightarrow> key_of v | YOther t \<Rightarrow> Inl (Msg (''unsupported conversion from '' @ t)))"

definition ton_addrHook :: "(string \<Rightarrow> go_error + 'a) \<Rightarrow> yaml_value \<Rightarrow> go_error + 'a" where
  "ton_addrHook ParseAddr value = (case value of
     YString v \<Rightarrow> (case ParseAddr v of Inl err \<Rightarrow> Inl (Wrap ''failed to decode address'' err) | Inr addr \<Rightarrow> Inr addr)
   | YOther t \<Rightarrow> Inl (Msg (''unsupported conversion from '' @ t)))"

subsection \<open>Chains (\<open>core/chain/config\<close>)\<close>

definition Chains :: "('v \<Rightarrow> go_error + 'v ChainConfig list) \<Rightarrow> 'v getter \<Rightarrow> 'v ChainConfig list go_result" where
  "Chains please getter = (case figure_out please getter ''chain'' ''failed to figure out chain'' of
     Panic m \<Rightarrow> Panic m
   | Returned cs \<Rightarrow> (if cs = [] then Panic ''no chain were configured'' else Returned cs))"

subsection \<open>Flags\<close>

definition StartHeightFromFlags :: "string \<Rightarrow> go_error + nat" where
  "StartHeightFromFlags value = ParseUint value 64"
definition BlockDistanceFromFlags :: "string \<Rightarrow> go_error + nat" where
  "BlockDistanceFromFlags value = ParseUint value 64"
definition CatchUpFromFlags :: "go_error + bool \<Rightarrow> go_error + bool" where
  "CatchUpFromFlags flag = (case flag of Inl err \<Rightarrow> Inl (Wrap ''failed to get catch-up flag'' err) | Inr b \<Rightarrow> Inr b)"
definition ObserverFromFlags :: "go_error + bool \<Rightarrow> go_error + bool" where
  "ObserverFromFlags flag = (case flag of Inl err \<Rightarrow> Inl (Wrap ''failed to get observer flag'' err) | Inr b \<Rightarrow> Inr b)"

definition ConfigFromFlags ::
  "go_error + string \<Rightarrow> (string \<Rightarrow> 'v getter) \<Rightarrow> go_error + 'v getter" where
  "ConfigFromFlags flag NewViperFile = (case flag of
     Inl err \<Rightarrow> Inl (Wrap ''failed to get config flag'' err)
   | Inr path \<Rightarrow> (case NewViperFile path ''ping'' of
       Inl err \<Rightarrow> Inl (Wrap ''failed to ping viper'' err)
     | Inr _ \<Rightarrow> Inr (NewViperFile path)))"

end
