(* ===== verification/Wiring.thy ===== *)
theory Wiring
  imports Config Evm Solana Ton System
begin

text \<open>
  How the service is put together: the clients of the configured chains (\<open>core/chain/config\<close>,
  the \<open>client.go\<close> and \<open>child_client.go\<close> of each chain) and \<open>runService\<close> of \<open>cmd/service/run/run.go\<close>. The state outside is
  \<open>'x sol_state\<close>: it has the package variable of the Solana binding.
\<close>

subsection \<open>The clients as the interfaces see them\<close>

text \<open>As for \<open>EvmChildClient\<close>, a panic inside a call is not seen by the callers of an interface.\<close>

definition SolChildClient ::
  "(nat \<Rightarrow> 'x sol_state \<Rightarrow> nat \<times> 'x sol_state) \<Rightarrow> 'x SolClient \<Rightarrow> Wallet list \<Rightarrow> 'x sol_state ChildClient" where
  "SolChildClient rand_Intn C signers =
     \<lparr>cc_UpdateSigners = (\<lambda>e x. returned_value (sol_child_UpdateSigners rand_Intn C signers e x)),
      cc_Withdraw = (\<lambda>d x. returned_value (sol_child_Withdraw rand_Intn C signers d x)),
      cc_IsProcessed = SolClient_IsProcessed C\<rparr>"

definition TonChildClient ::
  "(nat \<Rightarrow> 'x \<Rightarrow> nat \<times> 'x) \<Rightarrow> ('k, 'x) TonClient \<Rightarrow> 'k list \<Rightarrow> 'x ChildClient" where
  "TonChildClient rand_Intn C signers =
     \<lparr>cc_UpdateSigners = (\<lambda>e x. returned_value (ton_child_UpdateSigners rand_Intn C signers e x)),
      cc_Withdraw = (\<lambda>d x. returned_value (ton_child_Withdraw rand_Intn C signers d x)),
      cc_IsProcessed = TonClient_IsProcessed C\<rparr>"

text \<open>A configured client, after its \<open>ConfigureChildClients\<close>.\<close>

definition evm_configured ::
  "(nat \<Rightarrow> 'x \<Rightarrow> nat \<times> 'x) \<Rightarrow> ('k, 'x) EvmClient \<Rightarrow> 'x ChainClient go_result" where
  "evm_configured rand_Intn C = (case evm_ConfigureChildClients C of
     Panic m \<Rightarrow> Panic m
   | Returned childs \<Rightarrow> Returned \<lparr>cl_Type = TypeEVM, cl_ChainId = evm_Id (ec_chain C),
       cl_WorkersCount = nat (evm_Workers (ec_chain C)),
       cl_TransactionHashValid = DefaultTransactionHashPattern,
       cl_IsProcessed = (\<lambda>d x. returned_value (EvmClient_IsProcessed C d x)),
       cl_ChildClients = map (EvmChildClient rand_Intn C) childs\<rparr>)"

definition sol_configured ::
  "(nat \<Rightarrow> 'x sol_state \<Rightarrow> nat \<times> 'x sol_state) \<Rightarrow> 'x SolClient \<Rightarrow> 'x sol_state ChainClient go_result" where
  "sol_configured rand_Intn C = (case sol_ConfigureChildClients C of
     Panic m \<Rightarrow> Panic m
   | Returned childs \<Rightarrow> Returned \<lparr>cl_Type = TypeSolana, cl_ChainId = sol_Id (so_chain C),
       cl_WorkersCount = nat (sol_Workers (so_chain C)),
       cl_TransactionHashValid = SolanaTransactionHashPattern,
       cl_IsProcessed = SolClient_IsProcessed C, cl_ChildClients = map (SolChildClient rand_Intn C) childs\<rparr>)"

definition ton_configured ::
  "(bytes \<Rightarrow> go_error + 'k) \<Rightarrow> (nat \<Rightarrow> 'x \<Rightarrow> nat \<times> 'x) \<Rightarrow> ('k, 'x) TonClient \<Rightarrow> 'x ChainClient go_result" where
  "ton_configured from_key rand_Intn C = (case ton_ConfigureChildClients from_key C of
     Panic m \<Rightarrow> Panic m
   | Returned childs \<Rightarrow> Returned \<lparr>cl_Type = TypeTON, cl_ChainId = ton_Id (tc_chain C),
       cl_WorkersCount = nat (ton_Workers (tc_chain C)),
       cl_TransactionHashValid = DefaultTransactionHashPattern,
       cl_IsProcessed = TonClient_IsProcessed C, cl_ChildClients = map (TonChildClient rand_Intn C) childs\<rparr>)"

subsection \<open>Making the clients\<close>

text \<open>\<open>ton.NewBridgeClient\<close>: connecting and reading the global configuration are the lite client's.\<close>

record 'a lite_lib =
  lc_AddConnections :: "string \<Rightarrow> go_error option"
  lc_GetConfig :: "string \<Rightarrow> go_error + 'a"

definition ton_NewBridgeClient ::
  "'a lite_lib \<Rightarrow> 'k ton_lib \<Rightarrow> ('a \<Rightarrow> ('k, 'x) ton_api) \<Rightarrow> string \<Rightarrow> TonChain \<Rightarrow> ('k, 'x) TonClient go_result" where
  "ton_NewBridgeClient B L api_of GlobalConfigUrl chain = (case lc_AddConnections B GlobalConfigUrl of
     Some err \<Rightarrow> Panic ''failed to connect to global config''
   | None \<Rightarrow> (case lc_GetConfig B GlobalConfigUrl of
       Inl err \<Rightarrow> Panic ''failed to get global config''
     | Inr globalConfig \<Rightarrow> Returned \<lparr>tc_lib = L, tc_api = api_of globalConfig, tc_chain = chain\<rparr>))"

text \<open>What the three kinds of clients take from the libraries; \<open>'v\<close> is the value of a field of the file.\<close>

record ('v, 'k, 'u, 'x, 'a, 'b, 'g) chain_libs =
  kl_evm_figure :: "('v, 'k) evm_figure"
  kl_bind :: "('a, 'b, 'x sol_state) bind_lib"
  kl_abi :: "go_error + unit"
  kl_backend :: "'v \<Rightarrow> 'b"
  kl_evm_lib :: "'k evm_lib"
  kl_evm_rpc :: "'v \<Rightarrow> 'x sol_state evm_rpc"
  kl_evm_retry :: "('k, 'x sol_state) evm_retry"
  kl_sol_figure :: "'v sol_figure"
  kl_sol_lib :: sol_lib
  kl_sol_rpc :: "'v \<Rightarrow> 'x sol_rpc"
  kl_Retries :: nat
  kl_sol_retry :: "((bytes \<times> uint64) option \<times> 'x sol_state) retry_fun"
  kl_ton_figure :: "'v ton_figure"
  kl_ton_lite :: "'g lite_lib"
  kl_ton_lib :: "'u ton_lib"
  kl_ton_api :: "'g \<Rightarrow> ('u, 'x sol_state) ton_api"
  kl_ton_url :: "'v \<Rightarrow> string"
  kl_ton_key :: "bytes \<Rightarrow> go_error + 'u"
  kl_Intn :: "nat \<Rightarrow> 'x sol_state \<Rightarrow> nat \<times> 'x sol_state"

datatype ('k, 'u, 'x) client =
    EvmC "('k, 'x sol_state) EvmClient" | SolC "'x SolClient" | TonC "('u, 'x sol_state) TonClient"

definition make_client ::
  "('v, 'k, 'u, 'x, 'a, 'b, 'g) chain_libs \<Rightarrow> 'v ChainConfig \<Rightarrow> 'x sol_state \<Rightarrow> ('k, 'u, 'x) client go_result \<times> 'x sol_state" where
  "make_client K ch s =
   (if ch_Type ch = Type_string TypeSolana
    then (case sol_FromChain (kl_sol_figure K) ch of Panic m \<Rightarrow> (Panic m, s)
       | Returned c \<Rightarrow> (case sol_NewBridgeClient (kl_sol_lib K) (kl_sol_rpc K (ch_Rpc ch)) (kl_Retries K) (kl_sol_retry K) c s of (C, s1) \<Rightarrow> (Returned (SolC C), s1)))
    else if ch_Type ch = Type_string TypeTON
    then (case ton_FromChain (kl_ton_figure K) ch of Panic m \<Rightarrow> (Panic m, s)
       | Returned c \<Rightarrow> (case ton_NewBridgeClient (kl_ton_lite K) (kl_ton_lib K) (kl_ton_api K) (kl_ton_url K (ch_Rpc ch)) c of
           Panic m \<Rightarrow> (Panic m, s) | Returned C \<Rightarrow> (Returned (TonC C), s)))
    else if ch_Type ch = Type_string TypeEVM
    then (case FromChain (kl_evm_figure K) ch of Panic m \<Rightarrow> (Panic m, s)
       | Returned c \<Rightarrow> (case evm_NewBridgeClient (kl_bind K) (kl_abi K) (kl_backend K (ch_Rpc ch)) (kl_evm_lib K)
           (kl_evm_rpc K (ch_Rpc ch)) (kl_evm_retry K) c of Panic m \<Rightarrow> (Panic m, s) | Returned C \<Rightarrow> (Returned (EvmC C), s)))
    else (Panic (''unsupported chain type: '' @ ch_Type ch), s))"

text \<open>\<open>Clients\<close>: a client of each chain, in the order of the configuration.\<close>

fun Clients ::
  "('v, 'k, 'u, 'x, 'a, 'b, 'g) chain_libs \<Rightarrow> 'v ChainConfig list \<Rightarrow> 'x sol_state
     \<Rightarrow> ('k, 'u, 'x) client list go_result \<times> 'x sol_state" where
  "Clients K [] s = (Returned [], s)"
| "Clients K (ch # chs) s = (case make_client K ch s of
     (Panic m, s1) \<Rightarrow> (Panic m, s1)
   | (Returned C, s1) \<Rightarrow> (case Clients K chs s1 of
       (Panic m, s2) \<Rightarrow> (Panic m, s2) | (Returned Cs, s2) \<Rightarrow> (Returned (C # Cs), s2)))"

text \<open>The loop of \<open>NewClientsRepository\<close>; a panic of \<open>ConfigureChildClients\<close> ends it.\<close>

fun ConfigureChildClients_of :: "('v, 'k, 'u, 'x, 'a, 'b, 'g) chain_libs \<Rightarrow> ('k, 'u, 'x) client \<Rightarrow> 'x sol_state ChainClient go_result" where
  "ConfigureChildClients_of K (EvmC C) = evm_configured (kl_Intn K) C"
| "ConfigureChildClients_of K (SolC C) = sol_configured (kl_Intn K) C"
| "ConfigureChildClients_of K (TonC C) = ton_configured (kl_ton_key K) (kl_Intn K) C"

fun configure_all :: "('v, 'k, 'u, 'x, 'a, 'b, 'g) chain_libs \<Rightarrow> ('k, 'u, 'x) client list \<Rightarrow> 'x sol_state ChainClient list go_result" where
  "configure_all K [] = Returned []"
| "configure_all K (C # Cs) = (case ConfigureChildClients_of K C of
     Panic m \<Rightarrow> Panic m
   | Returned cl \<Rightarrow> (case configure_all K Cs of Panic m \<Rightarrow> Panic m | Returned cls \<Rightarrow> Returned (cl # cls)))"

definition clients_repository ::
  "('v, 'k, 'u, 'x, 'a, 'b, 'g) chain_libs \<Rightarrow> ('k, 'u, 'x) client list \<Rightarrow> 'x sol_state clientsRepository go_result" where
  "clients_repository K Cs = (case configure_all K Cs of
     Panic m \<Rightarrow> Panic m | Returned cls \<Rightarrow> Returned (NewClientsRepository cl_ChainId (\<lambda>cl. cl) cls))"

subsection \<open>\<open>runService\<close>\<close>

text \<open>
  The broadcaster as \<open>New\<close> leaves it: the connector and nothing else. Its interface of the clients is
  nil there; the empty repository stands for it, and the difference (a call on nil panics, a lookup in
  an empty repository is an error) matters only for a handler that runs before \<open>WithClients\<close>.
\<close>

definition NewBroadcaster :: "'x Connector \<Rightarrow> 'x Broadcaster" where
  "NewBroadcaster connector = \<lparr>b_coreConnector = connector, b_clientsRepo = \<lparr>repo_clients = Map.empty\<rparr>,
     b_chainTxPoolSize = 0, b_submitTxPoolSize = 0, b_submitBatchSize = 0, b_recoveryAttempts = 0,
     b_recoveryTimeout = 0\<rparr>"

text \<open>The settings of the observer.\<close>

definition WithClientsRepo :: "'x clientsRepository \<Rightarrow> 'x Observer \<Rightarrow> 'x Observer" where
  "WithClientsRepo r ob = ob\<lparr>o_clientsRepo := r\<rparr>"
definition WithPollingInterval :: "duration \<Rightarrow> 'x Observer \<Rightarrow> 'x Observer" where
  "WithPollingInterval t ob = ob\<lparr>o_pollingInterval := t\<rparr>"
definition WithBlockDelay :: "duration \<Rightarrow> 'x Observer \<Rightarrow> 'x Observer" where
  "WithBlockDelay t ob = ob\<lparr>o_blockDelay := t\<rparr>"
definition WithBlockDistance :: "uint64 \<Rightarrow> 'x Observer \<Rightarrow> 'x Observer" where
  "WithBlockDistance n ob = ob\<lparr>o_blockDistance := n\<rparr>"

text \<open>The sections of the file, and the libraries around the service.\<close>

record ('v, 't, 'c, 'l) config_libs =
  cf_getter :: "'v getter"
  cf_chains :: "'v \<Rightarrow> go_error + 'v ChainConfig list"
  cf_retrier :: "'v \<Rightarrow> go_error + retrierCfg"
  cf_connector :: "'v \<Rightarrow> go_error + Account \<times> Settings \<times> Connection"
  cf_NewClient :: "string \<Rightarrow> transport \<Rightarrow> go_error + 'c"
  cf_tendermint :: "'v \<Rightarrow> go_error + string"
  cf_http :: "'t tendermint_lib"
  cf_listeners :: "'v \<Rightarrow> go_error + 'l listeners"
  cf_broadcaster :: "'v \<Rightarrow> go_error + BroadcasterConfig"
  cf_observer :: "'v \<Rightarrow> go_error + int64"
  cf_block_delay :: "'v \<Rightarrow> go_error + int64"

text \<open>\<open>go_then r k w\<close>: the next statement, unless this one panicked.\<close>

definition go_then :: "'a go_result \<Rightarrow> ('a \<Rightarrow> 'b go_result \<times> 'w) \<Rightarrow> 'w \<Rightarrow> 'b go_result \<times> 'w" where
  "go_then r k w = (case r of Panic m \<Rightarrow> (Panic m, w) | Returned a \<Rightarrow> k a)"

lemma go_then_simps [simp]:
  "go_then (Returned a) k w = k a" "go_then (Panic m) k w = (Panic m, w)"
  by (simp_all add: go_then_def)

lemma go_then_Returned: "go_then r k w = (Returned b, w') \<longleftrightarrow> (\<exists>a. r = Returned a \<and> k a = (Returned b, w'))"
  by (cases r) simp_all

text \<open>
  \<open>runService\<close> up to the goroutines: the service, or its error. \<open>sv0\<close> has what is not configured: the
  libraries of the handlers, the tendermint client's calls and the retries. The broadcaster and the
  observer are as their \<open>New\<close> made them; they share one broadcaster. The API has its clients here.
\<close>

definition runService ::
  "('v, 'k, 'u, 'x, 'a, 'b, 'g) chain_libs \<Rightarrow> ('v, 't, 'c, 'l) config_libs \<Rightarrow> ('c \<Rightarrow> 'x sol_state core_client)
     \<Rightarrow> recoveryCfg \<Rightarrow> 'x sol_state service \<Rightarrow> 'x sol_state world
     \<Rightarrow> (go_error + 'x sol_state service) go_result \<times> 'x sol_state world" where
  "runService K F core_of recovery sv0 w0 =
   go_then (Chains (cf_chains F) (cf_getter F)) (\<lambda>chs.
   case Clients K chs (w_ext w0) of (r, x1) \<Rightarrow> let w = w0\<lparr>w_ext := x1\<rparr> in
   go_then r (\<lambda>clients.
   go_then (clients_repository K clients) (\<lambda>repo.
   go_then (retrier_config (cf_retrier F) (cf_getter F)) (\<lambda>retrier.
   go_then (CoreConnectorConfig (cf_connector F) (cf_NewClient F) (cf_getter F)) (\<lambda>core.
   case NewConnector (core_of (cc_Connection core)) (cc_Account core) (cc_Settings core) w of
     (Inl err, w1) \<Rightarrow> (Returned (Inl (Wrap ''failed to create connector'' err)), w1)
   | (Inr connector, w1) \<Rightarrow>
   go_then (TendermintHttpClient (cf_http F) (cf_tendermint F) (cf_getter F)) (\<lambda>tendermint.
   go_then (listener_config (cf_listeners F) (cf_getter F)) (\<lambda>ls.
     let broadcaster = NewBroadcaster connector
     in (Returned (Inr (sv0\<lparr>
          sv_api := (sv_api sv0)\<lparr>a_clients := repo, a_connector := connector, a_config := recovery\<rparr>,
          sv_boot := broadcaster,
          sv_observer := (sv_observer sv0)\<lparr>o_broadcaster := broadcaster,
            o_Retries := unat (RetryAttempts retrier)\<rparr>,
          sv_Retries := unat (RetryAttempts retrier)\<rparr>)), w1))
     w1) w1) w) w) w) w) w0"

text \<open>
  The two goroutines that finish the settings, beside those of the API and of the catch-upper: the
  broadcaster's, up to the channels that \<open>Run\<close> makes, and the observer's, up to its \<open>Run\<close>. Both read
  the configuration.
\<close>

definition broadcaster_goroutine ::
  "('v, 't, 'c, 'l) config_libs \<Rightarrow> 'x clientsRepository \<Rightarrow> 'x Broadcaster \<Rightarrow> 'x Broadcaster go_result" where
  "broadcaster_goroutine F repo b =
   (case broadcaster_config (cf_broadcaster F) (cf_getter F) of
      Panic m \<Rightarrow> Panic m
    | Returned bcfg \<Rightarrow>
   (case WithSubmitTxPoolSize (WithChainTxPoolSize (WithClients b repo) (bc_TxPoolSize bcfg))
           (bc_SubmitTxPoolSize bcfg) of
      Panic m \<Rightarrow> Panic m
    | Returned b1 \<Rightarrow>
   let b2 = WithSubmitBatchSize b1 (bc_SubmitBatchSize bcfg) in
   if sint (b_chainTxPoolSize b2) < 0 \<and> repo_Clients repo \<noteq> Map.empty
   then Panic ''makechan: size out of range'' else Returned b2))"

definition observer_goroutine ::
  "('v, 't, 'c, 'l) config_libs \<Rightarrow> 'x clientsRepository \<Rightarrow> uint64 \<Rightarrow> 'x Observer \<Rightarrow> 'x Observer go_result" where
  "observer_goroutine F repo blockDistance ob =
   (case observer_config (cf_observer F) (cf_getter F) of
      Panic m \<Rightarrow> Panic m
    | Returned polling \<Rightarrow>
   (case block_delay_config (cf_block_delay F) (cf_getter F) of
      Panic m \<Rightarrow> Panic m
    | Returned delay \<Rightarrow> Returned (WithBlockDistance blockDistance (WithBlockDelay (BlockDelay delay)
        (WithPollingInterval (ObserverPollingInterval polling) (WithClientsRepo repo ob))))))"

text \<open>
  The service once these goroutines have made their settings; the observer's is there only with its
  flag. Both work on the objects that \<open>runService\<close> made, so the observer and the API see the
  broadcaster's settings.
\<close>

definition goroutines_started ::
  "('v, 't, 'c, 'l) config_libs \<Rightarrow> uint64 \<Rightarrow> bool \<Rightarrow> 'x service \<Rightarrow> 'x service go_result" where
  "goroutines_started F blockDistance observerNeeded sv =
   (case broadcaster_goroutine F (a_clients (sv_api sv)) (sv_boot sv) of
      Panic m \<Rightarrow> Panic m
    | Returned b \<Rightarrow>
   (case (if observerNeeded then observer_goroutine F (a_clients (sv_api sv)) blockDistance (sv_observer sv)
          else Returned (sv_observer sv)) of
      Panic m \<Rightarrow> Panic m
    | Returned ob \<Rightarrow> Returned (sv\<lparr>sv_boot := b, sv_observer := ob\<lparr>o_broadcaster := b\<rparr>\<rparr>)))"

end
