(* ===== verification/Wiring_Props.thy ===== *)
theory Wiring_Props
  imports Wiring Channels Chain_Props Catch_Up_Props Solana_Props Ton_Props
begin

text \<open>
  A service that \<open>runService\<close> was able to put together is ready for every chain of its configuration.
\<close>

subsection \<open>The clients\<close>

text \<open>A client of the repository has one child per worker, and each child has signers.\<close>

lemma evm_configured_ends:
  assumes "evm_configured rand_Intn C = Returned cl"
  shows "cl_ChainId cl = evm_Id (ec_chain C) \<and> length (cl_ChildClients cl) = cl_WorkersCount cl"
proof -
  obtain cs where cs: "evm_ConfigureChildClients C = Returned cs"
    using assms by (cases "evm_ConfigureChildClients C") (simp_all add: evm_configured_def)
  then have "length cs = nat (evm_Workers (ec_chain C))"
    using configure_childs_spec(1) by (fastforce simp: evm_ConfigureChildClients_def ConfigureChildClients_def split: if_splits)
  with assms cs show ?thesis by (auto simp: evm_configured_def)
qed

lemma sol_configured_ends:
  assumes "sol_configured rand_Intn C = Returned cl"
  shows "cl_ChainId cl = sol_Id (so_chain C) \<and> length (cl_ChildClients cl) = cl_WorkersCount cl"
proof -
  obtain cs where cs: "sol_ConfigureChildClients C = Returned cs"
    using assms by (cases "sol_ConfigureChildClients C") (simp_all add: sol_configured_def)
  then have "length cs = nat (sol_Workers (so_chain C))"
    using configure_childs_spec(1) by (fastforce simp: sol_ConfigureChildClients_def ConfigureChildClients_def split: if_splits)
  with assms cs show ?thesis by (auto simp: sol_configured_def)
qed

lemma ton_add_signers_length:
  "ton_add_signers n i from_key keys cs = Returned cs' \<Longrightarrow> length cs' = length cs"
  by (induction n i from_key keys cs rule: ton_add_signers.induct) (auto simp: Let_def split: if_splits sum.splits)

lemma ton_configured_ends:
  assumes "ton_configured from_key rand_Intn C = Returned cl"
  shows "cl_ChainId cl = ton_Id (tc_chain C) \<and> length (cl_ChildClients cl) = cl_WorkersCount cl"
proof -
  obtain cs where cs: "ton_ConfigureChildClients from_key C = Returned cs"
    using assms by (cases "ton_ConfigureChildClients from_key C") (simp_all add: ton_configured_def)
  then have "length cs = nat (ton_Workers (tc_chain C))"
    by (auto simp: ton_ConfigureChildClients_def Let_def split: if_splits dest: ton_add_signers_length)
  with assms cs show ?thesis by (auto simp: ton_configured_def)
qed

fun client_id :: "('k, 'u, 'x) client \<Rightarrow> string" where
  "client_id (EvmC C) = evm_Id (ec_chain C)"
| "client_id (SolC C) = sol_Id (so_chain C)"
| "client_id (TonC C) = ton_Id (tc_chain C)"

lemma configured_ends:
  "ConfigureChildClients_of K C = Returned cl \<Longrightarrow>
     cl_ChainId cl = client_id C \<and> length (cl_ChildClients cl) = cl_WorkersCount cl"
  by (cases C) (simp_all add: evm_configured_ends sol_configured_ends ton_configured_ends)

lemma configure_all_ends:
  assumes "configure_all K Cs = Returned cls"
  shows "map cl_ChainId cls = map client_id Cs \<and> (\<forall>cl \<in> set cls. length (cl_ChildClients cl) = cl_WorkersCount cl)"
  using assms
proof (induction Cs arbitrary: cls)
  case (Cons C Cs)
  then obtain cl rest where "ConfigureChildClients_of K C = Returned cl" "configure_all K Cs = Returned rest" "cls = cl # rest"
    by (auto split: go_result.splits)
  with Cons.IH configured_ends show ?case by fastforce
qed simp

lemma make_client_id:
  assumes "make_client K ch s = (Returned C, s')"
  shows "client_id C = ch_Id ch"
  using assms
  by (auto simp: make_client_def sol_FromChain_def ton_FromChain_def FromChain_def sol_NewBridgeClient_def
      ton_NewBridgeClient_def evm_NewBridgeClient_def
      split: if_splits sum.splits option.splits prod.splits go_result.splits)

lemma Clients_ids:
  "Clients K chs s = (Returned Cs, s') \<Longrightarrow> map client_id Cs = map ch_Id chs"
proof (induction chs arbitrary: s Cs)
  case (Cons ch chs)
  then show ?case by (auto simp: make_client_id split: prod.splits go_result.splits)
qed simp

text \<open>
  A chain with an operator key has a worker: dealing the keys to no workers divides by zero, so that
  \<open>ConfigureChildClients\<close> panics and the service does not start.
\<close>

fun has_keys :: "('k, 'u, 'x) client \<Rightarrow> bool" where
  "has_keys (EvmC C) = (evm_OperatorsPrivKeys (ec_chain C) \<noteq> [])"
| "has_keys (SolC C) = (sol_OperatorsWallets (so_chain C) \<noteq> [])"
| "has_keys (TonC C) = (ton_OperatorsPrivateKeys (tc_chain C) \<noteq> [])"

lemma parse_wallets_length: "parse_wallets f strs = Inr ws \<Longrightarrow> length ws = length strs"
  by (induction strs arbitrary: ws) (auto split: sum.splits)

lemma no_keys:
  "parse_keys f m strs = Inr [] \<Longrightarrow> strs = []" "parse_wallets g strs = Inr [] \<Longrightarrow> strs = []"
  by (auto dest: parse_keys_length parse_wallets_length)

lemma make_client_keys:
  assumes "make_client K ch s = (Returned C, s')" and "ch_OperatorsPrivateKeys ch \<noteq> []"
  shows "has_keys C"
  using assms
  by (auto simp: make_client_def sol_FromChain_def ton_FromChain_def FromChain_def sol_NewBridgeClient_def
      ton_NewBridgeClient_def evm_NewBridgeClient_def EVMHooks_def privateKeyHook_def
      split: if_splits sum.splits option.splits prod.splits go_result.splits dest: no_keys)

lemma Clients_keys:
  "Clients K chs s = (Returned Cs, s') \<Longrightarrow> \<forall>ch \<in> set chs. ch_OperatorsPrivateKeys ch \<noteq> [] \<Longrightarrow>
     \<forall>C \<in> set Cs. has_keys C"
proof (induction chs arbitrary: s Cs)
  case (Cons ch chs)
  then show ?case by (auto dest: make_client_keys split: prod.splits go_result.splits)
qed simp

lemma configured_workers:
  assumes "ConfigureChildClients_of K C = Returned cl" and "has_keys C"
  shows "0 < cl_WorkersCount cl"
proof (cases C)
  case (EvmC c)
  with assms obtain cs where cs: "evm_ConfigureChildClients c = Returned cs" "cl_WorkersCount cl = nat (evm_Workers (ec_chain c))"
    by (auto simp: evm_configured_def split: go_result.splits)
  with EvmC assms(2) show ?thesis
    using configure_childs_returned by (fastforce simp: evm_ConfigureChildClients_def ConfigureChildClients_def split: if_splits)
next
  case (SolC c)
  with assms obtain cs where cs: "sol_ConfigureChildClients c = Returned cs" "cl_WorkersCount cl = nat (sol_Workers (so_chain c))"
    by (auto simp: sol_configured_def split: go_result.splits)
  with SolC assms(2) show ?thesis
    using configure_childs_returned by (fastforce simp: sol_ConfigureChildClients_def ConfigureChildClients_def split: if_splits)
next
  case (TonC c)
  with assms obtain cs where cs: "ton_ConfigureChildClients (kl_ton_key K) c = Returned cs"
      "cl_WorkersCount cl = nat (ton_Workers (tc_chain c))"
    by (auto simp: ton_configured_def split: go_result.splits)
  with TonC assms(2) show ?thesis
    by (cases "ton_OperatorsPrivateKeys (tc_chain c)") (auto simp: ton_ConfigureChildClients_def Let_def split: if_splits)
qed

lemma configure_all_workers:
  "configure_all K Cs = Returned cls \<Longrightarrow> \<forall>C \<in> set Cs. has_keys C \<Longrightarrow> \<forall>cl \<in> set cls. 0 < cl_WorkersCount cl"
proof (induction Cs arbitrary: cls)
  case (Cons C Cs)
  then obtain cl rest where "ConfigureChildClients_of K C = Returned cl" "configure_all K Cs = Returned rest" "cls = cl # rest"
    by (auto split: go_result.splits)
  with Cons configured_workers show ?case by auto
qed simp

text \<open>The repository has a client for each id, and each client has its own id.\<close>

lemma find_id:
  "find (\<lambda>cl. cl_ChainId cl = c) cls = Some cl \<Longrightarrow> cl \<in> set cls \<and> cl_ChainId cl = c"
  by (auto simp: find_Some_iff)

lemma repository_ends:
  assumes "clients_repository K Cs = Returned r"
  shows "dom (repo_Clients r) = client_id ` set Cs"
    and "repo_Clients r c = Some cl \<Longrightarrow> cl_ChainId cl = c \<and> length (cl_ChildClients cl) = cl_WorkersCount cl"
proof -
  from assms obtain cls where cls: "configure_all K Cs = Returned cls"
    and r: "repo_Clients r = add_clients cl_ChainId (\<lambda>cl. cl) cls Map.empty"
    by (auto simp: clients_repository_def NewClientsRepository_def repo_Clients_def split: go_result.splits)
  note ends = configure_all_ends [OF cls]
  have look: "repo_Clients r c = find (\<lambda>cl. cl_ChainId cl = c) (rev cls)" for c
    by (simp add: r add_clients_lookup split: option.splits)
  have "c \<in> dom (repo_Clients r) \<longleftrightarrow> c \<in> cl_ChainId ` set cls" for c
    unfolding domIff look by (auto simp: find_None_iff)
  moreover have "cl_ChainId ` set cls = client_id ` set Cs" using ends by (metis set_map)
  ultimately show "dom (repo_Clients r) = client_id ` set Cs" by blast
  show "repo_Clients r c = Some cl \<Longrightarrow> cl_ChainId cl = c \<and> length (cl_ChildClients cl) = cl_WorkersCount cl"
    using find_id [of c "rev cls" cl] ends by (auto simp: look)
qed

lemma repository_workers:
  assumes "clients_repository K Cs = Returned r" and "\<forall>C \<in> set Cs. has_keys C" and "repo_Clients r c = Some cl"
  shows "0 < cl_WorkersCount cl"
proof -
  from assms(1) obtain cls where cls: "configure_all K Cs = Returned cls"
    and r: "repo_Clients r = add_clients cl_ChainId (\<lambda>cl. cl) cls Map.empty"
    by (auto simp: clients_repository_def NewClientsRepository_def repo_Clients_def split: go_result.splits)
  have "find (\<lambda>cl. cl_ChainId cl = c) (rev cls) = Some cl"
    using assms(3) by (simp add: r add_clients_lookup split: option.splits)
  with find_id [of c "rev cls" cl] configure_all_workers [OF cls assms(2)] show ?thesis by simp
qed

subsection \<open>Panics of the broadcaster\<close>

lemma picks:
  assumes "Intn_contract E" and "clients_ready b" and "repo_Client (b_clientsRepo b) c = Inr cl"
  shows "pick_random E (cl_ChildClients cl) w \<noteq> (Panic m, w')"
proof -
  from assms(2,3) have "cl_ChildClients cl \<noteq> []"
    by (auto simp: clients_ready_def repo_Client_def split: option.splits)
  from pick_random_ready [OF assms(1) this, of w] show ?thesis by auto
qed

lemma BroadcastDeposit_returns:
  assumes "Intn_contract E" and "clients_ready b"
  shows "returned (fst (BroadcastDeposit E b d w))"
proof -
  note no = picks [OF assms]
  have "ensures (\<lambda>q w'. returned q) (BroadcastDeposit E b d w)"
    unfolding BroadcastDeposit_def BroadcastDeposit_accept_def Let_def by (intro flow) (simp_all add: no)
  then show ?thesis by (simp add: ensures_def)
qed

lemma CatchUp_returns:
  assumes "Intn_contract E" and "clients_ready b"
  shows "returned (fst (CatchUp E b d w))"
proof -
  note no = picks [OF assms]
  have "ensures (\<lambda>q w'. returned q) (CatchUp E b d w)"
    unfolding CatchUp_def Let_def by (intro flow) (simp_all add: no)
  then show ?thesis by (simp add: ensures_def)
qed

lemma BroadcastEpoch_returns:
  assumes "Intn_contract E" and "clients_ready b"
  shows "returned (fst (BroadcastEpoch E b e w))"
proof -
  note no = picks [OF assms]
  have "ensures (\<lambda>q w'. returned q) (BroadcastEpoch E b e w)"
    unfolding BroadcastEpoch_def Let_def by (intro flow) (simp_all add: no)
  then show ?thesis by (simp add: ensures_def)
qed

lemma CatchUpEpoch_returns:
  assumes "Intn_contract E" and "clients_ready b"
  shows "returned (fst (CatchUpEpoch E b e w))"
proof -
  note no = picks [OF assms]
  have "ensures (\<lambda>q w'. returned q) (CatchUpEpoch E b e w)"
    unfolding CatchUpEpoch_def Let_def by (intro flow) (simp_all add: no)
  then show ?thesis by (simp add: ensures_def)
qed

subsection \<open>The service\<close>

lemma runService_parts:
  assumes "runService K F core_of recovery sv0 w = (Returned (Inr sv), w')"
  obtains chs Cs x r where "Chains (cf_chains F) (cf_getter F) = Returned chs"
    and "Clients K chs (w_ext w) = (Returned Cs, x)" and "clients_repository K Cs = Returned r"
    and "a_clients (sv_api sv) = r" and "sv_boot sv = NewBroadcaster (a_connector (sv_api sv))"
    and "o_broadcaster (sv_observer sv) = sv_boot sv" and "sv_env sv = sv_env sv0"
proof -
  obtain chs where chs: "Chains (cf_chains F) (cf_getter F) = Returned chs"
    using assms by (auto simp: runService_def go_then_Returned)
  obtain q x where q: "Clients K chs (w_ext w) = (q, x)" by fastforce
  then obtain Cs where Cs: "q = Returned Cs"
    using assms chs by (auto simp: runService_def go_then_Returned Let_def)
  obtain r where r: "clients_repository K Cs = Returned r"
    using assms chs q Cs by (auto simp: runService_def go_then_Returned Let_def)
  let ?w = "w\<lparr>w_ext := x\<rparr>"
  obtain retrier core where core: "retrier_config (cf_retrier F) (cf_getter F) = Returned retrier"
    "CoreConnectorConfig (cf_connector F) (cf_NewClient F) (cf_getter F) = Returned core"
    using assms chs q Cs r by (auto simp: runService_def go_then_Returned Let_def)
  obtain k w1 where k: "NewConnector (core_of (cc_Connection core)) (cc_Account core) (cc_Settings core) ?w = (k, w1)" by fastforce
  then obtain connector where connector: "k = Inr connector"
    using assms chs q Cs r core by (cases k) (auto simp: runService_def Let_def)
  have "a_clients (sv_api sv) = r \<and> sv_boot sv = NewBroadcaster (a_connector (sv_api sv))
    \<and> o_broadcaster (sv_observer sv) = sv_boot sv \<and> sv_env sv = sv_env sv0"
    using assms chs q Cs r core k connector
    by (auto simp: runService_def go_then_Returned Let_def)
  with chs q Cs r that show ?thesis by blast
qed

lemma goroutines_parts:
  assumes "goroutines_started F distance needed sv1 = Returned sv"
  shows "b_clientsRepo (sv_boot sv) = a_clients (sv_api sv1)"
    and "b_coreConnector (sv_boot sv) = b_coreConnector (sv_boot sv1)"
    and "needed \<Longrightarrow> o_clientsRepo (sv_observer sv) = a_clients (sv_api sv1)"
    and "o_broadcaster (sv_observer sv) = sv_boot sv"
    and "sv_api sv = sv_api sv1" and "sv_env sv = sv_env sv1"
    and "0 \<le> sint (b_submitTxPoolSize (sv_boot sv))"
    and "repo_Clients (a_clients (sv_api sv1)) \<noteq> Map.empty \<Longrightarrow> 0 \<le> sint (b_chainTxPoolSize (sv_boot sv))"
  using assms
  by (auto simp: goroutines_started_def broadcaster_goroutine_def observer_goroutine_def Let_def
      WithClients_def WithChainTxPoolSize_def WithSubmitTxPoolSize_def WithSubmitBatchSize_def
      WithClientsRepo_def WithPollingInterval_def WithBlockDelay_def WithBlockDistance_def
      split: go_result.splits if_splits)

text \<open>
  C9: A service that \<open>runService\<close> puts together from a file in which each chain lists an operator key
  is ready once the goroutines of the broadcaster and of the observer have made their settings (before
  that the broadcaster has no clients). The API, the broadcaster and the observer, if it is asked for,
  then have the same clients, and the observer works on the same broadcaster and the API with the same
  connector; there is a client for each configured chain and for no other, with its own id, and it has
  a worker at least and one child per worker. So, for a random source that keeps its law, none of the
  four handlers that pick a child (\<open>BroadcastDeposit\<close>, \<open>CatchUp\<close>, \<open>BroadcastEpoch\<close>, \<open>CatchUpEpoch\<close>)
  panics, whatever it is given, and the channels have sizes that are not negative.
\<close>

theorem started_service_is_ready:
  assumes "runService K F core_of recovery sv0 w = (Returned (Inr sv1), w')"
    and "goroutines_started F distance needed sv1 = Returned sv"
    and "Chains (cf_chains F) (cf_getter F) = Returned chs"
    and "\<forall>ch \<in> set chs. ch_OperatorsPrivateKeys ch \<noteq> []"
    and "Intn_contract (sv_env sv0)"
  shows "a_clients (sv_api sv) = b_clientsRepo (sv_boot sv)
      \<and> (needed \<longrightarrow> o_clientsRepo (sv_observer sv) = b_clientsRepo (sv_boot sv))
      \<and> o_broadcaster (sv_observer sv) = sv_boot sv \<and> a_connector (sv_api sv) = b_coreConnector (sv_boot sv)
      \<and> sv_env sv = sv_env sv0
      \<and> dom (repo_Clients (b_clientsRepo (sv_boot sv))) = ch_Id ` set chs
      \<and> (\<forall>c \<in> ch_Id ` set chs. \<exists>cl. repo_Client (b_clientsRepo (sv_boot sv)) c = Inr cl \<and> cl_ChainId cl = c
          \<and> length (cl_ChildClients cl) = workers_of (sv_boot sv) c \<and> 0 < workers_of (sv_boot sv) c)
      \<and> returned (fst (BroadcastDeposit (sv_env sv) (sv_boot sv) d v))
      \<and> returned (fst (CatchUp (sv_env sv) (sv_boot sv) d v))
      \<and> returned (fst (BroadcastEpoch (sv_env sv) (sv_boot sv) e v))
      \<and> returned (fst (CatchUpEpoch (sv_env sv) (sv_boot sv) e v))
      \<and> 0 \<le> sint (b_submitTxPoolSize (sv_boot sv)) \<and> (chs \<noteq> [] \<longrightarrow> 0 \<le> sint (b_chainTxPoolSize (sv_boot sv)))"
proof -
  let ?r = "b_clientsRepo (sv_boot sv)"
  note go = goroutines_parts [OF assms(2)]
  from assms(1) obtain Cs x where Cs: "Clients K chs (w_ext w) = (Returned Cs, x)" "clients_repository K Cs = Returned ?r"
    and boot: "sv_boot sv1 = NewBroadcaster (a_connector (sv_api sv1))" and env: "sv_env sv = sv_env sv0"
    by (rule runService_parts) (use assms(3) go in auto)
  have ids: "client_id ` set Cs = ch_Id ` set chs" using Clients_ids [OF Cs(1)] by (metis set_map)
  have dom: "dom (repo_Clients ?r) = ch_Id ` set chs" using repository_ends(1) [OF Cs(2)] ids by simp
  have keys: "\<forall>C \<in> set Cs. has_keys C" by (rule Clients_keys [OF Cs(1) assms(4)])
  have each: "repo_Client ?r c = Inr cl \<and> cl_ChainId cl = c \<and> length (cl_ChildClients cl) = workers_of (sv_boot sv) c
      \<and> 0 < workers_of (sv_boot sv) c"
    if "repo_Clients ?r c = Some cl" for c cl
    using repository_ends(2) [OF Cs(2) that] repository_workers [OF Cs(2) keys that] that
    by (simp add: workers_of_def repo_Client_def repo_Clients_def)
  have "cl_ChildClients cl \<noteq> []" if "repo_Clients ?r c = Some cl" for c cl
    using each [OF that] by auto
  then have ready: "clients_ready (sv_boot sv)" by (simp add: clients_ready_def repo_Clients_def)
  have intn: "Intn_contract (sv_env sv)" using assms(5) env by simp
  have connector: "a_connector (sv_api sv) = b_coreConnector (sv_boot sv)"
    using go(2,5) boot by (simp add: NewBroadcaster_def)
  have served: "\<forall>c \<in> ch_Id ` set chs. \<exists>cl. repo_Client ?r c = Inr cl \<and> cl_ChainId cl = c
        \<and> length (cl_ChildClients cl) = workers_of (sv_boot sv) c \<and> 0 < workers_of (sv_boot sv) c"
    using each dom by blast
  have room: "chs \<noteq> [] \<longrightarrow> 0 \<le> sint (b_chainTxPoolSize (sv_boot sv))"
  proof
    assume "chs \<noteq> []"
    with dom go(1) have "repo_Clients (a_clients (sv_api sv1)) \<noteq> Map.empty" by auto
    then show "0 \<le> sint (b_chainTxPoolSize (sv_boot sv))" by (rule go(8))
  qed
  show ?thesis
    using go(1,3-5,7) env dom served connector room BroadcastDeposit_returns [OF intn ready]
      CatchUp_returns [OF intn ready] BroadcastEpoch_returns [OF intn ready] CatchUpEpoch_returns [OF intn ready]
    by simp
qed

subsection \<open>A file with one EVM chain and nodes that are off line\<close>

definition refuse :: "'x \<Rightarrow> (go_error + 'a) \<times> 'x" where
  "refuse x = (Inl (Msg ''offline''), x)"

definition demo_kinds :: "(nat, nat, nat, unit, unit, unit, unit) chain_libs" where
  "demo_kinds = \<lparr>kl_evm_figure = demo_figure,
     kl_bind = \<lparr>bl_GetAbi = Inr (), bl_NewBoundContract = \<lambda>a p c t f.
       \<lparr>bc_Call = \<lambda>op m as. refuse, bc_Transact = \<lambda>op m as. refuse, bc_RawTransact = \<lambda>op d. refuse,
        bc_Transfer = \<lambda>op. refuse, bc_FilterLogs = \<lambda>op m q. refuse, bc_WatchLogs = \<lambda>op m q. refuse,
        bc_UnpackLog = \<lambda>m l. ([], None)\<rparr>\<rparr>,
     kl_abi = Inr (), kl_backend = \<lambda>v. (), kl_evm_lib = demo_lib,
     kl_evm_rpc = \<lambda>v. \<lparr>SuggestGasPrice = refuse, ChainID = refuse, PendingNonceAt = \<lambda>a. refuse,
       EstimateGas = \<lambda>m. refuse, HeaderByNumber = refuse, TransactionReceipt = \<lambda>h. refuse,
       BlockReceipts = \<lambda>n. refuse, SubscribeNewHead = \<lambda>x. (None, x), head_events = \<lambda>x. ([], x),
       WaitMined = \<lambda>h. refuse\<rparr>,
     kl_evm_retry = \<lparr>rt_Retries = 1, rt_header = retry_ref, rt_finalize = retry_ref\<rparr>,
     kl_sol_figure = \<lparr>sfig_Meta = \<lambda>v. Inr ([], False), sfig_Rpc = \<lambda>v. Inr (), sfig_PublicKey = \<lambda>v. Inr [],
       sfig_Wallet = \<lambda>s. Inl (Msg s), sfig_int64 = Inr, sfig_int = Inr, ws_Connect = \<lambda>b. None\<rparr>,
     kl_sol_lib = demo_sol_lib,
     kl_sol_rpc = \<lambda>v. \<lparr>GetLatestBlockhash = refuse, GetAccountInfo = \<lambda>k. refuse,
       GetAccountInfoWithOpts = \<lambda>k. refuse, SendAndConfirm = \<lambda>t. refuse\<rparr>,
     kl_Retries = 1, kl_sol_retry = retry_ref,
     kl_ton_figure = \<lparr>tfig_Address = \<lambda>v. Inl (Msg ''no address''), tfig_RPC = \<lambda>v. Inr (),
       tfig_hexutil_Decode = \<lambda>s. Inr [], tfig_int = Inr\<rparr>,
     kl_ton_lite = \<lparr>lc_AddConnections = \<lambda>u. None, lc_GetConfig = \<lambda>u. Inr ()\<rparr>, kl_ton_lib = demo_ton_lib,
     kl_ton_api = \<lambda>g. \<lparr>GetMasterchainInfo = refuse, CurrentMasterchainInfo = refuse,
       GetAccount_IsActive = \<lambda>b a. refuse, RunGetMethod = \<lambda>b a m as. refuse,
       SendManyWaitTxHash = \<lambda>k ms. refuse\<rparr>,
     kl_ton_url = \<lambda>v. [], kl_ton_key = \<lambda>k. Inr 0, kl_Intn = \<lambda>n x. (0, x)\<rparr>"

definition demo_file :: "(nat, unit, unit, unit) config_libs" where
  "demo_file = \<lparr>cf_getter = \<lambda>key. Inr 0, cf_chains = \<lambda>v. Inr [demo_config],
     cf_retrier = \<lambda>v. Inr \<lparr>rt_RetryAttempts = 3, rt_RetryTimeout = 1\<rparr>,
     cf_connector = \<lambda>v. Inr (\<lparr>acc_prv = [], acc_addr = ''bridge1''\<rparr>,
       \<lparr>set_ChainId = ''bridge_1'', set_Denom = ''abridge'', set_MinGasPrice = 1\<rparr>,
       \<lparr>cn_Addr = ''core:9090'', cn_EnableTLS = True\<rparr>),
     cf_NewClient = \<lambda>a t. Inr (), cf_tendermint = \<lambda>v. Inr ''http://core:26657'',
     cf_http = \<lparr>http_New = \<lambda>a p. Inr (), http_Start = \<lambda>t. None\<rparr>,
     cf_listeners = \<lambda>v. Inr \<lparr>ls_ApiGrpc = (), ls_ApiHttp = ()\<rparr>,
     cf_broadcaster = \<lambda>v. Inr \<lparr>bc_TxPoolSize = 10, bc_SubmitTxPoolSize = 10, bc_SubmitBatchSize = 1\<rparr>,
     cf_observer = \<lambda>v. Inr 5, cf_block_delay = \<lambda>v. Inr 6\<rparr>"

definition demo_node :: "unit sol_state core_client" where
  "demo_node = \<lparr>cq_TransactionById = (\<lambda>c h n. refuse), cq_Account = (\<lambda>a x. (Inr [], x)),
     cq_BroadcastTx = (\<lambda>t. refuse), sdk_UnmarshalAccount = (\<lambda>v. Inr \<lparr>acc_AccountNumber = 1, acc_Sequence = 2\<rparr>),
     sdk_SetMsgs = (\<lambda>ms. None), sdk_NewInt64Coin = (\<lambda>d n. Returned (d, n)), sdk_SetSignatures = (\<lambda>s. None),
     sdk_SignWithPrivKey = (\<lambda>c n q k t. Inr [1]), sdk_TxEncoder = (\<lambda>t. Inr [2])\<rparr>"

lemma demo_chains: "Chains (cf_chains demo_file) (cf_getter demo_file) = Returned [demo_config]"
  by (simp add: Chains_def figure_out_def demo_file_def)

lemma demo_client_made:
  "\<exists>C. make_client demo_kinds demo_config s = (Returned (EvmC C), s) \<and> ec_chain C = ec_chain demo_dealt \<and> ec_lib C = demo_lib"
proof -
  have from_chain: "FromChain demo_figure demo_config = Returned (ec_chain demo_dealt)"
    by (simp add: FromChain_def demo_figure_def demo_config_def demo_dealt_def EVMHooks_def wrap_then_def)
  have type: "ch_Type demo_config = ''EVM''" by (simp add: demo_config_def)
  show ?thesis
    by (simp add: make_client_def type demo_kinds_def from_chain evm_NewBridgeClient_def NewBridge_def bindBridge_def)
qed

lemma demo_repository:
  "\<exists>Cs r. Clients demo_kinds [demo_config] s = (Returned Cs, s) \<and> clients_repository demo_kinds Cs = Returned r
     \<and> workers_of (WithClients b r) ''1'' = 2"
proof -
  obtain C where C: "make_client demo_kinds demo_config s = (Returned (EvmC C), s)" "ec_chain C = ec_chain demo_dealt"
    "ec_lib C = demo_lib"
    using demo_client_made by blast
  then have "\<exists>childs. evm_ConfigureChildClients C = Returned childs"
    unfolding evm_ConfigureChildClients_def ConfigureChildClients_returned by (simp add: demo_dealt_def)
  then obtain childs where childs: "evm_ConfigureChildClients C = Returned childs" ..
  then obtain r where r: "clients_repository demo_kinds [EvmC C] = Returned r"
    by (simp add: clients_repository_def evm_configured_def)
  have "workers_of (WithClients b r) ''1'' = 2"
    using r childs C(2) by (auto simp: clients_repository_def evm_configured_def NewClientsRepository_def
        workers_of_def WithClients_def repo_Clients_def demo_dealt_def)
  with C(1) r show ?thesis by simp
qed

lemma demo_runs:
  "\<exists>sv1 w' sv. runService demo_kinds demo_file (\<lambda>c. demo_node) \<lparr>rc_RecoveryAttempts = 5, rc_RecoveryTimeout = 60\<rparr> sv0 w
     = (Returned (Inr sv1), w') \<and> goroutines_started demo_file 0 True sv1 = Returned sv"
proof -
  obtain Cs r where Cs: "Clients demo_kinds [demo_config] (w_ext w) = (Returned Cs, w_ext w)"
      "clients_repository demo_kinds Cs = Returned r"
    using demo_repository by blast
  have "\<exists>sv1 w'. runService demo_kinds demo_file (\<lambda>c. demo_node) \<lparr>rc_RecoveryAttempts = 5, rc_RecoveryTimeout = 60\<rparr> sv0 w
     = (Returned (Inr sv1), w')"
    by (simp add: runService_def Chains_def Cs Let_def retrier_config_def CoreConnectorConfig_def figure_out_def
        demo_file_def NewConnector_def getAccountData_def demo_node_def ext_call_def TendermintHttpClient_def
        tendermint_config_def listener_config_def del: Clients.simps)
  moreover have "\<exists>sv. goroutines_started demo_file 0 True sv1 = Returned sv" for sv1 :: "unit sol_state service"
    by (simp add: goroutines_started_def broadcaster_goroutine_def observer_goroutine_def demo_file_def
        broadcaster_config_def observer_config_def block_delay_config_def figure_out_def Let_def
        WithSubmitTxPoolSize_def WithChainTxPoolSize_def WithSubmitBatchSize_def WithClients_def)
  ultimately show ?thesis by blast
qed

definition offline_env :: "'x env" where
  "offline_env = \<lparr>x_sql = \<lambda>x. (None, x), x_now = \<lambda>x. (0, x), x_Intn = \<lambda>n x. (0, x), x_ABCIInfo = refuse\<rparr>"

abbreviation demo_run :: "unit sol_state service \<Rightarrow> unit sol_state world \<Rightarrow> (go_error + unit sol_state service) go_result \<times> unit sol_state world" where
  "demo_run sv0 w \<equiv> runService demo_kinds demo_file (\<lambda>c. demo_node) \<lparr>rc_RecoveryAttempts = 5, rc_RecoveryTimeout = 60\<rparr>
     (sv0\<lparr>sv_env := offline_env\<rparr>) w"

theorem started_service_is_ready_witness:
  "\<forall>sv0 w d. \<exists>sv1 w' sv. demo_run sv0 w = (Returned (Inr sv1), w')
     \<and> goroutines_started demo_file 0 True sv1 = Returned sv
     \<and> dom (repo_Clients (b_clientsRepo (sv_boot sv))) = {''1''}
     \<and> 0 < workers_of (sv_boot sv) ''1'' \<and> returned (fst (BroadcastDeposit offline_env (sv_boot sv) d w'))"
proof (intro allI)
  fix sv0 w d
  fix e :: Epoch
  obtain sv1 w' sv where run: "demo_run sv0 w = (Returned (Inr sv1), w')"
    and go: "goroutines_started demo_file 0 True sv1 = Returned sv" using demo_runs by blast
  have keys: "\<forall>ch \<in> set [demo_config]. ch_OperatorsPrivateKeys ch \<noteq> []" by (simp add: demo_config_def)
  have intn: "Intn_contract (sv_env (sv0\<lparr>sv_env := offline_env\<rparr>))" by (simp add: Intn_contract_def offline_env_def)
  note started = started_service_is_ready [OF run go demo_chains keys intn, of d w' e]
  have env: "sv_env sv = offline_env" using started by simp
  have "dom (repo_Clients (b_clientsRepo (sv_boot sv))) = {''1''}" "0 < workers_of (sv_boot sv) ''1''"
    "returned (fst (BroadcastDeposit offline_env (sv_boot sv) d w'))"
    using started unfolding env by (simp_all add: demo_config_def) (elim conjE exE, assumption)
  with run go show "\<exists>sv1 w' sv. demo_run sv0 w = (Returned (Inr sv1), w')
     \<and> goroutines_started demo_file 0 True sv1 = Returned sv
     \<and> dom (repo_Clients (b_clientsRepo (sv_boot sv))) = {''1''}
     \<and> 0 < workers_of (sv_boot sv) ''1'' \<and> returned (fst (BroadcastDeposit offline_env (sv_boot sv) d w'))"
    by (intro exI conjI)
qed

end
