(* ===== verification/Solana_Accessors.thy ===== *)
theory Solana_Accessors
  imports Solana_Instructions Solana_Other_Instructions
begin

text \<open>
  The accessors of the generated instructions under \<open>internal/core/chain/solana/contract\<close>: the getters of the
  accounts and the exported variants of the searches for program addresses. The service does not
  call them.
\<close>

subsection \<open>What they share\<close>

text \<open>\<open>AccountMetaSlice.Get\<close> of the Solana library: the entry at an index, nil when there is none.\<close>

type_synonym slice_get = "AccountMeta option list \<Rightarrow> nat \<Rightarrow> AccountMeta option"

definition get_contract :: "slice_get \<Rightarrow> bool" where
  "get_contract Get \<longleftrightarrow> (\<forall>ms n. Get ms n = (if n < length ms then ms ! n else None))"

text \<open>\<open>Must...\<close>: the address without its bump seed, or a panic with the error.\<close>

definition must :: "go_error + pubkey \<times> byte \<Rightarrow> pubkey go_result" where
  "must r = (case r of Inl err \<Rightarrow> Panic (error_text err) | Inr (pda, _) \<Rightarrow> Returned pda)"

lemma must_Returned: "must r = Returned pda \<longleftrightarrow> (\<exists>bump. r = Inr (pda, bump))"
  by (auto simp: must_def split: sum.splits)

lemma must_Panic: "must r = Panic m \<longleftrightarrow> (\<exists>err. r = Inl err \<and> m = error_text err)"
  by (auto simp: must_def split: sum.splits)

text \<open>
  With a known bump seed the address does not depend on it: the code appends its own result, which is still 0.
\<close>

lemma must_known_bump:
  "k \<noteq> 0 \<Longrightarrow> l \<noteq> 0 \<Longrightarrow> must (find_address S programID seeds k) = must (find_address S programID seeds l)"
  by (auto simp: find_address_def split: sum.splits)

lemma get_set: "get_contract Get \<Longrightarrow> n < length ms \<Longrightarrow> Get (ms[n := m]) n = m"
  by (simp add: get_contract_def)

lemma get_other: "get_contract Get \<Longrightarrow> n \<noteq> k \<Longrightarrow> Get (ms[n := m]) k = Get ms k"
  by (simp add: get_contract_def)

subsection \<open>\<open>WithdrawNative\<close> (\<open>withdraw_native.go\<close>)\<close>

definition WithdrawNative_GetReceiverAccount :: "slice_get \<Rightarrow> WithdrawNative \<Rightarrow> AccountMeta option" where
  "WithdrawNative_GetReceiverAccount Get inst = Get (wn_AccountMetaSlice inst) 0"
definition WithdrawNative_GetAuthorityAccount :: "slice_get \<Rightarrow> WithdrawNative \<Rightarrow> AccountMeta option" where
  "WithdrawNative_GetAuthorityAccount Get inst = Get (wn_AccountMetaSlice inst) 1"
definition WithdrawNative_MustfindAuthorityAddressWithBumpSeed :: "pda_lib \<Rightarrow> pubkey \<Rightarrow> string \<Rightarrow> byte \<Rightarrow> pubkey go_result" where
  "WithdrawNative_MustfindAuthorityAddressWithBumpSeed S programID bridgeId bumpSeed = must (WithdrawNative_findAuthorityAddress S programID bridgeId bumpSeed)"
definition WithdrawNative_FindAuthorityAddress :: "pda_lib \<Rightarrow> pubkey \<Rightarrow> string \<Rightarrow> go_error + pubkey \<times> byte" where
  "WithdrawNative_FindAuthorityAddress S programID bridgeId = WithdrawNative_findAuthorityAddress S programID bridgeId 0"
definition WithdrawNative_MustFindAuthorityAddress :: "pda_lib \<Rightarrow> pubkey \<Rightarrow> string \<Rightarrow> pubkey go_result" where
  "WithdrawNative_MustFindAuthorityAddress S programID bridgeId = must (WithdrawNative_findAuthorityAddress S programID bridgeId 0)"
definition WithdrawNative_GetTxUsedAccount :: "slice_get \<Rightarrow> WithdrawNative \<Rightarrow> AccountMeta option" where
  "WithdrawNative_GetTxUsedAccount Get inst = Get (wn_AccountMetaSlice inst) 2"
definition WithdrawNative_MustfindTxUsedAddressWithBumpSeed :: "pda_lib \<Rightarrow> pubkey \<Rightarrow> bytes \<Rightarrow> string \<Rightarrow> byte \<Rightarrow> pubkey go_result" where
  "WithdrawNative_MustfindTxUsedAddressWithBumpSeed S programID hash bridgeId bumpSeed = must (WithdrawNative_findTxUsedAddress S programID hash bridgeId bumpSeed)"
definition WithdrawNative_FindTxUsedAddress :: "pda_lib \<Rightarrow> pubkey \<Rightarrow> bytes \<Rightarrow> string \<Rightarrow> go_error + pubkey \<times> byte" where
  "WithdrawNative_FindTxUsedAddress S programID hash bridgeId = WithdrawNative_findTxUsedAddress S programID hash bridgeId 0"
definition WithdrawNative_MustFindTxUsedAddress :: "pda_lib \<Rightarrow> pubkey \<Rightarrow> bytes \<Rightarrow> string \<Rightarrow> pubkey go_result" where
  "WithdrawNative_MustFindTxUsedAddress S programID hash bridgeId = must (WithdrawNative_findTxUsedAddress S programID hash bridgeId 0)"
definition WithdrawNative_GetSignerAccount :: "slice_get \<Rightarrow> WithdrawNative \<Rightarrow> AccountMeta option" where
  "WithdrawNative_GetSignerAccount Get inst = Get (wn_AccountMetaSlice inst) 3"
definition WithdrawNative_GetSystemProgramAccount :: "slice_get \<Rightarrow> WithdrawNative \<Rightarrow> AccountMeta option" where
  "WithdrawNative_GetSystemProgramAccount Get inst = Get (wn_AccountMetaSlice inst) 4"

lemma WithdrawNative_getters:
  assumes "get_contract Get" and "length (wn_AccountMetaSlice inst) = 5"
  shows "WithdrawNative_GetReceiverAccount Get (WithdrawNative_SetReceiverAccount v inst) = Some (WRITE (Meta v))"
    and "WithdrawNative_GetAuthorityAccount Get (WithdrawNative_SetAuthorityAccount v inst) = Some (WRITE (Meta v))"
    and "WithdrawNative_GetTxUsedAccount Get (WithdrawNative_SetTxUsedAccount v inst) = Some (WRITE (Meta v))"
    and "WithdrawNative_GetSignerAccount Get (WithdrawNative_SetSignerAccount v inst) = Some (SIGNER (WRITE (Meta v)))"
    and "WithdrawNative_GetSystemProgramAccount Get (WithdrawNative_SetSystemProgramAccount v inst) = Some (Meta v)"
  using assms by (simp_all add: get_set WithdrawNative_GetReceiverAccount_def
    WithdrawNative_GetAuthorityAccount_def
    WithdrawNative_GetTxUsedAccount_def
    WithdrawNative_GetSignerAccount_def
    WithdrawNative_GetSystemProgramAccount_def WithdrawNative_SetReceiverAccount_def
    WithdrawNative_SetAuthorityAccount_def
    WithdrawNative_SetTxUsedAccount_def
    WithdrawNative_SetSignerAccount_def
    WithdrawNative_SetSystemProgramAccount_def)

subsection \<open>\<open>WithdrawSpl\<close> (\<open>withdraw_spl.go\<close>)\<close>

definition WithdrawSpl_GetMintAccount :: "slice_get \<Rightarrow> WithdrawSpl \<Rightarrow> AccountMeta option" where
  "WithdrawSpl_GetMintAccount Get inst = Get (ws_AccountMetaSlice inst) 0"
definition WithdrawSpl_GetSplVaultAccount :: "slice_get \<Rightarrow> WithdrawSpl \<Rightarrow> AccountMeta option" where
  "WithdrawSpl_GetSplVaultAccount Get inst = Get (ws_AccountMetaSlice inst) 1"
definition WithdrawSpl_MustfindSplVaultAddressWithBumpSeed :: "pda_lib \<Rightarrow> pubkey \<Rightarrow> pubkey \<Rightarrow> string \<Rightarrow> byte \<Rightarrow> pubkey go_result" where
  "WithdrawSpl_MustfindSplVaultAddressWithBumpSeed S programID mint bridgeId bumpSeed = must (WithdrawSpl_findSplVaultAddress S programID mint bridgeId bumpSeed)"
definition WithdrawSpl_FindSplVaultAddress :: "pda_lib \<Rightarrow> pubkey \<Rightarrow> pubkey \<Rightarrow> string \<Rightarrow> go_error + pubkey \<times> byte" where
  "WithdrawSpl_FindSplVaultAddress S programID mint bridgeId = WithdrawSpl_findSplVaultAddress S programID mint bridgeId 0"
definition WithdrawSpl_MustFindSplVaultAddress :: "pda_lib \<Rightarrow> pubkey \<Rightarrow> pubkey \<Rightarrow> string \<Rightarrow> pubkey go_result" where
  "WithdrawSpl_MustFindSplVaultAddress S programID mint bridgeId = must (WithdrawSpl_findSplVaultAddress S programID mint bridgeId 0)"
definition WithdrawSpl_GetReceiverAccount :: "slice_get \<Rightarrow> WithdrawSpl \<Rightarrow> AccountMeta option" where
  "WithdrawSpl_GetReceiverAccount Get inst = Get (ws_AccountMetaSlice inst) 2"
definition WithdrawSpl_GetAuthorityAccount :: "slice_get \<Rightarrow> WithdrawSpl \<Rightarrow> AccountMeta option" where
  "WithdrawSpl_GetAuthorityAccount Get inst = Get (ws_AccountMetaSlice inst) 3"
definition WithdrawSpl_MustfindAuthorityAddressWithBumpSeed :: "pda_lib \<Rightarrow> pubkey \<Rightarrow> string \<Rightarrow> byte \<Rightarrow> pubkey go_result" where
  "WithdrawSpl_MustfindAuthorityAddressWithBumpSeed S programID bridgeId bumpSeed = must (WithdrawSpl_findAuthorityAddress S programID bridgeId bumpSeed)"
definition WithdrawSpl_FindAuthorityAddress :: "pda_lib \<Rightarrow> pubkey \<Rightarrow> string \<Rightarrow> go_error + pubkey \<times> byte" where
  "WithdrawSpl_FindAuthorityAddress S programID bridgeId = WithdrawSpl_findAuthorityAddress S programID bridgeId 0"
definition WithdrawSpl_MustFindAuthorityAddress :: "pda_lib \<Rightarrow> pubkey \<Rightarrow> string \<Rightarrow> pubkey go_result" where
  "WithdrawSpl_MustFindAuthorityAddress S programID bridgeId = must (WithdrawSpl_findAuthorityAddress S programID bridgeId 0)"
definition WithdrawSpl_GetTxUsedAccount :: "slice_get \<Rightarrow> WithdrawSpl \<Rightarrow> AccountMeta option" where
  "WithdrawSpl_GetTxUsedAccount Get inst = Get (ws_AccountMetaSlice inst) 4"
definition WithdrawSpl_MustfindTxUsedAddressWithBumpSeed :: "pda_lib \<Rightarrow> pubkey \<Rightarrow> bytes \<Rightarrow> string \<Rightarrow> byte \<Rightarrow> pubkey go_result" where
  "WithdrawSpl_MustfindTxUsedAddressWithBumpSeed S programID hash bridgeId bumpSeed = must (WithdrawSpl_findTxUsedAddress S programID hash bridgeId bumpSeed)"
definition WithdrawSpl_FindTxUsedAddress :: "pda_lib \<Rightarrow> pubkey \<Rightarrow> bytes \<Rightarrow> string \<Rightarrow> go_error + pubkey \<times> byte" where
  "WithdrawSpl_FindTxUsedAddress S programID hash bridgeId = WithdrawSpl_findTxUsedAddress S programID hash bridgeId 0"
definition WithdrawSpl_MustFindTxUsedAddress :: "pda_lib \<Rightarrow> pubkey \<Rightarrow> bytes \<Rightarrow> string \<Rightarrow> pubkey go_result" where
  "WithdrawSpl_MustFindTxUsedAddress S programID hash bridgeId = must (WithdrawSpl_findTxUsedAddress S programID hash bridgeId 0)"
definition WithdrawSpl_GetSignerAccount :: "slice_get \<Rightarrow> WithdrawSpl \<Rightarrow> AccountMeta option" where
  "WithdrawSpl_GetSignerAccount Get inst = Get (ws_AccountMetaSlice inst) 5"
definition WithdrawSpl_GetSystemProgramAccount :: "slice_get \<Rightarrow> WithdrawSpl \<Rightarrow> AccountMeta option" where
  "WithdrawSpl_GetSystemProgramAccount Get inst = Get (ws_AccountMetaSlice inst) 6"
definition WithdrawSpl_GetTokenProgramAccount :: "slice_get \<Rightarrow> WithdrawSpl \<Rightarrow> AccountMeta option" where
  "WithdrawSpl_GetTokenProgramAccount Get inst = Get (ws_AccountMetaSlice inst) 7"

lemma WithdrawSpl_getters:
  assumes "get_contract Get" and "length (ws_AccountMetaSlice inst) = 8"
  shows "WithdrawSpl_GetMintAccount Get (WithdrawSpl_SetMintAccount v inst) = Some (Meta v)"
    and "WithdrawSpl_GetSplVaultAccount Get (WithdrawSpl_SetSplVaultAccount v inst) = Some (WRITE (Meta v))"
    and "WithdrawSpl_GetReceiverAccount Get (WithdrawSpl_SetReceiverAccount v inst) = Some (WRITE (Meta v))"
    and "WithdrawSpl_GetAuthorityAccount Get (WithdrawSpl_SetAuthorityAccount v inst) = Some (Meta v)"
    and "WithdrawSpl_GetTxUsedAccount Get (WithdrawSpl_SetTxUsedAccount v inst) = Some (WRITE (Meta v))"
    and "WithdrawSpl_GetSignerAccount Get (WithdrawSpl_SetSignerAccount v inst) = Some (SIGNER (WRITE (Meta v)))"
    and "WithdrawSpl_GetSystemProgramAccount Get (WithdrawSpl_SetSystemProgramAccount v inst) = Some (Meta v)"
    and "WithdrawSpl_GetTokenProgramAccount Get (WithdrawSpl_SetTokenProgramAccount v inst) = Some (Meta v)"
  using assms by (simp_all add: get_set WithdrawSpl_GetMintAccount_def
    WithdrawSpl_GetSplVaultAccount_def
    WithdrawSpl_GetReceiverAccount_def
    WithdrawSpl_GetAuthorityAccount_def
    WithdrawSpl_GetTxUsedAccount_def
    WithdrawSpl_GetSignerAccount_def
    WithdrawSpl_GetSystemProgramAccount_def
    WithdrawSpl_GetTokenProgramAccount_def WithdrawSpl_SetMintAccount_def
    WithdrawSpl_SetSplVaultAccount_def
    WithdrawSpl_SetReceiverAccount_def
    WithdrawSpl_SetAuthorityAccount_def
    WithdrawSpl_SetTxUsedAccount_def
    WithdrawSpl_SetSignerAccount_def
    WithdrawSpl_SetSystemProgramAccount_def
    WithdrawSpl_SetTokenProgramAccount_def)

subsection \<open>\<open>WithdrawWrapped\<close> (\<open>withdraw_wrapped.go\<close>)\<close>

definition WithdrawWrapped_GetMintAccount :: "slice_get \<Rightarrow> WithdrawWrapped \<Rightarrow> AccountMeta option" where
  "WithdrawWrapped_GetMintAccount Get inst = Get (ww_AccountMetaSlice inst) 0"
definition WithdrawWrapped_MustfindMintAddressWithBumpSeed :: "pda_lib \<Rightarrow> pubkey \<Rightarrow> string \<Rightarrow> uint64 \<Rightarrow> string \<Rightarrow> byte \<Rightarrow> pubkey go_result" where
  "WithdrawWrapped_MustfindMintAddressWithBumpSeed S programID symbol mintNonce bridgeId bumpSeed = must (WithdrawWrapped_findMintAddress S programID symbol mintNonce bridgeId bumpSeed)"
definition WithdrawWrapped_FindMintAddress :: "pda_lib \<Rightarrow> pubkey \<Rightarrow> string \<Rightarrow> uint64 \<Rightarrow> string \<Rightarrow> go_error + pubkey \<times> byte" where
  "WithdrawWrapped_FindMintAddress S programID symbol mintNonce bridgeId = WithdrawWrapped_findMintAddress S programID symbol mintNonce bridgeId 0"
definition WithdrawWrapped_MustFindMintAddress :: "pda_lib \<Rightarrow> pubkey \<Rightarrow> string \<Rightarrow> uint64 \<Rightarrow> string \<Rightarrow> pubkey go_result" where
  "WithdrawWrapped_MustFindMintAddress S programID symbol mintNonce bridgeId = must (WithdrawWrapped_findMintAddress S programID symbol mintNonce bridgeId 0)"
definition WithdrawWrapped_GetReceiverAccount :: "slice_get \<Rightarrow> WithdrawWrapped \<Rightarrow> AccountMeta option" where
  "WithdrawWrapped_GetReceiverAccount Get inst = Get (ww_AccountMetaSlice inst) 1"
definition WithdrawWrapped_GetAuthorityAccount :: "slice_get \<Rightarrow> WithdrawWrapped \<Rightarrow> AccountMeta option" where
  "WithdrawWrapped_GetAuthorityAccount Get inst = Get (ww_AccountMetaSlice inst) 2"
definition WithdrawWrapped_MustfindAuthorityAddressWithBumpSeed :: "pda_lib \<Rightarrow> pubkey \<Rightarrow> string \<Rightarrow> byte \<Rightarrow> pubkey go_result" where
  "WithdrawWrapped_MustfindAuthorityAddressWithBumpSeed S programID bridgeId bumpSeed = must (WithdrawWrapped_findAuthorityAddress S programID bridgeId bumpSeed)"
definition WithdrawWrapped_FindAuthorityAddress :: "pda_lib \<Rightarrow> pubkey \<Rightarrow> string \<Rightarrow> go_error + pubkey \<times> byte" where
  "WithdrawWrapped_FindAuthorityAddress S programID bridgeId = WithdrawWrapped_findAuthorityAddress S programID bridgeId 0"
definition WithdrawWrapped_MustFindAuthorityAddress :: "pda_lib \<Rightarrow> pubkey \<Rightarrow> string \<Rightarrow> pubkey go_result" where
  "WithdrawWrapped_MustFindAuthorityAddress S programID bridgeId = must (WithdrawWrapped_findAuthorityAddress S programID bridgeId 0)"
definition WithdrawWrapped_GetTxUsedAccount :: "slice_get \<Rightarrow> WithdrawWrapped \<Rightarrow> AccountMeta option" where
  "WithdrawWrapped_GetTxUsedAccount Get inst = Get (ww_AccountMetaSlice inst) 3"
definition WithdrawWrapped_MustfindTxUsedAddressWithBumpSeed :: "pda_lib \<Rightarrow> pubkey \<Rightarrow> bytes \<Rightarrow> string \<Rightarrow> byte \<Rightarrow> pubkey go_result" where
  "WithdrawWrapped_MustfindTxUsedAddressWithBumpSeed S programID hash bridgeId bumpSeed = must (WithdrawWrapped_findTxUsedAddress S programID hash bridgeId bumpSeed)"
definition WithdrawWrapped_FindTxUsedAddress :: "pda_lib \<Rightarrow> pubkey \<Rightarrow> bytes \<Rightarrow> string \<Rightarrow> go_error + pubkey \<times> byte" where
  "WithdrawWrapped_FindTxUsedAddress S programID hash bridgeId = WithdrawWrapped_findTxUsedAddress S programID hash bridgeId 0"
definition WithdrawWrapped_MustFindTxUsedAddress :: "pda_lib \<Rightarrow> pubkey \<Rightarrow> bytes \<Rightarrow> string \<Rightarrow> pubkey go_result" where
  "WithdrawWrapped_MustFindTxUsedAddress S programID hash bridgeId = must (WithdrawWrapped_findTxUsedAddress S programID hash bridgeId 0)"
definition WithdrawWrapped_GetSignerAccount :: "slice_get \<Rightarrow> WithdrawWrapped \<Rightarrow> AccountMeta option" where
  "WithdrawWrapped_GetSignerAccount Get inst = Get (ww_AccountMetaSlice inst) 4"
definition WithdrawWrapped_GetSystemProgramAccount :: "slice_get \<Rightarrow> WithdrawWrapped \<Rightarrow> AccountMeta option" where
  "WithdrawWrapped_GetSystemProgramAccount Get inst = Get (ww_AccountMetaSlice inst) 5"
definition WithdrawWrapped_GetTokenProgramAccount :: "slice_get \<Rightarrow> WithdrawWrapped \<Rightarrow> AccountMeta option" where
  "WithdrawWrapped_GetTokenProgramAccount Get inst = Get (ww_AccountMetaSlice inst) 6"

lemma WithdrawWrapped_getters:
  assumes "get_contract Get" and "length (ww_AccountMetaSlice inst) = 7"
  shows "WithdrawWrapped_GetMintAccount Get (WithdrawWrapped_SetMintAccount v inst) = Some (WRITE (Meta v))"
    and "WithdrawWrapped_GetReceiverAccount Get (WithdrawWrapped_SetReceiverAccount v inst) = Some (WRITE (Meta v))"
    and "WithdrawWrapped_GetAuthorityAccount Get (WithdrawWrapped_SetAuthorityAccount v inst) = Some (Meta v)"
    and "WithdrawWrapped_GetTxUsedAccount Get (WithdrawWrapped_SetTxUsedAccount v inst) = Some (WRITE (Meta v))"
    and "WithdrawWrapped_GetSignerAccount Get (WithdrawWrapped_SetSignerAccount v inst) = Some (SIGNER (WRITE (Meta v)))"
    and "WithdrawWrapped_GetSystemProgramAccount Get (WithdrawWrapped_SetSystemProgramAccount v inst) = Some (Meta v)"
    and "WithdrawWrapped_GetTokenProgramAccount Get (WithdrawWrapped_SetTokenProgramAccount v inst) = Some (Meta v)"
  using assms by (simp_all add: get_set WithdrawWrapped_GetMintAccount_def
    WithdrawWrapped_GetReceiverAccount_def
    WithdrawWrapped_GetAuthorityAccount_def
    WithdrawWrapped_GetTxUsedAccount_def
    WithdrawWrapped_GetSignerAccount_def
    WithdrawWrapped_GetSystemProgramAccount_def
    WithdrawWrapped_GetTokenProgramAccount_def WithdrawWrapped_SetMintAccount_def
    WithdrawWrapped_SetReceiverAccount_def
    WithdrawWrapped_SetAuthorityAccount_def
    WithdrawWrapped_SetTxUsedAccount_def
    WithdrawWrapped_SetSignerAccount_def
    WithdrawWrapped_SetSystemProgramAccount_def
    WithdrawWrapped_SetTokenProgramAccount_def)

subsection \<open>\<open>InitSplVault\<close> (\<open>init_spl_vault.go\<close>)\<close>

definition InitSplVault_GetMintAccount :: "slice_get \<Rightarrow> InitSplVault \<Rightarrow> AccountMeta option" where
  "InitSplVault_GetMintAccount Get inst = Get (iv_AccountMetaSlice inst) 0"
definition InitSplVault_GetSplVaultAccount :: "slice_get \<Rightarrow> InitSplVault \<Rightarrow> AccountMeta option" where
  "InitSplVault_GetSplVaultAccount Get inst = Get (iv_AccountMetaSlice inst) 1"
definition InitSplVault_MustfindSplVaultAddressWithBumpSeed :: "pda_lib \<Rightarrow> pubkey \<Rightarrow> pubkey \<Rightarrow> string \<Rightarrow> byte \<Rightarrow> pubkey go_result" where
  "InitSplVault_MustfindSplVaultAddressWithBumpSeed S programID mint bridgeId bumpSeed = must (InitSplVault_findSplVaultAddress S programID mint bridgeId bumpSeed)"
definition InitSplVault_FindSplVaultAddress :: "pda_lib \<Rightarrow> pubkey \<Rightarrow> pubkey \<Rightarrow> string \<Rightarrow> go_error + pubkey \<times> byte" where
  "InitSplVault_FindSplVaultAddress S programID mint bridgeId = InitSplVault_findSplVaultAddress S programID mint bridgeId 0"
definition InitSplVault_MustFindSplVaultAddress :: "pda_lib \<Rightarrow> pubkey \<Rightarrow> pubkey \<Rightarrow> string \<Rightarrow> pubkey go_result" where
  "InitSplVault_MustFindSplVaultAddress S programID mint bridgeId = must (InitSplVault_findSplVaultAddress S programID mint bridgeId 0)"
definition InitSplVault_GetSignerAccount :: "slice_get \<Rightarrow> InitSplVault \<Rightarrow> AccountMeta option" where
  "InitSplVault_GetSignerAccount Get inst = Get (iv_AccountMetaSlice inst) 2"
definition InitSplVault_GetTokenProgramAccount :: "slice_get \<Rightarrow> InitSplVault \<Rightarrow> AccountMeta option" where
  "InitSplVault_GetTokenProgramAccount Get inst = Get (iv_AccountMetaSlice inst) 3"
definition InitSplVault_GetSystemProgramAccount :: "slice_get \<Rightarrow> InitSplVault \<Rightarrow> AccountMeta option" where
  "InitSplVault_GetSystemProgramAccount Get inst = Get (iv_AccountMetaSlice inst) 4"

lemma InitSplVault_getters:
  assumes "get_contract Get" and "length (iv_AccountMetaSlice inst) = 5"
  shows "InitSplVault_GetMintAccount Get (InitSplVault_SetMintAccount v inst) = Some (Meta v)"
    and "InitSplVault_GetSplVaultAccount Get (InitSplVault_SetSplVaultAccount v inst) = Some (WRITE (Meta v))"
    and "InitSplVault_GetSignerAccount Get (InitSplVault_SetSignerAccount v inst) = Some (SIGNER (WRITE (Meta v)))"
    and "InitSplVault_GetTokenProgramAccount Get (InitSplVault_SetTokenProgramAccount v inst) = Some (Meta v)"
    and "InitSplVault_GetSystemProgramAccount Get (InitSplVault_SetSystemProgramAccount v inst) = Some (Meta v)"
  using assms by (simp_all add: get_set InitSplVault_GetMintAccount_def
    InitSplVault_GetSplVaultAccount_def
    InitSplVault_GetSignerAccount_def
    InitSplVault_GetTokenProgramAccount_def
    InitSplVault_GetSystemProgramAccount_def InitSplVault_SetMintAccount_def
    InitSplVault_SetSplVaultAccount_def
    InitSplVault_SetSignerAccount_def
    InitSplVault_SetTokenProgramAccount_def
    InitSplVault_SetSystemProgramAccount_def)

subsection \<open>\<open>UpdateSigner\<close> (\<open>update_signer.go\<close>)\<close>

definition UpdateSigner_GetAuthorityAccount :: "slice_get \<Rightarrow> UpdateSigner \<Rightarrow> AccountMeta option" where
  "UpdateSigner_GetAuthorityAccount Get inst = Get (us_AccountMetaSlice inst) 0"
definition UpdateSigner_MustfindAuthorityAddressWithBumpSeed :: "pda_lib \<Rightarrow> pubkey \<Rightarrow> string \<Rightarrow> byte \<Rightarrow> pubkey go_result" where
  "UpdateSigner_MustfindAuthorityAddressWithBumpSeed S programID bridgeId bumpSeed = must (UpdateSigner_findAuthorityAddress S programID bridgeId bumpSeed)"
definition UpdateSigner_FindAuthorityAddress :: "pda_lib \<Rightarrow> pubkey \<Rightarrow> string \<Rightarrow> go_error + pubkey \<times> byte" where
  "UpdateSigner_FindAuthorityAddress S programID bridgeId = UpdateSigner_findAuthorityAddress S programID bridgeId 0"
definition UpdateSigner_MustFindAuthorityAddress :: "pda_lib \<Rightarrow> pubkey \<Rightarrow> string \<Rightarrow> pubkey go_result" where
  "UpdateSigner_MustFindAuthorityAddress S programID bridgeId = must (UpdateSigner_findAuthorityAddress S programID bridgeId 0)"
definition UpdateSigner_GetSignerAccount :: "slice_get \<Rightarrow> UpdateSigner \<Rightarrow> AccountMeta option" where
  "UpdateSigner_GetSignerAccount Get inst = Get (us_AccountMetaSlice inst) 1"

lemma UpdateSigner_getters:
  assumes "get_contract Get" and "length (us_AccountMetaSlice inst) = 2"
  shows "UpdateSigner_GetAuthorityAccount Get (UpdateSigner_SetAuthorityAccount v inst) = Some (WRITE (Meta v))"
    and "UpdateSigner_GetSignerAccount Get (UpdateSigner_SetSignerAccount v inst) = Some (SIGNER (WRITE (Meta v)))"
  using assms by (simp_all add: get_set UpdateSigner_GetAuthorityAccount_def
    UpdateSigner_GetSignerAccount_def UpdateSigner_SetAuthorityAccount_def
    UpdateSigner_SetSignerAccount_def)

subsection \<open>\<open>ChangeAuthority\<close> (\<open>change_authority.go\<close>)\<close>

definition ChangeAuthority_GetAuthorityAccount :: "slice_get \<Rightarrow> ChangeAuthority \<Rightarrow> AccountMeta option" where
  "ChangeAuthority_GetAuthorityAccount Get inst = Get (ca_AccountMetaSlice inst) 0"
definition ChangeAuthority_MustfindAuthorityAddressWithBumpSeed :: "pda_lib \<Rightarrow> pubkey \<Rightarrow> string \<Rightarrow> byte \<Rightarrow> pubkey go_result" where
  "ChangeAuthority_MustfindAuthorityAddressWithBumpSeed S programID bridgeId bumpSeed = must (ChangeAuthority_findAuthorityAddress S programID bridgeId bumpSeed)"
definition ChangeAuthority_FindAuthorityAddress :: "pda_lib \<Rightarrow> pubkey \<Rightarrow> string \<Rightarrow> go_error + pubkey \<times> byte" where
  "ChangeAuthority_FindAuthorityAddress S programID bridgeId = ChangeAuthority_findAuthorityAddress S programID bridgeId 0"
definition ChangeAuthority_MustFindAuthorityAddress :: "pda_lib \<Rightarrow> pubkey \<Rightarrow> string \<Rightarrow> pubkey go_result" where
  "ChangeAuthority_MustFindAuthorityAddress S programID bridgeId = must (ChangeAuthority_findAuthorityAddress S programID bridgeId 0)"
definition ChangeAuthority_GetSignerAccount :: "slice_get \<Rightarrow> ChangeAuthority \<Rightarrow> AccountMeta option" where
  "ChangeAuthority_GetSignerAccount Get inst = Get (ca_AccountMetaSlice inst) 1"

lemma ChangeAuthority_getters:
  assumes "get_contract Get" and "length (ca_AccountMetaSlice inst) = 2"
  shows "ChangeAuthority_GetAuthorityAccount Get (ChangeAuthority_SetAuthorityAccount v inst) = Some (WRITE (Meta v))"
    and "ChangeAuthority_GetSignerAccount Get (ChangeAuthority_SetSignerAccount v inst) = Some (SIGNER (WRITE (Meta v)))"
  using assms by (simp_all add: get_set ChangeAuthority_GetAuthorityAccount_def
    ChangeAuthority_GetSignerAccount_def ChangeAuthority_SetAuthorityAccount_def
    ChangeAuthority_SetSignerAccount_def)

subsection \<open>\<open>DepositNative\<close> (\<open>deposit_native.go\<close>)\<close>

definition DepositNative_GetAuthorityAccount :: "slice_get \<Rightarrow> DepositNative \<Rightarrow> AccountMeta option" where
  "DepositNative_GetAuthorityAccount Get inst = Get (dn_AccountMetaSlice inst) 0"
definition DepositNative_MustfindAuthorityAddressWithBumpSeed :: "pda_lib \<Rightarrow> pubkey \<Rightarrow> string \<Rightarrow> byte \<Rightarrow> pubkey go_result" where
  "DepositNative_MustfindAuthorityAddressWithBumpSeed S programID bridgeId bumpSeed = must (DepositNative_findAuthorityAddress S programID bridgeId bumpSeed)"
definition DepositNative_FindAuthorityAddress :: "pda_lib \<Rightarrow> pubkey \<Rightarrow> string \<Rightarrow> go_error + pubkey \<times> byte" where
  "DepositNative_FindAuthorityAddress S programID bridgeId = DepositNative_findAuthorityAddress S programID bridgeId 0"
definition DepositNative_MustFindAuthorityAddress :: "pda_lib \<Rightarrow> pubkey \<Rightarrow> string \<Rightarrow> pubkey go_result" where
  "DepositNative_MustFindAuthorityAddress S programID bridgeId = must (DepositNative_findAuthorityAddress S programID bridgeId 0)"
definition DepositNative_GetSenderAccount :: "slice_get \<Rightarrow> DepositNative \<Rightarrow> AccountMeta option" where
  "DepositNative_GetSenderAccount Get inst = Get (dn_AccountMetaSlice inst) 1"
definition DepositNative_GetSystemProgramAccount :: "slice_get \<Rightarrow> DepositNative \<Rightarrow> AccountMeta option" where
  "DepositNative_GetSystemProgramAccount Get inst = Get (dn_AccountMetaSlice inst) 2"

lemma DepositNative_getters:
  assumes "get_contract Get" and "length (dn_AccountMetaSlice inst) = 3"
  shows "DepositNative_GetAuthorityAccount Get (DepositNative_SetAuthorityAccount v inst) = Some (WRITE (Meta v))"
    and "DepositNative_GetSenderAccount Get (DepositNative_SetSenderAccount v inst) = Some (SIGNER (WRITE (Meta v)))"
    and "DepositNative_GetSystemProgramAccount Get (DepositNative_SetSystemProgramAccount v inst) = Some (Meta v)"
  using assms by (simp_all add: get_set DepositNative_GetAuthorityAccount_def
    DepositNative_GetSenderAccount_def
    DepositNative_GetSystemProgramAccount_def DepositNative_SetAuthorityAccount_def
    DepositNative_SetSenderAccount_def
    DepositNative_SetSystemProgramAccount_def)

subsection \<open>\<open>DepositSpl\<close> (\<open>deposit_spl.go\<close>)\<close>

definition DepositSpl_GetMintAccount :: "slice_get \<Rightarrow> DepositSpl \<Rightarrow> AccountMeta option" where
  "DepositSpl_GetMintAccount Get inst = Get (ds_AccountMetaSlice inst) 0"
definition DepositSpl_GetSplVaultAccount :: "slice_get \<Rightarrow> DepositSpl \<Rightarrow> AccountMeta option" where
  "DepositSpl_GetSplVaultAccount Get inst = Get (ds_AccountMetaSlice inst) 1"
definition DepositSpl_MustfindSplVaultAddressWithBumpSeed :: "pda_lib \<Rightarrow> pubkey \<Rightarrow> pubkey \<Rightarrow> string \<Rightarrow> byte \<Rightarrow> pubkey go_result" where
  "DepositSpl_MustfindSplVaultAddressWithBumpSeed S programID mint bridgeId bumpSeed = must (DepositSpl_findSplVaultAddress S programID mint bridgeId bumpSeed)"
definition DepositSpl_FindSplVaultAddress :: "pda_lib \<Rightarrow> pubkey \<Rightarrow> pubkey \<Rightarrow> string \<Rightarrow> go_error + pubkey \<times> byte" where
  "DepositSpl_FindSplVaultAddress S programID mint bridgeId = DepositSpl_findSplVaultAddress S programID mint bridgeId 0"
definition DepositSpl_MustFindSplVaultAddress :: "pda_lib \<Rightarrow> pubkey \<Rightarrow> pubkey \<Rightarrow> string \<Rightarrow> pubkey go_result" where
  "DepositSpl_MustFindSplVaultAddress S programID mint bridgeId = must (DepositSpl_findSplVaultAddress S programID mint bridgeId 0)"
definition DepositSpl_GetSenderAccount :: "slice_get \<Rightarrow> DepositSpl \<Rightarrow> AccountMeta option" where
  "DepositSpl_GetSenderAccount Get inst = Get (ds_AccountMetaSlice inst) 2"
definition DepositSpl_GetSignerAccount :: "slice_get \<Rightarrow> DepositSpl \<Rightarrow> AccountMeta option" where
  "DepositSpl_GetSignerAccount Get inst = Get (ds_AccountMetaSlice inst) 3"
definition DepositSpl_GetTokenProgramAccount :: "slice_get \<Rightarrow> DepositSpl \<Rightarrow> AccountMeta option" where
  "DepositSpl_GetTokenProgramAccount Get inst = Get (ds_AccountMetaSlice inst) 4"

lemma DepositSpl_getters:
  assumes "get_contract Get" and "length (ds_AccountMetaSlice inst) = 5"
  shows "DepositSpl_GetMintAccount Get (DepositSpl_SetMintAccount v inst) = Some (Meta v)"
    and "DepositSpl_GetSplVaultAccount Get (DepositSpl_SetSplVaultAccount v inst) = Some (WRITE (Meta v))"
    and "DepositSpl_GetSenderAccount Get (DepositSpl_SetSenderAccount v inst) = Some (WRITE (Meta v))"
    and "DepositSpl_GetSignerAccount Get (DepositSpl_SetSignerAccount v inst) = Some (SIGNER (WRITE (Meta v)))"
    and "DepositSpl_GetTokenProgramAccount Get (DepositSpl_SetTokenProgramAccount v inst) = Some (Meta v)"
  using assms by (simp_all add: get_set DepositSpl_GetMintAccount_def
    DepositSpl_GetSplVaultAccount_def
    DepositSpl_GetSenderAccount_def
    DepositSpl_GetSignerAccount_def
    DepositSpl_GetTokenProgramAccount_def DepositSpl_SetMintAccount_def
    DepositSpl_SetSplVaultAccount_def
    DepositSpl_SetSenderAccount_def
    DepositSpl_SetSignerAccount_def
    DepositSpl_SetTokenProgramAccount_def)

subsection \<open>\<open>DepositWrapped\<close> (\<open>deposit_wrapped.go\<close>)\<close>

definition DepositWrapped_GetMintAccount :: "slice_get \<Rightarrow> DepositWrapped \<Rightarrow> AccountMeta option" where
  "DepositWrapped_GetMintAccount Get inst = Get (dw_AccountMetaSlice inst) 0"
definition DepositWrapped_MustfindMintAddressWithBumpSeed :: "pda_lib \<Rightarrow> pubkey \<Rightarrow> string \<Rightarrow> uint64 \<Rightarrow> string \<Rightarrow> byte \<Rightarrow> pubkey go_result" where
  "DepositWrapped_MustfindMintAddressWithBumpSeed S programID symbol mintNonce bridgeId bumpSeed = must (DepositWrapped_findMintAddress S programID symbol mintNonce bridgeId bumpSeed)"
definition DepositWrapped_FindMintAddress :: "pda_lib \<Rightarrow> pubkey \<Rightarrow> string \<Rightarrow> uint64 \<Rightarrow> string \<Rightarrow> go_error + pubkey \<times> byte" where
  "DepositWrapped_FindMintAddress S programID symbol mintNonce bridgeId = DepositWrapped_findMintAddress S programID symbol mintNonce bridgeId 0"
definition DepositWrapped_MustFindMintAddress :: "pda_lib \<Rightarrow> pubkey \<Rightarrow> string \<Rightarrow> uint64 \<Rightarrow> string \<Rightarrow> pubkey go_result" where
  "DepositWrapped_MustFindMintAddress S programID symbol mintNonce bridgeId = must (DepositWrapped_findMintAddress S programID symbol mintNonce bridgeId 0)"
definition DepositWrapped_GetSenderAccount :: "slice_get \<Rightarrow> DepositWrapped \<Rightarrow> AccountMeta option" where
  "DepositWrapped_GetSenderAccount Get inst = Get (dw_AccountMetaSlice inst) 1"
definition DepositWrapped_GetSignerAccount :: "slice_get \<Rightarrow> DepositWrapped \<Rightarrow> AccountMeta option" where
  "DepositWrapped_GetSignerAccount Get inst = Get (dw_AccountMetaSlice inst) 2"
definition DepositWrapped_GetTokenProgramAccount :: "slice_get \<Rightarrow> DepositWrapped \<Rightarrow> AccountMeta option" where
  "DepositWrapped_GetTokenProgramAccount Get inst = Get (dw_AccountMetaSlice inst) 3"

lemma DepositWrapped_getters:
  assumes "get_contract Get" and "length (dw_AccountMetaSlice inst) = 4"
  shows "DepositWrapped_GetMintAccount Get (DepositWrapped_SetMintAccount v inst) = Some (WRITE (Meta v))"
    and "DepositWrapped_GetSenderAccount Get (DepositWrapped_SetSenderAccount v inst) = Some (WRITE (Meta v))"
    and "DepositWrapped_GetSignerAccount Get (DepositWrapped_SetSignerAccount v inst) = Some (SIGNER (WRITE (Meta v)))"
    and "DepositWrapped_GetTokenProgramAccount Get (DepositWrapped_SetTokenProgramAccount v inst) = Some (Meta v)"
  using assms by (simp_all add: get_set DepositWrapped_GetMintAccount_def
    DepositWrapped_GetSenderAccount_def
    DepositWrapped_GetSignerAccount_def
    DepositWrapped_GetTokenProgramAccount_def DepositWrapped_SetMintAccount_def
    DepositWrapped_SetSenderAccount_def
    DepositWrapped_SetSignerAccount_def
    DepositWrapped_SetTokenProgramAccount_def)

subsection \<open>\<open>InitWrappedMint\<close> (\<open>init_wrapped_mint.go\<close>)\<close>

definition InitWrappedMint_GetMintAccount :: "slice_get \<Rightarrow> InitWrappedMint \<Rightarrow> AccountMeta option" where
  "InitWrappedMint_GetMintAccount Get inst = Get (im_AccountMetaSlice inst) 0"
definition InitWrappedMint_MustfindMintAddressWithBumpSeed :: "pda_lib \<Rightarrow> pubkey \<Rightarrow> string \<Rightarrow> uint64 \<Rightarrow> string \<Rightarrow> byte \<Rightarrow> pubkey go_result" where
  "InitWrappedMint_MustfindMintAddressWithBumpSeed S programID symbol mintNonce bridgeId bumpSeed = must (InitWrappedMint_findMintAddress S programID symbol mintNonce bridgeId bumpSeed)"
definition InitWrappedMint_FindMintAddress :: "pda_lib \<Rightarrow> pubkey \<Rightarrow> string \<Rightarrow> uint64 \<Rightarrow> string \<Rightarrow> go_error + pubkey \<times> byte" where
  "InitWrappedMint_FindMintAddress S programID symbol mintNonce bridgeId = InitWrappedMint_findMintAddress S programID symbol mintNonce bridgeId 0"
definition InitWrappedMint_MustFindMintAddress :: "pda_lib \<Rightarrow> pubkey \<Rightarrow> string \<Rightarrow> uint64 \<Rightarrow> string \<Rightarrow> pubkey go_result" where
  "InitWrappedMint_MustFindMintAddress S programID symbol mintNonce bridgeId = must (InitWrappedMint_findMintAddress S programID symbol mintNonce bridgeId 0)"
definition InitWrappedMint_GetSignerAccount :: "slice_get \<Rightarrow> InitWrappedMint \<Rightarrow> AccountMeta option" where
  "InitWrappedMint_GetSignerAccount Get inst = Get (im_AccountMetaSlice inst) 1"
definition InitWrappedMint_GetTokenProgramAccount :: "slice_get \<Rightarrow> InitWrappedMint \<Rightarrow> AccountMeta option" where
  "InitWrappedMint_GetTokenProgramAccount Get inst = Get (im_AccountMetaSlice inst) 2"
definition InitWrappedMint_GetSystemProgramAccount :: "slice_get \<Rightarrow> InitWrappedMint \<Rightarrow> AccountMeta option" where
  "InitWrappedMint_GetSystemProgramAccount Get inst = Get (im_AccountMetaSlice inst) 3"

lemma InitWrappedMint_getters:
  assumes "get_contract Get" and "length (im_AccountMetaSlice inst) = 4"
  shows "InitWrappedMint_GetMintAccount Get (InitWrappedMint_SetMintAccount v inst) = Some (WRITE (Meta v))"
    and "InitWrappedMint_GetSignerAccount Get (InitWrappedMint_SetSignerAccount v inst) = Some (SIGNER (WRITE (Meta v)))"
    and "InitWrappedMint_GetTokenProgramAccount Get (InitWrappedMint_SetTokenProgramAccount v inst) = Some (Meta v)"
    and "InitWrappedMint_GetSystemProgramAccount Get (InitWrappedMint_SetSystemProgramAccount v inst) = Some (Meta v)"
  using assms by (simp_all add: get_set InitWrappedMint_GetMintAccount_def
    InitWrappedMint_GetSignerAccount_def
    InitWrappedMint_GetTokenProgramAccount_def
    InitWrappedMint_GetSystemProgramAccount_def InitWrappedMint_SetMintAccount_def
    InitWrappedMint_SetSignerAccount_def
    InitWrappedMint_SetTokenProgramAccount_def
    InitWrappedMint_SetSystemProgramAccount_def)

subsection \<open>\<open>Initialize\<close> (\<open>initialize.go\<close>)\<close>

definition Initialize_GetAuthorityAccount :: "slice_get \<Rightarrow> Initialize \<Rightarrow> AccountMeta option" where
  "Initialize_GetAuthorityAccount Get inst = Get (ini_AccountMetaSlice inst) 0"
definition Initialize_MustfindAuthorityAddressWithBumpSeed :: "pda_lib \<Rightarrow> pubkey \<Rightarrow> string \<Rightarrow> byte \<Rightarrow> pubkey go_result" where
  "Initialize_MustfindAuthorityAddressWithBumpSeed S programID bridgeId bumpSeed = must (Initialize_findAuthorityAddress S programID bridgeId bumpSeed)"
definition Initialize_FindAuthorityAddress :: "pda_lib \<Rightarrow> pubkey \<Rightarrow> string \<Rightarrow> go_error + pubkey \<times> byte" where
  "Initialize_FindAuthorityAddress S programID bridgeId = Initialize_findAuthorityAddress S programID bridgeId 0"
definition Initialize_MustFindAuthorityAddress :: "pda_lib \<Rightarrow> pubkey \<Rightarrow> string \<Rightarrow> pubkey go_result" where
  "Initialize_MustFindAuthorityAddress S programID bridgeId = must (Initialize_findAuthorityAddress S programID bridgeId 0)"
definition Initialize_GetSignerAccount :: "slice_get \<Rightarrow> Initialize \<Rightarrow> AccountMeta option" where
  "Initialize_GetSignerAccount Get inst = Get (ini_AccountMetaSlice inst) 1"
definition Initialize_GetSystemProgramAccount :: "slice_get \<Rightarrow> Initialize \<Rightarrow> AccountMeta option" where
  "Initialize_GetSystemProgramAccount Get inst = Get (ini_AccountMetaSlice inst) 2"

lemma Initialize_getters:
  assumes "get_contract Get" and "length (ini_AccountMetaSlice inst) = 3"
  shows "Initialize_GetAuthorityAccount Get (Initialize_SetAuthorityAccount v inst) = Some (WRITE (Meta v))"
    and "Initialize_GetSignerAccount Get (Initialize_SetSignerAccount v inst) = Some (SIGNER (WRITE (Meta v)))"
    and "Initialize_GetSystemProgramAccount Get (Initialize_SetSystemProgramAccount v inst) = Some (Meta v)"
  using assms by (simp_all add: get_set Initialize_GetAuthorityAccount_def
    Initialize_GetSignerAccount_def
    Initialize_GetSystemProgramAccount_def Initialize_SetAuthorityAccount_def
    Initialize_SetSignerAccount_def
    Initialize_SetSystemProgramAccount_def)

end
