(* ===== verification/Command.thy ===== *)
theory Command
  imports Wiring
begin

text \<open>
  The command line: \<open>cmd/root.go\<close>, \<open>cmd/service/run/run.go\<close> and \<open>cmd/service/migrate\<close>, with what is left of
  the configuration and the start of the observer. The values of the flags, the migration library and
  the tree of commands are parameters.
\<close>

subsection \<open>Configuration\<close>

definition recovery_config :: "('v \<Rightarrow> go_error + recoveryCfg) \<Rightarrow> 'v getter \<Rightarrow> recoveryCfg go_result" where
  "recovery_config please getter = figure_out please getter ''recovery'' ''failed to figure out retry config''"

text \<open>The hook of \<open>ton/chain.go\<close> takes a map only; a map that does not fit is a panic inside the hook.\<close>

record TonRPC =
  trpc_IsTestnet :: bool
  trpc_Timeout :: duration
  trpc_GlobalConfigUrl :: string

definition ton_rpcHook :: "('m \<Rightarrow> go_error + TonRPC) \<Rightarrow> string + 'm \<Rightarrow> (go_error + TonRPC) go_result" where
  "ton_rpcHook please value = (case value of
     Inr v \<Rightarrow> (case please v of
       Inl err \<Rightarrow> Panic ''failed to init ton chain rpc'' | Inr rpc \<Rightarrow> Returned (Inr rpc))
   | Inl t \<Rightarrow> Returned (Inl (Msg (''unsupported conversion from '' @ t))))"

text \<open>The fields of a chain that its client parses are kept as they are.\<close>

definition interfaceHook :: "'v \<Rightarrow> go_error + 'v" where
  "interfaceHook value = Inr value"

subsection \<open>The observer's goroutine\<close>

text \<open>\<open>fetchEvents\<close> and \<open>Run\<close> of \<open>observer.go\<close>: the goroutines that were started, or the error.\<close>

definition fetchEvents ::
  "'x env \<Rightarrow> 'x height_retry \<Rightarrow> 'x block_retry \<Rightarrow> 'x Observer \<Rightarrow> unit select list \<Rightarrow> uint64 \<Rightarrow> 'x world
     \<Rightarrow> ((go_error + 'x job list) go_result \<times> 'x world) option" where
  "fetchEvents E R Rb ob sel startHeight w = (case fetchEvents_init E R ob startHeight w of
     (Panic m, w1) \<Rightarrow> Some (Panic m, w1)
   | (Returned (Inl err), w1) \<Rightarrow> Some (Returned (Inl err), w1)
   | (Returned (Inr height), w1) \<Rightarrow> (case fetchEvents_loop E R Rb ob sel height w1 of
       None \<Rightarrow> None
     | Some (Panic m, w2) \<Rightarrow> Some (Panic m, w2)
     | Some (Returned (final, jobs), w2) \<Rightarrow> Some (Returned (Inr jobs), w2)))"

definition Observer_Run ::
  "'x env \<Rightarrow> 'x height_retry \<Rightarrow> 'x block_retry \<Rightarrow> 'x Observer \<Rightarrow> unit select list \<Rightarrow> uint64 \<Rightarrow> 'x world
     \<Rightarrow> ((go_error + 'x job list) go_result \<times> 'x world) option" where
  "Observer_Run E R Rb ob sel startHeight w = (case fetchEvents E R Rb ob sel startHeight w of
     None \<Rightarrow> None
   | Some (Panic m, w1) \<Rightarrow> Some (Panic m, w1)
   | Some (Returned (Inl err), w1) \<Rightarrow> Some (Returned (Inl (Wrap ''failed to fetch events from the core'' err)), w1)
   | Some (Returned (Inr jobs), w1) \<Rightarrow> Some (Returned (Inr jobs), w1))"

text \<open>The only errors of \<open>Run\<close> come before its first block.\<close>

lemma Observer_Run_error:
  assumes "Observer_Run E R Rb ob sel startHeight w = Some (Returned (Inl err), w')"
  shows "\<exists>e. err = Wrap ''failed to fetch events from the core'' e
    \<and> fetchEvents_init E R ob startHeight w = (Returned (Inl e), w')"
  using assms
  by (auto simp: Observer_Run_def fetchEvents_def split: option.splits prod.splits go_result.splits sum.splits)

subsection \<open>\<open>relayer-svc service run\<close>\<close>

text \<open>What the flags of a command hold; \<open>StringP\<close> and the others give them their defaults.\<close>

record flags =
  fl_config :: "go_error + string"
  fl_catch_up :: "go_error + bool"
  fl_start_height :: string
  fl_block_distance :: string
  fl_observer :: "go_error + bool"

definition default_flags :: flags where
  "default_flags = \<lparr>fl_config = Inr ''config.yaml'', fl_catch_up = Inr False, fl_start_height = show_nat 0,
     fl_block_distance = show_nat 0, fl_observer = Inr False\<rparr>"

text \<open>The arguments of \<open>runService\<close>, read in the order of the code.\<close>

record 'v run_args =
  ra_getter :: "'v getter"
  ra_catchUp :: bool
  ra_startHeight :: uint64
  ra_blockDistance :: uint64
  ra_observer :: bool

definition run_flags :: "(string \<Rightarrow> 'v getter) \<Rightarrow> flags \<Rightarrow> go_error + 'v run_args" where
  "run_flags NewViperFile fl = (case ConfigFromFlags (fl_config fl) NewViperFile of
     Inl err \<Rightarrow> Inl (Wrap ''failed to get config from flags'' err)
   | Inr cfg \<Rightarrow> (case CatchUpFromFlags (fl_catch_up fl) of
       Inl err \<Rightarrow> Inl (Wrap ''failed to catch up from flags'' err)
     | Inr catchUp \<Rightarrow> (case StartHeightFromFlags (fl_start_height fl) of
         Inl err \<Rightarrow> Inl (Wrap ''failed to start height'' err)
       | Inr startHeight \<Rightarrow> (case BlockDistanceFromFlags (fl_block_distance fl) of
           Inl err \<Rightarrow> Inl (Wrap ''failed to get block distance'' err)
         | Inr blockDistance \<Rightarrow> (case ObserverFromFlags (fl_observer fl) of
             Inl err \<Rightarrow> Inl (Wrap ''failed to observer from flags'' err)
           | Inr observer \<Rightarrow> Inr \<lparr>ra_getter = cfg, ra_catchUp = catchUp, ra_startHeight = of_nat startHeight,
               ra_blockDistance = of_nat blockDistance, ra_observer = observer\<rparr>)))))"

definition run_RunE ::
  "(string \<Rightarrow> 'v getter) \<Rightarrow> flags \<Rightarrow> ('v run_args \<Rightarrow> 'w \<Rightarrow> go_error option go_result \<times> 'w) \<Rightarrow> 'w
     \<Rightarrow> go_error option go_result \<times> 'w" where
  "run_RunE NewViperFile fl service w = (case run_flags NewViperFile fl of
     Inl err \<Rightarrow> (Returned (Some err), w)
   | Inr args \<Rightarrow> (case service args w of
       (Panic m, w1) \<Rightarrow> (Panic m, w1)
     | (Returned err, w1) \<Rightarrow> (Returned (errors_Wrap err ''failed to run relayer service''), w1)))"

text \<open>A height or a distance that is written in digits and fits in 64 bits arrives unchanged.\<close>

lemma run_flags_heights:
  assumes "NewViperFile path ''ping'' = Inr v" and "h < 2 ^ 64" and "n < 2 ^ 64"
  shows "run_flags NewViperFile \<lparr>fl_config = Inr path, fl_catch_up = Inr c, fl_start_height = show_nat h,
      fl_block_distance = show_nat n, fl_observer = Inr obs\<rparr>
    = Inr \<lparr>ra_getter = NewViperFile path, ra_catchUp = c, ra_startHeight = of_nat h, ra_blockDistance = of_nat n,
        ra_observer = obs\<rparr>"
  using assms
  by (simp add: run_flags_def ConfigFromFlags_def CatchUpFromFlags_def StartHeightFromFlags_def
      BlockDistanceFromFlags_def ObserverFromFlags_def)

text \<open>A flag that can not be read ends the command before anything is opened.\<close>

lemma bad_flags_start_nothing:
  assumes "run_flags NewViperFile fl = Inl err"
  shows "run_RunE NewViperFile fl service w = (Returned (Some err), w)"
  using assms by (simp add: run_RunE_def)

subsection \<open>\<open>relayer-svc service migrate\<close>\<close>

datatype direction = MigrateUp | MigrateDown

text \<open>\<open>migrate_Exec\<close> applies the embedded files of a directory: the number of applied ones, or an error.\<close>

type_synonym 'w migrator = "string \<Rightarrow> string \<Rightarrow> direction \<Rightarrow> 'w \<Rightarrow> (go_error + nat) \<times> 'w"

definition migrate_execute :: "'w migrator \<Rightarrow> direction \<Rightarrow> 'w \<Rightarrow> go_error option \<times> 'w" where
  "migrate_execute migrate_Exec dir w = (case migrate_Exec ''postgres'' ''migrations'' dir w of
     (Inl err, w1) \<Rightarrow> (Some (Wrap ''failed to apply migrations'' err), w1)
   | (Inr applied, w1) \<Rightarrow> (None, w1))"

definition migrate_RunE ::
  "(string \<Rightarrow> 'v getter) \<Rightarrow> flags \<Rightarrow> ('v getter \<Rightarrow> 'w migrator) \<Rightarrow> direction \<Rightarrow> 'w \<Rightarrow> go_error option \<times> 'w" where
  "migrate_RunE NewViperFile fl DB dir w = (case ConfigFromFlags (fl_config fl) NewViperFile of
     Inl err \<Rightarrow> (Some (Wrap ''failed to get config from flags'' err), w)
   | Inr cfg \<Rightarrow> migrate_execute (DB cfg) dir w)"

definition upCmd_RunE :: "(string \<Rightarrow> 'v getter) \<Rightarrow> flags \<Rightarrow> ('v getter \<Rightarrow> 'w migrator) \<Rightarrow> 'w \<Rightarrow> go_error option \<times> 'w" where
  "upCmd_RunE NewViperFile fl DB = migrate_RunE NewViperFile fl DB MigrateUp"
definition downCmd_RunE :: "(string \<Rightarrow> 'v getter) \<Rightarrow> flags \<Rightarrow> ('v getter \<Rightarrow> 'w migrator) \<Rightarrow> 'w \<Rightarrow> go_error option \<times> 'w" where
  "downCmd_RunE NewViperFile fl DB = migrate_RunE NewViperFile fl DB MigrateDown"

subsection \<open>The process\<close>

text \<open>\<open>cmd.Execute\<close>: the exit status of the process after the root command.\<close>

definition Execute :: "go_error option \<Rightarrow> nat" where
  "Execute err = (if err \<noteq> None then 1 else 0)"

lemma migration_status:
  assumes "ConfigFromFlags (fl_config fl) NewViperFile = Inr cfg"
  shows "Execute (fst (upCmd_RunE NewViperFile fl DB w)) = 0 \<longleftrightarrow>
    (\<exists>applied w'. DB cfg ''postgres'' ''migrations'' MigrateUp w = (Inr applied, w'))"
  using assms
  by (auto simp: Execute_def upCmd_RunE_def migrate_RunE_def migrate_execute_def split: prod.splits sum.splits)

end
