(* ===== verification/Spec2Isabelle.thy ===== *)
theory Spec2Isabelle
  imports System_Props Crash_Props Race_Props Core_Props Catch_Up_Props Api_Props Report_Props Observer_Props Chain_Props
    Evm_Props Evm_Bindings_Props Solana_Props Solana_Bindings_Props Ton_Props Ton_Contract_Props Channels_Props
    Gateway_Props Wiring_Props Solana_Accessors Command
begin

text \<open>
  A verification library of the relayer service: a Go program that watches the Bridgeless core
  chain for deposits, sends the matching withdrawals on EVM, Solana and TON chains, and reports
  their hashes back to the core.

  \<^bold>\<open>The program.\<close> The observer (\<open>internal/core/observer\<close>) reads the blocks of the core; the public
  API (\<open>internal/api\<close>) takes requests for single deposits; the catch-upper
  (\<open>internal/core/catch-upper\<close>) restarts what a stopped process left unfinished. All three give
  deposits and epochs to the broadcaster (\<open>internal/core/broadcaster\<close>), which stores them in
  PostgreSQL (\<open>internal/db/postgres\<close>), keeps the known ones in a cache and sends a container to the
  channel of the target chain. The workers of a chain run the containers
  (\<open>broadcaster/containers\<close>): each asks the chain client (\<open>internal/core/chain\<close>) whether the deposit
  is paid out, withdraws, and records the result. Finished deposits go to the core submitter,
  which reports them in batches through the connector (\<open>internal/core/connector\<close>).

  \<^bold>\<open>How the code is modelled.\<close> A struct is a \<open>record\<close>, an integer a word of its width, an error a value
  of \<open>go_error\<close> with its chain of wraps; a call that may panic has the result type \<open>go_result\<close>.
  A handler is a function from the world to its result and the new world, with every exit of
  the code. The world (\<open>World\<close>) holds the tables, the cache of the broadcaster and the
  state \<open>'x\<close> of everything outside: database driver, clock, random source, nodes. Each external
  operation is a function on \<open>'x\<close> that the model takes as an argument, so that two calls may answer
  differently. The field \<open>w_log\<close> is a ghost: the calls made to chain clients, newest first.

  \<^item> \<open>Prelude\<close>, \<open>Go_Std\<close>: results, control flow rules (\<open>ensures\<close>, \<open>flow\<close>), rows of tables; the parts of
    Go's standard library in use, with their round trips (\<open>strconv\<close>, \<open>math/big\<close>, \<open>encoding/hex\<close>).
  \<^item> \<open>Model_Types\<close>: \<open>internal/db/*.go\<close>, \<open>internal/types\<close>. \<open>World\<close>, \<open>Store\<close>: interfaces of the outside and
    the queries of \<open>internal/db/postgres\<close>.
  \<^item> \<open>Retrier\<close>: \<open>internal/core/retry.go\<close>. \<open>Connector\<close>: \<open>internal/core/connector\<close>.
  \<^item> \<open>Containers\<close>, \<open>Container_Props\<close>: the four containers, and the locale \<open>withdrawal_container\<close> of what a
    run promises, interpreted on both withdrawal containers.
  \<^item> \<open>Chain_Core\<close>: \<open>internal/core/chain/*.go\<close> with the repository of clients.
  \<^item> \<open>Broadcaster\<close>, \<open>Catch_Up\<close>, \<open>Observer\<close>, \<open>Api\<close>: the handlers of the packages of these names.
  \<^item> \<open>Frames\<close>, \<open>Safe_Steps\<close>, \<open>One_Container\<close>: the locale \<open>world_frame\<close> pushes a reflexive and transitive
    relation through the control flow of a handler; it is interpreted for \<open>only_ext\<close> (nothing but
    the outside changes), \<open>safe\<close> (keys, attempts, known rows, log) and \<open>same_cache\<close>.
  \<^item> \<open>System\<close>: the handlers as goroutines of \<open>cmd/service/run/run.go\<close> run them. The relation \<open>step\<close>
    interleaves all handlers with crashes and restarts; invariants of \<open>reachable\<close> states are proved by
    rule induction. \<open>Starts\<close>, \<open>Batches\<close>, \<open>Status_Protocol\<close>: what starts a container, what a report
    changes, and the changes of a deposit's status as a protocol that every handler refines.
  \<^item> \<open>Channels\<close>: the channels and goroutines inside \<open>Broadcaster.Run\<close> at the granularity of a single
    send or receive, with their capacities and worker counts.
  \<^item> \<open>Config\<close>, \<open>Wiring\<close>: the readers of the configuration with their hooks, the flags, the construction
    of the clients and of their repository, \<open>runService\<close>. \<open>Command\<close>: the commands \<open>run\<close> and \<open>migrate\<close> with
    their flags, the observer's \<open>Run\<close>. \<open>Rpc\<close>, \<open>Gateway\<close>: contexts, interceptors, the
    generated service description and client stubs, the generated HTTP gateway and the router of
    \<open>internal/api/server.go\<close>.
  \<^item> \<open>Evm\<close>, \<open>Ton\<close>, \<open>Solana\<close>: the clients under \<open>internal/core/chain\<close>. \<open>Evm_Bindings\<close>, \<open>Evm_Events\<close>: the
    generated binding of the EVM contract. \<open>Ton_Contract\<close>: the messages of \<open>ton/contract\<close>.
    \<open>Solana_Contract\<close>, \<open>Solana_Instructions\<close>, \<open>Solana_Other_Instructions\<close>, \<open>Solana_Accounts\<close>,
    \<open>Solana_Decode\<close>, \<open>Solana_Events\<close>, \<open>Solana_Errors\<close>, \<open>Solana_Accessors\<close>: the bindings of the bridge program under
    \<open>solana/contract\<close>, with the locale \<open>instruction_codec\<close> interpreted for each instruction and for the
    authority account.
  \<^item> \<open>Demo\<close>: one small service on which the properties of the core are applied.

  \<^bold>\<open>What is proved.\<close> \<open>System_Props\<close>: along every run, a withdrawal is sent only directly after the chain
  denied that the deposit is paid out, no two
  waiting containers are for one deposit, statuses follow their protocol and a finished deposit
  stays finished, all with the handlers taken one at a time. \<open>Crash_Props\<close>: after a crash in any
  reachable state the next start restarts what was in memory. \<open>Race_Props\<close>: what can happen when two
  accepts of one deposit overlap, between the check and the insert. \<open>Channels_Props\<close>: accepted containers are run exactly once, and the two ways in
  which one is lost or the shutdown hangs. \<open>Wiring_Props\<close>: a service whose goroutines have made
  their settings has, for every configured chain, a client with a worker and one child per worker. \<open>Gateway_Props\<close>: gRPC and HTTP give the same
  answers. \<open>Core_Props\<close>: the outcome of the containers.
  \<open>Catch_Up_Props\<close>: what is accepted and recovered, and that a start picks up every unfinished
  deposit. \<open>Api_Props\<close>, \<open>Report_Props\<close>, \<open>Observer_Props\<close>: the answers of the API, reports to the core,
  reading of blocks. \<open>Evm_Props\<close>, \<open>Solana_Props\<close>, \<open>Ton_Props\<close>, \<open>Chain_Props\<close>: what the
  clients send and what they take for a confirmation. \<open>Evm_Bindings_Props\<close>,
  \<open>Solana_Bindings_Props\<close>, \<open>Ton_Contract_Props\<close>: calls match the ABI, and decoding inverts encoding. Several of the properties state a fault of
  the code: the theorem then says what the code does.

  \<^bold>\<open>Parameters and assumptions.\<close> Code outside the repository is an argument. A theorem that relies
  on its documented behaviour names it: \<open>retry_contract\<close> (the retry library calls the function
  until it succeeds or the attempts are used up; \<open>retry_ref\<close> is an instance), \<open>Intn_contract\<close> and
  \<open>rand_law\<close> (a random number below a positive bound is below it),
  \<open>ozzo_contract\<close> (request validation), \<open>abi_contract\<close>, \<open>Sum256_ok\<close> (digests have 32 bytes),
  \<open>borsh_ok\<close> (each basic codec reads back what it wrote), \<open>builder_accepts\<close>, \<open>page_contract\<close>,
  \<open>refuses_nil\<close> and \<open>coin_contract\<close> (the cosmos-sdk refuses nil messages and panics for negative
  coins), \<open>sql_ok\<close> and \<open>sql_honest\<close> (statements do not fail; no other error has the text of a
  duplicate key), \<open>plain_hashes\<close> (hashes from the core have no slash), and distinct attribute
  keys of the core's events; \<open>anchor_ok\<close> and \<open>sighash_ok\<close> (an instruction is decoded by the
  eight bytes of its discriminator, which are the constants of the code),
  \<open>slice_contract\<close> (what was stored in a cell is loaded), \<open>outputs_ok\<close> (results of a call have the types of the
  ABI), \<open>chain_contract\<close> (the first interceptor is the outermost) and \<open>gateway_contract\<close>. Each has a concrete instance that a witness uses.

  \<^bold>\<open>Bounds and fuel.\<close> No operation runs on fuel. The only loop without a bound, the wait for the
  block distance, is a \<open>partial_function\<close> whose value \<open>None\<close> is an endless wait, and
  \<open>Observer_Props.wait_ends_iff\<close> says when it ends. Loops over a \<open>select\<close> take the list of the outcomes
  of the select, which ends where the code's context is done. \<open>find_address\<close> and the retrier leave
  their searches to the library.

  \<^bold>\<open>Abstractions.\<close> A step of \<open>System\<close> is a handler run as a whole, so the races inside a handler
  are not visible there, and a channel is the list of what waits to be received, served in any order.
  The one race that the code's locking does not exclude and that changes a row is stated on its own,
  over the two halves of \<open>BroadcastDeposit\<close> (\<open>checkExistence\<close> and \<open>BroadcastDeposit_accept\<close>), in
  \<open>Race_Props\<close>. The broadcaster of a \<open>System\<close> is the one whose settings are made: \<open>runService\<close> leaves
  it without clients, and \<open>goroutines_started\<close> adds them; a handler that runs in between, on clients
  that are nil, panics in the code and is not modelled.
  \<open>Channels\<close> has the single operations with capacities, and leaves out what a container does; its runs
  are those in which no container panics, since a panic ends the process (\<open>work_panics\<close> of \<open>System\<close>).
  A crash happens between handlers or where a handler panics. Chain clients are seen by the core through
  \<open>ChildClient\<close>, whose calls do not panic; the panics of the concrete clients are in their own
  theories, and \<open>returned_value\<close>, which takes a concrete call to the interface, says nothing of a call
  that panics. \<open>Wiring\<close> gives the core the concrete clients. Logging, sleeping and cancelled contexts
  have no state. A value of the configuration file is an argument with the decoder of its section.

  \<^bold>\<open>Not modelled.\<close> The SQL of the migrations and the tree of commands; listeners, their shutdown, the closing
  of hijacked connections and the static files of the API; protobuf reflection tables and
  accessors of messages; in the Solana bindings the pretty printers and the tree encoders, which nothing calls;
  the helpers of generated tests. These are input and output, tables of a generator, or calls of a
  library with nothing of the program between.
\<close>

end
